(* ===== verification/PFP_Prelude.thy ===== *)
theory PFP_Prelude
  imports
    Main
    "HOL-Library.AList"
    "HOL-Library.Char_ord"
    "HOL-Library.List_Lexorder"
    "HOL-Library.Multiset"
    "HOL-Library.Product_Lexorder"
begin

text \<open>
  Shared base of the development: exceptions as values, insertion-ordered dictionaries as
  association lists, the orders Python's \<open>sorted\<close> uses, and two interfaces that several
  components of the program share.  \<open>registry\<close> is the contract of the four in-memory
  registries (extension catalog, writers, policies); \<open>keyed_sort\<close> is the contract of the
  deterministic orderings (\<open>sorted(items, key=...)\<close>).
\<close>

section \<open>Collections of facts\<close>

named_theorems op_defs \<open>definitions of the mapping operations and validation modules\<close>
named_theorems spec_defs \<open>specifications registered in the catalog\<close>

section \<open>Exceptions as values\<close>

text \<open>
  The exception classes the modelled code raises or distinguishes.  Messages are
  dropped here; where a message is part of an outcome the richer errors of theory
  \<open>PFP_Effects\<close> are used.
\<close>

datatype exn =
    ValueError
  | TypeError
  | KeyError
  | IndexError
  | AttributeError
  | InvalidOperation
  | RuntimeError
  | TimeoutError
  | OverflowError
  | IngestionIterationError
  | AdapterFormatError
  | ConnectorMappingError
  | OtherError

type_synonym 'a result = "exn + 'a"

fun rbind :: "'e + 'a \<Rightarrow> ('a \<Rightarrow> 'e + 'b) \<Rightarrow> 'e + 'b" where
  "rbind (Inl e) f = Inl e"
| "rbind (Inr x) f = f x"

lemma rbind_Inr_iff: "rbind m f = Inr y \<longleftrightarrow> (\<exists>x. m = Inr x \<and> f x = Inr y)"
  by (cases m) auto

lemma rbind_Inl_iff: "rbind m f = Inl e \<longleftrightarrow> m = Inl e \<or> (\<exists>x. m = Inr x \<and> f x = Inl e)"
  by (cases m) auto

lemma rbind_cong [fundef_cong]:
  "m = m' \<Longrightarrow> (\<And>x. m' = Inr x \<Longrightarrow> f x = g x) \<Longrightarrow> rbind m f = rbind m' g"
  by (cases m') auto

text \<open>A loop that stops at the first exception.\<close>

fun rmap :: "('a \<Rightarrow> 'e + 'b) \<Rightarrow> 'a list \<Rightarrow> 'e + 'b list" where
  "rmap f [] = Inr []"
| "rmap f (x # xs) = rbind (f x) (\<lambda>y. rbind (rmap f xs) (\<lambda>ys. Inr (y # ys)))"

lemma rmap_Inr_length: "rmap f xs = Inr ys \<Longrightarrow> length ys = length xs"
  by (induction xs arbitrary: ys) (auto simp: rbind_Inr_iff)

lemma rmap_Inr_nth: "rmap f xs = Inr ys \<Longrightarrow> i < length xs \<Longrightarrow> f (xs ! i) = Inr (ys ! i)"
  by (induction xs arbitrary: ys i) (auto simp: rbind_Inr_iff nth_Cons split: nat.splits)

lemma rmap_total: "(\<And>x. x \<in> set xs \<Longrightarrow> f x = Inr (g x)) \<Longrightarrow> rmap f xs = Inr (map g xs)"
  by (induction xs) auto

section \<open>Insertion-ordered dictionaries\<close>

text \<open>
  A Python dict is an association list with distinct keys in insertion order.
  \<open>AList.update\<close> keeps the position of a key that is already there and appends a new one,
  as Python's item assignment does.
\<close>

type_synonym ('k, 'v) odict = "('k \<times> 'v) list"

definition dict_ok :: "('k, 'v) odict \<Rightarrow> bool" where
  "dict_ok d \<longleftrightarrow> distinct (map fst d)"

definition dict_keys :: "('k, 'v) odict \<Rightarrow> 'k list" where
  "dict_keys d = map fst d"

abbreviation dict_set :: "'k \<Rightarrow> 'v \<Rightarrow> ('k, 'v) odict \<Rightarrow> ('k, 'v) odict" where
  "dict_set \<equiv> AList.update"

lemma dict_ok_set: "dict_ok d \<Longrightarrow> dict_ok (dict_set k v d)"
  by (simp add: dict_ok_def distinct_update)

lemma dict_ok_Nil [simp]: "dict_ok []"
  by (simp add: dict_ok_def)

lemma map_of_dict_set: "map_of (dict_set k v d) j = (if j = k then Some v else map_of d j)"
  by (simp add: update_conv')

lemma set_dict_keys: "set (dict_keys d) = dom (map_of d)"
  by (simp add: dict_keys_def dom_map_of_conv_image_fst)

lemma set_dict_keys_set: "set (dict_keys (dict_set k v d)) = insert k (set (dict_keys d))"
  by (auto simp: set_dict_keys map_of_dict_set dom_def)

lemma dict_set_fresh: "map_of d k = None \<Longrightarrow> dict_set k v d = d @ [(k, v)]"
  by (induction d) auto

lemma dict_ok_snoc: "dict_ok (d @ [(k, v)]) \<longleftrightarrow> dict_ok d \<and> map_of d k = None"
  by (auto simp: dict_ok_def map_of_eq_None_iff)

section \<open>Keys of maps under Python's sorted\<close>

lemma sorted_keys_distinct: "dict_ok d \<Longrightarrow> sorted_wrt (<) (sort (dict_keys d))"
  by (simp add: dict_ok_def dict_keys_def strict_sorted_iff)

section \<open>Interface: a registry of named entries\<close>

text \<open>
  The registries of the program map an identifier to an entry, refuse a second entry under
  the same identifier with \<open>ValueError\<close>, and refuse some identifiers at once (the writer
  registry refuses the empty one).  \<open>ok\<close> says which identifiers are accepted.
\<close>

fun register_all :: "('k \<Rightarrow> 'v \<Rightarrow> 'r \<Rightarrow> 'r result) \<Rightarrow> ('k \<times> 'v) list \<Rightarrow> 'r \<Rightarrow> 'r result" where
  "register_all put [] r = Inr r"
| "register_all put ((k, v) # kvs) r = rbind (put k v r) (register_all put kvs)"

locale registry =
  fixes ok :: "'k \<Rightarrow> bool"
    and put :: "'k \<Rightarrow> 'v \<Rightarrow> 'r \<Rightarrow> 'r result"
    and find :: "'k \<Rightarrow> 'r \<Rightarrow> 'v option"
  assumes put_fresh: "ok k \<Longrightarrow> find k r = None \<Longrightarrow> \<exists>r'. put k v r = Inr r'"
    and find_put: "put k v r = Inr r' \<Longrightarrow> find j r' = (if j = k then Some v else find j r)"
    and put_dup: "find k r \<noteq> None \<Longrightarrow> put k v r = Inl ValueError"
    and put_bad: "\<not> ok k \<Longrightarrow> put k v r = Inl ValueError"
begin

lemma put_Inr_iff: "(\<exists>r'. put k v r = Inr r') \<longleftrightarrow> ok k \<and> find k r = None"
  using put_fresh put_dup put_bad by (metis Inl_Inr_False)

lemma put_Inl:
  assumes "put k v r = Inl e"
  shows "e = ValueError"
proof (cases "ok k \<and> find k r = None")
  case True
  then have "\<exists>r'. put k v r = Inr r'" using put_fresh by blast
  with assms show ?thesis by auto
next
  case False
  then have "put k v r = Inl ValueError" using put_dup put_bad by blast
  with assms show ?thesis by simp
qed

lemma put_frame: "put k v r = Inr r' \<Longrightarrow> j \<noteq> k \<Longrightarrow> find j r' = find j r"
  by (simp add: find_put)

lemma register_all_present:
  "find k r \<noteq> None \<Longrightarrow> k \<in> fst ` set kvs \<Longrightarrow> \<nexists>t. register_all put kvs r = Inr t"
proof (induction kvs arbitrary: r)
  case Nil
  then show ?case by simp
next
  case (Cons p ps)
  obtain a b where p: "p = (a, b)" by (cases p)
  show ?case
  proof (cases "a = k")
    case True
    with Cons.prems p show ?thesis by (simp add: put_dup)
  next
    case False
    with Cons p show ?thesis by (auto simp: rbind_Inr_iff find_put)
  qed
qed

lemma register_all_find:
  "register_all put kvs r = Inr r' \<Longrightarrow>
     find j r' = (case map_of kvs j of None \<Rightarrow> find j r | Some v \<Rightarrow> Some v)"
proof (induction kvs arbitrary: r)
  case Nil
  then show ?case by simp
next
  case (Cons kv kvs)
  obtain k v where kv: "kv = (k, v)" by (cases kv)
  from Cons.prems kv obtain s where s: "put k v r = Inr s"
    and rest: "register_all put kvs s = Inr r'"
    by (auto simp: rbind_Inr_iff)
  have "map_of kvs k = None"
    using rest s register_all_present [of k s kvs] by (auto simp: find_put map_of_eq_None_iff)
  with Cons.IH [OF rest] s kv show ?case
    by (auto simp: find_put split: option.splits)
qed

lemma register_all_succeeds:
  "distinct (map fst kvs) \<Longrightarrow> (\<forall>k \<in> fst ` set kvs. ok k \<and> find k r = None) \<Longrightarrow>
     \<exists>r'. register_all put kvs r = Inr r'"
proof (induction kvs arbitrary: r)
  case Nil
  then show ?case by simp
next
  case (Cons kv kvs)
  obtain k v where kv: "kv = (k, v)" by (cases kv)
  with Cons.prems obtain s where s: "put k v r = Inr s"
    using put_fresh by fastforce
  have "\<forall>j \<in> fst ` set kvs. ok j \<and> find j s = None"
    using Cons.prems kv s by (auto simp: find_put)
  with Cons.IH Cons.prems(1) s kv show ?case by simp
qed

end

section \<open>Interface: deterministic ordering by a key\<close>

text \<open>
  \<open>sorted(items, key=f)\<close> is stable insertion by key, which is HOL's \<open>sort_key\<close>.  Its clients
  rely on three things: nothing is lost or invented, the keys come out in order, and the
  order does not depend on how the items were collected when the key tells items apart.
\<close>

locale keyed_sort =
  fixes key :: "'a \<Rightarrow> 'k :: linorder"
    and srt :: "'a list \<Rightarrow> 'a list"
  assumes srt_is_sort_key: "srt xs = sort_key key xs"
begin

lemma srt_mset: "mset (srt xs) = mset xs"
  by (simp add: srt_is_sort_key)

lemma srt_set: "set (srt xs) = set xs"
  by (simp add: srt_is_sort_key)

lemma srt_length: "length (srt xs) = length xs"
  by (simp add: srt_is_sort_key)

lemma srt_sorted: "sorted (map key (srt xs))"
  by (simp add: srt_is_sort_key)

lemma srt_idem: "srt (srt xs) = srt xs"
  by (simp add: srt_is_sort_key sort_key_id_if_sorted)

lemma srt_stable: "filter (\<lambda>x. key x = k) (srt xs) = filter (\<lambda>x. key x = k) xs"
  by (simp add: srt_is_sort_key sort_key_stable)

lemma srt_deterministic:
  assumes "mset xs = mset ys" "inj_on key (set xs)"
  shows "srt xs = srt ys"
proof -
  have "sort_key key xs = sort_key key ys"
    by (rule sort_key_inj_key_eq) (use assms in auto)
  then show ?thesis by (simp add: srt_is_sort_key)
qed

end

end
