(* ===== verification/PFP_Values.thy ===== *)
theory PFP_Values
  imports PFP_Prelude
begin

text \<open>
  The Python values that flow through the feed engine, and the string methods the engine
  calls on them.

  A string is a list of code points below 256 (\<open>char\<close>).  \<open>str.strip\<close>, \<open>str.lower\<close> and the
  white space of \<open>\s\<close> are exact on that range; \<open>str.upper\<close> is exact but for the micro sign
  and the small y with diaeresis, whose capitals lie above 255 and which it leaves alone.
  A float is represented by its \<open>repr\<close>.
  Dictionary keys are strings, as in JSON.  The microseconds of a UTC offset are not modelled.
\<close>

section \<open>Values\<close>

datatype emission_kind = VALUE | OMIT | NULL

text \<open>\<open>Emission\<close> is a dataclass of a kind and an optional payload; its constructor checks them.\<close>

record emission =
  em_kind :: emission_kind
  em_value :: "string option"

text \<open>Sign, coefficient and exponent of \<open>decimal.Decimal\<close>, and its special values.\<close>

datatype decimal =
    DFin bool nat int
  | DInf bool
  | DNaN bool bool string

record pydatetime =
  dt_date :: "nat \<times> nat \<times> nat"
  dt_hour :: nat
  dt_minute :: nat
  dt_second :: nat
  dt_micro :: nat
  dt_offset :: "int option"

datatype pyval =
    PyNone
  | PyMissing
  | PyBool bool
  | PyInt int
  | PyFloat string
  | PyDec decimal
  | PyStr string
  | PyList "pyval list"
  | PyTuple "pyval list"
  | PyDict "(string \<times> pyval) list"
  | PyDate "nat \<times> nat \<times> nat"
  | PyDateTime pydatetime
  | PyEmission emission

type_synonym dict = "(string \<times> pyval) list"

text \<open>\<open>d.get(key)\<close> and \<open>d.get(key, default)\<close>.\<close>

definition dget :: "dict \<Rightarrow> string \<Rightarrow> pyval" where
  "dget d k = (case map_of d k of None \<Rightarrow> PyNone | Some v \<Rightarrow> v)"

definition dget_or :: "dict \<Rightarrow> string \<Rightarrow> pyval \<Rightarrow> pyval" where
  "dget_or d k dflt = (case map_of d k of None \<Rightarrow> dflt | Some v \<Rightarrow> v)"

definition dhas :: "dict \<Rightarrow> string \<Rightarrow> bool" where
  "dhas d k \<longleftrightarrow> map_of d k \<noteq> None"

lemma dget_Nil [simp]: "dget [] k = PyNone"
  by (simp add: dget_def)

lemma dget_Cons [simp]: "dget ((j, v) # d) k = (if j = k then v else dget d k)"
  by (simp add: dget_def)

lemma dget_or_Nil [simp]: "dget_or [] k x = x"
  by (simp add: dget_or_def)

lemma dget_or_Cons [simp]: "dget_or ((j, v) # d) k x = (if j = k then v else dget_or d k x)"
  by (simp add: dget_or_def)

lemma dhas_Nil [simp]: "\<not> dhas [] k"
  by (simp add: dhas_def)

lemma dhas_Cons [simp]: "dhas ((j, v) # d) k \<longleftrightarrow> j = k \<or> dhas d k"
  by (simp add: dhas_def)

text \<open>\<open>isinstance(x, Mapping)\<close> with the mapping it is.\<close>

fun as_mapping :: "pyval \<Rightarrow> dict option" where
  "as_mapping (PyDict d) = Some d"
| "as_mapping _ = None"

lemma as_mapping_Some [simp]: "as_mapping v = Some d \<longleftrightarrow> v = PyDict d"
  by (cases v) auto

fun as_str :: "pyval \<Rightarrow> string option" where
  "as_str (PyStr s) = Some s"
| "as_str _ = None"

lemma as_str_Some [simp]: "as_str v = Some s \<longleftrightarrow> v = PyStr s"
  by (cases v) auto

section \<open>Characters\<close>

definition is_space :: "char \<Rightarrow> bool" where
  "is_space c = (let n = (of_char c :: nat) in
     9 \<le> n \<and> n \<le> 13 \<or> 28 \<le> n \<and> n \<le> 32 \<or> n = 133 \<or> n = 160)"

definition is_digit :: "char \<Rightarrow> bool" where
  "is_digit c = (let n = (of_char c :: nat) in 48 \<le> n \<and> n \<le> 57)"

definition digit_val :: "char \<Rightarrow> nat" where
  "digit_val c = of_char c - 48"

definition lower_char :: "char \<Rightarrow> char" where
  "lower_char c = (let n = (of_char c :: nat) in
     if 65 \<le> n \<and> n \<le> 90 \<or> 192 \<le> n \<and> n \<le> 222 \<and> n \<noteq> 215 then char_of (n + 32) else c)"

definition upper_char :: "char \<Rightarrow> string" where
  "upper_char c = (let n = (of_char c :: nat) in
     if 97 \<le> n \<and> n \<le> 122 \<or> 224 \<le> n \<and> n \<le> 254 \<and> n \<noteq> 247 then [char_of (n - 32)]
     else if n = 223 then ''SS'' else [c])"

section \<open>String methods\<close>

definition lstrip :: "string \<Rightarrow> string" where
  "lstrip s = dropWhile is_space s"

definition strip :: "string \<Rightarrow> string" where
  "strip s = rev (dropWhile is_space (rev (lstrip s)))"

definition lower :: "string \<Rightarrow> string" where
  "lower s = map lower_char s"

definition upper :: "string \<Rightarrow> string" where
  "upper s = concat (map upper_char s)"

fun split_on :: "char \<Rightarrow> string \<Rightarrow> string list" where
  "split_on c [] = [[]]"
| "split_on c (x # xs) =
     (if x = c then [] # split_on c xs
      else (case split_on c xs of [] \<Rightarrow> [[x]] | y # ys \<Rightarrow> (x # y) # ys))"

fun join :: "string \<Rightarrow> string list \<Rightarrow> string" where
  "join sep [] = []"
| "join sep [x] = x"
| "join sep (x # y # ys) = x @ sep @ join sep (y # ys)"

definition startswith :: "string \<Rightarrow> string \<Rightarrow> bool" where
  "startswith s p \<longleftrightarrow> take (length p) s = p"

definition endswith :: "string \<Rightarrow> string \<Rightarrow> bool" where
  "endswith s p \<longleftrightarrow> length p \<le> length s \<and> drop (length s - length p) s = p"

text \<open>\<open>s.rfind(d)\<close>: the last index at which \<open>d\<close> starts, or -1.\<close>

fun rfind_from :: "string \<Rightarrow> string \<Rightarrow> nat \<Rightarrow> int" where
  "rfind_from s d 0 = (if startswith s d then 0 else -1)"
| "rfind_from s d (Suc n) =
     (if startswith (drop (Suc n) s) d then int (Suc n) else rfind_from s d n)"

definition rfind :: "string \<Rightarrow> string \<Rightarrow> int" where
  "rfind s d = rfind_from s d (length s)"

text \<open>\<open>re.sub(r"\s+", " ", s)\<close>: every maximal run of white space becomes one space.\<close>

fun collapse_ws :: "bool \<Rightarrow> string \<Rightarrow> string" where
  "collapse_ws in_run [] = []"
| "collapse_ws in_run (c # cs) =
     (if is_space c then (if in_run then [] else '' '') @ collapse_ws True cs
      else c # collapse_ws False cs)"

text \<open>\<open>in_sub d s\<close> is Python's \<open>d in s\<close> on strings.\<close>

fun in_sub :: "string \<Rightarrow> string \<Rightarrow> bool" where
  "in_sub d [] = (d = [])"
| "in_sub d (c # cs) = (startswith (c # cs) d \<or> in_sub d cs)"

section \<open>Numbers as text\<close>

definition digit_char :: "nat \<Rightarrow> char" where
  "digit_char d = ''0123456789'' ! d"

fun nat_str :: "nat \<Rightarrow> string" where
  "nat_str n = (if n < 10 then [digit_char n] else nat_str (n div 10) @ [digit_char (n mod 10)])"

declare nat_str.simps [simp del]

definition int_str :: "int \<Rightarrow> string" where
  "int_str i = (if i < 0 then ''-'' @ nat_str (nat (- i)) else nat_str (nat i))"

text \<open>Digits with single underscores between them, as \<open>int(text)\<close> takes them.\<close>

fun udigits :: "bool \<Rightarrow> nat \<Rightarrow> string \<Rightarrow> nat option" where
  "udigits seen acc [] = (if seen then Some acc else None)"
| "udigits seen acc (c # cs) =
     (if is_digit c then udigits True (10 * acc + digit_val c) cs
      else if c = CHR ''_'' \<and> seen then udigits False acc cs
      else None)"

text \<open>\<open>int(text)\<close>; \<open>None\<close> stands for its \<open>ValueError\<close>.\<close>

definition parse_int :: "string \<Rightarrow> int option" where
  "parse_int s =
     (case strip s of
        [] \<Rightarrow> None
      | c # cs \<Rightarrow>
          if c = CHR ''-'' then map_option (\<lambda>n. - int n) (udigits False 0 cs)
          else if c = CHR ''+'' then map_option int (udigits False 0 cs)
          else map_option int (udigits False 0 (c # cs)))"

definition pad :: "nat \<Rightarrow> nat \<Rightarrow> string" where
  "pad w n = replicate (w - length (nat_str n)) (CHR ''0'') @ nat_str n"

section \<open>Facts about the string methods\<close>

lemma lower_char_idem [simp]: "lower_char (lower_char c) = lower_char c"
proof -
  have "(of_char c :: nat) < 256" by (metis char_of_char of_char_of mod_less_divisor zero_less_numeral)
  then show ?thesis by (simp add: lower_char_def Let_def)
qed

lemma lower_idem [simp]: "lower (lower s) = lower s"
  by (simp add: lower_def)

lemma length_lower [simp]: "length (lower s) = length s"
  by (simp add: lower_def)

lemma dropWhile_hd: "dropWhile P xs \<noteq> [] \<Longrightarrow> \<not> P (hd (dropWhile P xs))"
  by (rule hd_dropWhile)

lemma dropWhile_idI: "xs = [] \<or> \<not> P (hd xs) \<Longrightarrow> dropWhile P xs = xs"
  by (cases xs) auto

lemma lstrip_rstrip_hd:
  "s \<noteq> [] \<Longrightarrow> \<not> P (hd s) \<Longrightarrow> rev (dropWhile P (rev s)) \<noteq> [] \<and> hd (rev (dropWhile P (rev s))) = hd s"
proof (induction s rule: rev_induct)
  case Nil
  then show ?case by simp
next
  case (snoc x xs)
  show ?case
  proof (cases "P x")
    case True
    with snoc show ?thesis by (cases xs) auto
  next
    case False
    then show ?thesis by simp
  qed
qed

lemma strip_ends:
  assumes "strip s \<noteq> []"
  shows "\<not> is_space (hd (strip s))" and "\<not> is_space (last (strip s))"
proof -
  have "lstrip s \<noteq> []" using assms by (auto simp: strip_def)
  then have hd: "\<not> is_space (hd (lstrip s))"
    unfolding lstrip_def by (rule dropWhile_hd)
  show "\<not> is_space (hd (strip s))"
    using lstrip_rstrip_hd [of "lstrip s" is_space] hd \<open>lstrip s \<noteq> []\<close> by (simp add: strip_def)
  show "\<not> is_space (last (strip s))"
    using assms dropWhile_hd [of is_space "rev (lstrip s)"] by (simp add: strip_def last_rev)
qed

lemma strip_fixed: "s = [] \<or> \<not> is_space (hd s) \<and> \<not> is_space (last s) \<Longrightarrow> strip s = s"
proof -
  assume h: "s = [] \<or> \<not> is_space (hd s) \<and> \<not> is_space (last s)"
  then have 1: "lstrip s = s" unfolding lstrip_def by (intro dropWhile_idI) auto
  have "dropWhile is_space (rev s) = rev s"
    using h by (intro dropWhile_idI) (auto simp: hd_rev)
  with 1 show "strip s = s" by (simp add: strip_def)
qed

lemma strip_idem [simp]: "strip (strip s) = strip s"
  using strip_ends by (intro strip_fixed) blast

lemma strip_Nil [simp]: "strip [] = []"
  by (simp add: strip_def lstrip_def)

lemma split_on_ne [simp]: "split_on c s \<noteq> []"
  by (induction s) (auto split: list.splits)

lemma join_Cons: "ys \<noteq> [] \<Longrightarrow> join sep (x # ys) = x @ sep @ join sep ys"
  by (cases ys) auto

lemma join_split: "join [c] (split_on c s) = s"
proof (induction s)
  case Nil
  then show ?case by simp
next
  case (Cons x xs)
  obtain y ys where y: "split_on c xs = y # ys" by (cases "split_on c xs") auto
  with Cons show ?case by (cases ys) (auto simp: join_Cons)
qed

lemma split_on_no_sep: "c \<notin> set s \<Longrightarrow> split_on c s = [s]"
  by (induction s) auto

lemma split_on_append:
  "c \<notin> set p \<Longrightarrow> split_on c (p @ c # s) = p # split_on c s"
  by (induction p) auto

lemma split_join:
  "ps \<noteq> [] \<Longrightarrow> \<forall>p \<in> set ps. c \<notin> set p \<Longrightarrow> split_on c (join [c] ps) = ps"
proof (induction ps rule: induct_list012)
  case 1
  then show ?case by simp
next
  case (2 x)
  then show ?case by (simp add: split_on_no_sep)
next
  case (3 x y zs)
  then show ?case by (simp add: split_on_append)
qed

lemma rfind_from_ge: "-1 \<le> rfind_from s d n \<and> rfind_from s d n \<le> int n"
  by (induction n) auto

lemma rfind_from_hit:
  "0 \<le> rfind_from s d n \<Longrightarrow> startswith (drop (nat (rfind_from s d n)) s) d"
  by (induction n) (auto simp: nat_add_distrib split: if_splits)

lemma rfind_from_last:
  "j \<le> n \<Longrightarrow> startswith (drop j s) d \<Longrightarrow> int j \<le> rfind_from s d n"
proof (induction n)
  case 0
  then show ?case by simp
next
  case (Suc n)
  then show ?case by (cases "j = Suc n") auto
qed

lemmas rfind_facts = rfind_from_ge rfind_from_hit rfind_from_last

section \<open>Facts about numbers as text\<close>

lemma digit_cases: "(n :: nat) < 10 \<Longrightarrow> n \<in> {0, 1, 2, 3, 4, 5, 6, 7, 8, 9}"
  by auto

lemma digit_char_facts:
  assumes "d < 10"
  shows "is_digit (digit_char d)" "digit_val (digit_char d) = d"
    "\<not> is_space (digit_char d)"
    "digit_char d \<noteq> CHR ''-''" "digit_char d \<noteq> CHR ''+''" "digit_char d \<noteq> CHR ''_''"
  using digit_cases [OF assms]
  by (auto simp: digit_char_def is_digit_def digit_val_def is_space_def)

lemma nat_str_digits: "\<forall>c \<in> set (nat_str n). is_digit c \<and> \<not> is_space c"
proof (induction n rule: nat_str.induct)
  case (1 n)
  show ?case
    by (cases "n < 10") (use 1 in \<open>auto simp: nat_str.simps [of n] digit_char_facts\<close>)
qed

lemma nat_str_ne [simp]: "nat_str n \<noteq> []"
  by (subst nat_str.simps) simp

lemma udigits_append:
  "\<forall>c \<in> set p. is_digit c \<Longrightarrow> p \<noteq> [] \<Longrightarrow>
     udigits seen acc (p @ q) = udigits True (foldl (\<lambda>a c. 10 * a + digit_val c) acc p) q"
proof (induction p arbitrary: seen acc)
  case Nil
  then show ?case by simp
next
  case (Cons x p)
  then show ?case by (cases "p = []") auto
qed

lemma foldl_nat_str: "foldl (\<lambda>a c. 10 * a + digit_val c) 0 (nat_str n) = n"
proof (induction n rule: nat_str.induct)
  case (1 n)
  show ?case
  proof (cases "n < 10")
    case True
    then show ?thesis by (simp add: nat_str.simps [of n] digit_char_facts)
  next
    case False
    with 1 show ?thesis by (simp add: nat_str.simps [of n] digit_char_facts)
  qed
qed

lemma udigits_nat_str: "udigits seen 0 (nat_str n) = Some n"
  using udigits_append [of "nat_str n" seen 0 "[]"] nat_str_digits [of n]
  by (simp add: foldl_nat_str)

lemma nat_str_hd: "is_digit (hd (nat_str n))" "\<not> is_space (hd (nat_str n))"
    "\<not> is_space (last (nat_str n))"
  using nat_str_digits [of n] by auto

lemma digit_not_sign: "is_digit c \<Longrightarrow> c \<noteq> CHR ''-'' \<and> c \<noteq> CHR ''+''"
  by (auto simp: is_digit_def)

text \<open>\<open>int(str(i)) == i\<close>.\<close>

lemma parse_int_nat_str: "parse_int (nat_str n) = Some (int n)"
proof -
  obtain c cs where c: "nat_str n = c # cs" by (cases "nat_str n") auto
  have "strip (nat_str n) = nat_str n" by (rule strip_fixed) (simp add: nat_str_hd)
  moreover have "c \<noteq> CHR ''-''" "c \<noteq> CHR ''+''"
    using nat_str_hd(1) [of n] c digit_not_sign by auto
  ultimately show ?thesis
    using udigits_nat_str [of False n] c by (simp add: parse_int_def)
qed

lemma parse_int_str: "parse_int (int_str i) = Some i"
proof (cases "i < 0")
  case False
  then show ?thesis by (simp add: int_str_def parse_int_nat_str)
next
  case True
  have "strip (CHR ''-'' # nat_str (nat (- i))) = CHR ''-'' # nat_str (nat (- i))"
    by (rule strip_fixed) (use nat_str_hd(3) in \<open>simp, simp add: is_space_def\<close>)
  with True show ?thesis
    by (simp add: int_str_def parse_int_def udigits_nat_str)
qed

end
