(* ===== verification/PFP_Decimal.thy ===== *)
theory PFP_Decimal
  imports PFP_Values
begin

text \<open>
  The part of Python's \<open>decimal\<close> module the engine uses: \<open>Decimal(text)\<close>, \<open>str\<close>,
  \<open>quantize\<close> with \<open>ROUND_HALF_UP\<close> in the default context (28 digits) and the order.
  Exponents are unbounded integers: the context's limits near 10 to the 6 on the
  exponents are not modelled.
\<close>

section \<open>Parsing\<close>

definition digits_nat :: "string \<Rightarrow> nat" where
  "digits_nat s = foldl (\<lambda>a c. 10 * a + digit_val c) 0 s"

definition unsign :: "string \<Rightarrow> bool \<times> string" where
  "unsign s =
     (case s of [] \<Rightarrow> (False, [])
      | c # cs \<Rightarrow> if c = CHR ''-'' then (True, cs) else if c = CHR ''+'' then (False, cs)
                  else (False, s))"

text \<open>The exponent part, \<open>E\<close> with an optional sign and at least one digit.\<close>

definition parse_exponent :: "string \<Rightarrow> int option" where
  "parse_exponent s =
     (case s of [] \<Rightarrow> Some 0
      | c # cs \<Rightarrow>
          if c = CHR ''e'' \<or> c = CHR ''E'' then
            (let (neg, ds) = unsign cs in
             if ds \<noteq> [] \<and> (\<forall>d \<in> set ds. is_digit d)
             then Some (if neg then - int (digits_nat ds) else int (digits_nat ds)) else None)
          else None)"

definition split_fraction :: "string \<Rightarrow> string \<times> string" where
  "split_fraction r =
     (case r of [] \<Rightarrow> ([], [])
      | c # cs \<Rightarrow> if c = CHR ''.'' then (takeWhile is_digit cs, dropWhile is_digit cs) else ([], r))"

definition parse_finite :: "bool \<Rightarrow> string \<Rightarrow> decimal option" where
  "parse_finite neg s =
     (let ip = takeWhile is_digit s;
          (fp, r) = split_fraction (dropWhile is_digit s)
      in if ip @ fp = [] then None
         else case parse_exponent r of None \<Rightarrow> None
              | Some e \<Rightarrow> Some (DFin neg (digits_nat (ip @ fp)) (e - int (length fp))))"

definition parse_special :: "bool \<Rightarrow> string \<Rightarrow> decimal option" where
  "parse_special neg s =
     (let t = lower s; payload = (\<lambda>n. dropWhile (\<lambda>c. c = CHR ''0'') (drop n t)) in
      if t = ''inf'' \<or> t = ''infinity'' then Some (DInf neg)
      else if startswith t ''nan'' \<and> (\<forall>c \<in> set (drop 3 t). is_digit c)
      then Some (DNaN neg False (payload 3))
      else if startswith t ''snan'' \<and> (\<forall>c \<in> set (drop 4 t). is_digit c)
      then Some (DNaN neg True (payload 4))
      else None)"

text \<open>\<open>Decimal(text)\<close>; \<open>None\<close> stands for \<open>InvalidOperation\<close>.\<close>

definition parse_decimal :: "string \<Rightarrow> decimal option" where
  "parse_decimal text =
     (let (neg, s) = unsign (filter (\<lambda>c. c \<noteq> CHR ''_'') (strip text)) in
      case parse_finite neg s of Some d \<Rightarrow> Some d | None \<Rightarrow> parse_special neg s)"

section \<open>Printing\<close>

definition exp_str :: "int \<Rightarrow> string" where
  "exp_str e = ''E'' @ (if e < 0 then ''-'' @ nat_str (nat (- e)) else ''+'' @ nat_str (nat e))"

definition sign_str :: "bool \<Rightarrow> string" where
  "sign_str neg = (if neg then ''-'' else '''')"

definition dec_body :: "nat \<Rightarrow> int \<Rightarrow> string" where
  "dec_body c e =
     (let s = nat_str c; n = int (length s); left = e + n;
          dot = (if e \<le> 0 \<and> left > -6 then left else 1)
      in (if dot \<le> 0 then ''0.'' @ replicate (nat (- dot)) (CHR ''0'') @ s
          else if dot \<ge> n then s @ replicate (nat (dot - n)) (CHR ''0'')
          else take (nat dot) s @ ''.'' @ drop (nat dot) s)
         @ (if left = dot then [] else exp_str (left - dot)))"

fun dec_str :: "decimal \<Rightarrow> string" where
  "dec_str (DFin neg c e) = sign_str neg @ dec_body c e"
| "dec_str (DInf neg) = sign_str neg @ ''Infinity''"
| "dec_str (DNaN neg sig p) = sign_str neg @ (if sig then ''sNaN'' else ''NaN'') @ p"

section \<open>Order\<close>

definition signed :: "bool \<Rightarrow> nat \<Rightarrow> int" where
  "signed neg c = (if neg then - int c else int c)"

text \<open>Comparing with a NaN signals \<open>InvalidOperation\<close>.\<close>

fun dec_less :: "decimal \<Rightarrow> decimal \<Rightarrow> bool result" where
  "dec_less (DNaN _ _ _) _ = Inl InvalidOperation"
| "dec_less _ (DNaN _ _ _) = Inl InvalidOperation"
| "dec_less (DInf n1) (DInf n2) = Inr (n1 \<and> \<not> n2)"
| "dec_less (DInf n1) (DFin _ _ _) = Inr n1"
| "dec_less (DFin _ _ _) (DInf n2) = Inr (\<not> n2)"
| "dec_less (DFin n1 c1 e1) (DFin n2 c2 e2) =
     (let m = min e1 e2 in
      Inr (signed n1 c1 * 10 ^ nat (e1 - m) < signed n2 c2 * 10 ^ nat (e2 - m)))"

section \<open>Rounding\<close>

definition half_up :: "nat \<Rightarrow> nat \<Rightarrow> nat" where
  "half_up c k = (if k = 0 then c else (c + 5 * 10 ^ (k - 1)) div 10 ^ k)"

definition dec_prec :: nat where
  "dec_prec = 28"

text \<open>
  \<open>d.quantize(Decimal("1").scaleb(-places), rounding=ROUND_HALF_UP)\<close>: the exponent becomes
  \<open>-places\<close>; a result of more than 28 digits signals \<open>InvalidOperation\<close>.
\<close>

fun quantize :: "decimal \<Rightarrow> nat \<Rightarrow> decimal result" where
  "quantize (DNaN neg sig p) places =
     (if sig then Inl InvalidOperation
      else Inr (DNaN neg False (dropWhile (\<lambda>c. c = CHR ''0'') (drop (length p - dec_prec) p))))"
| "quantize (DInf neg) places = Inl InvalidOperation"
| "quantize (DFin neg c e) places =
     (if c = 0 then Inr (DFin neg 0 (- int places))
      else if int (length (nat_str c)) + e + int places > int dec_prec then Inl InvalidOperation
      else let c' = (if e \<ge> - int places then c * 10 ^ nat (e + int places)
                     else half_up c (nat (- int places - e)))
           in if length (nat_str c') > dec_prec then Inl InvalidOperation
              else Inr (DFin neg c' (- int places)))"

section \<open>Facts\<close>

lemma half_up_nearest: "2 * \<bar>int (half_up c k) * 10 ^ k - int c\<bar> \<le> 10 ^ k"
proof (cases k)
  case 0
  then show ?thesis by (simp add: half_up_def)
next
  case (Suc j)
  define m :: int where "m = 10 ^ j"
  have m: "0 < m" by (simp add: m_def)
  have eq: "int (half_up c k) = (int c + 5 * m) div (10 * m)"
    by (simp add: half_up_def Suc m_def zdiv_int)
  define q where "q = (int c + 5 * m) div (10 * m)"
  define r where "r = (int c + 5 * m) mod (10 * m)"
  have "0 \<le> r" "r < 10 * m" using m by (auto simp: r_def)
  moreover have "int c + 5 * m = 10 * m * q + r"
    unfolding q_def r_def by (rule mult_div_mod_eq [symmetric])
  ultimately have r: "10 * m * q \<le> int c + 5 * m" "int c + 5 * m < 10 * m * q + 10 * m"
    by auto
  have "2 * \<bar>q * (10 * m) - int c\<bar> \<le> 10 * m"
    using r by (simp add: abs_le_iff algebra_simps)
  moreover have "int (half_up c k) = q" using eq by (simp add: q_def)
  moreover have "(10 :: int) ^ k = 10 * m" by (simp add: Suc m_def)
  ultimately show ?thesis by (simp only:)
qed

lemma half_up_tie: "c = (10 * q + 5) * 10 ^ j \<Longrightarrow> half_up c (Suc j) = q + 1"
proof -
  assume c: "c = (10 * q + 5) * 10 ^ j"
  have "c + 5 * 10 ^ j = (q + 1) * 10 ^ Suc j" by (simp add: c algebra_simps)
  then have "(c + 5 * 10 ^ j) div 10 ^ Suc j = q + 1" by simp
  then show ?thesis by (simp add: half_up_def)
qed

lemma quantize_exponent:
  "quantize (DFin neg c e) p = Inr d \<Longrightarrow> \<exists>c'. d = DFin neg c' (- int p) \<and> length (nat_str c') \<le> dec_prec"
proof -
  have "length (nat_str 0) \<le> dec_prec" by (simp add: nat_str.simps dec_prec_def)
  then show "quantize (DFin neg c e) p = Inr d \<Longrightarrow> ?thesis"
    by (auto simp: Let_def split: if_splits)
qed

lemma digits_nat_append_zeros:
  "digits_nat (replicate n (CHR ''0'') @ s) = digits_nat s"
  by (induction n) (simp_all add: digits_nat_def digit_val_def)

lemma digits_nat_str: "digits_nat (nat_str n) = n"
  by (simp add: digits_nat_def foldl_nat_str)

lemma takeWhile_digits:
  "\<forall>c \<in> set p. is_digit c \<Longrightarrow> q = [] \<or> \<not> is_digit (hd q) \<Longrightarrow>
     takeWhile is_digit (p @ q) = p \<and> dropWhile is_digit (p @ q) = q"
  by (induction p) (cases q; auto)+

section \<open>Printing and parsing\<close>

lemma parse_exponent_str: "parse_exponent (exp_str e) = Some e"
proof -
  have hd: "\<And>n. unsign (nat_str n) = (False, nat_str n)"
  proof -
    fix n
    obtain d ds where "nat_str n = d # ds" by (cases "nat_str n") auto
    then show "unsign (nat_str n) = (False, nat_str n)"
      using nat_str_hd(1) [of n] digit_not_sign [of d] by (simp add: unsign_def)
  qed
  show ?thesis
    using nat_str_digits
    by (simp add: exp_str_def parse_exponent_def unsign_def digits_nat_str)
qed

lemma parse_finite_dot:
  assumes "\<forall>c \<in> set ip \<union> set fp. is_digit c" "ip @ fp \<noteq> []" "r = [] \<or> \<not> is_digit (hd r)"
    and "parse_exponent r = Some e"
  shows "parse_finite neg (ip @ ''.'' @ fp @ r)
           = Some (DFin neg (digits_nat (ip @ fp)) (e - int (length fp)))"
proof -
  have "takeWhile is_digit (ip @ ''.'' @ fp @ r) = ip \<and> dropWhile is_digit (ip @ ''.'' @ fp @ r) = ''.'' @ fp @ r"
    by (rule takeWhile_digits) (use assms in \<open>auto simp: is_digit_def\<close>)
  moreover have "takeWhile is_digit (fp @ r) = fp \<and> dropWhile is_digit (fp @ r) = r"
    by (rule takeWhile_digits) (use assms in auto)
  ultimately show ?thesis
    using assms(2,4) by (simp add: parse_finite_def split_fraction_def)
qed

lemma parse_finite_int:
  assumes "\<forall>c \<in> set ip. is_digit c" "ip \<noteq> []" "r = [] \<or> \<not> is_digit (hd r) \<and> hd r \<noteq> CHR ''.''"
    and "parse_exponent r = Some e"
  shows "parse_finite neg (ip @ r) = Some (DFin neg (digits_nat ip) e)"
proof -
  have "takeWhile is_digit (ip @ r) = ip \<and> dropWhile is_digit (ip @ r) = r"
    by (rule takeWhile_digits) (use assms in auto)
  moreover have "split_fraction r = ([], r)"
    using assms(3) by (cases r) (auto simp: split_fraction_def)
  ultimately show ?thesis
    using assms(2,4) by (simp add: parse_finite_def)
qed

lemma exp_str_hd: "exp_str e \<noteq> [] \<and> hd (exp_str e) = CHR ''E''"
  by (simp add: exp_str_def)

lemma nat_str_take: "i \<le> length (nat_str c) \<Longrightarrow> \<forall>x \<in> set (take i (nat_str c)) \<union> set (drop i (nat_str c)). is_digit x"
  using nat_str_digits [of c] by (auto dest: in_set_takeD in_set_dropD)

lemma parse_exponent_tail:
  "parse_exponent (if a = b then [] else exp_str (a - b)) = Some (a - b)"
proof -
  have "parse_exponent [] = Some 0" by (simp add: parse_exponent_def)
  then show ?thesis by (simp add: parse_exponent_str)
qed

lemma exp_tail_hd:
  "(if a = b then [] else exp_str (a - b)) = [] \<or>
     \<not> is_digit (hd (if a = b then [] else exp_str (a - b)))
     \<and> hd (if a = b then [] else exp_str (a - b)) \<noteq> CHR ''.''"
  using exp_str_hd [of "a - b"] by (auto simp: is_digit_def)

lemma parse_finite_body: "parse_finite neg (dec_body c e) = Some (DFin neg c e)"
proof -
  define s where "s = nat_str c"
  define n where "n = int (length s)"
  define left where "left = e + n"
  define dot where "dot = (if e \<le> 0 \<and> left > -6 then left else 1)"
  define r where "r = (if left = dot then [] else exp_str (left - dot))"
  have n: "n > 0" by (simp add: n_def s_def)
  have s: "\<forall>x \<in> set s. is_digit x" "s \<noteq> []" "digits_nat s = c"
    using nat_str_digits by (auto simp: s_def digits_nat_str)
  have r: "parse_exponent r = Some (left - dot)" "r = [] \<or> \<not> is_digit (hd r) \<and> hd r \<noteq> CHR ''.''"
    unfolding r_def by (rule parse_exponent_tail, rule exp_tail_hd)
  have body: "dec_body c e = (if dot \<le> 0 then ''0.'' @ replicate (nat (- dot)) (CHR ''0'') @ s
      else if dot \<ge> n then s @ replicate (nat (dot - n)) (CHR ''0'')
      else take (nat dot) s @ ''.'' @ drop (nat dot) s) @ r"
    by (simp add: dec_body_def Let_def s_def n_def left_def dot_def r_def)
  consider "dot \<le> 0" | "dot > 0" "dot \<ge> n" | "dot > 0" "dot < n" by linarith
  then show ?thesis
  proof cases
    case 1
    let ?fp = "replicate (nat (- dot)) (CHR ''0'') @ s"
    have "parse_finite neg (''0'' @ ''.'' @ ?fp @ r)
        = Some (DFin neg (digits_nat (''0'' @ ?fp)) (left - dot - int (length ?fp)))"
      by (rule parse_finite_dot) (use s r in \<open>auto simp: is_digit_def\<close>)
    moreover have "digits_nat (''0'' @ ?fp) = c"
      using digits_nat_append_zeros [of "Suc (nat (- dot))" s] s(3) by simp
    moreover have "left - dot - int (length ?fp) = e" using 1 n
      by (auto simp: dot_def left_def n_def split: if_splits)
    ultimately show ?thesis using body 1 by simp
  next
    case 2
    have "dot = n" using 2 n by (auto simp: dot_def left_def split: if_splits)
    then have "dec_body c e = s @ r" using body 2 by simp
    moreover have "left - dot = e" using \<open>dot = n\<close> by (simp add: left_def)
    moreover have "parse_finite neg (s @ r) = Some (DFin neg (digits_nat s) (left - dot))"
      by (rule parse_finite_int) (use s r in auto)
    ultimately show ?thesis using s(3) by simp
  next
    case 3
    let ?ip = "take (nat dot) s" and ?fp = "drop (nat dot) s"
    have "parse_finite neg (?ip @ ''.'' @ ?fp @ r)
        = Some (DFin neg (digits_nat (?ip @ ?fp)) (left - dot - int (length ?fp)))"
      by (rule parse_finite_dot)
        (use s r 3 in \<open>auto simp: n_def dest: in_set_takeD in_set_dropD\<close>)
    moreover have "left - dot - int (length ?fp) = e"
      using 3 by (simp add: left_def n_def)
    ultimately show ?thesis using body 3 s(3) by simp
  qed
qed

lemma dec_body_chars:
  "\<forall>x \<in> set (dec_body c e). \<not> is_space x \<and> x \<noteq> CHR ''_''" "dec_body c e \<noteq> []"
  "is_digit (hd (dec_body c e))"
proof -
  have d: "\<And>k x. x \<in> set (nat_str k) \<Longrightarrow> \<not> is_space x \<and> x \<noteq> CHR ''_''"
  proof -
    have "\<not> is_digit (CHR ''_'')" by (simp add: is_digit_def)
    then show "\<And>k x. x \<in> set (nat_str k) \<Longrightarrow> \<not> is_space x \<and> x \<noteq> CHR ''_''"
      using nat_str_digits by blast
  qed
  show "\<forall>x \<in> set (dec_body c e). \<not> is_space x \<and> x \<noteq> CHR ''_''"
    using d by (auto simp: dec_body_def Let_def exp_str_def is_space_def
        dest!: in_set_takeD in_set_dropD split: if_splits)
  show ne: "dec_body c e \<noteq> []"
    by (simp add: dec_body_def Let_def)
  have h: "is_digit (hd (nat_str c))" by (rule nat_str_hd)
  show "is_digit (hd (dec_body c e))"
    using h by (auto simp: dec_body_def Let_def is_digit_def hd_append)
qed

text \<open>\<open>Decimal(str(d)) == d\<close>, with the same coefficient and exponent.\<close>

lemma parse_dec_str: "parse_decimal (dec_str (DFin neg c e)) = Some (DFin neg c e)"
proof -
  let ?b = "dec_body c e" and ?t = "dec_str (DFin neg c e)"
  have chars: "\<forall>x \<in> set ?t. \<not> is_space x \<and> x \<noteq> CHR ''_''"
    using dec_body_chars(1) by (auto simp: sign_str_def is_space_def)
  moreover have ne: "?t \<noteq> []" using dec_body_chars(2) by simp
  ultimately have "strip ?t = ?t" by (intro strip_fixed) (meson hd_in_set last_in_set)
  moreover have "filter (\<lambda>c. c \<noteq> CHR ''_'') ?t = ?t"
    using chars by (intro filter_True) blast
  moreover have "unsign ?t = (neg, ?b)"
    using dec_body_chars(2,3) [of c e] digit_not_sign
    by (cases ?b) (auto simp: unsign_def sign_str_def)
  ultimately show ?thesis by (simp add: parse_decimal_def parse_finite_body del: dec_str.simps)
qed

end
