(* ===== verification/PFP_Str.thy ===== *)
theory PFP_Str
  imports PFP_Decimal
begin

text \<open>
  \<open>str(value)\<close>, \<open>repr(value)\<close> and \<open>bool(value)\<close> for the values of \<open>PFP_Values\<close>.
  \<open>str\<close> is what the presence step and the formatting operations apply to any value, so it is
  defined on all of them, containers included.
\<close>

section \<open>repr of strings\<close>

definition hex_char :: "nat \<Rightarrow> char" where
  "hex_char d = ''0123456789abcdef'' ! d"

definition repr_char :: "char \<Rightarrow> char \<Rightarrow> string" where
  "repr_char q c =
     (let n = (of_char c :: nat); bs = CHR 0x5C in
      if c = q \<or> c = bs then [bs, c]
      else if n = 9 then [bs, CHR ''t'']
      else if n = 10 then [bs, CHR ''n'']
      else if n = 13 then [bs, CHR ''r'']
      else if n < 32 \<or> 127 \<le> n \<and> n \<le> 160 \<or> n = 173
      then [bs, CHR ''x'', hex_char (n div 16), hex_char (n mod 16)]
      else [c])"

definition repr_str :: "string \<Rightarrow> string" where
  "repr_str s =
     (let q = (if CHR 0x27 \<in> set s \<and> CHR 0x22 \<notin> set s then CHR 0x22 else CHR 0x27)
      in q # concat (map (repr_char q) s) @ [q])"

section \<open>Dates\<close>

definition date_str :: "nat \<times> nat \<times> nat \<Rightarrow> string" where
  "date_str d = (let (y, m, dd) = d in pad 4 y @ ''-'' @ pad 2 m @ ''-'' @ pad 2 dd)"

definition offset_str :: "int \<Rightarrow> string" where
  "offset_str off =
     (let a = nat \<bar>off\<bar>; s = a mod 60 in
      (if off < 0 then ''-'' else ''+'') @ pad 2 (a div 3600) @ '':'' @ pad 2 (a div 60 mod 60)
      @ (if s = 0 then [] else '':'' @ pad 2 s))"

definition datetime_str :: "pydatetime \<Rightarrow> string" where
  "datetime_str t =
     date_str (dt_date t) @ '' '' @ pad 2 (dt_hour t) @ '':'' @ pad 2 (dt_minute t) @ '':''
     @ pad 2 (dt_second t)
     @ (if dt_micro t = 0 then [] else ''.'' @ pad 6 (dt_micro t))
     @ (case dt_offset t of None \<Rightarrow> [] | Some off \<Rightarrow> offset_str off)"

definition timedelta_repr :: "int \<Rightarrow> string" where
  "timedelta_repr off =
     (let days = off div 86400; secs = off mod 86400 in
      ''datetime.timedelta('' @
      join '', '' ((if days = 0 then [] else [''days='' @ int_str days])
        @ (if secs = 0 then [] else [''seconds='' @ int_str secs])
        @ (if off = 0 then [''0''] else []))
      @ '')'')"

definition datetime_repr :: "pydatetime \<Rightarrow> string" where
  "datetime_repr t =
     (let (y, m, d) = dt_date t;
          fields = [y, m, d, dt_hour t, dt_minute t]
            @ (if dt_micro t \<noteq> 0 then [dt_second t, dt_micro t]
               else if dt_second t \<noteq> 0 then [dt_second t] else [])
      in ''datetime.datetime('' @ join '', '' (map nat_str fields)
         @ (case dt_offset t of None \<Rightarrow> []
            | Some off \<Rightarrow> '', tzinfo='' @ (if off = 0 then ''datetime.timezone.utc''
                else ''datetime.timezone('' @ timedelta_repr off @ '')''))
         @ '')'')"

definition date_repr :: "nat \<times> nat \<times> nat \<Rightarrow> string" where
  "date_repr d = (let (y, m, dd) = d in
     ''datetime.date('' @ join '', '' (map nat_str [y, m, dd]) @ '')'')"

section \<open>repr and str\<close>

fun kind_str :: "emission_kind \<Rightarrow> string" where
  "kind_str VALUE = ''VALUE''"
| "kind_str OMIT = ''OMIT''"
| "kind_str NULL = ''NULL''"

definition emission_repr :: "emission \<Rightarrow> string" where
  "emission_repr e = ''Emission(kind='' @ repr_str (kind_str (em_kind e)) @ '', value=''
     @ (case em_value e of None \<Rightarrow> ''None'' | Some s \<Rightarrow> repr_str s) @ '')''"

fun py_repr :: "pyval \<Rightarrow> string" where
  "py_repr PyNone = ''None''"
| "py_repr PyMissing = ''MISSING''"
| "py_repr (PyBool b) = (if b then ''True'' else ''False'')"
| "py_repr (PyInt i) = int_str i"
| "py_repr (PyFloat r) = r"
| "py_repr (PyDec d) = ''Decimal('' @ repr_str (dec_str d) @ '')''"
| "py_repr (PyStr s) = repr_str s"
| "py_repr (PyList xs) = ''['' @ join '', '' (map py_repr xs) @ '']''"
| "py_repr (PyTuple xs) =
     ''('' @ join '', '' (map py_repr xs) @ (if length xs = 1 then '','' else []) @ '')''"
| "py_repr (PyDict d) =
     ''{'' @ join '', '' (map (\<lambda>(k, v). repr_str k @ '': '' @ py_repr v) d) @ ''}''"
| "py_repr (PyDate d) = date_repr d"
| "py_repr (PyDateTime t) = datetime_repr t"
| "py_repr (PyEmission e) = emission_repr e"

fun py_str :: "pyval \<Rightarrow> string" where
  "py_str (PyStr s) = s"
| "py_str (PyDec d) = dec_str d"
| "py_str (PyDate d) = date_str d"
| "py_str (PyDateTime t) = datetime_str t"
| "py_str v = py_repr v"

text \<open>\<open>bool(value)\<close>; a float is false when it is 0.0 or -0.0.\<close>

fun py_truthy :: "pyval \<Rightarrow> bool" where
  "py_truthy PyNone = False"
| "py_truthy (PyBool b) = b"
| "py_truthy (PyInt i) = (i \<noteq> 0)"
| "py_truthy (PyFloat r) = (r \<noteq> ''0.0'' \<and> r \<noteq> ''-0.0'')"
| "py_truthy (PyDec d) = (case d of DFin _ c _ \<Rightarrow> c \<noteq> 0 | _ \<Rightarrow> True)"
| "py_truthy (PyStr s) = (s \<noteq> [])"
| "py_truthy (PyList xs) = (xs \<noteq> [])"
| "py_truthy (PyTuple xs) = (xs \<noteq> [])"
| "py_truthy (PyDict d) = (d \<noteq> [])"
| "py_truthy _ = True"

text \<open>\<open>value == 0\<close>.\<close>

fun py_eq_zero :: "pyval \<Rightarrow> bool" where
  "py_eq_zero (PyBool b) = (\<not> b)"
| "py_eq_zero (PyInt i) = (i = 0)"
| "py_eq_zero (PyFloat r) = (r = ''0.0'' \<or> r = ''-0.0'')"
| "py_eq_zero (PyDec d) = (case d of DFin _ c _ \<Rightarrow> c = 0 | _ \<Rightarrow> False)"
| "py_eq_zero _ = False"

section \<open>isinstance tests\<close>

fun is_int :: "pyval \<Rightarrow> bool" where
  "is_int (PyInt _) = True"
| "is_int (PyBool _) = True"
| "is_int _ = False"

fun is_bool :: "pyval \<Rightarrow> bool" where
  "is_bool (PyBool _) = True"
| "is_bool _ = False"

fun is_str :: "pyval \<Rightarrow> bool" where
  "is_str (PyStr _) = True"
| "is_str _ = False"

text \<open>\<open>value is MISSING or value is None\<close>, the early return of every mapping operation.\<close>

definition absent :: "pyval \<Rightarrow> bool" where
  "absent v \<longleftrightarrow> v = PyMissing \<or> v = PyNone"

lemma absent_simps [simp]:
  "absent PyMissing" "absent PyNone" "\<not> absent (PyStr s)" "\<not> absent (PyInt i)"
  "\<not> absent (PyBool b)" "\<not> absent (PyDec d)" "\<not> absent (PyDict m)" "\<not> absent (PyList xs)"
  "\<not> absent (PyFloat r)" "\<not> absent (PyTuple xs)" "\<not> absent (PyDate dd)"
  "\<not> absent (PyDateTime t)" "\<not> absent (PyEmission e)"
  by (simp_all add: absent_def)

text \<open>The integer a value that passes \<open>isinstance(value, int)\<close> stands for.\<close>

fun int_of :: "pyval \<Rightarrow> int" where
  "int_of (PyInt i) = i"
| "int_of (PyBool b) = (if b then 1 else 0)"
| "int_of _ = 0"

lemma py_str_int: "parse_int (py_str (PyInt i)) = Some i"
  by (simp add: parse_int_str)

lemma py_str_dec: "parse_decimal (py_str (PyDec (DFin n c e))) = Some (DFin n c e)"
  by (simp only: py_str.simps parse_dec_str)

end
