(* ===== verification/PFP_Types.thy ===== *)
theory PFP_Types
  imports PFP_Str
begin

text \<open>
  The data contracts of the engine: \<open>pfp_core/ext/ext_types.py\<close> (types of operations,
  emissions, specifications) and \<open>pfp_core/engine/plan_types.py\<close> (compiled plans and compile
  diagnostics), with the compiler's small helpers on types and diagnostics from
  \<open>pfp_core/engine/compile_support\<close>.
\<close>

section \<open>Type identifiers\<close>

text \<open>
  A plan carries one of eight type ids; a \<open>TypeSpec\<close> carries a raw id, which may also be
  \<open>any\<close> or something the compiler does not know.
\<close>

datatype type_id = TString | TInt | TDecimal | TBool | TDate | TDatetime | TArrayString | TObject

fun type_name :: "type_id \<Rightarrow> string" where
  "type_name TString = ''string''"
| "type_name TInt = ''int''"
| "type_name TDecimal = ''decimal''"
| "type_name TBool = ''bool''"
| "type_name TDate = ''date''"
| "type_name TDatetime = ''datetime''"
| "type_name TArrayString = ''array[string]''"
| "type_name TObject = ''object''"

definition allowed_type_ids :: "type_id list" where
  "allowed_type_ids = [TString, TInt, TDecimal, TBool, TDate, TDatetime, TArrayString, TObject]"

definition to_plan_type_id :: "string \<Rightarrow> type_id option" where
  "to_plan_type_id raw = find (\<lambda>t. type_name t = raw) allowed_type_ids"

lemma type_name_inj: "type_name s = type_name t \<longleftrightarrow> s = t"
  by (cases s; cases t) auto

lemma to_plan_type_id_name [simp]: "to_plan_type_id (type_name t) = Some t"
  by (cases t) (simp_all add: to_plan_type_id_def allowed_type_ids_def)

lemma to_plan_type_id_Some: "to_plan_type_id raw = Some t \<longleftrightarrow> raw = type_name t"
  by (auto simp: to_plan_type_id_def find_Some_iff type_name_inj)
    (metis to_plan_type_id_def to_plan_type_id_name find_Some_iff)

definition is_type_mismatch :: "type_id option \<Rightarrow> type_id option \<Rightarrow> bool" where
  "is_type_mismatch current expected =
     (case (current, expected) of (Some c, Some e) \<Rightarrow> c \<noteq> e | _ \<Rightarrow> False)"

definition is_validation_type_mismatch :: "type_id option \<Rightarrow> type_id \<Rightarrow> bool" where
  "is_validation_type_mismatch field_type expected =
     (case field_type of None \<Rightarrow> False | Some t \<Rightarrow> t \<noteq> expected)"

text \<open>\<open>str(type)\<close> for an optional type id, as the messages print it.\<close>

fun opt_type_str :: "type_id option \<Rightarrow> string" where
  "opt_type_str None = ''None''"
| "opt_type_str (Some t) = type_name t"

section \<open>Emissions\<close>

definition emission_new :: "emission_kind \<Rightarrow> string option \<Rightarrow> emission result" where
  "emission_new k v =
     (if k = VALUE \<and> v = None then Inl ValueError
      else if k \<noteq> VALUE \<and> v \<noteq> None then Inl ValueError
      else Inr \<lparr>em_kind = k, em_value = v\<rparr>)"

definition emission_ok :: "emission \<Rightarrow> bool" where
  "emission_ok e \<longleftrightarrow> (em_kind e = VALUE \<longleftrightarrow> em_value e \<noteq> None)"

lemma emission_new_ok: "emission_new k v = Inr e \<Longrightarrow> emission_ok e \<and> em_kind e = k \<and> em_value e = v"
  by (auto simp: emission_new_def emission_ok_def split: if_splits)

lemma emission_new_iff: "(\<exists>e. emission_new k v = Inr e) \<longleftrightarrow> (k = VALUE \<longleftrightarrow> v \<noteq> None)"
  by (auto simp: emission_new_def)

definition em_VALUE :: "string \<Rightarrow> emission" where
  "em_VALUE s = \<lparr>em_kind = VALUE, em_value = Some s\<rparr>"

definition em_OMIT :: emission where
  "em_OMIT = \<lparr>em_kind = OMIT, em_value = None\<rparr>"

definition em_NULL :: emission where
  "em_NULL = \<lparr>em_kind = NULL, em_value = None\<rparr>"

lemma emission_new_simps [simp]:
  "emission_new VALUE (Some s) = Inr (em_VALUE s)"
  "emission_new OMIT None = Inr em_OMIT"
  "emission_new NULL None = Inr em_NULL"
  by (simp_all add: emission_new_def em_VALUE_def em_OMIT_def em_NULL_def)

lemma emission_consts [simp]:
  "emission_ok (em_VALUE s)" "emission_ok em_OMIT" "emission_ok em_NULL"
  "em_kind (em_VALUE s) = VALUE" "em_kind em_OMIT = OMIT" "em_kind em_NULL = NULL"
  "em_value (em_VALUE s) = Some s" "em_value em_OMIT = None" "em_value em_NULL = None"
  by (simp_all add: emission_ok_def em_VALUE_def em_OMIT_def em_NULL_def)

section \<open>Specifications of operations and modules\<close>

record type_spec =
  ts_type_id :: string
  ts_nullable :: bool
  ts_optional :: bool

record param_field_spec =
  pf_name :: string
  pf_type :: type_spec
  pf_required :: bool
  pf_constraints :: dict

record param_spec =
  ps_fields :: "param_field_spec list"
  ps_allow_extra :: bool

definition no_params :: param_spec where
  "no_params = \<lparr>ps_fields = [], ps_allow_extra = False\<rparr>"

record validation_result =
  vr_ok :: bool
  vr_details :: "string option"

record producer_context =
  pc_tax_mapping :: "dict option"

text \<open>
  What a validation module hands back, as the executor inspects it: a mapping, or an object
  with attributes.
\<close>

datatype module_result = RMapping dict | RObject dict

definition opt_str_val :: "string option \<Rightarrow> pyval" where
  "opt_str_val s = (case s of None \<Rightarrow> PyNone | Some t \<Rightarrow> PyStr t)"

definition vr_object :: "validation_result \<Rightarrow> module_result" where
  "vr_object r = RObject [(''ok'', PyBool (vr_ok r)), (''details'', opt_str_val (vr_details r))]"

record mapping_op_spec =
  op_id :: string
  op_input_type :: type_spec
  op_output_type :: type_spec
  op_args_spec :: param_spec
  op_call :: "pyval \<Rightarrow> dict \<Rightarrow> pyval result"
  op_prepare :: "(dict \<Rightarrow> producer_context option \<Rightarrow> dict result) option"

record validation_module_spec =
  vm_id :: string
  vm_value_type :: type_spec
  vm_config_spec :: param_spec
  vm_call :: "pyval \<Rightarrow> dict \<Rightarrow> dict option \<Rightarrow> string option \<Rightarrow> module_result result"

section \<open>Compile diagnostics\<close>

datatype compile_severity = CError | CWarn

record compile_diag =
  cd_code :: string
  cd_path :: string
  cd_message :: string
  cd_severity :: compile_severity

text \<open>The constructor takes the severity under its name or under a legacy alias.\<close>

definition compile_diag_new ::
  "string \<Rightarrow> string \<Rightarrow> string \<Rightarrow> compile_severity option \<Rightarrow> compile_severity option \<Rightarrow> compile_diag" where
  "compile_diag_new code path message severity legacy =
     (let resolved = (if severity \<noteq> None then severity else legacy)
      in \<lparr>cd_code = code, cd_path = path, cd_message = message,
          cd_severity = (case resolved of None \<Rightarrow> CError | Some s \<Rightarrow> s)\<rparr>)"

type_synonym diags = "compile_diag list"

definition add_error :: "diags \<Rightarrow> string \<Rightarrow> string \<Rightarrow> string \<Rightarrow> diags" where
  "add_error ds code path message = ds @ [compile_diag_new code path message (Some CError) None]"

fun severity_order :: "compile_severity \<Rightarrow> nat" where
  "severity_order CError = 0"
| "severity_order CWarn = 1"

definition compile_diag_key :: "compile_diag \<Rightarrow> nat \<times> string \<times> string \<times> string" where
  "compile_diag_key d = (severity_order (cd_severity d), cd_code d, cd_path d, cd_message d)"

definition sort_compile_diagnostics :: "diags \<Rightarrow> diags" where
  "sort_compile_diagnostics items = sort_key compile_diag_key items"

interpretation compile_sort: keyed_sort compile_diag_key sort_compile_diagnostics
  by unfold_locales (simp add: sort_compile_diagnostics_def)

lemma inj_compile_diag_key: "inj compile_diag_key"
proof (rule injI)
  fix x y :: compile_diag
  assume "compile_diag_key x = compile_diag_key y"
  then show "x = y"
    by (cases "cd_severity x"; cases "cd_severity y") (auto simp: compile_diag_key_def)
qed

lemma add_error_simps:
  "set (add_error ds c p m) = insert (compile_diag_new c p m (Some CError) None) (set ds)"
  "length (add_error ds c p m) = Suc (length ds)"
  "\<exists>e. add_error ds c p m = ds @ [e] \<and> cd_severity e = CError \<and> cd_code e = c \<and> cd_path e = p"
  by (auto simp: add_error_def compile_diag_new_def)

section \<open>Plans\<close>

datatype output_kind = CsvRow | JsonObject

datatype emission_semantics = OmitMissing | EmitNullIfMissing | ErrorIfMissing

datatype on_missing = MissPass | MissDefault | MissOmit | MissError

record mapping_op_call =
  oc_op_id :: string
  oc_args :: "dict option"
  oc_on_missing :: "on_missing option"
  oc_input_type :: "type_id option"
  oc_output_type :: "type_id option"

record field_presence_plan =
  fp_behavior :: emission_semantics

record field_mapping_plan =
  fm_field_id :: string
  fm_source_path :: string
  fm_transforms :: "mapping_op_call list"
  fm_presence :: field_presence_plan
  fm_final_type :: "type_id option"
  fm_required_source :: bool

record mapping_plan =
  mp_output_kind :: output_kind
  mp_output_order :: "string list option"
  mp_fields :: "(string, field_mapping_plan) odict"
  mp_tombstone_enabled :: bool
  mp_tombstone_flag_path :: string
  mp_tombstone_id_field :: string

record validation_rule_plan =
  rp_module_id :: string
  rp_rule_id :: "string option"
  rp_applies_to_field :: "string option"
  rp_config :: dict
  rp_on_fail_code :: "string option"
  rp_on_fail_message :: "string option"
  rp_severity_hint :: "string option"
  rp_expected_value_type :: "type_id option"

record validation_plan =
  vp_rules :: "validation_rule_plan list"

record writer_spec =
  ws_writer_id :: string
  ws_content_type :: string
  ws_file_extension :: string
  ws_config :: dict

record compiled_schema =
  cs_artifact_profile :: string
  cs_validation_plan :: validation_plan
  cs_mapping_plan :: mapping_plan
  cs_writer_spec :: writer_spec
  cs_diagnostics :: diags
  cs_is_valid :: bool

end
