(* ===== verification/PFP_Catalog.thy ===== *)
theory PFP_Catalog
  imports PFP_Types
begin

text \<open>
  \<open>ExtCatalog\<close> (\<open>pfp_core/ext/ext_catalog.py\<close>): the registry of mapping operations and of
  validation modules, and the compiler's lookups that turn a missing entry into a link
  diagnostic (\<open>pfp_core/engine/catalog_resolver.py\<close>).
\<close>

record ext_catalog =
  ec_mapping_ops :: "(string, mapping_op_spec) odict"
  ec_validation_modules :: "(string, validation_module_spec) odict"

definition empty_catalog :: ext_catalog where
  "empty_catalog = \<lparr>ec_mapping_ops = [], ec_validation_modules = []\<rparr>"

definition put_mapping_op :: "string \<Rightarrow> mapping_op_spec \<Rightarrow> ext_catalog \<Rightarrow> ext_catalog result" where
  "put_mapping_op k spec c =
     (if map_of (ec_mapping_ops c) k \<noteq> None then Inl ValueError
      else Inr (c\<lparr>ec_mapping_ops := dict_set k spec (ec_mapping_ops c)\<rparr>))"

definition register_mapping_op :: "mapping_op_spec \<Rightarrow> ext_catalog \<Rightarrow> ext_catalog result" where
  "register_mapping_op spec c = put_mapping_op (op_id spec) spec c"

definition put_validation_module ::
  "string \<Rightarrow> validation_module_spec \<Rightarrow> ext_catalog \<Rightarrow> ext_catalog result" where
  "put_validation_module k spec c =
     (if map_of (ec_validation_modules c) k \<noteq> None then Inl ValueError
      else Inr (c\<lparr>ec_validation_modules := dict_set k spec (ec_validation_modules c)\<rparr>))"

definition register_validation_module ::
  "validation_module_spec \<Rightarrow> ext_catalog \<Rightarrow> ext_catalog result" where
  "register_validation_module spec c = put_validation_module (vm_id spec) spec c"

definition get_mapping_op :: "ext_catalog \<Rightarrow> string \<Rightarrow> mapping_op_spec result" where
  "get_mapping_op c k =
     (case map_of (ec_mapping_ops c) k of None \<Rightarrow> Inl KeyError | Some s \<Rightarrow> Inr s)"

definition get_validation_module :: "ext_catalog \<Rightarrow> string \<Rightarrow> validation_module_spec result" where
  "get_validation_module c k =
     (case map_of (ec_validation_modules c) k of None \<Rightarrow> Inl KeyError | Some s \<Rightarrow> Inr s)"

definition list_mapping_ops :: "ext_catalog \<Rightarrow> string list" where
  "list_mapping_ops c = sort (dict_keys (ec_mapping_ops c))"

definition list_validation_modules :: "ext_catalog \<Rightarrow> string list" where
  "list_validation_modules c = sort (dict_keys (ec_validation_modules c))"

section \<open>The catalog meets the registry interface\<close>

interpretation ops: registry "\<lambda>_. True" put_mapping_op "\<lambda>k c. map_of (ec_mapping_ops c) k"
  by unfold_locales (auto simp: put_mapping_op_def map_of_dict_set split: if_splits)

interpretation mods: registry "\<lambda>_. True" put_validation_module
  "\<lambda>k c. map_of (ec_validation_modules c) k"
  by unfold_locales (auto simp: put_validation_module_def map_of_dict_set split: if_splits)

definition catalog_ok :: "ext_catalog \<Rightarrow> bool" where
  "catalog_ok c \<longleftrightarrow>
     dict_ok (ec_mapping_ops c) \<and> dict_ok (ec_validation_modules c)
     \<and> (\<forall>(k, s) \<in> set (ec_mapping_ops c). op_id s = k)
     \<and> (\<forall>(k, s) \<in> set (ec_validation_modules c). vm_id s = k)"

lemma catalog_ok_empty: "catalog_ok empty_catalog"
  by (simp add: catalog_ok_def empty_catalog_def)

lemma register_mapping_op_ok:
  "catalog_ok c \<Longrightarrow> register_mapping_op s c = Inr c' \<Longrightarrow> catalog_ok c'"
  by (auto simp: catalog_ok_def register_mapping_op_def put_mapping_op_def dict_ok_snoc
      dict_set_fresh split: if_splits)

lemma register_validation_module_ok:
  "catalog_ok c \<Longrightarrow> register_validation_module s c = Inr c' \<Longrightarrow> catalog_ok c'"
  by (auto simp: catalog_ok_def register_validation_module_def put_validation_module_def
      dict_ok_snoc dict_set_fresh split: if_splits)

text \<open>An entry found under a key was registered under its own identifier.\<close>

lemma get_mapping_op_id: "catalog_ok c \<Longrightarrow> get_mapping_op c k = Inr s \<Longrightarrow> op_id s = k"
  by (auto simp: catalog_ok_def get_mapping_op_def split: option.splits dest!: map_of_SomeD)

lemma get_validation_module_id:
  "catalog_ok c \<Longrightarrow> get_validation_module c k = Inr s \<Longrightarrow> vm_id s = k"
  by (auto simp: catalog_ok_def get_validation_module_def split: option.splits dest!: map_of_SomeD)

lemma list_mapping_ops_iff: "k \<in> set (list_mapping_ops c) \<longleftrightarrow> (\<exists>s. get_mapping_op c k = Inr s)"
  by (auto simp: list_mapping_ops_def set_dict_keys get_mapping_op_def split: option.splits)

section \<open>Lookups during compilation\<close>

definition try_get_mapping_op ::
  "ext_catalog \<Rightarrow> string \<Rightarrow> string \<Rightarrow> diags \<Rightarrow> mapping_op_spec option \<times> diags" where
  "try_get_mapping_op c k path ds =
     (case get_mapping_op c k of
        Inr s \<Rightarrow> (Some s, ds)
      | Inl _ \<Rightarrow> (None, add_error ds ''SCHEMA_LINK_OP_NOT_FOUND'' path
          (''Mapping op '' @ [CHR 0x27] @ k @ [CHR 0x27] @ '' is allowed but not found in catalog.'')))"

definition try_get_validation_module ::
  "ext_catalog \<Rightarrow> string \<Rightarrow> string \<Rightarrow> diags \<Rightarrow> validation_module_spec option \<times> diags" where
  "try_get_validation_module c k path ds =
     (case get_validation_module c k of
        Inr s \<Rightarrow> (Some s, ds)
      | Inl _ \<Rightarrow> (None, add_error ds ''SCHEMA_LINK_MODULE_NOT_FOUND'' path
          (''Validation module '' @ [CHR 0x27] @ k @ [CHR 0x27]
           @ '' is allowed but not found in catalog.'')))"

end
