(* ===== verification/PFP_Mapping_Ops.thy ===== *)
theory PFP_Mapping_Ops
  imports PFP_Catalog
begin

text \<open>
  The built-in mapping operations, one function and one specification per module of
  \<open>pfp_core/ext/mapping\<close>, and the contract registry \<open>MAPPING_OP_REGISTRY\<close> that lists them.

  A few operations hand a user-supplied pattern to an engine of the Python library: regular
  expressions, \<open>strptime\<close> and \<open>strftime\<close>, the ISO date parsers, \<open>str.format\<close>, the HTML entity
  table, and \<open>int\<close> of a float.  Those engines are the fields of \<open>pylib\<close>, an argument of the
  operations that use them; no law is assumed of them.
\<close>

record pylib =
  lib_search :: "string \<Rightarrow> string \<Rightarrow> string option list option result"
  lib_unescape :: "string \<Rightarrow> string"
  lib_strptime :: "string \<Rightarrow> string \<Rightarrow> (nat \<times> nat \<times> nat) result"
  lib_date_iso :: "string \<Rightarrow> (nat \<times> nat \<times> nat) result"
  lib_datetime_iso :: "string \<Rightarrow> pydatetime result"
  lib_date_strftime :: "nat \<times> nat \<times> nat \<Rightarrow> string \<Rightarrow> string result"
  lib_datetime_strftime :: "pydatetime \<Rightarrow> string \<Rightarrow> string result"
  lib_to_utc :: "pydatetime \<Rightarrow> pydatetime result"
  lib_format :: "string \<Rightarrow> dict \<Rightarrow> string result"
  lib_float_int :: "string \<Rightarrow> int result"

section \<open>Specifications\<close>

definition tspec :: "string \<Rightarrow> bool \<Rightarrow> bool \<Rightarrow> type_spec" where
  "tspec t n opt = \<lparr>ts_type_id = t, ts_nullable = n, ts_optional = opt\<rparr>"

definition pfield :: "string \<Rightarrow> type_spec \<Rightarrow> bool \<Rightarrow> dict \<Rightarrow> param_field_spec" where
  "pfield n t req cs = \<lparr>pf_name = n, pf_type = t, pf_required = req, pf_constraints = cs\<rparr>"

definition pspec :: "param_field_spec list \<Rightarrow> param_spec" where
  "pspec fs = \<lparr>ps_fields = fs, ps_allow_extra = False\<rparr>"

definition opspec :: "string \<Rightarrow> type_spec \<Rightarrow> type_spec \<Rightarrow> param_spec
    \<Rightarrow> (pyval \<Rightarrow> dict \<Rightarrow> pyval result) \<Rightarrow> mapping_op_spec" where
  "opspec n i out ps f = \<lparr>op_id = n, op_input_type = i, op_output_type = out, op_args_spec = ps,
     op_call = f, op_prepare = None\<rparr>"

lemma opspec_simps [simp]:
  "op_id (opspec n i out ps f) = n" "op_call (opspec n i out ps f) = f"
  "op_input_type (opspec n i out ps f) = i" "op_output_type (opspec n i out ps f) = out"
  "op_prepare (opspec n i out ps f) = None"
  "ts_type_id (tspec t b c) = t"
  by (simp_all add: opspec_def tspec_def)

section \<open>Presence\<close>

definition op_default_value :: "pyval \<Rightarrow> dict \<Rightarrow> pyval result" where
  "op_default_value v args =
     (if \<not> dhas args ''value'' then Inl ValueError
      else if absent v then Inr (dget args ''value'')
      else Inr v)"

definition default_value_spec :: mapping_op_spec where
  "default_value_spec = opspec ''default_value'' (tspec ''any'' True True) (tspec ''any'' True True)
     (pspec [pfield ''value'' (tspec ''any'' True False) True []]) op_default_value"

definition op_emit_if_present :: "pyval \<Rightarrow> dict \<Rightarrow> pyval result" where
  "op_emit_if_present v args =
     (if v = PyMissing then Inr (PyEmission em_OMIT)
      else if v = PyNone then Inr (PyEmission em_NULL)
      else Inr (PyEmission (em_VALUE (py_str v))))"

definition emit_if_present_spec :: mapping_op_spec where
  "emit_if_present_spec = opspec ''emit_if_present'' (tspec ''any'' True True)
     (tspec ''object'' False False) no_params op_emit_if_present"

definition op_emit_null_if_missing :: "pyval \<Rightarrow> dict \<Rightarrow> pyval result" where
  "op_emit_null_if_missing v args = Inr (PyEmission em_NULL)"

definition emit_null_if_missing_spec :: mapping_op_spec where
  "emit_null_if_missing_spec = opspec ''emit_null_if_missing'' (tspec ''any'' True True)
     (tspec ''object'' False False) no_params op_emit_null_if_missing"

definition op_omit_if_missing :: "pyval \<Rightarrow> dict \<Rightarrow> pyval result" where
  "op_omit_if_missing v args = Inr (PyEmission em_OMIT)"

definition omit_if_missing_spec :: mapping_op_spec where
  "omit_if_missing_spec = opspec ''omit_if_missing'' (tspec ''any'' True True)
     (tspec ''object'' False False) no_params op_omit_if_missing"

section \<open>Path extraction\<close>

text \<open>One segment of a dotted path, on a mapping or by index on a list.\<close>

fun path_step :: "pyval \<Rightarrow> string \<Rightarrow> pyval" where
  "path_step (PyDict d) seg = (case map_of d seg of Some v \<Rightarrow> v | None \<Rightarrow> PyMissing)"
| "path_step (PyList xs) seg =
     (case parse_int seg of
        None \<Rightarrow> PyMissing
      | Some i \<Rightarrow> if i < 0 \<or> i \<ge> int (length xs) then PyMissing else xs ! nat i)"
| "path_step _ seg = PyMissing"

text \<open>
  The loop of \<open>_get_path\<close> returns at the first segment that does not resolve; a value that is
  itself the sentinel ends the walk as well, as it is neither a mapping nor a list.
\<close>

fun walk_path :: "pyval \<Rightarrow> string list \<Rightarrow> pyval" where
  "walk_path v [] = v"
| "walk_path v (seg # segs) =
     (let w = path_step v seg in if w = PyMissing then PyMissing else walk_path w segs)"

definition op_get_path :: "pyval \<Rightarrow> dict \<Rightarrow> pyval result" where
  "op_get_path v args =
     (case dget args ''path'' of
        PyStr path \<Rightarrow> if path = [] then Inl ValueError else Inr (walk_path v (split_on (CHR ''.'') path))
      | _ \<Rightarrow> Inl ValueError)"

definition get_path_spec :: mapping_op_spec where
  "get_path_spec = opspec ''get_path'' (tspec ''any'' True True) (tspec ''any'' True True)
     (pspec [pfield ''path'' (tspec ''string'' False False) True []]) op_get_path"

section \<open>Conversions\<close>

definition op_to_str :: "pyval \<Rightarrow> dict \<Rightarrow> pyval result" where
  "op_to_str v args = (if absent v then Inr v else Inr (PyStr (py_str v)))"

definition to_str_spec :: mapping_op_spec where
  "to_str_spec = opspec ''to_str'' (tspec ''any'' True True) (tspec ''string'' True True)
     no_params op_to_str"

definition op_to_int :: "pyval \<Rightarrow> dict \<Rightarrow> pyval result" where
  "op_to_int v args =
     (if absent v then Inr v
      else case v of
        PyBool _ \<Rightarrow> Inl ValueError
      | PyInt i \<Rightarrow> Inr v
      | PyStr s \<Rightarrow>
          (let stripped = strip s in
           if stripped = [] then Inl ValueError
           else case parse_int stripped of None \<Rightarrow> Inl ValueError | Some i \<Rightarrow> Inr (PyInt i))
      | _ \<Rightarrow> Inl ValueError)"

definition to_int_spec :: mapping_op_spec where
  "to_int_spec = opspec ''to_int'' (tspec ''any'' True True) (tspec ''int'' True True)
     no_params op_to_int"

definition op_to_decimal :: "pyval \<Rightarrow> dict \<Rightarrow> pyval result" where
  "op_to_decimal v args =
     (if absent v then Inr v
      else case v of
        PyBool _ \<Rightarrow> Inl ValueError
      | PyDec d \<Rightarrow> Inr v
      | _ \<Rightarrow> (case parse_decimal (py_str v) of None \<Rightarrow> Inl ValueError | Some d \<Rightarrow> Inr (PyDec d)))"

definition to_decimal_spec :: mapping_op_spec where
  "to_decimal_spec = opspec ''to_decimal'' (tspec ''any'' True True) (tspec ''decimal'' True True)
     no_params op_to_decimal"

definition true_set :: "string list" where
  "true_set = [''true'', ''1'', ''yes'', ''y'', ''on'']"

definition false_set :: "string list" where
  "false_set = [''false'', ''0'', ''no'', ''n'', ''off'']"

definition op_to_bool :: "pyval \<Rightarrow> dict \<Rightarrow> pyval result" where
  "op_to_bool v args =
     (if absent v then Inr v
      else case v of
        PyBool _ \<Rightarrow> Inr v
      | PyInt i \<Rightarrow> if i = 0 \<or> i = 1 then Inr (PyBool (i \<noteq> 0)) else Inl ValueError
      | PyStr s \<Rightarrow>
          (let normalized = lower (strip s) in
           if normalized \<in> set true_set then Inr (PyBool True)
           else if normalized \<in> set false_set then Inr (PyBool False)
           else Inl ValueError)
      | _ \<Rightarrow> Inl ValueError)"

definition to_bool_spec :: mapping_op_spec where
  "to_bool_spec = opspec ''to_bool'' (tspec ''any'' True True) (tspec ''bool'' True True)
     no_params op_to_bool"

definition op_bool_to_availability :: "pyval \<Rightarrow> dict \<Rightarrow> pyval result" where
  "op_bool_to_availability v args =
     (if absent v then Inr v
      else case v of
        PyBool b \<Rightarrow> Inr (PyStr (if b then ''in_stock'' else ''out_of_stock''))
      | PyStr s \<Rightarrow>
          (let normalized = lower (strip s) in
           if normalized \<in> {''true'', ''1'', ''yes''} then Inr (PyStr ''in_stock'')
           else if normalized \<in> {''false'', ''0'', ''no''} then Inr (PyStr ''out_of_stock'')
           else Inl ValueError)
      | PyInt i \<Rightarrow>
          if i = 1 then Inr (PyStr ''in_stock'')
          else if i = 0 then Inr (PyStr ''out_of_stock'')
          else Inl ValueError
      | _ \<Rightarrow> Inl TypeError)"

definition bool_to_availability_spec :: mapping_op_spec where
  "bool_to_availability_spec = opspec ''bool_to_availability'' (tspec ''any'' True True)
     (tspec ''string'' True True) no_params op_bool_to_availability"

definition op_int_to_availability :: "pyval \<Rightarrow> dict \<Rightarrow> pyval result" where
  "op_int_to_availability v args =
     (case v of
        PyMissing \<Rightarrow> Inr PyMissing
      | PyNone \<Rightarrow> Inr (PyStr ''out_of_stock'')
      | PyBool _ \<Rightarrow> Inl TypeError
      | PyInt i \<Rightarrow> Inr (PyStr (if i > 0 then ''in_stock'' else ''out_of_stock''))
      | _ \<Rightarrow> Inl TypeError)"

definition int_to_availability_spec :: mapping_op_spec where
  "int_to_availability_spec = opspec ''int_to_availability'' (tspec ''any'' True True)
     (tspec ''string'' False True) no_params op_int_to_availability"

section \<open>Strings\<close>

definition str_op :: "(string \<Rightarrow> string) \<Rightarrow> exn \<Rightarrow> pyval \<Rightarrow> pyval result" where
  "str_op f e v =
     (if absent v then Inr v else case v of PyStr s \<Rightarrow> Inr (PyStr (f s)) | _ \<Rightarrow> Inl e)"

definition op_trim :: "pyval \<Rightarrow> dict \<Rightarrow> pyval result" where
  "op_trim v args = str_op strip ValueError v"

definition op_lower :: "pyval \<Rightarrow> dict \<Rightarrow> pyval result" where
  "op_lower v args = str_op lower ValueError v"

definition op_upper :: "pyval \<Rightarrow> dict \<Rightarrow> pyval result" where
  "op_upper v args = str_op upper ValueError v"

definition op_normalize_whitespace :: "pyval \<Rightarrow> dict \<Rightarrow> pyval result" where
  "op_normalize_whitespace v args = str_op (\<lambda>s. strip (collapse_ws False s)) ValueError v"

definition str_op_spec :: "string \<Rightarrow> (pyval \<Rightarrow> dict \<Rightarrow> pyval result) \<Rightarrow> mapping_op_spec" where
  "str_op_spec n f = opspec n (tspec ''string'' True True) (tspec ''string'' True True) no_params f"

definition trim_spec :: mapping_op_spec where
  "trim_spec = str_op_spec ''trim'' op_trim"

definition lower_spec :: mapping_op_spec where
  "lower_spec = str_op_spec ''lower'' op_lower"

definition upper_spec :: mapping_op_spec where
  "upper_spec = str_op_spec ''upper'' op_upper"

definition normalize_whitespace_spec :: mapping_op_spec where
  "normalize_whitespace_spec = str_op_spec ''normalize_whitespace'' op_normalize_whitespace"

text \<open>\<open>re.sub(r"<[^>]+>", " ", s)\<close>\<close>

function (sequential) strip_tags :: "string \<Rightarrow> string" where
  "strip_tags [] = []"
| "strip_tags (c # cs) =
     (if c = CHR ''<'' \<and> takeWhile (\<lambda>x. x \<noteq> CHR ''>'') cs \<noteq> []
         \<and> dropWhile (\<lambda>x. x \<noteq> CHR ''>'') cs \<noteq> []
      then CHR '' '' # strip_tags (tl (dropWhile (\<lambda>x. x \<noteq> CHR ''>'') cs))
      else c # strip_tags cs)"
  by pat_completeness auto
termination
proof (relation "measure length")
  fix c :: char and cs :: string
  have "length (dropWhile (\<lambda>x. x \<noteq> CHR ''>'') cs) \<le> length cs"
    by (rule length_dropWhile_le)
  then show "(tl (dropWhile (\<lambda>x. x \<noteq> CHR ''>'') cs), c # cs) \<in> measure length" by simp
qed auto

definition op_strip_html :: "pylib \<Rightarrow> pyval \<Rightarrow> dict \<Rightarrow> pyval result" where
  "op_strip_html lib v args =
     str_op (\<lambda>s. strip (collapse_ws False (lib_unescape lib (strip_tags s)))) TypeError v"

definition strip_html_spec :: "pylib \<Rightarrow> mapping_op_spec" where
  "strip_html_spec lib = str_op_spec ''strip_html'' (op_strip_html lib)"

definition parse_delimiters :: "dict \<Rightarrow> string list result" where
  "parse_delimiters args =
     (case dget args ''delimiters'' of
        PyList xs \<Rightarrow>
          if xs = [] \<or> \<not> (\<forall>x \<in> set xs. is_str x) then Inl ValueError
          else Inr (map (\<lambda>x. case x of PyStr s \<Rightarrow> s | _ \<Rightarrow> []) xs)
      | _ \<Rightarrow> Inl ValueError)"

definition best_pos :: "string \<Rightarrow> string list \<Rightarrow> int" where
  "best_pos s ds = foldl (\<lambda>best d. if rfind s d > best then rfind s d else best) (-1) ds"

definition op_strip_suffix :: "pyval \<Rightarrow> dict \<Rightarrow> pyval result" where
  "op_strip_suffix v args =
     rbind (parse_delimiters args) (\<lambda>delimiters.
       if absent v then Inr v
       else let s = py_str v; best = best_pos s delimiters in
         if best \<ge> 0 then Inr (PyStr (take (nat best) s)) else Inr (PyStr s))"

definition strip_suffix_spec :: mapping_op_spec where
  "strip_suffix_spec = opspec ''strip_suffix'' (tspec ''any'' True True) (tspec ''string'' True True)
     (pspec [pfield ''delimiters'' (tspec ''array[string]'' False False) True
        [(''min_items'', PyInt 1)]]) op_strip_suffix"

definition op_truncate :: "pyval \<Rightarrow> dict \<Rightarrow> pyval result" where
  "op_truncate v args =
     (case dget args ''max_length'' of
        PyInt n \<Rightarrow>
          if n < 1 then Inl ValueError
          else if absent v then Inr v
          else let s = py_str v in
            if int (length s) > n then Inr (PyStr (take (nat n) s)) else Inr (PyStr s)
      | _ \<Rightarrow> Inl ValueError)"

definition truncate_spec :: mapping_op_spec where
  "truncate_spec = opspec ''truncate'' (tspec ''any'' True True) (tspec ''string'' True True)
     (pspec [pfield ''max_length'' (tspec ''int'' False False) True [(''min'', PyInt 1)]]) op_truncate"

text \<open>
  \<open>match.group(n)\<close> is \<open>None\<close> for a group that took no part in the match and raises when the
  pattern has no group \<open>n\<close>.
\<close>

definition match_group :: "nat \<Rightarrow> string option list option \<Rightarrow> pyval result" where
  "match_group g m =
     (case m of
        None \<Rightarrow> Inr PyMissing
      | Some groups \<Rightarrow>
          if g < length groups
          then Inr (case groups ! g of None \<Rightarrow> PyNone | Some s \<Rightarrow> PyStr s)
          else Inl ValueError)"

definition op_regex_extract :: "pylib \<Rightarrow> pyval \<Rightarrow> dict \<Rightarrow> pyval result" where
  "op_regex_extract lib v args =
     (case dget args ''pattern'' of
        PyStr pat \<Rightarrow>
          if pat = [] then Inl ValueError
          else (case dget_or args ''group'' (PyInt 1) of
            PyInt g \<Rightarrow>
              if g < 0 then Inl ValueError
              else if absent v then Inr v
              else rbind (lib_search lib pat (py_str v)) (match_group (nat g))
          | _ \<Rightarrow> Inl ValueError)
      | _ \<Rightarrow> Inl ValueError)"

definition regex_extract_spec :: "pylib \<Rightarrow> mapping_op_spec" where
  "regex_extract_spec lib = opspec ''regex_extract'' (tspec ''any'' True True)
     (tspec ''string'' True True)
     (pspec [pfield ''pattern'' (tspec ''string'' False False) True [],
             pfield ''group'' (tspec ''int'' False True) False [(''min'', PyInt 0)]])
     (op_regex_extract lib)"

section \<open>Dates\<close>

definition op_parse_date :: "pylib \<Rightarrow> pyval \<Rightarrow> dict \<Rightarrow> pyval result" where
  "op_parse_date lib v args =
     (if absent v then Inr v
      else let fmt = dget args ''fmt'' in
        if fmt \<noteq> PyNone \<and> \<not> is_str fmt then Inl ValueError
        else case v of
            PyDateTime t \<Rightarrow> Inr (PyDate (dt_date t))
          | PyDate d \<Rightarrow> Inr v
          | PyStr s \<Rightarrow>
              (case fmt of
                 PyStr (c # cs) \<Rightarrow> rbind (lib_strptime lib s (c # cs)) (\<lambda>d. Inr (PyDate d))
               | _ \<Rightarrow> rbind (lib_date_iso lib s) (\<lambda>d. Inr (PyDate d)))
          | _ \<Rightarrow> Inl ValueError)"

definition parse_date_spec :: "pylib \<Rightarrow> mapping_op_spec" where
  "parse_date_spec lib = opspec ''parse_date'' (tspec ''any'' True True) (tspec ''date'' True True)
     (pspec [pfield ''fmt'' (tspec ''string'' False True) False []]) (op_parse_date lib)"

definition normalized_date :: "pylib \<Rightarrow> pyval \<Rightarrow> (nat \<times> nat \<times> nat) result" where
  "normalized_date lib v =
     (case v of
        PyDateTime t \<Rightarrow> Inr (dt_date t)
      | PyDate d \<Rightarrow> Inr d
      | PyStr s \<Rightarrow> lib_date_iso lib s
      | _ \<Rightarrow> Inl ValueError)"

definition op_format_date :: "pylib \<Rightarrow> pyval \<Rightarrow> dict \<Rightarrow> pyval result" where
  "op_format_date lib v args =
     (if absent v then Inr v
      else case dget_or args ''out_fmt'' (PyStr ''YYYY-MM-DD'') of
          PyStr out_fmt \<Rightarrow>
            rbind (normalized_date lib v) (\<lambda>d.
              if out_fmt = ''YYYY-MM-DD''
              then rbind (lib_date_strftime lib d ''%Y-%m-%d'') (\<lambda>s. Inr (PyStr s))
              else rbind (lib_date_strftime lib d out_fmt) (\<lambda>s. Inr (PyStr s)))
        | _ \<Rightarrow> Inl ValueError)"

definition format_date_spec :: "pylib \<Rightarrow> mapping_op_spec" where
  "format_date_spec lib = opspec ''format_date'' (tspec ''any'' True True)
     (tspec ''string'' True True)
     (pspec [pfield ''out_fmt'' (tspec ''string'' False True) False []]) (op_format_date lib)"

definition to_datetime :: "pylib \<Rightarrow> pyval \<Rightarrow> pydatetime result" where
  "to_datetime lib v =
     (case v of
        PyDateTime t \<Rightarrow> Inr t
      | PyStr s \<Rightarrow>
          (let txt = strip s;
               txt' = (if endswith txt ''Z'' then take (length txt - 1) txt @ ''+00:00'' else txt)
           in lib_datetime_iso lib txt')
      | _ \<Rightarrow> Inl ValueError)"

definition op_format_datetime_utc :: "pylib \<Rightarrow> pyval \<Rightarrow> dict \<Rightarrow> pyval result" where
  "op_format_datetime_utc lib v args =
     (if absent v then Inr v
      else case dget_or args ''out_fmt'' (PyStr ''ISO8601'') of
          PyStr out_fmt \<Rightarrow>
            rbind (to_datetime lib v) (\<lambda>t.
            rbind (if dt_offset t = None then Inr (t\<lparr>dt_offset := Some 0\<rparr>) else lib_to_utc lib t)
              (\<lambda>u. rbind (lib_datetime_strftime lib u
                       (if out_fmt = ''ISO8601'' then ''%Y-%m-%dT%H:%M:%SZ'' else out_fmt))
                     (\<lambda>s. Inr (PyStr s))))
        | _ \<Rightarrow> Inl ValueError)"

definition format_datetime_utc_spec :: "pylib \<Rightarrow> mapping_op_spec" where
  "format_datetime_utc_spec lib = opspec ''format_datetime_utc'' (tspec ''any'' True True)
     (tspec ''string'' True True)
     (pspec [pfield ''out_fmt'' (tspec ''string'' False True) False []])
     (op_format_datetime_utc lib)"

section \<open>Numbers\<close>

text \<open>\<open>isinstance(x, int)\<close> also accepts a bool, which counts as 0 or 1.\<close>

definition get_decimals :: "dict \<Rightarrow> nat result" where
  "get_decimals args =
     (let d = dget args ''decimals'' in
      if \<not> is_int d \<or> int_of d < 0 then Inl ValueError else Inr (nat (int_of d)))"

definition op_round_decimal :: "pyval \<Rightarrow> dict \<Rightarrow> pyval result" where
  "op_round_decimal v args =
     (if absent v then Inr v
      else rbind (get_decimals args) (\<lambda>places.
        case parse_decimal (py_str v) of
          None \<Rightarrow> Inl ValueError
        | Some d \<Rightarrow> rbind (quantize d places) (\<lambda>q. Inr (PyDec q))))"

definition round_decimal_spec :: mapping_op_spec where
  "round_decimal_spec = opspec ''round_decimal'' (tspec ''any'' True True)
     (tspec ''decimal'' True True)
     (pspec [pfield ''decimals'' (tspec ''int'' False False) True [(''min'', PyInt 0)]])
     op_round_decimal"

text \<open>\<open>except (KeyError, ValueError): raise ValueError\<close>\<close>

fun format_error :: "exn \<Rightarrow> exn" where
  "format_error KeyError = ValueError"
| "format_error e = e"

fun map_exn :: "(exn \<Rightarrow> exn) \<Rightarrow> 'a result \<Rightarrow> 'a result" where
  "map_exn f (Inl e) = Inl (f e)"
| "map_exn f (Inr x) = Inr x"

lemma map_exn_Inr [simp]: "map_exn f m = Inr x \<longleftrightarrow> m = Inr x"
  by (cases m) auto

definition money_config :: "dict \<Rightarrow> (nat \<times> string \<times> string) result" where
  "money_config args =
     rbind (get_decimals args) (\<lambda>places.
       case dget args ''pattern'' of
         PyStr pat \<Rightarrow>
           if pat = [] then Inl ValueError
           else (case dget_or args ''currency'' (PyStr []) of
                   PyStr cur \<Rightarrow> Inr (places, pat, cur)
                 | _ \<Rightarrow> Inl ValueError)
       | _ \<Rightarrow> Inl ValueError)"

definition op_format_money :: "pylib \<Rightarrow> pyval \<Rightarrow> dict \<Rightarrow> pyval result" where
  "op_format_money lib v args =
     (if absent v then Inr v
      else rbind (money_config args) (\<lambda>(places, pat, cur).
        case parse_decimal (py_str v) of
          None \<Rightarrow> Inl ValueError
        | Some d \<Rightarrow>
            rbind (quantize d places) (\<lambda>rounded.
            rbind (map_exn format_error
                (lib_format lib pat [(''amount'', PyDec rounded), (''currency'', PyStr cur)]))
              (\<lambda>s. Inr (PyStr s)))))"

definition format_money_spec :: "pylib \<Rightarrow> mapping_op_spec" where
  "format_money_spec lib = opspec ''format_money'' (tspec ''any'' True True)
     (tspec ''string'' True True)
     (pspec [pfield ''decimals'' (tspec ''int'' False False) True [(''min'', PyInt 0)],
             pfield ''pattern'' (tspec ''string'' False False) True [],
             pfield ''currency'' (tspec ''string'' False True) False []])
     (op_format_money lib)"

definition price_amount :: "pyval \<Rightarrow> string result" where
  "price_amount v =
     (case v of
        PyStr s \<Rightarrow> Inr (strip s)
      | PyInt i \<Rightarrow> Inr (strip (py_str v))
      | PyFloat r \<Rightarrow> Inr (strip (py_str v))
      | _ \<Rightarrow> Inl TypeError)"

definition op_format_price :: "pyval \<Rightarrow> dict \<Rightarrow> pyval result" where
  "op_format_price v args =
     (if absent v then Inr v
      else rbind (price_amount v) (\<lambda>amount.
        if amount = [] then Inr PyMissing
        else let currency = dget args ''currency'' in
          if absent currency then Inr (PyStr amount)
          else let cur = strip (py_str currency) in
            if cur = [] then Inr (PyStr amount)
            else Inr (PyStr (amount @ '' '' @ cur))))"

definition format_price_spec :: mapping_op_spec where
  "format_price_spec = opspec ''format_price'' (tspec ''any'' True True)
     (tspec ''string'' True True)
     (pspec [pfield ''currency'' (tspec ''string'' True True) False []]) op_format_price"

end
