(* ===== verification/PFP_Feed_Ops.thy ===== *)
theory PFP_Feed_Ops
  imports PFP_Mapping_Ops
begin

text \<open>
  The two operations that build feed-specific texts from structured values,
  \<open>module_mapping_format_shipping.py\<close> and \<open>module_mapping_map_tax_code.py\<close>.
\<close>

section \<open>format_shipping\<close>

text \<open>\<open>\w\<close> on code points below 256.\<close>

definition is_word :: "char \<Rightarrow> bool" where
  "is_word c = (let n = (of_char c :: nat) in
     48 \<le> n \<and> n \<le> 57 \<or> 65 \<le> n \<and> n \<le> 90 \<or> n = 95 \<or> 97 \<le> n \<and> n \<le> 122
     \<or> n \<in> {170, 178, 179, 181, 185, 186, 188, 189, 190}
     \<or> 192 \<le> n \<and> n \<noteq> 215 \<and> n \<noteq> 247)"

text \<open>\<open>re.compile(r"\{(\w+)\}").findall(pattern)\<close>\<close>

function (sequential) find_placeholders :: "string \<Rightarrow> string list" where
  "find_placeholders [] = []"
| "find_placeholders (c # cs) =
     (if c = CHR 0x7B \<and> takeWhile is_word cs \<noteq> []
         \<and> take 1 (dropWhile is_word cs) = [CHR 0x7D]
      then takeWhile is_word cs # find_placeholders (tl (dropWhile is_word cs))
      else find_placeholders cs)"
  by pat_completeness auto
termination
proof (relation "measure length")
  fix c :: char and cs :: string
  have "length (dropWhile is_word cs) \<le> length cs" by (rule length_dropWhile_le)
  then show "(tl (dropWhile is_word cs), c # cs) \<in> measure length" by simp
qed auto

definition shipping_config :: "dict \<Rightarrow> (string \<times> dict \<times> string \<times> bool) result" where
  "shipping_config args =
     (case dget args ''pattern'' of
        PyStr pat \<Rightarrow>
          if pat = [] then Inl ValueError
          else (case dget_or args ''defaults'' (PyDict []) of
            PyDict defaults \<Rightarrow>
              (case dget_or args ''separator'' (PyStr '','') of
                 PyStr sep \<Rightarrow>
                   (case dget_or args ''strip_colons'' (PyBool True) of
                      PyBool b \<Rightarrow> Inr (pat, defaults, sep, b)
                    | _ \<Rightarrow> Inl ValueError)
               | _ \<Rightarrow> Inl ValueError)
          | _ \<Rightarrow> Inl ValueError)
      | _ \<Rightarrow> Inl ValueError)"

definition sanitize_field :: "pyval \<Rightarrow> bool \<Rightarrow> string" where
  "sanitize_field v strip_colons =
     (let txt = strip (py_str v) in
      if strip_colons then filter (\<lambda>c. c \<noteq> CHR '':'') txt else txt)"

definition dec_trunc :: "bool \<Rightarrow> nat \<Rightarrow> int \<Rightarrow> int" where
  "dec_trunc neg c e =
     (if e \<ge> 0 then signed neg (c * 10 ^ nat e) else signed neg (c div 10 ^ nat (- e)))"

text \<open>\<open>int(value)\<close>\<close>

definition py_int :: "pylib \<Rightarrow> pyval \<Rightarrow> int result" where
  "py_int lib v =
     (case v of
        PyInt i \<Rightarrow> Inr i
      | PyBool b \<Rightarrow> Inr (if b then 1 else 0)
      | PyFloat r \<Rightarrow> lib_float_int lib r
      | PyStr s \<Rightarrow> (case parse_int s of None \<Rightarrow> Inl ValueError | Some i \<Rightarrow> Inr i)
      | PyDec d \<Rightarrow>
          (case d of DFin neg c e \<Rightarrow> Inr (dec_trunc neg c e)
           | DInf _ \<Rightarrow> Inl OverflowError
           | DNaN _ _ _ \<Rightarrow> Inl ValueError)
      | _ \<Rightarrow> Inl TypeError)"

fun int_error :: "exn \<Rightarrow> exn" where
  "int_error TypeError = ValueError"
| "int_error e = e"

definition safe_int :: "pylib \<Rightarrow> pyval \<Rightarrow> int result" where
  "safe_int lib v = map_exn int_error (py_int lib v)"

definition speed_range_fields :: "string list" where
  "speed_range_fields =
     [''min_handling_time'', ''max_handling_time'', ''min_transit_time'', ''max_transit_time'']"

definition speed_value :: "pylib \<Rightarrow> dict \<Rightarrow> dict \<Rightarrow> string \<Rightarrow> int result" where
  "speed_value lib entry defaults field =
     (let raw = dget entry field in
      safe_int lib (if raw = PyNone \<or> raw = PyStr [] then dget_or defaults field (PyInt 0) else raw))"

definition compute_speed_range :: "pylib \<Rightarrow> dict \<Rightarrow> dict \<Rightarrow> string result" where
  "compute_speed_range lib entry defaults =
     rbind (rmap (speed_value lib entry defaults) speed_range_fields) (\<lambda>vals.
       Inr (int_str (vals ! 0 + vals ! 2) @ ''-'' @ int_str (vals ! 1 + vals ! 3)))"

definition resolve_placeholder :: "pylib \<Rightarrow> dict \<Rightarrow> dict \<Rightarrow> bool \<Rightarrow> string \<Rightarrow> string result" where
  "resolve_placeholder lib entry defaults strip_colons name =
     (if name = ''speed_range'' then compute_speed_range lib entry defaults
      else let raw = dget entry name;
               raw' = (if raw = PyNone \<or> raw = PyStr [] then dget defaults name else raw)
           in if raw' = PyNone then Inl ValueError else Inr (sanitize_field raw' strip_colons))"

fun resolve_all :: "(string \<Rightarrow> string result) \<Rightarrow> string list \<Rightarrow> dict \<Rightarrow> dict result" where
  "resolve_all f [] resolved = Inr resolved"
| "resolve_all f (name # names) resolved =
     rbind (f name) (\<lambda>t. resolve_all f names (dict_set name (PyStr t) resolved))"

definition format_entry ::
  "pylib \<Rightarrow> dict \<Rightarrow> string \<Rightarrow> dict \<Rightarrow> bool \<Rightarrow> string list \<Rightarrow> string result" where
  "format_entry lib entry pat defaults strip_colons names =
     rbind (resolve_all (resolve_placeholder lib entry defaults strip_colons) names [])
       (\<lambda>resolved. map_exn format_error (lib_format lib pat resolved))"

definition shipping_part ::
  "pylib \<Rightarrow> string \<Rightarrow> dict \<Rightarrow> bool \<Rightarrow> string list \<Rightarrow> pyval \<Rightarrow> string result" where
  "shipping_part lib pat defaults strip_colons names entry =
     (case entry of
        PyStr s \<Rightarrow> Inr s
      | PyDict d \<Rightarrow> format_entry lib d pat defaults strip_colons names
      | _ \<Rightarrow> Inl ValueError)"

definition op_format_shipping :: "pylib \<Rightarrow> pyval \<Rightarrow> dict \<Rightarrow> pyval result" where
  "op_format_shipping lib v args =
     rbind (shipping_config args) (\<lambda>(pat, defaults, sep, strip_colons).
       if absent v then Inr v
       else if is_str v then Inr v
       else let names = find_placeholders pat;
                entries = (case v of PyList xs \<Rightarrow> xs | _ \<Rightarrow> [v])
            in rbind (rmap (shipping_part lib pat defaults strip_colons names) entries)
                 (\<lambda>parts. Inr (PyStr (join sep parts))))"

definition format_shipping_spec :: "pylib \<Rightarrow> mapping_op_spec" where
  "format_shipping_spec lib = opspec ''format_shipping'' (tspec ''any'' True True)
     (tspec ''string'' True True)
     (pspec [pfield ''pattern'' (tspec ''string'' False False) True [],
             pfield ''defaults'' (tspec ''object'' False True) False [],
             pfield ''separator'' (tspec ''string'' False True) False [],
             pfield ''strip_colons'' (tspec ''bool'' False True) False []])
     (op_format_shipping lib)"

text \<open>With \<open>strip_colons\<close> the text put in for a field never has the colon that separates fields.\<close>

lemma sanitize_field_no_colon: "CHR '':'' \<notin> set (sanitize_field v True)"
  by (simp add: sanitize_field_def)

lemma compute_speed_range_sum:
  assumes "\<And>f. f \<in> set speed_range_fields \<Longrightarrow> speed_value lib entry defaults f = Inr (g f)"
  shows "compute_speed_range lib entry defaults =
    Inr (int_str (g ''min_handling_time'' + g ''min_transit_time'') @ ''-''
         @ int_str (g ''max_handling_time'' + g ''max_transit_time''))"
  using assms by (simp add: compute_speed_range_def speed_range_fields_def)

section \<open>map_tax_code\<close>

definition py_iter :: "pyval \<Rightarrow> pyval list result" where
  "py_iter v =
     (case v of
        PyDict d \<Rightarrow> Inr (map PyStr (dict_keys d))
      | PyList xs \<Rightarrow> Inr xs
      | PyTuple xs \<Rightarrow> Inr xs
      | PyStr s \<Rightarrow> Inr (map (\<lambda>c. PyStr [c]) s)
      | _ \<Rightarrow> Inl TypeError)"

definition py_len :: "pyval \<Rightarrow> nat result" where
  "py_len v =
     (case v of
        PyDict d \<Rightarrow> Inr (length d)
      | PyList xs \<Rightarrow> Inr (length xs)
      | PyTuple xs \<Rightarrow> Inr (length xs)
      | PyStr s \<Rightarrow> Inr (length s)
      | _ \<Rightarrow> Inl TypeError)"

text \<open>
  \<open>sorted(items, key=len, reverse=True)\<close> keeps the order of items of equal length, so it is
  a stable sort by descending length.
\<close>

definition sort_longest_first :: "(nat \<times> 'a) list \<Rightarrow> (nat \<times> 'a) list" where
  "sort_longest_first xs = rev (sort_key fst (rev xs))"

definition prepare_tax_code :: "dict \<Rightarrow> producer_context option \<Rightarrow> dict result" where
  "prepare_tax_code args context =
     (case context of
        None \<Rightarrow> Inl ValueError
      | Some ctx \<Rightarrow> (case pc_tax_mapping ctx of
          None \<Rightarrow> Inl ValueError
        | Some lookup_data \<Rightarrow>
            rbind (py_iter (dget_or lookup_data ''mappings'' (PyDict []))) (\<lambda>items.
            rbind (rmap py_len items) (\<lambda>lens.
              Inr (dict_set ''_sorted_keys'' (PyTuple (map snd (sort_longest_first (zip lens items))))
                    (dict_set ''_lookup_data'' (PyDict lookup_data) args))))))"

fun py_hashable :: "pyval \<Rightarrow> bool" where
  "py_hashable (PyList _) = False"
| "py_hashable (PyDict _) = False"
| "py_hashable (PyTuple xs) = (\<forall>x \<in> set xs. py_hashable x)"
| "py_hashable _ = True"

text \<open>\<open>value.get(key)\<close> for a key that may be any value; the keys of the mapping are strings.\<close>

definition dget_py :: "dict \<Rightarrow> pyval \<Rightarrow> pyval result" where
  "dget_py d k =
     (case k of PyStr s \<Rightarrow> Inr (dget d s)
      | _ \<Rightarrow> if py_hashable k then Inr PyNone else Inl TypeError)"

text \<open>The stripped text of a non-blank string, the test of the first two priorities.\<close>

definition nonblank :: "pyval \<Rightarrow> string option" where
  "nonblank v = (case v of PyStr s \<Rightarrow> if strip s = [] then None else Some (strip s) | _ \<Rightarrow> None)"

fun startswith_any :: "string \<Rightarrow> pyval list \<Rightarrow> bool result" where
  "startswith_any s [] = Inr False"
| "startswith_any s (PyStr p # ps) = (if startswith s p then Inr True else startswith_any s ps)"
| "startswith_any s (_ # ps) = Inl TypeError"

definition startswith_py :: "string \<Rightarrow> pyval \<Rightarrow> bool result" where
  "startswith_py s p =
     (case p of PyStr t \<Rightarrow> Inr (startswith s t) | PyTuple ps \<Rightarrow> startswith_any s ps
      | _ \<Rightarrow> Inl TypeError)"

text \<open>\<open>mappings[prefix]\<close>\<close>

definition py_index :: "pyval \<Rightarrow> pyval \<Rightarrow> pyval result" where
  "py_index m k =
     (case m of
        PyDict d \<Rightarrow> (case k of
            PyStr s \<Rightarrow> (case map_of d s of None \<Rightarrow> Inl KeyError | Some v \<Rightarrow> Inr v)
          | _ \<Rightarrow> if py_hashable k then Inl KeyError else Inl TypeError)
      | _ \<Rightarrow> Inl TypeError)"

text \<open>The loop over the prefixes, longest first; \<open>None\<close> when no prefix matches.\<close>

fun first_prefix :: "string \<Rightarrow> pyval \<Rightarrow> pyval list \<Rightarrow> pyval option result" where
  "first_prefix cat mappings [] = Inr None"
| "first_prefix cat mappings (p # ps) =
     rbind (startswith_py cat p) (\<lambda>b.
       if b then rbind (py_index mappings p) (\<lambda>v. Inr (Some v)) else first_prefix cat mappings ps)"

text \<open>\<open>taxable is False\<close>, a falsy text, or \<open>taxable == 0\<close>.\<close>

definition tax_exempt :: "pyval \<Rightarrow> bool" where
  "tax_exempt taxable =
     (case taxable of
        PyBool b \<Rightarrow> \<not> b
      | PyStr s \<Rightarrow> lower s \<in> {''false'', ''no'', ''0''}
      | _ \<Rightarrow> py_eq_zero taxable)"

definition tax_fallback :: "dict \<Rightarrow> pyval \<Rightarrow> pyval" where
  "tax_fallback lookup_data taxable =
     (if tax_exempt taxable
      then dget_or lookup_data ''default_exempt'' (PyStr ''txcd_00000000'')
      else dget_or lookup_data ''default_taxable'' (PyStr ''txcd_99999999''))"

text \<open>
  \<open>_sorted_keys\<close> is the tuple \<open>prepare_tax_code\<close> put there; \<open>_lookup_data\<close> the mapping.
\<close>

definition op_map_tax_code :: "pyval \<Rightarrow> dict \<Rightarrow> pyval result" where
  "op_map_tax_code v args =
     (if absent v then Inr v
      else case v of
        PyDict d \<Rightarrow>
          (case (map_of args ''_lookup_data'', map_of args ''_sorted_keys'') of
             (Some (PyDict lookup_data), Some keys_obj) \<Rightarrow>
               rbind (dget_py d (dget_or args ''override_key'' (PyStr ''tax_code_override''))) (\<lambda>override.
               case nonblank override of
                 Some t \<Rightarrow> Inr (PyStr t)
               | None \<Rightarrow>
                   rbind (dget_py d (dget_or args ''category_key'' (PyStr ''tax_category''))) (\<lambda>category.
                   rbind (case nonblank category of
                       None \<Rightarrow> Inr None
                     | Some cat \<Rightarrow>
                         rbind (py_iter keys_obj)
                           (first_prefix cat (dget_or lookup_data ''mappings'' (PyDict []))))
                     (\<lambda>hit. case hit of
                         Some code \<Rightarrow> Inr code
                       | None \<Rightarrow>
                           rbind (dget_py d (dget_or args ''taxable_key'' (PyStr ''taxable'')))
                             (\<lambda>taxable. Inr (tax_fallback lookup_data taxable)))))
           | (None, _) \<Rightarrow> Inl KeyError
           | (Some (PyDict _), None) \<Rightarrow> Inl KeyError
           | (Some _, None) \<Rightarrow> Inl KeyError
           | (Some _, Some _) \<Rightarrow> Inl AttributeError)
      | _ \<Rightarrow> Inl TypeError)"

definition map_tax_code_spec :: mapping_op_spec where
  "map_tax_code_spec = (opspec ''map_tax_code'' (tspec ''any'' True True)
     (tspec ''string'' True True)
     (pspec [pfield ''override_key'' (tspec ''string'' True True) False [],
             pfield ''category_key'' (tspec ''string'' True True) False [],
             pfield ''taxable_key'' (tspec ''string'' True True) False []])
     op_map_tax_code)\<lparr>op_prepare := Some prepare_tax_code\<rparr>"

lemma map_tax_code_spec_simps [simp]:
  "op_id map_tax_code_spec = ''map_tax_code''" "op_call map_tax_code_spec = op_map_tax_code"
  "op_prepare map_tax_code_spec = Some prepare_tax_code"
  "ts_type_id (op_output_type map_tax_code_spec) = ''string''"
  "ts_type_id (op_input_type map_tax_code_spec) = ''any''"
  by (simp_all add: map_tax_code_spec_def opspec_def tspec_def)

text \<open>The first prefix in a list ordered by descending length is the longest one.\<close>

lemma find_longest:
  "sorted_wrt (\<lambda>p q. length q \<le> length p) ps \<Longrightarrow> find P ps = Some p \<Longrightarrow>
     p \<in> set ps \<and> P p \<and> (\<forall>q \<in> set ps. P q \<longrightarrow> length q \<le> length p)"
  by (induction ps) (auto split: if_splits)

lemma first_prefix_find:
  "set ps \<subseteq> dom (map_of m) \<Longrightarrow>
     first_prefix cat (PyDict m) (map PyStr ps) = Inr (map_option (\<lambda>p. the (map_of m p)) (find (startswith cat) ps))"
  by (induction ps) (auto simp: startswith_py_def py_index_def)

lemma sort_longest_first_facts:
  "set (sort_longest_first xs) = set xs"
  "sorted_wrt (\<lambda>p q. fst q \<le> fst p) (sort_longest_first xs)"
proof -
  show "set (sort_longest_first xs) = set xs" by (simp add: sort_longest_first_def)
  have "sorted (map fst (sort_key fst (rev xs)))" by simp
  then have "sorted_wrt (\<lambda>p q. fst p \<le> fst q) (sort_key fst (rev xs))"
    by (simp only: sorted_map)
  then show "sorted_wrt (\<lambda>p q. fst q \<le> fst p) (sort_longest_first xs)"
    by (simp only: sort_longest_first_def sorted_wrt_rev)
qed

lemma rmap_py_len_strs: "rmap py_len (map PyStr ks) = Inr (map length ks)"
  by (induction ks) (simp_all add: py_len_def)

definition longest_keys :: "string list \<Rightarrow> string list" where
  "longest_keys ks = map snd (sort_longest_first (map (\<lambda>k. (length k, k)) ks))"

lemma longest_keys_facts:
  "set (longest_keys ks) = set ks"
  "sorted_wrt (\<lambda>p q. length q \<le> length p) (longest_keys ks)"
proof -
  let ?z = "map (\<lambda>k. (length k, k)) ks"
  have mem: "\<forall>p \<in> set (sort_longest_first ?z). fst p = length (snd p)"
    by (auto simp: sort_longest_first_facts)
  show "set (longest_keys ks) = set ks"
    by (auto simp: longest_keys_def sort_longest_first_facts image_image)
  have "sorted_wrt (\<lambda>p q. length (snd q) \<le> length (snd p)) (sort_longest_first ?z)"
    by (rule sorted_wrt_mono_rel [OF _ sort_longest_first_facts(2)]) (use mem in auto)
  then show "sorted_wrt (\<lambda>p q. length q \<le> length p) (longest_keys ks)"
    by (simp add: longest_keys_def sorted_wrt_map)
qed

lemma zip_map_PyStr:
  "map snd (sort_longest_first (zip (map length ks) (map PyStr ks))) = map PyStr (longest_keys ks)"
proof -
  have z: "zip (map length ks) (map PyStr ks) = map (\<lambda>(n, k). (n, PyStr k)) (map (\<lambda>k. (length k, k)) ks)"
    by (induction ks) auto
  have ins: "insort_key fst (n, PyStr k) (map (\<lambda>(n, k). (n, PyStr k)) zs)
      = map (\<lambda>(n, k). (n, PyStr k)) (insort_key fst (n, k) zs)" for n k and zs :: "(nat \<times> string) list"
    by (induction zs) auto
  have "sort_key fst (map (\<lambda>(n, k). (n, PyStr k)) zs) = map (\<lambda>(n, k). (n, PyStr k)) (sort_key fst zs)"
    for zs :: "(nat \<times> string) list"
    by (induction zs) (auto simp: ins)
  then show ?thesis
    unfolding z by (simp add: sort_longest_first_def longest_keys_def rev_map del: map_map)
      (simp add: comp_def split_def)
qed

lemma prepare_tax_code_keys:
  assumes "pc_tax_mapping ctx = Some lookup" "map_of lookup ''mappings'' = Some (PyDict m)"
  shows "prepare_tax_code args (Some ctx) =
    Inr (dict_set ''_sorted_keys'' (PyTuple (map PyStr (longest_keys (dict_keys m))))
           (dict_set ''_lookup_data'' (PyDict lookup) args))"
  using assms
  by (simp add: prepare_tax_code_def dget_or_def py_iter_def rmap_py_len_strs zip_map_PyStr
      del: map_map)

lemma map_tax_code_category:
  assumes "pc_tax_mapping ctx = Some lookup" "map_of lookup ''mappings'' = Some (PyDict m)"
    and "prepare_tax_code [] (Some ctx) = Inr args"
    and "nonblank (dget d ''tax_code_override'') = None"
    and "nonblank (dget d ''tax_category'') = Some cat"
  shows "op_map_tax_code (PyDict d) args =
    (case find (startswith cat) (longest_keys (dict_keys m)) of
       None \<Rightarrow> Inr (tax_fallback lookup (dget d ''taxable''))
     | Some p \<Rightarrow> Inr (the (map_of m p)))"
proof -
  let ?ks = "longest_keys (dict_keys m)"
  have "args = [(''_lookup_data'', PyDict lookup), (''_sorted_keys'', PyTuple (map PyStr ?ks))]"
    using assms(3) prepare_tax_code_keys [OF assms(1,2), of "[]"] by simp
  moreover have "set ?ks \<subseteq> dom (map_of m)"
    by (simp add: longest_keys_facts set_dict_keys)
  ultimately show ?thesis
    using assms(2,4,5)
    by (simp add: op_map_tax_code_def dget_py_def py_iter_def first_prefix_find dget_or_def
        split: option.split)
qed

end
