(* ===== verification/PFP_Validation_Ops.thy ===== *)
theory PFP_Validation_Ops
  imports PFP_Feed_Ops
begin

text \<open>
  The built-in validation modules (\<open>pfp_core/ext/validation\<close>), the two contract registries,
  and the catalog \<open>build_builtin_catalog\<close> makes of them.
\<close>

definition vr_pass :: "module_result result" where
  "vr_pass = Inr (vr_object \<lparr>vr_ok = True, vr_details = None\<rparr>)"

definition vr_fail :: "string \<Rightarrow> module_result result" where
  "vr_fail details = Inr (vr_object \<lparr>vr_ok = False, vr_details = Some details\<rparr>)"

definition modspec :: "string \<Rightarrow> type_spec \<Rightarrow> param_spec
    \<Rightarrow> (pyval \<Rightarrow> dict \<Rightarrow> dict option \<Rightarrow> string option \<Rightarrow> module_result result)
    \<Rightarrow> validation_module_spec" where
  "modspec n t ps f = \<lparr>vm_id = n, vm_value_type = t, vm_config_spec = ps, vm_call = f\<rparr>"

lemma modspec_simps [simp]:
  "vm_id (modspec n t ps f) = n" "vm_call (modspec n t ps f) = f"
  "vm_value_type (modspec n t ps f) = t"
  by (simp_all add: modspec_def)

section \<open>required\<close>

definition check_required ::
  "pyval \<Rightarrow> dict \<Rightarrow> dict option \<Rightarrow> string option \<Rightarrow> module_result result" where
  "check_required v config rec artifact_profile =
     (if v = PyMissing then vr_fail ''required: value is missing''
      else if v = PyNone then vr_fail ''required: value is null''
      else vr_pass)"

definition required_spec :: validation_module_spec where
  "required_spec = modspec ''required'' (tspec ''any'' True True) no_params check_required"

section \<open>required if profile\<close>

fun stripped_lower_items :: "pyval list \<Rightarrow> string list" where
  "stripped_lower_items [] = []"
| "stripped_lower_items (PyStr s # xs) =
     (if strip s = [] then stripped_lower_items xs
      else lower (strip s) # stripped_lower_items xs)"
| "stripped_lower_items (_ # xs) = stripped_lower_items xs"

definition nonempty_set :: "string list \<Rightarrow> string list option" where
  "nonempty_set xs = (if xs = [] then None else Some xs)"

definition normalize_profiles :: "dict \<Rightarrow> string list option" where
  "normalize_profiles config =
     (case dget config ''artifact_profiles'' of
        PyNone \<Rightarrow>
          (case dget config ''artifact_profile'' of
             PyStr s \<Rightarrow> if strip s = [] then None else Some [lower (strip s)]
           | _ \<Rightarrow> None)
      | PyList xs \<Rightarrow> nonempty_set (stripped_lower_items xs)
      | PyTuple xs \<Rightarrow> nonempty_set (stripped_lower_items xs)
      | PyDict d \<Rightarrow> nonempty_set (stripped_lower_items (map PyStr (dict_keys d)))
      | _ \<Rightarrow> None)"

definition check_required_if_profile ::
  "pyval \<Rightarrow> dict \<Rightarrow> dict option \<Rightarrow> string option \<Rightarrow> module_result result" where
  "check_required_if_profile v config rec artifact_profile =
     (let current = (case artifact_profile of None \<Rightarrow> [] | Some p \<Rightarrow> lower (strip p)) in
      if (case normalize_profiles config of None \<Rightarrow> False | Some active \<Rightarrow> current \<notin> set active)
      then vr_pass
      else if v = PyMissing then vr_fail ''required_if_profile: value is missing''
      else if v = PyNone then vr_fail ''required_if_profile: value is null''
      else vr_pass)"

definition required_if_profile_spec :: validation_module_spec where
  "required_if_profile_spec = modspec ''required_if_profile'' (tspec ''any'' True True)
     (pspec [pfield ''artifact_profile'' (tspec ''string'' False False) False [],
             pfield ''artifact_profiles'' (tspec ''array[string]'' False False) False []])
     check_required_if_profile"

section \<open>type\<close>

definition matches_type :: "pyval \<Rightarrow> string \<Rightarrow> bool" where
  "matches_type v t =
     (if t = ''any'' then True
      else if t = ''string'' then is_str v
      else if t = ''int'' then is_int v \<and> \<not> is_bool v
      else if t = ''decimal'' then (case v of PyDec _ \<Rightarrow> True | _ \<Rightarrow> False)
      else if t = ''bool'' then is_bool v
      else if t = ''date'' then (case v of PyDate _ \<Rightarrow> True | _ \<Rightarrow> False)
      else if t = ''datetime'' then (case v of PyDateTime _ \<Rightarrow> True | _ \<Rightarrow> False)
      else if t = ''array[string]'' then (case v of PyList xs \<Rightarrow> \<forall>x \<in> set xs. is_str x | _ \<Rightarrow> False)
      else if t = ''object'' then (case v of PyDict _ \<Rightarrow> True | _ \<Rightarrow> False)
      else False)"

definition check_type ::
  "pyval \<Rightarrow> dict \<Rightarrow> dict option \<Rightarrow> string option \<Rightarrow> module_result result" where
  "check_type v config rec artifact_profile =
     (case dget config ''type_id'' of
        PyStr t \<Rightarrow>
          if t \<notin> set (''any'' # map type_name allowed_type_ids) then Inl ValueError
          else if absent v then vr_pass
          else if matches_type v t then vr_pass
          else vr_fail (''type mismatch: expected '' @ t)
      | _ \<Rightarrow> Inl ValueError)"

definition type_check_spec :: validation_module_spec where
  "type_check_spec = modspec ''type'' (tspec ''any'' True True)
     (pspec [pfield ''type_id'' (tspec ''string'' False False) True []]) check_type"

section \<open>enum\<close>

definition check_enum ::
  "pyval \<Rightarrow> dict \<Rightarrow> dict option \<Rightarrow> string option \<Rightarrow> module_result result" where
  "check_enum v config rec artifact_profile =
     (case dget config ''allowed'' of
        PyList allowed \<Rightarrow>
          if allowed = [] \<or> \<not> (\<forall>x \<in> set allowed. is_str x) then Inl ValueError
          else if absent v then vr_pass
          else if \<not> is_str v then vr_pass
          else if v \<in> set allowed then vr_pass
          else vr_fail ''enum mismatch: value not in allowed set''
      | _ \<Rightarrow> Inl ValueError)"

definition enum_check_spec :: validation_module_spec where
  "enum_check_spec = modspec ''enum'' (tspec ''string'' True True)
     (pspec [pfield ''allowed'' (tspec ''array[string]'' False False) True
        [(''min_items'', PyInt 1)]]) check_enum"

section \<open>range\<close>

definition range_decimal :: "pyval \<Rightarrow> decimal result" where
  "range_decimal v =
     (if is_bool v then Inl ValueError
      else case parse_decimal (py_str v) of None \<Rightarrow> Inl ValueError | Some d \<Rightarrow> Inr d)"

definition range_bound :: "pyval \<Rightarrow> decimal option result" where
  "range_bound raw =
     (if raw = PyNone then Inr None else rbind (range_decimal raw) (\<lambda>d. Inr (Some d)))"

text \<open>\<open>a is not None and b is not None and a < b\<close>\<close>

definition opt_less :: "decimal option \<Rightarrow> decimal option \<Rightarrow> bool result" where
  "opt_less a b = (case (a, b) of (Some x, Some y) \<Rightarrow> dec_less x y | _ \<Rightarrow> Inr False)"

definition check_range ::
  "pyval \<Rightarrow> dict \<Rightarrow> dict option \<Rightarrow> string option \<Rightarrow> module_result result" where
  "check_range v config rec artifact_profile =
     (let min_raw = dget config ''min''; max_raw = dget config ''max'' in
      if min_raw = PyNone \<and> max_raw = PyNone then Inl ValueError
      else rbind (range_bound min_raw) (\<lambda>lo.
           rbind (range_bound max_raw) (\<lambda>hi.
           rbind (opt_less hi lo) (\<lambda>bad.
             if bad then Inl ValueError
             else if absent v then vr_pass
             else case range_decimal v of
                 Inl _ \<Rightarrow> vr_pass
               | Inr current \<Rightarrow>
                   rbind (opt_less (Some current) lo) (\<lambda>below.
                   if below then vr_fail ''range mismatch: value below min''
                   else rbind (opt_less hi (Some current)) (\<lambda>above.
                     if above then vr_fail ''range mismatch: value above max''
                     else vr_pass))))))"

definition range_check_spec :: validation_module_spec where
  "range_check_spec = modspec ''range'' (tspec ''any'' True True)
     (pspec [pfield ''min'' (tspec ''any'' True True) False [],
             pfield ''max'' (tspec ''any'' True True) False []]) check_range"

section \<open>The contract registries\<close>

definition mapping_op_registry :: "pylib \<Rightarrow> (string, mapping_op_spec) odict" where
  "mapping_op_registry lib =
     [(''default_value'', default_value_spec),
      (''get_path'', get_path_spec),
      (''to_str'', to_str_spec),
      (''to_int'', to_int_spec),
      (''to_decimal'', to_decimal_spec),
      (''to_bool'', to_bool_spec),
      (''bool_to_availability'', bool_to_availability_spec),
      (''int_to_availability'', int_to_availability_spec),
      (''trim'', trim_spec),
      (''lower'', lower_spec),
      (''upper'', upper_spec),
      (''normalize_whitespace'', normalize_whitespace_spec),
      (''parse_date'', parse_date_spec lib),
      (''format_date'', format_date_spec lib),
      (''format_datetime_utc'', format_datetime_utc_spec lib),
      (''round_decimal'', round_decimal_spec),
      (''format_money'', format_money_spec lib),
      (''format_price'', format_price_spec),
      (''format_shipping'', format_shipping_spec lib),
      (''map_tax_code'', map_tax_code_spec),
      (''regex_extract'', regex_extract_spec lib),
      (''strip_html'', strip_html_spec lib),
      (''strip_suffix'', strip_suffix_spec),
      (''truncate'', truncate_spec),
      (''emit_if_present'', emit_if_present_spec),
      (''emit_null_if_missing'', emit_null_if_missing_spec),
      (''omit_if_missing'', omit_if_missing_spec)]"

definition get_mapping_op_spec :: "pylib \<Rightarrow> string \<Rightarrow> mapping_op_spec result" where
  "get_mapping_op_spec lib k =
     (case map_of (mapping_op_registry lib) k of None \<Rightarrow> Inl ValueError | Some s \<Rightarrow> Inr s)"

definition list_mapping_op_ids :: "pylib \<Rightarrow> string list" where
  "list_mapping_op_ids lib = sort (dict_keys (mapping_op_registry lib))"

fun registry_ids_match :: "('s \<Rightarrow> string) \<Rightarrow> (string, 's) odict \<Rightarrow> unit result" where
  "registry_ids_match f [] = Inr ()"
| "registry_ids_match f ((k, s) # r) =
     (if f s = [] then Inl ValueError
      else if f s \<noteq> k then Inl ValueError
      else registry_ids_match f r)"

definition validate_mapping_op_registry :: "pylib \<Rightarrow> unit result" where
  "validate_mapping_op_registry lib = registry_ids_match op_id (mapping_op_registry lib)"

definition validation_module_registry :: "(string, validation_module_spec) odict" where
  "validation_module_registry =
     [(''required'', required_spec),
      (''required_if_profile'', required_if_profile_spec),
      (''type'', type_check_spec),
      (''enum'', enum_check_spec),
      (''range'', range_check_spec)]"

definition get_validation_module_spec :: "string \<Rightarrow> validation_module_spec result" where
  "get_validation_module_spec k =
     (case map_of validation_module_registry k of None \<Rightarrow> Inl ValueError | Some s \<Rightarrow> Inr s)"

definition list_validation_module_ids :: "string list" where
  "list_validation_module_ids = sort (dict_keys validation_module_registry)"

definition validate_validation_module_registry :: "unit result" where
  "validate_validation_module_registry = registry_ids_match vm_id validation_module_registry"

section \<open>The built-in catalog\<close>

fun register_mapping_ops :: "mapping_op_spec list \<Rightarrow> ext_catalog \<Rightarrow> ext_catalog result" where
  "register_mapping_ops [] c = Inr c"
| "register_mapping_ops (s # ss) c = rbind (register_mapping_op s c) (register_mapping_ops ss)"

fun register_validation_modules ::
  "validation_module_spec list \<Rightarrow> ext_catalog \<Rightarrow> ext_catalog result" where
  "register_validation_modules [] c = Inr c"
| "register_validation_modules (s # ss) c =
     rbind (register_validation_module s c) (register_validation_modules ss)"

definition build_builtin_catalog :: "pylib \<Rightarrow> ext_catalog result" where
  "build_builtin_catalog lib =
     rbind (register_mapping_ops (map snd (mapping_op_registry lib)) empty_catalog)
       (register_validation_modules (map snd validation_module_registry))"

lemmas mapping_specs =
  default_value_spec_def get_path_spec_def to_str_spec_def to_int_spec_def to_decimal_spec_def
  to_bool_spec_def bool_to_availability_spec_def int_to_availability_spec_def trim_spec_def
  lower_spec_def upper_spec_def normalize_whitespace_spec_def parse_date_spec_def
  format_date_spec_def format_datetime_utc_spec_def round_decimal_spec_def format_money_spec_def
  format_price_spec_def format_shipping_spec_def regex_extract_spec_def
  strip_html_spec_def strip_suffix_spec_def truncate_spec_def emit_if_present_spec_def
  emit_null_if_missing_spec_def omit_if_missing_spec_def str_op_spec_def

lemmas validation_specs =
  required_spec_def required_if_profile_spec_def type_check_spec_def enum_check_spec_def
  range_check_spec_def

lemma mapping_registry_ids: "\<forall>(k, s) \<in> set (mapping_op_registry lib). op_id s = k \<and> k \<noteq> []"
  by (simp add: mapping_op_registry_def mapping_specs)

lemma validation_registry_ids: "\<forall>(k, s) \<in> set validation_module_registry. vm_id s = k \<and> k \<noteq> []"
  by (simp add: validation_module_registry_def validation_specs)

lemma registry_ids_match_iff:
  "registry_ids_match f r = Inr () \<longleftrightarrow> (\<forall>(k, s) \<in> set r. f s = k \<and> k \<noteq> [])"
  by (induction f r rule: registry_ids_match.induct) auto

lemma register_mapping_ops_all:
  "register_mapping_ops ss c = register_all put_mapping_op (map (\<lambda>s. (op_id s, s)) ss) c"
  by (induction ss arbitrary: c) (auto simp: register_mapping_op_def intro!: rbind_cong)

lemma register_validation_modules_all:
  "register_validation_modules ss c =
     register_all put_validation_module (map (\<lambda>s. (vm_id s, s)) ss) c"
  by (induction ss arbitrary: c) (auto simp: register_validation_module_def intro!: rbind_cong)

lemma mapping_registry_pairs:
  "map (\<lambda>s. (op_id s, s)) (map snd (mapping_op_registry lib)) = mapping_op_registry lib"
  by (simp add: mapping_op_registry_def mapping_specs)

lemma validation_registry_pairs:
  "map (\<lambda>s. (vm_id s, s)) (map snd validation_module_registry) = validation_module_registry"
  by (simp add: validation_module_registry_def validation_specs)

lemma mapping_registry_distinct: "distinct (map fst (mapping_op_registry lib))"
  by (simp add: mapping_op_registry_def)

lemma validation_registry_distinct: "distinct (map fst validation_module_registry)"
  by (simp add: validation_module_registry_def)

lemma register_mapping_ops_frame:
  "register_mapping_ops ss c = Inr c' \<Longrightarrow> ec_validation_modules c' = ec_validation_modules c"
  by (induction ss arbitrary: c)
    (auto simp: rbind_Inr_iff register_mapping_op_def put_mapping_op_def split: if_splits)

lemma register_validation_modules_frame:
  "register_validation_modules ss c = Inr c' \<Longrightarrow> ec_mapping_ops c' = ec_mapping_ops c"
  by (induction ss arbitrary: c)
    (auto simp: rbind_Inr_iff register_validation_module_def put_validation_module_def
      split: if_splits)

lemma register_mapping_ops_ok:
  "catalog_ok c \<Longrightarrow> register_mapping_ops ss c = Inr c' \<Longrightarrow> catalog_ok c'"
  by (induction ss arbitrary: c) (auto simp: rbind_Inr_iff dest: register_mapping_op_ok)

lemma register_validation_modules_ok:
  "catalog_ok c \<Longrightarrow> register_validation_modules ss c = Inr c' \<Longrightarrow> catalog_ok c'"
  by (induction ss arbitrary: c) (auto simp: rbind_Inr_iff dest: register_validation_module_ok)

end
