(* ===== verification/PFP_Builtins.thy ===== *)
theory PFP_Builtins
  imports PFP_Validation_Ops
begin

text \<open>
  What the built-in catalog promises its clients: it is built without a clash, holds every
  declared entry under its own identifier, and each operation returns a value of its declared
  output type.
\<close>

section \<open>The catalog\<close>

lemma build_builtin_catalog_facts:
  "\<exists>c. build_builtin_catalog lib = Inr c \<and> catalog_ok c
     \<and> (\<forall>k. map_of (ec_mapping_ops c) k = map_of (mapping_op_registry lib) k)
     \<and> (\<forall>k. map_of (ec_validation_modules c) k = map_of validation_module_registry k)"
proof -
  let ?ops = "map snd (mapping_op_registry lib)" and ?mods = "map snd validation_module_registry"
  have "\<exists>c1. register_all put_mapping_op (mapping_op_registry lib) empty_catalog = Inr c1"
    by (rule ops.register_all_succeeds) (simp_all add: mapping_registry_distinct empty_catalog_def)
  then obtain c1 where r1: "register_all put_mapping_op (mapping_op_registry lib) empty_catalog = Inr c1"
    by blast
  then have c1: "register_mapping_ops ?ops empty_catalog = Inr c1"
    by (simp only: register_mapping_ops_all mapping_registry_pairs)
  have m1: "ec_validation_modules c1 = []"
    using register_mapping_ops_frame [OF c1] by (simp add: empty_catalog_def)
  have "\<exists>c. register_all put_validation_module validation_module_registry c1 = Inr c"
    by (rule mods.register_all_succeeds) (simp_all add: validation_registry_distinct m1)
  then obtain c where r2: "register_all put_validation_module validation_module_registry c1 = Inr c"
    by blast
  then have c: "register_validation_modules ?mods c1 = Inr c"
    by (simp only: register_validation_modules_all validation_registry_pairs)
  have "build_builtin_catalog lib = Inr c"
    by (simp add: build_builtin_catalog_def c1 c)
  moreover have "catalog_ok c"
    using register_validation_modules_ok [OF register_mapping_ops_ok [OF catalog_ok_empty c1] c] .
  moreover have "\<forall>k. map_of (ec_mapping_ops c) k = map_of (mapping_op_registry lib) k"
    using ops.register_all_find [OF r1] register_validation_modules_frame [OF c]
    by (simp add: empty_catalog_def split: option.splits)
  moreover have "\<forall>k. map_of (ec_validation_modules c) k = map_of validation_module_registry k"
    using mods.register_all_find [OF r2] m1 by (simp split: option.splits)
  ultimately show ?thesis by blast
qed

section \<open>Declared output types\<close>

definition conforms :: "pyval \<Rightarrow> string \<Rightarrow> bool" where
  "conforms w t \<longleftrightarrow> absent w \<or> matches_type w t"

lemma conforms_simps [simp]:
  "conforms PyMissing t" "conforms PyNone t" "conforms (PyStr s) ''string''"
  "conforms (PyInt i) ''int''" "conforms (PyDec d) ''decimal''" "conforms (PyBool b) ''bool''"
  "conforms (PyDate dd) ''date''" "conforms w ''any''"
  by (simp_all add: conforms_def matches_type_def)

lemma conforms_absent: "absent w \<Longrightarrow> conforms w t"
  by (simp add: conforms_def)

lemma str_op_typed: "str_op f e v = Inr w \<Longrightarrow> conforms w ''string''"
  by (auto simp: str_op_def conforms_absent split: if_splits pyval.splits)

text \<open>The conversion, string and number operations, one line each.\<close>

lemma conversion_ops_typed:
  "op_to_str v args = Inr w \<Longrightarrow> conforms w ''string''"
  "op_to_int v args = Inr w \<Longrightarrow> conforms w ''int''"
  "op_to_decimal v args = Inr w \<Longrightarrow> conforms w ''decimal''"
  "op_to_bool v args = Inr w \<Longrightarrow> conforms w ''bool''"
  "op_bool_to_availability v args = Inr w \<Longrightarrow> conforms w ''string''"
  "op_int_to_availability v args = Inr w \<Longrightarrow> conforms w ''string''"
  by (auto simp: op_to_str_def op_to_int_def op_to_decimal_def op_to_bool_def Let_def
      op_bool_to_availability_def op_int_to_availability_def conforms_absent
      split: if_splits pyval.splits option.splits)

lemma string_ops_typed:
  "op_trim v args = Inr w \<Longrightarrow> conforms w ''string''"
  "op_lower v args = Inr w \<Longrightarrow> conforms w ''string''"
  "op_upper v args = Inr w \<Longrightarrow> conforms w ''string''"
  "op_normalize_whitespace v args = Inr w \<Longrightarrow> conforms w ''string''"
  "op_strip_html lib v args = Inr w \<Longrightarrow> conforms w ''string''"
  by (auto simp: op_trim_def op_lower_def op_upper_def op_normalize_whitespace_def
      op_strip_html_def dest: str_op_typed)

lemma conforms_is_str: "is_str w \<Longrightarrow> conforms w ''string''"
  by (simp add: conforms_def matches_type_def)

lemma conforms_PyStr: "w = PyStr s \<Longrightarrow> conforms w ''string''"
  by simp

lemma match_group_typed: "match_group g m = Inr w \<Longrightarrow> conforms w ''string''"
  by (auto simp: match_group_def split: option.splits if_splits)

lemma cut_ops_typed:
  "op_strip_suffix v args = Inr w \<Longrightarrow> conforms w ''string''"
  "op_truncate v args = Inr w \<Longrightarrow> conforms w ''string''"
  "op_regex_extract lib v args = Inr w \<Longrightarrow> conforms w ''string''"
  by (auto simp: op_strip_suffix_def op_truncate_def op_regex_extract_def rbind_Inr_iff Let_def
      conforms_absent match_group_typed intro: conforms_PyStr split: if_splits pyval.splits)

lemma date_ops_typed:
  "op_parse_date lib v args = Inr w \<Longrightarrow> conforms w ''date''"
  "op_format_date lib v args = Inr w \<Longrightarrow> conforms w ''string''"
  "op_format_datetime_utc lib v args = Inr w \<Longrightarrow> conforms w ''string''"
  by (auto simp: op_parse_date_def op_format_date_def op_format_datetime_utc_def rbind_Inr_iff
      Let_def conforms_absent split: if_splits pyval.splits list.splits)

lemma number_ops_typed:
  "op_round_decimal v args = Inr w \<Longrightarrow> conforms w ''decimal''"
  "op_format_money lib v args = Inr w \<Longrightarrow> conforms w ''string''"
  "op_format_price v args = Inr w \<Longrightarrow> conforms w ''string''"
  "op_format_shipping lib v args = Inr w \<Longrightarrow> conforms w ''string''"
  by (auto simp: op_round_decimal_def op_format_money_def op_format_price_def
      op_format_shipping_def rbind_Inr_iff Let_def conforms_absent conforms_is_str
      split: if_splits pyval.splits option.splits)

lemmas builtin_ops_typed =
  conversion_ops_typed string_ops_typed cut_ops_typed date_ops_typed number_ops_typed

text \<open>
  The presence operations declare \<open>object\<close> and return an emission; \<open>map_tax_code\<close> returns
  what the tax table holds.
\<close>

definition untyped_ops :: "string list" where
  "untyped_ops = [''emit_if_present'', ''emit_null_if_missing'', ''omit_if_missing'', ''map_tax_code'']"

lemma registry_ops_typed:
  assumes "(k, s) \<in> set (mapping_op_registry lib)" "k \<notin> set untyped_ops"
    and "op_call s v args = Inr w"
  shows "conforms w (ts_type_id (op_output_type s))"
  using assms unfolding mapping_op_registry_def list.set insert_iff prod.inject empty_iff
  by - (elim disjE conjE FalseE;
      simp add: mapping_specs untyped_ops_def; erule builtin_ops_typed)

section \<open>Arithmetic of the operations\<close>

lemma best_pos_max: "best_pos s ds = Max (insert (-1) (rfind s ` set ds))"
proof -
  have "foldl (\<lambda>best d. if rfind s d > best then rfind s d else best) a ds
      = Max (insert a (rfind s ` set ds))" for a
  proof (induction ds arbitrary: a)
    case Nil
    then show ?case by simp
  next
    case (Cons d ds)
    have "Max (insert (max a (rfind s d)) (rfind s ` set ds)) = Max (insert a (rfind s ` set (d # ds)))"
    proof (cases "ds = []")
      case False
      then show ?thesis by (simp add: Max_insert max.assoc)
    qed simp
    then show ?case using Cons [of "max a (rfind s d)"] by (simp add: max_def split: if_splits)
  qed
  then show ?thesis by (simp add: best_pos_def)
qed

lemma truncate_length:
  "op_truncate v args = Inr (PyStr t) \<Longrightarrow> dget args ''max_length'' = PyInt n \<Longrightarrow>
     1 \<le> n \<and> int (length t) \<le> n"
  by (auto simp: op_truncate_def absent_def Let_def split: if_splits)

end
