(* ===== verification/PFP_Compile_Mapping.thy ===== *)
theory PFP_Compile_Mapping
  imports PFP_Builtins
begin

text \<open>
  Compilation of the \<open>mapping\<close> section of a schema document:
  \<open>pfp_core/engine/mapping_compiler.py\<close>, \<open>mapping/field_compiler.py\<close>,
  \<open>mapping/compile_presence.py\<close> and \<open>mapping/output.py\<close>.  Diagnostics are threaded as the
  list every step extends at the end.  The compiler reports what is wrong with a schema as
  diagnostics; the exceptions that still escape (a \<open>null\<close> transform list, a failing \<open>prepare\<close>
  hook) are the \<open>Inl\<close> of the result.
\<close>

section \<open>Presence\<close>

fun semantics_name :: "emission_semantics \<Rightarrow> string" where
  "semantics_name OmitMissing = ''omit_missing''"
| "semantics_name EmitNullIfMissing = ''emit_null_if_missing''"
| "semantics_name ErrorIfMissing = ''error_if_missing''"

definition allowed_presence :: "emission_semantics list" where
  "allowed_presence = [OmitMissing, EmitNullIfMissing, ErrorIfMissing]"

definition presence_of :: "pyval \<Rightarrow> emission_semantics option" where
  "presence_of v =
     (case v of PyStr s \<Rightarrow> find (\<lambda>p. semantics_name p = s) allowed_presence | _ \<Rightarrow> None)"

definition presence_choices :: string where
  "presence_choices = join '', '' (map semantics_name allowed_presence)"

definition compile_field_presence ::
  "dict \<Rightarrow> string \<Rightarrow> emission_semantics \<Rightarrow> diags \<Rightarrow> field_presence_plan \<times> diags" where
  "compile_field_presence fm field_path global_default ds =
     (case as_mapping (dget fm ''presence'') of
        None \<Rightarrow> (\<lparr>fp_behavior = global_default\<rparr>, ds)
      | Some presence_raw \<Rightarrow>
          (case presence_of (dget_or presence_raw ''default'' (PyStr (semantics_name global_default))) of
             Some p \<Rightarrow> (\<lparr>fp_behavior = p\<rparr>, ds)
           | None \<Rightarrow> (\<lparr>fp_behavior = global_default\<rparr>,
               add_error ds ''COMPILER_PRESENCE_DEFAULT_INVALID'' (field_path @ ''.presence.default'')
                 (field_path @ ''.presence.default must be one of: '' @ presence_choices @ ''.''))))"

definition read_global_presence :: "dict \<Rightarrow> diags \<Rightarrow> emission_semantics \<times> diags" where
  "read_global_presence section ds =
     (let presence_obj = (case as_mapping (dget section ''presence'') of None \<Rightarrow> [] | Some d \<Rightarrow> d);
          default_obj = dget_or presence_obj ''default'' (PyStr ''omit_missing'')
      in case presence_of default_obj of
           Some p \<Rightarrow> (p, ds)
         | None \<Rightarrow>
             if default_obj \<noteq> PyNone
             then (OmitMissing, add_error ds ''COMPILER_PRESENCE_DEFAULT_INVALID'' ''mapping.presence.default''
                     (''mapping.presence.default must be one of: '' @ presence_choices @ ''.''))
             else (OmitMissing, ds))"

section \<open>Fields\<close>

definition mapping_op_allowlist :: "string list" where
  "mapping_op_allowlist =
     [''get_path'', ''to_str'', ''to_int'', ''to_decimal'', ''to_bool'', ''trim'', ''lower'', ''upper'',
      ''normalize_whitespace'', ''parse_date'', ''format_date'', ''format_datetime_utc'',
      ''round_decimal'', ''format_money'', ''map_enum'', ''coalesce'', ''default_if_missing'',
      ''concat'', ''join'', ''emit_if_present'', ''emit_null_if_missing'', ''omit_if_missing'',
      ''default_value'', ''regex_extract'', ''strip_suffix'', ''truncate'', ''format_shipping'',
      ''bool_to_str_lower'', ''digits_only'', ''country_list_to_iso3166_alpha2'',
      ''url_list_to_comma_separated'', ''first_url'', ''validate_url'', ''date_to_iso'',
      ''price_to_string'', ''validate_iso8601_date_range'', ''disallow_newlines'',
      ''disallow_all_caps'', ''plain_text_only'', ''lowercase_required'',
      ''object_string_values_only'', ''normalize_category_path'', ''assert_max_len'', ''assert_min'',
      ''assert_len_exact'', ''assert_len_range'', ''strip_html'', ''bool_to_availability'',
      ''int_to_availability'', ''format_price'', ''map_tax_code'']"

fun on_missing_name :: "on_missing \<Rightarrow> string" where
  "on_missing_name MissPass = ''pass''"
| "on_missing_name MissDefault = ''default''"
| "on_missing_name MissOmit = ''omit''"
| "on_missing_name MissError = ''error''"

definition allowed_on_missing :: "on_missing list" where
  "allowed_on_missing = [MissPass, MissDefault, MissOmit, MissError]"

definition on_missing_of :: "pyval \<Rightarrow> on_missing option" where
  "on_missing_of v =
     (case v of PyStr s \<Rightarrow> find (\<lambda>m. on_missing_name m = s) allowed_on_missing | _ \<Rightarrow> None)"

definition compile_source :: "dict \<Rightarrow> string \<Rightarrow> diags \<Rightarrow> (string \<times> bool) \<times> diags" where
  "compile_source fm field_path ds =
     (case as_mapping (dget fm ''source'') of
        None \<Rightarrow> (([], False), add_error ds ''COMPILER_MAPPING_FIELD_INVALID'' (field_path @ ''.source'')
          (field_path @ ''.source must be an object.''))
      | Some src \<Rightarrow>
          (let (path, ds1) = (case dget src ''path'' of
                 PyStr s \<Rightarrow> (s, ds)
               | _ \<Rightarrow> ([], add_error ds ''COMPILER_MAPPING_FIELD_INVALID'' (field_path @ ''.source.path'')
                   (field_path @ ''.source.path must be a string.'')))
           in case dget_or src ''required'' (PyBool False) of
                PyBool b \<Rightarrow> ((path, b), ds1)
              | _ \<Rightarrow> ((path, False), add_error ds1 ''COMPILER_MAPPING_FIELD_INVALID''
                  (field_path @ ''.source.required'') (field_path @ ''.source.required must be a boolean.''))))"

text \<open>The state of the loop over the transforms.\<close>

record chain =
  ch_calls :: "mapping_op_call list"
  ch_type :: "type_id option"

definition read_args :: "dict \<Rightarrow> string \<Rightarrow> diags \<Rightarrow> dict option \<times> diags" where
  "read_args transform op_path ds =
     (case dget transform ''args'' of
        PyNone \<Rightarrow> (None, ds)
      | PyDict a \<Rightarrow> (Some a, ds)
      | _ \<Rightarrow> (None, add_error ds ''SCHEMA_TYPE_OP_ARGS_INVALID'' (op_path @ ''.args'')
          (op_path @ ''.args must be an object.'')))"

definition read_on_missing :: "dict \<Rightarrow> string \<Rightarrow> diags \<Rightarrow> on_missing option \<times> diags" where
  "read_on_missing transform op_path ds =
     (let obj = dget transform ''on_missing'' in
      if obj = PyNone then (None, ds)
      else case on_missing_of obj of
          Some m \<Rightarrow> (Some m, ds)
        | None \<Rightarrow> (None, add_error ds ''SCHEMA_TYPE_ENUM_INVALID'' (op_path @ ''.on_missing'')
            (op_path @ ''.on_missing must be one of: ''
             @ join '', '' (map on_missing_name allowed_on_missing) @ ''.'')))"

definition resolve_args ::
  "mapping_op_spec \<Rightarrow> dict option \<Rightarrow> producer_context option \<Rightarrow> dict option result" where
  "resolve_args spec args ctx =
     (case args of
        None \<Rightarrow> Inr None
      | Some a \<Rightarrow>
          (case op_prepare spec of
             None \<Rightarrow> Inr (Some a)
           | Some prep \<Rightarrow> rbind (prep a ctx) (\<lambda>a'. Inr (Some a'))))"

text \<open>The tail of the loop body, once the operation is known.\<close>

definition link_transform ::
  "mapping_op_spec \<Rightarrow> string \<Rightarrow> string \<Rightarrow> dict option \<Rightarrow> on_missing option \<Rightarrow> producer_context option
     \<Rightarrow> chain \<Rightarrow> diags \<Rightarrow> (chain \<times> diags) result" where
  "link_transform spec k op_path args on_miss ctx ch ds =
     (let raw_in = ts_type_id (op_input_type spec); raw_out = ts_type_id (op_output_type spec);
          input_type = to_plan_type_id raw_in; output_type = to_plan_type_id raw_out in
      if input_type = None \<and> raw_in \<noteq> ''any''
      then Inr (ch, add_error ds ''SCHEMA_TYPE_INVALID_TYPE_ID'' (op_path @ ''.op'')
             (''Mapping op input_type is not a supported TypeId: '' @ raw_in))
      else if output_type = None \<and> raw_out \<noteq> ''any''
      then Inr (ch, add_error ds ''SCHEMA_TYPE_INVALID_TYPE_ID'' (op_path @ ''.op'')
             (''Mapping op output_type is not a supported TypeId: '' @ raw_out))
      else let ds' = (if is_type_mismatch (ch_type ch) input_type
             then add_error ds ''SCHEMA_TYPE_MISMATCH'' (op_path @ ''.op'')
               (''Type mismatch in transform chain: expected '' @ [CHR 0x27] @ opt_type_str input_type
                @ [CHR 0x27] @ '', got '' @ [CHR 0x27] @ opt_type_str (ch_type ch) @ [CHR 0x27] @ ''.'')
             else ds)
           in rbind (resolve_args spec args ctx) (\<lambda>args'.
                Inr (\<lparr>ch_calls = ch_calls ch @ [\<lparr>oc_op_id = k, oc_args = args', oc_on_missing = on_miss,
                        oc_input_type = input_type, oc_output_type = output_type\<rparr>],
                      ch_type = output_type\<rparr>, ds')))"

definition compile_transform ::
  "ext_catalog \<Rightarrow> producer_context option \<Rightarrow> string \<Rightarrow> nat \<Rightarrow> pyval \<Rightarrow> chain \<Rightarrow> diags
     \<Rightarrow> (chain \<times> diags) result" where
  "compile_transform cat ctx field_path index raw ch ds =
     (let op_path = field_path @ ''.transforms['' @ nat_str index @ '']'' in
      case as_mapping raw of
        None \<Rightarrow> Inr (ch, add_error ds ''SCHEMA_TYPE_OP_ARGS_INVALID'' op_path
          (op_path @ '' must be an object.''))
      | Some transform \<Rightarrow>
          (case dget transform ''op'' of
             PyStr k \<Rightarrow>
               if k = [] then Inr (ch, add_error ds ''SCHEMA_LINK_OP_INVALID'' (op_path @ ''.op'')
                 ''mapping transform op must be a non-empty string.'')
               else if k \<notin> set mapping_op_allowlist
               then Inr (ch, add_error ds ''SCHEMA_LINK_OP_NOT_ALLOWED'' (op_path @ ''.op'')
                 (''Mapping op '' @ [CHR 0x27] @ k @ [CHR 0x27] @ '' is not in allowlist.''))
               else (case try_get_mapping_op cat k (op_path @ ''.op'') ds of
                   (None, ds1) \<Rightarrow> Inr (ch, ds1)
                 | (Some spec, ds1) \<Rightarrow>
                     (case read_args transform op_path ds1 of (args, ds2) \<Rightarrow>
                      (case read_on_missing transform op_path ds2 of (on_miss, ds3) \<Rightarrow>
                         link_transform spec k op_path args on_miss ctx ch ds3)))
           | _ \<Rightarrow> Inr (ch, add_error ds ''SCHEMA_LINK_OP_INVALID'' (op_path @ ''.op'')
               ''mapping transform op must be a non-empty string.'')))"

fun compile_transforms ::
  "ext_catalog \<Rightarrow> producer_context option \<Rightarrow> string \<Rightarrow> nat \<Rightarrow> pyval list \<Rightarrow> chain \<Rightarrow> diags
     \<Rightarrow> (chain \<times> diags) result" where
  "compile_transforms cat ctx field_path i [] ch ds = Inr (ch, ds)"
| "compile_transforms cat ctx field_path i (raw # raws) ch ds =
     rbind (compile_transform cat ctx field_path i raw ch ds) (\<lambda>(ch', ds').
       compile_transforms cat ctx field_path (Suc i) raws ch' ds')"

text \<open>
  A transform list that is there and \<open>null\<close> is iterated over all the same, which raises
  \<open>TypeError\<close>.
\<close>

definition read_transforms :: "dict \<Rightarrow> string \<Rightarrow> diags \<Rightarrow> (pyval list \<times> diags) result" where
  "read_transforms fm field_path ds =
     (case dget_or fm ''transforms'' (PyList []) of
        PyList xs \<Rightarrow> Inr (xs, ds)
      | PyNone \<Rightarrow> Inl TypeError
      | _ \<Rightarrow> Inr ([], add_error ds ''SCHEMA_TYPE_OP_ARGS_INVALID'' (field_path @ ''.transforms'')
          (field_path @ ''.transforms must be a list.'')))"

definition compile_field_mapping ::
  "ext_catalog \<Rightarrow> producer_context option \<Rightarrow> emission_semantics \<Rightarrow> string \<Rightarrow> dict \<Rightarrow> diags
     \<Rightarrow> (field_mapping_plan \<times> diags) result" where
  "compile_field_mapping cat ctx global_default field_id fm ds =
     (let field_path = ''mapping.fields.'' @ field_id in
      case compile_source fm field_path ds of ((source_path, required), ds1) \<Rightarrow>
      case compile_field_presence fm field_path global_default ds1 of (presence, ds2) \<Rightarrow>
        rbind (read_transforms fm field_path ds2) (\<lambda>(raws, ds3).
        rbind (compile_transforms cat ctx field_path 0 raws \<lparr>ch_calls = [], ch_type = None\<rparr> ds3) (\<lambda>(ch, ds4).
          Inr (\<lparr>fm_field_id = field_id, fm_source_path = source_path, fm_transforms = ch_calls ch,
                fm_presence = presence, fm_final_type = ch_type ch, fm_required_source = required\<rparr>, ds4))))"

section \<open>Output order and tombstones\<close>

fun check_order :: "string list \<Rightarrow> nat \<Rightarrow> string list \<Rightarrow> (string, nat) odict \<Rightarrow> diags \<Rightarrow> (string, nat) odict \<times> diags"
where
  "check_order known i [] seen ds = (seen, ds)"
| "check_order known i (f # fs) seen ds =
     (let path = ''mapping.output_order['' @ nat_str i @ '']'';
          ds1 = (if f \<notin> set known
                 then add_error ds ''COMPILER_FIELD_UNDEFINED'' path
                   (''Unknown field in output_order: '' @ [CHR 0x27] @ f @ [CHR 0x27] @ ''.'')
                 else ds)
      in case map_of seen f of
           Some first \<Rightarrow> check_order known (Suc i) fs seen
             (add_error ds1 ''COMPILER_MAPPING_OUTPUT_ORDER_INVALID'' path
               (''Duplicate field in output_order: '' @ [CHR 0x27] @ f @ [CHR 0x27] @ '' (first index ''
                @ nat_str first @ '').''))
         | None \<Rightarrow> check_order known (Suc i) fs (dict_set f i seen) ds1)"

fun check_missing :: "(string, nat) odict \<Rightarrow> string list \<Rightarrow> diags \<Rightarrow> diags" where
  "check_missing seen [] ds = ds"
| "check_missing seen (f # fs) ds =
     check_missing seen fs
       (if map_of seen f = None
        then add_error ds ''COMPILER_MAPPING_OUTPUT_ORDER_INVALID'' (''mapping.fields.'' @ f)
          (''Field '' @ [CHR 0x27] @ f @ [CHR 0x27] @ '' is missing in mapping.output_order for csv_row.'')
        else ds)"

definition str_list :: "pyval \<Rightarrow> string list option" where
  "str_list v =
     (case v of
        PyList xs \<Rightarrow> if (\<forall>x \<in> set xs. is_str x) then Some (map (\<lambda>x. case x of PyStr s \<Rightarrow> s | _ \<Rightarrow> []) xs)
                   else None
      | _ \<Rightarrow> None)"

definition compile_output_order ::
  "output_kind \<Rightarrow> dict \<Rightarrow> string list \<Rightarrow> diags \<Rightarrow> string list option \<times> diags" where
  "compile_output_order kind section known ds =
     (if kind \<noteq> CsvRow then (None, ds)
      else case str_list (dget section ''output_order'') of
          None \<Rightarrow> (None, add_error ds ''COMPILER_MAPPING_OUTPUT_ORDER_INVALID'' ''mapping.output_order''
            ''mapping.output_order must be list[str] for csv_row.'')
        | Some order \<Rightarrow>
            (case check_order known 0 order [] ds of (seen, ds1) \<Rightarrow>
               (Some order, check_missing seen (sort (remdups known)) ds1)))"

definition read_flag_path :: "dict \<Rightarrow> string \<Rightarrow> string \<Rightarrow> diags \<Rightarrow> string \<times> diags" where
  "read_flag_path config k dflt ds =
     (case dget_or config k (PyStr dflt) of
        PyStr (c # cs) \<Rightarrow> (c # cs, ds)
      | _ \<Rightarrow> (dflt, add_error ds ''COMPILER_MAPPING_DELETE_TOMBSTONE_INVALID''
          (''mapping.delete_tombstone.'' @ k)
          (''mapping.delete_tombstone.'' @ k @ '' must be a non-empty string.'')))"

definition read_delete_tombstone_settings :: "dict \<Rightarrow> diags \<Rightarrow> (bool \<times> string \<times> string) \<times> diags" where
  "read_delete_tombstone_settings section ds =
     (case dget section ''delete_tombstone'' of
        PyNone \<Rightarrow> ((False, ''delete'', ''id''), ds)
      | PyDict config \<Rightarrow>
          (let (enabled, ds1) = (case dget_or config ''enabled'' (PyBool False) of
                  PyBool b \<Rightarrow> (b, ds)
                | _ \<Rightarrow> (False, add_error ds ''COMPILER_MAPPING_DELETE_TOMBSTONE_INVALID''
                    ''mapping.delete_tombstone.enabled''
                    ''mapping.delete_tombstone.enabled must be a boolean.''));
               (flag_path, ds2) = read_flag_path config ''flag_path'' ''delete'' ds1;
               (id_field, ds3) = read_flag_path config ''id_field'' ''id'' ds2
           in ((enabled, flag_path, id_field), ds3))
      | _ \<Rightarrow> ((False, ''delete'', ''id''), add_error ds ''COMPILER_MAPPING_DELETE_TOMBSTONE_INVALID''
          ''mapping.delete_tombstone'' ''mapping.delete_tombstone must be an object.''))"

section \<open>The mapping section\<close>

definition output_kind_of :: "pyval \<Rightarrow> output_kind option" where
  "output_kind_of v =
     (case v of PyStr s \<Rightarrow> if s = ''csv_row'' then Some CsvRow
        else if s = ''json_object'' then Some JsonObject else None
      | _ \<Rightarrow> None)"

fun compile_fields ::
  "ext_catalog \<Rightarrow> producer_context option \<Rightarrow> emission_semantics \<Rightarrow> dict \<Rightarrow> string list
     \<Rightarrow> (string, field_mapping_plan) odict \<Rightarrow> diags
     \<Rightarrow> ((string, field_mapping_plan) odict \<times> diags) result" where
  "compile_fields cat ctx g fields_obj [] acc ds = Inr (acc, ds)"
| "compile_fields cat ctx g fields_obj (f # fs) acc ds =
     (case as_mapping (dget fields_obj f) of
        None \<Rightarrow> compile_fields cat ctx g fields_obj fs acc
          (add_error ds ''COMPILER_MAPPING_FIELD_INVALID'' (''mapping.fields.'' @ f)
             (''mapping.fields.'' @ f @ '' must be an object.''))
      | Some fm \<Rightarrow>
          rbind (compile_field_mapping cat ctx g f fm ds) (\<lambda>(plan, ds').
            compile_fields cat ctx g fields_obj fs (dict_set f plan acc) ds'))"

definition empty_mapping_plan :: mapping_plan where
  "empty_mapping_plan = \<lparr>mp_output_kind = JsonObject, mp_output_order = None, mp_fields = [],
     mp_tombstone_enabled = False, mp_tombstone_flag_path = ''delete'', mp_tombstone_id_field = ''id''\<rparr>"

definition field_final_types :: "mapping_plan \<Rightarrow> (string, type_id option) odict" where
  "field_final_types p = map (\<lambda>(f, fp). (f, fm_final_type fp)) (mp_fields p)"

definition field_presences :: "mapping_plan \<Rightarrow> (string, field_presence_plan) odict" where
  "field_presences p = map (\<lambda>(f, fp). (f, fm_presence fp)) (mp_fields p)"

definition finish_mapping ::
  "dict \<Rightarrow> output_kind \<Rightarrow> (string, field_mapping_plan) odict \<Rightarrow> diags \<Rightarrow> mapping_plan \<times> diags" where
  "finish_mapping section kind compiled ds =
     (let (order, ds1) = compile_output_order kind section (dict_keys compiled) ds;
          ((enabled, flag_path, id_field), ds2) = read_delete_tombstone_settings section ds1
      in (\<lparr>mp_output_kind = kind, mp_output_order = order, mp_fields = compiled,
           mp_tombstone_enabled = enabled, mp_tombstone_flag_path = flag_path,
           mp_tombstone_id_field = id_field\<rparr>, ds2))"

text \<open>
  \<open>compile_mapping\<close> also returns the final type and the presence of every field; both are
  read off the plan (\<open>field_final_types\<close>, \<open>field_presences\<close>).
\<close>

definition compile_mapping ::
  "dict \<Rightarrow> ext_catalog \<Rightarrow> producer_context option \<Rightarrow> diags \<Rightarrow> (mapping_plan \<times> diags) result" where
  "compile_mapping schema_doc cat ctx ds =
     (case as_mapping (dget schema_doc ''mapping'') of
        None \<Rightarrow> Inr (empty_mapping_plan, add_error ds ''COMPILER_MAPPING_OUTPUT_KIND_INVALID'' ''mapping''
          ''mapping must be an object.'')
      | Some section \<Rightarrow>
          (let (g, ds1) = read_global_presence section ds;
               (kind, ds2) = (case output_kind_of (dget section ''output_kind'') of
                   Some k \<Rightarrow> (k, ds1)
                 | None \<Rightarrow> (JsonObject, add_error ds1 ''COMPILER_MAPPING_OUTPUT_KIND_INVALID''
                     ''mapping.output_kind'' ''mapping.output_kind must be one of: csv_row, json_object.''));
               (fields_obj, ds3) = (case as_mapping (dget section ''fields'') of
                   Some d \<Rightarrow> (d, ds2)
                 | None \<Rightarrow> ([], add_error ds2 ''COMPILER_MAPPING_FIELDS_INVALID'' ''mapping.fields''
                     ''mapping.fields must be an object.''))
           in rbind (compile_fields cat ctx g fields_obj (sort (dict_keys fields_obj)) [] ds3) (\<lambda>(fields, ds4).
                Inr (finish_mapping section kind fields ds4))))"

end
