(* ===== verification/PFP_Compiler.thy ===== *)
theory PFP_Compiler
  imports PFP_Compile_Mapping
begin

text \<open>
  Compilation of the \<open>validation\<close> and \<open>output\<close> sections, the cross-check between required
  fields and presence, and the compiler itself: \<open>pfp_core/engine/validation_compiler.py\<close>,
  \<open>validation/rule_order.py\<close>, \<open>validation/linking.py\<close>, \<open>validation/semantics.py\<close>,
  \<open>writer_compiler.py\<close>, \<open>compiler_checks.py\<close> and \<open>compiler.py\<close>.
\<close>

section \<open>Order of the rules\<close>

definition sub_mapping :: "dict \<Rightarrow> string \<Rightarrow> dict" where
  "sub_mapping d k = (case as_mapping (dget_or d k (PyDict [])) of None \<Rightarrow> [] | Some m \<Rightarrow> m)"

definition str_or_empty :: "pyval \<Rightarrow> string" where
  "str_or_empty v = (case v of PyStr s \<Rightarrow> s | _ \<Rightarrow> [])"

definition rule_key :: "nat \<times> pyval \<Rightarrow> string \<times> string \<times> string \<times> nat" where
  "rule_key p =
     (let (index, rule) = p in
      case as_mapping rule of
        None \<Rightarrow> (''2'', [], [], index)
      | Some m \<Rightarrow>
          (let rule_id = str_or_empty (dget m ''id'') in
           if rule_id \<noteq> [] then (''0'', rule_id, [], index)
           else (''1'', str_or_empty (dget m ''module_id''),
                 str_or_empty (dget (sub_mapping m ''applies_to'') ''field''), index)))"

definition sort_rules :: "(nat \<times> pyval) list \<Rightarrow> (nat \<times> pyval) list" where
  "sort_rules items = sort_key rule_key items"

definition ordered_rules :: "pyval list \<Rightarrow> (nat \<times> pyval) list" where
  "ordered_rules rules = sort_rules (List.enumerate 0 rules)"

interpretation rule_sort: keyed_sort rule_key sort_rules
  by unfold_locales (simp add: sort_rules_def)

section \<open>Linking\<close>

definition validation_module_allowlist :: "string list" where
  "validation_module_allowlist =
     [''required'', ''type'', ''enum'', ''range'', ''regex'', ''min_length'', ''max_length'',
      ''required_if_profile'', ''forbid_if_mode'', ''mode_forbid'', ''require_if_present'',
      ''require_if_equals'', ''forbid_if_equals'', ''dependency_if_present'',
      ''dependency_if_equals'', ''dependency_if_any_present'', ''numeric_compare_money'']"

definition link_validation_module ::
  "ext_catalog \<Rightarrow> string \<Rightarrow> string \<Rightarrow> diags \<Rightarrow> (bool \<times> type_id option) \<times> diags" where
  "link_validation_module cat m rule_path ds =
     (if m \<notin> set validation_module_allowlist
      then ((False, None), add_error ds ''SCHEMA_LINK_MODULE_NOT_ALLOWED'' (rule_path @ ''.module_id'')
        (''Validation module '' @ [CHR 0x27] @ m @ [CHR 0x27] @ '' is not in allowlist.''))
      else case try_get_validation_module cat m (rule_path @ ''.module_id'') ds of
          (None, ds1) \<Rightarrow> ((False, None), ds1)
        | (Some spec, ds1) \<Rightarrow>
            (let raw = ts_type_id (vm_value_type spec); t = to_plan_type_id raw in
             if t = None \<and> raw \<noteq> ''any''
             then ((False, None), add_error ds1 ''SCHEMA_TYPE_INVALID_TYPE_ID'' (rule_path @ ''.module_id'')
               (''Validation module value_type is not a supported TypeId: '' @ raw))
             else ((True, t), ds1)))"

section \<open>Field semantics\<close>

definition check_field_semantics ::
  "string option \<Rightarrow> string list \<Rightarrow> (string, type_id option) odict \<Rightarrow> type_id option \<Rightarrow> string
     \<Rightarrow> string \<Rightarrow> diags \<Rightarrow> diags" where
  "check_field_semantics applies known final_types expected m rule_path ds =
     (case applies of
        None \<Rightarrow> ds
      | Some f \<Rightarrow>
          (let ds1 = (if f \<notin> set known
                 then add_error ds ''COMPILER_FIELD_UNDEFINED'' (rule_path @ ''.applies_to.field'')
                   (''Unknown field in validation rule: '' @ [CHR 0x27] @ f @ [CHR 0x27] @ ''.'')
                 else ds)
           in case (map_of final_types f, expected) of
                (Some ft, Some e) \<Rightarrow>
                  if is_validation_type_mismatch ft e
                  then add_error ds1 ''SCHEMA_TYPE_VALIDATION_MISMATCH'' (rule_path @ ''.module_id'')
                    (''Validation module '' @ [CHR 0x27] @ m @ [CHR 0x27] @ '' expects '' @ [CHR 0x27]
                     @ type_name e @ [CHR 0x27] @ '', but field '' @ [CHR 0x27] @ f @ [CHR 0x27]
                     @ '' has '' @ [CHR 0x27] @ opt_type_str ft @ [CHR 0x27] @ ''.'')
                  else ds1
              | _ \<Rightarrow> ds1))"

definition canonical_artifact_profiles :: "string list" where
  "canonical_artifact_profiles = [''catalog_snapshot'', ''catalog_delta'', ''inventory_price_delta'']"

type_synonym required_sources = "(string, (string, string) odict) odict"

definition update_required_sources ::
  "string option \<Rightarrow> string \<Rightarrow> string \<Rightarrow> string list option \<Rightarrow> required_sources \<Rightarrow> required_sources" where
  "update_required_sources applies m rule_path filters req =
     (case applies of
        None \<Rightarrow> req
      | Some f \<Rightarrow>
          if m \<noteq> ''required_if_profile'' then req
          else let old = (case map_of req f of None \<Rightarrow> [] | Some s \<Rightarrow> s);
                   profiles = (case filters of None \<Rightarrow> canonical_artifact_profiles
                     | Some ps \<Rightarrow> if ps = [] then canonical_artifact_profiles else ps)
               in dict_set f (foldl (\<lambda>s p. dict_set p (rule_path @ ''.module_id'') s) old profiles) req)"

definition profile_items :: "pyval \<Rightarrow> string list" where
  "profile_items v =
     (case v of
        PyList xs \<Rightarrow> stripped_lower_items xs
      | PyTuple xs \<Rightarrow> stripped_lower_items xs
      | PyDict d \<Rightarrow> stripped_lower_items (map PyStr (dict_keys d))
      | _ \<Rightarrow> [])"

definition extract_profile_filters :: "dict \<Rightarrow> string list option" where
  "extract_profile_filters config =
     (let normalized = (if dhas config ''artifact_profiles''
            then profile_items (dget config ''artifact_profiles'') else [])
      in if normalized \<noteq> [] then Some (sort (remdups normalized))
         else case dget config ''artifact_profile'' of
             PyStr s \<Rightarrow> if strip s = [] then None else Some [lower (strip s)]
           | _ \<Rightarrow> None)"

definition read_rule_profile_filters :: "string \<Rightarrow> dict \<Rightarrow> string list option" where
  "read_rule_profile_filters m config =
     (if m = ''required_if_profile'' then extract_profile_filters config else None)"

section \<open>The validation section\<close>

record rule_state =
  rs_rules :: "validation_rule_plan list"
  rs_required :: required_sources

definition compile_rule ::
  "ext_catalog \<Rightarrow> string list \<Rightarrow> (string, type_id option) odict \<Rightarrow> nat \<times> pyval \<Rightarrow> rule_state \<Rightarrow> diags
     \<Rightarrow> rule_state \<times> diags" where
  "compile_rule cat known final_types ir st ds =
     (let (index, rule_obj) = ir; rule_path = ''validation.rules['' @ nat_str index @ '']'' in
      case as_mapping rule_obj of
        None \<Rightarrow> (st, add_error ds ''COMPILER_VALIDATION_INVALID'' rule_path
          (rule_path @ '' must be an object.''))
      | Some rule \<Rightarrow>
          (let m = str_or_empty (dget rule ''module_id'') in
           if m = [] then (st, add_error ds ''SCHEMA_LINK_MODULE_INVALID'' (rule_path @ ''.module_id'')
             ''validation rule module_id must be a non-empty string.'')
           else case link_validation_module cat m rule_path ds of
               ((False, _), ds1) \<Rightarrow> (st, ds1)
             | ((True, expected), ds1) \<Rightarrow>
                 (let applies = as_str (dget (sub_mapping rule ''applies_to'') ''field'');
                      ds2 = check_field_semantics applies known final_types expected m rule_path ds1;
                      (config, ds3) = (case as_mapping (dget_or rule ''config'' (PyDict [])) of
                          Some c \<Rightarrow> (c, ds2)
                        | None \<Rightarrow> ([], add_error ds2 ''COMPILER_VALIDATION_INVALID'' (rule_path @ ''.config'')
                            (rule_path @ ''.config must be an object.'')));
                      req = update_required_sources applies m rule_path
                        (read_rule_profile_filters m config) (rs_required st);
                      on_fail = sub_mapping rule ''on_fail''
                  in (\<lparr>rs_rules = rs_rules st @ [\<lparr>rp_module_id = m, rp_rule_id = as_str (dget rule ''id''),
                          rp_applies_to_field = applies, rp_config = config,
                          rp_on_fail_code = as_str (dget on_fail ''code''),
                          rp_on_fail_message = as_str (dget on_fail ''message''),
                          rp_severity_hint = as_str (dget on_fail ''severity_hint''),
                          rp_expected_value_type = expected\<rparr>],
                       rs_required = req\<rparr>, ds3))))"

fun compile_rules ::
  "ext_catalog \<Rightarrow> string list \<Rightarrow> (string, type_id option) odict \<Rightarrow> (nat \<times> pyval) list \<Rightarrow> rule_state
     \<Rightarrow> diags \<Rightarrow> rule_state \<times> diags" where
  "compile_rules cat known final_types [] st ds = (st, ds)"
| "compile_rules cat known final_types (ir # irs) st ds =
     (case compile_rule cat known final_types ir st ds of
        (st', ds') \<Rightarrow> compile_rules cat known final_types irs st' ds')"

definition compile_validation ::
  "dict \<Rightarrow> string list \<Rightarrow> (string, type_id option) odict \<Rightarrow> ext_catalog \<Rightarrow> diags
     \<Rightarrow> (validation_plan \<times> required_sources) \<times> diags" where
  "compile_validation schema_doc known final_types cat ds =
     (case as_mapping (dget schema_doc ''validation'') of
        None \<Rightarrow> ((\<lparr>vp_rules = []\<rparr>, []), add_error ds ''COMPILER_VALIDATION_INVALID'' ''validation''
          ''validation must be an object.'')
      | Some section \<Rightarrow>
          (case dget_or section ''rules'' (PyList []) of
             PyList rules \<Rightarrow>
               (case compile_rules cat known final_types (ordered_rules rules)
                   \<lparr>rs_rules = [], rs_required = []\<rparr> ds of
                  (st, ds1) \<Rightarrow> ((\<lparr>vp_rules = rs_rules st\<rparr>, rs_required st), ds1))
           | _ \<Rightarrow> ((\<lparr>vp_rules = []\<rparr>, []), add_error ds ''COMPILER_VALIDATION_INVALID'' ''validation.rules''
               ''validation.rules must be a list.'')))"

section \<open>The output section\<close>

definition read_str :: "dict \<Rightarrow> string \<Rightarrow> string \<Rightarrow> diags \<Rightarrow> string \<times> diags" where
  "read_str d k path ds =
     (case dget d k of
        PyStr s \<Rightarrow> (s, ds)
      | _ \<Rightarrow> ([], add_error ds ''COMPILER_OUTPUT_INVALID'' path (path @ '' must be a string.'')))"

definition compile_writer_spec :: "dict \<Rightarrow> diags \<Rightarrow> writer_spec \<times> diags" where
  "compile_writer_spec schema_doc ds =
     (case as_mapping (dget schema_doc ''output'') of
        None \<Rightarrow> (\<lparr>ws_writer_id = [], ws_content_type = [], ws_file_extension = [], ws_config = []\<rparr>,
          add_error ds ''COMPILER_OUTPUT_INVALID'' ''output'' ''output must be an object.'')
      | Some out \<Rightarrow>
          (let (wid, ds1) = read_str out ''writer_id'' ''output.writer_id'' ds;
               (cfg, ds2) = (case as_mapping (dget_or out ''writer_config'' (PyDict [])) of
                   Some c \<Rightarrow> (c, ds1)
                 | None \<Rightarrow> ([], add_error ds1 ''COMPILER_OUTPUT_INVALID'' ''output.writer_config''
                     ''output.writer_config must be an object.''));
               (artifact, ds3) = (case as_mapping (dget out ''artifact'') of
                   Some a \<Rightarrow> (a, ds2)
                 | None \<Rightarrow> ([], add_error ds2 ''COMPILER_OUTPUT_INVALID'' ''output.artifact''
                     ''output.artifact must be an object.''));
               (ctype, ds4) = read_str artifact ''content_type'' ''output.artifact.content_type'' ds3;
               (ext, ds5) = read_str artifact ''file_extension'' ''output.artifact.file_extension'' ds4
           in (\<lparr>ws_writer_id = wid, ws_content_type = ctype, ws_file_extension = ext, ws_config = cfg\<rparr>, ds5)))"

section \<open>Cross-checks\<close>

fun check_profiles :: "string \<Rightarrow> (string, string) odict \<Rightarrow> string list \<Rightarrow> diags \<Rightarrow> diags" where
  "check_profiles f sources [] ds = ds"
| "check_profiles f sources (p # ps) ds =
     check_profiles f sources ps
       (add_error ds ''COMPILER_PRESENCE_REQUIRED_CONTRADICTION''
          (''mapping.fields.'' @ f @ ''.presence.behavior'')
          (''Field '' @ [CHR 0x27] @ f @ [CHR 0x27] @ '' is required in profile '' @ [CHR 0x27] @ p
           @ [CHR 0x27] @ '' by '' @ the (map_of sources p) @ '', but presence allows omit_missing.''))"

fun check_contradictions ::
  "(string, field_presence_plan) odict \<Rightarrow> required_sources \<Rightarrow> string list \<Rightarrow> diags \<Rightarrow> diags" where
  "check_contradictions presences req [] ds = ds"
| "check_contradictions presences req (f # fs) ds =
     check_contradictions presences req fs
       (case map_of presences f of
          None \<Rightarrow> ds
        | Some p \<Rightarrow>
            if fp_behavior p = OmitMissing
            then (let sources = the (map_of req f)
                  in check_profiles f sources (sort (dict_keys sources)) ds)
            else ds)"

definition check_presence_required_contradictions ::
  "(string, field_presence_plan) odict \<Rightarrow> required_sources \<Rightarrow> diags \<Rightarrow> diags" where
  "check_presence_required_contradictions presences req ds =
     check_contradictions presences req (sort (dict_keys req)) ds"

section \<open>The compiler\<close>

text \<open>\<open>str(schema_doc["header"]["artifact_profile"])\<close>\<close>

definition read_header_profile :: "dict \<Rightarrow> string result" where
  "read_header_profile schema_doc =
     (case map_of schema_doc ''header'' of
        None \<Rightarrow> Inl KeyError
      | Some (PyDict h) \<Rightarrow>
          (case map_of h ''artifact_profile'' of None \<Rightarrow> Inl KeyError | Some v \<Rightarrow> Inr (py_str v))
      | Some _ \<Rightarrow> Inl TypeError)"

definition compile_schema ::
  "ext_catalog \<Rightarrow> dict \<Rightarrow> producer_context option \<Rightarrow> compiled_schema result" where
  "compile_schema cat schema_doc ctx =
     (let (wspec, ds1) = compile_writer_spec schema_doc [] in
      rbind (compile_mapping schema_doc cat ctx ds1) (\<lambda>(mplan, ds2).
        let ((vplan, req), ds3) = compile_validation schema_doc (dict_keys (mp_fields mplan))
              (field_final_types mplan) cat ds2;
            ds4 = check_presence_required_contradictions (field_presences mplan) req ds3;
            ordered = sort_compile_diagnostics ds4
        in rbind (read_header_profile schema_doc) (\<lambda>profile.
             Inr \<lparr>cs_artifact_profile = profile, cs_validation_plan = vplan, cs_mapping_plan = mplan,
                  cs_writer_spec = wspec, cs_diagnostics = ordered,
                  cs_is_valid = (\<not> (\<exists>d \<in> set ordered. cd_severity d = CError))\<rparr>)))"

end
