(* ===== verification/PFP_Diagnostics.thy ===== *)
theory PFP_Diagnostics
  imports PFP_Types
begin

text \<open>
  Diagnostics and their accounting: \<open>pfp_utils/diagnostics/diagnostic_models.py\<close>,
  \<open>validation_report.py\<close> and \<open>feed_usage.py\<close>.  Severities are ordered by their rank, so that
  the library's orders and sorting apply to them.
\<close>

section \<open>Severity\<close>

datatype diag_severity = SevError | SevWarn | SevInfo

fun sev_name :: "diag_severity \<Rightarrow> string" where
  "sev_name SevError = ''ERROR''"
| "sev_name SevWarn = ''WARN''"
| "sev_name SevInfo = ''INFO''"

fun sev_rank :: "diag_severity \<Rightarrow> nat" where
  "sev_rank SevError = 0"
| "sev_rank SevWarn = 1"
| "sev_rank SevInfo = 2"

text \<open>\<open>DiagnosticSeverity.normalize\<close> on a text; a severity normalizes to itself.\<close>

definition sev_normalize :: "string \<Rightarrow> diag_severity result" where
  "sev_normalize value =
     (let txt = upper (strip value); txt' = (if txt = ''WARNING'' then ''WARN'' else txt) in
      if txt' = ''ERROR'' then Inr SevError
      else if txt' = ''WARN'' then Inr SevWarn
      else if txt' = ''INFO'' then Inr SevInfo
      else Inl ValueError)"

instantiation diag_severity :: linorder
begin

definition less_eq_diag_severity :: "diag_severity \<Rightarrow> diag_severity \<Rightarrow> bool" where
  "less_eq_diag_severity a b \<longleftrightarrow> sev_rank a \<le> sev_rank b"

definition less_diag_severity :: "diag_severity \<Rightarrow> diag_severity \<Rightarrow> bool" where
  "less_diag_severity a b \<longleftrightarrow> sev_rank a < sev_rank b"

instance
proof
  fix a b c :: diag_severity
  show "(a < b) = (a \<le> b \<and> \<not> b \<le> a)"
    by (auto simp: less_diag_severity_def less_eq_diag_severity_def)
  show "a \<le> a" by (simp add: less_eq_diag_severity_def)
  show "a \<le> b \<Longrightarrow> b \<le> c \<Longrightarrow> a \<le> c" by (simp add: less_eq_diag_severity_def)
  show "a \<le> b \<Longrightarrow> b \<le> a \<Longrightarrow> a = b"
    by (cases a; cases b) (simp_all add: less_eq_diag_severity_def)
  show "a \<le> b \<or> b \<le> a" by (auto simp: less_eq_diag_severity_def)
qed

end

lemma upper_sev_name: "upper (sev_name s) = sev_name s"
  by (cases s) (simp_all add: upper_def upper_char_def)

lemma sev_normalize_name: "sev_normalize (sev_name s) = Inr s"
proof -
  have strip: "strip (sev_name s) = sev_name s"
    by (rule strip_fixed) (cases s; simp add: is_space_def)
  have "upper (strip (sev_name s)) = sev_name s" by (simp only: strip upper_sev_name)
  then show ?thesis by (cases s) (simp_all add: sev_normalize_def Let_def)
qed

section \<open>Diagnostics and reports\<close>

record diagnostic =
  dg_severity :: diag_severity
  dg_code :: string
  dg_message :: string
  dg_path :: "string option"
  dg_item_ref :: "string option"
  dg_metadata :: dict

definition diag_new ::
  "diag_severity \<Rightarrow> string \<Rightarrow> string \<Rightarrow> string option \<Rightarrow> string option \<Rightarrow> dict \<Rightarrow> diagnostic" where
  "diag_new sev code message path item_ref metadata =
     \<lparr>dg_severity = sev, dg_code = code, dg_message = message, dg_path = path,
      dg_item_ref = item_ref, dg_metadata = metadata\<rparr>"

record validation_report =
  vr_target :: "string option"
  vr_profile :: "string option"
  vr_diagnostics :: "diagnostic list"

definition report_add :: "diagnostic \<Rightarrow> validation_report \<Rightarrow> validation_report" where
  "report_add d r = r\<lparr>vr_diagnostics := vr_diagnostics r @ [d]\<rparr>"

definition or_empty :: "string option \<Rightarrow> string" where
  "or_empty s = (case s of None \<Rightarrow> [] | Some t \<Rightarrow> t)"

definition diag_key :: "diagnostic \<Rightarrow> nat \<times> string \<times> string \<times> string" where
  "diag_key d = (sev_rank (dg_severity d), dg_code d, or_empty (dg_item_ref d), or_empty (dg_path d))"

definition sort_diagnostics :: "diagnostic list \<Rightarrow> diagnostic list" where
  "sort_diagnostics ds = sort_key diag_key ds"

definition sorted_diagnostics :: "validation_report \<Rightarrow> diagnostic list" where
  "sorted_diagnostics r = sort_diagnostics (vr_diagnostics r)"

interpretation diag_sort: keyed_sort diag_key sort_diagnostics
  by unfold_locales (simp add: sort_diagnostics_def)

lemma sorted_diagnostics_by_severity:
  "sorted (map dg_severity (sorted_diagnostics r))"
proof -
  have "sorted_wrt (\<lambda>a b. diag_key a \<le> diag_key b) (sorted_diagnostics r)"
    using diag_sort.srt_sorted [of "vr_diagnostics r"]
    by (simp add: sorted_diagnostics_def sorted_map)
  then have "sorted_wrt (\<lambda>a b. dg_severity a \<le> dg_severity b) (sorted_diagnostics r)"
    by (rule sorted_wrt_mono_rel [rotated])
      (auto simp: diag_key_def less_eq_diag_severity_def)
  then show ?thesis by (simp add: sorted_map)
qed

section \<open>Usage accounting\<close>

record feed_usage =
  fu_input :: nat
  fu_artifacts :: nat
  fu_processed :: nat
  fu_dropped :: nat
  fu_errors :: nat
  fu_diagnostics :: "(string, nat) odict"

definition usage_zero :: feed_usage where
  "usage_zero = \<lparr>fu_input = 0, fu_artifacts = 0, fu_processed = 0, fu_dropped = 0, fu_errors = 0,
     fu_diagnostics = [(''ERROR'', 0), (''WARN'', 0), (''INFO'', 0)]\<rparr>"

definition usage_reset :: "feed_usage \<Rightarrow> feed_usage" where
  "usage_reset u = usage_zero"

definition inc_input :: "nat \<Rightarrow> feed_usage \<Rightarrow> feed_usage" where
  "inc_input n u = u\<lparr>fu_input := fu_input u + n\<rparr>"

definition inc_processed :: "nat \<Rightarrow> feed_usage \<Rightarrow> feed_usage" where
  "inc_processed n u = u\<lparr>fu_processed := fu_processed u + n\<rparr>"

definition inc_dropped :: "nat \<Rightarrow> feed_usage \<Rightarrow> feed_usage" where
  "inc_dropped n u = u\<lparr>fu_dropped := fu_dropped u + n\<rparr>"

definition inc_error :: "nat \<Rightarrow> feed_usage \<Rightarrow> feed_usage" where
  "inc_error n u = u\<lparr>fu_errors := fu_errors u + n\<rparr>"

definition inc_artifacts :: "nat \<Rightarrow> feed_usage \<Rightarrow> feed_usage" where
  "inc_artifacts n u = u\<lparr>fu_artifacts := fu_artifacts u + n\<rparr>"

definition inc_diagnostic :: "string \<Rightarrow> feed_usage \<Rightarrow> feed_usage" where
  "inc_diagnostic severity u =
     (let k = upper severity;
          old = (case map_of (fu_diagnostics u) k of None \<Rightarrow> 0 | Some n \<Rightarrow> n)
      in u\<lparr>fu_diagnostics := dict_set k (old + 1) (fu_diagnostics u)\<rparr>)"

lemmas usage_defs =
  inc_input_def inc_processed_def inc_dropped_def inc_error_def inc_artifacts_def
  inc_diagnostic_def Let_def

definition diag_count :: "feed_usage \<Rightarrow> diag_severity \<Rightarrow> nat" where
  "diag_count u s = (case map_of (fu_diagnostics u) (sev_name s) of None \<Rightarrow> 0 | Some n \<Rightarrow> n)"

lemma sev_name_inj: "sev_name a = sev_name b \<longleftrightarrow> a = b"
  by (cases a; cases b) simp_all

lemma diag_count_inc:
  "diag_count (inc_diagnostic (sev_name s) u) t = diag_count u t + (if s = t then 1 else 0)"
proof -
  show ?thesis
    by (auto simp: upper_sev_name diag_count_def inc_diagnostic_def map_of_dict_set sev_name_inj Let_def)
qed

end
