(* ===== verification/PFP_Policies.thy ===== *)
theory PFP_Policies
  imports PFP_Diagnostics
begin

text \<open>
  The policies (\<open>pfp_core/policies\<close>): strictness, fault isolation and eligibility with their
  configurations, the registry of policy factories and the bundle built from a configuration.
  Telemetry counters and log lines are not modelled.
  Errors carry their message here, because \<open>_build_optional_policy\<close> looks at it.
\<close>

type_synonym 'a mresult = "(exn \<times> string) + 'a"

section \<open>Configuration utilities\<close>

definition require_mapping :: "pyval \<Rightarrow> string \<Rightarrow> dict mresult" where
  "require_mapping v path =
     (case v of PyDict d \<Rightarrow> Inr d
      | _ \<Rightarrow> Inl (ValueError, ''Expected mapping at '' @ [CHR 0x27] @ path @ [CHR 0x27]))"

definition validate_keys :: "dict \<Rightarrow> string list \<Rightarrow> string \<Rightarrow> unit mresult" where
  "validate_keys d allowed path =
     (let unknown = filter (\<lambda>k. k \<notin> set allowed) (dict_keys d) in
      if unknown \<noteq> [] then Inl (ValueError, ''Unknown keys at '' @ [CHR 0x27] @ path @ [CHR 0x27]
        @ '': '' @ join '', '' (sort unknown))
      else Inr ())"

definition require_key :: "dict \<Rightarrow> string \<Rightarrow> string \<Rightarrow> pyval mresult" where
  "require_key d k path =
     (case map_of d k of Some v \<Rightarrow> Inr v
      | None \<Rightarrow> Inl (ValueError, ''Missing required key '' @ [CHR 0x27] @ k @ [CHR 0x27] @ '' at ''
          @ [CHR 0x27] @ path @ [CHR 0x27]))"

definition normalize_version :: "pyval \<Rightarrow> string mresult" where
  "normalize_version v =
     (case v of
        PyInt _ \<Rightarrow> Inr (py_str v)
      | PyBool _ \<Rightarrow> Inr (py_str v)
      | PyFloat _ \<Rightarrow> Inr (py_str v)
      | PyStr s \<Rightarrow> Inr s
      | _ \<Rightarrow> Inl (ValueError, ''Policy config version must be a string''))"

section \<open>Strictness\<close>

datatype strictness_mode = FailOnError | DropInvalid | WarnOnly

fun mode_value :: "strictness_mode \<Rightarrow> string" where
  "mode_value FailOnError = ''fail_on_error''"
| "mode_value DropInvalid = ''drop_invalid''"
| "mode_value WarnOnly = ''warn_only''"

definition all_modes :: "strictness_mode list" where
  "all_modes = [FailOnError, DropInvalid, WarnOnly]"

definition mode_normalize :: "string \<Rightarrow> strictness_mode mresult" where
  "mode_normalize value =
     (case find (\<lambda>m. mode_value m = lower (strip value)) all_modes of
        Some m \<Rightarrow> Inr m
      | None \<Rightarrow> Inl (ValueError, ''Unknown strictness strategy '' @ [CHR 0x27] @ value @ [CHR 0x27]))"

definition strictness_config_from_dict :: "pyval \<Rightarrow> strictness_mode mresult" where
  "strictness_config_from_dict data =
     rbind (require_mapping data ''core.strictness'') (\<lambda>d.
     rbind (validate_keys d [''strategy''] ''core.strictness'') (\<lambda>_.
     rbind (require_key d ''strategy'' ''core.strictness'') (\<lambda>raw.
       case raw of PyStr s \<Rightarrow> mode_normalize s
       | _ \<Rightarrow> Inl (ValueError, ''core.strictness.strategy must be a string''))))"

record strictness_decision =
  sd_diagnostics :: "diagnostic list"
  sd_should_fail :: bool
  sd_drop_invalid :: bool

definition has_errors :: "diagnostic list \<Rightarrow> bool" where
  "has_errors ds \<longleftrightarrow> (\<exists>d \<in> set ds. dg_severity d = SevError)"

definition with_severity :: "diagnostic \<Rightarrow> diag_severity \<Rightarrow> diagnostic" where
  "with_severity d sev = diag_new sev (dg_code d) (dg_message d) (dg_path d) (dg_item_ref d) (dg_metadata d)"

definition downgrade_errors :: "diagnostic list \<Rightarrow> diagnostic list" where
  "downgrade_errors ds =
     map (\<lambda>d. if dg_severity d = SevError then with_severity d SevWarn else d) ds"

fun strictness_apply :: "strictness_mode \<Rightarrow> diagnostic list \<Rightarrow> strictness_decision" where
  "strictness_apply FailOnError ds =
     \<lparr>sd_diagnostics = ds, sd_should_fail = has_errors ds, sd_drop_invalid = False\<rparr>"
| "strictness_apply DropInvalid ds =
     \<lparr>sd_diagnostics = ds, sd_should_fail = False, sd_drop_invalid = has_errors ds\<rparr>"
| "strictness_apply WarnOnly ds =
     \<lparr>sd_diagnostics = downgrade_errors ds, sd_should_fail = False, sd_drop_invalid = False\<rparr>"

text \<open>
  What the validation executor relies on: one diagnostic back for each one given, never two
  verdicts at once, and no verdict on a record without errors.
\<close>

locale strictness_policy =
  fixes apply_policy :: "diagnostic list \<Rightarrow> strictness_decision"
  assumes same_length: "length (sd_diagnostics (apply_policy ds)) = length ds"
    and one_verdict: "\<not> (sd_should_fail (apply_policy ds) \<and> sd_drop_invalid (apply_policy ds))"
    and clean_passes: "\<not> has_errors ds \<Longrightarrow>
      sd_diagnostics (apply_policy ds) = ds \<and> \<not> sd_should_fail (apply_policy ds)
      \<and> \<not> sd_drop_invalid (apply_policy ds)"
begin

lemma never_mismatched: "(length (sd_diagnostics (apply_policy ds)) \<noteq> length ds) = False"
  by (simp add: same_length)

lemma empty_passes: "sd_diagnostics (apply_policy []) = [] \<and> \<not> sd_should_fail (apply_policy [])"
  using clean_passes [of "[]"] by (simp add: has_errors_def)

end

interpretation strictness: strictness_policy "strictness_apply mode" for mode
proof
  fix ds :: "diagnostic list"
  show "length (sd_diagnostics (strictness_apply mode ds)) = length ds"
    by (cases mode) (simp_all add: downgrade_errors_def)
  show "\<not> (sd_should_fail (strictness_apply mode ds) \<and> sd_drop_invalid (strictness_apply mode ds))"
    by (cases mode) simp_all
  have "\<not> has_errors ds \<Longrightarrow> downgrade_errors ds = ds"
    by (induction ds) (auto simp: downgrade_errors_def has_errors_def)
  then show "\<not> has_errors ds \<Longrightarrow>
      sd_diagnostics (strictness_apply mode ds) = ds \<and> \<not> sd_should_fail (strictness_apply mode ds)
      \<and> \<not> sd_drop_invalid (strictness_apply mode ds)"
    by (cases mode) simp_all
qed

section \<open>Fault isolation\<close>

datatype fault_strategy = SkipItem | FailFast | IgnoreFault

fun fault_name :: "fault_strategy \<Rightarrow> string" where
  "fault_name SkipItem = ''SKIP_ITEM''"
| "fault_name FailFast = ''FAIL_FAST''"
| "fault_name IgnoreFault = ''IGNORE''"

definition fault_config_from_dict :: "pyval \<Rightarrow> fault_strategy mresult" where
  "fault_config_from_dict data =
     rbind (require_mapping data ''infrastructure.fault_isolation'') (\<lambda>d.
     rbind (validate_keys d [''strategy''] ''infrastructure.fault_isolation'') (\<lambda>_.
       case dget d ''strategy'' of
         PyNone \<Rightarrow> Inr SkipItem
       | PyStr s \<Rightarrow>
           (case find (\<lambda>f. fault_name f = upper s) [SkipItem, FailFast, IgnoreFault] of
              Some f \<Rightarrow> Inr f
            | None \<Rightarrow> Inl (ValueError, ''Invalid fault isolation strategy '' @ [CHR 0x27] @ s @ [CHR 0x27]
                @ ''. Must be one of: FAIL_FAST, IGNORE, SKIP_ITEM''))
       | _ \<Rightarrow> Inl (ValueError, ''infrastructure.fault_isolation.strategy must be a string'')))"

text \<open>The error is logged; only \<open>FAIL_FAST\<close> raises it again.\<close>

definition handle_error :: "fault_strategy \<Rightarrow> 'e \<Rightarrow> 'e option" where
  "handle_error f e = (if f = FailFast then Some e else None)"

section \<open>Eligibility configuration\<close>

definition merchant_fields_from_dict :: "dict \<Rightarrow> pyval list mresult" where
  "merchant_fields_from_dict d =
     (case dget_or d ''merchant_fields'' (PyList []) of
        PyList xs \<Rightarrow> Inr xs
      | PyTuple xs \<Rightarrow> Inr xs
      | _ \<Rightarrow> Inl (ValueError,
          ''eligibility.checkout_requirements.merchant_fields must be a list''))"

definition eligibility_config_from_dict :: "pyval \<Rightarrow> pyval list mresult" where
  "eligibility_config_from_dict data =
     rbind (require_mapping data ''core.eligibility'') (\<lambda>d.
     rbind (validate_keys d [''checkout_requirements''] ''core.eligibility'') (\<lambda>_.
       case dget_or d ''checkout_requirements'' (PyDict []) of
         PyDict reqs \<Rightarrow> merchant_fields_from_dict reqs
       | _ \<Rightarrow> Inl (ValueError, ''core.eligibility.checkout_requirements must be a mapping'')))"

section \<open>The policy configuration\<close>

record core_policy_config =
  cp_strictness :: strictness_mode
  cp_eligibility :: "pyval list"
  cp_fault :: fault_strategy

definition core_policy_from_dict :: "pyval \<Rightarrow> core_policy_config mresult" where
  "core_policy_from_dict data =
     rbind (require_mapping data ''core'') (\<lambda>d.
     rbind (validate_keys d [''strictness'', ''eligibility'', ''fault_isolation''] ''core'') (\<lambda>_.
     rbind (require_mapping (dget_or d ''strictness'' (PyDict [])) ''core.strictness'') (\<lambda>s.
     rbind (strictness_config_from_dict (PyDict s)) (\<lambda>mode.
     rbind (require_mapping (dget_or d ''eligibility'' (PyDict [])) ''core.eligibility'') (\<lambda>e.
     rbind (eligibility_config_from_dict (PyDict e)) (\<lambda>fields.
     rbind (require_mapping (dget_or d ''fault_isolation'' (PyDict [])) ''core.fault_isolation'') (\<lambda>f.
     rbind (fault_config_from_dict (PyDict f)) (\<lambda>fault.
       Inr \<lparr>cp_strictness = mode, cp_eligibility = fields, cp_fault = fault\<rparr>))))))))"

definition infrastructure_from_dict :: "pyval \<Rightarrow> fault_strategy mresult" where
  "infrastructure_from_dict data =
     rbind (require_mapping data ''infrastructure'') (\<lambda>d.
     rbind (validate_keys d [''fault_isolation''] ''infrastructure'') (\<lambda>_.
     rbind (require_mapping (dget_or d ''fault_isolation'' (PyDict [])) ''fault_isolation'') (\<lambda>f.
       fault_config_from_dict (PyDict f))))"

record policy_config =
  pc_version :: string
  pc_core :: core_policy_config
  pc_infra_fault :: fault_strategy

definition policy_config_from_dict :: "pyval \<Rightarrow> policy_config mresult" where
  "policy_config_from_dict data =
     rbind (require_mapping data ''root'') (\<lambda>d.
     rbind (validate_keys d [''version'', ''core''] ''root'') (\<lambda>_.
     rbind (require_key d ''version'' ''root'') (\<lambda>v.
     rbind (normalize_version v) (\<lambda>version.
       if version \<noteq> ''1.0''
       then Inl (ValueError, ''Unsupported policy config version '' @ [CHR 0x27] @ version @ [CHR 0x27])
       else rbind (require_key d ''core'' ''root'') (\<lambda>c.
         rbind (require_mapping c ''core'') (\<lambda>core_data.
         rbind (core_policy_from_dict (PyDict core_data)) (\<lambda>core.
         rbind (infrastructure_from_dict (PyDict [(''fault_isolation'',
             PyDict [(''strategy'', PyStr (fault_name (cp_fault core)))])])) (\<lambda>infra.
           Inr \<lparr>pc_version = version, pc_core = core, pc_infra_fault = infra\<rparr>))))))))"

text \<open>\<open>load_policy_config_from_yaml_text\<close> after \<open>yaml.safe_load\<close>.\<close>

definition load_policy_config :: "pyval \<Rightarrow> policy_config mresult" where
  "load_policy_config data =
     (if data = PyNone then Inl (ValueError, ''Policy config is empty'')
      else case data of
        PyDict d \<Rightarrow> policy_config_from_dict data
      | _ \<Rightarrow> Inl (ValueError, ''Policy config root must be a mapping''))"

section \<open>Factories, registry and bundle\<close>

text \<open>A configuration object and the policy a factory makes of it.\<close>

datatype policy_cfg = CfgStrictness string | CfgEligibility "pyval list" | CfgFault fault_strategy

datatype policy = PolStrictness strictness_mode | PolEligibility "pyval list" | PolFault fault_strategy

type_synonym policy_factory = "policy_cfg \<Rightarrow> policy mresult"

type_synonym policy_registry = "(string, policy_factory) odict"

definition build_strictness_policy :: policy_factory where
  "build_strictness_policy cfg =
     (case cfg of
        CfgStrictness s \<Rightarrow> rbind (mode_normalize s) (\<lambda>m. Inr (PolStrictness m))
      | _ \<Rightarrow> Inl (TypeError, ''Strictness policy config must be StrictnessConfig''))"

definition build_eligibility_policy :: policy_factory where
  "build_eligibility_policy cfg =
     (case cfg of
        CfgEligibility fs \<Rightarrow> Inr (PolEligibility fs)
      | _ \<Rightarrow> Inl (TypeError, ''Eligibility policy config must be EligibilityConfig''))"

definition build_fault_isolation_policy :: policy_factory where
  "build_fault_isolation_policy cfg =
     (case cfg of
        CfgFault f \<Rightarrow> Inr (PolFault f)
      | _ \<Rightarrow> Inl (TypeError, ''Fault isolation policy config must be FaultIsolationConfig''))"

definition register_policy ::
  "string \<Rightarrow> policy_factory \<Rightarrow> policy_registry \<Rightarrow> policy_registry result" where
  "register_policy name factory r =
     (if map_of r name \<noteq> None then Inl ValueError else Inr (dict_set name factory r))"

definition build_policy :: "policy_registry \<Rightarrow> string \<Rightarrow> policy_cfg \<Rightarrow> policy mresult" where
  "build_policy r name cfg =
     (case map_of r name of
        None \<Rightarrow> Inl (ValueError, ''Unknown policy '' @ [CHR 0x27] @ name @ [CHR 0x27])
      | Some factory \<Rightarrow> factory cfg)"

interpretation policies: registry "\<lambda>_. True" register_policy "\<lambda>k r. map_of r k"
  by unfold_locales (auto simp: register_policy_def map_of_dict_set split: if_splits)

definition default_policy_registry :: "policy_registry result" where
  "default_policy_registry =
     rbind (register_policy ''strictness'' build_strictness_policy []) (\<lambda>r1.
     rbind (register_policy ''eligibility'' build_eligibility_policy r1) (\<lambda>r2.
       register_policy ''fault_isolation'' build_fault_isolation_policy r2))"

text \<open>
  An optional policy: no configuration, or a registry that does not know the name, gives no
  policy.  The code recognizes the second case by the text of the error.
\<close>

definition build_optional_policy ::
  "policy_registry \<Rightarrow> string \<Rightarrow> policy_cfg option \<Rightarrow> policy option mresult" where
  "build_optional_policy r name cfg =
     (case cfg of
        None \<Rightarrow> Inr None
      | Some c \<Rightarrow>
          (case build_policy r name c of
             Inr p \<Rightarrow> Inr (Some p)
           | Inl (e, msg) \<Rightarrow>
               if e = ValueError \<and> in_sub ''Unknown policy'' msg then Inr None else Inl (e, msg)))"

record policy_bundle =
  pb_strictness :: policy
  pb_eligibility :: "policy option"
  pb_fault :: "policy option"

definition build_policy_bundle ::
  "policy_config \<Rightarrow> policy_registry \<Rightarrow> policy_bundle mresult" where
  "build_policy_bundle cfg r =
     rbind (build_policy r ''strictness'' (CfgStrictness (mode_value (cp_strictness (pc_core cfg))))) (\<lambda>s.
     rbind (build_optional_policy r ''eligibility'' (Some (CfgEligibility (cp_eligibility (pc_core cfg))))) (\<lambda>e.
     rbind (build_optional_policy r ''fault_isolation'' (Some (CfgFault (cp_fault (pc_core cfg))))) (\<lambda>f.
       Inr \<lparr>pb_strictness = s, pb_eligibility = e, pb_fault = f\<rparr>)))"

lemma mode_normalize_value: "mode_normalize (mode_value m) = Inr m"
proof -
  have "lower (strip (mode_value m)) = mode_value m"
  proof -
    have "strip (mode_value m) = mode_value m"
      by (rule strip_fixed) (cases m; simp add: is_space_def)
    then show ?thesis by (cases m) (simp_all add: lower_def lower_char_def)
  qed
  then show ?thesis by (cases m) (simp_all add: mode_normalize_def all_modes_def)
qed

lemma fault_config_name:
  "fault_config_from_dict (PyDict [(''strategy'', PyStr (fault_name f))]) = Inr f"
proof -
  have "upper (fault_name f) = fault_name f"
    by (cases f) (simp_all add: upper_def upper_char_def)
  then show ?thesis
    by (cases f) (simp_all add: fault_config_from_dict_def require_mapping_def validate_keys_def dict_keys_def)
qed

end
