(* ===== verification/PFP_Validation_Exec.thy ===== *)
theory PFP_Validation_Exec
  imports PFP_Builtins PFP_Policies
begin

text \<open>
  The validation executor: \<open>pfp_core/engine/validation_executor.py\<close> with its helpers
  \<open>validation/runtime_rules.py\<close>, \<open>runtime_results.py\<close> and \<open>decision.py\<close>.  The strictness
  policy is an argument, the function its \<open>apply\<close> method is; the interface
  \<open>strictness_policy\<close> says what the executor may rely on.
\<close>

datatype val_severity = VFail | VWarn | VDrop

datatype val_decision = DPass | DWarn | DDrop | DFail

record normalized_result =
  nr_ok :: bool
  nr_code :: "string option"
  nr_message :: "string option"
  nr_details :: "string option"
  nr_path :: "string option"
  nr_valid_shape :: bool

record report_item =
  ri_code :: string
  ri_message :: string
  ri_path :: string
  ri_rule_id :: "string option"
  ri_module_id :: string
  ri_severity :: val_severity
  ri_severity_hint :: "string option"

record validation_exec_result =
  ve_items :: "report_item list"
  ve_decision :: val_decision
  ve_is_valid :: bool

section \<open>Rules\<close>

definition rule_applies_to_mode :: "validation_rule_plan \<Rightarrow> string \<Rightarrow> bool" where
  "rule_applies_to_mode rule profile = True"

definition resolve_rule_value :: "validation_rule_plan \<Rightarrow> dict \<Rightarrow> pyval" where
  "resolve_rule_value rule rec =
     (case rp_applies_to_field rule of None \<Rightarrow> PyDict rec | Some f \<Rightarrow> dget_or rec f PyMissing)"

definition default_path :: "validation_rule_plan \<Rightarrow> string" where
  "default_path rule =
     (case rp_applies_to_field rule of None \<Rightarrow> ''$'' | Some f \<Rightarrow> ''fields.'' @ f)"

definition runtime_item ::
  "string \<Rightarrow> string \<Rightarrow> string \<Rightarrow> validation_rule_plan \<Rightarrow> val_severity \<Rightarrow> val_severity \<Rightarrow> report_item" where
  "runtime_item code message path rule severity legacy =
     \<lparr>ri_code = code, ri_message = message, ri_path = path, ri_rule_id = rp_rule_id rule,
      ri_module_id = rp_module_id rule,
      ri_severity = (if severity \<noteq> VFail then severity else legacy),
      ri_severity_hint = rp_severity_hint rule\<rparr>"

section \<open>Results\<close>

definition bad_shape :: normalized_result where
  "bad_shape = \<lparr>nr_ok = False, nr_code = None, nr_message = None, nr_details = None,
     nr_path = None, nr_valid_shape = False\<rparr>"

definition normalized_of :: "dict \<Rightarrow> normalized_result" where
  "normalized_of d =
     (case dget d ''ok'' of
        PyBool ok \<Rightarrow>
          \<lparr>nr_ok = ok, nr_code = as_str (dget d ''code''), nr_message = as_str (dget d ''message''),
           nr_details = as_str (dget d ''details''), nr_path = as_str (dget d ''path''),
           nr_valid_shape = True\<rparr>
      | _ \<Rightarrow> bad_shape)"

definition normalize_module_result :: "module_result \<Rightarrow> normalized_result" where
  "normalize_module_result r =
     (case r of
        RMapping d \<Rightarrow> normalized_of d
      | RObject attrs \<Rightarrow> if \<not> dhas attrs ''ok'' then bad_shape else normalized_of attrs)"

definition normalize_rule_severity :: "string option \<Rightarrow> val_severity" where
  "normalize_rule_severity hint =
     (case hint of
        None \<Rightarrow> VFail
      | Some s \<Rightarrow>
          (let txt = upper (strip s) in
           if txt = ''WARN'' then VWarn
           else if txt = ''DROP'' then VDrop
           else if txt = ''FAIL'' then VFail
           else if txt = ''ERROR'' then VFail
           else VFail))"

definition to_diagnostic_severity :: "report_item \<Rightarrow> diag_severity" where
  "to_diagnostic_severity item = (if ri_severity item = VWarn then SevWarn else SevError)"

definition from_strictness_diagnostic :: "diag_severity \<Rightarrow> bool \<Rightarrow> val_severity" where
  "from_strictness_diagnostic sev drop_invalid =
     (if sev = SevWarn then VWarn else if drop_invalid then VDrop else VFail)"

section \<open>Decisions\<close>

definition any_severity :: "val_severity \<Rightarrow> report_item list \<Rightarrow> bool" where
  "any_severity s items \<longleftrightarrow> (\<exists>i \<in> set items. ri_severity i = s)"

definition decision_without_policies :: "report_item list \<Rightarrow> val_decision" where
  "decision_without_policies items =
     (if any_severity VFail items then DFail
      else if any_severity VDrop items then DDrop
      else if any_severity VWarn items then DWarn
      else DPass)"

definition decision_from_strictness :: "strictness_decision \<Rightarrow> report_item list \<Rightarrow> val_decision" where
  "decision_from_strictness sd items =
     (if sd_should_fail sd then DFail
      else if sd_drop_invalid sd then DDrop
      else if any_severity VDrop items then DDrop
      else if any_severity VWarn items then DWarn
      else DPass)"

section \<open>One record\<close>

text \<open>\<open>a or b\<close> on optional texts; the empty text counts as absent.\<close>

fun opt_or :: "string option \<Rightarrow> string option \<Rightarrow> string option" where
  "opt_or (Some (c # cs)) b = Some (c # cs)"
| "opt_or _ b = b"

definition or_text :: "string option \<Rightarrow> string \<Rightarrow> string" where
  "or_text a dflt = (case opt_or a None of None \<Rightarrow> dflt | Some s \<Rightarrow> s)"

text \<open>The body of the loop over the rules: the items one rule adds.\<close>

definition rule_items ::
  "ext_catalog \<Rightarrow> dict \<Rightarrow> string \<Rightarrow> validation_rule_plan \<Rightarrow> report_item list" where
  "rule_items cat rec profile rule =
     (if \<not> rule_applies_to_mode rule profile then []
      else let value = resolve_rule_value rule rec;
               m = [CHR 0x27] @ rp_module_id rule @ [CHR 0x27] in
        case get_validation_module cat (rp_module_id rule) of
          Inl _ \<Rightarrow> [runtime_item ''EXEC_VALIDATION_MODULE_NOT_FOUND''
            (''Validation module '' @ m @ '' was not found in catalog.'') (default_path rule) rule VFail VFail]
        | Inr spec \<Rightarrow>
            (case vm_call spec value (rp_config rule) (Some rec) (Some profile) of
               Inl _ \<Rightarrow> [runtime_item ''EXEC_VALIDATION_MODULE_FAILED''
                 (''Validation module '' @ m @ '' failed during execution.'') (default_path rule) rule VFail VFail]
             | Inr raw \<Rightarrow>
                 (let n = normalize_module_result raw in
                  if \<not> nr_valid_shape n then [runtime_item ''EXEC_VALIDATION_BAD_RESULT''
                    (''Validation module '' @ m @ '' returned invalid result shape.'')
                    (default_path rule) rule VFail VFail]
                  else if nr_ok n then []
                  else [\<lparr>ri_code = or_text (opt_or (rp_on_fail_code rule) (nr_code n)) ''VALIDATION_FAILED'',
                         ri_message = or_text (opt_or (rp_on_fail_message rule)
                             (opt_or (nr_message n) (nr_details n)))
                           (''Validation failed: '' @ rp_module_id rule),
                         ri_path = or_text (nr_path n) (default_path rule),
                         ri_rule_id = rp_rule_id rule, ri_module_id = rp_module_id rule,
                         ri_severity = normalize_rule_severity (rp_severity_hint rule),
                         ri_severity_hint = rp_severity_hint rule\<rparr>])))"

definition item_key :: "report_item \<Rightarrow> string \<times> string \<times> string \<times> string \<times> string" where
  "item_key i = (ri_module_id i, or_empty (ri_rule_id i), ri_path i, ri_code i, ri_message i)"

definition order_items :: "report_item list \<Rightarrow> report_item list" where
  "order_items items = sort_key item_key items"

interpretation item_sort: keyed_sort item_key order_items
  by unfold_locales (simp add: order_items_def)

definition mismatch_item :: report_item where
  "mismatch_item = \<lparr>ri_code = ''EXEC_STRICTNESS_RESULT_LENGTH_MISMATCH'',
     ri_message = ''Strictness diagnostics length mismatch, policy result ignored.'',
     ri_path = ''$'', ri_rule_id = None, ri_module_id = ''strictness'', ri_severity = VFail,
     ri_severity_hint = None\<rparr>"

definition strictness_input :: "report_item list \<Rightarrow> diagnostic list" where
  "strictness_input items =
     map (\<lambda>i. diag_new (to_diagnostic_severity i) (ri_code i) (ri_message i) (Some (ri_path i)) None [])
       items"

definition effective_items :: "strictness_decision \<Rightarrow> report_item list \<Rightarrow> report_item list" where
  "effective_items sd items =
     map (\<lambda>(i, d). i\<lparr>ri_severity := from_strictness_diagnostic (dg_severity d) (sd_drop_invalid sd)\<rparr>)
       (zip items (sd_diagnostics sd))"

definition decided :: "report_item list \<Rightarrow> val_decision \<Rightarrow> validation_exec_result" where
  "decided items d = \<lparr>ve_items = items, ve_decision = d, ve_is_valid = (d \<noteq> DFail)\<rparr>"

definition validation_run_one ::
  "ext_catalog \<Rightarrow> (diagnostic list \<Rightarrow> strictness_decision) option \<Rightarrow> validation_plan \<Rightarrow> dict \<Rightarrow> string
     \<Rightarrow> validation_exec_result" where
  "validation_run_one cat policy plan rec profile =
     (let ordered = order_items (concat (map (rule_items cat rec profile) (vp_rules plan))) in
      if ordered = [] then \<lparr>ve_items = [], ve_decision = DPass, ve_is_valid = True\<rparr>
      else case policy of
          None \<Rightarrow> decided ordered (decision_without_policies ordered)
        | Some apply_policy \<Rightarrow>
            (let sd = apply_policy (strictness_input ordered) in
             if length (sd_diagnostics sd) \<noteq> length ordered
             then (let items = ordered @ [mismatch_item]
                   in decided items (decision_without_policies items))
             else (let items = effective_items sd ordered
                   in decided items (decision_from_strictness sd items))))"

section \<open>What the executor gets from the strictness interface\<close>

context strictness_policy
begin

lemma run_one_no_mismatch:
  "validation_run_one cat (Some apply_policy) plan rec profile =
    (let ordered = order_items (concat (map (rule_items cat rec profile) (vp_rules plan)));
         sd = apply_policy (strictness_input ordered);
         items = effective_items sd ordered
     in decided items (if ordered = [] then DPass else decision_from_strictness sd items))"
proof -
  have "length (sd_diagnostics (apply_policy (strictness_input xs))) = length xs" for xs
    by (simp add: same_length strictness_input_def)
  then show ?thesis
    by (simp add: validation_run_one_def Let_def decided_def effective_items_def)
qed

end

lemma strictness_input_nth:
  "i < length items \<Longrightarrow>
     dg_severity (strictness_input items ! i) = (if ri_severity (items ! i) = VWarn then SevWarn else SevError)"
  by (simp add: strictness_input_def diag_new_def to_diagnostic_severity_def)

lemma length_strictness_input [simp]: "length (strictness_input items) = length items"
  by (simp add: strictness_input_def)

lemma has_errors_input:
  "has_errors (strictness_input items) \<longleftrightarrow> (\<exists>i \<in> set items. ri_severity i \<noteq> VWarn)"
  by (auto simp: has_errors_def strictness_input_def diag_new_def to_diagnostic_severity_def)

lemma length_effective_items:
  "length (sd_diagnostics sd) = length items \<Longrightarrow> length (effective_items sd items) = length items"
  by (simp add: effective_items_def)

text \<open>The severities the three strategies give back, and the decision each leads to.\<close>

lemma effective_severities:
  "map ri_severity (effective_items (strictness_apply mode (strictness_input items)) items) =
     map (\<lambda>i. if ri_severity i = VWarn then VWarn else
        (case mode of FailOnError \<Rightarrow> VFail | DropInvalid \<Rightarrow> VDrop | WarnOnly \<Rightarrow> VWarn)) items"
proof (rule nth_equalityI)
  show "length (map ri_severity (effective_items (strictness_apply mode (strictness_input items)) items)) =
      length (map (\<lambda>i. if ri_severity i = VWarn then VWarn else
        (case mode of FailOnError \<Rightarrow> VFail | DropInvalid \<Rightarrow> VDrop | WarnOnly \<Rightarrow> VWarn)) items)"
    by (simp add: length_effective_items strictness.same_length)
  fix i
  assume i: "i < length (map ri_severity
      (effective_items (strictness_apply mode (strictness_input items)) items))"
  then have i: "i < length items"
    by (simp add: length_effective_items strictness.same_length)
  have err: "ri_severity (items ! i) \<noteq> VWarn \<Longrightarrow> has_errors (strictness_input items)"
    using i by (auto simp: has_errors_input)
  show "map ri_severity (effective_items (strictness_apply mode (strictness_input items)) items) ! i =
      map (\<lambda>i. if ri_severity i = VWarn then VWarn else
        (case mode of FailOnError \<Rightarrow> VFail | DropInvalid \<Rightarrow> VDrop | WarnOnly \<Rightarrow> VWarn)) items ! i"
    using i err
    by (cases mode)
      (auto simp: effective_items_def from_strictness_diagnostic_def strictness_input_nth
        downgrade_errors_def with_severity_def diag_new_def strictness.same_length)
qed

end
