(* ===== verification/PFP_Mapping_Exec.thy ===== *)
theory PFP_Mapping_Exec
  imports PFP_Builtins
begin

text \<open>
  The mapping executor: \<open>pfp_core/engine/mapping_executor.py\<close> and its helpers
  \<open>mapping/runtime_values.py\<close>, \<open>runtime_presence.py\<close> and \<open>runtime_tombstone.py\<close>.  Issues
  are collected in a list that every step extends at the end, as the code does.
\<close>

record exec_issue =
  ei_code :: string
  ei_path :: string
  ei_message :: string

type_synonym issues = "exec_issue list"

definition issue :: "string \<Rightarrow> string \<Rightarrow> string \<Rightarrow> exec_issue" where
  "issue c p m = \<lparr>ei_code = c, ei_path = p, ei_message = m\<rparr>"

definition quoted :: "string \<Rightarrow> string" where
  "quoted s = [CHR 0x27] @ s @ [CHR 0x27]"

section \<open>Source extraction\<close>

fun extract_segments :: "pyval \<Rightarrow> string list \<Rightarrow> pyval" where
  "extract_segments current [] = current"
| "extract_segments (PyDict d) (seg # segs) =
     (case map_of d seg of None \<Rightarrow> PyMissing | Some v \<Rightarrow> extract_segments v segs)"
| "extract_segments (PyList xs) (seg # segs) =
     (case parse_int seg of
        None \<Rightarrow> PyMissing
      | Some i \<Rightarrow>
          if i < 0 \<or> i \<ge> int (length xs) then PyMissing else extract_segments (xs ! nat i) segs)"
| "extract_segments _ (seg # segs) = PyMissing"

definition extract_by_source_path :: "dict \<Rightarrow> string \<Rightarrow> pyval" where
  "extract_by_source_path rec source_path =
     (if source_path = [] then PyMissing
      else extract_segments (PyDict rec) (split_on (CHR ''.'') source_path))"

section \<open>Transforms\<close>

text \<open>The outcome of one transform: the new value and whether the chain stops.\<close>

definition apply_transform ::
  "ext_catalog \<Rightarrow> pyval \<Rightarrow> mapping_op_call \<Rightarrow> field_mapping_plan \<Rightarrow> nat \<Rightarrow> issues
     \<Rightarrow> (pyval \<times> bool) \<times> issues" where
  "apply_transform cat current oc fp i iss =
     (let path_prefix = ''mapping.fields.'' @ fm_field_id fp @ ''.transforms['' @ nat_str i @ '']'';
          run = (case get_mapping_op cat (oc_op_id oc) of
              Inl _ \<Rightarrow> ((PyMissing, True), iss @ [issue ''EXEC_MAPPING_OP_NOT_FOUND''
                (path_prefix @ ''.op'')
                (''Mapping op '' @ quoted (oc_op_id oc) @ '' was not found in catalog.'')])
            | Inr spec \<Rightarrow>
                (case op_call spec current (case oc_args oc of None \<Rightarrow> [] | Some a \<Rightarrow> a) of
                   Inr v \<Rightarrow> ((v, False), iss)
                 | Inl _ \<Rightarrow> ((PyMissing, True), iss @ [issue ''EXEC_MAPPING_OP_FAILED'' path_prefix
                     (''Mapping op '' @ quoted (oc_op_id oc) @ '' failed during execution.'')])))
      in if current = PyMissing then
           (case oc_on_missing oc of
              None \<Rightarrow> run
            | Some MissOmit \<Rightarrow> ((PyMissing, True), iss)
            | Some MissPass \<Rightarrow> ((PyMissing, False), iss)
            | Some MissDefault \<Rightarrow>
                (case oc_args oc of
                   Some a \<Rightarrow> (case map_of a ''default'' of
                       Some v \<Rightarrow> ((v, False), iss)
                     | None \<Rightarrow> ((PyMissing, True),
                         iss @ [issue ''EXEC_MAPPING_ON_MISSING_DEFAULT_REQUIRED''
                           (path_prefix @ ''.args.default'')
                           ''on_missing=default requires args.default value.'']))
                 | None \<Rightarrow> ((PyMissing, True),
                     iss @ [issue ''EXEC_MAPPING_ON_MISSING_DEFAULT_REQUIRED''
                       (path_prefix @ ''.args.default'')
                       ''on_missing=default requires args.default value.'']))
            | Some MissError \<Rightarrow> ((PyMissing, True), iss @ [issue ''EXEC_MAPPING_MISSING_ERROR''
                path_prefix ''on_missing=error triggered on missing input.'']))
         else run)"

fun run_transforms ::
  "ext_catalog \<Rightarrow> field_mapping_plan \<Rightarrow> nat \<Rightarrow> mapping_op_call list \<Rightarrow> pyval \<Rightarrow> issues
     \<Rightarrow> pyval \<times> issues" where
  "run_transforms cat fp i [] current iss = (current, iss)"
| "run_transforms cat fp i (oc # ocs) current iss =
     (case apply_transform cat current oc fp i iss of
        ((v, stop), iss') \<Rightarrow>
          if stop then (v, iss') else run_transforms cat fp (Suc i) ocs v iss')"

section \<open>Presence\<close>

definition apply_presence :: "pyval \<Rightarrow> field_mapping_plan \<Rightarrow> issues \<Rightarrow> emission \<times> issues" where
  "apply_presence current fp iss =
     (case current of
        PyEmission e \<Rightarrow> (e, iss)
      | PyMissing \<Rightarrow>
          (case fp_behavior (fm_presence fp) of
             OmitMissing \<Rightarrow> (em_OMIT, iss)
           | EmitNullIfMissing \<Rightarrow> (em_NULL, iss)
           | ErrorIfMissing \<Rightarrow> (em_OMIT, iss @ [issue ''EXEC_MAPPING_PRESENCE_ERROR''
               (''mapping.fields.'' @ fm_field_id fp @ ''.presence'')
               ''error_if_missing triggered for missing field value.'']))
      | PyNone \<Rightarrow> (em_NULL, iss)
      | _ \<Rightarrow> (em_VALUE (py_str current), iss))"

definition execute_field ::
  "ext_catalog \<Rightarrow> field_mapping_plan \<Rightarrow> dict \<Rightarrow> issues \<Rightarrow> emission \<times> issues" where
  "execute_field cat fp rec iss =
     (case run_transforms cat fp 0 (fm_transforms fp)
         (extract_by_source_path rec (fm_source_path fp)) iss of
        (v, iss') \<Rightarrow> apply_presence v fp iss')"

section \<open>Tombstones\<close>

definition truthy_words :: "string list" where
  "truthy_words = [''true'', ''1'', ''yes'', ''y'']"

definition is_delete_intent :: "pyval \<Rightarrow> bool" where
  "is_delete_intent v =
     (case v of
        PyMissing \<Rightarrow> False
      | PyBool b \<Rightarrow> b
      | PyStr s \<Rightarrow> lower (strip s) \<in> set truthy_words
      | _ \<Rightarrow> False)"

definition should_project_delete_tombstone :: "mapping_plan \<Rightarrow> dict \<Rightarrow> string \<Rightarrow> bool" where
  "should_project_delete_tombstone p rec profile =
     (if \<not> mp_tombstone_enabled p then False
      else (case extract_by_source_path rec (mp_tombstone_flag_path p) of
              PyMissing \<Rightarrow> False
            | PyBool b \<Rightarrow> b
            | PyStr s \<Rightarrow> lower (strip s) \<in> set truthy_words
            | _ \<Rightarrow> False))"

definition detect_delete_unsupported :: "mapping_plan \<Rightarrow> dict \<Rightarrow> string \<Rightarrow> exec_issue option" where
  "detect_delete_unsupported p rec profile =
     (if \<not> is_delete_intent (extract_by_source_path rec (mp_tombstone_flag_path p)) then None
      else if mp_tombstone_enabled p then None
      else Some (issue ''CONTRACT.DELETE_UNSUPPORTED'' ''build:contract''
        (''Delete tombstone is unsupported for artifact_profile '' @ profile @ ''.'')))"

section \<open>One record\<close>

datatype mapped_output = MRow "emission list" | MObject "(string, emission) odict"

record mapping_result =
  mr_output :: mapped_output
  mr_issues :: issues

definition ordered_csv_fields :: "mapping_plan \<Rightarrow> issues \<Rightarrow> string list \<times> issues" where
  "ordered_csv_fields p iss =
     (case mp_output_order p of
        Some order \<Rightarrow> (order, iss)
      | None \<Rightarrow> (sort (dict_keys (mp_fields p)),
          iss @ [issue ''EXEC_MAPPING_OUTPUT_ORDER_MISSING'' ''mapping.output_order''
            ''mapping.output_order is required for csv_row output.'']))"

text \<open>The body of the loop over the columns.\<close>

definition csv_cell ::
  "ext_catalog \<Rightarrow> mapping_plan \<Rightarrow> dict \<Rightarrow> bool \<Rightarrow> string \<Rightarrow> issues \<Rightarrow> emission \<times> issues" where
  "csv_cell cat p rec tomb f iss =
     (case map_of (mp_fields p) f of
        None \<Rightarrow> (em_OMIT, iss @ [issue ''EXEC_MAPPING_FIELD_NOT_FOUND'' (''mapping.fields.'' @ f)
          (''Field '' @ quoted f @ '' is missing in mapping plan fields.'')])
      | Some fp \<Rightarrow>
          if tomb \<and> f \<noteq> mp_tombstone_id_field p then (em_OMIT, iss)
          else execute_field cat fp rec iss)"

fun collect :: "('f \<Rightarrow> issues \<Rightarrow> 'e \<times> issues) \<Rightarrow> 'f list \<Rightarrow> issues \<Rightarrow> 'e list \<times> issues" where
  "collect step [] iss = ([], iss)"
| "collect step (f # fs) iss =
     (case step f iss of (e, iss') \<Rightarrow>
        (case collect step fs iss' of (es, iss'') \<Rightarrow> (e # es, iss'')))"

definition exec_issue_key :: "exec_issue \<Rightarrow> string \<times> string \<times> string" where
  "exec_issue_key x = (ei_code x, ei_path x, ei_message x)"

definition ordered_issues :: "issues \<Rightarrow> issues" where
  "ordered_issues iss = sort_key exec_issue_key iss"

definition object_cell ::
  "ext_catalog \<Rightarrow> mapping_plan \<Rightarrow> dict \<Rightarrow> string \<Rightarrow> issues \<Rightarrow> (string \<times> emission) \<times> issues" where
  "object_cell cat p rec f iss =
     (case execute_field cat (the (map_of (mp_fields p) f)) rec iss of
        (e, iss') \<Rightarrow> ((f, e), iss'))"

definition mapping_run_one ::
  "ext_catalog \<Rightarrow> mapping_plan \<Rightarrow> dict \<Rightarrow> string \<Rightarrow> mapping_result" where
  "mapping_run_one cat p rec profile =
     (case mp_output_kind p of
        CsvRow \<Rightarrow>
          (case ordered_csv_fields p [] of (fs, iss0) \<Rightarrow>
             let iss1 = (case detect_delete_unsupported p rec profile of
                   None \<Rightarrow> iss0 | Some i \<Rightarrow> iss0 @ [i]);
                 tomb = should_project_delete_tombstone p rec profile
             in (case collect (csv_cell cat p rec tomb) fs iss1 of (es, iss2) \<Rightarrow>
                   \<lparr>mr_output = MRow es, mr_issues = ordered_issues iss2\<rparr>))
      | JsonObject \<Rightarrow>
          (case collect (object_cell cat p rec) (sort (dict_keys (mp_fields p))) [] of (es, iss) \<Rightarrow>
             \<lparr>mr_output = MObject (filter (\<lambda>(f, e). em_kind e \<noteq> OMIT) es),
              mr_issues = ordered_issues iss\<rparr>))"

interpretation issue_sort: keyed_sort exec_issue_key ordered_issues
  by unfold_locales (simp add: ordered_issues_def)

lemma inj_exec_issue_key: "inj exec_issue_key"
  by (rule injI) (auto simp: exec_issue_key_def)

section \<open>Steps that only append issues\<close>

text \<open>
  The executor's loops rely on each cell doing two things only: computing a result that does
  not depend on the issues so far, and appending its own.
\<close>

locale appending_step =
  fixes step :: "'f \<Rightarrow> issues \<Rightarrow> 'e \<times> issues"
  assumes step_appends: "step f iss = (fst (step f []), iss @ snd (step f []))"
begin

lemma collect_results: "fst (collect step fs iss) = map (\<lambda>f. fst (step f [])) fs"
proof (induction fs arbitrary: iss)
  case (Cons f fs)
  show ?case using step_appends [of f iss] Cons by (simp split: prod.splits) (metis fst_conv)
qed simp

lemma collect_issues: "snd (collect step fs iss) = iss @ concat (map (\<lambda>f. snd (step f [])) fs)"
proof (induction fs arbitrary: iss)
  case (Cons f fs)
  show ?case using step_appends [of f iss] Cons
    by (simp split: prod.splits) (metis append_assoc snd_conv)
qed simp

lemma collect_eq:
  "collect step fs iss =
     (map (\<lambda>f. fst (step f [])) fs, iss @ concat (map (\<lambda>f. snd (step f [])) fs))"
  by (simp add: prod_eq_iff collect_results collect_issues)

end

lemma apply_transform_appends:
  "apply_transform cat v oc fp i iss =
     (fst (apply_transform cat v oc fp i []), iss @ snd (apply_transform cat v oc fp i []))"
  by (auto simp: apply_transform_def Let_def split: option.splits on_missing.splits sum.splits)

lemma run_transforms_appends:
  "run_transforms cat fp i ocs v iss =
     (fst (run_transforms cat fp i ocs v []), iss @ snd (run_transforms cat fp i ocs v []))"
proof (induction ocs arbitrary: i v iss)
  case Nil
  then show ?case by simp
next
  case (Cons oc ocs)
  obtain w stop iss1 where a: "apply_transform cat v oc fp i [] = ((w, stop), iss1)"
    by (metis prod.exhaust)
  then have b: "apply_transform cat v oc fp i iss = ((w, stop), iss @ iss1)"
    using apply_transform_appends [of cat v oc fp i iss] by simp
  show ?case
  proof (cases stop)
    case True
    then show ?thesis using a b by simp
  next
    case False
    then show ?thesis
      using a b Cons [of "Suc i" w "iss @ iss1"] Cons [of "Suc i" w iss1] by simp
  qed
qed

lemma apply_presence_appends:
  "apply_presence v fp iss = (fst (apply_presence v fp []), iss @ snd (apply_presence v fp []))"
  by (auto simp: apply_presence_def split: pyval.splits emission_semantics.splits)

lemma execute_field_appends:
  "execute_field cat fp rec iss =
     (fst (execute_field cat fp rec []), iss @ snd (execute_field cat fp rec []))"
proof -
  let ?v = "extract_by_source_path rec (fm_source_path fp)"
  obtain w iss1 where a: "run_transforms cat fp 0 (fm_transforms fp) ?v [] = (w, iss1)"
    by (metis prod.exhaust)
  then have "run_transforms cat fp 0 (fm_transforms fp) ?v iss = (w, iss @ iss1)"
    using run_transforms_appends [of cat fp 0 "fm_transforms fp" ?v iss] by simp
  then show ?thesis
    using a apply_presence_appends [of w fp "iss @ iss1"] apply_presence_appends [of w fp iss1]
    by (simp add: execute_field_def)
qed

interpretation csv: appending_step "csv_cell cat p rec tomb" for cat p rec tomb
proof
  fix f iss
  show "csv_cell cat p rec tomb f iss =
      (fst (csv_cell cat p rec tomb f []), iss @ snd (csv_cell cat p rec tomb f []))"
  proof (cases "map_of (mp_fields p) f")
    case None
    then show ?thesis by (simp add: csv_cell_def)
  next
    case (Some fp)
    then show ?thesis
      using execute_field_appends [of cat fp rec iss] by (simp add: csv_cell_def)
  qed
qed

interpretation obj: appending_step "object_cell cat p rec" for cat p rec
proof
  fix f iss
  show "object_cell cat p rec f iss =
      (fst (object_cell cat p rec f []), iss @ snd (object_cell cat p rec f []))"
    using execute_field_appends [of cat "the (map_of (mp_fields p) f)" rec iss]
    by (auto simp: object_cell_def split: prod.splits)
qed

section \<open>The executor as a map over the plan\<close>

definition csv_order :: "mapping_plan \<Rightarrow> string list" where
  "csv_order p = (case mp_output_order p of Some order \<Rightarrow> order | None \<Rightarrow> sort (dict_keys (mp_fields p)))"

definition field_result :: "ext_catalog \<Rightarrow> field_mapping_plan \<Rightarrow> dict \<Rightarrow> emission" where
  "field_result cat fp rec = fst (execute_field cat fp rec [])"

definition cell_result :: "ext_catalog \<Rightarrow> mapping_plan \<Rightarrow> dict \<Rightarrow> string \<Rightarrow> string \<Rightarrow> emission" where
  "cell_result cat p rec profile f =
     (case map_of (mp_fields p) f of
        None \<Rightarrow> em_OMIT
      | Some fp \<Rightarrow>
          if should_project_delete_tombstone p rec profile \<and> f \<noteq> mp_tombstone_id_field p
          then em_OMIT else field_result cat fp rec)"

lemma csv_cell_result:
  "fst (csv_cell cat p rec (should_project_delete_tombstone p rec profile) f []) =
     cell_result cat p rec profile f"
  by (simp add: csv_cell_def cell_result_def field_result_def split: option.split)

lemma mapping_run_one_csv:
  assumes "mp_output_kind p = CsvRow"
  shows "mr_output (mapping_run_one cat p rec profile) =
    MRow (map (cell_result cat p rec profile) (csv_order p))"
proof -
  obtain fs iss0 where fs: "ordered_csv_fields p [] = (fs, iss0)" by (metis prod.exhaust)
  then have "fs = csv_order p" by (auto simp: ordered_csv_fields_def csv_order_def split: option.splits)
  with fs assms show ?thesis
    by (simp add: mapping_run_one_def csv.collect_eq csv_cell_result Let_def)
qed

lemma mapping_run_one_object:
  assumes "mp_output_kind p = JsonObject"
  shows "mr_output (mapping_run_one cat p rec profile) =
    MObject (filter (\<lambda>(f, e). em_kind e \<noteq> OMIT)
      (map (\<lambda>f. (f, field_result cat (the (map_of (mp_fields p) f)) rec)) (sort (dict_keys (mp_fields p)))))"
proof -
  have "(\<lambda>f. fst (object_cell cat p rec f [])) =
      (\<lambda>f. (f, field_result cat (the (map_of (mp_fields p) f)) rec))"
    by (rule ext) (simp add: object_cell_def field_result_def split: prod.split)
  with assms show ?thesis by (simp add: mapping_run_one_def obj.collect_eq)
qed

lemma mapping_issues_sorted:
  "sorted (map exec_issue_key (mr_issues (mapping_run_one cat p rec profile)))"
  by (auto simp: mapping_run_one_def Let_def issue_sort.srt_sorted
      split: output_kind.splits prod.splits option.splits)

section \<open>Extraction agrees with get_path\<close>

lemma walk_path_segments: "walk_path v segs = extract_segments v segs"
proof (induction segs arbitrary: v)
  case Nil
  then show ?case by simp
next
  case (Cons seg segs)
  have "extract_segments PyMissing segs = PyMissing" by (cases segs) simp_all
  then show ?case
    using Cons by (cases v) (simp_all add: Let_def split: option.split)
qed

end
