(* ===== verification/PFP_Mapping_Spec.thy ===== *)
theory PFP_Mapping_Spec
  imports PFP_Mapping_Exec
begin

text \<open>
  The properties of the mapping side: the operations, the catalog they live in, and the
  executor that runs a plan on one record.
\<close>

section \<open>Emissions are well formed\<close>

fun emissions_ok :: "pyval \<Rightarrow> bool" where
  "emissions_ok (PyList xs) = (\<forall>x \<in> set xs. emissions_ok x)"
| "emissions_ok (PyTuple xs) = (\<forall>x \<in> set xs. emissions_ok x)"
| "emissions_ok (PyDict d) = (\<forall>(k, v) \<in> set d. emissions_ok v)"
| "emissions_ok (PyEmission e) = emission_ok e"
| "emissions_ok _ = True"

lemma emissions_ok_lookup: "emissions_ok (PyDict d) \<Longrightarrow> map_of d k = Some v \<Longrightarrow> emissions_ok v"
  by (auto dest: map_of_SomeD)

lemma emissions_ok_dget: "emissions_ok (PyDict d) \<Longrightarrow> emissions_ok (dget d k)"
  by (auto simp: dget_def dest: map_of_SomeD split: option.split)

lemma emissions_ok_dget_or:
  "emissions_ok (PyDict d) \<Longrightarrow> emissions_ok x \<Longrightarrow> emissions_ok (dget_or d k x)"
  by (auto simp: dget_or_def dest: map_of_SomeD split: option.split)

lemma emissions_ok_segments: "emissions_ok v \<Longrightarrow> emissions_ok (extract_segments v segs)"
proof (induction v segs rule: extract_segments.induct)
  case (2 d seg segs)
  then show ?case using emissions_ok_lookup [of d seg] by (auto split: option.split)
qed (auto split: option.split)

lemma emissions_ok_extract: "emissions_ok (PyDict rec) \<Longrightarrow> emissions_ok (extract_by_source_path rec path)"
  unfolding extract_by_source_path_def using emissions_ok_segments [of "PyDict rec"]
  by (auto simp del: emissions_ok.simps(3))

lemma conforms_emissions_ok:
  "conforms w t \<Longrightarrow> t \<in> {''string'', ''int'', ''decimal'', ''bool'', ''date''} \<Longrightarrow> emissions_ok w"
  by (cases w) (auto simp: conforms_def matches_type_def)

lemma first_prefix_emissions:
  "emissions_ok m \<Longrightarrow> first_prefix cat m ps = Inr (Some v) \<Longrightarrow> emissions_ok v"
  by (induction ps)
    (auto simp: rbind_Inr_iff py_index_def split: if_splits pyval.splits option.splits dest: map_of_SomeD)

lemma map_tax_code_emissions:
  assumes "op_map_tax_code v args = Inr w" "emissions_ok v" "emissions_ok (PyDict args)"
  shows "emissions_ok w"
proof (cases "absent v")
  case True
  with assms show ?thesis by (simp add: op_map_tax_code_def)
next
  case False
  with assms(1) obtain d lookup keys where v: "v = PyDict d"
    and lookup: "map_of args ''_lookup_data'' = Some (PyDict lookup)"
    and keys: "map_of args ''_sorted_keys'' = Some keys"
    by (auto simp: op_map_tax_code_def split: pyval.splits option.splits)
  have ok: "emissions_ok (PyDict lookup)" using emissions_ok_lookup [OF assms(3) lookup] .
  then have m: "emissions_ok (dget_or lookup ''mappings'' (PyDict []))"
    by (rule emissions_ok_dget_or) simp
  have fb: "emissions_ok (tax_fallback lookup t)" for t
    using ok emissions_ok_dget_or by (simp add: tax_fallback_def del: emissions_ok.simps(3))
  show ?thesis
    using assms(1) v lookup keys
    by (auto simp: op_map_tax_code_def rbind_Inr_iff fb first_prefix_emissions [OF m]
        split: option.splits)
qed

lemma builtin_op_emissions:
  assumes "(k, s) \<in> set (mapping_op_registry lib)" "op_call s v args = Inr w"
    and "emissions_ok v" "emissions_ok (PyDict args)"
  shows "emissions_ok w"
proof -
  have special: "op_default_value v args = Inr w \<Longrightarrow> emissions_ok w"
      "op_get_path v args = Inr w \<Longrightarrow> emissions_ok w"
      "op_emit_if_present v args = Inr w \<Longrightarrow> emissions_ok w"
      "op_emit_null_if_missing v args = Inr w \<Longrightarrow> emissions_ok w"
      "op_omit_if_missing v args = Inr w \<Longrightarrow> emissions_ok w"
    using assms(3) emissions_ok_dget [OF assms(4)]
    by (auto simp: op_default_value_def op_get_path_def op_emit_if_present_def
        op_emit_null_if_missing_def op_omit_if_missing_def walk_path_segments
        emissions_ok_segments split: if_splits pyval.splits)
  note tax = map_tax_code_emissions [OF _ assms(3,4), of w]
  show ?thesis
  proof (cases "k \<in> set untyped_ops \<union> {''default_value'', ''get_path''}")
    case True
    with assms(1,2) show ?thesis
      unfolding mapping_op_registry_def list.set insert_iff prod.inject empty_iff
      by - (elim disjE conjE FalseE; simp add: untyped_ops_def mapping_specs special tax)
  next
    case False
    with assms(1) have "ts_type_id (op_output_type s) \<in> {''string'', ''int'', ''decimal'', ''bool'', ''date''}"
      unfolding mapping_op_registry_def list.set insert_iff prod.inject empty_iff
      by - (elim disjE conjE FalseE; simp add: untyped_ops_def mapping_specs)
    with False show ?thesis
      using registry_ops_typed [OF assms(1) _ assms(2)] conforms_emissions_ok by simp
  qed
qed

definition op_args_ok :: "mapping_op_call \<Rightarrow> bool" where
  "op_args_ok oc \<longleftrightarrow> (case oc_args oc of None \<Rightarrow> True | Some a \<Rightarrow> emissions_ok (PyDict a))"

lemma builtin_catalog_get:
  assumes "build_builtin_catalog lib = Inr cat" "get_mapping_op cat k = Inr s"
  shows "(k, s) \<in> set (mapping_op_registry lib)"
proof -
  have "map_of (ec_mapping_ops cat) k = map_of (mapping_op_registry lib) k"
    using build_builtin_catalog_facts [of lib] assms(1) by auto
  then show ?thesis
    using assms(2) by (auto simp: get_mapping_op_def split: option.splits dest: map_of_SomeD)
qed

lemma apply_transform_emissions:
  assumes cat: "build_builtin_catalog lib = Inr cat"
    and "emissions_ok v" "op_args_ok oc"
    and "apply_transform cat v oc fp i iss = ((w, stop), iss')"
  shows "emissions_ok w"
proof -
  define a where "a = (case oc_args oc of None \<Rightarrow> [] | Some a \<Rightarrow> a)"
  have a: "emissions_ok (PyDict a)"
    using assms(3) by (auto simp: op_args_ok_def a_def split: option.splits)
  have "get_mapping_op cat (oc_op_id oc) = Inr s \<Longrightarrow> op_call s v a = Inr u \<Longrightarrow> emissions_ok u" for s u
    using builtin_op_emissions [OF builtin_catalog_get [OF cat] _ assms(2) a] .
  then show ?thesis
    using assms(2-) emissions_ok_lookup [of "the (oc_args oc)" "''default''"]
    by (auto simp: apply_transform_def Let_def a_def [symmetric] op_args_ok_def
        split: if_splits sum.splits option.splits on_missing.splits)
qed

lemma run_transforms_emissions:
  assumes "build_builtin_catalog lib = Inr cat"
  shows "emissions_ok v \<Longrightarrow> \<forall>oc \<in> set ocs. op_args_ok oc \<Longrightarrow>
    emissions_ok (fst (run_transforms cat fp i ocs v iss))"
proof (induction ocs arbitrary: v i iss)
  case (Cons oc ocs)
  obtain w stop iss' where w: "apply_transform cat v oc fp i iss = ((w, stop), iss')"
    by (metis prod.exhaust)
  then have "emissions_ok w"
    using apply_transform_emissions [OF assms Cons.prems(1)] Cons.prems(2) by auto
  with w Cons show ?case by simp
qed simp

lemma field_result_emission_ok:
  assumes "build_builtin_catalog lib = Inr cat" "emissions_ok (PyDict rec)"
    and "\<forall>oc \<in> set (fm_transforms fp). op_args_ok oc"
  shows "emission_ok (field_result cat fp rec)"
proof -
  let ?r = "run_transforms cat fp 0 (fm_transforms fp) (extract_by_source_path rec (fm_source_path fp)) []"
  have "emissions_ok (fst ?r)"
    using run_transforms_emissions [OF assms(1) emissions_ok_extract [OF assms(2)] assms(3)] .
  then have "emission_ok (fst (apply_presence (fst ?r) fp iss))" for iss
    by (cases "fst ?r") (auto simp: apply_presence_def split: emission_semantics.split)
  then show ?thesis
    by (simp add: field_result_def execute_field_def split: prod.split) (metis fst_conv)
qed

definition output_emissions :: "mapped_output \<Rightarrow> emission list" where
  "output_emissions out = (case out of MRow es \<Rightarrow> es | MObject d \<Rightarrow> map snd d)"

definition plan_args_ok :: "mapping_plan \<Rightarrow> bool" where
  "plan_args_ok p \<longleftrightarrow> (\<forall>(f, fp) \<in> set (mp_fields p). \<forall>oc \<in> set (fm_transforms fp). op_args_ok oc)"

section \<open>Instances for the witnesses\<close>

definition sample_lib :: pylib where
  "sample_lib = \<lparr>lib_search = (\<lambda>p s. Inr (Some [Some s])), lib_unescape = (\<lambda>s. s),
     lib_strptime = (\<lambda>s f. Inl ValueError), lib_date_iso = (\<lambda>s. Inl ValueError),
     lib_datetime_iso = (\<lambda>s. Inl ValueError), lib_date_strftime = (\<lambda>d f. Inr f),
     lib_datetime_strftime = (\<lambda>d f. Inr f), lib_to_utc = (\<lambda>t. Inr t),
     lib_format = (\<lambda>p d. Inr p), lib_float_int = (\<lambda>s. Inl ValueError)\<rparr>"

definition op_of :: "string \<Rightarrow> dict \<Rightarrow> mapping_op_call" where
  "op_of k a = \<lparr>oc_op_id = k, oc_args = Some a, oc_on_missing = None, oc_input_type = None,
     oc_output_type = None\<rparr>"

definition plain_field :: "string \<Rightarrow> string \<Rightarrow> mapping_op_call list \<Rightarrow> field_mapping_plan" where
  "plain_field f src ocs = \<lparr>fm_field_id = f, fm_source_path = src, fm_transforms = ocs,
     fm_presence = \<lparr>fp_behavior = OmitMissing\<rparr>, fm_final_type = None, fm_required_source = False\<rparr>"

definition sample_plan :: "output_kind \<Rightarrow> mapping_plan" where
  "sample_plan k = \<lparr>mp_output_kind = k, mp_output_order = Some [''id'', ''title''],
     mp_fields = [(''title'', plain_field ''title'' ''product.name'' [op_of ''trim'' []]),
                  (''id'', plain_field ''id'' ''product.sku'' [])],
     mp_tombstone_enabled = True, mp_tombstone_flag_path = ''deleted'', mp_tombstone_id_field = ''id''\<rparr>"

definition sample_record :: "pyval \<Rightarrow> dict" where
  "sample_record deleted =
     [(''product'', PyDict [(''name'', PyStr '' Lamp ''), (''sku'', PyStr ''A1'')]), (''deleted'', deleted)]"

lemmas sample_defs = sample_plan_def sample_record_def plain_field_def op_of_def

lemma sample_ok:
  "emissions_ok (PyDict (sample_record (PyBool b)))" "plan_args_ok (sample_plan k)"
  by (simp_all add: sample_defs plan_args_ok_def op_args_ok_def)

section \<open>Properties\<close>

text \<open>
  \<open>build_builtin_catalog\<close> always succeeds, whatever the library engines do: no identifier is
  registered twice, each entry sits under its own identifier, and a lookup in the catalog
  answers exactly what the two contract registries declare.
\<close>

theorem builtin_catalog_complete:
  "\<exists>c. build_builtin_catalog lib = Inr c \<and> catalog_ok c
     \<and> (\<forall>k. get_mapping_op c k =
            (case map_of (mapping_op_registry lib) k of None \<Rightarrow> Inl KeyError | Some s \<Rightarrow> Inr s))
     \<and> (\<forall>k. get_validation_module c k =
            (case map_of validation_module_registry k of None \<Rightarrow> Inl KeyError | Some s \<Rightarrow> Inr s))
     \<and> validate_mapping_op_registry lib = Inr ()
     \<and> validate_validation_module_registry = Inr ()"
  using build_builtin_catalog_facts [of lib] mapping_registry_ids [of lib] validation_registry_ids
  by (auto simp: get_mapping_op_def get_validation_module_def validate_mapping_op_registry_def
      validate_validation_module_registry_def registry_ids_match_iff)

text \<open>
  C8: every built-in mapping operation returns a value of its declared output type, as the
  \<open>type\<close> validation module would check it, or an absent value.  Four operations are outside
  this contract: the three presence operations, which declare \<open>object\<close> and return an
  emission, and \<open>map_tax_code\<close>, which returns whatever the tax table holds.
\<close>

theorem builtin_op_output_type:
  assumes "get_mapping_op_spec lib k = Inr s" "k \<notin> set untyped_ops"
    and "op_call s v args = Inr w"
  shows "w = PyMissing \<or> w = PyNone \<or> matches_type w (ts_type_id (op_output_type s))"
proof -
  have "(k, s) \<in> set (mapping_op_registry lib)"
    using assms(1) by (auto simp: get_mapping_op_spec_def split: option.splits dest: map_of_SomeD)
  from registry_ops_typed [OF this assms(2,3)] show ?thesis by (simp add: conforms_def absent_def)
qed

lemma builtin_op_output_type_witness:
  "PyInt 12 = PyMissing \<or> PyInt 12 = PyNone \<or> matches_type (PyInt 12) (ts_type_id (op_output_type to_int_spec))"
proof (rule builtin_op_output_type)
  show "get_mapping_op_spec sample_lib ''to_int'' = Inr to_int_spec"
    by (simp add: get_mapping_op_spec_def mapping_op_registry_def)
  show "''to_int'' \<notin> set untyped_ops" by (simp add: untyped_ops_def)
  show "op_call to_int_spec (PyStr '' 12 '') [] = Inr (PyInt 12)"
    by (simp add: to_int_spec_def op_to_int_def, code_simp)
qed

text \<open>
  C5: under the built-in catalog, every emission the executor puts into its output is well
  formed: it has a payload exactly when its kind is \<open>VALUE\<close>, so a writer never sees a value
  without text or a null that carries one.
\<close>

theorem mapped_emissions_well_formed:
  assumes "build_builtin_catalog lib = Inr cat"
    and "emissions_ok (PyDict rec)" "plan_args_ok p"
    and "e \<in> set (output_emissions (mr_output (mapping_run_one cat p rec profile)))"
  shows "em_kind e = VALUE \<longleftrightarrow> em_value e \<noteq> None"
proof -
  have field: "emission_ok (field_result cat fp rec)" if "map_of (mp_fields p) f = Some fp" for f fp
    using field_result_emission_ok [OF assms(1,2)] assms(3) that
    by (fastforce simp: plan_args_ok_def dest: map_of_SomeD)
  have "emission_ok e"
  proof (cases "mp_output_kind p")
    case CsvRow
    with assms(4) obtain f where "e = cell_result cat p rec profile f"
      by (auto simp: mapping_run_one_csv output_emissions_def)
    then show ?thesis using field by (auto simp: cell_result_def split: option.split)
  next
    case JsonObject
    with assms(4) obtain f where f: "f \<in> set (dict_keys (mp_fields p))"
      and e: "e = field_result cat (the (map_of (mp_fields p) f)) rec"
      by (auto simp: mapping_run_one_object output_emissions_def)
    then obtain fp where "map_of (mp_fields p) f = Some fp" by (auto simp: set_dict_keys)
    with e field show ?thesis by simp
  qed
  then show ?thesis by (simp add: emission_ok_def)
qed

lemma mapped_emissions_well_formed_witness:
  "\<exists>cat (e :: emission). build_builtin_catalog sample_lib = Inr cat \<and> em_value e = Some ''A1''
     \<and> (em_kind e = VALUE \<longleftrightarrow> em_value e \<noteq> None)"
proof -
  obtain cat where cat: "build_builtin_catalog sample_lib = Inr cat"
    using build_builtin_catalog_facts by blast
  let ?p = "sample_plan CsvRow" and ?r = "sample_record (PyBool False)"
  have "em_VALUE ''A1'' \<in> set (output_emissions (mr_output (mapping_run_one cat ?p ?r ''base'')))"
  proof -
    have "mr_output (mapping_run_one cat ?p ?r ''base'') =
        MRow (map (cell_result cat ?p ?r ''base'') (csv_order ?p))"
      by (rule mapping_run_one_csv) (simp add: sample_plan_def)
    moreover have "cell_result cat ?p ?r ''base'' ''id'' = em_VALUE ''A1''"
      by (simp add: cell_result_def sample_defs field_result_def execute_field_def
          apply_presence_def extract_by_source_path_def)
    ultimately show ?thesis by (simp add: output_emissions_def csv_order_def sample_plan_def)
  qed
  from mapped_emissions_well_formed [OF cat sample_ok this]
  have "em_kind (em_VALUE ''A1'') = VALUE \<longleftrightarrow> em_value (em_VALUE ''A1'') \<noteq> None" .
  moreover have "em_value (em_VALUE ''A1'') = Some ''A1''" by simp
  ultimately show ?thesis using cat by blast
qed

text \<open>
  C4: the executor is a column-wise map of the plan over the record.  For a CSV plan the row
  has one emission per column of \<open>output_order\<close>, in that order, and the emission of a column
  depends only on its own field plan and the record: the failures of the other columns, and
  the issues collected before, cannot change it.
\<close>

theorem csv_row_is_map_of_order:
  assumes "mp_output_kind p = CsvRow" "mp_output_order p = Some order"
  shows "mr_output (mapping_run_one cat p rec profile) =
    MRow (map (\<lambda>f. case map_of (mp_fields p) f of
        None \<Rightarrow> em_OMIT
      | Some fp \<Rightarrow>
          if should_project_delete_tombstone p rec profile \<and> f \<noteq> mp_tombstone_id_field p
          then em_OMIT else fst (execute_field cat fp rec [])) order)"
proof -
  have "cell_result cat p rec profile = (\<lambda>f. case map_of (mp_fields p) f of
        None \<Rightarrow> em_OMIT
      | Some fp \<Rightarrow>
          if should_project_delete_tombstone p rec profile \<and> f \<noteq> mp_tombstone_id_field p
          then em_OMIT else fst (execute_field cat fp rec []))"
    by (rule ext) (simp add: cell_result_def field_result_def split: option.split)
  then show ?thesis
    using mapping_run_one_csv [OF assms(1)] assms(2) by (simp add: csv_order_def)
qed

lemma csv_row_is_map_of_order_witness:
  "mr_output (mapping_run_one empty_catalog (sample_plan CsvRow) (sample_record (PyBool False)) []) =
     MRow [em_VALUE ''A1'', em_OMIT]"
proof -
  have "should_project_delete_tombstone (sample_plan CsvRow) (sample_record (PyBool False)) [] = False"
    by (simp add: should_project_delete_tombstone_def sample_defs extract_by_source_path_def)
  moreover have "fst (execute_field empty_catalog (plain_field ''id'' ''product.sku'' [])
      (sample_record (PyBool False)) []) = em_VALUE ''A1''"
    by (simp add: execute_field_def sample_defs apply_presence_def extract_by_source_path_def)
  moreover have "fst (execute_field empty_catalog
      (plain_field ''title'' ''product.name'' [op_of ''trim'' []]) (sample_record (PyBool False)) []) = em_OMIT"
    by (simp add: execute_field_def sample_defs apply_presence_def apply_transform_def Let_def
        extract_by_source_path_def get_mapping_op_def empty_catalog_def)
  ultimately show ?thesis
    using csv_row_is_map_of_order [of "sample_plan CsvRow" "[''id'', ''title'']" empty_catalog
        "sample_record (PyBool False)" "[]"]
    by (simp add: sample_plan_def)
qed

text \<open>
  C7: a delete tombstone.  When the plan enables tombstones and the record's flag says delete, the
  identifier column of the row holds what its field plan gives for the record, every other column
  is omitted, and the issues are exactly those of the identifier's field and one for each column
  that the plan does not define: no other field is run.
\<close>

theorem tombstone_row:
  assumes "mp_output_kind p = CsvRow" "mp_output_order p = Some order"
    and "should_project_delete_tombstone p rec profile"
  shows "\<exists>row. mr_output (mapping_run_one cat p rec profile) = MRow row \<and> length row = length order
     \<and> (\<forall>i < length order. row ! i =
          (case map_of (mp_fields p) (order ! i) of
             Some fp \<Rightarrow> if order ! i = mp_tombstone_id_field p then fst (execute_field cat fp rec []) else em_OMIT
           | None \<Rightarrow> em_OMIT))
     \<and> set (mr_issues (mapping_run_one cat p rec profile)) =
         (\<Union>f \<in> set order.
            (case map_of (mp_fields p) f of
               Some fp \<Rightarrow> if f = mp_tombstone_id_field p then set (snd (execute_field cat fp rec [])) else {}
             | None \<Rightarrow> {issue ''EXEC_MAPPING_FIELD_NOT_FOUND'' (''mapping.fields.'' @ f)
                 (''Field '' @ quoted f @ '' is missing in mapping plan fields.'')}))"
proof -
  have enabled: "mp_tombstone_enabled p"
    using assms(3) by (auto simp: should_project_delete_tombstone_def split: if_splits)
  have "detect_delete_unsupported p rec profile = None"
    by (simp add: detect_delete_unsupported_def enabled)
  then have "set (mr_issues (mapping_run_one cat p rec profile)) =
      (\<Union>f \<in> set order. set (snd (csv_cell cat p rec True f [])))"
    using assms
    by (auto simp: mapping_run_one_def ordered_csv_fields_def csv.collect_eq issue_sort.srt_set)
  moreover have "set (snd (csv_cell cat p rec True f [])) =
      (case map_of (mp_fields p) f of
         Some fp \<Rightarrow> if f = mp_tombstone_id_field p then set (snd (execute_field cat fp rec [])) else {}
       | None \<Rightarrow> {issue ''EXEC_MAPPING_FIELD_NOT_FOUND'' (''mapping.fields.'' @ f)
           (''Field '' @ quoted f @ '' is missing in mapping plan fields.'')})" for f
    by (simp add: csv_cell_def split: option.split)
  moreover have "mr_output (mapping_run_one cat p rec profile) =
      MRow (map (cell_result cat p rec profile) order)"
    using mapping_run_one_csv [OF assms(1)] assms(2) by (simp add: csv_order_def)
  ultimately show ?thesis
    using assms(3) by (simp add: cell_result_def field_result_def split: option.split)
qed

lemma tombstone_row_witness:
  "\<exists>row. mr_output (mapping_run_one empty_catalog (sample_plan CsvRow)
       (sample_record (PyStr '' Yes '')) []) = MRow row
     \<and> row ! 0 = em_VALUE ''A1'' \<and> row ! 1 = em_OMIT
     \<and> mr_issues (mapping_run_one empty_catalog (sample_plan CsvRow) (sample_record (PyStr '' Yes '')) []) = []"
proof -
  let ?o = "[''id'', ''title'']" and ?p = "sample_plan CsvRow" and ?r = "sample_record (PyStr '' Yes '')"
  have t: "should_project_delete_tombstone ?p ?r []"
    by (simp add: should_project_delete_tombstone_def sample_defs extract_by_source_path_def
        truthy_words_def, code_simp)
  have p: "mp_output_kind ?p = CsvRow" "mp_output_order ?p = Some ?o" "mp_tombstone_id_field ?p = ''id''"
    "map_of (mp_fields ?p) ''id'' = Some (plain_field ''id'' ''product.sku'' [])"
    "map_of (mp_fields ?p) ''title'' = Some (plain_field ''title'' ''product.name'' [op_of ''trim'' []])"
    by (simp_all add: sample_plan_def)
  have id: "execute_field empty_catalog (plain_field ''id'' ''product.sku'' []) ?r [] = (em_VALUE ''A1'', [])"
    by (simp add: execute_field_def sample_defs apply_presence_def extract_by_source_path_def)
  from tombstone_row [OF p(1,2) t, of empty_catalog] obtain row where
    row: "mr_output (mapping_run_one empty_catalog ?p ?r []) = MRow row"
      "\<forall>i < length ?o. row ! i = (case map_of (mp_fields ?p) (?o ! i) of
          Some fp \<Rightarrow> if ?o ! i = mp_tombstone_id_field ?p then fst (execute_field empty_catalog fp ?r []) else em_OMIT
        | None \<Rightarrow> em_OMIT)"
      "set (mr_issues (mapping_run_one empty_catalog ?p ?r [])) = {}"
    by (elim exE conjE) (simp add: p id)
  from row(2) have "row ! 0 = em_VALUE ''A1''" "row ! 1 = em_OMIT"
    by (auto simp: p id dest: spec [of _ 0] spec [of _ 1])
  with row(1,3) show ?thesis by (intro exI [of _ row]) simp
qed

text \<open>
  A JSON object output has no omitted field, its keys are exactly the fields that emit a
  value or a null, in strictly increasing order, and each carries the field's own emission.
\<close>

theorem json_object_output:
  assumes "mp_output_kind p = JsonObject" "dict_ok (mp_fields p)"
  shows "\<exists>d. mr_output (mapping_run_one cat p rec profile) = MObject d
     \<and> sorted_wrt (<) (map fst d)
     \<and> (\<forall>f e. map_of d f = Some e \<longleftrightarrow>
          (\<exists>fp. map_of (mp_fields p) f = Some fp \<and> e = fst (execute_field cat fp rec [])
             \<and> em_kind e \<noteq> OMIT))"
proof -
  let ?ks = "sort (dict_keys (mp_fields p))"
  let ?g = "\<lambda>f. field_result cat (the (map_of (mp_fields p) f)) rec"
  let ?d = "filter (\<lambda>(f, e). em_kind e \<noteq> OMIT) (map (\<lambda>f. (f, ?g f)) ?ks)"
  have keys: "map fst ?d = filter (\<lambda>f. em_kind (?g f) \<noteq> OMIT) ?ks"
    by (simp add: filter_map comp_def)
  have ks: "sorted_wrt (<) ?ks" using sorted_keys_distinct [OF assms(2)] .
  then have sorted: "sorted_wrt (<) (map fst ?d)"
    unfolding keys by (rule sorted_wrt_filter)
  then have "distinct (map fst ?d)" by (simp only: strict_sorted_iff)
  then have "map_of ?d f = Some e \<longleftrightarrow> (f, e) \<in> set ?d" for f e by (rule map_of_eq_Some_iff)
  moreover have "(f, e) \<in> set ?d \<longleftrightarrow> (\<exists>fp. map_of (mp_fields p) f = Some fp
      \<and> e = fst (execute_field cat fp rec []) \<and> em_kind e \<noteq> OMIT)" for f e
  proof -
    have "(f, e) \<in> set ?d \<longleftrightarrow> f \<in> dom (map_of (mp_fields p)) \<and> e = ?g f \<and> em_kind e \<noteq> OMIT"
      by (auto simp: set_dict_keys)
    then show ?thesis
      by (cases "map_of (mp_fields p) f") (auto simp: field_result_def dom_def)
  qed
  ultimately show ?thesis
    using mapping_run_one_object [OF assms(1), of cat rec profile] sorted by blast
qed

lemma json_object_output_witness:
  "\<exists>d. mr_output (mapping_run_one empty_catalog (sample_plan JsonObject)
       (sample_record (PyBool False)) []) = MObject d \<and> sorted_wrt (<) (map fst d)"
proof -
  have "mp_output_kind (sample_plan JsonObject) = JsonObject" "dict_ok (mp_fields (sample_plan JsonObject))"
    by (simp_all add: sample_plan_def dict_ok_def)
  from json_object_output [OF this] show ?thesis by blast
qed

text \<open>
  the executor's source extraction and the \<open>get_path\<close> operation, written twice in the code,
  are the same function on every record and every non-empty path, list indices and
  unresolvable segments included.
\<close>

theorem get_path_is_source_extraction:
  assumes "path \<noteq> []"
  shows "op_get_path (PyDict rec) [(''path'', PyStr path)] = Inr (extract_by_source_path rec path)"
  using assms by (simp add: op_get_path_def extract_by_source_path_def walk_path_segments)

lemma get_path_is_source_extraction_witness:
  "op_get_path (PyDict (sample_record PyNone)) [(''path'', PyStr ''product.sku'')] = Inr (PyStr ''A1'')"
  using get_path_is_source_extraction [of "''product.sku''" "sample_record PyNone"]
  by (simp add: sample_record_def extract_by_source_path_def)

text \<open>
  \<open>map_tax_code\<close>, run on the arguments its \<open>prepare\<close> hook computed from the tax table,
  resolves a category by its longest prefix in the table, and falls back to the taxable flag
  exactly when no prefix matches.  The table is any mapping of prefixes to codes; nothing is
  assumed of the order in which it was loaded.
\<close>

theorem tax_code_longest_prefix:
  assumes "prepare_tax_code [] (Some ctx) = Inr args"
    and "pc_tax_mapping ctx = Some lookup" "map_of lookup ''mappings'' = Some (PyDict m)"
    and "nonblank (dget d ''tax_code_override'') = None"
    and "nonblank (dget d ''tax_category'') = Some cat"
  shows "(\<forall>p code. map_of m p = Some code \<and> startswith cat p
            \<and> (\<forall>q. map_of m q \<noteq> None \<and> startswith cat q \<longrightarrow> length q \<le> length p)
            \<longrightarrow> op_map_tax_code (PyDict d) args = Inr code)
     \<and> ((\<forall>p. map_of m p \<noteq> None \<longrightarrow> \<not> startswith cat p)
            \<longrightarrow> op_map_tax_code (PyDict d) args = Inr (tax_fallback lookup (dget d ''taxable'')))"
proof -
  let ?ks = "longest_keys (dict_keys m)"
  have res: "op_map_tax_code (PyDict d) args = (case find (startswith cat) ?ks of
      None \<Rightarrow> Inr (tax_fallback lookup (dget d ''taxable'')) | Some p \<Rightarrow> Inr (the (map_of m p)))"
    by (rule map_tax_code_category [OF assms(2,3,1,4,5)])
  have dom: "set ?ks = dom (map_of m)" by (simp add: longest_keys_facts set_dict_keys)
  have same: "startswith cat p \<Longrightarrow> startswith cat q \<Longrightarrow> length p = length q \<Longrightarrow> p = q" for p q
    by (metis startswith_def)
  show ?thesis
  proof (cases "find (startswith cat) ?ks")
    case None
    then have none: "\<forall>p. map_of m p \<noteq> None \<longrightarrow> \<not> startswith cat p"
      using dom by (auto simp: find_None_iff)
    with res None show ?thesis by auto
  next
    case (Some p)
    note f = find_longest [OF longest_keys_facts(2) Some]
    have p: "map_of m p \<noteq> None" "startswith cat p" using f dom by blast+
    have hit: "op_map_tax_code (PyDict d) args = Inr (the (map_of m p))" using res Some by simp
    show ?thesis
    proof (intro conjI allI impI)
      fix q code
      assume q: "map_of m q = Some code \<and> startswith cat q
        \<and> (\<forall>r. map_of m r \<noteq> None \<and> startswith cat r \<longrightarrow> length r \<le> length q)"
      then have "length p \<le> length q" using p by blast
      moreover have "length q \<le> length p" using f q dom by blast
      ultimately have "q = p" using same q p(2) by simp
      with q hit show "op_map_tax_code (PyDict d) args = Inr code" by simp
    next
      assume "\<forall>p. map_of m p \<noteq> None \<longrightarrow> \<not> startswith cat p"
      with p show "op_map_tax_code (PyDict d) args = Inr (tax_fallback lookup (dget d ''taxable''))"
        by blast
    qed
  qed
qed

definition sample_tax :: "(string \<times> pyval) list" where
  "sample_tax = [(''mappings'', PyDict [(''Food'', PyStr ''t1''), (''Food > Tea'', PyStr ''t2'')])]"

lemma tax_code_longest_prefix_witness:
  "\<exists>args. prepare_tax_code [] (Some \<lparr>pc_tax_mapping = Some sample_tax\<rparr>) = Inr args
     \<and> op_map_tax_code (PyDict [(''tax_category'', PyStr ''Food > Tea > Green'')]) args = Inr (PyStr ''t2'')"
proof -
  let ?m = "[(''Food'', PyStr ''t1''), (''Food > Tea'', PyStr ''t2'')]"
  let ?c = "\<lparr>pc_tax_mapping = Some sample_tax\<rparr>" and ?cat = "''Food > Tea > Green''"
  have look: "pc_tax_mapping ?c = Some sample_tax" "map_of sample_tax ''mappings'' = Some (PyDict ?m)"
    by (simp_all add: sample_tax_def)
  from prepare_tax_code_keys [OF look, of "[]"] obtain args
    where args: "prepare_tax_code [] (Some ?c) = Inr args" by blast
  have "strip ?cat = ?cat" by (rule strip_fixed) (simp add: is_space_def)
  then have cat: "nonblank (dget [(''tax_category'', PyStr ?cat)] ''tax_code_override'') = None"
    "nonblank (dget [(''tax_category'', PyStr ?cat)] ''tax_category'') = Some ?cat"
    by (simp_all add: nonblank_def)
  have "map_of ?m ''Food > Tea'' = Some (PyStr ''t2'')" "startswith ?cat ''Food > Tea''"
    "\<forall>q. map_of ?m q \<noteq> None \<and> startswith ?cat q \<longrightarrow> length q \<le> length ''Food > Tea''"
    by (simp_all add: startswith_def)
  with tax_code_longest_prefix [OF args look cat] args show ?thesis by blast
qed

end
