(* ===== verification/PFP_Validation_Spec.thy ===== *)
theory PFP_Validation_Spec
  imports Complex_Main PFP_Validation_Exec PFP_Mapping_Spec
begin

text \<open>
  The properties of the validation side: the range module against the order of the rationals,
  the executor's decision table, and the policies that reach it.
\<close>

section \<open>The order of decimals\<close>

definition dec_value :: "bool \<Rightarrow> nat \<Rightarrow> int \<Rightarrow> rat" where
  "dec_value neg c e = of_int (signed neg c) * 10 powi e"

lemma scale_value:
  "m \<le> e \<Longrightarrow> of_int (signed neg c * 10 ^ nat (e - m)) = dec_value neg c e * 10 powi (- m)"
proof -
  assume "m \<le> e"
  then have "(10 :: rat) ^ nat (e - m) = 10 powi (e - m)" by (simp add: power_int_def)
  also have "\<dots> = 10 powi e * 10 powi (- m)" by (simp add: power_int_diff power_int_minus field_simps)
  finally show ?thesis by (simp add: dec_value_def)
qed

lemma dec_less_value:
  "dec_less (DFin n1 c1 e1) (DFin n2 c2 e2) = Inr (dec_value n1 c1 e1 < dec_value n2 c2 e2)"
proof -
  define m where "m = min e1 e2"
  let ?a = "signed n1 c1 * 10 ^ nat (e1 - m)" and ?b = "signed n2 c2 * 10 ^ nat (e2 - m)"
  have "?a < ?b \<longleftrightarrow> (of_int ?a :: rat) < of_int ?b" by (simp only: of_int_less_iff)
  also have "\<dots> \<longleftrightarrow> dec_value n1 c1 e1 * 10 powi (- m) < dec_value n2 c2 e2 * 10 powi (- m)"
    by (simp only: scale_value m_def min.cobounded1 min.cobounded2)
  also have "\<dots> \<longleftrightarrow> dec_value n1 c1 e1 < dec_value n2 c2 e2" by simp
  finally show ?thesis by (simp add: m_def Let_def)
qed

section \<open>The decision of a record\<close>

definition run_items :: "ext_catalog \<Rightarrow> validation_plan \<Rightarrow> dict \<Rightarrow> string \<Rightarrow> report_item list" where
  "run_items cat plan rec profile =
     order_items (concat (map (rule_items cat rec profile) (vp_rules plan)))"

lemma run_without_policy:
  "validation_run_one cat None plan rec profile =
     decided (run_items cat plan rec profile) (decision_without_policies (run_items cat plan rec profile))"
  by (auto simp: validation_run_one_def run_items_def Let_def decided_def
      decision_without_policies_def any_severity_def)

lemma any_severity_map:
  "any_severity s items \<longleftrightarrow> s \<in> set (map ri_severity items)"
  by (auto simp: any_severity_def)

definition strip_severity :: "report_item \<Rightarrow> report_item" where
  "strip_severity i = i\<lparr>ri_severity := VFail\<rparr>"

lemma effective_items_frame:
  "length (sd_diagnostics sd) = length items \<Longrightarrow>
     map strip_severity (effective_items sd items) = map strip_severity items"
  by (rule nth_equalityI) (simp_all add: effective_items_def strip_severity_def)

definition mode_severity :: "strictness_mode \<Rightarrow> val_severity" where
  "mode_severity mode = (case mode of FailOnError \<Rightarrow> VFail | DropInvalid \<Rightarrow> VDrop | WarnOnly \<Rightarrow> VWarn)"

definition mode_decision :: "strictness_mode \<Rightarrow> val_decision" where
  "mode_decision mode = (case mode of FailOnError \<Rightarrow> DFail | DropInvalid \<Rightarrow> DDrop | WarnOnly \<Rightarrow> DWarn)"

lemma strictness_decides:
  fixes items mode
  defines "sd \<equiv> strictness_apply mode (strictness_input items)"
  assumes "items \<noteq> []"
  shows "decision_from_strictness sd (effective_items sd items) =
    (if \<forall>i \<in> set items. ri_severity i = VWarn then DWarn else mode_decision mode)"
proof -
  have sev: "map ri_severity (effective_items sd items) =
      map (\<lambda>i. if ri_severity i = VWarn then VWarn else mode_severity mode) items"
    using effective_severities [of mode items] by (simp add: sd_def mode_severity_def)
  have drop: "any_severity VDrop (effective_items sd items) \<longleftrightarrow>
      mode = DropInvalid \<and> (\<exists>i \<in> set items. ri_severity i \<noteq> VWarn)"
    unfolding any_severity_map sev by (cases mode) (auto simp: mode_severity_def)
  have warn: "any_severity VWarn (effective_items sd items) \<longleftrightarrow>
      (\<exists>i \<in> set items. ri_severity i = VWarn) \<or> mode = WarnOnly"
    unfolding any_severity_map sev using assms(2)
    by (cases mode; cases items) (auto simp: mode_severity_def)
  have flags: "sd_should_fail sd \<longleftrightarrow> mode = FailOnError \<and> (\<exists>i \<in> set items. ri_severity i \<noteq> VWarn)"
    "sd_drop_invalid sd \<longleftrightarrow> mode = DropInvalid \<and> (\<exists>i \<in> set items. ri_severity i \<noteq> VWarn)"
    by (cases mode; simp add: sd_def has_errors_input)+
  obtain j where "j \<in> set items" using assms(2) by (cases items) auto
  then show ?thesis
    unfolding decision_from_strictness_def flags drop warn
    by (cases mode) (auto simp: mode_decision_def)
qed

lemma run_under_policy:
  fixes cat plan rec profile mode
  defines "sd \<equiv> strictness_apply mode (strictness_input (run_items cat plan rec profile))"
  shows "validation_run_one cat (Some (strictness_apply mode)) plan rec profile =
    decided (effective_items sd (run_items cat plan rec profile))
      (if run_items cat plan rec profile = [] then DPass
       else decision_from_strictness sd (effective_items sd (run_items cat plan rec profile)))"
  using strictness.run_one_no_mismatch [of cat mode plan rec profile]
  by (simp add: sd_def run_items_def Let_def)

text \<open>A finding keeps its rule, module and path under a policy, which only sets its severity.\<close>

lemma finding_under_policy:
  assumes "i \<in> set items"
  obtains j where "j \<in> set (effective_items (strictness_apply mode (strictness_input items)) items)"
    "strip_severity j = strip_severity i"
    "ri_severity j = (if ri_severity i = VWarn then VWarn else mode_severity mode)"
proof -
  let ?es = "effective_items (strictness_apply mode (strictness_input items)) items"
  have frame: "map strip_severity ?es = map strip_severity items"
    by (rule effective_items_frame) (simp add: strictness.same_length)
  then have len: "length ?es = length items" by (rule map_eq_imp_length_eq)
  have sev: "map ri_severity ?es = map (\<lambda>i. if ri_severity i = VWarn then VWarn else mode_severity mode) items"
    using effective_severities [of mode items] by (simp add: mode_severity_def)
  obtain k where k: "k < length items" "items ! k = i" using assms by (auto simp: in_set_conv_nth)
  show ?thesis
  proof (rule that)
    show "?es ! k \<in> set ?es" using k len by simp
    show "strip_severity (?es ! k) = strip_severity i"
      using arg_cong [OF frame, of "\<lambda>xs. xs ! k"] k len by simp
    show "ri_severity (?es ! k) = (if ri_severity i = VWarn then VWarn else mode_severity mode)"
      using arg_cong [OF sev, of "\<lambda>xs. xs ! k"] k len by simp
  qed
qed

section \<open>Properties\<close>

text \<open>
  C6: the decision on a record under a strictness policy is a function of the strategy and of
  whether any failed rule is more than a warning.  A record without findings passes; one with
  warnings only is warned about; otherwise \<open>fail_on_error\<close> fails it, \<open>drop_invalid\<close> drops
  it and \<open>warn_only\<close> warns.  The rule's own severity hint (\<open>DROP\<close> or \<open>FAIL\<close>) has no part in it,
  the policy never adds or loses a finding, and it changes nothing of one but its severity.
\<close>

theorem strictness_decision_table:
  "let bare = validation_run_one cat None plan rec profile;
       under = validation_run_one cat (Some (strictness_apply mode)) plan rec profile
   in ve_decision under =
        (if ve_items bare = [] then DPass
         else if list_all (\<lambda>i. ri_severity i = VWarn) (ve_items bare) then DWarn
         else (case mode of FailOnError \<Rightarrow> DFail | DropInvalid \<Rightarrow> DDrop | WarnOnly \<Rightarrow> DWarn))
    \<and> map strip_severity (ve_items under) = map strip_severity (ve_items bare)
    \<and> (ve_is_valid under = (ve_decision under \<noteq> DFail))"
proof -
  let ?items = "run_items cat plan rec profile"
  let ?sd = "strictness_apply mode (strictness_input ?items)"
  note under = run_under_policy [of cat mode plan rec profile]
  have bare: "ve_items (validation_run_one cat None plan rec profile) = ?items"
    by (simp add: run_without_policy decided_def)
  have frame: "map strip_severity (effective_items ?sd ?items) = map strip_severity ?items"
    by (rule effective_items_frame) (simp add: strictness.same_length)
  show ?thesis
    using strictness_decides [of ?items mode] frame
    by (simp add: Let_def under bare decided_def list_all_iff mode_decision_def)
qed

text \<open>
  C9: nothing a validation module does can let a bad record through unseen.  Whenever a rule's
  module is missing from the catalog, raises, or returns something that is not a result, the
  record has a finding of that rule at its path.  Without a policy the finding is \<open>FAIL\<close> and so is
  the decision; under a strictness policy finding and decision are the ones of its mode, \<open>FAIL\<close>,
  \<open>DROP\<close> or \<open>WARN\<close>.  The record never passes.
\<close>

theorem broken_module_never_passes:
  assumes "rule \<in> set (vp_rules plan)"
    and "(case get_validation_module cat (rp_module_id rule) of
            Inl _ \<Rightarrow> True
          | Inr spec \<Rightarrow>
              (case vm_call spec (resolve_rule_value rule rec) (rp_config rule) (Some rec) (Some profile) of
                 Inl _ \<Rightarrow> True
               | Inr raw \<Rightarrow> \<not> nr_valid_shape (normalize_module_result raw)))"
    and "policy = (case mode of None \<Rightarrow> None | Some m \<Rightarrow> Some (strictness_apply m))"
  shows "ve_decision (validation_run_one cat policy plan rec profile) =
      (case mode of Some DropInvalid \<Rightarrow> DDrop | Some WarnOnly \<Rightarrow> DWarn | _ \<Rightarrow> DFail)
    \<and> (\<exists>i \<in> set (ve_items (validation_run_one cat policy plan rec profile)).
          ri_severity i = (case mode of Some DropInvalid \<Rightarrow> VDrop | Some WarnOnly \<Rightarrow> VWarn | _ \<Rightarrow> VFail)
          \<and> ri_rule_id i = rp_rule_id rule \<and> ri_module_id i = rp_module_id rule
          \<and> ri_path i = default_path rule)"
proof -
  let ?items = "run_items cat plan rec profile"
  obtain i where i: "i \<in> set (rule_items cat rec profile rule)" "ri_severity i = VFail"
    "ri_rule_id i = rp_rule_id rule" "ri_module_id i = rp_module_id rule" "ri_path i = default_path rule"
    using assms(2)
    by (auto simp: rule_items_def rule_applies_to_mode_def Let_def runtime_item_def
        split: sum.splits)
  then have mem: "i \<in> set ?items"
    using assms(1) by (auto simp: run_items_def item_sort.srt_set)
  show ?thesis
  proof (cases mode)
    case None
    have "any_severity VFail ?items" using mem i(2) by (auto simp: any_severity_def)
    then show ?thesis
      using mem i(2-) None assms(3)
      by (auto simp: run_without_policy decided_def decision_without_policies_def)
  next
    case (Some m)
    obtain j where j: "j \<in> set (effective_items (strictness_apply m (strictness_input ?items)) ?items)"
      "strip_severity j = strip_severity i" "ri_severity j = mode_severity m"
      using finding_under_policy [OF mem, of m] i(2) by auto
    have same: "ri_rule_id j = ri_rule_id i" "ri_module_id j = ri_module_id i" "ri_path j = ri_path i"
      using j(2) by (cases i; cases j; simp add: strip_severity_def)+
    have "?items \<noteq> []" "\<not> (\<forall>i \<in> set ?items. ri_severity i = VWarn)"
      using mem i(2) by (auto intro!: bexI [of _ i])
    then have "decision_from_strictness (strictness_apply m (strictness_input ?items))
        (effective_items (strictness_apply m (strictness_input ?items)) ?items) = mode_decision m"
      by (auto simp: strictness_decides)
    then show ?thesis
      using j(1,3) same i(3-5) Some assms(3) \<open>?items \<noteq> []\<close>
      by (cases m) (auto simp: run_under_policy decided_def mode_decision_def mode_severity_def)
  qed
qed

definition sample_rule :: "string \<Rightarrow> dict \<Rightarrow> validation_rule_plan" where
  "sample_rule m cfg = \<lparr>rp_module_id = m, rp_rule_id = Some ''r1'', rp_applies_to_field = Some ''price'',
     rp_config = cfg, rp_on_fail_code = None, rp_on_fail_message = None, rp_severity_hint = None,
     rp_expected_value_type = None\<rparr>"

text \<open>A module that the catalog does not have, for a policy that only warns.\<close>

lemma broken_module_never_passes_witness:
  "ve_decision (validation_run_one empty_catalog (Some (strictness_apply WarnOnly))
     \<lparr>vp_rules = [sample_rule ''range'' []]\<rparr> [] []) = DWarn"
  using broken_module_never_passes [where rule = "sample_rule ''range'' []" and cat = empty_catalog
      and plan = "\<lparr>vp_rules = [sample_rule ''range'' []]\<rparr>" and rec = "[]" and profile = "[]"
      and policy = "Some (strictness_apply WarnOnly)" and mode = "Some WarnOnly"]
  by (simp add: get_validation_module_def empty_catalog_def)

text \<open>
  the \<open>range\<close> module decides by the numeric value of the decimals, whatever their exponents.
  For finite bounds with \<open>min \<le> max\<close> and a value that reads as a finite decimal it passes
  exactly the values between the bounds.
\<close>

theorem range_check_is_interval:
  assumes "parse_decimal (py_str v) = Some (DFin n c e)" "\<not> is_bool v" "\<not> absent v"
    and "dec_value n1 c1 e1 \<le> dec_value n2 c2 e2"
  shows "check_range v [(''min'', PyDec (DFin n1 c1 e1)), (''max'', PyDec (DFin n2 c2 e2))] rec profile =
    (if dec_value n c e < dec_value n1 c1 e1 then vr_fail ''range mismatch: value below min''
     else if dec_value n2 c2 e2 < dec_value n c e then vr_fail ''range mismatch: value above max''
     else vr_pass)"
proof -
  have bound: "range_bound (PyDec (DFin a b d)) = Inr (Some (DFin a b d))" for a b d
    using py_str_dec [of a b d] by (simp add: range_bound_def range_decimal_def)
  have "range_decimal v = Inr (DFin n c e)"
    using assms(1,2) by (simp add: range_decimal_def)
  then show ?thesis
    using assms(3,4)
    by (simp add: check_range_def Let_def bound opt_less_def dec_less_value not_less del: dec_less.simps)
qed

lemma range_check_is_interval_witness:
  "check_range (PyInt 5) [(''min'', PyDec (DFin False 50 (-1))), (''max'', PyDec (DFin False 1 1))] None None
     = vr_pass"
proof -
  have "parse_decimal (py_str (PyInt 5)) = Some (DFin False 5 0)"
    using parse_dec_str [of False 5 0] by (simp add: dec_body_def sign_str_def nat_str.simps int_str_def)
  from range_check_is_interval [OF this, of False 50 "-1" False 1 1] show ?thesis
    by (simp add: dec_value_def signed_def power_int_def)
qed

text \<open>
  Every configuration the policy loader accepts can be built with the default registry:
  the bundle holds a policy of each kind, with the strategy and the fields of the
  configuration, the version is 1.0, and the infrastructure section repeats the fault
  isolation strategy of the core section.
\<close>

theorem loaded_policies_build:
  assumes "load_policy_config data = Inr cfg"
  shows "pc_version cfg = ''1.0'' \<and> pc_infra_fault cfg = cp_fault (pc_core cfg)
    \<and> rbind default_policy_registry (\<lambda>r. Inr (build_policy_bundle cfg r))
      = Inr (Inr \<lparr>pb_strictness = PolStrictness (cp_strictness (pc_core cfg)),
                  pb_eligibility = Some (PolEligibility (cp_eligibility (pc_core cfg))),
                  pb_fault = Some (PolFault (cp_fault (pc_core cfg)))\<rparr>)"
proof -
  have "infrastructure_from_dict (PyDict [(''fault_isolation'',
      PyDict [(''strategy'', PyStr (fault_name f))])]) = Inr f" for f
    using fault_config_name [of f]
    by (simp add: infrastructure_from_dict_def require_mapping_def validate_keys_def dict_keys_def)
  then have "pc_version cfg = ''1.0'' \<and> pc_infra_fault cfg = cp_fault (pc_core cfg)"
    using assms
    by (auto simp: load_policy_config_def policy_config_from_dict_def rbind_Inr_iff
        split: if_splits pyval.splits)
  then show ?thesis
    by (simp add: default_policy_registry_def register_policy_def build_policy_bundle_def
        build_policy_def build_optional_policy_def build_strictness_policy_def
        build_eligibility_policy_def build_fault_isolation_policy_def mode_normalize_value)
qed

definition sample_policy_data :: pyval where
  "sample_policy_data = PyDict [(''version'', PyFloat ''1.0''),
     (''core'', PyDict [(''strictness'', PyDict [(''strategy'', PyStr ''warn_only'')])])]"

lemma loaded_policies_build_witness:
  "\<exists>cfg. load_policy_config sample_policy_data = Inr cfg \<and> pc_infra_fault cfg = SkipItem
     \<and> pc_infra_fault cfg = cp_fault (pc_core cfg)"
proof -
  let ?core = "\<lparr>cp_strictness = WarnOnly, cp_eligibility = [], cp_fault = SkipItem\<rparr>"
  let ?cfg = "\<lparr>pc_version = ''1.0'', pc_core = ?core, pc_infra_fault = SkipItem\<rparr>"
  have "load_policy_config sample_policy_data = Inr ?cfg"
    using mode_normalize_value [of WarnOnly] fault_config_name [of SkipItem]
    by (simp add: load_policy_config_def sample_policy_data_def policy_config_from_dict_def
        require_mapping_def validate_keys_def require_key_def dict_keys_def normalize_version_def
        core_policy_from_dict_def strictness_config_from_dict_def eligibility_config_from_dict_def
        merchant_fields_from_dict_def fault_config_from_dict_def infrastructure_from_dict_def
        upper_def upper_char_def)
  from loaded_policies_build [OF this] this show ?thesis by force
qed

end
