(* ===== verification/PFP_Compiler_Spec.thy ===== *)
theory PFP_Compiler_Spec
  imports PFP_Compiler PFP_Validation_Spec
begin

text \<open>
  What a schema that compiles without an error promises: a plan whose operations and modules
  exist, whose transform chains are typed and whose columns are exactly its fields.  Each step
  of the compiler has one lemma of the same shape: a clean list of diagnostics after the step
  was clean before it, and what the step produced is well formed.
\<close>

section \<open>Clean diagnostics\<close>

definition clean :: "diags \<Rightarrow> bool" where
  "clean ds \<longleftrightarrow> (\<forall>d \<in> set ds. cd_severity d \<noteq> CError)"

lemma clean_Nil [simp]: "clean []"
  by (simp add: clean_def)

lemma clean_add_error [simp]: "\<not> clean (add_error ds c p m)"
  by (simp add: clean_def add_error_def compile_diag_new_def)

lemma clean_sort: "clean (sort_compile_diagnostics ds) \<longleftrightarrow> clean ds"
  by (simp add: clean_def compile_sort.srt_set)

section \<open>Fields\<close>

definition call_ok :: "ext_catalog \<Rightarrow> mapping_op_call \<Rightarrow> bool" where
  "call_ok cat oc \<longleftrightarrow> oc_op_id oc \<in> set mapping_op_allowlist
     \<and> (\<exists>spec. get_mapping_op cat (oc_op_id oc) = Inr spec
          \<and> oc_input_type oc = to_plan_type_id (ts_type_id (op_input_type spec))
          \<and> oc_output_type oc = to_plan_type_id (ts_type_id (op_output_type spec)))"

text \<open>Every known output type meets the known input type after it.\<close>

fun typed_chain :: "type_id option \<Rightarrow> mapping_op_call list \<Rightarrow> bool" where
  "typed_chain t [] = True"
| "typed_chain t (oc # ocs) =
     (\<not> is_type_mismatch t (oc_input_type oc) \<and> typed_chain (oc_output_type oc) ocs)"

fun final_type :: "type_id option \<Rightarrow> mapping_op_call list \<Rightarrow> type_id option" where
  "final_type t [] = t"
| "final_type t (oc # ocs) = final_type (oc_output_type oc) ocs"

lemma typed_chain_snoc:
  "typed_chain t (ocs @ [oc]) \<longleftrightarrow>
     typed_chain t ocs \<and> \<not> is_type_mismatch (final_type t ocs) (oc_input_type oc)"
  by (induction ocs arbitrary: t) auto

lemma final_type_snoc [simp]: "final_type t (ocs @ [oc]) = oc_output_type oc"
  by (induction ocs arbitrary: t) auto

definition chain_ok :: "ext_catalog \<Rightarrow> chain \<Rightarrow> bool" where
  "chain_ok cat ch \<longleftrightarrow> (\<forall>oc \<in> set (ch_calls ch). call_ok cat oc)
     \<and> ch_type ch = final_type None (ch_calls ch)"

definition chain_typed :: "chain \<Rightarrow> bool" where
  "chain_typed ch \<longleftrightarrow> typed_chain None (ch_calls ch)"

lemma try_get_mapping_op_cases:
  "try_get_mapping_op cat k p ds = (r, ds') \<Longrightarrow>
     (case r of None \<Rightarrow> \<not> clean ds' | Some spec \<Rightarrow> ds' = ds \<and> get_mapping_op cat k = Inr spec)"
  by (auto simp: try_get_mapping_op_def split: sum.splits)

lemma read_args_clean: "read_args t p ds = (a, ds') \<Longrightarrow> clean ds' \<Longrightarrow> clean ds"
  by (auto simp: read_args_def split: pyval.splits)

lemma read_on_missing_clean: "read_on_missing t p ds = (a, ds') \<Longrightarrow> clean ds' \<Longrightarrow> clean ds"
  by (auto simp: read_on_missing_def Let_def split: if_splits option.splits)

lemma link_transform_chain:
  assumes "link_transform spec k p args om ctx ch ds = Inr (ch', ds')"
    and "get_mapping_op cat k = Inr spec" "k \<in> set mapping_op_allowlist" "chain_ok cat ch"
  shows "chain_ok cat ch' \<and> (clean ds' \<longrightarrow> clean ds \<and> (chain_typed ch \<longrightarrow> chain_typed ch'))"
  using assms
  by (auto simp: link_transform_def Let_def rbind_Inr_iff chain_ok_def chain_typed_def call_ok_def
      typed_chain_snoc split: if_splits)

lemma compile_transform_chain:
  assumes "compile_transform cat ctx fp i raw ch ds = Inr (ch', ds')" "chain_ok cat ch"
  shows "chain_ok cat ch' \<and> (clean ds' \<longrightarrow> clean ds \<and> (chain_typed ch \<longrightarrow> chain_typed ch'))"
proof (cases "\<exists>t k. raw = PyDict t \<and> dget t ''op'' = PyStr k \<and> k \<noteq> [] \<and> k \<in> set mapping_op_allowlist")
  case False
  with assms show ?thesis
    by (auto simp: compile_transform_def Let_def split: option.splits pyval.splits if_splits)
next
  case True
  then obtain t k where t: "raw = PyDict t" "dget t ''op'' = PyStr k" "k \<noteq> []"
    "k \<in> set mapping_op_allowlist" by blast
  let ?p = "fp @ ''.transforms['' @ nat_str i @ '']''"
  obtain r ds1 where r: "try_get_mapping_op cat k (?p @ ''.op'') ds = (r, ds1)" by (metis prod.exhaust)
  obtain args ds2 where a: "read_args t ?p ds1 = (args, ds2)" by (metis prod.exhaust)
  obtain om ds3 where o: "read_on_missing t ?p ds2 = (om, ds3)" by (metis prod.exhaust)
  show ?thesis
  proof (cases r)
    case None
    with assms t r try_get_mapping_op_cases [OF r] show ?thesis
      by (auto simp: compile_transform_def Let_def)
  next
    case (Some spec)
    then have spec: "ds1 = ds" "get_mapping_op cat k = Inr spec"
      using try_get_mapping_op_cases [OF r] by auto
    have "link_transform spec k ?p args om ctx ch ds3 = Inr (ch', ds')"
      using assms(1) t r a o Some by (simp add: compile_transform_def Let_def)
    from link_transform_chain [OF this spec(2) t(4) assms(2)] show ?thesis
      using read_args_clean [OF a] read_on_missing_clean [OF o] spec(1) by auto
  qed
qed

lemma compile_transforms_chain:
  "compile_transforms cat ctx fp i raws ch ds = Inr (ch', ds') \<Longrightarrow> chain_ok cat ch \<Longrightarrow>
     chain_ok cat ch' \<and> (clean ds' \<longrightarrow> clean ds \<and> (chain_typed ch \<longrightarrow> chain_typed ch'))"
proof (induction raws arbitrary: i ch ds)
  case Nil
  then show ?case by simp
next
  case (Cons raw raws)
  then obtain ch1 ds1 where s: "compile_transform cat ctx fp i raw ch ds = Inr (ch1, ds1)"
    and rest: "compile_transforms cat ctx fp (Suc i) raws ch1 ds1 = Inr (ch', ds')"
    by (auto simp: rbind_Inr_iff)
  from compile_transform_chain [OF s Cons.prems(2)] Cons.IH [OF rest] show ?case by blast
qed

definition field_ok :: "ext_catalog \<Rightarrow> string \<Rightarrow> field_mapping_plan \<Rightarrow> bool" where
  "field_ok cat f fp \<longleftrightarrow> fm_field_id fp = f \<and> (\<forall>oc \<in> set (fm_transforms fp). call_ok cat oc)
     \<and> fm_final_type fp = final_type None (fm_transforms fp)"

lemma compile_source_clean:
  "compile_source fm fp ds = (r, ds') \<Longrightarrow> clean ds' \<Longrightarrow> clean ds"
  by (auto simp: compile_source_def Let_def split: option.splits pyval.splits prod.splits)

lemma compile_field_presence_clean:
  "compile_field_presence fm fp g ds = (r, ds') \<Longrightarrow> clean ds' \<Longrightarrow> clean ds"
  by (auto simp: compile_field_presence_def split: option.splits)

lemma read_transforms_clean:
  "read_transforms fm fp ds = Inr (r, ds') \<Longrightarrow> clean ds' \<Longrightarrow> clean ds"
  by (auto simp: read_transforms_def split: pyval.splits)

lemma compile_field_mapping_ok:
  assumes "compile_field_mapping cat ctx g f fm ds = Inr (plan, ds')"
  shows "field_ok cat f plan \<and> (clean ds' \<longrightarrow> clean ds \<and> typed_chain None (fm_transforms plan))"
proof -
  let ?p = "''mapping.fields.'' @ f"
  obtain src req ds1 where a: "compile_source fm ?p ds = ((src, req), ds1)" by (metis prod.exhaust)
  obtain pres ds2 where b: "compile_field_presence fm ?p g ds1 = (pres, ds2)" by (metis prod.exhaust)
  from assms a b obtain raws ds3 ch where c: "read_transforms fm ?p ds2 = Inr (raws, ds3)"
    and d: "compile_transforms cat ctx ?p 0 raws \<lparr>ch_calls = [], ch_type = None\<rparr> ds3 = Inr (ch, ds')"
    and plan: "plan = \<lparr>fm_field_id = f, fm_source_path = src, fm_transforms = ch_calls ch,
        fm_presence = pres, fm_final_type = ch_type ch, fm_required_source = req\<rparr>"
    by (auto simp: compile_field_mapping_def Let_def rbind_Inr_iff)
  have "chain_ok cat \<lparr>ch_calls = [], ch_type = None\<rparr>" by (simp add: chain_ok_def)
  from compile_transforms_chain [OF d this] show ?thesis
    using compile_source_clean [OF a] compile_field_presence_clean [OF b] read_transforms_clean [OF c]
    by (auto simp: plan field_ok_def chain_ok_def chain_typed_def)
qed

definition fields_ok :: "ext_catalog \<Rightarrow> (string, field_mapping_plan) odict \<Rightarrow> bool" where
  "fields_ok cat d \<longleftrightarrow> dict_ok d \<and> (\<forall>f fp. map_of d f = Some fp \<longrightarrow> field_ok cat f fp)"

definition fields_typed :: "(string, field_mapping_plan) odict \<Rightarrow> bool" where
  "fields_typed d \<longleftrightarrow> (\<forall>f fp. map_of d f = Some fp \<longrightarrow> typed_chain None (fm_transforms fp))"

lemma compile_fields_ok:
  "compile_fields cat ctx g obj fs acc ds = Inr (d, ds') \<Longrightarrow> fields_ok cat acc \<Longrightarrow>
     fields_ok cat d \<and> (clean ds' \<longrightarrow> clean ds \<and> (fields_typed acc \<longrightarrow> fields_typed d)
       \<and> set (dict_keys d) = set (dict_keys acc) \<union> set fs)"
proof (induction fs arbitrary: acc ds)
  case Nil
  then show ?case by simp
next
  case (Cons f fs)
  show ?case
  proof (cases "as_mapping (dget obj f)")
    case None
    with Cons show ?thesis by fastforce
  next
    case (Some fm)
    with Cons.prems(1) obtain plan ds1 where p: "compile_field_mapping cat ctx g f fm ds = Inr (plan, ds1)"
      and rest: "compile_fields cat ctx g obj fs (dict_set f plan acc) ds1 = Inr (d, ds')"
      by (auto simp: rbind_Inr_iff)
    note ok = compile_field_mapping_ok [OF p]
    have "fields_ok cat (dict_set f plan acc)"
      using Cons.prems(2) ok by (auto simp: fields_ok_def dict_ok_set map_of_dict_set)
    note ih = Cons.IH [OF rest this]
    have "fields_typed acc \<Longrightarrow> typed_chain None (fm_transforms plan) \<Longrightarrow> fields_typed (dict_set f plan acc)"
      by (simp add: fields_typed_def map_of_dict_set)
    with ih ok show ?thesis by (auto simp: set_dict_keys_set)
  qed
qed

section \<open>Columns\<close>

lemma check_order_clean:
  "check_order known i fs seen ds = (seen', ds') \<Longrightarrow> clean ds' \<Longrightarrow>
     clean ds \<and> set fs \<subseteq> set known \<and> distinct fs \<and> set fs \<inter> dom (map_of seen) = {}
     \<and> dom (map_of seen') = dom (map_of seen) \<union> set fs"
proof (induction fs arbitrary: i seen ds)
  case Nil
  then show ?case by simp
next
  case (Cons f fs)
  show ?case
  proof (cases "map_of seen f")
    case None
    from Cons.prems(1) None obtain ds1 where
      rest: "check_order known (Suc i) fs (dict_set f i seen) ds1 = (seen', ds')"
      and ds1: "clean ds1 \<longrightarrow> clean ds \<and> f \<in> set known"
      by (auto simp: Let_def split: if_splits)
    from Cons.IH [OF rest Cons.prems(2)] ds1 None show ?thesis
      by (auto simp: map_of_dict_set dom_def split: if_splits)
  next
    case (Some j)
    with Cons.prems Cons.IH show ?thesis by (fastforce simp: Let_def)
  qed
qed

lemma check_missing_clean:
  "clean (check_missing seen fs ds) \<Longrightarrow> clean ds \<and> set fs \<subseteq> dom (map_of seen)"
proof (induction fs arbitrary: ds)
  case (Cons f fs)
  then show ?case by (cases "map_of seen f") fastforce+
qed simp

lemma compile_output_order_clean:
  assumes "compile_output_order kind section known ds = (order, ds')" "clean ds'"
  shows "clean ds \<and> (kind = CsvRow \<longrightarrow>
    (\<exists>cols. order = Some cols \<and> distinct cols \<and> set cols = set known))"
proof (cases "kind = CsvRow")
  case False
  with assms show ?thesis by (simp add: compile_output_order_def)
next
  case True
  with assms obtain cols where cols: "str_list (dget section ''output_order'') = Some cols"
    by (auto simp: compile_output_order_def split: option.splits)
  obtain seen ds1 where s: "check_order known 0 cols [] ds = (seen, ds1)" by (metis prod.exhaust)
  have o: "order = Some cols" "ds' = check_missing seen (sort (remdups known)) ds1"
    using assms(1) True cols s by (auto simp: compile_output_order_def)
  with assms(2) have "clean ds1 \<and> set known \<subseteq> dom (map_of seen)"
    using check_missing_clean [of seen "sort (remdups known)" ds1] by simp
  with check_order_clean [OF s] o show ?thesis by auto
qed

lemma read_flag_path_clean: "read_flag_path c k d ds = (r, ds') \<Longrightarrow> clean ds' \<Longrightarrow> clean ds"
  by (auto simp: read_flag_path_def split: pyval.splits list.splits)

lemma read_delete_tombstone_clean:
  "read_delete_tombstone_settings section ds = (r, ds') \<Longrightarrow> clean ds' \<Longrightarrow> clean ds"
  by (auto simp: read_delete_tombstone_settings_def Let_def
      split: pyval.splits prod.splits dest!: read_flag_path_clean)

section \<open>The mapping plan\<close>

definition mapping_plan_ok :: "ext_catalog \<Rightarrow> mapping_plan \<Rightarrow> bool" where
  "mapping_plan_ok cat p \<longleftrightarrow> fields_ok cat (mp_fields p) \<and> fields_typed (mp_fields p)
     \<and> (mp_output_kind p = CsvRow \<longrightarrow>
          (\<exists>cols. mp_output_order p = Some cols \<and> distinct cols \<and> set cols = dom (map_of (mp_fields p))))"

lemma read_global_presence_clean: "read_global_presence s ds = (r, ds') \<Longrightarrow> clean ds' \<Longrightarrow> clean ds"
  by (auto simp: read_global_presence_def Let_def split: option.splits if_splits)

lemma finish_mapping_clean:
  assumes "finish_mapping sect kind d ds = (plan, ds')" "clean ds'"
  shows "clean ds \<and> mp_fields plan = d \<and> (mp_output_kind plan = CsvRow \<longrightarrow>
    (\<exists>cols. mp_output_order plan = Some cols \<and> distinct cols \<and> set cols = dom (map_of d)))"
proof -
  obtain order ds1 where o: "compile_output_order kind sect (dict_keys d) ds = (order, ds1)"
    by (metis prod.exhaust)
  obtain en fl idf ds2 where t: "read_delete_tombstone_settings sect ds1 = ((en, fl, idf), ds2)"
    by (metis prod.exhaust)
  have plan: "plan = \<lparr>mp_output_kind = kind, mp_output_order = order, mp_fields = d,
      mp_tombstone_enabled = en, mp_tombstone_flag_path = fl, mp_tombstone_id_field = idf\<rparr>" "ds2 = ds'"
    using assms(1) o t by (simp_all add: finish_mapping_def)
  have "clean ds1" using read_delete_tombstone_clean [OF t] plan(2) assms(2) by simp
  from compile_output_order_clean [OF o this] show ?thesis by (simp add: plan set_dict_keys)
qed

lemma compile_mapping_clean:
  assumes "compile_mapping doc cat ctx ds = Inr (plan, ds')" "clean ds'"
  shows "clean ds \<and> mapping_plan_ok cat plan"
proof -
  from assms obtain sect where sect: "dget doc ''mapping'' = PyDict sect"
    by (auto simp: compile_mapping_def split: option.splits)
  obtain g ds1 where g: "read_global_presence sect ds = (g, ds1)" by (metis prod.exhaust)
  obtain kind ds2 where kind: "(case output_kind_of (dget sect ''output_kind'') of
      Some k \<Rightarrow> (k, ds1) | None \<Rightarrow> (JsonObject, add_error ds1 ''COMPILER_MAPPING_OUTPUT_KIND_INVALID''
        ''mapping.output_kind'' ''mapping.output_kind must be one of: csv_row, json_object.'')) = (kind, ds2)"
    by (metis prod.exhaust)
  obtain obj ds3 where obj: "(case as_mapping (dget sect ''fields'') of
      Some d \<Rightarrow> (d, ds2) | None \<Rightarrow> ([], add_error ds2 ''COMPILER_MAPPING_FIELDS_INVALID''
        ''mapping.fields'' ''mapping.fields must be an object.'')) = (obj, ds3)"
    by (metis prod.exhaust)
  from assms(1) sect g kind obj obtain d ds4 where
    f: "compile_fields cat ctx g obj (sort (dict_keys obj)) [] ds3 = Inr (d, ds4)"
    and fin: "finish_mapping sect kind d ds4 = (plan, ds')"
    by (auto simp: compile_mapping_def rbind_Inr_iff Let_def)
  note cols = finish_mapping_clean [OF fin assms(2)]
  have "fields_ok cat []" "fields_typed []" by (simp_all add: fields_ok_def fields_typed_def)
  with compile_fields_ok [OF f] cols
  have fok: "fields_ok cat d" "clean ds3" "fields_typed d" by auto
  have "clean ds2" using obj fok(2) by (auto split: option.splits)
  then have "clean ds1" using kind by (auto split: option.splits)
  then have "clean ds" by (rule read_global_presence_clean [OF g])
  with fok cols show ?thesis by (simp add: mapping_plan_ok_def)
qed

section \<open>The validation plan\<close>

definition rule_ok :: "ext_catalog \<Rightarrow> validation_rule_plan \<Rightarrow> bool" where
  "rule_ok cat r \<longleftrightarrow> rp_module_id r \<in> set validation_module_allowlist
     \<and> (\<exists>spec. get_validation_module cat (rp_module_id r) = Inr spec
          \<and> rp_expected_value_type r = to_plan_type_id (ts_type_id (vm_value_type spec)))"

definition rule_typed :: "string list \<Rightarrow> (string, type_id option) odict \<Rightarrow> validation_rule_plan \<Rightarrow> bool" where
  "rule_typed known types r \<longleftrightarrow>
     (case rp_applies_to_field r of None \<Rightarrow> True
      | Some f \<Rightarrow> f \<in> set known
          \<and> (\<forall>ft t. map_of types f = Some (Some ft) \<and> rp_expected_value_type r = Some t \<longrightarrow> ft = t))"

lemma link_validation_module_cases:
  "link_validation_module cat m p ds = ((ok, t), ds') \<Longrightarrow>
     (if ok then ds' = ds \<and> m \<in> set validation_module_allowlist
        \<and> (\<exists>spec. get_validation_module cat m = Inr spec \<and> t = to_plan_type_id (ts_type_id (vm_value_type spec)))
      else \<not> clean ds')"
  by (auto simp: link_validation_module_def try_get_validation_module_def Let_def
      split: if_splits sum.splits)

lemma check_field_semantics_clean:
  "clean (check_field_semantics applies known types t m p ds) \<Longrightarrow>
     clean ds \<and> (case applies of None \<Rightarrow> True
      | Some f \<Rightarrow> f \<in> set known
          \<and> (\<forall>ft e. map_of types f = Some (Some ft) \<and> t = Some e \<longrightarrow> ft = e))"
  by (auto simp: check_field_semantics_def is_validation_type_mismatch_def Let_def
      split: option.splits if_splits)

lemma compile_rule_ok:
  assumes "compile_rule cat known types ir st ds = (st', ds')"
  shows "((\<forall>r \<in> set (rs_rules st). rule_ok cat r) \<longrightarrow> (\<forall>r \<in> set (rs_rules st'). rule_ok cat r))
    \<and> (clean ds' \<longrightarrow> clean ds \<and>
        ((\<forall>r \<in> set (rs_rules st). rule_typed known types r) \<longrightarrow> (\<forall>r \<in> set (rs_rules st'). rule_typed known types r)))"
proof -
  obtain index rule_obj where ir: "ir = (index, rule_obj)" by (metis prod.exhaust)
  let ?p = "''validation.rules['' @ nat_str index @ '']''"
  show ?thesis
  proof (cases "\<exists>rule. rule_obj = PyDict rule \<and> str_or_empty (dget rule ''module_id'') \<noteq> []")
    case False
    then have "st' = st" "\<not> clean ds'"
      using assms ir by (auto simp: compile_rule_def Let_def split: option.splits if_splits)
    then show ?thesis by simp
  next
    case True
    then obtain rule where rule: "rule_obj = PyDict rule" "str_or_empty (dget rule ''module_id'') \<noteq> []"
      by blast
    let ?m = "str_or_empty (dget rule ''module_id'')"
    let ?applies = "as_str (dget (sub_mapping rule ''applies_to'') ''field'')"
    obtain ok t ds1 where l: "link_validation_module cat ?m ?p ds = ((ok, t), ds1)" by (metis prod.exhaust)
    note lc = link_validation_module_cases [OF l]
    show ?thesis
    proof (cases ok)
      case False
      then have "st' = st" "ds' = ds1"
        using assms ir rule l by (auto simp: compile_rule_def Let_def)
      with lc False show ?thesis by simp
    next
      case True
      let ?ds2 = "check_field_semantics ?applies known types t ?m ?p ds1"
      from True obtain r where r: "rs_rules st' = rs_rules st @ [r]" "rp_module_id r = ?m"
        "rp_applies_to_field r = ?applies" "rp_expected_value_type r = t" and d: "clean ds' \<longrightarrow> clean ?ds2"
        using assms ir rule l
        by (cases "as_mapping (dget_or rule ''config'' (PyDict []))")
          (auto simp: compile_rule_def Let_def)
      have "rule_ok cat r" using lc True r by (simp add: rule_ok_def)
      moreover have "clean ds' \<Longrightarrow> clean ds \<and> rule_typed known types r"
        using d check_field_semantics_clean [of ?applies known types t ?m ?p ds1] lc True r
        by (auto simp: rule_typed_def split: option.splits)
      ultimately show ?thesis using r(1) by auto
    qed
  qed
qed

lemma compile_rules_ok:
  "compile_rules cat known types irs st ds = (st', ds') \<Longrightarrow>
    ((\<forall>r \<in> set (rs_rules st). rule_ok cat r) \<longrightarrow> (\<forall>r \<in> set (rs_rules st'). rule_ok cat r))
    \<and> (clean ds' \<longrightarrow> clean ds \<and>
        ((\<forall>r \<in> set (rs_rules st). rule_typed known types r) \<longrightarrow> (\<forall>r \<in> set (rs_rules st'). rule_typed known types r)))"
proof (induction irs arbitrary: st ds)
  case Nil
  then show ?case by simp
next
  case (Cons ir irs)
  obtain st1 ds1 where s: "compile_rule cat known types ir st ds = (st1, ds1)" by (metis prod.exhaust)
  with Cons.prems have rest: "compile_rules cat known types irs st1 ds1 = (st', ds')" by simp
  from compile_rule_ok [OF s] Cons.IH [OF rest] show ?case by blast
qed

lemma compile_validation_ok:
  assumes "compile_validation doc known types cat ds = ((plan, req), ds')"
  shows "(\<forall>r \<in> set (vp_rules plan). rule_ok cat r)
    \<and> (clean ds' \<longrightarrow> clean ds \<and> (\<forall>r \<in> set (vp_rules plan). rule_typed known types r))"
proof (cases "\<exists>section rules. dget doc ''validation'' = PyDict section \<and> dget_or section ''rules'' (PyList []) = PyList rules")
  case False
  with assms show ?thesis
    by (auto simp: compile_validation_def split: option.splits pyval.splits)
next
  case True
  then obtain sect rules where s: "dget doc ''validation'' = PyDict sect"
    "dget_or sect ''rules'' (PyList []) = PyList rules" by blast
  obtain st ds1 where c: "compile_rules cat known types (ordered_rules rules)
      \<lparr>rs_rules = [], rs_required = []\<rparr> ds = (st, ds1)" by (metis prod.exhaust)
  from compile_rules_ok [OF c] assms s c show ?thesis by (auto simp: compile_validation_def)
qed

section \<open>Cross-checks\<close>

lemma check_profiles_clean:
  "clean (check_profiles f sources ps ds) \<Longrightarrow> clean ds \<and> ps = []"
proof (induction ps arbitrary: ds)
  case (Cons p ps)
  from Cons.IH [OF Cons.prems [unfolded check_profiles.simps]] show ?case by simp
qed simp

lemma check_contradictions_clean:
  "clean (check_contradictions presences req fs ds) \<Longrightarrow>
     clean ds \<and> (\<forall>f \<in> set fs. \<forall>p. map_of presences f = Some p \<and> fp_behavior p = OmitMissing \<longrightarrow>
        the (map_of req f) = [])"
proof (induction fs arbitrary: ds)
  case Nil
  then show ?case by simp
next
  case (Cons f fs)
  let ?ds = "case map_of presences f of None \<Rightarrow> ds
      | Some p \<Rightarrow> if fp_behavior p = OmitMissing
          then check_profiles f (the (map_of req f)) (sort (dict_keys (the (map_of req f)))) ds else ds"
  note ih = Cons.IH [OF Cons.prems [unfolded check_contradictions.simps Let_def]]
  have sorted_Nil: "sort (dict_keys d) = [] \<longleftrightarrow> d = []" for d :: "(string, string) odict"
    by (metis dict_keys_def length_0_conv length_map length_sort)
  have "clean ds \<and> (\<forall>p. map_of presences f = Some p \<and> fp_behavior p = OmitMissing \<longrightarrow>
      the (map_of req f) = [])"
  proof (cases "\<exists>p. map_of presences f = Some p \<and> fp_behavior p = OmitMissing")
    case True
    with ih have "clean (check_profiles f (the (map_of req f)) (sort (dict_keys (the (map_of req f)))) ds)"
      by auto
    from check_profiles_clean [OF this] show ?thesis by (simp add: sorted_Nil)
  next
    case False
    with ih show ?thesis by (auto split: option.splits if_splits)
  qed
  with ih show ?case by auto
qed

lemma compile_writer_spec_clean: "compile_writer_spec doc ds = (w, ds') \<Longrightarrow> clean ds' \<Longrightarrow> clean ds"
proof -
  have rs: "read_str d k p ds = (r, ds') \<Longrightarrow> clean ds' \<Longrightarrow> clean ds" for d k p ds r ds'
    by (auto simp: read_str_def split: pyval.splits)
  show "compile_writer_spec doc ds = (w, ds') \<Longrightarrow> clean ds' \<Longrightarrow> clean ds"
    by (auto simp: compile_writer_spec_def Let_def split: option.splits prod.splits dest!: rs)
qed

section \<open>Required fields\<close>

lemma foldl_dict_set_ne: "ps \<noteq> [] \<Longrightarrow> foldl (\<lambda>s p. dict_set p v s) d ps \<noteq> []"
proof (induction ps rule: rev_induct)
  case (snoc p ps)
  then show ?case by (cases "foldl (\<lambda>s p. dict_set p v s) d ps") auto
qed simp

definition required_covered :: "rule_state \<Rightarrow> bool" where
  "required_covered st \<longleftrightarrow> (\<forall>r \<in> set (rs_rules st). \<forall>f.
     rp_module_id r = ''required_if_profile'' \<and> rp_applies_to_field r = Some f \<longrightarrow>
       (\<exists>s. map_of (rs_required st) f = Some s \<and> s \<noteq> []))"

lemma update_required_sources_covers:
  "map_of req f = Some s \<Longrightarrow> s \<noteq> [] \<Longrightarrow>
     \<exists>s'. map_of (update_required_sources applies m p filters req) f = Some s' \<and> s' \<noteq> []"
  "m = ''required_if_profile'' \<Longrightarrow>
     \<exists>s'. map_of (update_required_sources (Some f) m p filters req) f = Some s' \<and> s' \<noteq> []"
  by (auto simp: update_required_sources_def map_of_dict_set Let_def canonical_artifact_profiles_def
      foldl_dict_set_ne split: option.splits)

lemma compile_rule_covered:
  assumes "compile_rule cat known types ir st ds = (st', ds')" "required_covered st"
  shows "required_covered st'"
proof (cases "st' = st")
  case True
  with assms show ?thesis by simp
next
  case False
  obtain index rule_obj where ir: "ir = (index, rule_obj)" by (metis prod.exhaust)
  from False assms(1) ir obtain r applies m p filters where
    "rs_rules st' = rs_rules st @ [r]" "rp_module_id r = m" "rp_applies_to_field r = applies"
    "rs_required st' = update_required_sources applies m p filters (rs_required st)"
    by (auto simp: compile_rule_def Let_def split: option.splits if_splits prod.splits bool.splits)
  then show ?thesis
    using assms(2) update_required_sources_covers
    by (fastforce simp: required_covered_def)
qed

lemma compile_rules_covered:
  "compile_rules cat known types irs st ds = (st', ds') \<Longrightarrow> required_covered st \<Longrightarrow> required_covered st'"
proof (induction irs arbitrary: st ds)
  case (Cons ir irs)
  obtain st1 ds1 where s: "compile_rule cat known types ir st ds = (st1, ds1)" by (metis prod.exhaust)
  with Cons.prems(1) have "compile_rules cat known types irs st1 ds1 = (st', ds')" by simp
  with compile_rule_covered [OF s Cons.prems(2)] Cons.IH show ?case by blast
qed simp

lemma compile_validation_covered:
  assumes "compile_validation doc known types cat ds = ((plan, req), ds')"
    and "r \<in> set (vp_rules plan)" "rp_module_id r = ''required_if_profile''" "rp_applies_to_field r = Some f"
  shows "\<exists>s. map_of req f = Some s \<and> s \<noteq> []"
proof -
  from assms(1,2) obtain sect rules st ds1 where
    c: "compile_rules cat known types (ordered_rules rules) \<lparr>rs_rules = [], rs_required = []\<rparr> ds = (st, ds1)"
    and "plan = \<lparr>vp_rules = rs_rules st\<rparr>" "req = rs_required st"
    by (auto simp: compile_validation_def split: option.splits pyval.splits prod.splits)
  moreover have "required_covered \<lparr>rs_rules = [], rs_required = []\<rparr>" by (simp add: required_covered_def)
  ultimately show ?thesis
    using compile_rules_covered [OF c] assms(2-4) by (auto simp: required_covered_def)
qed

section \<open>Runs of a compiled plan\<close>

lemma apply_transform_codes:
  "call_ok cat oc \<Longrightarrow> i \<in> set (snd (apply_transform cat v oc fp n [])) \<Longrightarrow>
     ei_code i \<in> {''EXEC_MAPPING_ON_MISSING_DEFAULT_REQUIRED'', ''EXEC_MAPPING_MISSING_ERROR'',
       ''EXEC_MAPPING_OP_FAILED''}"
  by (auto simp: call_ok_def apply_transform_def Let_def issue_def
      split: if_splits sum.splits option.splits on_missing.splits)

definition field_codes :: "string set" where
  "field_codes = {''EXEC_MAPPING_ON_MISSING_DEFAULT_REQUIRED'', ''EXEC_MAPPING_MISSING_ERROR'',
     ''EXEC_MAPPING_OP_FAILED'', ''EXEC_MAPPING_PRESENCE_ERROR''}"

lemma run_transforms_codes:
  "\<forall>oc \<in> set ocs. call_ok cat oc \<Longrightarrow> i \<in> set (snd (run_transforms cat fp n ocs v [])) \<Longrightarrow>
     ei_code i \<in> field_codes"
proof (induction ocs arbitrary: n v)
  case Nil
  then show ?case by simp
next
  case (Cons oc ocs)
  obtain w stop iss where a: "apply_transform cat v oc fp n [] = ((w, stop), iss)" by (metis prod.exhaust)
  then have here: "j \<in> set iss \<Longrightarrow> ei_code j \<in> field_codes" for j
    using apply_transform_codes [of cat oc j v fp n] Cons.prems(1) by (auto simp: field_codes_def)
  show ?case
  proof (cases stop)
    case True
    with a here Cons.prems(2) show ?thesis by simp
  next
    case False
    have "run_transforms cat fp (Suc n) ocs w iss =
        (fst (run_transforms cat fp (Suc n) ocs w []), iss @ snd (run_transforms cat fp (Suc n) ocs w []))"
      by (rule run_transforms_appends)
    with False a here Cons show ?thesis by (auto dest: arg_cong [where f = snd])
  qed
qed

lemma execute_field_codes:
  assumes "field_ok cat f fp" "i \<in> set (snd (execute_field cat fp rec []))"
  shows "ei_code i \<in> field_codes"
proof -
  obtain w iss where r: "run_transforms cat fp 0 (fm_transforms fp)
      (extract_by_source_path rec (fm_source_path fp)) [] = (w, iss)" by (metis prod.exhaust)
  have "i \<in> set iss \<or> i \<in> set (snd (apply_presence w fp []))"
    using assms(2) r apply_presence_appends [of w fp iss]
    by (auto simp: execute_field_def dest: arg_cong [where f = snd])
  moreover have "i \<in> set (snd (apply_presence w fp [])) \<Longrightarrow> ei_code i \<in> field_codes"
    by (auto simp: apply_presence_def issue_def field_codes_def
        split: pyval.splits emission_semantics.splits)
  ultimately show ?thesis
    using run_transforms_codes [of "fm_transforms fp" cat i fp 0
        "extract_by_source_path rec (fm_source_path fp)"] assms(1) r
    by (auto simp: field_ok_def)
qed

text \<open>The only issues a run of a well-formed plan can report.\<close>

lemma valid_plan_codes:
  assumes "mapping_plan_ok cat p" "i \<in> set (mr_issues (mapping_run_one cat p rec profile))"
  shows "ei_code i \<in> insert ''CONTRACT.DELETE_UNSUPPORTED'' field_codes"
proof (cases "mp_output_kind p")
  case JsonObject
  with assms(2) obtain f where f: "f \<in> set (dict_keys (mp_fields p))"
    and i: "i \<in> set (snd (object_cell cat p rec f []))"
    by (auto simp: mapping_run_one_def obj.collect_eq issue_sort.srt_set)
  then obtain fp where fp: "map_of (mp_fields p) f = Some fp" by (auto simp: set_dict_keys)
  then have "field_ok cat f fp" using assms(1) by (simp add: mapping_plan_ok_def fields_ok_def)
  from execute_field_codes [OF this, of i rec] i fp show ?thesis
    by (auto simp: object_cell_def split: prod.splits)
next
  case CsvRow
  then obtain cols where cols: "mp_output_order p = Some cols" "set cols = dom (map_of (mp_fields p))"
    using assms(1) by (auto simp: mapping_plan_ok_def)
  let ?tomb = "should_project_delete_tombstone p rec profile"
  from assms(2) CsvRow cols(1) have
    "(\<exists>j. detect_delete_unsupported p rec profile = Some j \<and> i = j)
     \<or> (\<exists>f \<in> set cols. i \<in> set (snd (csv_cell cat p rec ?tomb f [])))"
    by (auto simp: mapping_run_one_def ordered_csv_fields_def csv.collect_eq issue_sort.srt_set
        Let_def split: option.splits)
  then show ?thesis
  proof
    assume "\<exists>j. detect_delete_unsupported p rec profile = Some j \<and> i = j"
    then show ?thesis by (auto simp: detect_delete_unsupported_def issue_def split: if_splits)
  next
    assume "\<exists>f \<in> set cols. i \<in> set (snd (csv_cell cat p rec ?tomb f []))"
    then obtain f fp where "i \<in> set (snd (csv_cell cat p rec ?tomb f []))"
      and fp: "map_of (mp_fields p) f = Some fp" using cols(2) by auto
    moreover have "field_ok cat f fp" using assms(1) fp by (simp add: mapping_plan_ok_def fields_ok_def)
    ultimately show ?thesis
      using execute_field_codes [of cat f fp i rec] by (auto simp: csv_cell_def split: if_splits)
  qed
qed

section \<open>Final types\<close>

text \<open>
  The chains the type inference covers: a default put in for a missing value has any type, and
  the operations of \<open>untyped_ops\<close> return something else than they declare.
\<close>

definition inferable :: "mapping_op_call \<Rightarrow> bool" where
  "inferable oc \<longleftrightarrow> oc_on_missing oc \<noteq> Some MissDefault \<and> oc_op_id oc \<notin> set untyped_ops"

lemma to_plan_type_id_any: "to_plan_type_id s = Some t \<Longrightarrow> s = type_name t"
  by (simp add: to_plan_type_id_Some)

lemma apply_transform_conforms:
  assumes "build_builtin_catalog lib = Inr cat" "call_ok cat oc" "inferable oc"
    and "apply_transform cat v oc fp n iss = ((w, stop), iss')"
  shows "case oc_output_type oc of None \<Rightarrow> True | Some t \<Rightarrow> conforms w (type_name t)"
proof (cases "oc_output_type oc")
  case None
  then show ?thesis by simp
next
  case (Some t)
  obtain spec where spec: "get_mapping_op cat (oc_op_id oc) = Inr spec"
    "ts_type_id (op_output_type spec) = type_name t"
    using assms(2) Some by (metis call_ok_def to_plan_type_id_any)
  have "op_call spec v a = Inr u \<Longrightarrow> conforms u (type_name t)" for a u
    using registry_ops_typed [OF builtin_catalog_get [OF assms(1) spec(1)]] assms(3) spec(2)
    by (simp add: inferable_def)
  then show ?thesis
    using assms(3,4) spec(1) Some
    by (auto simp: apply_transform_def inferable_def Let_def
        split: if_splits sum.splits option.splits on_missing.splits)
qed

lemma run_transforms_conforms:
  assumes "build_builtin_catalog lib = Inr cat"
  shows "\<forall>oc \<in> set ocs. call_ok cat oc \<and> inferable oc \<Longrightarrow> ocs \<noteq> [] \<Longrightarrow>
    final_type t0 ocs = Some t \<Longrightarrow> conforms (fst (run_transforms cat fp n ocs v iss)) (type_name t)"
proof (induction ocs arbitrary: n v iss t0)
  case Nil
  then show ?case by simp
next
  case (Cons oc ocs)
  obtain w stop iss' where a: "apply_transform cat v oc fp n iss = ((w, stop), iss')" by (metis prod.exhaust)
  have missing: "stop \<Longrightarrow> w = PyMissing"
    using a by (auto simp: apply_transform_def Let_def split: if_splits sum.splits option.splits on_missing.splits)
  show ?case
  proof (cases "stop \<or> ocs \<noteq> []")
    case True
    with a missing Cons show ?thesis by auto
  next
    case False
    with a Cons.prems apply_transform_conforms [OF assms _ _ a] show ?thesis by auto
  qed
qed

lemma compile_schema_mapping_ok:
  assumes "compile_schema cat doc ctx = Inr cs" "cs_is_valid cs"
  shows "mapping_plan_ok cat (cs_mapping_plan cs)"
proof -
  obtain w ds1 where w: "compile_writer_spec doc [] = (w, ds1)" by (metis prod.exhaust)
  from assms(1) w obtain mplan ds2 where m: "compile_mapping doc cat ctx ds1 = Inr (mplan, ds2)"
    by (auto simp: compile_schema_def rbind_Inr_iff)
  obtain vplan req ds3 where v: "compile_validation doc (dict_keys (mp_fields mplan))
      (field_final_types mplan) cat ds2 = ((vplan, req), ds3)" by (metis prod.exhaust)
  let ?ds4 = "check_presence_required_contradictions (field_presences mplan) req ds3"
  have cs: "cs_mapping_plan cs = mplan" "clean (sort_compile_diagnostics ?ds4)"
    using assms w m v by (auto simp: compile_schema_def rbind_Inr_iff Let_def clean_def)
  then have "clean ds3"
    using check_contradictions_clean [of "field_presences mplan" req "sort (dict_keys req)" ds3]
    by (simp add: clean_sort check_presence_required_contradictions_def)
  with compile_validation_ok [OF v] compile_mapping_clean [OF m] show ?thesis by (simp add: cs)
qed

section \<open>A sample schema\<close>

definition sample_doc :: dict where
  "sample_doc =
     [(''header'', PyDict [(''artifact_profile'', PyStr ''catalog_snapshot'')]),
      (''mapping'', PyDict [(''output_kind'', PyStr ''csv_row''), (''output_order'', PyList [PyStr ''title'']),
         (''fields'', PyDict [(''title'', PyDict [(''source'', PyDict [(''path'', PyStr ''product.name'')]),
            (''transforms'', PyList [PyDict [(''op'', PyStr ''trim'')]])])])]),
      (''validation'', PyDict [(''rules'', PyList [PyDict [(''module_id'', PyStr ''required''),
         (''applies_to'', PyDict [(''field'', PyStr ''title'')])]])]),
      (''output'', PyDict [(''writer_id'', PyStr ''csv''), (''artifact'',
         PyDict [(''content_type'', PyStr ''text/csv''), (''file_extension'', PyStr ''csv'')])])]"

definition sample_call :: mapping_op_call where
  "sample_call = \<lparr>oc_op_id = ''trim'', oc_args = None, oc_on_missing = None,
     oc_input_type = Some TString, oc_output_type = Some TString\<rparr>"

definition sample_field :: field_mapping_plan where
  "sample_field = \<lparr>fm_field_id = ''title'', fm_source_path = ''product.name'', fm_transforms = [sample_call],
     fm_presence = \<lparr>fp_behavior = OmitMissing\<rparr>, fm_final_type = Some TString, fm_required_source = False\<rparr>"

definition sample_compiled :: compiled_schema where
  "sample_compiled = \<lparr>cs_artifact_profile = ''catalog_snapshot'',
     cs_validation_plan = \<lparr>vp_rules = [\<lparr>rp_module_id = ''required'', rp_rule_id = None,
       rp_applies_to_field = Some ''title'', rp_config = [], rp_on_fail_code = None,
       rp_on_fail_message = None, rp_severity_hint = None, rp_expected_value_type = None\<rparr>]\<rparr>,
     cs_mapping_plan = \<lparr>mp_output_kind = CsvRow, mp_output_order = Some [''title''],
       mp_fields = [(''title'', sample_field)], mp_tombstone_enabled = False,
       mp_tombstone_flag_path = ''delete'', mp_tombstone_id_field = ''id''\<rparr>,
     cs_writer_spec = \<lparr>ws_writer_id = ''csv'', ws_content_type = ''text/csv'', ws_file_extension = ''csv'',
       ws_config = []\<rparr>,
     cs_diagnostics = [], cs_is_valid = True\<rparr>"

lemma builtin_get:
  assumes "build_builtin_catalog lib = Inr cat"
  shows "map_of (mapping_op_registry lib) k = Some s \<Longrightarrow> get_mapping_op cat k = Inr s"
    and "map_of validation_module_registry m = Some v \<Longrightarrow> get_validation_module cat m = Inr v"
  using build_builtin_catalog_facts [of lib] assms
  by (auto simp: get_mapping_op_def get_validation_module_def)

lemma plan_type_ids [simp]:
  "to_plan_type_id ''string'' = Some TString" "to_plan_type_id ''any'' = None"
  by (simp_all add: to_plan_type_id_def allowed_type_ids_def)

lemma sample_field_compiles:
  assumes "get_mapping_op cat ''trim'' = Inr trim_spec"
  shows "compile_field_mapping cat ctx OmitMissing ''title''
      [(''source'', PyDict [(''path'', PyStr ''product.name'')]),
       (''transforms'', PyList [PyDict [(''op'', PyStr ''trim'')]])] [] = Inr (sample_field, [])"
proof -
  have allow: "''trim'' \<in> set mapping_op_allowlist" by (simp add: mapping_op_allowlist_def)
  show ?thesis
    using assms allow
    by (simp add: compile_field_mapping_def compile_source_def compile_field_presence_def
        read_transforms_def compile_transform_def Let_def try_get_mapping_op_def read_args_def
        read_on_missing_def link_transform_def resolve_args_def trim_spec_def str_op_spec_def
        is_type_mismatch_def sample_field_def sample_call_def del: set_simps)
qed

lemma sample_mapping_compiles:
  assumes "get_mapping_op cat ''trim'' = Inr trim_spec"
  shows "compile_mapping sample_doc cat ctx [] = Inr (cs_mapping_plan sample_compiled, [])"
proof -
  have "presence_of (PyStr ''omit_missing'') = Some OmitMissing"
    by (simp add: presence_of_def allowed_presence_def)
  then show ?thesis
    using sample_field_compiles [OF assms]
    by (simp add: compile_mapping_def sample_doc_def read_global_presence_def output_kind_of_def
        dict_keys_def Let_def finish_mapping_def compile_output_order_def str_list_def
        read_delete_tombstone_settings_def sample_compiled_def)
qed

lemma sample_validation_compiles:
  assumes "get_validation_module cat ''required'' = Inr required_spec"
  shows "compile_validation sample_doc [''title''] [(''title'', Some TString)] cat [] =
    ((cs_validation_plan sample_compiled, []), [])"
proof -
  have "''required'' \<in> set validation_module_allowlist" by (simp add: validation_module_allowlist_def)
  then show ?thesis
    using assms
    by (simp add: compile_validation_def sample_doc_def ordered_rules_def sort_rules_def
        compile_rule_def link_validation_module_def try_get_validation_module_def required_spec_def
        str_or_empty_def sub_mapping_def check_field_semantics_def update_required_sources_def
        Let_def sample_compiled_def)
qed

lemma sample_compiles:
  assumes "build_builtin_catalog lib = Inr cat"
  shows "compile_schema cat sample_doc ctx = Inr sample_compiled"
proof -
  have ops: "get_mapping_op cat ''trim'' = Inr trim_spec"
    "get_validation_module cat ''required'' = Inr required_spec"
    by (rule builtin_get [OF assms]; simp add: mapping_op_registry_def validation_module_registry_def)+
  have w: "compile_writer_spec sample_doc [] = (cs_writer_spec sample_compiled, [])"
    by (simp add: compile_writer_spec_def sample_doc_def read_str_def Let_def sample_compiled_def)
  have p: "dict_keys (mp_fields (cs_mapping_plan sample_compiled)) = [''title'']"
    "field_final_types (cs_mapping_plan sample_compiled) = [(''title'', Some TString)]"
    by (simp_all add: sample_compiled_def dict_keys_def field_final_types_def sample_field_def)
  have h: "read_header_profile sample_doc = Inr ''catalog_snapshot''"
    by (simp add: read_header_profile_def sample_doc_def)
  show ?thesis
    using sample_mapping_compiles [OF ops(1)] sample_validation_compiles [OF ops(2)]
    by (simp add: compile_schema_def w p h Let_def check_presence_required_contradictions_def
        dict_keys_def sort_compile_diagnostics_def)
      (simp add: sample_compiled_def)
qed

section \<open>Properties\<close>

text \<open>
  C1: a schema that compiles as valid yields a well-formed plan.  Every transform names an
  allowed operation that is in the catalog, known output types meet known input types along
  every chain, the columns of a CSV plan are its fields, each once, every validation rule names
  an allowed module that is in the catalog and, when it applies to a field, a field of the
  plan of the type the module expects, and no field under a \<open>required_if_profile\<close> rule may be
  omitted when missing (the compiler does not ask this of the plain \<open>required\<close> module).
\<close>

theorem valid_schema_plan:
  assumes "compile_schema cat doc ctx = Inr cs" "cs_is_valid cs"
  shows "mapping_plan_ok cat (cs_mapping_plan cs)
    \<and> (\<forall>r \<in> set (vp_rules (cs_validation_plan cs)). rule_ok cat r
         \<and> rule_typed (dict_keys (mp_fields (cs_mapping_plan cs))) (field_final_types (cs_mapping_plan cs)) r)
    \<and> (\<forall>r \<in> set (vp_rules (cs_validation_plan cs)). \<forall>f fp.
         rp_module_id r = ''required_if_profile'' \<and> rp_applies_to_field r = Some f
         \<and> map_of (mp_fields (cs_mapping_plan cs)) f = Some fp \<longrightarrow>
           fp_behavior (fm_presence fp) \<noteq> OmitMissing)"
proof -
  obtain w ds1 where w: "compile_writer_spec doc [] = (w, ds1)" by (metis prod.exhaust)
  from assms(1) w obtain mplan ds2 where m: "compile_mapping doc cat ctx ds1 = Inr (mplan, ds2)"
    by (auto simp: compile_schema_def rbind_Inr_iff)
  let ?known = "dict_keys (mp_fields mplan)" and ?types = "field_final_types mplan"
  obtain vplan req ds3 where v: "compile_validation doc ?known ?types cat ds2 = ((vplan, req), ds3)"
    by (metis prod.exhaust)
  let ?ds4 = "check_presence_required_contradictions (field_presences mplan) req ds3"
  have cs: "cs_mapping_plan cs = mplan" "cs_validation_plan cs = vplan"
    "cs_is_valid cs \<longleftrightarrow> clean (sort_compile_diagnostics ?ds4)"
    using assms(1) w m v by (auto simp: compile_schema_def rbind_Inr_iff Let_def clean_def)
  then have "clean ?ds4" using assms(2) by (simp add: clean_sort)
  then have contr: "clean ds3" "\<forall>f \<in> set (dict_keys req). \<forall>p.
      map_of (field_presences mplan) f = Some p \<and> fp_behavior p = OmitMissing \<longrightarrow> the (map_of req f) = []"
    using check_contradictions_clean [of "field_presences mplan" req "sort (dict_keys req)" ds3]
    by (auto simp: check_presence_required_contradictions_def)
  note vok = compile_validation_ok [OF v]
  have mok: "mapping_plan_ok cat mplan" using compile_mapping_clean [OF m] vok contr(1) by blast
  have "fp_behavior (fm_presence fp) \<noteq> OmitMissing"
    if h: "r \<in> set (vp_rules vplan)" "rp_module_id r = ''required_if_profile''"
      "rp_applies_to_field r = Some f" "map_of (mp_fields mplan) f = Some fp" for r f fp
  proof -
    obtain s where s: "map_of req f = Some s" "s \<noteq> []"
      using compile_validation_covered [OF v h(1-3)] by blast
    have "map_of (field_presences mplan) f = Some (fm_presence fp)"
      using h(4) by (induction "mp_fields mplan") (auto simp: field_presences_def map_of_map)
    with contr(2) s show ?thesis by (auto simp: set_dict_keys)
  qed
  with mok vok contr(1) show ?thesis by (simp add: cs)
qed

lemma valid_schema_plan_witness:
  "\<exists>cat. build_builtin_catalog sample_lib = Inr cat \<and> cs_is_valid sample_compiled
     \<and> mapping_plan_ok cat (cs_mapping_plan sample_compiled)
     \<and> (\<forall>r \<in> set (vp_rules (cs_validation_plan sample_compiled)).
          rule_ok cat r \<and> rule_typed [''title''] [(''title'', Some TString)] r)"
proof -
  obtain cat where cat: "build_builtin_catalog sample_lib = Inr cat"
    using build_builtin_catalog_facts by blast
  have valid: "cs_is_valid sample_compiled" by (simp add: sample_compiled_def)
  have fields: "dict_keys (mp_fields (cs_mapping_plan sample_compiled)) = [''title'']"
    "field_final_types (cs_mapping_plan sample_compiled) = [(''title'', Some TString)]"
    by (simp_all add: sample_compiled_def dict_keys_def field_final_types_def sample_field_def)
  from valid_schema_plan [OF sample_compiles [OF cat] valid, unfolded fields] cat valid
  show ?thesis by blast
qed

text \<open>
  C2: once a schema has compiled as valid, the errors the executor keeps for broken plans
  cannot happen.  Whatever the record, a run of the plan reports no unknown operation, no
  column without a field and no missing column order; the issues left are a failing operation,
  a missing value the schema forbids, a missing default and an unsupported delete.
\<close>

theorem valid_schema_runs:
  assumes "compile_schema cat doc ctx = Inr cs" "cs_is_valid cs"
    and "i \<in> set (mr_issues (mapping_run_one cat (cs_mapping_plan cs) rec profile))"
  shows "ei_code i \<in> {''CONTRACT.DELETE_UNSUPPORTED'', ''EXEC_MAPPING_ON_MISSING_DEFAULT_REQUIRED'',
    ''EXEC_MAPPING_MISSING_ERROR'', ''EXEC_MAPPING_OP_FAILED'', ''EXEC_MAPPING_PRESENCE_ERROR''}"
proof -
  have "mapping_plan_ok cat (cs_mapping_plan cs)"
    using compile_schema_mapping_ok [OF assms(1,2)] .
  from valid_plan_codes [OF this assms(3)] show ?thesis by (simp add: field_codes_def)
qed

lemma valid_schema_runs_witness:
  "\<exists>cat i. i \<in> set (mr_issues (mapping_run_one cat (cs_mapping_plan sample_compiled)
        [(''product'', PyDict [(''name'', PyInt 3)])] []))
     \<and> ei_code i \<in> {''CONTRACT.DELETE_UNSUPPORTED'', ''EXEC_MAPPING_ON_MISSING_DEFAULT_REQUIRED'',
       ''EXEC_MAPPING_MISSING_ERROR'', ''EXEC_MAPPING_OP_FAILED'', ''EXEC_MAPPING_PRESENCE_ERROR''}"
proof -
  obtain cat where cat: "build_builtin_catalog sample_lib = Inr cat"
    using build_builtin_catalog_facts by blast
  have trim: "get_mapping_op cat ''trim'' = Inr trim_spec"
    by (rule builtin_get [OF cat]) (simp add: mapping_op_registry_def)
  have valid: "cs_is_valid sample_compiled" by (simp add: sample_compiled_def)
  let ?r = "[(''product'', PyDict [(''name'', PyInt 3)])]"
  have x: "extract_by_source_path ?r ''product.name'' = PyInt 3" "extract_by_source_path ?r ''delete'' = PyMissing"
    by (simp_all add: extract_by_source_path_def)
  have "op_call trim_spec (PyInt 3) [] = Inl ValueError"
    by (simp add: trim_spec_def str_op_spec_def op_trim_def str_op_def)
  then have "mr_issues (mapping_run_one cat (cs_mapping_plan sample_compiled) ?r []) \<noteq> []"
    using trim x
    by (simp add: mapping_run_one_def sample_compiled_def ordered_csv_fields_def
        detect_delete_unsupported_def is_delete_intent_def should_project_delete_tombstone_def
        csv_cell_def sample_field_def sample_call_def execute_field_def apply_transform_def
        apply_presence_def ordered_issues_def Let_def)
  then obtain i where "i \<in> set (mr_issues (mapping_run_one cat (cs_mapping_plan sample_compiled) ?r []))"
    by (rule that [OF hd_in_set])
  from this valid_schema_runs [OF sample_compiles [OF cat] valid this] show ?thesis by blast
qed

text \<open>
  C3: the final type the compiler infers for a field is sound for typed chains.  With the
  built-in catalog, a field whose transforms have no \<open>on_missing\<close> default and use none of the
  four operations that answer with an emission or with an argument as it is (\<open>untyped_ops\<close>) ends,
  whatever the record, in an absent value (missing or null) or a value of its final type,
  failures on the way included.
\<close>

theorem final_type_sound:
  assumes "build_builtin_catalog lib = Inr cat" "compile_schema cat doc ctx = Inr cs" "cs_is_valid cs"
    and "map_of (mp_fields (cs_mapping_plan cs)) f = Some fp" "fm_final_type fp = Some t"
    and "\<forall>oc \<in> set (fm_transforms fp). oc_on_missing oc \<noteq> Some MissDefault
           \<and> oc_op_id oc \<notin> set untyped_ops"
  shows "let w = fst (run_transforms cat fp 0 (fm_transforms fp)
                   (extract_by_source_path rec (fm_source_path fp)) [])
         in w = PyMissing \<or> w = PyNone \<or> matches_type w (type_name t)"
proof -
  have ok: "field_ok cat f fp"
    using compile_schema_mapping_ok [OF assms(2,3)] assms(4)
    by (simp add: mapping_plan_ok_def fields_ok_def)
  then have ft: "final_type None (fm_transforms fp) = Some t"
    using assms(5) by (simp add: field_ok_def)
  then have ne: "fm_transforms fp \<noteq> []" by auto
  have "\<forall>oc \<in> set (fm_transforms fp). call_ok cat oc \<and> inferable oc"
    using ok assms(6) by (auto simp: field_ok_def inferable_def)
  from run_transforms_conforms [OF assms(1) this ne ft] show ?thesis
    by (simp add: conforms_def absent_def Let_def)
qed

lemma final_type_sound_witness:
  "\<exists>cat. let w = fst (run_transforms cat sample_field 0 (fm_transforms sample_field)
                   (extract_by_source_path (sample_record PyNone) (fm_source_path sample_field)) [])
         in w = PyStr ''Lamp'' \<and> (w = PyMissing \<or> w = PyNone \<or> matches_type w (type_name TString))"
proof -
  obtain cat where cat: "build_builtin_catalog sample_lib = Inr cat"
    using build_builtin_catalog_facts by blast
  have valid: "cs_is_valid sample_compiled" by (simp add: sample_compiled_def)
  have f: "map_of (mp_fields (cs_mapping_plan sample_compiled)) ''title'' = Some sample_field"
    "fm_final_type sample_field = Some TString"
    "\<forall>oc \<in> set (fm_transforms sample_field). oc_on_missing oc \<noteq> Some MissDefault
       \<and> oc_op_id oc \<notin> set untyped_ops"
    by (simp_all add: sample_compiled_def sample_field_def sample_call_def untyped_ops_def)
  have "get_mapping_op cat ''trim'' = Inr trim_spec"
    by (rule builtin_get [OF cat]) (simp add: mapping_op_registry_def)
  moreover have "op_call trim_spec (PyStr '' Lamp '') [] = Inr (PyStr ''Lamp'')"
    by (simp add: trim_spec_def str_op_spec_def op_trim_def str_op_def, code_simp)
  ultimately have "fst (run_transforms cat sample_field 0 (fm_transforms sample_field)
      (extract_by_source_path (sample_record PyNone) (fm_source_path sample_field)) []) = PyStr ''Lamp''"
    by (simp add: sample_field_def sample_call_def sample_record_def extract_by_source_path_def
        apply_transform_def Let_def)
  with final_type_sound [OF cat sample_compiles [OF cat] valid f, of "sample_record PyNone"]
  show ?thesis unfolding Let_def by blast
qed

end
