(* ===== verification/PFP_Stream.thy ===== *)
theory PFP_Stream
  imports PFP_Prelude
begin

text \<open>
  Lazy generators.  The feed is produced by a chain of Python generators (source, producer,
  writer, chunk buffer), each pulling from the one before.  A generator that has been created
  is modelled by what pulling it would deliver: an item, the end, or an exception.  A stage of
  the chain is a step function on its own state; \<open>pull\<close> is one \<open>next()\<close> of the stage over its
  input, \<open>drain\<close> is the loop that pulls until the end, and \<open>run\<close> is the batch reading of the
  same loop that the proofs use.
\<close>

section \<open>Generators and stages\<close>

datatype 'a gen = Done | Raise exn | Yield 'a "'a gen"

fun gen_items :: "'a gen \<Rightarrow> 'a list" where
  "gen_items Done = []"
| "gen_items (Raise e) = []"
| "gen_items (Yield x g) = x # gen_items g"

fun gen_end :: "'a gen \<Rightarrow> exn option" where
  "gen_end Done = None"
| "gen_end (Raise e) = Some e"
| "gen_end (Yield x g) = gen_end g"

fun gen_of :: "'a list \<Rightarrow> exn option \<Rightarrow> 'a gen" where
  "gen_of [] None = Done"
| "gen_of [] (Some e) = Raise e"
| "gen_of (x # xs) e = Yield x (gen_of xs e)"

lemma gen_of_parts [simp]: "gen_items (gen_of xs e) = xs" "gen_end (gen_of xs e) = e"
  by (induction xs e rule: gen_of.induct) auto

lemma gen_eq_parts: "gen_of (gen_items g) (gen_end g) = g"
  by (induction g) auto

text \<open>
  One round of a stage's \<open>for\<close> loop: go on (with or without yielding), leave the loop, or
  raise.
\<close>

datatype ('s, 'b) outcome = Go 's "'b option" | Halt 's | Fail 's exn

datatype ('s, 'a, 'b) pulled = Out 'b 's "'a gen" | End 's "exn option"

fun pull :: "('s \<Rightarrow> 'a \<Rightarrow> ('s, 'b) outcome) \<Rightarrow> 's \<Rightarrow> 'a gen \<Rightarrow> ('s, 'a, 'b) pulled" where
  "pull step s Done = End s None"
| "pull step s (Raise e) = End s (Some e)"
| "pull step s (Yield x g) =
     (case step s x of
        Go s' None \<Rightarrow> pull step s' g
      | Go s' (Some y) \<Rightarrow> Out y s' g
      | Halt s' \<Rightarrow> End s' None
      | Fail s' e \<Rightarrow> End s' (Some e))"

lemma pull_shrinks: "pull step s g = Out y s' g' \<Longrightarrow> length (gen_items g') < length (gen_items g)"
proof (induction g arbitrary: s)
  case (Yield x g)
  then show ?case
    by (cases "step s x") (auto split: option.splits dest: less_SucI)
qed auto

function drain :: "('s \<Rightarrow> 'a \<Rightarrow> ('s, 'b) outcome) \<Rightarrow> 's \<Rightarrow> 'a gen \<Rightarrow> 'b gen \<times> 's" where
  "drain step s g =
     (case pull step s g of
        End s' None \<Rightarrow> (Done, s')
      | End s' (Some e) \<Rightarrow> (Raise e, s')
      | Out y s' g' \<Rightarrow> apfst (Yield y) (drain step s' g'))"
  by pat_completeness auto

termination
  by (relation "measure (\<lambda>(step, s, g). length (gen_items g))") (auto dest: pull_shrinks)

declare drain.simps [simp del]

fun run :: "('s \<Rightarrow> 'a \<Rightarrow> ('s, 'b) outcome) \<Rightarrow> 's \<Rightarrow> 'a gen \<Rightarrow> 'b gen \<times> 's" where
  "run step s Done = (Done, s)"
| "run step s (Raise e) = (Raise e, s)"
| "run step s (Yield x g) =
     (case step s x of
        Go s' None \<Rightarrow> run step s' g
      | Go s' (Some y) \<Rightarrow> apfst (Yield y) (run step s' g)
      | Halt s' \<Rightarrow> (Done, s')
      | Fail s' e \<Rightarrow> (Raise e, s'))"

lemma run_pull:
  "run step s g = (case pull step s g of
     End s' None \<Rightarrow> (Done, s')
   | End s' (Some e) \<Rightarrow> (Raise e, s')
   | Out y s' g' \<Rightarrow> apfst (Yield y) (run step s' g'))"
proof (induction g arbitrary: s)
  case (Yield x g)
  then show ?case by (auto split: outcome.splits option.splits)
qed auto

text \<open>Pulling until the end is the batch loop.\<close>

lemma drain_is_run: "drain step s g = run step s g"
proof (induction step s g rule: drain.induct)
  case (1 step s g)
  show ?case
    by (subst drain.simps, subst run_pull)
      (use 1 in \<open>auto split: pulled.splits option.splits\<close>)
qed

section \<open>Laziness\<close>

text \<open>The first \<open>n\<close> items of a generator, followed by whatever comes then.\<close>

fun gen_append :: "'a list \<Rightarrow> 'a gen \<Rightarrow> 'a gen" where
  "gen_append [] g = g"
| "gen_append (x # xs) g = Yield x (gen_append xs g)"

text \<open>
  What a pull delivers depends only on the items it consumed: the rest of the input can be
  replaced by anything, an error included.
\<close>

lemma pull_lazy:
  "pull step s g = Out y s' g' \<Longrightarrow>
     \<exists>xs. g = gen_append xs g' \<and> xs \<noteq> []
          \<and> (\<forall>h. pull step s (gen_append xs h) = Out y s' h)"
proof (induction g arbitrary: s)
  case (Yield x g)
  show ?case
  proof (cases "step s x")
    case (Go t z)
    show ?thesis
    proof (cases z)
      case None
      with Yield Go obtain xs where "g = gen_append xs g'" "xs \<noteq> []"
        "\<forall>h. pull step t (gen_append xs h) = Out y s' h" by auto
      with Go None show ?thesis by (intro exI [of _ "x # xs"]) auto
    next
      case (Some w)
      with Yield Go show ?thesis by (intro exI [of _ "[x]"]) auto
    qed
  qed (use Yield in auto)
qed auto

text \<open>A stage that leaves its loop does not look at the rest of its input.\<close>

lemma run_halt: "step s x = Halt s' \<Longrightarrow> run step s (Yield x g) = (Done, s')"
  by simp

section \<open>Chaining stages\<close>

text \<open>
  The second stage pulls from the first: one item of the source is carried through both
  before the next is touched.
\<close>

fun chained :: "('s \<Rightarrow> 'a \<Rightarrow> ('s, 'b) outcome) \<Rightarrow> ('t \<Rightarrow> 'b \<Rightarrow> ('t, 'c) outcome)
    \<Rightarrow> 's \<times> 't \<Rightarrow> 'a \<Rightarrow> ('s \<times> 't, 'c) outcome" where
  "chained f g (s, t) x =
     (case f s x of
        Go s' None \<Rightarrow> Go (s', t) None
      | Go s' (Some y) \<Rightarrow>
          (case g t y of
             Go t' z \<Rightarrow> Go (s', t') z
           | Halt t' \<Rightarrow> Halt (s', t')
           | Fail t' e \<Rightarrow> Fail (s', t') e)
      | Halt s' \<Rightarrow> Halt (s', t)
      | Fail s' e \<Rightarrow> Fail (s', t) e)"

text \<open>
  The chain delivers what the second stage makes of everything the first delivers, and leaves
  the second stage in the same state.
\<close>

lemma run_chained:
  "fst (run (chained f g) (s, t) inp) = fst (run g t (fst (run f s inp)))
   \<and> snd (snd (run (chained f g) (s, t) inp)) = snd (run g t (fst (run f s inp)))"
proof (induction inp arbitrary: s t)
  case (Yield x inp)
  show ?case
  proof (cases "f s x")
    case (Go s' y)
    show ?thesis
    proof (cases y)
      case None
      with Go Yield show ?thesis by simp
    next
      case (Some z)
      show ?thesis
      proof (cases "g t z")
        case (Go t' w)
        with \<open>f s x = Go s' y\<close> Some Yield [of s' t'] show ?thesis
          by (cases w) auto
      qed (use Go Some in auto)
    qed
  qed auto
qed auto

section \<open>Interface: what a stage keeps\<close>

locale stage =
  fixes step :: "'s \<Rightarrow> 'a \<Rightarrow> ('s, 'b) outcome"
    and inv :: "'s \<Rightarrow> bool"
    and good :: "'b \<Rightarrow> bool"
  assumes inv_go: "inv s \<Longrightarrow> step s x = Go s' z \<Longrightarrow> inv s'"
    and inv_halt: "inv s \<Longrightarrow> step s x = Halt s' \<Longrightarrow> inv s'"
    and inv_fail: "inv s \<Longrightarrow> step s x = Fail s' e \<Longrightarrow> inv s'"
    and good_out: "inv s \<Longrightarrow> step s x = Go s' (Some y) \<Longrightarrow> good y"
begin

lemma run_inv: "inv s \<Longrightarrow> inv (snd (run step s g))"
proof (induction g arbitrary: s)
  case (Yield x g)
  then show ?case
    by (cases "step s x") (auto split: option.splits dest: inv_go inv_halt inv_fail)
qed auto

lemma run_good: "inv s \<Longrightarrow> \<forall>y \<in> set (gen_items (fst (run step s g))). good y"
proof (induction g arbitrary: s)
  case (Yield x g)
  show ?case
  proof (cases "step s x")
    case (Go s' y)
    with Yield.prems have "inv s'" by (rule inv_go)
    then have "\<forall>y \<in> set (gen_items (fst (run step s' g))). good y" by (rule Yield.IH)
    with Go Yield.prems good_out [of s x s'] show ?thesis by (cases y) auto
  qed auto
qed auto

lemma drain_inv: "inv s \<Longrightarrow> inv (snd (drain step s g))"
  by (simp add: drain_is_run run_inv)

lemma drain_good: "inv s \<Longrightarrow> y \<in> set (gen_items (fst (drain step s g))) \<Longrightarrow> good y"
  using run_good by (auto simp: drain_is_run)

end

end
