(* ===== verification/PFP_Writers.thy ===== *)
theory PFP_Writers
  imports PFP_Stream PFP_Types
begin

text \<open>
  The output writers (\<open>pfp_core/writers\<close>): the values and records they take, the CSV and the
  JSONL serialiser as stages of the generator chain, and the registry that selects them.

  The \<open>csv\<close> and \<open>json\<close> modules of the library are written out as far as the writers use them
  (Python 3.10: minimal quoting, doubled quotes, a NUL is an ordinary character).  A byte is a
  \<open>char\<close>; \<open>str.encode\<close> is the argument \<open>codec\<close>, from an encoding name and a text to bytes or
  an exception.
\<close>

section \<open>Records\<close>

text \<open>The writers have a \<open>MISSING\<close> sentinel of their own, which is not the one of the engine.\<close>

datatype wval = WMissing | WVal pyval

datatype wrecord = WRow "wval list" | WObject "(pyval \<times> wval) list" | WOther pyval

type_synonym bytes = "char list"

type_synonym codec = "string \<Rightarrow> string \<Rightarrow> bytes result"

section \<open>The CSV dialect\<close>

record dialect =
  dl_delim :: char
  dl_quote :: char
  dl_esc :: "char option"
  dl_term :: string

definition csv_special :: "dialect \<Rightarrow> char \<Rightarrow> bool" where
  "csv_special d c \<longleftrightarrow>
     c = dl_delim d \<or> Some c = dl_esc d \<or> c = dl_quote d \<or> c \<in> set (dl_term d)"

definition csv_char :: "dialect \<Rightarrow> char \<Rightarrow> string" where
  "csv_char d c =
     (if c = dl_quote d then [dl_quote d, c]
      else if Some c = dl_esc d then [c, c]
      else [c])"

definition csv_quoted :: "dialect \<Rightarrow> string \<Rightarrow> bool" where
  "csv_quoted d s \<longleftrightarrow> (\<exists>c \<in> set s. csv_special d c \<and> (c = dl_quote d \<or> Some c \<noteq> dl_esc d))"

definition csv_field :: "dialect \<Rightarrow> string \<Rightarrow> string" where
  "csv_field d s =
     (let body = concat (map (csv_char d) s)
      in if csv_quoted d s then dl_quote d # body @ [dl_quote d] else body)"

text \<open>A row of one empty field is written as a quoted empty field.\<close>

definition csv_writerow :: "dialect \<Rightarrow> string list \<Rightarrow> string" where
  "csv_writerow d row =
     (let text = join [dl_delim d] (map (csv_field d) row)
      in (if row \<noteq> [] \<and> text = [] then [dl_quote d, dl_quote d] else text) @ dl_term d)"

section \<open>CSVWriter\<close>

record csv_writer =
  cw_content_type :: string
  cw_file_extension :: string
  cw_encoding :: string
  cw_delimiter :: string
  cw_quotechar :: string
  cw_escapechar :: "string option"
  cw_line_terminator :: string
  cw_include_header :: bool
  cw_missing_marker :: string
  cw_null_marker :: string
  cw_columns :: "string list option"

definition read_marker :: "dict \<Rightarrow> string \<Rightarrow> string result" where
  "read_marker cfg key =
     (case as_str (dget_or cfg key (PyStr [])) of None \<Rightarrow> Inl ValueError | Some s \<Rightarrow> Inr s)"

definition column_name :: "pyval \<Rightarrow> string result" where
  "column_name v = (case as_str v of None \<Rightarrow> Inl ValueError | Some s \<Rightarrow> Inr s)"

fun parse_columns_value :: "pyval \<Rightarrow> string list option result" where
  "parse_columns_value PyNone = Inr None"
| "parse_columns_value (PyList xs) = rbind (rmap column_name xs) (\<lambda>cs. Inr (Some cs))"
| "parse_columns_value (PyTuple xs) = rbind (rmap column_name xs) (\<lambda>cs. Inr (Some cs))"
| "parse_columns_value _ = Inl ValueError"

definition parse_columns :: "dict \<Rightarrow> string list option result" where
  "parse_columns cfg = parse_columns_value (dget cfg ''columns'')"

definition str_or :: "dict \<Rightarrow> string \<Rightarrow> string \<Rightarrow> string" where
  "str_or d k dflt = py_str (dget_or d k (PyStr dflt))"

definition csv_writer_new :: "dict \<Rightarrow> dict \<Rightarrow> string list option \<Rightarrow> csv_writer result" where
  "csv_writer_new cfg meta columns =
     rbind (read_marker cfg ''missing_value_marker'') (\<lambda>missing.
     rbind (read_marker cfg ''null_value_marker'') (\<lambda>null.
     rbind (parse_columns cfg) (\<lambda>config_columns.
       let cols = (if config_columns \<noteq> None then config_columns else columns);
           header = py_truthy (dget_or cfg ''include_header'' (PyBool False));
           esc = dget cfg ''escapechar''
       in if header \<and> cols = None then Inl ValueError
          else Inr
            \<lparr>cw_content_type = str_or meta ''content_type'' ''text/csv'',
             cw_file_extension = str_or meta ''file_extension'' ''.csv'',
             cw_encoding = str_or meta ''encoding'' ''utf-8'',
             cw_delimiter = str_or cfg ''delimiter'' '','',
             cw_quotechar = str_or cfg ''quotechar'' [CHR 0x22],
             cw_escapechar = (if esc = PyNone then None else Some (py_str esc)),
             cw_line_terminator = str_or cfg ''line_terminator'' [CHR 0x0A],
             cw_include_header = header,
             cw_missing_marker = missing,
             cw_null_marker = null,
             cw_columns = cols\<rparr>)))"

text \<open>
  \<open>csv.writer(...)\<close> takes a delimiter and a quote character of exactly one character, and an
  escape character of at most one.  It is called when the first chunk is pulled.
\<close>

definition csv_dialect :: "csv_writer \<Rightarrow> dialect result" where
  "csv_dialect w =
     (case (cw_delimiter w, cw_quotechar w) of
        ([dc], [qc]) \<Rightarrow>
          (case cw_escapechar w of
             Some (a # b # r) \<Rightarrow> Inl TypeError
           | e \<Rightarrow> if dc = CHR 0x00 \<or> qc = CHR 0x00 then Inl TypeError
                  else Inr \<lparr>dl_delim = dc, dl_quote = qc,
                    dl_esc = (case e of Some [c] \<Rightarrow> Some c | _ \<Rightarrow> None),
                    dl_term = cw_line_terminator w\<rparr>)
      | _ \<Rightarrow> Inl TypeError)"

record csv_state =
  saw_missing :: bool
  saw_none :: bool

definition csv_init :: csv_state where
  "csv_init = \<lparr>saw_missing = False, saw_none = False\<rparr>"

fun serialize_value :: "csv_writer \<Rightarrow> wval \<Rightarrow> string" where
  "serialize_value w WMissing = cw_missing_marker w"
| "serialize_value w (WVal PyNone) = cw_null_marker w"
| "serialize_value w (WVal (PyBool b)) = (if b then ''true'' else ''false'')"
| "serialize_value w (WVal v) = py_str v"

definition validate_marker_distinction :: "csv_writer \<Rightarrow> csv_state \<Rightarrow> unit result" where
  "validate_marker_distinction w s =
     (if saw_missing s \<and> saw_none s \<and> cw_missing_marker w = cw_null_marker w
      then Inl ValueError else Inr ())"

definition note_value :: "wval \<Rightarrow> csv_state \<Rightarrow> csv_state" where
  "note_value v s = \<lparr>saw_missing = saw_missing s \<or> v = WMissing,
                     saw_none = saw_none s \<or> v = WVal PyNone\<rparr>"

fun serialize_row :: "csv_writer \<Rightarrow> wval list \<Rightarrow> csv_state \<Rightarrow> (string list \<times> csv_state) result" where
  "serialize_row w [] s = Inr ([], s)"
| "serialize_row w (v # vs) s =
     (let s' = note_value v s
      in rbind (validate_marker_distinction w s') (\<lambda>_.
         rbind (serialize_row w vs s') (\<lambda>(texts, t). Inr (serialize_value w v # texts, t))))"

fun coerce_row :: "wrecord \<Rightarrow> wval list result" where
  "coerce_row (WRow vs) = Inr vs"
| "coerce_row _ = Inl ValueError"

text \<open>One round of the loop of \<open>_write_iter\<close>, up to the text of the row and then encoded.\<close>

definition csv_row_step :: "csv_writer \<Rightarrow> csv_state \<Rightarrow> wrecord \<Rightarrow> (string list \<times> csv_state) result" where
  "csv_row_step w s r =
     rbind (coerce_row r) (\<lambda>vs.
       if (case cw_columns w of None \<Rightarrow> False | Some cs \<Rightarrow> length vs \<noteq> length cs)
       then Inl ValueError
       else serialize_row w vs s)"

definition csv_step :: "codec \<Rightarrow> csv_writer \<Rightarrow> dialect \<Rightarrow> csv_state \<Rightarrow> wrecord
    \<Rightarrow> (csv_state, bytes) outcome" where
  "csv_step codec w d s r =
     (case csv_row_step w s r of
        Inl e \<Rightarrow> Fail s e
      | Inr (texts, s') \<Rightarrow>
          (case codec (cw_encoding w) (csv_writerow d texts) of
             Inl e \<Rightarrow> Fail s' e
           | Inr chunk \<Rightarrow> Go s' (Some chunk)))"

definition csv_write :: "codec \<Rightarrow> csv_writer \<Rightarrow> wrecord gen \<Rightarrow> bytes gen" where
  "csv_write codec w records =
     (case csv_dialect w of
        Inl e \<Rightarrow> Raise e
      | Inr d \<Rightarrow>
          if cw_include_header w then
            (case cw_columns w of
               None \<Rightarrow> Raise TypeError
             | Some cs \<Rightarrow>
                 (case codec (cw_encoding w) (csv_writerow d cs) of
                    Inl e \<Rightarrow> Raise e
                  | Inr chunk \<Rightarrow> Yield chunk (fst (drain (csv_step codec w d) csv_init records))))
          else fst (drain (csv_step codec w d) csv_init records))"

section \<open>JSON text\<close>

definition hex_digit :: "nat \<Rightarrow> char" where
  "hex_digit n = ''0123456789abcdef'' ! n"

definition json_char :: "bool \<Rightarrow> char \<Rightarrow> string" where
  "json_char ensure_ascii c =
     (let n = (of_char c :: nat); bs = CHR 0x5C
      in if c = CHR 0x22 then [bs, CHR 0x22]
         else if c = bs then [bs, bs]
         else if c = CHR 0x0A then [bs, CHR ''n'']
         else if c = CHR 0x0D then [bs, CHR ''r'']
         else if c = CHR 0x09 then [bs, CHR ''t'']
         else if c = CHR 0x08 then [bs, CHR ''b'']
         else if c = CHR 0x0C then [bs, CHR ''f'']
         else if n < 32 \<or> ensure_ascii \<and> 126 < n
           then [bs, CHR ''u'', CHR ''0'', CHR ''0'', hex_digit (n div 16), hex_digit (n mod 16)]
         else [c])"

definition json_string :: "bool \<Rightarrow> string \<Rightarrow> string" where
  "json_string ea s = CHR 0x22 # concat (map (json_char ea) s) @ [CHR 0x22]"

lemma rmap_cong [fundef_cong]:
  "xs = ys \<Longrightarrow> (\<And>x. x \<in> set ys \<Longrightarrow> f x = g x) \<Longrightarrow> rmap f xs = rmap g ys"
  by (induction ys arbitrary: xs) auto

text \<open>
  \<open>json.dumps(value, ensure_ascii, sort_keys, separators=(",", ":"), allow_nan=False)\<close>: a float
  that is not a number is a \<open>ValueError\<close>, an object JSON does not know a \<open>TypeError\<close>.
\<close>

function (sequential) json_value :: "bool \<Rightarrow> bool \<Rightarrow> pyval \<Rightarrow> string result" where
  "json_value ea sk PyNone = Inr ''null''"
| "json_value ea sk (PyBool b) = Inr (if b then ''true'' else ''false'')"
| "json_value ea sk (PyInt i) = Inr (int_str i)"
| "json_value ea sk (PyFloat r) =
     (if r \<in> {''nan'', ''inf'', ''-inf''} then Inl ValueError else Inr r)"
| "json_value ea sk (PyStr s) = Inr (json_string ea s)"
| "json_value ea sk (PyList xs) =
     rbind (rmap (json_value ea sk) xs) (\<lambda>ts. Inr (''['' @ join '','' ts @ '']''))"
| "json_value ea sk (PyTuple xs) =
     rbind (rmap (json_value ea sk) xs) (\<lambda>ts. Inr (''['' @ join '','' ts @ '']''))"
| "json_value ea sk (PyDict d) =
     rbind (rmap (\<lambda>(k, v). rbind (json_value ea sk v) (\<lambda>t. Inr (json_string ea k @ '':'' @ t)))
             (if sk then sort_key fst d else d))
       (\<lambda>ts. Inr (''{'' @ join '','' ts @ ''}''))"
| "json_value ea sk _ = Inl TypeError"
  by pat_completeness auto

termination
proof (relation "measure (\<lambda>(ea, sk, v). size v)", goal_cases)
  case (4 ea sk d kv k v)
  then have "(k, v) \<in> set d" by (auto split: if_splits)
  then have "size v \<le> size_list (size_prod (\<lambda>x. 0) size) d"
    by (induction d) auto
  then show ?case by simp
qed (auto simp: less_Suc_eq_le dest: size_list_estimation')

section \<open>JSONLWriter\<close>

record jsonl_writer =
  jw_content_type :: string
  jw_file_extension :: string
  jw_encoding :: string
  jw_ensure_ascii :: bool
  jw_sort_keys :: bool
  jw_omit_nulls :: bool
  jw_line_terminator :: string

definition jsonl_writer_new :: "dict \<Rightarrow> dict \<Rightarrow> jsonl_writer" where
  "jsonl_writer_new cfg meta =
     \<lparr>jw_content_type = str_or meta ''content_type'' ''application/x-ndjson'',
      jw_file_extension = str_or meta ''file_extension'' ''.jsonl'',
      jw_encoding = str_or meta ''encoding'' ''utf-8'',
      jw_ensure_ascii = py_truthy (dget_or cfg ''ensure_ascii'' (PyBool False)),
      jw_sort_keys = py_truthy (dget_or cfg ''sort_keys'' (PyBool False)),
      jw_omit_nulls = py_truthy (dget_or cfg ''omit_nulls'' (PyBool False)),
      jw_line_terminator = str_or cfg ''line_terminator'' [CHR 0x0A]\<rparr>"

fun filter_record :: "bool \<Rightarrow> (pyval \<times> wval) list \<Rightarrow> dict result" where
  "filter_record omit_nulls [] = Inr []"
| "filter_record omit_nulls ((k, v) # kvs) =
     (case as_str k of
        None \<Rightarrow> Inl ValueError
      | Some key \<Rightarrow>
          (case v of
             WMissing \<Rightarrow> filter_record omit_nulls kvs
           | WVal x \<Rightarrow>
               if omit_nulls \<and> x = PyNone then filter_record omit_nulls kvs
               else rbind (filter_record omit_nulls kvs) (\<lambda>d. Inr ((key, x) # d))))"

fun jsonl_text :: "jsonl_writer \<Rightarrow> wrecord \<Rightarrow> string result" where
  "jsonl_text w (WObject kvs) =
     rbind (filter_record (jw_omit_nulls w) kvs) (\<lambda>d.
     rbind (json_value (jw_ensure_ascii w) (jw_sort_keys w) (PyDict d)) (\<lambda>t.
       Inr (t @ jw_line_terminator w)))"
| "jsonl_text w _ = Inl ValueError"

definition jsonl_step :: "codec \<Rightarrow> jsonl_writer \<Rightarrow> unit \<Rightarrow> wrecord \<Rightarrow> (unit, bytes) outcome" where
  "jsonl_step codec w s r =
     (case rbind (jsonl_text w r) (codec (jw_encoding w)) of
        Inl e \<Rightarrow> Fail s e
      | Inr chunk \<Rightarrow> Go s (Some chunk))"

definition jsonl_write :: "codec \<Rightarrow> jsonl_writer \<Rightarrow> wrecord gen \<Rightarrow> bytes gen" where
  "jsonl_write codec w records = fst (drain (jsonl_step codec w) () records)"

section \<open>The writer registry\<close>

datatype writer = CsvWriter csv_writer | JsonlWriter jsonl_writer

type_synonym writer_factory = "dict \<Rightarrow> dict \<Rightarrow> writer result"

type_synonym writer_registry = "(string, writer_factory) odict"

definition register_writer ::
  "string \<Rightarrow> writer_factory \<Rightarrow> writer_registry \<Rightarrow> writer_registry result" where
  "register_writer k f r =
     (if k = [] then Inl ValueError
      else if map_of r k \<noteq> None then Inl ValueError
      else Inr (dict_set k f r))"

text \<open>\<open>UnknownWriterError\<close> is a subclass of \<open>KeyError\<close>.\<close>

definition get_writer_factory :: "writer_registry \<Rightarrow> string \<Rightarrow> writer_factory result" where
  "get_writer_factory r k = (case map_of r k of None \<Rightarrow> Inl KeyError | Some f \<Rightarrow> Inr f)"

definition create_writer :: "writer_registry \<Rightarrow> string \<Rightarrow> dict \<Rightarrow> dict \<Rightarrow> writer result" where
  "create_writer r k cfg meta = rbind (get_writer_factory r k) (\<lambda>f. f cfg meta)"

definition list_writer_ids :: "writer_registry \<Rightarrow> string list" where
  "list_writer_ids r = sort (dict_keys r)"

definition csv_factory :: writer_factory where
  "csv_factory cfg meta = rbind (csv_writer_new cfg meta None) (\<lambda>w. Inr (CsvWriter w))"

definition jsonl_factory :: writer_factory where
  "jsonl_factory cfg meta = Inr (JsonlWriter (jsonl_writer_new cfg meta))"

definition build_default_writer_registry :: "writer_registry result" where
  "build_default_writer_registry =
     rbind (register_writer ''csv'' csv_factory []) (register_writer ''jsonl'' jsonl_factory)"

fun writer_write :: "codec \<Rightarrow> writer \<Rightarrow> wrecord gen \<Rightarrow> bytes gen" where
  "writer_write codec (CsvWriter w) = csv_write codec w"
| "writer_write codec (JsonlWriter w) = jsonl_write codec w"

text \<open>
  A writer as a stage of a chain: what it does when its first chunk is pulled, before it asks
  for a record, and what it does with a record.
\<close>

datatype writer_state = CsvRun dialect csv_state | JsonlRun

fun map_outcome :: "('s \<Rightarrow> 't) \<Rightarrow> ('s, 'b) outcome \<Rightarrow> ('t, 'b) outcome" where
  "map_outcome h (Go s y) = Go (h s) y"
| "map_outcome h (Halt s) = Halt (h s)"
| "map_outcome h (Fail s e) = Fail (h s) e"

fun writer_open :: "codec \<Rightarrow> writer \<Rightarrow> (writer_state \<times> bytes option) result" where
  "writer_open codec (JsonlWriter w) = Inr (JsonlRun, None)"
| "writer_open codec (CsvWriter w) =
     rbind (csv_dialect w) (\<lambda>d.
       if cw_include_header w then
         (case cw_columns w of
            None \<Rightarrow> Inl TypeError
          | Some cs \<Rightarrow> rbind (codec (cw_encoding w) (csv_writerow d cs)) (\<lambda>chunk.
              Inr (CsvRun d csv_init, Some chunk)))
       else Inr (CsvRun d csv_init, None))"

fun writer_step :: "codec \<Rightarrow> writer \<Rightarrow> writer_state \<Rightarrow> wrecord \<Rightarrow> (writer_state, bytes) outcome" where
  "writer_step codec (CsvWriter w) (CsvRun d s) r = map_outcome (CsvRun d) (csv_step codec w d s r)"
| "writer_step codec (JsonlWriter w) JsonlRun r = map_outcome (\<lambda>_. JsonlRun) (jsonl_step codec w () r)"
| "writer_step codec w s r = Fail s TypeError"

definition header_then :: "bytes option \<Rightarrow> bytes gen \<Rightarrow> bytes gen" where
  "header_then h g = (case h of None \<Rightarrow> g | Some chunk \<Rightarrow> Yield chunk g)"

lemma run_csv_stage:
  "fst (run (writer_step codec (CsvWriter w)) (CsvRun d s) g) = fst (run (csv_step codec w d) s g)"
proof (induction g arbitrary: s)
  case (Yield x g)
  then show ?case
    by (cases "csv_step codec w d s x") (auto split: option.splits)
qed simp_all

lemma run_jsonl_stage:
  "fst (run (writer_step codec (JsonlWriter w)) JsonlRun g) = fst (run (jsonl_step codec w) () g)"
proof (induction g)
  case (Yield x g)
  then show ?case
    by (cases "jsonl_step codec w () x") (auto split: option.splits)
qed simp_all

lemma writer_write_stage:
  "writer_write codec w g =
     (case writer_open codec w of
        Inl e \<Rightarrow> Raise e
      | Inr (s, h) \<Rightarrow> header_then h (fst (run (writer_step codec w) s g)))"
proof (cases w)
  case (JsonlWriter v)
  then show ?thesis by (simp add: jsonl_write_def drain_is_run run_jsonl_stage header_then_def)
next
  case (CsvWriter v)
  then show ?thesis
    by (auto simp: csv_write_def drain_is_run run_csv_stage header_then_def
        split: sum.splits option.splits)
qed

interpretation writers: registry "\<lambda>k. k \<noteq> []" register_writer "\<lambda>k r. map_of r k"
  by unfold_locales (auto simp: register_writer_def map_of_dict_set split: if_splits)

text \<open>The built-in registry creates the two writers by name and refuses any other.\<close>

lemma default_writer_registry:
  "\<exists>r. build_default_writer_registry = Inr r \<and> list_writer_ids r = [''csv'', ''jsonl'']
     \<and> create_writer r k cfg meta =
         (if k = ''csv'' then csv_factory cfg meta
          else if k = ''jsonl'' then jsonl_factory cfg meta else Inl KeyError)"
  by (simp add: build_default_writer_registry_def register_writer_def list_writer_ids_def
      dict_keys_def create_writer_def get_writer_factory_def)

end
