(* ===== verification/PFP_Writers_Spec.thy ===== *)
theory PFP_Writers_Spec
  imports PFP_Writers
begin

text \<open>
  What the writers promise: a reader of the format gets back the rows and objects that were
  written, a missing cell and a null cell are told apart, and one record is one line.

  \<open>csv_read\<close> is the reference reader (the state machine of a CSV reader with the same dialect,
  rows ended by one character); \<open>json_line\<close> is a reader of flat JSON objects of strings and
  nulls, which are what the producer sends; \<open>utf8\<close> is the default encoding on the characters
  of the model.
\<close>

section \<open>A reader of CSV text\<close>

datatype read_state =
  StartRecord | StartField | Escaped | InField | InQuoted | EscapedQuoted | QuoteInQuoted

fun csv_read :: "dialect \<Rightarrow> char \<Rightarrow> read_state \<Rightarrow> string \<Rightarrow> string list \<Rightarrow> string \<Rightarrow> string list list" where
  "csv_read d nl st f row [] = (if st = StartRecord then [] else [row @ [f]])"
| "csv_read d nl st f row (c # cs) =
     (let field = csv_read d nl StartField [] (row @ [f]) cs;
          line = (row @ [f]) # csv_read d nl StartRecord [] [] cs;
          add = (\<lambda>s. csv_read d nl s (f @ [c]) row cs);
          skip = (\<lambda>s. csv_read d nl s f row cs);
          start =
            (if c = nl then line
             else if c = dl_quote d then skip InQuoted
             else if Some c = dl_esc d then skip Escaped
             else if c = dl_delim d then field
             else add InField)
      in case st of
           StartRecord \<Rightarrow> if c = nl then [] # csv_read d nl StartRecord [] [] cs else start
         | StartField \<Rightarrow> start
         | Escaped \<Rightarrow> add InField
         | InField \<Rightarrow>
             if c = nl then line
             else if Some c = dl_esc d then skip Escaped
             else if c = dl_delim d then field
             else add InField
         | InQuoted \<Rightarrow>
             if Some c = dl_esc d then skip EscapedQuoted
             else if c = dl_quote d then skip QuoteInQuoted
             else add InQuoted
         | EscapedQuoted \<Rightarrow> add InQuoted
         | QuoteInQuoted \<Rightarrow>
             if c = dl_quote d then add InQuoted
             else if c = dl_delim d then field
             else if c = nl then line
             else add InField)"

text \<open>The reader, state by state.\<close>

definition read_start :: "dialect \<Rightarrow> char \<Rightarrow> string \<Rightarrow> string list \<Rightarrow> char \<Rightarrow> string \<Rightarrow> string list list" where
  "read_start d nl f row c cs =
     (if c = nl then (row @ [f]) # csv_read d nl StartRecord [] [] cs
      else if c = dl_quote d then csv_read d nl InQuoted f row cs
      else if Some c = dl_esc d then csv_read d nl Escaped f row cs
      else if c = dl_delim d then csv_read d nl StartField [] (row @ [f]) cs
      else csv_read d nl InField (f @ [c]) row cs)"

lemma read_simps:
  "csv_read d nl StartRecord f row (c # cs) =
     (if c = nl then [] # csv_read d nl StartRecord [] [] cs else read_start d nl f row c cs)"
  "csv_read d nl StartField f row (c # cs) = read_start d nl f row c cs"
  "csv_read d nl Escaped f row (c # cs) = csv_read d nl InField (f @ [c]) row cs"
  "csv_read d nl InField f row (c # cs) =
     (if c = nl then (row @ [f]) # csv_read d nl StartRecord [] [] cs
      else if Some c = dl_esc d then csv_read d nl Escaped f row cs
      else if c = dl_delim d then csv_read d nl StartField [] (row @ [f]) cs
      else csv_read d nl InField (f @ [c]) row cs)"
  "csv_read d nl InQuoted f row (c # cs) =
     (if Some c = dl_esc d then csv_read d nl EscapedQuoted f row cs
      else if c = dl_quote d then csv_read d nl QuoteInQuoted f row cs
      else csv_read d nl InQuoted (f @ [c]) row cs)"
  "csv_read d nl EscapedQuoted f row (c # cs) = csv_read d nl InQuoted (f @ [c]) row cs"
  "csv_read d nl QuoteInQuoted f row (c # cs) =
     (if c = dl_quote d then csv_read d nl InQuoted (f @ [c]) row cs
      else if c = dl_delim d then csv_read d nl StartField [] (row @ [f]) cs
      else if c = nl then (row @ [f]) # csv_read d nl StartRecord [] [] cs
      else csv_read d nl InField (f @ [c]) row cs)"
  by (simp_all add: read_start_def Let_def)

declare csv_read.simps(2) [simp del]

abbreviation csv_rows :: "dialect \<Rightarrow> char \<Rightarrow> string \<Rightarrow> string list list" where
  "csv_rows d nl text \<equiv> csv_read d nl StartRecord [] [] text"

definition dialect_ok :: "dialect \<Rightarrow> char \<Rightarrow> bool" where
  "dialect_ok d nl \<longleftrightarrow>
     dl_term d = [nl] \<and> dl_delim d \<noteq> dl_quote d \<and> dl_delim d \<noteq> nl \<and> dl_quote d \<noteq> nl
     \<and> dl_esc d \<notin> {Some (dl_delim d), Some (dl_quote d), Some nl}"

lemma dialect_okD:
  assumes "dialect_ok d nl"
  shows "dl_term d = [nl]" "dl_delim d \<noteq> dl_quote d" "dl_quote d \<noteq> dl_delim d"
    "dl_delim d \<noteq> nl" "dl_quote d \<noteq> nl" "nl \<noteq> dl_delim d" "nl \<noteq> dl_quote d"
    "dl_esc d \<noteq> Some (dl_delim d)" "Some (dl_delim d) \<noteq> dl_esc d"
    "dl_esc d \<noteq> Some (dl_quote d)" "Some (dl_quote d) \<noteq> dl_esc d"
    "dl_esc d \<noteq> Some nl" "Some nl \<noteq> dl_esc d"
  using assms by (auto simp: dialect_ok_def)

lemma read_quoted_char:
  assumes "dialect_ok d nl"
  shows "csv_read d nl InQuoted f row (csv_char d c @ r) = csv_read d nl InQuoted (f @ [c]) row r"
  by (auto simp: csv_char_def read_simps dialect_okD [OF assms])

lemma read_quoted_body:
  assumes "dialect_ok d nl"
  shows "csv_read d nl InQuoted f row (concat (map (csv_char d) s) @ r)
           = csv_read d nl InQuoted (f @ s) row r"
  by (induction s arbitrary: f) (simp_all add: read_quoted_char [OF assms])

lemma plain_char:
  assumes "\<not> csv_quoted d s" "c \<in> set s" "dialect_ok d nl"
  shows "c \<noteq> dl_quote d" "c \<noteq> dl_delim d" "c \<noteq> nl"
proof -
  note okD = dialect_okD [OF assms(3)]
  have h: "csv_special d c \<Longrightarrow> c \<noteq> dl_quote d \<and> Some c = dl_esc d"
    using assms(1,2) by (auto simp: csv_quoted_def)
  then show "c \<noteq> dl_quote d" by (auto simp: csv_special_def)
  show "c \<noteq> dl_delim d"
    using h okD(9) unfolding csv_special_def by metis
  show "c \<noteq> nl"
    using h okD(1,13) unfolding csv_special_def by (metis list.set_intros(1))
qed

lemma read_plain_char:
  assumes "dialect_ok d nl" "c \<noteq> dl_quote d" "c \<noteq> dl_delim d" "c \<noteq> nl"
  shows "csv_read d nl InField f row (csv_char d c @ r) = csv_read d nl InField (f @ [c]) row r"
  using assms(2-4) by (auto simp: csv_char_def read_simps dialect_okD [OF assms(1)])

lemma read_plain_body:
  assumes "dialect_ok d nl"
  shows "\<not> csv_quoted d s \<Longrightarrow>
     csv_read d nl InField f row (concat (map (csv_char d) s) @ r) = csv_read d nl InField (f @ s) row r"
proof (induction s arbitrary: f)
  case (Cons c s)
  have c: "c \<noteq> dl_quote d" "c \<noteq> dl_delim d" "c \<noteq> nl"
    using plain_char [OF Cons.prems _ assms, of c] by auto
  have "\<not> csv_quoted d s" using Cons.prems by (auto simp: csv_quoted_def)
  with Cons.IH show ?case by (simp add: read_plain_char [OF assms c])
qed simp

text \<open>From the start of a field, up to the delimiter or the end of the row.\<close>

lemma start_field:
  assumes ok: "dialect_ok d nl" and t: "t = dl_delim d # r \<or> t = nl # r" "c # cs = csv_field d s @ t"
  shows "read_start d nl [] row c cs =
     (if t = dl_delim d # r then csv_read d nl StartField [] (row @ [s]) r
      else (row @ [s]) # csv_rows d nl r)"
proof -
  note simps = dialect_okD [OF ok] csv_field_def Let_def read_start_def read_simps
  show ?thesis
  proof (cases "csv_quoted d s")
    case True
    then have c: "c = dl_quote d" "cs = concat (map (csv_char d) s) @ dl_quote d # t"
      using t(2) by (auto simp: csv_field_def Let_def)
    have "read_start d nl [] row c cs = csv_read d nl InQuoted ([] @ s) row (dl_quote d # t)"
      using read_quoted_body [OF ok, of "[]" row s] c by (simp add: simps)
    with t(1) show ?thesis by (elim disjE) (simp_all add: simps)
  next
    case False
    show ?thesis
    proof (cases s)
      case Nil
      then show ?thesis using t False by (elim disjE) (simp_all add: simps)
    next
      case (Cons a as)
      have a: "a \<noteq> dl_quote d" "a \<noteq> dl_delim d" "a \<noteq> nl"
        using plain_char [OF False _ ok, of a] Cons by auto
      have "\<not> csv_quoted d as" using False Cons by (auto simp: csv_quoted_def)
      then have body: "csv_read d nl InField [a] row (concat (map (csv_char d) as) @ t)
          = csv_read d nl InField s row t"
        using read_plain_body [OF ok, of as "[a]" row t] Cons by simp
      have "read_start d nl [] row c cs = csv_read d nl InField s row t"
        using t(2) False Cons a body
        by (cases "Some a = dl_esc d") (simp_all add: simps csv_char_def)
      with t(1) show ?thesis by (elim disjE) (simp_all add: simps)
    qed
  qed
qed

lemma read_fields:
  assumes ok: "dialect_ok d nl"
  shows "fs \<noteq> [] \<Longrightarrow>
     csv_read d nl StartField [] row (join [dl_delim d] (map (csv_field d) fs) @ nl # r)
       = (row @ fs) # csv_rows d nl r"
proof (induction fs arbitrary: row rule: induct_list012)
  case (2 s)
  obtain c cs where c: "csv_field d s @ nl # r = c # cs" by (cases "csv_field d s") auto
  show ?case
    using start_field [OF ok, of "nl # r" r c cs s row] c dialect_okD [OF ok]
    by (simp add: read_simps)
next
  case (3 s t fs)
  let ?rest = "join [dl_delim d] (map (csv_field d) (t # fs)) @ nl # r"
  obtain c cs where c: "csv_field d s @ dl_delim d # ?rest = c # cs" by (cases "csv_field d s") auto
  show ?case
    using start_field [OF ok, of "dl_delim d # ?rest" ?rest c cs s row] c "3.IH"(2) [of "row @ [s]"]
    by (simp add: read_simps)
qed simp

lemma csv_field_Nil: "csv_field d s = [] \<longleftrightarrow> s = []"
  by (cases s) (auto simp: csv_field_def csv_quoted_def csv_char_def Let_def)

lemma csv_field_hd: "dialect_ok d nl \<Longrightarrow> csv_field d s \<noteq> [] \<Longrightarrow> hd (csv_field d s) \<noteq> nl"
  using plain_char [of d s "hd s" nl]
  by (cases s) (auto simp: csv_field_def csv_char_def dialect_okD Let_def)

lemma join_fields:
  assumes "dialect_ok d nl" "row \<noteq> []" "join [dl_delim d] (map (csv_field d) row) \<noteq> []"
  shows "hd (join [dl_delim d] (map (csv_field d) row)) \<noteq> nl"
proof (cases row rule: list.exhaust)
  case (Cons s ss)
  show ?thesis
  proof (cases ss)
    case Nil
    then show ?thesis using assms Cons csv_field_hd by auto
  next
    case (Cons t ts)
    then show ?thesis using assms \<open>row = s # ss\<close> csv_field_hd [OF assms(1), of s]
      by (cases "csv_field d s") (auto simp: dialect_okD)
  qed
qed (use assms in simp)

text \<open>One written row is read back, whatever follows it.\<close>

lemma read_row:
  assumes ok: "dialect_ok d nl"
  shows "csv_rows d nl (csv_writerow d row @ r) = row # csv_rows d nl r"
proof -
  let ?text = "join [dl_delim d] (map (csv_field d) row)"
  note simps = dialect_okD [OF ok] csv_writerow_def read_simps read_start_def Let_def
  consider "row = []" | "row \<noteq> []" "?text = []" | "row \<noteq> []" "?text \<noteq> []" by blast
  then show ?thesis
  proof cases
    case 1
    then show ?thesis by (simp add: simps)
  next
    case 2
    then obtain s ss where row: "row = s # ss" by (cases row) auto
    with 2 have "row = [[]]" by (cases ss) (auto simp: csv_field_Nil)
    then show ?thesis using 2 by (simp add: simps)
  next
    case 3
    then obtain c cs where c: "?text = c # cs" by (cases ?text) auto
    have "c \<noteq> nl" using join_fields [OF ok 3] c by simp
    then show ?thesis
      using read_fields [OF ok 3(1), of "[]" r] c 3 by (simp add: simps)
  qed
qed

lemma read_rows:
  assumes "dialect_ok d nl"
  shows "csv_rows d nl (concat (map (csv_writerow d) rows)) = rows"
  by (induction rows) (simp_all add: read_row [OF assms])

section \<open>The default encoding\<close>

definition utf8_char :: "char \<Rightarrow> bytes" where
  "utf8_char c = (let n = (of_char c :: nat) in
     if n < 128 then [c] else [char_of (192 + n div 64), char_of (128 + n mod 64)])"

definition utf8 :: "string \<Rightarrow> bytes" where
  "utf8 s = concat (map utf8_char s)"

fun utf8_decode :: "bytes \<Rightarrow> string" where
  "utf8_decode [] = []"
| "utf8_decode [b] = [b]"
| "utf8_decode (b # c # bs) =
     (let m = (of_char b :: nat); n = (of_char c :: nat) in
      if m < 128 then b # utf8_decode (c # bs)
      else char_of ((m - 192) * 64 + (n - 128)) # utf8_decode bs)"

lemma of_char_bound: "(of_char c :: nat) < 256"
  by (metis char_of_char of_char_of mod_less_divisor zero_less_numeral)

lemma utf8_decode_char: "utf8_decode (utf8_char c @ bs) = c # utf8_decode bs"
proof (cases "(of_char c :: nat) < 128")
  case True
  then show ?thesis by (cases bs) (simp_all add: utf8_char_def)
next
  case False
  have b: "of_char c div 64 \<le> (3 :: nat)" using of_char_bound [of c] by (simp add: less_mult_imp_div_less less_Suc_eq_le [symmetric])
  then have m: "(192 + of_char c div 64) mod 256 = (192 + of_char c div 64 :: nat)"
    "(128 + of_char c mod 64) mod 256 = (128 + of_char c mod 64 :: nat)" by simp_all
  have "of_char c div 64 * 64 + of_char c mod 64 = (of_char c :: nat)" by simp
  with False m show ?thesis by (simp add: utf8_char_def Let_def)
qed

lemma utf8_decode_utf8: "utf8_decode (utf8 s) = s"
  by (induction s) (simp_all add: utf8_def utf8_decode_char)

lemma utf8_concat: "concat (map utf8 ss) = utf8 (concat ss)"
  by (induction ss) (simp_all add: utf8_def)

section \<open>What a CSV run writes\<close>

fun row_values :: "wrecord \<Rightarrow> wval list" where
  "row_values (WRow vs) = vs"
| "row_values _ = []"

lemma note_value_or:
  "saw_missing (note_value v s) \<longleftrightarrow> saw_missing s \<or> v = WMissing"
  "saw_none (note_value v s) \<longleftrightarrow> saw_none s \<or> v = WVal PyNone"
  by (simp_all add: note_value_def)

text \<open>
  The state of a CSV run in which nothing has gone wrong: a missing and a null value have not
  both been seen under the same marker.
\<close>

definition markers_apart :: "csv_writer \<Rightarrow> csv_state \<Rightarrow> bool" where
  "markers_apart w s \<longleftrightarrow>
     \<not> (saw_missing s \<and> saw_none s \<and> cw_missing_marker w = cw_null_marker w)"

lemma marker_check: "validate_marker_distinction w s = Inr u \<longleftrightarrow> markers_apart w s"
  by (simp add: validate_marker_distinction_def markers_apart_def)

lemma serialize_row_facts:
  "serialize_row w vs s = Inr (texts, t) \<Longrightarrow>
     texts = map (serialize_value w) vs
     \<and> (saw_missing t \<longleftrightarrow> saw_missing s \<or> WMissing \<in> set vs)
     \<and> (saw_none t \<longleftrightarrow> saw_none s \<or> WVal PyNone \<in> set vs)
     \<and> (markers_apart w s \<longrightarrow> markers_apart w t)"
proof (induction vs arbitrary: s texts)
  case (Cons v vs)
  from Cons.prems obtain ts where ts: "serialize_row w vs (note_value v s) = Inr (ts, t)"
    "texts = serialize_value w v # ts" "markers_apart w (note_value v s)"
    by (auto simp: Let_def rbind_Inr_iff marker_check)
  from Cons.IH [OF ts(1)] ts(2,3) show ?case
    by (auto simp: note_value_or)
qed simp

lemma csv_row_step_facts:
  assumes "csv_row_step w s r = Inr (texts, t)"
  shows "texts = map (serialize_value w) (row_values r)" "r = WRow (row_values r)"
    "saw_missing t \<longleftrightarrow> saw_missing s \<or> WMissing \<in> set (row_values r)"
    "saw_none t \<longleftrightarrow> saw_none s \<or> WVal PyNone \<in> set (row_values r)"
    "markers_apart w s \<longrightarrow> markers_apart w t"
    "\<forall>cs. cw_columns w = Some cs \<longrightarrow> length texts = length cs"
proof -
  from assms obtain vs where r: "r = WRow vs" and vs: "serialize_row w vs s = Inr (texts, t)"
    and n: "\<forall>cs. cw_columns w = Some cs \<longrightarrow> length vs = length cs"
    by (cases r) (auto simp: csv_row_step_def rbind_Inr_iff split: if_splits option.splits)
  note f = serialize_row_facts [OF vs]
  show "texts = map (serialize_value w) (row_values r)" "r = WRow (row_values r)"
    "saw_missing t \<longleftrightarrow> saw_missing s \<or> WMissing \<in> set (row_values r)"
    "saw_none t \<longleftrightarrow> saw_none s \<or> WVal PyNone \<in> set (row_values r)"
    "markers_apart w s \<longrightarrow> markers_apart w t"
    "\<forall>cs. cw_columns w = Some cs \<longrightarrow> length texts = length cs"
    using f n r by auto
qed

text \<open>The CSV writer as a stage: its markers stay apart and every chunk is an encoded row.\<close>

definition csv_chunk :: "codec \<Rightarrow> csv_writer \<Rightarrow> dialect \<Rightarrow> bytes \<Rightarrow> bool" where
  "csv_chunk codec w d chunk \<longleftrightarrow>
     (\<exists>texts. codec (cw_encoding w) (csv_writerow d texts) = Inr chunk
        \<and> (\<forall>cs. cw_columns w = Some cs \<longrightarrow> length texts = length cs))"

lemma csv_step_Go:
  assumes "csv_step codec w d s r = Go t y"
  obtains chunk texts where "y = Some chunk" "csv_row_step w s r = Inr (texts, t)"
    "codec (cw_encoding w) (csv_writerow d texts) = Inr chunk"
  using assms by (auto simp: csv_step_def split: sum.splits)

lemma csv_step_row:
  "csv_row_step w s r = Inr (texts, t) \<Longrightarrow> codec (cw_encoding w) (csv_writerow d texts) = Inr chunk
     \<Longrightarrow> csv_step codec w d s r = Go t (Some chunk)"
  by (simp add: csv_step_def)

lemma csv_stage_laws: "stage (csv_step codec w d) (markers_apart w) (csv_chunk codec w d)"
proof
  fix s x t z
  assume "markers_apart w s" "csv_step codec w d s x = Go t z"
  then show "markers_apart w t" by (auto elim: csv_step_Go dest: csv_row_step_facts(5))
next
  fix s x t
  assume "csv_step codec w d s x = Halt t"
  then show "markers_apart w t" by (auto simp: csv_step_def split: sum.splits)
next
  fix s x t e
  assume "markers_apart w s" "csv_step codec w d s x = Fail t e"
  then show "markers_apart w t"
    by (auto simp: csv_step_def split: sum.splits dest: csv_row_step_facts(5))
next
  fix s x t y
  assume "csv_step codec w d s x = Go t (Some y)"
  then show "csv_chunk codec w d y"
    by (auto elim!: csv_step_Go simp: csv_chunk_def dest: csv_row_step_facts(6))
qed

interpretation csv_stage: stage "csv_step codec w d" "markers_apart w" "csv_chunk codec w d"
  for codec w d
  by (rule csv_stage_laws)

definition row_texts :: "csv_writer \<Rightarrow> wrecord \<Rightarrow> string list" where
  "row_texts w r = map (serialize_value w) (row_values r)"

definition csv_header :: "csv_writer \<Rightarrow> string list list" where
  "csv_header w = (if cw_include_header w then
     (case cw_columns w of None \<Rightarrow> [] | Some cs \<Rightarrow> [cs]) else [])"

lemma csv_run_facts:
  assumes "\<And>s. codec (cw_encoding w) s = Inr (utf8 s)"
    "run (csv_step codec w d) s (gen_of rs None) = (out, t)" "gen_end out = None"
  shows "concat (gen_items out) = utf8 (concat (map (csv_writerow d) (map (row_texts w) rs)))"
    and "saw_missing t \<longleftrightarrow> saw_missing s \<or> (\<exists>r \<in> set rs. WMissing \<in> set (row_values r))"
    and "saw_none t \<longleftrightarrow> saw_none s \<or> (\<exists>r \<in> set rs. WVal PyNone \<in> set (row_values r))"
proof -
  have "concat (gen_items out) = utf8 (concat (map (csv_writerow d) (map (row_texts w) rs)))
      \<and> (saw_missing t \<longleftrightarrow> saw_missing s \<or> (\<exists>r \<in> set rs. WMissing \<in> set (row_values r)))
      \<and> (saw_none t \<longleftrightarrow> saw_none s \<or> (\<exists>r \<in> set rs. WVal PyNone \<in> set (row_values r)))"
    using assms(2,3)
  proof (induction rs arbitrary: s out)
    case (Cons r rs)
    show ?case
    proof (cases "csv_row_step w s r")
      case (Inl e)
      with Cons.prems show ?thesis by (auto simp: csv_step_def)
    next
      case (Inr p)
      obtain texts s' where p: "p = (texts, s')" by (cases p)
      note f = csv_row_step_facts [OF Inr [unfolded p]]
      obtain out' where out': "run (csv_step codec w d) s' (gen_of rs None) = (out', t)"
        "out = Yield (utf8 (csv_writerow d texts)) out'"
        using Cons.prems csv_step_row [of w s r texts s' codec d, OF Inr [unfolded p] assms(1)]
        by (cases "run (csv_step codec w d) s' (gen_of rs None)") auto
      then have "gen_end out' = None" using Cons.prems by simp
      note ih = Cons.IH [OF out'(1) this]
      have "utf8 (a @ b) = utf8 a @ utf8 b" for a b by (simp add: utf8_def)
      moreover have "texts = row_texts w r" using f(1) by (simp add: row_texts_def)
      ultimately have
        "concat (gen_items out) = utf8 (concat (map (csv_writerow d) (map (row_texts w) (r # rs))))"
        using ih out'(2) by simp
      with ih f(3,4) show ?thesis by auto
    qed
  qed (auto simp: utf8_def)
  then show "concat (gen_items out) = utf8 (concat (map (csv_writerow d) (map (row_texts w) rs)))"
    and "saw_missing t \<longleftrightarrow> saw_missing s \<or> (\<exists>r \<in> set rs. WMissing \<in> set (row_values r))"
    and "saw_none t \<longleftrightarrow> saw_none s \<or> (\<exists>r \<in> set rs. WVal PyNone \<in> set (row_values r))"
    by blast+
qed

text \<open>With two different markers and rows that fit, nothing can go wrong.\<close>

lemma serialize_row_total:
  "cw_missing_marker w \<noteq> cw_null_marker w \<Longrightarrow> \<exists>p. serialize_row w vs s = Inr p"
proof (induction vs arbitrary: s)
  case (Cons v vs)
  obtain ts t where "serialize_row w vs (note_value v s) = Inr (ts, t)"
    using Cons by (metis prod.exhaust)
  then show ?case using Cons.prems by (simp add: validate_marker_distinction_def Let_def)
qed simp

lemma csv_run_total:
  assumes "\<And>s. codec (cw_encoding w) s = Inr (utf8 s)" "cw_missing_marker w \<noteq> cw_null_marker w"
    and "\<forall>r \<in> set rs. \<exists>vs. r = WRow vs \<and> (\<forall>cs. cw_columns w = Some cs \<longrightarrow> length vs = length cs)"
  shows "gen_end (fst (run (csv_step codec w d) s (gen_of rs None))) = None
    \<and> length (gen_items (fst (run (csv_step codec w d) s (gen_of rs None)))) = length rs"
  using assms(3)
proof (induction rs arbitrary: s)
  case (Cons r rs)
  then obtain vs where vs: "r = WRow vs" "\<forall>cs. cw_columns w = Some cs \<longrightarrow> length vs = length cs"
    by auto
  obtain ts t where "serialize_row w vs s = Inr (ts, t)"
    using serialize_row_total [OF assms(2)] by (metis prod.exhaust)
  then have "csv_row_step w s r = Inr (ts, t)"
    using vs by (auto simp: csv_row_step_def split: option.splits)
  from csv_step_row [of w s r ts t codec d, OF this assms(1)] Cons show ?case by simp
qed simp

lemma csv_write_parts:
  assumes "\<And>s. codec (cw_encoding w) s = Inr (utf8 s)" "gen_end (csv_write codec w records) = None"
  obtains d out t where "csv_dialect w = Inr d"
    "run (csv_step codec w d) csv_init records = (out, t)" "gen_end out = None"
    "concat (gen_items (csv_write codec w records))
       = utf8 (concat (map (csv_writerow d) (csv_header w))) @ concat (gen_items out)"
proof -
  obtain d where d: "csv_dialect w = Inr d"
    using assms(2) by (cases "csv_dialect w") (auto simp: csv_write_def)
  obtain out t where out: "run (csv_step codec w d) csv_init records = (out, t)"
    by (cases "run (csv_step codec w d) csv_init records")
  have "gen_end out = None \<and> concat (gen_items (csv_write codec w records))
       = utf8 (concat (map (csv_writerow d) (csv_header w))) @ concat (gen_items out)"
    using assms d out
    by (auto simp: csv_write_def csv_header_def drain_is_run utf8_def split: option.splits if_splits)
  with d out that show ?thesis by blast
qed

text \<open>
  A CSV feed written to its end reads back as it was meant: under the default encoding,
  with a one-character line end and a sound dialect, the bytes the writer delivers are read
  as the header (when it is asked for) followed by the serialised values of every record, in
  order; quoting, doubled quotes, escapes and the quoted lone empty field lose nothing.
\<close>

theorem csv_feed_reads_back:
  assumes "csv_dialect w = Inr d" "dialect_ok d nl"
    and "\<And>s. codec (cw_encoding w) s = Inr (utf8 s)"
    and "gen_end (csv_write codec w (gen_of records None)) = None"
  shows "csv_rows d nl (utf8_decode (concat (gen_items (csv_write codec w (gen_of records None)))))
           = csv_header w @ map (row_texts w) records"
proof -
  obtain d' out t where d': "csv_dialect w = Inr d'"
    and run: "run (csv_step codec w d') csv_init (gen_of records None) = (out, t)" "gen_end out = None"
    and bytes: "concat (gen_items (csv_write codec w (gen_of records None)))
       = utf8 (concat (map (csv_writerow d') (csv_header w))) @ concat (gen_items out)"
    by (rule csv_write_parts [OF assms(3,4)])
  with assms(1) have [simp]: "d' = d" by simp
  have app: "utf8 (a @ b) = utf8 a @ utf8 b" for a b by (simp add: utf8_def)
  have "concat (gen_items (csv_write codec w (gen_of records None)))
      = utf8 (concat (map (csv_writerow d) (csv_header w @ map (row_texts w) records)))"
    using bytes csv_run_facts(1) [OF assms(3) run] by (simp add: app)
  then show ?thesis by (simp only: utf8_decode_utf8 read_rows [OF assms(2)])
qed

text \<open>
  The writer never lets a missing value and a null value become the same cell: a CSV feed
  that was written to its end and that held both has two different markers for them.
\<close>

theorem csv_markers_apart:
  assumes "\<And>s. codec (cw_encoding w) s = Inr (utf8 s)"
    and "gen_end (csv_write codec w (gen_of records None)) = None"
    and "r1 \<in> set records" "WMissing \<in> set (row_values r1)"
    and "r2 \<in> set records" "WVal PyNone \<in> set (row_values r2)"
  shows "serialize_value w WMissing \<noteq> serialize_value w (WVal PyNone)"
proof -
  obtain d out t where d: "csv_dialect w = Inr d"
    and run: "run (csv_step codec w d) csv_init (gen_of records None) = (out, t)" "gen_end out = None"
    by (rule csv_write_parts [OF assms(1,2)])
  have "markers_apart w (snd (run (csv_step codec w d) csv_init (gen_of records None)))"
    by (rule csv_stage.run_inv) (simp add: markers_apart_def csv_init_def)
  with run(1) csv_run_facts(2,3) [OF assms(1) run] assms(3-6) show ?thesis
    by (auto simp: markers_apart_def)
qed

section \<open>A reader of flat JSON objects\<close>

definition hex_val :: "char \<Rightarrow> nat" where
  "hex_val c = (let n = of_char c in if n < 58 then n - 48 else n - 87)"

fun json_one :: "string \<Rightarrow> (char \<times> string) option" where
  "json_one [] = None"
| "json_one (c # cs) =
     (if c \<noteq> CHR 0x5C then Some (c, cs)
      else case cs of
        [] \<Rightarrow> None
      | e # r \<Rightarrow>
          if e = CHR ''u'' then
            (if length r < 4 then None
             else Some (char_of (hex_val (r ! 2) * 16 + hex_val (r ! 3)), drop 4 r))
          else map_option (\<lambda>x. (x, r))
            (map_of [(CHR 0x22, CHR 0x22), (CHR 0x5C, CHR 0x5C), (CHR ''n'', CHR 0x0A),
               (CHR ''r'', CHR 0x0D), (CHR ''t'', CHR 0x09), (CHR ''b'', CHR 0x08),
               (CHR ''f'', CHR 0x0C)] e))"

lemma json_one_shrinks: "json_one s = Some (c, r) \<Longrightarrow> length r < length s"
  by (cases s) (auto split: if_splits list.splits)

function json_chars :: "string \<Rightarrow> (string \<times> string) option" where
  "json_chars s =
     (case json_one s of
        None \<Rightarrow> None
      | Some (c, r) \<Rightarrow>
          if hd s = CHR 0x22 then Some ([], tl s)
          else map_option (apfst (Cons c)) (json_chars r))"
  by pat_completeness auto

termination
  by (relation "measure length") (auto dest: json_one_shrinks)

declare json_chars.simps [simp del]

lemma json_chars_shrinks: "json_chars s = Some (t, r) \<Longrightarrow> length r < length s"
proof (induction s arbitrary: t rule: json_chars.induct)
  case (1 s)
  show ?case
  proof (cases "json_one s")
    case None
    with 1(2) show ?thesis by (simp add: json_chars.simps [of s])
  next
    case (Some p)
    obtain c u where p: "p = (c, u)" by (cases p)
    have s: "s \<noteq> []" using Some by auto
    show ?thesis
    proof (cases "hd s = CHR 0x22")
      case True
      with 1(2) Some p have "r = tl s" by (simp add: json_chars.simps [of s])
      with s show ?thesis by simp
    next
      case False
      then obtain t' where "json_chars u = Some (t', r)"
        using 1(2) Some p by (auto simp: json_chars.simps [of s])
      with 1(1) [OF Some p [symmetric] False] p have "length r < length u" by blast
      with json_one_shrinks [of s c u] Some p show ?thesis by simp
    qed
  qed
qed

fun json_string_at :: "string \<Rightarrow> (string \<times> string) option" where
  "json_string_at (c # cs) = (if c = CHR 0x22 then json_chars cs else None)"
| "json_string_at [] = None"

definition json_field :: "string \<Rightarrow> ((string \<times> string option) \<times> string) option" where
  "json_field s =
     (case json_string_at s of
        Some (k, c # r) \<Rightarrow>
          if c \<noteq> CHR '':'' then None
          else if take 4 r = ''null'' then Some ((k, None), drop 4 r)
          else map_option (\<lambda>(v, t). ((k, Some v), t)) (json_string_at r)
      | _ \<Rightarrow> None)"

lemma json_string_at_shrinks: "json_string_at s = Some (k, r) \<Longrightarrow> length r < length s"
  by (cases s) (auto split: if_splits dest: json_chars_shrinks)

lemma json_field_shrinks: "json_field s = Some (kv, r) \<Longrightarrow> length r < length s"
  by (auto simp: json_field_def split: option.splits list.splits if_splits
      dest!: json_string_at_shrinks)

function json_fields :: "string \<Rightarrow> (string \<times> string option) list option" where
  "json_fields s =
     (case json_field s of
        Some (kv, c # r) \<Rightarrow>
          if c = CHR ''}'' then (if r = [] then Some [kv] else None)
          else if c = CHR '','' then map_option (Cons kv) (json_fields r)
          else None
      | _ \<Rightarrow> None)"
  by pat_completeness auto

termination
  by (relation "measure length") (auto dest: json_field_shrinks)

declare json_fields.simps [simp del]

definition json_line :: "string \<Rightarrow> (string \<times> string option) list option" where
  "json_line s =
     (case s of
        c # r \<Rightarrow> if c \<noteq> CHR ''{'' then None else if r = ''}'' then Some [] else json_fields r
      | [] \<Rightarrow> None)"

lemma hex_digits:
  assumes "n < 16"
  shows "hex_val (hex_digit n) = n" "32 \<le> (of_char (hex_digit n) :: nat)"
proof -
  have "list_all (\<lambda>n. hex_val (hex_digit n) = n \<and> 32 \<le> (of_char (hex_digit n) :: nat)) [0..<16]"
    by code_simp
  with assms show "hex_val (hex_digit n) = n" "32 \<le> (of_char (hex_digit n) :: nat)"
    by (simp_all add: list_all_iff)
qed

lemma json_one_char: "json_one (json_char ea c @ r) = Some (c, r)"
proof -
  have "of_char c div 16 < (16 :: nat)" "of_char c mod 16 < (16 :: nat)"
    using of_char_bound [of c] by (simp_all add: less_mult_imp_div_less)
  note h = hex_digits(1) [OF this(1)] hex_digits(1) [OF this(2)]
  have "of_char c div 16 * 16 + of_char c mod 16 = (of_char c :: nat)" by simp
  with h show ?thesis by (simp add: json_char_def Let_def)
qed

lemma json_char_hd: "hd (json_char ea c @ r) \<noteq> CHR 0x22"
  by (simp add: json_char_def Let_def)

lemma json_char_printable:
  assumes "x \<in> set (json_char ea c)"
  shows "32 \<le> (of_char x :: nat)"
proof -
  have "of_char c div 16 < (16 :: nat)" "of_char c mod 16 < (16 :: nat)"
    using of_char_bound [of c] by (simp_all add: less_mult_imp_div_less)
  note h = hex_digits(2) [OF this(1)] hex_digits(2) [OF this(2)]
  with assms show ?thesis by (auto simp: json_char_def Let_def not_less split: if_splits)
qed

lemma json_chars_body:
  "json_chars (concat (map (json_char ea) s) @ CHR 0x22 # r) = Some (s, r)"
proof (induction s)
  case Nil
  then show ?case by (simp add: json_chars.simps)
next
  case (Cons c s)
  then show ?case
    by (subst json_chars.simps)
      (use json_one_char [of ea c] json_char_hd [of ea c] in \<open>simp add: json_char_hd\<close>)
qed

lemma json_string_read: "json_string_at (json_string ea s @ r) = Some (s, r)"
  by (simp add: json_string_def json_chars_body)

lemma json_string_printable: "x \<in> set (json_string ea s) \<Longrightarrow> 32 \<le> (of_char x :: nat)"
  by (auto simp: json_string_def json_char_printable)

section \<open>What a JSONL run writes\<close>

text \<open>The objects the producer sends: string keys; strings, nulls and missing values.\<close>

fun flat_field :: "pyval \<times> wval \<Rightarrow> bool" where
  "flat_field (k, WMissing) = is_str k"
| "flat_field (k, WVal v) = (is_str k \<and> (v = PyNone \<or> is_str v))"

fun flat_record :: "wrecord \<Rightarrow> bool" where
  "flat_record (WObject kvs) = (\<forall>kv \<in> set kvs. flat_field kv)"
| "flat_record _ = False"

fun kept_field :: "bool \<Rightarrow> pyval \<times> wval \<Rightarrow> (string \<times> pyval) option" where
  "kept_field omit_nulls (PyStr k, WVal v) = (if omit_nulls \<and> v = PyNone then None else Some (k, v))"
| "kept_field omit_nulls _ = None"

text \<open>What a reader should get: the fields that are neither missing nor omitted nulls.\<close>

fun object_fields :: "jsonl_writer \<Rightarrow> wrecord \<Rightarrow> (string \<times> string option) list" where
  "object_fields w (WObject kvs) =
     (let d = List.map_filter (kept_field (jw_omit_nulls w)) kvs
      in map (apsnd as_str) (if jw_sort_keys w then sort_key fst d else d))"
| "object_fields w _ = []"

lemma is_strE: "is_str v \<Longrightarrow> (\<And>s. v = PyStr s \<Longrightarrow> P) \<Longrightarrow> P"
  by (cases v) auto

lemma filter_record_flat:
  "\<forall>kv \<in> set kvs. flat_field kv \<Longrightarrow>
     filter_record omit kvs = Inr (List.map_filter (kept_field omit) kvs)"
proof (induction kvs)
  case (Cons kv kvs)
  then show ?case
    by (cases kv rule: flat_field.cases) (auto elim!: is_strE)
qed simp

lemma kept_flat:
  "\<forall>kv \<in> set kvs. flat_field kv \<Longrightarrow> (k, v) \<in> set (List.map_filter (kept_field omit) kvs)
     \<Longrightarrow> v = PyNone \<or> is_str v"
proof (induction kvs)
  case (Cons kv kvs)
  then show ?case
    by (cases kv rule: flat_field.cases) (auto elim!: is_strE split: if_splits)
qed simp

definition json_pair :: "bool \<Rightarrow> string \<times> pyval \<Rightarrow> string" where
  "json_pair ea = (\<lambda>(k, v). json_string ea k @ '':''
     @ (case as_str v of None \<Rightarrow> ''null'' | Some s \<Rightarrow> json_string ea s))"

lemma json_value_flat:
  assumes "\<forall>(k, v) \<in> set d. v = PyNone \<or> is_str v"
  shows "json_value ea sk (PyDict d) =
     Inr (''{'' @ join '','' (map (json_pair ea) (if sk then sort_key fst d else d)) @ ''}'')"
proof -
  let ?d = "if sk then sort_key fst d else d"
  have "rmap (\<lambda>(k, v). rbind (json_value ea sk v) (\<lambda>t. Inr (json_string ea k @ '':'' @ t))) ?d
      = Inr (map (json_pair ea) ?d)"
    by (rule rmap_total)
      (use assms in \<open>auto simp: json_pair_def elim!: is_strE dest!: bspec split: if_splits\<close>)
  then show ?thesis by (simp only: json_value.simps rbind.simps)
qed

lemma json_field_pair: "v = PyNone \<or> is_str v \<Longrightarrow> json_field (json_pair ea (k, v) @ r) = Some ((k, as_str v), r)"
  by (auto simp: json_pair_def json_field_def json_string_read json_string_def json_chars_body
      elim!: is_strE)

lemma json_fields_pairs:
  "d \<noteq> [] \<Longrightarrow> \<forall>(k, v) \<in> set d. v = PyNone \<or> is_str v \<Longrightarrow>
     json_fields (join '','' (map (json_pair ea) d) @ ''}'') = Some (map (apsnd as_str) d)"
proof (induction d rule: induct_list012)
  case (2 kv)
  then show ?case by (cases kv) (simp add: json_fields.simps json_field_pair)
next
  case (3 kv kw d)
  then show ?case
    by (cases kv) (subst json_fields.simps, simp add: json_field_pair)
qed simp

lemma json_line_object:
  assumes "\<forall>(k, v) \<in> set d. v = PyNone \<or> is_str v"
  shows "json_line (''{'' @ join '','' (map (json_pair ea) d) @ ''}'') = Some (map (apsnd as_str) d)"
proof (cases d)
  case (Cons kv d')
  have ne: "join '','' (map (json_pair ea) d) @ ''}'' \<noteq> ''}''"
    using Cons by (cases d'; cases kv) (auto simp: json_pair_def json_string_def)
  have "json_fields (join '','' (map (json_pair ea) d) @ ''}'') = Some (map (apsnd as_str) d)"
    by (rule json_fields_pairs) (use Cons assms in auto)
  with ne show ?thesis by (simp add: json_line_def)
qed (simp add: json_line_def)

lemma set_join: "x \<in> set (join sep ts) \<Longrightarrow> x \<in> set sep \<or> (\<exists>t \<in> set ts. x \<in> set t)"
  by (induction sep ts rule: join.induct) auto

lemma json_pair_printable:
  assumes "x \<in> set (json_pair ea (k, v))"
  shows "32 \<le> (of_char x :: nat)"
proof -
  have "x \<in> set (json_string ea k) \<or> x \<in> set '':'' \<or> x \<in> set ''null''
      \<or> (\<exists>s. x \<in> set (json_string ea s))"
    using assms by (auto simp: json_pair_def split: option.splits)
  then show ?thesis
    by (elim disjE exE) (auto dest!: json_string_printable)
qed

lemma json_object_printable:
  assumes "x \<in> set (''{'' @ join '','' (map (json_pair ea) d) @ ''}'')"
  shows "32 \<le> (of_char x :: nat)"
proof -
  have "x \<in> {CHR ''{'', CHR '','', CHR ''}''} \<or> (\<exists>kv \<in> set d. x \<in> set (json_pair ea kv))"
    using assms set_join [of x "'',''" "map (json_pair ea) d"] by auto
  then show ?thesis
  proof
    assume "\<exists>kv \<in> set d. x \<in> set (json_pair ea kv)"
    then obtain k v where "x \<in> set (json_pair ea (k, v))" by auto
    then show ?thesis by (rule json_pair_printable)
  qed auto
qed

text \<open>One line: printable text that reads back as the object.\<close>

lemma jsonl_text_flat:
  assumes "flat_record r"
  obtains t where "jsonl_text w r = Inr (t @ jw_line_terminator w)"
    "json_line t = Some (object_fields w r)" "\<forall>x \<in> set t. 32 \<le> (of_char x :: nat)"
proof -
  obtain kvs where r: "r = WObject kvs" and flat: "\<forall>kv \<in> set kvs. flat_field kv"
    using assms by (cases r) auto
  let ?d = "List.map_filter (kept_field (jw_omit_nulls w)) kvs"
  let ?e = "if jw_sort_keys w then sort_key fst ?d else ?d"
  let ?t = "''{'' @ join '','' (map (json_pair (jw_ensure_ascii w)) ?e) @ ''}''"
  have d: "\<forall>(k, v) \<in> set ?d. v = PyNone \<or> is_str v" using kept_flat [OF flat] by blast
  then have e: "\<forall>(k, v) \<in> set ?e. v = PyNone \<or> is_str v" by auto
  have "jsonl_text w r = Inr (?t @ jw_line_terminator w)"
    using json_value_flat [OF d] filter_record_flat [OF flat] r
    by (simp only: jsonl_text.simps rbind.simps)
  moreover have "json_line ?t = Some (object_fields w r)"
    unfolding json_line_object [OF e] r object_fields.simps Let_def ..
  moreover have "\<forall>x \<in> set ?t. 32 \<le> (of_char x :: nat)"
    using json_object_printable by blast
  ultimately show ?thesis by (rule that)
qed

lemma split_on_lines:
  "\<forall>t \<in> set ts. c \<notin> set t \<Longrightarrow> split_on c (concat (map (\<lambda>t. t @ [c]) ts)) = ts @ [[]]"
  by (induction ts) (simp_all add: split_on_append)

lemma jsonl_run_facts:
  assumes "\<And>s. codec (jw_encoding w) s = Inr (utf8 s)" "\<forall>r \<in> set rs. flat_record r"
  shows "\<exists>ts. fst (run (jsonl_step codec w) () (gen_of rs None))
              = gen_of (map (\<lambda>t. utf8 (t @ jw_line_terminator w)) ts) None
           \<and> map json_line ts = map (\<lambda>r. Some (object_fields w r)) rs
           \<and> (\<forall>t \<in> set ts. \<forall>x \<in> set t. 32 \<le> (of_char x :: nat))"
  using assms(2)
proof (induction rs)
  case (Cons r rs)
  then obtain ts where ts: "fst (run (jsonl_step codec w) () (gen_of rs None))
              = gen_of (map (\<lambda>t. utf8 (t @ jw_line_terminator w)) ts) None"
    "map json_line ts = map (\<lambda>r. Some (object_fields w r)) rs"
    "\<forall>t \<in> set ts. \<forall>x \<in> set t. 32 \<le> (of_char x :: nat)" by auto
  from Cons.prems have "flat_record r" by simp
  then obtain t where t: "jsonl_text w r = Inr (t @ jw_line_terminator w)"
    "json_line t = Some (object_fields w r)" "\<forall>x \<in> set t. 32 \<le> (of_char x :: nat)"
    by (rule jsonl_text_flat)
  have "jsonl_step codec w () r = Go () (Some (utf8 (t @ jw_line_terminator w)))"
    using t(1) assms(1) by (simp add: jsonl_step_def)
  with ts t show ?case by (intro exI [of _ "t # ts"]) auto
qed simp

text \<open>The bytes of printable lines, decoded and split, are the lines.\<close>

lemma read_lines:
  assumes "\<forall>t \<in> set ts. \<forall>x \<in> set t. 32 \<le> (of_char x :: nat)"
  shows "map json_line (split_on (CHR 0x0A)
      (utf8_decode (concat (map (\<lambda>t. utf8 (t @ [CHR 0x0A])) ts)))) = map json_line ts @ [None]"
proof -
  have no: "\<forall>t \<in> set ts. CHR 0x0A \<notin> set t" using assms by fastforce
  have "concat (map (\<lambda>t. utf8 (t @ [CHR 0x0A])) ts) = utf8 (concat (map (\<lambda>t. t @ [CHR 0x0A]) ts))"
    unfolding utf8_concat [symmetric] by (simp add: comp_def)
  then show ?thesis using split_on_lines [OF no] by (simp add: utf8_decode_utf8 json_line_def)
qed

text \<open>
  A JSONL feed of the objects the producer sends never fails under the default encoding and
  line end; its bytes split into exactly one line per record, and each line reads back as the
  record's fields: missing values left out, nulls kept or omitted as configured, keys in
  record order or sorted, every escape undone.
\<close>

theorem jsonl_feed_reads_back:
  assumes "\<And>s. codec (jw_encoding w) s = Inr (utf8 s)" "jw_line_terminator w = [CHR 0x0A]"
    and "\<forall>r \<in> set records. flat_record r"
  shows "gen_end (jsonl_write codec w (gen_of records None)) = None
     \<and> map json_line (split_on (CHR 0x0A)
          (utf8_decode (concat (gen_items (jsonl_write codec w (gen_of records None))))))
        = map (\<lambda>r. Some (object_fields w r)) records @ [None]"
proof -
  obtain ts where ts: "jsonl_write codec w (gen_of records None)
              = gen_of (map (\<lambda>t. utf8 (t @ [CHR 0x0A])) ts) None"
    "map json_line ts = map (\<lambda>r. Some (object_fields w r)) records"
    "\<forall>t \<in> set ts. \<forall>x \<in> set t. 32 \<le> (of_char x :: nat)"
    using jsonl_run_facts [of codec w records] assms
    by (auto simp: jsonl_write_def drain_is_run)
  then show ?thesis using read_lines [OF ts(3)] by simp
qed

section \<open>A feed written out\<close>

definition sample_csv :: csv_writer where
  "sample_csv = (case csv_writer_new
     [(''columns'', PyList [PyStr ''id'', PyStr ''title'']), (''include_header'', PyBool True),
      (''missing_value_marker'', PyStr ''-'')] [] None of Inr w \<Rightarrow> w)"

definition sample_rows :: "wrecord list" where
  "sample_rows =
     [WRow [WVal (PyStr ''1''), WVal (PyStr [CHR ''a'', CHR '','', CHR 0x22])],
      WRow [WMissing, WVal PyNone]]"

definition sample_codec :: codec where
  "sample_codec = (\<lambda>name s. Inr (utf8 s))"

definition sample_dialect :: dialect where
  "sample_dialect = \<lparr>dl_delim = CHR '','', dl_quote = CHR 0x22, dl_esc = None, dl_term = [CHR 0x0A]\<rparr>"

lemma sample_csv_eq:
  "sample_csv = \<lparr>cw_content_type = ''text/csv'', cw_file_extension = ''.csv'', cw_encoding = ''utf-8'',
     cw_delimiter = '','', cw_quotechar = [CHR 0x22], cw_escapechar = None,
     cw_line_terminator = [CHR 0x0A], cw_include_header = True, cw_missing_marker = ''-'',
     cw_null_marker = [], cw_columns = Some [''id'', ''title'']\<rparr>"
  by (simp add: sample_csv_def csv_writer_new_def read_marker_def parse_columns_def str_or_def
      column_name_def Let_def)

lemma sample_csv_dialect: "csv_dialect sample_csv = Inr sample_dialect"
  by (simp add: csv_dialect_def sample_csv_eq sample_dialect_def)

lemma sample_codec_utf8: "sample_codec name s = Inr (utf8 s)"
  by (simp add: sample_codec_def)

lemma sample_csv_ends: "gen_end (csv_write sample_codec sample_csv (gen_of sample_rows None)) = None"
proof -
  have "cw_include_header sample_csv" "cw_columns sample_csv = Some [''id'', ''title'']"
    "cw_missing_marker sample_csv \<noteq> cw_null_marker sample_csv"
    by (simp_all add: sample_csv_eq)
  then show ?thesis
    by (simp add: csv_write_def sample_csv_dialect drain_is_run sample_rows_def csv_step_def
        csv_row_step_def sample_codec_def validate_marker_distinction_def Let_def)
qed

theorem csv_feed_reads_back_witness:
  "csv_rows sample_dialect (CHR 0x0A)
     (utf8_decode (concat (gen_items (csv_write sample_codec sample_csv (gen_of sample_rows None)))))
   = [[''id'', ''title''], [''1'', [CHR ''a'', CHR '','', CHR 0x22]], [''-'', []]]"
  by (subst csv_feed_reads_back [OF sample_csv_dialect _ sample_codec_utf8 sample_csv_ends])
    (simp_all add: dialect_ok_def sample_dialect_def csv_header_def sample_csv_eq row_texts_def
      sample_rows_def)

theorem csv_markers_apart_witness:
  "serialize_value sample_csv WMissing \<noteq> serialize_value sample_csv (WVal PyNone)"
  by (rule csv_markers_apart [OF sample_codec_utf8 sample_csv_ends,
        of "sample_rows ! 1" "sample_rows ! 1"])
    (simp_all add: sample_rows_def)

definition sample_object :: wrecord where
  "sample_object = WObject [(PyStr ''id'', WVal (PyStr ''1'')), (PyStr ''alt'', WMissing),
     (PyStr ''gtin'', WVal PyNone)]"

theorem jsonl_feed_reads_back_witness:
  "map json_line (split_on (CHR 0x0A) (utf8_decode (concat (gen_items
     (jsonl_write sample_codec (jsonl_writer_new [] []) (gen_of [sample_object] None))))))
   = [Some [(''id'', Some ''1''), (''gtin'', None)], None]"
  using jsonl_feed_reads_back [of sample_codec "jsonl_writer_new [] []" "[sample_object]"]
  by (simp add: sample_codec_utf8 sample_object_def jsonl_writer_new_def str_or_def)

end
