(* ===== verification/PFP_Producer.thy ===== *)
theory PFP_Producer
  imports PFP_Writers PFP_Mapping_Exec PFP_Validation_Exec PFP_Compiler
begin

text \<open>
  The artifact producer (\<open>pfp_core/artifact_production\<close> and the contracts of
  \<open>pfp_core/contracts\<close>): a prepared schema, the loop that validates and maps one product after
  another as a stage of the generator chain, and the artifact that joins it to the writer.

  The validation report is shared with the caller and grows while the payload is pulled; here
  it is part of the state of the producer stage.  The current time is an argument.
\<close>

section \<open>Names\<close>

definition ext_by_target :: "(string, string) odict" where
  "ext_by_target = [(''stripe'', ''.csv''), (''openai'', ''.jsonl'')]"

definition is_alnum :: "char \<Rightarrow> bool" where
  "is_alnum c = (let n = (of_char c :: nat) in
     48 \<le> n \<and> n \<le> 57 \<or> 65 \<le> n \<and> n \<le> 90 \<or> 97 \<le> n \<and> n \<le> 122)"

definition sanitize_part :: "string \<Rightarrow> string" where
  "sanitize_part s =
     map (\<lambda>c. if is_alnum c \<or> c \<in> {CHR ''.'', CHR ''_'', CHR ''-''} then c else CHR ''_'') s"

definition normalize_target_for_extension :: "string \<Rightarrow> string" where
  "normalize_target_for_extension target =
     lower (filter is_alnum (takeWhile (\<lambda>c. c \<notin> {CHR ''.'', CHR ''_'', CHR ''-''}) target))"

definition no_slash :: "string \<Rightarrow> string" where
  "no_slash s = map (\<lambda>c. if c = CHR ''/'' then CHR ''_'' else c) s"

definition make_filename_hint ::
  "string \<Rightarrow> string \<Rightarrow> string \<Rightarrow> string option \<Rightarrow> string result" where
  "make_filename_hint target profile version file_extension =
     (if target = [] then Inl ValueError
      else case file_extension of
        Some ext \<Rightarrow>
          Inr (no_slash target @ ''__'' @ no_slash profile @ ''__v'' @ no_slash version @ ext)
      | None \<Rightarrow>
          (case map_of ext_by_target (normalize_target_for_extension target) of
             None \<Rightarrow> Inl ValueError
           | Some ext \<Rightarrow>
               Inr (sanitize_part target @ ''__'' @ sanitize_part profile @ ''__v''
                 @ sanitize_part version @ ext)))"

definition normalize_target_id :: "string \<Rightarrow> string result" where
  "normalize_target_id value =
     (let normalized = lower (strip value) in
      if normalized = [] then Inl ValueError else Inr normalized)"

section \<open>Helpers of the producer\<close>

definition ensure_generated_at_utc :: "pydatetime \<Rightarrow> pydatetime option \<Rightarrow> pydatetime result" where
  "ensure_generated_at_utc now value =
     (let timestamp = (case value of None \<Rightarrow> now | Some t \<Rightarrow> t) in
      case dt_offset timestamp of
        None \<Rightarrow> Inl ValueError
      | Some offset \<Rightarrow> if offset \<noteq> 0 then Inl ValueError else Inr timestamp)"

definition normalize_severity_token :: "string \<Rightarrow> diag_severity" where
  "normalize_severity_token value =
     (let normalized = upper value in
      if normalized \<in> {''ERROR'', ''ERR'', ''E''} then SevError
      else if normalized \<in> {''WARN'', ''WARNING'', ''W''} then SevWarn
      else SevInfo)"

fun val_severity_name :: "val_severity \<Rightarrow> string" where
  "val_severity_name VFail = ''FAIL''"
| "val_severity_name VWarn = ''WARN''"
| "val_severity_name VDrop = ''DROP''"

fun val_decision_name :: "val_decision \<Rightarrow> string" where
  "val_decision_name DPass = ''PASS''"
| "val_decision_name DWarn = ''WARN''"
| "val_decision_name DDrop = ''DROP''"
| "val_decision_name DFail = ''FAIL''"

fun compile_severity_name :: "compile_severity \<Rightarrow> string" where
  "compile_severity_name CError = ''ERROR''"
| "compile_severity_name CWarn = ''WARN''"

definition normalize_validation_severity :: "val_severity \<Rightarrow> diag_severity" where
  "normalize_validation_severity s = normalize_severity_token (val_severity_name s)"

definition normalize_compile_severity :: "compile_severity \<Rightarrow> diag_severity" where
  "normalize_compile_severity s = normalize_severity_token (compile_severity_name s)"

fun first_ref :: "dict \<Rightarrow> string list \<Rightarrow> string" where
  "first_ref item [] = ''unknown''"
| "first_ref item (k # ks) =
     (let candidate = dget item k; text = strip (py_str candidate) in
      if candidate \<noteq> PyNone \<and> text \<noteq> [] then text else first_ref item ks)"

definition extract_item_ref :: "dict \<Rightarrow> string" where
  "extract_item_ref item = first_ref item [''id'', ''sku'', ''pk'', ''uuid'', ''_id'']"

definition emission_to_writer_value :: "emission \<Rightarrow> wval" where
  "emission_to_writer_value e =
     (case em_kind e of
        OMIT \<Rightarrow> WMissing
      | NULL \<Rightarrow> WVal PyNone
      | VALUE \<Rightarrow> WVal (opt_str_val (em_value e)))"

fun mapped_output_to_writer_record :: "mapped_output \<Rightarrow> wrecord" where
  "mapped_output_to_writer_record (MRow es) = WRow (map emission_to_writer_value es)"
| "mapped_output_to_writer_record (MObject d) =
     WObject (map (\<lambda>(k, e). (PyStr k, emission_to_writer_value e))
       (filter (\<lambda>(k, e). emission_to_writer_value e \<noteq> WMissing) d))"

definition resolve_artifact_encoding :: "dict \<Rightarrow> string" where
  "resolve_artifact_encoding schema_doc =
     (case as_mapping (dget schema_doc ''output'') of
        None \<Rightarrow> ''utf-8''
      | Some out \<Rightarrow>
          (case as_mapping (dget out ''artifact'') of
             None \<Rightarrow> ''utf-8''
           | Some artifact \<Rightarrow>
               (case as_str (dget artifact ''encoding'') of
                  None \<Rightarrow> ''utf-8''
                | Some s \<Rightarrow> if strip s \<noteq> [] then strip s else ''utf-8'')))"

section \<open>The prepared producer\<close>

record schema_ref =
  sr_protocol_id :: string
  sr_schema_version :: string

text \<open>Executors can be injected; both take the plan, the record and the profile.\<close>

type_synonym validator = "validation_plan \<Rightarrow> dict \<Rightarrow> string \<Rightarrow> validation_exec_result result"

type_synonym mapper = "mapping_plan \<Rightarrow> dict \<Rightarrow> string \<Rightarrow> mapping_result result"

record prepared_schema =
  ps_ref :: schema_ref
  ps_target_id :: string
  ps_compiled :: compiled_schema
  ps_encoding :: string
  ps_validator :: "validator option"
  ps_mapper :: "mapper option"
  ps_writer :: "writer option"

record producer =
  pd_policies :: "policy_bundle option"
  pd_prepared :: prepared_schema

text \<open>The executor objects the producer makes when none is injected.\<close>

definition default_validator :: "ext_catalog \<Rightarrow> policy_bundle option \<Rightarrow> validator" where
  "default_validator cat policies plan rec profile =
     (let run = (\<lambda>p. validation_run_one cat p plan rec profile) in
      case policies of
        None \<Rightarrow> Inr (run None)
      | Some b \<Rightarrow>
          (case pb_strictness b of
             PolStrictness m \<Rightarrow> Inr (run (Some (strictness_apply m)))
           | _ \<Rightarrow> if ve_items (run None) = [] then Inr (run None) else Inl AttributeError))"

definition default_mapper :: "ext_catalog \<Rightarrow> mapper" where
  "default_mapper cat plan rec profile = Inr (mapping_run_one cat plan rec profile)"

definition writer_meta :: "prepared_schema \<Rightarrow> dict" where
  "writer_meta p = [(''encoding'', PyStr (ps_encoding p)),
     (''content_type'', PyStr (ws_content_type (cs_writer_spec (ps_compiled p)))),
     (''file_extension'', PyStr (ws_file_extension (cs_writer_spec (ps_compiled p))))]"

definition prepare_components ::
  "ext_catalog \<Rightarrow> writer_registry \<Rightarrow> policy_bundle option \<Rightarrow> prepared_schema \<Rightarrow> prepared_schema result" where
  "prepare_components cat writers policies p =
     (if \<not> cs_is_valid (ps_compiled p) then Inr p
      else
        let v = (case ps_validator p of Some f \<Rightarrow> f | None \<Rightarrow> default_validator cat policies);
            m = (case ps_mapper p of Some f \<Rightarrow> f | None \<Rightarrow> default_mapper cat);
            spec = cs_writer_spec (ps_compiled p)
        in rbind (case ps_writer p of
                    Some w \<Rightarrow> Inr w
                  | None \<Rightarrow> create_writer writers (ws_writer_id spec) (ws_config spec) (writer_meta p))
             (\<lambda>w. Inr (p\<lparr>ps_validator := Some v, ps_mapper := Some m, ps_writer := Some w\<rparr>)))"

definition artifact_producer_new ::
  "ext_catalog \<Rightarrow> prepared_schema \<Rightarrow> policy_bundle option \<Rightarrow> producer result" where
  "artifact_producer_new cat p policies =
     rbind build_default_writer_registry (\<lambda>writers.
     rbind (prepare_components cat writers policies p) (\<lambda>q.
       Inr \<lparr>pd_policies = policies, pd_prepared = q\<rparr>))"

section \<open>The loop over the products\<close>

text \<open>
  The state the generator shares: the aggregated report and the errors fault isolation has
  logged.
\<close>

record producer_state =
  ps_report :: validation_report
  ps_faults :: "exn list"

definition add_diag :: "diagnostic \<Rightarrow> producer_state \<Rightarrow> producer_state" where
  "add_diag d s = s\<lparr>ps_report := report_add d (ps_report s)\<rparr>"

fun add_diags :: "diagnostic list \<Rightarrow> producer_state \<Rightarrow> producer_state" where
  "add_diags [] s = s"
| "add_diags (d # ds) s = add_diags ds (add_diag d s)"

definition action :: "string \<Rightarrow> dict" where
  "action a = [(''action'', PyStr a)]"

definition invalid_item_diag :: diagnostic where
  "invalid_item_diag = diag_new SevError ''VALIDATION.INVALID_ITEM_TYPE''
     ''Invalid item type: expected mapping.'' (Some ''build:producer'') (Some ''unknown'')
     (action ''DROP'')"

definition validation_diag :: "string \<Rightarrow> val_decision \<Rightarrow> report_item \<Rightarrow> diagnostic" where
  "validation_diag item_ref decision i =
     diag_new (normalize_validation_severity (ri_severity i)) (ri_code i) (ri_message i)
       (Some (ri_path i)) (Some item_ref) (action (val_decision_name decision))"

definition fail_stop_diag :: "string \<Rightarrow> diagnostic" where
  "fail_stop_diag item_ref = diag_new SevError ''BUILD.FAIL_STOP''
     ''Build stopped due to FAIL validation decision.'' (Some ''build:validation'')
     (Some item_ref) (action ''FAIL'')"

definition mapping_diag :: "string \<Rightarrow> exec_issue \<Rightarrow> diagnostic" where
  "mapping_diag item_ref i =
     diag_new SevError (ei_code i) (ei_message i) (Some (ei_path i)) (Some item_ref)
       (action ''DROP'')"

text \<open>The \<open>except\<close> clause around one item.\<close>

definition isolate :: "policy_bundle option \<Rightarrow> exn \<Rightarrow> producer_state \<Rightarrow> (producer_state, wrecord) outcome" where
  "isolate policies e s =
     (case (case policies of None \<Rightarrow> None | Some b \<Rightarrow> pb_fault b) of
        None \<Rightarrow> Fail s e
      | Some (PolFault f) \<Rightarrow>
          (let s' = s\<lparr>ps_faults := ps_faults s @ [e]\<rparr> in
           case handle_error f e of None \<Rightarrow> Go s' None | Some e' \<Rightarrow> Fail s' e')
      | Some _ \<Rightarrow> Fail s AttributeError)"

definition producer_step ::
  "policy_bundle option \<Rightarrow> compiled_schema \<Rightarrow> validator \<Rightarrow> mapper \<Rightarrow> producer_state \<Rightarrow> pyval
     \<Rightarrow> (producer_state, wrecord) outcome" where
  "producer_step policies compiled validate mapp s item =
     (case as_mapping item of
        None \<Rightarrow> Go (add_diag invalid_item_diag s) None
      | Some rec \<Rightarrow>
          (let item_ref = extract_item_ref rec in
           case validate (cs_validation_plan compiled) rec (cs_artifact_profile compiled) of
             Inl e \<Rightarrow> isolate policies e s
           | Inr v \<Rightarrow>
               (let s1 = add_diags (map (validation_diag item_ref (ve_decision v)) (ve_items v)) s in
                if ve_decision v = DDrop then Go s1 None
                else if ve_decision v = DFail then Halt (add_diag (fail_stop_diag item_ref) s1)
                else case mapp (cs_mapping_plan compiled) rec (cs_artifact_profile compiled) of
                    Inl e \<Rightarrow> isolate policies e s1
                  | Inr m \<Rightarrow>
                      Go (add_diags (map (mapping_diag item_ref) (mr_issues m)) s1)
                        (Some (mapped_output_to_writer_record (mr_output m))))))"

definition build_payload_iter ::
  "producer \<Rightarrow> (validator \<times> mapper) result" where
  "build_payload_iter p =
     (case (ps_validator (pd_prepared p), ps_mapper (pd_prepared p)) of
        (Some v, Some m) \<Rightarrow> Inr (v, m)
      | _ \<Rightarrow> Inl RuntimeError)"

section \<open>Artifacts\<close>

record artifact_metadata =
  am_target :: string
  am_schema_version :: string
  am_generated_at :: pydatetime
  am_content_type :: string
  am_encoding :: string
  am_artifact_profile :: "string option"
  am_filename_hint :: "string option"

text \<open>
  A payload is what pulling it delivers, and the state of the producer once it has been pulled
  to its end: the chain of the source, the producer loop and the writer.
\<close>

record produced_artifact =
  pa_payload :: "bytes gen"
  pa_after :: producer_state
  pa_metadata :: artifact_metadata

record production_result =
  pr_artifacts :: "produced_artifact list"
  pr_report :: validation_report

definition empty_report :: "prepared_schema \<Rightarrow> validation_report" where
  "empty_report p = \<lparr>vr_target = Some (ps_target_id p),
     vr_profile = Some (cs_artifact_profile (ps_compiled p)), vr_diagnostics = []\<rparr>"

definition compile_report_diag :: "compile_diag \<Rightarrow> diagnostic" where
  "compile_report_diag d =
     diag_new (normalize_compile_severity (cd_severity d)) (cd_code d) (cd_message d)
       (Some (cd_path d)) (Some ''schema'') (action ''FAIL'')"

definition producer_init :: "prepared_schema \<Rightarrow> producer_state" where
  "producer_init p = \<lparr>ps_report = empty_report p, ps_faults = []\<rparr>"

text \<open>The writer pulls from the producer loop, which pulls from the source.\<close>

definition payload_chain ::
  "codec \<Rightarrow> writer \<Rightarrow> (producer_state \<Rightarrow> pyval \<Rightarrow> (producer_state, wrecord) outcome)
     \<Rightarrow> producer_state \<Rightarrow> pyval gen \<Rightarrow> bytes gen \<times> producer_state" where
  "payload_chain codec w step s um =
     (case writer_open codec w of
        Inl e \<Rightarrow> (Raise e, s)
      | Inr (ws, h) \<Rightarrow>
          (case drain (chained step (writer_step codec w)) (s, ws) um of
             (out, (s', ws')) \<Rightarrow> (header_then h out, s')))"

definition artifact_metadata_of :: "prepared_schema \<Rightarrow> pydatetime \<Rightarrow> artifact_metadata result" where
  "artifact_metadata_of p generated_at =
     (let spec = cs_writer_spec (ps_compiled p) in
      rbind (make_filename_hint (ps_target_id p) (cs_artifact_profile (ps_compiled p))
          (sr_schema_version (ps_ref p)) (Some (ws_file_extension spec))) (\<lambda>hint.
        Inr \<lparr>am_target = ps_target_id p, am_schema_version = sr_schema_version (ps_ref p),
          am_generated_at = generated_at, am_content_type = ws_content_type spec,
          am_encoding = ps_encoding p, am_artifact_profile = Some (cs_artifact_profile (ps_compiled p)),
          am_filename_hint = Some hint\<rparr>))"

definition produce_artifacts ::
  "codec \<Rightarrow> pydatetime \<Rightarrow> producer \<Rightarrow> pyval gen \<Rightarrow> pydatetime option \<Rightarrow> production_result result" where
  "produce_artifacts codec now p um generated_at =
     rbind (ensure_generated_at_utc now generated_at) (\<lambda>at.
       let q = pd_prepared p; report = empty_report q in
       if \<not> cs_is_valid (ps_compiled q) then
         Inr \<lparr>pr_artifacts = [], pr_report =
           report\<lparr>vr_diagnostics := map compile_report_diag (cs_diagnostics (ps_compiled q))\<rparr>\<rparr>
       else case ps_writer q of
           None \<Rightarrow> Inl RuntimeError
         | Some w \<Rightarrow>
             rbind (build_payload_iter p) (\<lambda>(v, m).
             rbind (artifact_metadata_of q at) (\<lambda>meta.
               case payload_chain codec w (producer_step (pd_policies p) (ps_compiled q) v m)
                   (producer_init q) um of
                 (out, s) \<Rightarrow>
                   Inr \<lparr>pr_artifacts = [\<lparr>pa_payload = out, pa_after = s, pa_metadata = meta\<rparr>],
                        pr_report = report\<rparr>)))"

end
