(* ===== verification/PFP_Producer_Spec.thy ===== *)
theory PFP_Producer_Spec
  imports PFP_Producer PFP_Writers_Spec PFP_Compiler_Spec
begin

text \<open>
  What the producer promises: the lazy chain delivers what the batch reading of its stages
  delivers; which products reach the feed and what is reported for each; a FAIL decision ends
  the feed without looking at the rest of the source; fault isolation confines an error to its
  product; and a whole feed, JSONL or CSV, reads back as the mapped records of the accepted
  products.
\<close>

section \<open>What happens to one product\<close>

text \<open>The verdict on a product when its executors do not raise.\<close>

datatype verdict = NotMapping | Dropped | Stops | Accepted

definition item_verdict :: "(dict \<Rightarrow> validation_exec_result) \<Rightarrow> pyval \<Rightarrow> verdict" where
  "item_verdict v item =
     (case as_mapping item of
        None \<Rightarrow> NotMapping
      | Some rec \<Rightarrow>
          if ve_decision (v rec) = DDrop then Dropped
          else if ve_decision (v rec) = DFail then Stops
          else Accepted)"

definition item_diags ::
  "(dict \<Rightarrow> validation_exec_result) \<Rightarrow> (dict \<Rightarrow> mapping_result) \<Rightarrow> pyval \<Rightarrow> diagnostic list" where
  "item_diags v m item =
     (case as_mapping item of
        None \<Rightarrow> [invalid_item_diag]
      | Some rec \<Rightarrow>
          (let r = extract_item_ref rec in
           map (validation_diag r (ve_decision (v rec))) (ve_items (v rec))
           @ (case item_verdict v item of
                Stops \<Rightarrow> [fail_stop_diag r]
              | Accepted \<Rightarrow> map (mapping_diag r) (mr_issues (m rec))
              | _ \<Rightarrow> [])))"

definition item_record :: "(dict \<Rightarrow> mapping_result) \<Rightarrow> pyval \<Rightarrow> wrecord" where
  "item_record m item =
     (case as_mapping item of
        None \<Rightarrow> WOther item
      | Some rec \<Rightarrow> mapped_output_to_writer_record (mr_output (m rec)))"

definition accepted_items :: "(dict \<Rightarrow> validation_exec_result) \<Rightarrow> pyval list \<Rightarrow> pyval list" where
  "accepted_items v items =
     filter (\<lambda>i. item_verdict v i = Accepted) (takeWhile (\<lambda>i. item_verdict v i \<noteq> Stops) items)"

text \<open>The products the loop looks at: up to the first that stops it, that one included.\<close>

fun seen_items :: "(dict \<Rightarrow> validation_exec_result) \<Rightarrow> pyval list \<Rightarrow> pyval list" where
  "seen_items v [] = []"
| "seen_items v (i # is) = i # (if item_verdict v i = Stops then [] else seen_items v is)"

text \<open>Executors that return on every record.\<close>

definition validator_is :: "compiled_schema \<Rightarrow> validator \<Rightarrow> (dict \<Rightarrow> validation_exec_result) \<Rightarrow> bool" where
  "validator_is c f v \<longleftrightarrow> (\<forall>rec. f (cs_validation_plan c) rec (cs_artifact_profile c) = Inr (v rec))"

definition mapper_is :: "compiled_schema \<Rightarrow> mapper \<Rightarrow> (dict \<Rightarrow> mapping_result) \<Rightarrow> bool" where
  "mapper_is c f m \<longleftrightarrow> (\<forall>rec. f (cs_mapping_plan c) rec (cs_artifact_profile c) = Inr (m rec))"

lemma diags_add_diags:
  "vr_diagnostics (ps_report (add_diags ds s)) = vr_diagnostics (ps_report s) @ ds"
  by (induction ds arbitrary: s) (simp_all add: add_diag_def report_add_def)

lemma diags_add_diag:
  "vr_diagnostics (ps_report (add_diag d s)) = vr_diagnostics (ps_report s) @ [d]"
  by (simp add: add_diag_def report_add_def)

lemma producer_step_total:
  assumes "validator_is c f v" "mapper_is c g m"
  shows "\<exists>t. vr_diagnostics (ps_report t) = vr_diagnostics (ps_report s) @ item_diags v m item
     \<and> producer_step pol c f g s item =
         (case item_verdict v item of
            Stops \<Rightarrow> Halt t
          | Accepted \<Rightarrow> Go t (Some (item_record m item))
          | _ \<Rightarrow> Go t None)"
proof (cases "as_mapping item")
  case None
  then show ?thesis
    by (simp add: producer_step_def item_verdict_def item_diags_def diags_add_diag)
next
  case (Some rec)
  have fv: "f (cs_validation_plan c) rec (cs_artifact_profile c) = Inr (v rec)"
    and gm: "g (cs_mapping_plan c) rec (cs_artifact_profile c) = Inr (m rec)"
    using assms by (simp_all add: validator_is_def mapper_is_def)
  show ?thesis
    by (cases "ve_decision (v rec)")
      (simp_all add: Some fv gm producer_step_def item_verdict_def item_diags_def item_record_def
        diags_add_diags diags_add_diag Let_def)
qed

lemma producer_run:
  assumes "validator_is c f v" "mapper_is c g m"
  shows "run (producer_step pol c f g) s um = (out, t) \<Longrightarrow>
     gen_items out = map (item_record m) (accepted_items v (gen_items um))
     \<and> gen_end out = (if \<exists>i \<in> set (gen_items um). item_verdict v i = Stops then None else gen_end um)
     \<and> vr_diagnostics (ps_report t)
         = vr_diagnostics (ps_report s) @ concat (map (item_diags v m) (seen_items v (gen_items um)))"
proof (induction um arbitrary: s out)
  case (Yield item um)
  obtain u where u: "vr_diagnostics (ps_report u) = vr_diagnostics (ps_report s) @ item_diags v m item"
    "producer_step pol c f g s item =
         (case item_verdict v item of
            Stops \<Rightarrow> Halt u
          | Accepted \<Rightarrow> Go u (Some (item_record m item))
          | _ \<Rightarrow> Go u None)"
    using producer_step_total [OF assms] by blast
  obtain out' t' where r: "run (producer_step pol c f g) u um = (out', t')"
    by (cases "run (producer_step pol c f g) u um")
  note ih = Yield.IH [of u out'] r
  show ?case
  proof (cases "item_verdict v item")
    case Stops
    with Yield.prems u show ?thesis by (auto simp: accepted_items_def)
  next
    case Accepted
    with Yield.prems u ih show ?thesis by (auto simp: accepted_items_def)
  next
    case NotMapping
    with Yield.prems u ih show ?thesis by (auto simp: accepted_items_def)
  next
    case Dropped
    with Yield.prems u ih show ?thesis by (auto simp: accepted_items_def)
  qed
qed (auto simp: accepted_items_def)

section \<open>The lazy chain\<close>

text \<open>
  Pulling bytes from the artifact, which pulls one record at a time from the producer loop,
  which pulls one product at a time from the source, delivers exactly the bytes (and the error,
  if any) of writing the complete list of records the loop would produce.
\<close>

theorem lazy_feed_is_batch:
  "fst (payload_chain codec w step s um) = writer_write codec w (fst (drain step s um))"
proof (cases "writer_open codec w")
  case (Inl e)
  then show ?thesis by (simp add: payload_chain_def writer_write_stage)
next
  case (Inr p)
  obtain ws h where p: "p = (ws, h)" by (cases p)
  obtain out s' ws' where out: "run (chained step (writer_step codec w)) (s, ws) um = (out, (s', ws'))"
    by (metis prod.exhaust)
  with run_chained [of step "writer_step codec w" s ws um]
  have "out = fst (run (writer_step codec w) ws (fst (run step s um)))" by simp
  with Inr p out show ?thesis
    by (simp add: payload_chain_def writer_write_stage drain_is_run)
qed

text \<open>The producer's report is complete when the writer accepted every record.\<close>

lemma chained_state:
  "gen_end (fst (run (chained f g) (s, t) um)) = gen_end (fst (run f s um)) \<Longrightarrow>
     (\<And>t y u. g t y \<noteq> Halt u) \<Longrightarrow>
     length (gen_items (fst (run (chained f g) (s, t) um))) = length (gen_items (fst (run f s um))) \<Longrightarrow>
     (\<And>t y u. g t y \<noteq> Go u None) \<Longrightarrow>
     fst (snd (run (chained f g) (s, t) um)) = snd (run f s um)"
proof (induction um arbitrary: s t)
  case (Yield x um)
  show ?case
  proof (cases "f s x")
    case (Go s' y)
    show ?thesis
    proof (cases y)
      case None
      with Go Yield show ?thesis by simp
    next
      case (Some z)
      show ?thesis
      proof (cases "g t z")
        case (Go t' w)
        then obtain b where "w = Some b" using Yield.prems(4) by (cases w) auto
        with Go \<open>f s x = Go s' y\<close> Some Yield show ?thesis by simp
      next
        case (Halt t')
        then show ?thesis using Yield.prems(2) by blast
      next
        case (Fail t' e)
        with \<open>f s x = Go s' y\<close> Some Yield.prems(3) show ?thesis by simp
      qed
    qed
  qed simp_all
qed simp_all

text \<open>
  C14: Which products reach the feed: with executors that return, the loop yields the mapped
  record of every accepted product up to the first FAIL, in source order; it ends normally at a
  FAIL and otherwise as the source does; and the report receives, product by product, exactly
  the diagnostics of the products looked at.
\<close>

theorem feed_of_accepted_products:
  assumes "validator_is c f v" "mapper_is c g m"
  shows "gen_items (fst (drain (producer_step pol c f g) s um))
           = map (item_record m) (accepted_items v (gen_items um))
     \<and> gen_end (fst (drain (producer_step pol c f g) s um))
           = (if \<exists>i \<in> set (gen_items um). item_verdict v i = Stops then None else gen_end um)
     \<and> vr_diagnostics (ps_report (snd (drain (producer_step pol c f g) s um)))
           = vr_diagnostics (ps_report s) @ concat (map (item_diags v m) (seen_items v (gen_items um)))"
proof -
  obtain out t where "run (producer_step pol c f g) s um = (out, t)" by (metis prod.exhaust)
  with producer_run [OF assms this] show ?thesis by (simp add: drain_is_run)
qed

lemma gen_items_append: "gen_items (gen_append xs g) = xs @ gen_items g"
  by (induction xs) auto

lemma seen_items_stop:
  "item_verdict v i = Stops \<Longrightarrow> \<forall>x \<in> set xs. item_verdict v x \<noteq> Stops \<Longrightarrow>
     seen_items v (xs @ i # ys) = xs @ [i]"
  by (induction xs) auto

lemma run_stop:
  assumes "validator_is c f v" "mapper_is c g m" "item_verdict v item = Stops"
  shows "\<forall>x \<in> set xs. item_verdict v x \<noteq> Stops \<Longrightarrow>
     run (producer_step pol c f g) s (gen_append xs (Yield item rest))
       = run (producer_step pol c f g) s (gen_append xs (Yield item Done))"
proof (induction xs arbitrary: s)
  case Nil
  show ?case
    using producer_step_total [OF assms(1,2), of s item pol] assms(3) by auto
next
  case (Cons x xs)
  show ?case
    using producer_step_total [OF assms(1,2), of s x pol] Cons
    by (auto split: outcome.splits option.splits)
qed

text \<open>
  C12: A FAIL decision ends the feed: whatever the source would deliver after that product, an
  error included, is neither read nor reported; the loop ends as if the source were exhausted;
  and the last thing in the report is the \<open>BUILD.FAIL_STOP\<close> diagnostic of that product.
\<close>

theorem fail_ends_feed:
  assumes "validator_is c f v" "mapper_is c g m"
    and "item_verdict v item = Stops" "\<forall>x \<in> set xs. item_verdict v x \<noteq> Stops"
  shows "drain (producer_step pol c f g) s (gen_append xs (Yield item rest))
           = drain (producer_step pol c f g) s (gen_append xs (Yield item Done))
     \<and> gen_end (fst (drain (producer_step pol c f g) s (gen_append xs (Yield item rest)))) = None
     \<and> (\<exists>rec. item = PyDict rec \<and>
          last (vr_diagnostics (ps_report
            (snd (drain (producer_step pol c f g) s (gen_append xs (Yield item rest))))))
          = fail_stop_diag (extract_item_ref rec))"
proof -
  obtain rec where rec: "item = PyDict rec"
    using assms(3) by (auto simp: item_verdict_def split: option.splits)
  obtain out t where r: "run (producer_step pol c f g) s (gen_append xs (Yield item rest)) = (out, t)"
    by (metis prod.exhaust)
  have d: "vr_diagnostics (ps_report t) = vr_diagnostics (ps_report s)
      @ concat (map (item_diags v m) (xs @ [item]))"
    using producer_run [OF assms(1,2) r] seen_items_stop [OF assms(3,4), of "gen_items rest"]
    by (simp add: gen_items_append)
  have "last (item_diags v m item) = fail_stop_diag (extract_item_ref rec)"
    "item_diags v m item \<noteq> []"
    using assms(3) rec by (simp_all add: item_diags_def Let_def)
  with d have "last (vr_diagnostics (ps_report t)) = fail_stop_diag (extract_item_ref rec)"
    by simp
  moreover have "gen_end out = None"
    using producer_run [OF assms(1,2) r] assms(3) by (auto simp: gen_items_append)
  ultimately show ?thesis
    using run_stop [OF assms, of pol s rest] r rec by (simp add: drain_is_run)
qed

section \<open>Fault isolation\<close>

text \<open>The product makes one of the executors raise.\<close>

definition item_raises :: "compiled_schema \<Rightarrow> validator \<Rightarrow> mapper \<Rightarrow> pyval \<Rightarrow> bool" where
  "item_raises c f g item =
     (case as_mapping item of
        None \<Rightarrow> False
      | Some rec \<Rightarrow>
          (case f (cs_validation_plan c) rec (cs_artifact_profile c) of
             Inl _ \<Rightarrow> True
           | Inr v \<Rightarrow> ve_decision v \<noteq> DDrop \<and> ve_decision v \<noteq> DFail
               \<and> isl (g (cs_mapping_plan c) rec (cs_artifact_profile c))))"

fun same_shape :: "('s, 'b) outcome \<Rightarrow> ('s, 'b) outcome \<Rightarrow> bool" where
  "same_shape (Go s y) (Go t z) = (y = z)"
| "same_shape (Halt s) (Halt t) = True"
| "same_shape (Fail s e) (Fail t e') = (e = e')"
| "same_shape _ _ = False"

lemma isolate_shape: "same_shape (isolate pol e s) (isolate pol e t)"
  by (auto simp: isolate_def handle_error_def Let_def split: option.splits policy.splits)

lemma producer_step_shape:
  "same_shape (producer_step pol c f g s item) (producer_step pol c f g t item)"
  by (auto simp: producer_step_def Let_def isolate_shape split: option.splits sum.splits)

text \<open>What the loop yields does not depend on what has been reported so far.\<close>

lemma producer_run_stateless:
  "fst (run (producer_step pol c f g) s um) = fst (run (producer_step pol c f g) t um)"
proof (induction um arbitrary: s t)
  case (Yield x um)
  have sh: "same_shape (producer_step pol c f g s x) (producer_step pol c f g t x)"
    by (rule producer_step_shape)
  show ?case
  proof (cases "producer_step pol c f g s x")
    case (Go s' y)
    then obtain t' where "producer_step pol c f g t x = Go t' y"
      using sh by (cases "producer_step pol c f g t x") auto
    with Go Yield.IH [of s' t'] show ?thesis by (cases y) auto
  next
    case (Halt s')
    then show ?thesis using sh by (cases "producer_step pol c f g t x") auto
  next
    case (Fail s' e)
    then show ?thesis using sh by (cases "producer_step pol c f g t x") auto
  qed
qed simp_all

lemma isolated:
  assumes "pb_fault b = Some (PolFault strategy)" "strategy \<noteq> FailFast"
  shows "\<exists>t. isolate (Some b) e s = Go t None"
  using assms by (simp add: isolate_def handle_error_def Let_def)

lemma raising_step:
  assumes "pb_fault b = Some (PolFault strategy)" "strategy \<noteq> FailFast" "item_raises c f g item"
  shows "\<exists>t. producer_step (Some b) c f g s item = Go t None"
proof -
  obtain rec where rec: "as_mapping item = Some rec"
    using assms(3) by (cases "as_mapping item") (auto simp: item_raises_def)
  show ?thesis
  proof (cases "f (cs_validation_plan c) rec (cs_artifact_profile c)")
    case (Inl e)
    then show ?thesis using rec isolated [OF assms(1,2)] by (simp add: producer_step_def)
  next
    case (Inr v)
    then obtain e where "g (cs_mapping_plan c) rec (cs_artifact_profile c) = Inl e"
      "ve_decision v \<noteq> DDrop" "ve_decision v \<noteq> DFail"
      using assms(3) rec by (auto simp: item_raises_def isl_def)
    then show ?thesis
      using rec Inr isolated [OF assms(1,2)] by (simp add: producer_step_def Let_def)
  qed
qed

lemma quiet_step:
  assumes "\<not> item_raises c f g item"
  shows "producer_step pol c f g s item \<noteq> Fail t e"
  using assms
  by (auto simp: item_raises_def producer_step_def Let_def split: option.splits sum.splits)

lemma isolation_records:
  assumes "pb_fault b = Some (PolFault strategy)" "strategy \<noteq> FailFast"
  shows "fst (run (producer_step (Some b) c f g) s um)
           = fst (run (producer_step (Some b) c f g) s
               (gen_of (filter (\<lambda>i. \<not> item_raises c f g i) (gen_items um)) (gen_end um)))"
proof (induction um arbitrary: s)
  case (Yield x um)
  show ?case
  proof (cases "item_raises c f g x")
    case True
    obtain t where t: "producer_step (Some b) c f g s x = Go t None"
      using raising_step [OF assms True] by blast
    have "fst (run (producer_step (Some b) c f g) t um) = fst (run (producer_step (Some b) c f g) s um)"
      by (rule producer_run_stateless)
    then show ?thesis using True t Yield.IH [of s] by simp
  next
    case False
    then show ?thesis
      using Yield.IH quiet_step [OF False, of "Some b" s]
      by (cases "producer_step (Some b) c f g s x") (auto split: option.splits)
  qed
qed simp_all

lemma isolation_end:
  assumes "pb_fault b = Some (PolFault strategy)" "strategy \<noteq> FailFast"
  shows "gen_end (fst (run (producer_step (Some b) c f g) s um)) \<in> {None, gen_end um}"
proof (induction um arbitrary: s)
  case (Yield x um)
  show ?case
  proof (cases "producer_step (Some b) c f g s x")
    case (Go t y)
    then show ?thesis using Yield.IH [of t] by (cases y) simp_all
  next
    case (Halt t)
    then show ?thesis by simp
  next
    case (Fail t e)
    then have "item_raises c f g x" using quiet_step by blast
    with Fail raising_step [OF assms, of c f g x s] show ?thesis by auto
  qed
qed simp_all

text \<open>
  C13: Fault isolation confines an executor error to its product: under SKIP_ITEM and IGNORE the
  feed is the same as if the products that make an executor raise were not in the source, and
  it never ends in an error of its own, whatever executors are plugged in.
\<close>

theorem fault_isolation_confines:
  assumes "pb_fault b = Some (PolFault strategy)" "strategy \<noteq> FailFast"
  shows "fst (drain (producer_step (Some b) c f g) s um)
           = fst (drain (producer_step (Some b) c f g) s
               (gen_of (filter (\<lambda>i. \<not> item_raises c f g i) (gen_items um)) (gen_end um)))
     \<and> gen_end (fst (drain (producer_step (Some b) c f g) s um)) \<in> {None, gen_end um}"
  using isolation_records [OF assms] isolation_end [OF assms] by (simp add: drain_is_run)

section \<open>Whole feeds\<close>

text \<open>The strictness policy a bundle carries, as the executor calls it.\<close>

definition strictness_of :: "policy_bundle option \<Rightarrow> (diagnostic list \<Rightarrow> strictness_decision) option" where
  "strictness_of policies =
     (case policies of
        None \<Rightarrow> None
      | Some b \<Rightarrow> (case pb_strictness b of PolStrictness m \<Rightarrow> Some (strictness_apply m) | _ \<Rightarrow> None))"

definition strictness_installed :: "policy_bundle option \<Rightarrow> bool" where
  "strictness_installed policies \<longleftrightarrow> (policies \<noteq> None \<longrightarrow> strictness_of policies \<noteq> None)"

definition verdicts :: "ext_catalog \<Rightarrow> policy_bundle option \<Rightarrow> compiled_schema \<Rightarrow> dict
    \<Rightarrow> validation_exec_result" where
  "verdicts cat policies c rec =
     validation_run_one cat (strictness_of policies) (cs_validation_plan c) rec (cs_artifact_profile c)"

definition mapped :: "ext_catalog \<Rightarrow> compiled_schema \<Rightarrow> dict \<Rightarrow> mapping_result" where
  "mapped cat c rec = mapping_run_one cat (cs_mapping_plan c) rec (cs_artifact_profile c)"

lemma default_executors:
  assumes "strictness_installed policies"
  shows "validator_is c (default_validator cat policies) (verdicts cat policies c)"
    and "mapper_is c (default_mapper cat) (mapped cat c)"
  using assms
  by (auto simp: validator_is_def mapper_is_def default_validator_def default_mapper_def
      verdicts_def mapped_def strictness_installed_def strictness_of_def Let_def
      split: option.splits policy.splits)

text \<open>The artifact of a producer that makes its own executors.\<close>

lemma produced_payload:
  assumes "artifact_producer_new cat prep policies = Inr p"
    and "ps_validator prep = None" "ps_mapper prep = None"
    and "produce_artifacts codec now p um moment = Inr r" "pr_artifacts r = [a]"
    and "ps_writer (pd_prepared p) = Some w"
  shows "payload_chain codec w
       (producer_step policies (ps_compiled prep) (default_validator cat policies) (default_mapper cat))
       (producer_init prep) um = (pa_payload a, pa_after a)"
    and "vr_diagnostics (pr_report r) = []"
proof -
  obtain q ws where q: "prepare_components cat ws policies prep = Inr q"
    "p = \<lparr>pd_policies = policies, pd_prepared = q\<rparr>"
    using assms(1) by (auto simp: artifact_producer_new_def rbind_Inr_iff)
  have valid: "cs_is_valid (ps_compiled q)"
  proof (rule ccontr)
    assume "\<not> cs_is_valid (ps_compiled q)"
    then show False using assms(4,5) q(2)
      by (auto simp: produce_artifacts_def rbind_Inr_iff Let_def)
  qed
  have parts: "ps_compiled q = ps_compiled prep" "producer_init q = producer_init prep"
    "ps_validator q = Some (default_validator cat policies)" "ps_mapper q = Some (default_mapper cat)"
    using q valid assms(2,3)
    by (auto simp: prepare_components_def producer_init_def empty_report_def Let_def rbind_Inr_iff
        split: if_splits)
  obtain out s where out: "payload_chain codec w
       (producer_step policies (ps_compiled prep) (default_validator cat policies) (default_mapper cat))
       (producer_init prep) um = (out, s)"
    by (metis prod.exhaust)
  obtain meta where r: "r = \<lparr>pr_artifacts = [\<lparr>pa_payload = out, pa_after = s, pa_metadata = meta\<rparr>],
      pr_report = empty_report q\<rparr>"
    using assms(4-6) q(2) valid parts out
    by (auto simp: produce_artifacts_def build_payload_iter_def rbind_Inr_iff Let_def)
  with assms(5) have "a = \<lparr>pa_payload = out, pa_after = s, pa_metadata = meta\<rparr>" by simp
  with out r show "payload_chain codec w
       (producer_step policies (ps_compiled prep) (default_validator cat policies) (default_mapper cat))
       (producer_init prep) um = (pa_payload a, pa_after a)" and "vr_diagnostics (pr_report r) = []"
    by (simp_all add: empty_report_def)
qed

lemma writer_step_yields: "writer_step codec w t y \<noteq> Go u None" "writer_step codec w t y \<noteq> Halt u"
  by (cases w; cases t; auto simp: csv_step_def jsonl_step_def split: sum.splits)+

text \<open>A writer that takes every record leaves the producer in the state its own loop ends in.\<close>

lemma payload_after:
  assumes "writer_open codec w = Inr (ws, h)" "payload_chain codec w step s um = (out, after)"
    and "gen_end (fst (run (writer_step codec w) ws (fst (run step s um)))) = gen_end (fst (run step s um))"
    and "length (gen_items (fst (run (writer_step codec w) ws (fst (run step s um)))))
           = length (gen_items (fst (run step s um)))"
  shows "after = snd (run step s um)"
proof -
  have "fst (snd (run (chained step (writer_step codec w)) (s, ws) um)) = snd (run step s um)"
    using assms(3,4) run_chained [of step "writer_step codec w" s ws um]
    by (intro chained_state) (auto simp: writer_step_yields)
  with assms(1,2) show ?thesis
    by (auto simp: payload_chain_def drain_is_run split: prod.splits)
qed

lemma fst_conv_payload:
  assumes "writer_open codec w = Inr (ws, h)" "payload_chain codec w step s um = (out, after)"
  shows "out = header_then h (fst (run (writer_step codec w) ws (fst (run step s um))))"
  using assms run_chained [of step "writer_step codec w" s ws um]
  by (auto simp: payload_chain_def drain_is_run split: prod.splits)

lemma object_record_flat:
  "flat_record (mapped_output_to_writer_record (MObject d))"
  by (auto simp: emission_to_writer_value_def opt_str_val_def split: emission_kind.splits option.splits)

lemma mapped_object:
  "mp_output_kind (cs_mapping_plan c) = JsonObject \<Longrightarrow>
     \<exists>d. mr_output (mapped cat c rec) = MObject d"
  by (simp add: mapped_def mapping_run_one_object)

lemma accepted_mapping: "i \<in> set (accepted_items v items) \<Longrightarrow> \<exists>rec. i = PyDict rec"
  by (auto simp: accepted_items_def item_verdict_def split: option.splits)

lemma accepted_flat:
  assumes "mp_output_kind (cs_mapping_plan c) = JsonObject" "i \<in> set (accepted_items v items)"
  shows "flat_record (item_record (mapped cat c) i)"
proof -
  obtain rec where rec: "i = PyDict rec" using accepted_mapping [OF assms(2)] by blast
  obtain d where d: "mr_output (mapped cat c rec) = MObject d" using mapped_object [OF assms(1)] by blast
  have "item_record (mapped cat c) i = mapped_output_to_writer_record (MObject d)"
    using rec d by (simp add: item_record_def)
  then show ?thesis using object_record_flat [of d] by (simp only:)
qed

text \<open>
  C10: A JSONL feed from end to end: for any products, a producer over a valid plan with object
  output and the built-in executors delivers a payload that never fails; its bytes are exactly
  one line per accepted product, each reading back as the fields the mapping made of it; the
  report the caller holds is empty when the artifact is returned, and once the payload has been
  pulled it holds the diagnostics of every product looked at.
\<close>

theorem jsonl_feed_end_to_end:
  assumes "artifact_producer_new cat prep policies = Inr p"
    and "ps_validator prep = None" "ps_mapper prep = None" "strictness_installed policies"
    and "mp_output_kind (cs_mapping_plan (ps_compiled prep)) = JsonObject"
    and "ps_writer (pd_prepared p) = Some (JsonlWriter w)" "jw_line_terminator w = [CHR 0x0A]"
    and "\<And>s. codec (jw_encoding w) s = Inr (utf8 s)"
    and "produce_artifacts codec now p (gen_of items None) moment = Inr r" "pr_artifacts r = [a]"
  defines "v \<equiv> verdicts cat policies (ps_compiled prep)" and "m \<equiv> mapped cat (ps_compiled prep)"
  shows "gen_end (pa_payload a) = None
     \<and> map json_line (split_on (CHR 0x0A) (utf8_decode (concat (gen_items (pa_payload a)))))
         = map (\<lambda>i. Some (object_fields w (item_record m i))) (accepted_items v items) @ [None]
     \<and> vr_diagnostics (pr_report r) = []
     \<and> vr_diagnostics (ps_report (pa_after a)) = concat (map (item_diags v m) (seen_items v items))"
proof -
  let ?step = "producer_step policies (ps_compiled prep) (default_validator cat policies) (default_mapper cat)"
  let ?s = "producer_init prep"
  note ex = default_executors [OF assms(4), of "ps_compiled prep" cat, folded v_def m_def]
  note pay = produced_payload [OF assms(1-3,9,10,6)]
  obtain recs t where recs: "run ?step ?s (gen_of items None) = (recs, t)" by (metis prod.exhaust)
  note pr = producer_run [OF ex recs]
  have recs_eq: "recs = gen_of (map (item_record m) (accepted_items v items)) None"
    using pr gen_eq_parts [of recs] by (simp split: if_splits)
  have flat: "\<forall>x \<in> set (map (item_record m) (accepted_items v items)). flat_record x"
    using accepted_flat [OF assms(5)] by (auto simp: m_def)
  have w: "pa_payload a = jsonl_write codec w (gen_of (map (item_record m) (accepted_items v items)) None)"
    using lazy_feed_is_batch [of codec "JsonlWriter w" ?step ?s "gen_of items None"] pay(1) recs recs_eq
    by (simp add: drain_is_run)
  obtain ts where ts: "fst (run (jsonl_step codec w) () recs)
        = gen_of (map (\<lambda>t. utf8 (t @ [CHR 0x0A])) ts) None"
    "map json_line ts = map (\<lambda>i. Some (object_fields w (item_record m i))) (accepted_items v items)"
    "\<forall>t \<in> set ts. \<forall>x \<in> set t. 32 \<le> (of_char x :: nat)"
    using jsonl_run_facts [of codec w, OF assms(8) flat] recs_eq assms(7) by (auto simp: comp_def)
  have "gen_end (fst (run (writer_step codec (JsonlWriter w)) JsonlRun recs)) = None"
    "length (gen_items (fst (run (writer_step codec (JsonlWriter w)) JsonlRun recs))) = length (gen_items recs)"
    using ts(1,2) recs_eq by (auto simp: run_jsonl_stage dest: map_eq_imp_length_eq)
  then have after: "pa_after a = t"
    using payload_after [of codec "JsonlWriter w" JsonlRun None, OF _ pay(1)] recs recs_eq by simp
  have "pa_payload a = gen_of (map (\<lambda>t. utf8 (t @ [CHR 0x0A])) ts) None"
    using w ts(1) recs_eq by (simp add: jsonl_write_def drain_is_run)
  with read_lines [OF ts(3)] ts(2) pay(2) pr after show ?thesis
    by (simp add: producer_init_def empty_report_def)
qed

text \<open>A CSV row has one cell per column of the plan, whatever the product holds.\<close>

lemma mapped_row:
  "mp_output_kind (cs_mapping_plan c) = CsvRow \<Longrightarrow>
     \<exists>es. mr_output (mapped cat c rec) = MRow es \<and> length es = length (csv_order (cs_mapping_plan c))"
  by (simp add: mapped_def mapping_run_one_csv)

lemma accepted_row:
  assumes "mp_output_kind (cs_mapping_plan c) = CsvRow" "i \<in> set (accepted_items v items)"
  shows "\<exists>vs. item_record (mapped cat c) i = WRow vs \<and> length vs = length (csv_order (cs_mapping_plan c))"
proof -
  obtain rec where rec: "i = PyDict rec" using accepted_mapping [OF assms(2)] by blast
  obtain es where "mr_output (mapped cat c rec) = MRow es"
    "length es = length (csv_order (cs_mapping_plan c))"
    using mapped_row [OF assms(1)] by blast
  then show ?thesis using rec by (simp add: item_record_def)
qed

lemma csv_open:
  assumes "\<And>s. codec (cw_encoding w) s = Inr (utf8 s)" "csv_dialect w = Inr d"
    and "cw_include_header w \<Longrightarrow> cw_columns w \<noteq> None"
  shows "\<exists>h. writer_open codec (CsvWriter w) = Inr (CsvRun d csv_init, h)
    \<and> header_then h = (\<lambda>g. gen_append (map (\<lambda>cs. utf8 (csv_writerow d cs)) (csv_header w)) g)"
proof (cases "cw_include_header w")
  case True
  with assms(3) obtain cs where "cw_columns w = Some cs" by auto
  with True assms(1,2) show ?thesis
    by (intro exI [of _ "Some (utf8 (csv_writerow d cs))"]) (auto simp: csv_header_def header_then_def)
next
  case False
  with assms(2) show ?thesis
    by (intro exI [of _ None]) (auto simp: csv_header_def header_then_def)
qed

text \<open>
  The bytes of a CSV feed: a producer over a valid plan with row output and the built-in
  executors, and a writer with two different markers whose column list (if it has one) is as
  long as the plan's.
\<close>

lemma csv_feed_bytes:
  assumes "artifact_producer_new cat prep policies = Inr p"
    and "ps_validator prep = None" "ps_mapper prep = None" "strictness_installed policies"
    and "mp_output_kind (cs_mapping_plan (ps_compiled prep)) = CsvRow"
    and "ps_writer (pd_prepared p) = Some (CsvWriter w)" "csv_dialect w = Inr d"
    and "\<And>s. codec (cw_encoding w) s = Inr (utf8 s)"
    and "cw_missing_marker w \<noteq> cw_null_marker w" "cw_include_header w \<Longrightarrow> cw_columns w \<noteq> None"
    and "\<And>cs. cw_columns w = Some cs \<Longrightarrow> length cs = length (csv_order (cs_mapping_plan (ps_compiled prep)))"
    and "produce_artifacts codec now p (gen_of items None) moment = Inr r" "pr_artifacts r = [a]"
  defines "v \<equiv> verdicts cat policies (ps_compiled prep)" and "m \<equiv> mapped cat (ps_compiled prep)"
  shows "gen_end (pa_payload a) = None
     \<and> concat (gen_items (pa_payload a)) = utf8 (concat (map (csv_writerow d)
         (csv_header w @ map (\<lambda>i. row_texts w (item_record m i)) (accepted_items v items))))
     \<and> vr_diagnostics (ps_report (pa_after a)) = concat (map (item_diags v m) (seen_items v items))
     \<and> (\<forall>cs. cw_columns w = Some cs \<longrightarrow>
          list_all (\<lambda>i. length (row_texts w (item_record m i)) = length cs) (accepted_items v items))"
proof -
  let ?step = "producer_step policies (ps_compiled prep) (default_validator cat policies) (default_mapper cat)"
  let ?s = "producer_init prep"
  let ?rows = "map (item_record m) (accepted_items v items)"
  note ex = default_executors [OF assms(4), of "ps_compiled prep" cat, folded v_def m_def]
  note pay = produced_payload [OF assms(1-3,12,13,6)]
  obtain recs t where recs: "run ?step ?s (gen_of items None) = (recs, t)" by (metis prod.exhaust)
  note pr = producer_run [OF ex recs]
  have recs_eq: "recs = gen_of ?rows None"
    using pr gen_eq_parts [of recs] by (simp split: if_splits)
  have fits: "\<forall>x \<in> set ?rows. \<exists>vs. x = WRow vs \<and> (\<forall>cs. cw_columns w = Some cs \<longrightarrow> length vs = length cs)"
    using accepted_row [OF assms(5)] assms(11) by (fastforce simp: m_def)
  then have lens: "\<forall>cs. cw_columns w = Some cs \<longrightarrow>
      list_all (\<lambda>i. length (row_texts w (item_record m i)) = length cs) (accepted_items v items)"
    by (fastforce simp: list_all_iff row_texts_def)
  obtain out u where run: "run (csv_step codec w d) csv_init recs = (out, u)" by (metis prod.exhaust)
  have tot: "gen_end out = None" "length (gen_items out) = length (gen_items recs)"
    using csv_run_total [of codec w ?rows d csv_init, OF assms(8,9) fits] run recs_eq by simp_all
  obtain h where h: "writer_open codec (CsvWriter w) = Inr (CsvRun d csv_init, h)"
    "header_then h = (\<lambda>g. gen_append (map (\<lambda>cs. utf8 (csv_writerow d cs)) (csv_header w)) g)"
    using csv_open [of codec w d, OF assms(8,7,10)] by blast
  have "pa_after a = t"
    using payload_after [OF h(1) pay(1)] tot recs recs_eq run by (simp add: run_csv_stage)
  moreover have pa: "pa_payload a = header_then h out"
    using fst_conv_payload [OF h(1) pay(1)] recs run by (simp add: run_csv_stage)
  moreover have "concat (gen_items (pa_payload a))
      = utf8 (concat (map (csv_writerow d) (csv_header w @ map (row_texts w) ?rows)))"
  proof -
    have run': "run (csv_step codec w d) csv_init (gen_of ?rows None) = (out, u)"
      using run recs_eq by simp
    show ?thesis
      using csv_run_facts(1) [of codec w d, OF assms(8) run' tot(1)] pa h(2)
      by (simp add: gen_items_append utf8_def csv_header_def comp_def split: option.splits)
  qed
  moreover have "gen_end (gen_append xs g) = gen_end g" for xs :: "bytes list" and g
    by (induction xs) auto
  ultimately show ?thesis
    using tot(1) h(2) pr lens by (simp add: producer_init_def empty_report_def comp_def)
qed

section \<open>Instances for the witnesses\<close>

definition quiet_verdict :: "dict \<Rightarrow> validation_exec_result" where
  "quiet_verdict rec = decided [] (if dget rec ''stop'' = PyBool True then DFail else DPass)"

definition quiet_map :: "dict \<Rightarrow> mapping_result" where
  "quiet_map rec = \<lparr>mr_output = MObject [(''id'', em_VALUE (py_str (dget rec ''id'')))], mr_issues = []\<rparr>"

definition sample_item :: "string \<Rightarrow> bool \<Rightarrow> pyval" where
  "sample_item k stop = PyDict [(''id'', PyStr k), (''stop'', PyBool stop)]"

definition sample_schema :: "output_kind \<Rightarrow> string \<Rightarrow> dict \<Rightarrow> compiled_schema" where
  "sample_schema k wid cfg =
     \<lparr>cs_artifact_profile = ''full'', cs_validation_plan = \<lparr>vp_rules = []\<rparr>,
      cs_mapping_plan = \<lparr>mp_output_kind = k, mp_output_order = Some [''id''],
        mp_fields = [(''id'', plain_field ''id'' ''id'' [])], mp_tombstone_enabled = False,
        mp_tombstone_flag_path = ''deleted'', mp_tombstone_id_field = ''id''\<rparr>,
      cs_writer_spec = \<lparr>ws_writer_id = wid, ws_content_type = ''text/plain'',
        ws_file_extension = ''.txt'', ws_config = cfg\<rparr>,
      cs_diagnostics = [], cs_is_valid = True\<rparr>"

definition sample_prepared :: "output_kind \<Rightarrow> string \<Rightarrow> dict \<Rightarrow> prepared_schema" where
  "sample_prepared k wid cfg =
     \<lparr>ps_ref = \<lparr>sr_protocol_id = ''demo'', sr_schema_version = ''1''\<rparr>, ps_target_id = ''demo'',
      ps_compiled = sample_schema k wid cfg, ps_encoding = ''utf-8'',
      ps_validator = None, ps_mapper = None, ps_writer = None\<rparr>"

definition sample_now :: pydatetime where
  "sample_now = \<lparr>dt_date = (2024, 1, 1), dt_hour = 0, dt_minute = 0, dt_second = 0, dt_micro = 0,
     dt_offset = Some 0\<rparr>"

lemma sample_validator: "validator_is c (\<lambda>plan rec prof. Inr (quiet_verdict rec)) quiet_verdict"
  and sample_mapper: "mapper_is c (\<lambda>plan rec prof. Inr (quiet_map rec)) quiet_map"
  by (simp_all add: validator_is_def mapper_is_def)

lemma sample_verdicts:
  "item_verdict quiet_verdict (sample_item k stop) = (if stop then Stops else Accepted)"
  by (simp add: item_verdict_def quiet_verdict_def sample_item_def decided_def)

theorem feed_of_accepted_products_witness:
  "gen_items (fst (drain (producer_step None (sample_schema JsonObject ''jsonl'' [])
       (\<lambda>plan rec prof. Inr (quiet_verdict rec)) (\<lambda>plan rec prof. Inr (quiet_map rec)))
       (producer_init (sample_prepared JsonObject ''jsonl'' []))
       (gen_of [sample_item ''a'' False, PyInt 3, sample_item ''b'' True, sample_item ''c'' False] None)))
   = [WObject [(PyStr ''id'', WVal (PyStr ''a''))]]"
proof -
  have "item_verdict quiet_verdict (PyInt 3) = NotMapping" by (simp add: item_verdict_def)
  with feed_of_accepted_products [OF sample_validator sample_mapper] show ?thesis
    by (simp add: accepted_items_def sample_verdicts,
        simp add: item_record_def sample_item_def quiet_map_def emission_to_writer_value_def opt_str_val_def)
qed

theorem fail_ends_feed_witness:
  "\<exists>rec. sample_item ''b'' True = PyDict rec \<and>
     last (vr_diagnostics (ps_report (snd (drain (producer_step None (sample_schema JsonObject ''jsonl'' [])
       (\<lambda>plan rec prof. Inr (quiet_verdict rec)) (\<lambda>plan rec prof. Inr (quiet_map rec)))
       (producer_init (sample_prepared JsonObject ''jsonl'' []))
       (gen_append [sample_item ''a'' False] (Yield (sample_item ''b'' True) (Raise ValueError)))))))
     = fail_stop_diag (extract_item_ref rec)"
  using fail_ends_feed [OF sample_validator sample_mapper, of "sample_item ''b'' True" "[sample_item ''a'' False]"]
  by (simp add: sample_verdicts)

definition sample_bundle :: policy_bundle where
  "sample_bundle = \<lparr>pb_strictness = PolStrictness FailOnError, pb_eligibility = None,
     pb_fault = Some (PolFault SkipItem)\<rparr>"

theorem fault_isolation_confines_witness:
  "fst (drain (producer_step (Some sample_bundle) (sample_schema JsonObject ''jsonl'' [])
       (\<lambda>plan rec prof. if dhas rec ''id'' then Inr (quiet_verdict rec) else Inl KeyError)
       (\<lambda>plan rec prof. Inr (quiet_map rec)))
       (producer_init (sample_prepared JsonObject ''jsonl'' []))
       (gen_of [PyDict [], sample_item ''a'' False] None))
   = Yield (WObject [(PyStr ''id'', WVal (PyStr ''a''))]) Done"
proof -
  let ?f = "\<lambda>(plan :: validation_plan) rec (prof :: string).
      (if dhas rec ''id'' then Inr (quiet_verdict rec) else Inl KeyError) :: validation_exec_result result"
  let ?g = "\<lambda>(plan :: mapping_plan) rec (prof :: string). (Inr (quiet_map rec) :: mapping_result result)"
  let ?c = "sample_schema JsonObject ''jsonl'' []"
  have "pb_fault sample_bundle = Some (PolFault SkipItem)" "SkipItem \<noteq> FailFast"
    by (simp_all add: sample_bundle_def)
  note iso = conjunct1 [OF fault_isolation_confines [OF this, of ?c ?f ?g]]
  have raises: "item_raises ?c ?f ?g (PyDict [])" "\<not> item_raises ?c ?f ?g (sample_item ''a'' False)"
    by (simp_all add: item_raises_def sample_item_def)
  show ?thesis
    by (subst iso, simp only: gen_of_parts filter.simps raises if_True if_False not_True_eq_False not_False_eq_True)
      (simp add: drain_is_run producer_step_def sample_item_def quiet_verdict_def decided_def
        quiet_map_def emission_to_writer_value_def opt_str_val_def)
qed

definition sample_producer :: "output_kind \<Rightarrow> string \<Rightarrow> dict \<Rightarrow> producer" where
  "sample_producer k wid cfg =
     (case artifact_producer_new empty_catalog (sample_prepared k wid cfg) None of Inr p \<Rightarrow> p)"

definition sample_result :: "output_kind \<Rightarrow> string \<Rightarrow> dict \<Rightarrow> pyval list \<Rightarrow> production_result" where
  "sample_result k wid cfg items =
     (case produce_artifacts sample_codec sample_now (sample_producer k wid cfg) (gen_of items None) None of
        Inr r \<Rightarrow> r)"

definition sample_config :: dict where
  "sample_config = [(''null_value_marker'', PyStr ''NULL''), (''columns'', PyList [PyStr ''id'']),
     (''include_header'', PyBool True)]"

lemma sample_column [simp]: "column_name (PyStr ''id'') = Inr ''id''"
  by (simp add: column_name_def)

lemma sample_producer_new:
  "wid = ''jsonl'' \<or> wid = ''csv'' \<and> cfg = sample_config \<Longrightarrow>
     artifact_producer_new empty_catalog (sample_prepared k wid cfg) None = Inr (sample_producer k wid cfg)"
  by (auto simp: artifact_producer_new_def sample_producer_def build_default_writer_registry_def
      register_writer_def prepare_components_def sample_prepared_def sample_schema_def create_writer_def
      get_writer_factory_def csv_factory_def jsonl_factory_def csv_writer_new_def read_marker_def
      parse_columns_def sample_config_def Let_def)

lemmas sample_producer_defs =
  artifact_producer_new_def sample_producer_def build_default_writer_registry_def register_writer_def
  prepare_components_def sample_prepared_def sample_schema_def create_writer_def
  get_writer_factory_def csv_factory_def jsonl_factory_def

lemma sample_jsonl_writer:
  "ps_writer (pd_prepared (sample_producer k ''jsonl'' [])) =
     Some (JsonlWriter (jsonl_writer_new [] (writer_meta (sample_prepared k ''jsonl'' []))))"
  by (simp add: sample_producer_defs Let_def)

definition sample_csv_writer :: csv_writer where
  "sample_csv_writer = (case csv_writer_new sample_config
     (writer_meta (sample_prepared CsvRow ''csv'' sample_config)) None of Inr w \<Rightarrow> w)"

lemma sample_csv_writer:
  "csv_writer_new sample_config (writer_meta (sample_prepared CsvRow ''csv'' sample_config)) None
     = Inr sample_csv_writer"
  by (simp add: sample_csv_writer_def csv_writer_new_def read_marker_def parse_columns_def
      sample_config_def Let_def)

lemma sample_csv_writer_installed:
  "ps_writer (pd_prepared (sample_producer CsvRow ''csv'' sample_config)) = Some (CsvWriter sample_csv_writer)"
  using sample_csv_writer by (simp add: sample_producer_defs Let_def)

lemma sample_produced:
  assumes "wid = ''jsonl'' \<or> wid = ''csv'' \<and> cfg = sample_config"
  shows "produce_artifacts sample_codec sample_now (sample_producer k wid cfg) (gen_of items None) None
           = Inr (sample_result k wid cfg items)"
    and "pr_artifacts (sample_result k wid cfg items) = [hd (pr_artifacts (sample_result k wid cfg items))]"
proof -
  obtain w where "Inr (sample_producer k wid cfg) = (Inr \<lparr>pd_policies = None, pd_prepared =
      (sample_prepared k wid cfg)\<lparr>ps_validator := Some (default_validator empty_catalog None),
         ps_mapper := Some (default_mapper empty_catalog), ps_writer := Some w\<rparr>\<rparr> :: producer result)"
    unfolding sample_producer_new [OF assms, of k, symmetric]
    using sample_producer_new [OF assms, of k]
    by (auto simp: artifact_producer_new_def prepare_components_def rbind_Inr_iff sample_prepared_def
        sample_schema_def Let_def)
  then obtain p where p: "sample_producer k wid cfg = p" "pd_policies p = None"
      "pd_prepared p = (sample_prepared k wid cfg)\<lparr>ps_validator := Some (default_validator empty_catalog None),
         ps_mapper := Some (default_mapper empty_catalog), ps_writer := Some w\<rparr>"
    by simp
  have "\<exists>a rep. produce_artifacts sample_codec sample_now p (gen_of items None) None
      = Inr \<lparr>pr_artifacts = [a], pr_report = rep\<rparr>"
    using p(2,3)
    by (simp add: produce_artifacts_def ensure_generated_at_utc_def sample_now_def build_payload_iter_def
        artifact_metadata_of_def make_filename_hint_def sample_prepared_def sample_schema_def Let_def
        split: prod.split)
  with p(1) show "produce_artifacts sample_codec sample_now (sample_producer k wid cfg) (gen_of items None) None
           = Inr (sample_result k wid cfg items)"
    and "pr_artifacts (sample_result k wid cfg items) = [hd (pr_artifacts (sample_result k wid cfg items))]"
    by (auto simp: sample_result_def)
qed

lemma sample_run:
  "item_verdict (verdicts empty_catalog None (sample_schema k wid cfg)) (sample_item i stop) = Accepted"
  by (simp add: item_verdict_def verdicts_def sample_item_def validation_run_one_def sample_schema_def
      order_items_def Let_def)

lemma sample_row:
  "item_record (mapped empty_catalog (sample_schema CsvRow wid cfg)) (sample_item i stop)
     = WRow [WVal (PyStr i)]"
  "item_record (mapped empty_catalog (sample_schema JsonObject wid cfg)) (sample_item i stop)
     = WObject [(PyStr ''id'', WVal (PyStr i))]"
  by (simp_all add: item_record_def mapped_def sample_item_def sample_schema_def mapping_run_one_csv
      mapping_run_one_object csv_order_def cell_result_def field_result_def execute_field_def
      plain_field_def extract_by_source_path_def apply_presence_def should_project_delete_tombstone_def
      dict_keys_def emission_to_writer_value_def opt_str_val_def)

lemma sample_accepted:
  "accepted_items (verdicts empty_catalog None (sample_schema k wid cfg)) [sample_item i False]
     = [sample_item i False]"
  by (simp add: accepted_items_def sample_run)

lemma sample_prepared_parts:
  "ps_validator (sample_prepared k wid cfg) = None" "ps_mapper (sample_prepared k wid cfg) = None"
  "ps_compiled (sample_prepared k wid cfg) = sample_schema k wid cfg"
  "mp_output_kind (cs_mapping_plan (sample_schema k wid cfg)) = k"
  "csv_order (cs_mapping_plan (sample_schema k wid cfg)) = [''id'']"
  "strictness_installed None"
  by (simp_all add: sample_prepared_def sample_schema_def csv_order_def strictness_installed_def)

theorem jsonl_feed_end_to_end_witness:
  "map json_line (split_on (CHR 0x0A) (utf8_decode (concat (gen_items (pa_payload
     (hd (pr_artifacts (sample_result JsonObject ''jsonl'' [] [sample_item ''A1'' False]))))))))
   = [Some [(''id'', Some ''A1'')], None]"
  using jsonl_feed_end_to_end [where items = "[sample_item ''A1'' False]", OF sample_producer_new
      sample_prepared_parts(1,2,6) _ sample_jsonl_writer [of JsonObject] _
      sample_codec_utf8 sample_produced(1) sample_produced(2)]
  by (simp add: sample_prepared_parts sample_accepted sample_row jsonl_writer_new_def str_or_def)

end
