(* ===== verification/PFP_Effects.thy ===== *)
theory PFP_Effects
  imports Complex_Main PFP_Stream
begin

text \<open>
  Code with effects, for the parts of the program that talk to the outside.  An action takes
  the state it works on and returns an exception or a value with the new state; the state
  changes made before an exception stay, as in Python.  An exception is its classes (its own
  first, then its bases), the \<open>category\<close> attribute when it has one, and its text.
\<close>

section \<open>Exceptions with their text\<close>

record terr =
  te_mro :: "string list"
  te_category :: "string option"
  te_text :: string

definition err :: "string list \<Rightarrow> string \<Rightarrow> terr" where
  "err mro text = \<lparr>te_mro = mro, te_category = None, te_text = text\<rparr>"

definition isinstance :: "terr \<Rightarrow> string \<Rightarrow> bool" where
  "isinstance e c \<longleftrightarrow> c \<in> set (te_mro e)"

text \<open>\<open>type(exc).__name__\<close>.\<close>

definition class_name :: "terr \<Rightarrow> string" where
  "class_name e = (case te_mro e of [] \<Rightarrow> ''Exception'' | c # cs \<Rightarrow> c)"

text \<open>The exceptions of the feed's generators, whose texts are not modelled.\<close>

fun exn_mro :: "exn \<Rightarrow> string list" where
  "exn_mro ValueError = [''ValueError'']"
| "exn_mro TypeError = [''TypeError'']"
| "exn_mro KeyError = [''KeyError'', ''LookupError'']"
| "exn_mro IndexError = [''IndexError'', ''LookupError'']"
| "exn_mro AttributeError = [''AttributeError'']"
| "exn_mro InvalidOperation = [''InvalidOperation'', ''DecimalException'', ''ArithmeticError'']"
| "exn_mro RuntimeError = [''RuntimeError'']"
| "exn_mro TimeoutError = [''TimeoutError'', ''OSError'']"
| "exn_mro OverflowError = [''OverflowError'', ''ArithmeticError'']"
| "exn_mro IngestionIterationError =
     [''IngestionExtractIterationError'', ''IngestionError'', ''RuntimeError'']"
| "exn_mro AdapterFormatError = [''AdapterFormatError'', ''ValueError'']"
| "exn_mro ConnectorMappingError = [''ConnectorMappingValidationError'']"
| "exn_mro OtherError = [''Exception'']"

definition terr_of_exn :: "exn \<Rightarrow> terr" where
  "terr_of_exn e = err (exn_mro e) ''''"

section \<open>Actions\<close>

type_synonym ('s, 'a) act = "'s \<Rightarrow> (terr + 'a) \<times> 's"

definition act_return :: "'a \<Rightarrow> ('s, 'a) act" where
  "act_return x s = (Inr x, s)"

definition act_raise :: "terr \<Rightarrow> ('s, 'a) act" where
  "act_raise e s = (Inl e, s)"

definition act_bind :: "('s, 'a) act \<Rightarrow> ('a \<Rightarrow> ('s, 'b) act) \<Rightarrow> ('s, 'b) act" where
  "act_bind m f s = (case m s of (Inl e, s') \<Rightarrow> (Inl e, s') | (Inr x, s') \<Rightarrow> f x s')"

definition act_then :: "('s, 'a) act \<Rightarrow> ('s, 'b) act \<Rightarrow> ('s, 'b) act" where
  "act_then m n = act_bind m (\<lambda>_. n)"

text \<open>\<open>try: ... except Exception as exc: ...\<close>\<close>

definition act_catch :: "('s, 'a) act \<Rightarrow> (terr \<Rightarrow> ('s, 'a) act) \<Rightarrow> ('s, 'a) act" where
  "act_catch m h s = (case m s of (Inl e, s') \<Rightarrow> h e s' | (Inr x, s') \<Rightarrow> (Inr x, s'))"

text \<open>\<open>try: ... except Exception: pass\<close>\<close>

definition best_effort :: "('s, 'a) act \<Rightarrow> ('s, unit) act" where
  "best_effort m s = (Inr (), snd (m s))"

definition act_get :: "('s \<Rightarrow> 'a) \<Rightarrow> ('s, 'a) act" where
  "act_get f s = (Inr (f s), s)"

definition act_modify :: "('s \<Rightarrow> 's) \<Rightarrow> ('s, unit) act" where
  "act_modify f s = (Inr (), f s)"

definition act_lift :: "(terr + 'a) \<Rightarrow> ('s, 'a) act" where
  "act_lift r s = (r, s)"

definition act_when :: "bool \<Rightarrow> ('s, unit) act \<Rightarrow> ('s, unit) act" where
  "act_when b m = (if b then m else act_return ())"

text \<open>An action on one half of a state.\<close>

definition on_fst :: "('s, 'a) act \<Rightarrow> ('s \<times> 't, 'a) act" where
  "on_fst m p = (case m (fst p) of (r, s) \<Rightarrow> (r, (s, snd p)))"

definition on_snd :: "('t, 'a) act \<Rightarrow> ('s \<times> 't, 'a) act" where
  "on_snd m p = (case m (snd p) of (r, t) \<Rightarrow> (r, (fst p, t)))"

named_theorems act_defs \<open>definitions of the action combinators\<close>

lemmas act_basic_defs [act_defs] =
  act_return_def act_raise_def act_bind_def act_then_def act_catch_def best_effort_def
  act_get_def act_modify_def act_lift_def act_when_def on_fst_def on_snd_def

lemma act_bind_Inr:
  "act_bind m f s = (Inr y, s'') \<longleftrightarrow> (\<exists>x s'. m s = (Inr x, s') \<and> f x s' = (Inr y, s''))"
  by (auto simp: act_bind_def split: prod.splits sum.splits)

lemma act_then_Inr:
  "act_then m n s = (Inr y, s'') \<longleftrightarrow> (\<exists>x s'. m s = (Inr x, s') \<and> n s' = (Inr y, s''))"
  by (simp add: act_then_def act_bind_Inr)

lemma act_catch_raise_Inr:
  "act_catch m (\<lambda>e. act_raise (f e)) s = (Inr x, s') \<longleftrightarrow> m s = (Inr x, s')"
  by (auto simp: act_catch_def act_raise_def split: prod.splits sum.splits)

lemma act_catch_Inr:
  assumes "\<And>e w u. fst (h e w) \<noteq> Inr u"
  shows "act_catch m h s = (Inr x, s') \<longleftrightarrow> m s = (Inr x, s')"
proof -
  obtain r s1 where m: "m s = (r, s1)" by (metis prod.exhaust)
  show ?thesis
  proof (cases r)
    case (Inl e)
    have "h e s1 \<noteq> (Inr x, s')" using assms [of e s1 x] by auto
    then show ?thesis using m Inl by (simp add: act_catch_def)
  qed (use m in \<open>simp add: act_catch_def\<close>)
qed

lemma act_then_assoc: "act_then (act_then a b) c = act_then a (act_then b c)"
  by (rule ext) (auto simp: act_then_def act_bind_def split: prod.splits sum.splits)

lemma act_then_Inl:
  "act_then m n s = (Inl e, s') \<longleftrightarrow>
     m s = (Inl e, s') \<or> (\<exists>x s1. m s = (Inr x, s1) \<and> n s1 = (Inl e, s'))"
  by (auto simp: act_then_def act_bind_def split: prod.splits sum.splits)

lemma on_fst_Inr: "on_fst m p = (Inr x, p') \<longleftrightarrow> m (fst p) = (Inr x, fst p') \<and> snd p' = snd p"
  by (cases p; cases p') (auto simp: on_fst_def split: prod.splits)

lemma on_snd_Inr: "on_snd m p = (Inr x, p') \<longleftrightarrow> m (snd p) = (Inr x, snd p') \<and> fst p' = fst p"
  by (cases p; cases p') (auto simp: on_snd_def split: prod.splits)

section \<open>What an action keeps\<close>

text \<open>
  \<open>preserves I m\<close>: from a state with \<open>I\<close>, the action ends in a state with \<open>I\<close>, whether it returns or
  raises.
\<close>

named_theorems preserves_intros \<open>actions and the invariants they keep\<close>

definition preserves :: "('s \<Rightarrow> bool) \<Rightarrow> ('s, 'a) act \<Rightarrow> bool" where
  "preserves I m \<longleftrightarrow> (\<forall>s. I s \<longrightarrow> I (snd (m s)))"

lemma preserves_D: "preserves I m \<Longrightarrow> m s = (r, s') \<Longrightarrow> I s \<Longrightarrow> I s'"
  unfolding preserves_def by (metis snd_conv)

lemma preserves_bind [preserves_intros]:
  assumes "preserves I m" "\<And>x. preserves I (f x)"
  shows "preserves I (act_bind m f)"
  unfolding preserves_def
proof (intro allI impI)
  fix s assume I: "I s"
  obtain r s1 where m: "m s = (r, s1)" by (metis prod.exhaust)
  have "I s1" by (rule preserves_D [OF assms(1) m I])
  show "I (snd (act_bind m f s))"
  proof (cases r)
    case (Inl e)
    then show ?thesis using m \<open>I s1\<close> by (simp add: act_bind_def)
  next
    case (Inr x)
    have "I (snd (f x s1))" using assms(2) \<open>I s1\<close> unfolding preserves_def by blast
    then show ?thesis using m \<open>r = Inr x\<close> by (simp add: act_bind_def)
  qed
qed

lemma preserves_catch [preserves_intros]:
  assumes "preserves I m" "\<And>e. preserves I (h e)"
  shows "preserves I (act_catch m h)"
  unfolding preserves_def
proof (intro allI impI)
  fix s assume I: "I s"
  obtain r s1 where m: "m s = (r, s1)" by (metis prod.exhaust)
  have "I s1" by (rule preserves_D [OF assms(1) m I])
  show "I (snd (act_catch m h s))"
  proof (cases r)
    case (Inr x)
    then show ?thesis using m \<open>I s1\<close> by (simp add: act_catch_def)
  next
    case (Inl e)
    have "I (snd (h e s1))" using assms(2) \<open>I s1\<close> unfolding preserves_def by blast
    then show ?thesis using m \<open>r = Inl e\<close> by (simp add: act_catch_def)
  qed
qed

lemma preserves_basic [preserves_intros]:
  "preserves I (act_return x)" "preserves I (act_raise e)" "preserves I (act_get f)"
  "preserves I (act_lift r)"
  by (simp_all add: preserves_def act_return_def act_raise_def act_get_def act_lift_def)

lemma preserves_then [preserves_intros]: "preserves I m \<Longrightarrow> preserves I n \<Longrightarrow> preserves I (act_then m n)"
  unfolding act_then_def by (intro preserves_intros)

lemma preserves_if [preserves_intros]:
  "(b \<Longrightarrow> preserves I m) \<Longrightarrow> (\<not> b \<Longrightarrow> preserves I n) \<Longrightarrow> preserves I (if b then m else n)"
  by simp

lemma preserves_when [preserves_intros]: "preserves I m \<Longrightarrow> preserves I (act_when b m)"
  by (simp add: act_when_def preserves_basic)

lemma preserves_best_effort [preserves_intros]: "preserves I m \<Longrightarrow> preserves I (best_effort m)"
  by (simp add: preserves_def best_effort_def)

text \<open>An action whose definition reads the state first.\<close>

lemma preserves_read: "(\<And>s. I s \<Longrightarrow> preserves I (m s)) \<Longrightarrow> preserves I (\<lambda>s. m s s)"
  by (simp add: preserves_def)

section \<open>An interface: a sink of chunks\<close>

text \<open>
  The archivers and the delivery clients share one cycle: \<open>open\<close>, then one write per chunk, then
  \<open>finalize\<close>.  The contract: after a successful \<open>open\<close> nothing is pending, a successful write
  appends the chunk to what is pending, and a successful \<open>finalize\<close> has stored what was
  pending.  \<open>pend\<close> holds of a state and the payload collected so far, \<open>stored\<close> of a state, the
  result of \<open>finalize\<close> and the payload it promises.
\<close>

fun put_all :: "('c \<Rightarrow> ('s, unit) act) \<Rightarrow> 'c list \<Rightarrow> ('s, unit) act" where
  "put_all put [] = act_return ()"
| "put_all put (c # cs) = act_then (put c) (put_all put cs)"

locale sink =
  fixes good :: "'s \<Rightarrow> bool"
    and opn :: "('s, unit) act"
    and put :: "'c list \<Rightarrow> ('s, unit) act"
    and fin :: "('s, 'r) act"
    and pend :: "'s \<Rightarrow> 'c list \<Rightarrow> bool"
    and stored :: "'s \<Rightarrow> 'r \<Rightarrow> 'c list \<Rightarrow> bool"
  assumes open_empty: "good s \<Longrightarrow> opn s = (Inr (), s') \<Longrightarrow> pend s' []"
    and put_appends: "pend s p \<Longrightarrow> put c s = (Inr (), s') \<Longrightarrow> pend s' (p @ c)"
    and fin_stores: "pend s p \<Longrightarrow> fin s = (Inr r, s') \<Longrightarrow> stored s' r p"
begin

lemma put_all_appends:
  "pend s p \<Longrightarrow> put_all put cs s = (Inr (), s') \<Longrightarrow> pend s' (p @ concat cs)"
proof (induction cs arbitrary: s p)
  case Nil
  then show ?case by (simp add: act_return_def)
next
  case (Cons c cs)
  then obtain s1 where "put c s = (Inr (), s1)" "put_all put cs s1 = (Inr (), s')"
    by (auto simp: act_then_Inr)
  then show ?case using Cons.IH [of s1 "p @ c"] put_appends [OF Cons.prems(1)] by simp
qed

lemma cycle_stores:
  assumes "good s" "opn s = (Inr (), s1)" "put_all put cs s1 = (Inr (), s2)" "fin s2 = (Inr r, s3)"
  shows "stored s3 r (concat cs)"
  using fin_stores [OF _ assms(4)] put_all_appends [OF open_empty [OF assms(1,2)] assms(3)] by simp

end

end
