(* ===== verification/PFP_Chunk_Buffer.thy ===== *)
theory PFP_Chunk_Buffer
  imports PFP_Effects PFP_Writers
begin

text \<open>
  The in-memory chunk buffer of the delivery clients
  (\<open>publishing/support/chunk_buffer.py\<close>), its life cycle as a table over four phases, and the
  proof that the buffer implements the table.
\<close>

section \<open>The buffer\<close>

record chunk_buffer =
  cb_max_bytes :: int
  cb_buffer :: "bytes option"
  cb_closed :: bool
  cb_frozen :: bool

definition chunk_buffer_error :: "string \<Rightarrow> terr" where
  "chunk_buffer_error = err [''ChunkBufferError'', ''RuntimeError'']"

definition chunk_buffer_new :: "int \<Rightarrow> terr + chunk_buffer" where
  "chunk_buffer_new max_bytes =
     (if max_bytes < 0 then Inl (err [''ValueError''] ''max_bytes must be >= 0'')
      else Inr \<lparr>cb_max_bytes = max_bytes, cb_buffer = None, cb_closed = False, cb_frozen = False\<rparr>)"

definition cb_open :: "(chunk_buffer, unit) act" where
  "cb_open b = (Inr (), b\<lparr>cb_buffer := Some [], cb_closed := False, cb_frozen := False\<rparr>)"

definition cb_write :: "bytes \<Rightarrow> (chunk_buffer, unit) act" where
  "cb_write chunk b =
     (if cb_closed b then (Inl (chunk_buffer_error ''write() called after close()''), b)
      else if cb_frozen b
      then (Inl (chunk_buffer_error ''write() called after get_body()/take_body()''), b)
      else case cb_buffer b of
        None \<Rightarrow> (Inl (chunk_buffer_error ''write() called before open()''), b)
      | Some d \<Rightarrow>
          (let new_size = int (length d) + int (length chunk) in
           if 0 < cb_max_bytes b \<and> cb_max_bytes b < new_size
           then (Inl (chunk_buffer_error (''Payload size ('' @ int_str new_size @
                   '' bytes) would exceed max_bytes='' @ int_str (cb_max_bytes b))), b)
           else (Inr (), b\<lparr>cb_buffer := Some (d @ chunk)\<rparr>)))"

definition cb_get_body :: "(chunk_buffer, bytes) act" where
  "cb_get_body b =
     (if cb_closed b then (Inl (chunk_buffer_error ''get_body() called after close()''), b)
      else case cb_buffer b of
        None \<Rightarrow> (Inl (chunk_buffer_error ''get_body() called before open()''), b)
      | Some d \<Rightarrow> (Inr d, b\<lparr>cb_frozen := True\<rparr>))"

definition cb_close :: "(chunk_buffer, unit) act" where
  "cb_close b = (Inr (), b\<lparr>cb_buffer := None, cb_closed := True\<rparr>)"

definition cb_take_body :: "(chunk_buffer, bytes) act" where
  "cb_take_body b =
     (if cb_closed b then (Inl (chunk_buffer_error ''take_body() called after close()''), b)
      else case cb_buffer b of
        None \<Rightarrow> (Inl (chunk_buffer_error ''take_body() called before open()''), b)
      | Some d \<Rightarrow> (Inr d, snd (cb_close b)))"

definition cb_size :: "(chunk_buffer, nat) act" where
  "cb_size b =
     (if cb_closed b then (Inl (chunk_buffer_error ''size() called after close()''), b)
      else case cb_buffer b of
        None \<Rightarrow> (Inl (chunk_buffer_error ''size() called before open()''), b)
      | Some d \<Rightarrow> (Inr (length d), b))"

lemmas cb_defs = cb_open_def cb_write_def cb_get_body_def cb_close_def cb_take_body_def cb_size_def

text \<open>One call of the client, and a sequence of calls: a failed call leaves the object usable.\<close>

datatype cb_call = COpen | CWrite bytes | CGetBody | CTakeBody | CSize | CClose

datatype cb_value = VUnit | VBytes bytes | VNat nat

definition act_map :: "('a \<Rightarrow> 'b) \<Rightarrow> ('s, 'a) act \<Rightarrow> ('s, 'b) act" where
  "act_map f m s = (case m s of (r, s') \<Rightarrow> (map_sum id f r, s'))"

fun cb_do :: "cb_call \<Rightarrow> (chunk_buffer, cb_value) act" where
  "cb_do COpen = act_map (\<lambda>_. VUnit) cb_open"
| "cb_do (CWrite chunk) = act_map (\<lambda>_. VUnit) (cb_write chunk)"
| "cb_do CGetBody = act_map VBytes cb_get_body"
| "cb_do CTakeBody = act_map VBytes cb_take_body"
| "cb_do CSize = act_map VNat cb_size"
| "cb_do CClose = act_map (\<lambda>_. VUnit) cb_close"

fun calls :: "('c \<Rightarrow> ('s, 'v) act) \<Rightarrow> 'c list \<Rightarrow> 's \<Rightarrow> (terr + 'v) list \<times> 's" where
  "calls f [] s = ([], s)"
| "calls f (c # cs) s =
     (case f c s of (r, s') \<Rightarrow> (case calls f cs s' of (rs, s'') \<Rightarrow> (r # rs, s'')))"

section \<open>The phases\<close>

text \<open>
  What the class promises: nothing before \<open>open\<close>, a growing payload, a frozen payload after
  \<open>get_body\<close>, nothing again after \<open>take_body\<close> or \<open>close\<close>; \<open>open\<close> starts over from anywhere.
\<close>

datatype phase = Fresh | Collecting bytes | Frozen bytes | Released

definition misuse :: "string \<Rightarrow> phase \<Rightarrow> terr" where
  "misuse method ph =
     chunk_buffer_error (method @ ''() called '' @ (if ph = Released then ''after close()'' else ''before open()''))"

definition too_big :: "int \<Rightarrow> nat \<Rightarrow> bool" where
  "too_big limit n \<longleftrightarrow> 0 < limit \<and> limit < int n"

fun payload :: "phase \<Rightarrow> bytes option" where
  "payload (Collecting d) = Some d"
| "payload (Frozen d) = Some d"
| "payload _ = None"

fun spec_write :: "int \<Rightarrow> bytes \<Rightarrow> phase \<Rightarrow> (terr + cb_value) \<times> phase" where
  "spec_write limit chunk (Collecting d) =
     (if too_big limit (length (d @ chunk))
      then (Inl (chunk_buffer_error (''Payload size ('' @ int_str (int (length (d @ chunk))) @
              '' bytes) would exceed max_bytes='' @ int_str limit)), Collecting d)
      else (Inr VUnit, Collecting (d @ chunk)))"
| "spec_write limit chunk (Frozen d) =
     (Inl (chunk_buffer_error ''write() called after get_body()/take_body()''), Frozen d)"
| "spec_write limit chunk ph = (Inl (misuse ''write'' ph), ph)"

definition spec_read :: "string \<Rightarrow> (bytes \<Rightarrow> cb_value) \<Rightarrow> (bytes \<Rightarrow> phase) \<Rightarrow> phase \<Rightarrow> (terr + cb_value) \<times> phase" where
  "spec_read method value next ph =
     (case payload ph of None \<Rightarrow> (Inl (misuse method ph), ph) | Some d \<Rightarrow> (Inr (value d), next d))"

fun spec_do :: "int \<Rightarrow> cb_call \<Rightarrow> (phase, cb_value) act" where
  "spec_do limit COpen ph = (Inr VUnit, Collecting [])"
| "spec_do limit (CWrite chunk) ph = spec_write limit chunk ph"
| "spec_do limit CGetBody ph = spec_read ''get_body'' VBytes Frozen ph"
| "spec_do limit CTakeBody ph = spec_read ''take_body'' VBytes (\<lambda>_. Released) ph"
| "spec_do limit CSize ph = spec_read ''size'' (\<lambda>d. VNat (length d)) (\<lambda>_. ph) ph"
| "spec_do limit CClose ph = (Inr VUnit, Released)"

definition phase_of :: "chunk_buffer \<Rightarrow> phase" where
  "phase_of b =
     (if cb_closed b then Released
      else case cb_buffer b of
        None \<Rightarrow> Fresh
      | Some d \<Rightarrow> if cb_frozen b then Frozen d else Collecting d)"

text \<open>The flags a buffer can have.\<close>

definition cb_inv :: "int \<Rightarrow> chunk_buffer \<Rightarrow> bool" where
  "cb_inv limit b \<longleftrightarrow> cb_max_bytes b = limit
     \<and> (cb_closed b \<longrightarrow> cb_buffer b = None)
     \<and> (cb_buffer b = None \<and> \<not> cb_closed b \<longrightarrow> \<not> cb_frozen b)
     \<and> (\<forall>d. cb_buffer b = Some d \<longrightarrow> \<not> too_big limit (length d))"

lemma cb_inv_new: "chunk_buffer_new limit = Inr b \<Longrightarrow> cb_inv limit b \<and> phase_of b = Fresh"
  by (auto simp: chunk_buffer_new_def cb_inv_def phase_of_def too_big_def split: if_splits)

lemma cb_inv_cases:
  assumes "cb_inv limit b"
  obtains "b = \<lparr>cb_max_bytes = limit, cb_buffer = None, cb_closed = False, cb_frozen = False\<rparr>"
    | f where "b = \<lparr>cb_max_bytes = limit, cb_buffer = None, cb_closed = True, cb_frozen = f\<rparr>"
    | d f where "b = \<lparr>cb_max_bytes = limit, cb_buffer = Some d, cb_closed = False, cb_frozen = f\<rparr>"
        "\<not> too_big limit (length d)"
  using assms by (cases b; cases "cb_buffer b"; cases "cb_closed b"; cases "cb_frozen b")
    (simp_all add: cb_inv_def)

definition simulates :: "int \<Rightarrow> cb_call \<Rightarrow> chunk_buffer \<Rightarrow> bool" where
  "simulates limit c b \<longleftrightarrow> cb_inv limit (snd (cb_do c b))
     \<and> spec_do limit c (phase_of b) = (fst (cb_do c b), phase_of (snd (cb_do c b)))"

lemma cb_do_simulates:
  assumes "cb_inv limit b"
  shows "simulates limit c b"
proof -
  have [simp]: "\<not> too_big limit 0" by (simp add: too_big_def)
  note defs = simulates_def cb_inv_def phase_of_def act_map_def cb_defs
  from assms show ?thesis
  proof (cases rule: cb_inv_cases)
    case 1
    then show ?thesis by (cases c) (simp_all add: defs misuse_def spec_read_def)
  next
    case 2
    then show ?thesis by (cases c) (simp_all add: defs misuse_def spec_read_def)
  next
    case (3 d f)
    then show ?thesis
      by (cases c; cases f) (simp_all add: defs spec_read_def Let_def too_big_def)
  qed
qed

text \<open>
  C21: The chunk buffer implements its life cycle.  For every sequence of calls, valid or not, a
  buffer created with a limit answers each call exactly as the table of phases does (same value
  or same exception), and ends in the phase the table ends in.
\<close>

theorem chunk_buffer_refines:
  assumes "chunk_buffer_new limit = Inr b"
  shows "calls (spec_do limit) cs Fresh
    = (fst (calls cb_do cs b), phase_of (snd (calls cb_do cs b)))"
proof -
  have "calls (spec_do limit) cs (phase_of b) = (fst (calls cb_do cs b), phase_of (snd (calls cb_do cs b)))"
    if "cb_inv limit b" for b
    using that
  proof (induction cs arbitrary: b)
    case (Cons c cs)
    then show ?case
      using cb_do_simulates [OF Cons.prems, of c] by (auto simp: simulates_def split: prod.splits)
  qed simp
  from this [of b] show ?thesis using cb_inv_new [OF assms] by simp
qed

definition buffer_sample :: chunk_buffer where
  "buffer_sample = \<lparr>cb_max_bytes = 3, cb_buffer = None, cb_closed = False, cb_frozen = False\<rparr>"

theorem chunk_buffer_refines_witness:
  "calls (spec_do 3) [CWrite ''a'', COpen, CWrite ''ab'', CWrite ''cd'', CGetBody, CWrite ''e'', CClose] Fresh
     = (fst (calls cb_do [CWrite ''a'', COpen, CWrite ''ab'', CWrite ''cd'', CGetBody, CWrite ''e'', CClose] buffer_sample),
        phase_of (snd (calls cb_do [CWrite ''a'', COpen, CWrite ''ab'', CWrite ''cd'', CGetBody, CWrite ''e'', CClose] buffer_sample)))"
  by (rule chunk_buffer_refines) (simp add: chunk_buffer_new_def buffer_sample_def)

section \<open>What the buffer holds\<close>

text \<open>
  The chunks of a history of calls and answers: the writes that were answered since the last
  \<open>open\<close>, and nothing once the body has been taken or the buffer closed.
\<close>

fun chunks_held :: "bytes list option \<Rightarrow> (cb_call \<times> (terr + cb_value)) list \<Rightarrow> bytes list option" where
  "chunks_held h [] = h"
| "chunks_held h ((c, Inl e) # t) = chunks_held h t"
| "chunks_held h ((COpen, Inr v) # t) = chunks_held (Some []) t"
| "chunks_held h ((CWrite chunk, Inr v) # t) = chunks_held (map_option (\<lambda>cs. cs @ [chunk]) h) t"
| "chunks_held h ((CTakeBody, Inr v) # t) = chunks_held None t"
| "chunks_held h ((CClose, Inr v) # t) = chunks_held None t"
| "chunks_held h ((c, Inr v) # t) = chunks_held h t"

text \<open>The state after a history: the flags are sound and the bytes are those of the chunks.\<close>

definition holds :: "int \<Rightarrow> bytes list option \<Rightarrow> chunk_buffer \<Rightarrow> bool" where
  "holds limit h b \<longleftrightarrow> cb_inv limit b \<and> cb_buffer b = map_option concat h"

lemma cb_do_holds:
  assumes "holds limit h b" "cb_do c b = (r, b')"
  shows "holds limit (chunks_held h [(c, r)]) b'"
proof -
  have inv: "cb_inv limit b'"
    using cb_do_simulates [of limit b c] assms by (simp add: simulates_def holds_def)
  have buf: "cb_buffer b = map_option concat h" using assms(1) by (simp add: holds_def)
  have r: "r = fst (cb_do c b)" "b' = snd (cb_do c b)" using assms(2) by simp_all
  have "cb_buffer b' = map_option concat (chunks_held h [(c, r)])"
    unfolding r by (cases c; cases h) (simp_all add: cb_defs act_map_def Let_def buf)
  with inv show ?thesis by (simp add: holds_def)
qed

lemma chunks_held_step: "chunks_held h ((c, r) # t) = chunks_held (chunks_held h [(c, r)]) t"
  by (cases r; cases c) simp_all

lemma calls_hold:
  "holds limit h b \<Longrightarrow> calls cb_do cs b = (rs, b') \<Longrightarrow> holds limit (chunks_held h (zip cs rs)) b'"
proof (induction cs arbitrary: h b rs)
  case (Cons c cs)
  obtain r b1 where one: "cb_do c b = (r, b1)" by force
  obtain rs' where rest: "calls cb_do cs b1 = (rs', b')" "rs = r # rs'"
    using Cons.prems(2) one by (auto split: prod.splits)
  from Cons.IH [OF cb_do_holds [OF Cons.prems(1) one] rest(1)] show ?case
    unfolding rest(2) zip_Cons_Cons by (subst chunks_held_step)
qed simp

text \<open>
  C22: The buffer holds what was written to it and never more than its limit.  After any sequence
  of calls on a buffer created with a limit, the body is the concatenation of the chunks of the
  \<open>write\<close> calls that did not raise since the last \<open>open\<close>, \<open>size()\<close> is the sum of their lengths and
  at most the limit (0 means no limit); and before \<open>open\<close>, after \<open>close\<close> and after \<open>take_body\<close> the
  buffer holds nothing and \<open>size()\<close> raises.
\<close>

theorem chunk_buffer_bounded:
  assumes "chunk_buffer_new limit = Inr b0" "calls cb_do cs b0 = (rs, b)"
  shows "case chunks_held None (zip cs rs) of
      None \<Rightarrow> cb_buffer b = None \<and> fst (cb_size b) = Inl (misuse ''size'' (phase_of b))
    | Some chunks \<Rightarrow> fst (cb_get_body b) = Inr (concat chunks)
        \<and> fst (cb_size b) = Inr (sum_list (map length chunks))
        \<and> (limit = 0 \<or> int (sum_list (map length chunks)) \<le> limit)"
proof -
  have "holds limit None b0" "0 \<le> limit"
    using assms(1) cb_inv_new [OF assms(1)] by (auto simp: holds_def chunk_buffer_new_def split: if_splits)
  then have "holds limit (chunks_held None (zip cs rs)) b" by (rule_tac calls_hold [OF _ assms(2)])
  with \<open>0 \<le> limit\<close> show ?thesis
    by (auto simp: holds_def cb_inv_def cb_size_def cb_get_body_def too_big_def misuse_def phase_of_def
        length_concat [symmetric] split: option.splits)
qed

text \<open>A write that is too long raises and adds nothing; a second \<open>open\<close> starts over.\<close>

theorem chunk_buffer_bounded_witness:
  "\<exists>rs b. calls cb_do [COpen, CWrite ''x'', COpen, CWrite ''ab'', CWrite ''cd'', CWrite ''e''] buffer_sample = (rs, b)
     \<and> fst (cb_get_body b) = Inr ''abe'' \<and> fst (cb_size b) = Inr 3"
proof -
  let ?cs = "[COpen, CWrite ''x'', COpen, CWrite ''ab'', CWrite ''cd'', CWrite ''e'']"
  obtain rs b where run: "calls cb_do ?cs buffer_sample = (rs, b)" by force
  have new: "chunk_buffer_new 3 = Inr buffer_sample" by (simp add: chunk_buffer_new_def buffer_sample_def)
  have "chunks_held None (zip ?cs rs) = Some [''ab'', ''e'']"
    using run by (auto simp: cb_defs act_map_def buffer_sample_def Let_def)
  with chunk_buffer_bounded [OF new run] run show ?thesis by auto
qed

end
