(* ===== verification/PFP_Redaction.thy ===== *)
theory PFP_Redaction
  imports PFP_Feed_Ops PFP_Diagnostics "HOL-Library.Sublist"
begin

text \<open>
  Redaction: \<open>pfp_utils/sanitization/redaction.py\<close>, the diagnostic sanitizer built on it
  (\<open>pfp_utils/diagnostics/diagnostic_sanitizer.py\<close>) and the extra pass of the transport errors
  (\<open>_redact_sensitive_fragments\<close>).  A regular expression of the code is a matcher: from the
  character before and the text from here on, the length of a match and what replaces it.
  The case-insensitive keywords are ASCII.
\<close>

section \<open>Replacement\<close>

definition mask_text :: string where
  "mask_text = ''***''"

text \<open>\<open>s.replace(old, new)\<close> for a non-empty \<open>old\<close>.\<close>

function replace_all :: "string \<Rightarrow> string \<Rightarrow> string \<Rightarrow> string" where
  "replace_all old new [] = []"
| "replace_all old new (c # cs) =
     (if old \<noteq> [] \<and> startswith (c # cs) old
      then new @ replace_all old new (drop (length old) (c # cs))
      else c # replace_all old new cs)"
  by pat_completeness auto
termination
  by (relation "measure (\<lambda>(old, new, s). length s)") auto

type_synonym matcher = "char option \<Rightarrow> string \<Rightarrow> (nat \<times> string) option"

text \<open>\<open>pattern.sub(...)\<close> for a pattern that does not match the empty text.\<close>

function re_sub :: "matcher \<Rightarrow> char option \<Rightarrow> string \<Rightarrow> string" where
  "re_sub m prev [] = []"
| "re_sub m prev (c # cs) =
     (case m prev (c # cs) of
        Some (n, rep) \<Rightarrow>
          if n = 0 then c # re_sub m (Some c) cs
          else rep @ re_sub m (Some (last (take n (c # cs)))) (drop n (c # cs))
      | None \<Rightarrow> c # re_sub m (Some c) cs)"
  by pat_completeness auto
termination
  by (relation "measure (\<lambda>(m, prev, s). length s)") auto

section \<open>The three patterns\<close>

definition secret_names :: "string list" where
  "secret_names = [''token'', ''api_key'', ''api-key'', ''apikey'', ''password'', ''secret'',
     ''access_token'', ''access-token'', ''accesstoken'']"

definition starts_ci :: "string \<Rightarrow> string \<Rightarrow> bool" where
  "starts_ci s p \<longleftrightarrow> lower (take (length p) s) = p"

definition bearer_match :: matcher where
  "bearer_match prev s =
     (let r = drop 6 s; spaces = takeWhile is_space r;
          v = takeWhile (\<lambda>c. \<not> is_space c) (dropWhile is_space r);
          kept = 6 + length spaces
      in if starts_ci s ''bearer'' \<and> spaces \<noteq> [] \<and> v \<noteq> []
         then Some (kept + length v, take kept s @ mask_text) else None)"

definition url_match :: matcher where
  "url_match prev s =
     (case s of
        [] \<Rightarrow> None
      | c # cs \<Rightarrow>
          if c = CHR ''?'' \<or> c = CHR ''&'' then
            (case find (\<lambda>n. starts_ci cs (n @ ''='')) secret_names of
               None \<Rightarrow> None
             | Some n \<Rightarrow>
                 (let kept = Suc (length n) + 1;
                      v = takeWhile (\<lambda>x. \<not> is_space x \<and> x \<noteq> CHR ''&'' \<and> x \<noteq> CHR 0x23) (drop kept s)
                  in if v \<noteq> [] then Some (kept + length v, take kept s @ mask_text) else None))
          else None)"

definition word_before :: "char option \<Rightarrow> bool" where
  "word_before prev \<longleftrightarrow> (case prev of None \<Rightarrow> False | Some c \<Rightarrow> is_word c)"

definition inline_match :: matcher where
  "inline_match prev s =
     (if word_before prev then None
      else case find (starts_ci s) secret_names of
        None \<Rightarrow> None
      | Some n \<Rightarrow>
          (case dropWhile is_space (drop (length n) s) of
             [] \<Rightarrow> None
           | c # r \<Rightarrow>
               (let r' = dropWhile is_space r;
                    v = takeWhile (\<lambda>x. \<not> is_space x \<and> x \<notin> {CHR '','', CHR '';'', CHR ''&'', CHR 0x23}) r'
                in if (c = CHR '':'' \<or> c = CHR ''='') \<and> v \<noteq> []
                   then Some (length s - length r' + length v, take (length n) s @ ''='' @ mask_text)
                   else None)))"

fun replace_secrets :: "string list \<Rightarrow> string \<Rightarrow> string" where
  "replace_secrets [] s = s"
| "replace_secrets (x # xs) s = replace_secrets xs (if x \<noteq> [] then replace_all x mask_text s else s)"

definition sanitize_text :: "string list \<Rightarrow> string \<Rightarrow> string" where
  "sanitize_text secrets value =
     re_sub inline_match None (re_sub url_match None (re_sub bearer_match None
       (replace_secrets secrets value)))"

section \<open>Mappings and diagnostics\<close>

definition sensitive_key :: "string \<Rightarrow> bool" where
  "sensitive_key key \<longleftrightarrow>
     (\<exists>t \<in> set [''secret'', ''token'', ''password'', ''api_key'']. in_sub t (lower key))"

fun sanitize_value :: "pyval \<Rightarrow> pyval" where
  "sanitize_value (PyDict d) =
     PyDict (map (\<lambda>(k, v). (k, if sensitive_key k then PyStr mask_text else sanitize_value v)) d)"
| "sanitize_value (PyList xs) = PyList (map sanitize_value xs)"
| "sanitize_value (PyStr s) = PyStr (sanitize_text [] s)"
| "sanitize_value v = v"

definition sanitize_mapping :: "dict \<Rightarrow> dict" where
  "sanitize_mapping d =
     map (\<lambda>(k, v). (k, if sensitive_key k then PyStr mask_text else sanitize_value v)) d"

definition sanitize_diagnostic :: "diagnostic \<Rightarrow> diagnostic" where
  "sanitize_diagnostic d =
     diag_new (dg_severity d) (dg_code d) (sanitize_text [] (dg_message d)) (dg_path d)
       (dg_item_ref d) (sanitize_mapping (dg_metadata d))"

definition sanitize_validation_report :: "validation_report \<Rightarrow> validation_report" where
  "sanitize_validation_report r =
     \<lparr>vr_target = vr_target r, vr_profile = vr_profile r,
      vr_diagnostics = map sanitize_diagnostic (vr_diagnostics r)\<rparr>"

section \<open>Transport error fragments\<close>

text \<open>
  \<open>\b[^\s]*(secret|token|api[_-]?key|password)[^\s]*\b\<close>: in a run without white space that holds
  a keyword, everything from its first to its last word character.
\<close>

definition fragment_match :: matcher where
  "fragment_match prev s =
     (let run = takeWhile (\<lambda>c. \<not> is_space c) s;
          body = rev (dropWhile (\<lambda>c. \<not> is_word c) (rev run))
      in if \<not> word_before prev \<and> s \<noteq> [] \<and> is_word (hd s)
            \<and> (\<exists>k \<in> set [''secret'', ''token'', ''api_key'', ''api-key'', ''apikey'', ''password''].
                in_sub k (lower run))
         then Some (length body, mask_text) else None)"

definition redact_sensitive_fragments :: "string \<Rightarrow> string" where
  "redact_sensitive_fragments s = re_sub fragment_match None s"

section \<open>What redaction keeps and hides\<close>

text \<open>
  A matcher that keeps a prefix of what it matched and puts starred text after it cannot make
  new text appear: a fragment without the characters of the masks that is in the result was in
  the input.
\<close>

definition mask_chars :: "char set" where
  "mask_chars = {CHR ''*'', CHR ''=''}"

definition masking :: "matcher \<Rightarrow> bool" where
  "masking m \<longleftrightarrow> (\<forall>prev s n rep. m prev s = Some (n, rep) \<longrightarrow>
     (\<exists>k q. rep = take k s @ q \<and> k \<le> n \<and> q \<noteq> [] \<and> set q \<subseteq> mask_chars))"

lemma sublist_around_mask:
  assumes "sublist x (a @ q @ b)" "q \<noteq> []" "set q \<subseteq> mask_chars" "set x \<inter> mask_chars = {}"
  shows "sublist x a \<or> sublist x b"
proof -
  have cut: "sublist x a' \<or> sublist x b'" if "sublist x (a' @ c # b')" "c \<in> mask_chars" for a' b' c
  proof -
    have "c \<notin> set x" using that(2) assms(4) by auto
    from that(1) have "sublist x a' \<or> sublist x (c # b') \<or> (\<exists>x1 x2. x = x1 @ x2 \<and> suffix x1 a' \<and> prefix x2 (c # b'))"
      by (simp only: sublist_append)
    then show ?thesis
    proof (elim disjE exE conjE)
      assume "sublist x (c # b')"
      then have "prefix x (c # b') \<or> sublist x b'" by (simp add: sublist_Cons_right)
      then show ?thesis using \<open>c \<notin> set x\<close> by (cases x) auto
    next
      fix x1 x2
      assume x: "x = x1 @ x2" "suffix x1 a'" "prefix x2 (c # b')"
      then have "x2 = []" using \<open>c \<notin> set x\<close> by (cases x2) auto
      then have "sublist x a'" using x by auto
      then show ?thesis ..
    qed simp
  qed
  have "sublist x (a @ q @ b) \<Longrightarrow> q \<noteq> [] \<Longrightarrow> set q \<subseteq> mask_chars \<Longrightarrow> sublist x a \<or> sublist x b" for q
  proof (induction q)
    case (Cons c q)
    then have "sublist x a \<or> sublist x (q @ b)" using cut [of a c "q @ b"] by simp
    then show ?case
    proof
      assume "sublist x (q @ b)"
      then have "sublist x (a @ q @ b)" by (meson sublist_append_leftI sublist_order.order.trans)
      then show ?thesis using Cons \<open>sublist x (q @ b)\<close> by (cases "q = []") auto
    qed simp
  qed simp
  with assms show ?thesis by blast
qed

text \<open>A hidden fragment: not empty and free of the masks' characters.\<close>

definition fragment :: "string \<Rightarrow> bool" where
  "fragment x \<longleftrightarrow> x \<noteq> [] \<and> set x \<inter> mask_chars = {}"

lemma sublist_extend_right: "sublist x (a @ b) \<Longrightarrow> sublist x (a @ b @ c)"
  by (metis append.assoc sublist_append_rightI sublist_order.order.trans)

lemma sublist_skip_middle:
  assumes "masking m" "m prev s = Some (n, rep)" "fragment x"
    "\<And>v. sublist x (v @ r) \<Longrightarrow> sublist x (v @ drop n s)" "sublist x (u @ rep @ r)"
  shows "sublist x (u @ s)"
proof -
  from assms(1,2) obtain k q
    where rep: "rep = take k s @ q" "k \<le> n" "q \<noteq> []" "set q \<subseteq> mask_chars"
    unfolding masking_def by blast
  have "sublist x ((u @ take k s) @ q @ r)" using assms(5) rep(1) by simp
  then have "sublist x (u @ take k s) \<or> sublist x r"
    using sublist_around_mask rep(3,4) assms(3) unfolding fragment_def by blast
  then show ?thesis
  proof
    assume "sublist x (u @ take k s)"
    then have "sublist x (u @ take k s @ drop k s)" by (rule sublist_extend_right)
    then show ?thesis by simp
  next
    assume "sublist x r"
    then have "sublist x ([] @ drop n s)" using assms(4) [of "[]"] by simp
    then have "sublist x ((u @ take n s) @ drop n s)"
      by (metis append_Nil sublist_append_leftI sublist_order.order.trans)
    then show ?thesis by simp
  qed
qed

lemma re_sub_adds_nothing:
  assumes "masking m" "fragment x" "sublist x (u @ re_sub m prev s)"
  shows "sublist x (u @ s)"
  using assms
proof (induction m prev s arbitrary: u rule: re_sub.induct)
  case (2 m prev c cs)
  show ?case
  proof (cases "m prev (c # cs)")
    case None
    then have "sublist x ((u @ [c]) @ re_sub m (Some c) cs)" using "2.prems" by simp
    then show ?thesis using "2.IH"(1) [OF None] "2.prems" by fastforce
  next
    case (Some p)
    obtain n rep where p: "p = (n, rep)" by (cases p)
    show ?thesis
    proof (cases "n = 0")
      case True
      then have "sublist x ((u @ [c]) @ re_sub m (Some c) cs)" using "2.prems" Some p by simp
      then show ?thesis using "2.IH"(2) [OF Some p [symmetric] True] "2.prems" by fastforce
    next
      case False
      let ?r = "re_sub m (Some (last (take n (c # cs)))) (drop n (c # cs))"
      have "sublist x (u @ rep @ ?r)" using "2.prems" Some p False by simp
      moreover have "sublist x (v @ drop n (c # cs))" if "sublist x (v @ ?r)" for v
        using "2.IH"(3) [OF Some p [symmetric] False "2.prems"(1,2) that] .
      ultimately show ?thesis
        using sublist_skip_middle [OF "2.prems"(1) _ "2.prems"(2)] Some p by blast
    qed
  qed
qed simp

lemma masked_tail:
  assumes "k \<le> n" "q \<noteq> []" "set q \<subseteq> mask_chars"
  shows "\<exists>k' q'. take k s @ q = take k' s @ q' \<and> k' \<le> n \<and> q' \<noteq> [] \<and> set q' \<subseteq> mask_chars"
  using assms by blast

lemma mask_text_masked: "mask_text \<noteq> []" "set mask_text \<subseteq> mask_chars"
  "set (''='' @ mask_text) \<subseteq> mask_chars"
  by (auto simp: mask_text_def mask_chars_def)

lemma masking_bearer: "masking bearer_match"
  unfolding masking_def
proof (intro allI impI)
  fix prev s n rep
  assume "bearer_match prev s = Some (n, rep)"
  then have "rep = take (6 + length (takeWhile is_space (drop 6 s))) s @ mask_text"
    "6 + length (takeWhile is_space (drop 6 s)) \<le> n"
    by (auto simp: bearer_match_def Let_def split: if_splits)
  then show "\<exists>k q. rep = take k s @ q \<and> k \<le> n \<and> q \<noteq> [] \<and> set q \<subseteq> mask_chars"
    using mask_text_masked by blast
qed

lemma masking_url: "masking url_match"
  unfolding masking_def
proof (intro allI impI)
  fix prev s n rep
  assume m: "url_match prev s = Some (n, rep)"
  then obtain c cs nm where s: "s = c # cs" "find (\<lambda>n. starts_ci cs (n @ ''='')) secret_names = Some nm"
    by (auto simp: url_match_def split: list.splits if_splits option.splits)
  with m have "rep = take (Suc (length nm) + 1) s @ mask_text" "Suc (length nm) + 1 \<le> n"
    by (auto simp: url_match_def Let_def split: if_splits)
  then show "\<exists>k q. rep = take k s @ q \<and> k \<le> n \<and> q \<noteq> [] \<and> set q \<subseteq> mask_chars"
    using mask_text_masked by blast
qed

lemma masking_inline: "masking inline_match"
  unfolding masking_def
proof (intro allI impI)
  fix prev s n rep
  assume m: "inline_match prev s = Some (n, rep)"
  then obtain nm where nm: "find (starts_ci s) secret_names = Some nm"
    by (auto simp: inline_match_def split: if_splits option.splits)
  with m obtain c r where r: "dropWhile is_space (drop (length nm) s) = c # r"
    by (auto simp: inline_match_def split: if_splits list.splits)
  let ?r' = "dropWhile is_space r"
  have "length (c # r) \<le> length (drop (length nm) s)"
    by (metis r length_dropWhile_le)
  moreover have "length ?r' \<le> length r" by (rule length_dropWhile_le)
  ultimately have "length nm \<le> length s - length ?r'" by simp
  with m nm r have "rep = take (length nm) s @ (''='' @ mask_text)" "length nm \<le> n"
    by (auto simp: inline_match_def Let_def split: if_splits)
  then show "\<exists>k q. rep = take k s @ q \<and> k \<le> n \<and> q \<noteq> [] \<and> set q \<subseteq> mask_chars"
    using mask_text_masked by blast
qed

lemma masking_fragment: "masking fragment_match"
  unfolding masking_def
proof (intro allI impI)
  fix prev s n rep
  assume "fragment_match prev s = Some (n, rep)"
  then have "rep = take 0 s @ mask_text" by (auto simp: fragment_match_def Let_def split: if_splits)
  then show "\<exists>k q. rep = take k s @ q \<and> k \<le> n \<and> q \<noteq> [] \<and> set q \<subseteq> mask_chars"
    using mask_text_masked by blast
qed

lemmas masking_matchers = masking_bearer masking_url masking_inline masking_fragment

definition secret_match :: "string \<Rightarrow> matcher" where
  "secret_match y prev s = (if startswith s y then Some (length y, mask_text) else None)"

lemma masking_secret: "masking (secret_match y)"
  unfolding masking_def secret_match_def
  by (metis (no_types, lifting) append_Nil mask_text_masked(1,2) option.discI option.inject
      prod.inject take_0 zero_le)

lemma replace_all_re_sub: "y \<noteq> [] \<Longrightarrow> replace_all y mask_text s = re_sub (secret_match y) prev s"
proof (induction y mask_text s arbitrary: prev rule: replace_all.induct)
  case (2 old c cs)
  then show ?case by (auto simp: secret_match_def)
qed simp

lemma re_sub_hides: "masking m \<Longrightarrow> fragment x \<Longrightarrow> \<not> sublist x s \<Longrightarrow> \<not> sublist x (re_sub m prev s)"
  using re_sub_adds_nothing [of m x "[]"] by auto

lemma replace_all_keeps_hidden:
  "fragment x \<Longrightarrow> y \<noteq> [] \<Longrightarrow> \<not> sublist x s \<Longrightarrow> \<not> sublist x (replace_all y mask_text s)"
  using replace_all_re_sub re_sub_hides masking_secret by metis

lemma occurrence_starts: "sublist x u \<Longrightarrow> x \<noteq> [] \<Longrightarrow> \<exists>i < length u. startswith (drop i (u @ s)) x"
proof -
  assume "sublist x u" "x \<noteq> []"
  then obtain a b where u: "u = a @ x @ b" by (auto simp: sublist_def)
  then have "length a < length u" "startswith (drop (length a) (u @ s)) x"
    using \<open>x \<noteq> []\<close> by (auto simp: startswith_def)
  then show ?thesis by blast
qed

lemma replace_all_removes:
  assumes "fragment x" "\<And>i. i < length u \<Longrightarrow> \<not> startswith (drop i (u @ s)) x"
  shows "\<not> sublist x (u @ replace_all x mask_text s)"
  using assms
proof (induction x mask_text s arbitrary: u rule: replace_all.induct)
  case (1 x)
  then show ?case using occurrence_starts [of x u "[]"] by (auto simp: fragment_def)
next
  case (2 x c cs)
  have x: "x \<noteq> []" using "2.prems"(1) by (simp add: fragment_def)
  show ?case
  proof (cases "startswith (c # cs) x")
    case True
    let ?r = "replace_all x mask_text (drop (length x) (c # cs))"
    have "\<not> sublist x ?r" using "2.hyps"(1) [of "[]"] True x "2.prems"(1) by auto
    moreover have "\<not> sublist x u" using occurrence_starts x "2.prems"(2) by blast
    ultimately have "\<not> sublist x (u @ mask_text @ ?r)"
      using sublist_around_mask mask_text_masked "2.prems"(1) unfolding fragment_def by blast
    then show ?thesis using True x by simp
  next
    case False
    have "\<not> sublist x ((u @ [c]) @ replace_all x mask_text cs)"
    proof (rule "2.hyps"(2))
      show "\<not> (x \<noteq> [] \<and> startswith (c # cs) x)" using False by blast
      show "fragment x" by fact
      fix i assume "i < length (u @ [c])"
      then consider "i < length u" | "i = length u" by fastforce
      then show "\<not> startswith (drop i ((u @ [c]) @ cs)) x"
        by cases (use "2.prems"(2) False in auto)
    qed
    then show ?thesis using False by simp
  qed
qed

lemma replace_secrets_keeps_hidden:
  "fragment x \<Longrightarrow> \<not> sublist x s \<Longrightarrow> \<not> sublist x (replace_secrets ys s)"
proof (induction ys s rule: replace_secrets.induct)
  case (2 y ys s)
  then show ?case using replace_all_keeps_hidden [of x y s] by (cases "y = []") simp_all
qed simp

lemma replace_secrets_removes:
  "fragment x \<Longrightarrow> x \<in> set ys \<Longrightarrow> \<not> sublist x (replace_secrets ys s)"
proof (induction ys s rule: replace_secrets.induct)
  case (2 y ys s)
  show ?case
  proof (cases "x \<in> set ys")
    case True
    then show ?thesis using 2 by auto
  next
    case False
    then have "x = y" "x \<noteq> []" using "2.prems" by (auto simp: fragment_def)
    then have "\<not> sublist x (replace_all y mask_text s)"
      using replace_all_removes [of x "[]"] "2.prems"(1) by simp
    then show ?thesis using replace_secrets_keeps_hidden "2.prems"(1) \<open>x = y\<close> \<open>x \<noteq> []\<close> by simp
  qed
qed simp

section \<open>The property\<close>

text \<open>
  C27: Explicit secrets never survive sanitization.  For every secret in the list handed to
  \<open>sanitize_text\<close> that is not empty and holds neither a star nor an equals sign (the characters
  the masks put in), the sanitized text has no occurrence of it; the later passes over bearer
  tokens, query parameters, inline assignments and the transport's sensitive fragments cannot
  bring one back, whatever the surrounding text is.
\<close>

theorem sanitized_hides_secret:
  assumes "x \<in> set secrets" "x \<noteq> []" "CHR ''*'' \<notin> set x" "CHR ''='' \<notin> set x"
  shows "\<not> sublist x (sanitize_text secrets s)
    \<and> \<not> sublist x (redact_sensitive_fragments (sanitize_text secrets s))"
proof -
  have x: "fragment x" using assms by (auto simp: fragment_def mask_chars_def)
  then have "\<not> sublist x (sanitize_text secrets s)"
    unfolding sanitize_text_def
    by (intro re_sub_hides masking_matchers replace_secrets_removes assms(1))
  then show ?thesis
    unfolding redact_sensitive_fragments_def using re_sub_hides masking_matchers x by blast
qed

theorem sanitized_hides_secret_witness:
  "\<not> sublist ''k9'' (sanitize_text [''k9''] ''key k9 token: abc'')
    \<and> \<not> sublist ''k9'' (redact_sensitive_fragments (sanitize_text [''k9''] ''key k9 token: abc''))"
  by (rule sanitized_hides_secret) auto

text \<open>The two excluded characters are needed: the masks of the later passes bring such secrets back.\<close>

lemma mask_brings_secret_back:
  "sublist ''token='' (sanitize_text [''token=''] ''token: abc'')"
  "sublist ''*'' (sanitize_text [''*''] ''a*b'')"
proof -
  have "sanitize_text [''token=''] ''token: abc'' = [] @ ''token='' @ ''***''" by code_simp
  then show "sublist ''token='' (sanitize_text [''token=''] ''token: abc'')" by (metis sublist_appendI)
  have "sanitize_text [''*''] ''a*b'' = ''a'' @ ''*'' @ ''**b''" by code_simp
  then show "sublist ''*'' (sanitize_text [''*''] ''a*b'')" by (metis sublist_appendI)
qed


lemma sanitize_text_sample:
  "sanitize_text [''k9''] ''key k9 token: abc'' = ''key *** token=***''"
  "sanitize_text [] ''u?api_key=1&x=2'' = ''u?api_key=***&x=2''"
  by code_simp+

text \<open>Sanitizing a mapping keeps its keys and puts the mask under each sensitive one.\<close>

lemma sanitize_mapping_keys: "map fst (sanitize_mapping d) = map fst d"
  by (induction d) (auto simp: sanitize_mapping_def)

lemma sanitize_mapping_sensitive:
  "map_of d k = Some v \<Longrightarrow> sensitive_key k \<Longrightarrow> map_of (sanitize_mapping d) k = Some (PyStr mask_text)"
  by (induction d) (auto simp: sanitize_mapping_def split: if_splits)

end
