(* ===== verification/PFP_Transport.thy ===== *)
theory PFP_Transport
  imports PFP_Effects PFP_Redaction PFP_Writers
begin

text \<open>
  The support layer of publishing: secrets (\<open>pfp_utils/security\<close>,
  \<open>publishing/support/secret_resolver.py\<close>), transport policies, the bounded retry and the error
  classification (\<open>publishing/support/transport_policy.py\<close>), and the HTTP transport
  (\<open>publishing/support/http_transport.py\<close>).  The operating system and httpx are parameters.
\<close>

section \<open>Secrets\<close>

datatype secret_kind = SecEnv | SecFile | SecProvider

record secret_ref =
  sr_kind :: secret_kind
  sr_value :: string

text \<open>\<open>SecretRef.model_validate\<close> on a mapping: exactly the two keys, a known kind, a value that is
  not blank and is kept stripped.\<close>

fun secret_kind_of :: "pyval \<Rightarrow> secret_kind option" where
  "secret_kind_of (PyStr s) =
     (if s = ''env'' then Some SecEnv else if s = ''file'' then Some SecFile
      else if s = ''provider'' then Some SecProvider else None)"
| "secret_kind_of _ = None"

fun secret_ref_validate :: "pyval \<Rightarrow> secret_ref option" where
  "secret_ref_validate (PyDict d) =
     (if set (dict_keys d) = {''kind'', ''value''} then
        (case (secret_kind_of (dget d ''kind''), dget d ''value'') of
           (Some k, PyStr v) \<Rightarrow>
             if strip v = [] then None else Some \<lparr>sr_kind = k, sr_value = strip v\<rparr>
         | _ \<Rightarrow> None)
      else None)"
| "secret_ref_validate _ = None"

definition secret_error :: "string \<Rightarrow> terr" where
  "secret_error = err [''SecretResolutionError'', ''RuntimeError'']"

record secret_sources =
  os_getenv :: "string \<Rightarrow> string option"
  os_read_text :: "string \<Rightarrow> terr + string"

definition non_empty_or :: "terr \<Rightarrow> string \<Rightarrow> terr + string" where
  "non_empty_or e s = (if s = [] then Inl e else Inr s)"

definition resolve_secret ::
    "secret_sources \<Rightarrow> (string \<Rightarrow> terr + pyval) option \<Rightarrow> secret_ref \<Rightarrow> terr + string" where
  "resolve_secret src provider ref =
     (case sr_kind ref of
        SecEnv \<Rightarrow>
          (case os_getenv src (sr_value ref) of
             None \<Rightarrow> Inl (secret_error (''required environment variable is missing: '' @ sr_value ref))
           | Some s \<Rightarrow>
               non_empty_or (secret_error (''required environment variable is missing: '' @ sr_value ref)) s)
      | SecFile \<Rightarrow>
          (case os_read_text src (sr_value ref) of
             Inl e \<Rightarrow> if isinstance e ''OSError''
               then Inl (secret_error (''cannot read secret file: '' @ sr_value ref)) else Inl e
           | Inr s \<Rightarrow> non_empty_or (secret_error ''secret file value is empty'') (strip s))
      | SecProvider \<Rightarrow>
          (case provider of
             None \<Rightarrow> Inl (secret_error ''provider secret resolution requires provider callback'')
           | Some call \<Rightarrow>
               (case call (sr_value ref) of
                  Inl e \<Rightarrow> Inl (secret_error ''secret provider resolution failed'')
                | Inr (PyStr s) \<Rightarrow> non_empty_or (secret_error ''secret provider returned empty value'') s
                | Inr _ \<Rightarrow> Inl (secret_error ''secret provider returned empty value''))))"

definition resolve_secret_ref :: "secret_sources \<Rightarrow> secret_ref \<Rightarrow> terr + string" where
  "resolve_secret_ref src ref = resolve_secret src None ref"

text \<open>A resolved secret is never empty.\<close>

lemma resolve_secret_not_empty: "resolve_secret src provider ref = Inr s \<Longrightarrow> s \<noteq> []"
  by (auto simp: resolve_secret_def non_empty_or_def
      split: secret_kind.splits option.splits sum.splits if_splits pyval.splits)

section \<open>Transport policies\<close>

record transport_policy =
  timeout_seconds :: rat
  max_retries :: nat
  retry_backoff_seconds :: rat

record tls_transport_policy = transport_policy +
  verify_tls :: bool

record sftp_transport_policy = transport_policy +
  verify_ssh_host_key :: bool
  ssh_ciphers :: "string list option"
  ssh_macs :: "string list option"
  ssh_kex :: "string list option"
  ssh_key_types :: "string list option"

text \<open>The field constraints pydantic checks.\<close>

definition transport_policy_ok :: "'a transport_policy_scheme \<Rightarrow> bool" where
  "transport_policy_ok p \<longleftrightarrow>
     0 < timeout_seconds p \<and> max_retries p \<le> 10 \<and> 0 \<le> retry_backoff_seconds p"

definition default_tls_policy :: tls_transport_policy where
  "default_tls_policy =
     \<lparr>timeout_seconds = 60, max_retries = 3, retry_backoff_seconds = 0, verify_tls = True\<rparr>"

definition default_sftp_policy :: sftp_transport_policy where
  "default_sftp_policy =
     \<lparr>timeout_seconds = 60, max_retries = 3, retry_backoff_seconds = 0, verify_ssh_host_key = True,
      ssh_ciphers = None, ssh_macs = None, ssh_kex = None, ssh_key_types = None\<rparr>"

section \<open>Retry\<close>

definition retry_exhausted :: terr where
  "retry_exhausted =
     \<lparr>te_mro = [''TransportRetryExhaustedError'', ''RuntimeError''],
      te_category = Some ''retry_exhausted'', te_text = ''retry budget exhausted''\<rparr>"

definition mark_transport_error :: "string \<Rightarrow> string \<Rightarrow> terr" where
  "mark_transport_error category message =
     \<lparr>te_mro = [''_TransportCategoryError'', ''RuntimeError''],
      te_category = Some category, te_text = message\<rparr>"

definition is_retryable_category :: "string \<Rightarrow> bool" where
  "is_retryable_category category \<longleftrightarrow>
     category \<in> set [''timeout'', ''network'', ''transient_service_failure'', ''remote_5xx'', ''remote_429'']"

definition pause :: "'p transport_policy_scheme \<Rightarrow> (rat \<Rightarrow> 's \<Rightarrow> 's) \<Rightarrow> 's \<Rightarrow> 's" where
  "pause p sleep s = (if 0 < retry_backoff_seconds p then sleep (retry_backoff_seconds p) s else s)"

text \<open>The \<open>while True\<close> loop; \<open>attempts\<close> is its counter, \<open>sleep\<close> stands for \<open>time.sleep\<close>.\<close>

function retry_loop ::
    "'p transport_policy_scheme \<Rightarrow> (terr \<Rightarrow> string) \<Rightarrow> (rat \<Rightarrow> 's \<Rightarrow> 's) \<Rightarrow> ('s, 'a) act \<Rightarrow> nat \<Rightarrow> ('s, 'a) act"
  where
  "retry_loop p classify sleep operation attempts s =
     (case operation s of
        (Inr x, s') \<Rightarrow> (Inr x, s')
      | (Inl e, s') \<Rightarrow>
          if \<not> is_retryable_category (classify e) then (Inl e, s')
          else if max_retries p \<le> attempts then (Inl retry_exhausted, s')
          else retry_loop p classify sleep operation (attempts + 1) (pause p sleep s'))"
  by pat_completeness auto
termination
  by (relation "measure (\<lambda>(p, c, sl, opn, attempts, s). max_retries p - attempts)") auto

declare retry_loop.simps [simp del]

definition execute_with_retry ::
    "'p transport_policy_scheme \<Rightarrow> (terr \<Rightarrow> string) \<Rightarrow> (rat \<Rightarrow> 's \<Rightarrow> 's) \<Rightarrow> ('s, 'a) act \<Rightarrow> ('s, 'a) act"
  where
  "execute_with_retry p classify sleep operation = retry_loop p classify sleep operation 0"

section \<open>Error classification\<close>

definition text_category :: "string \<Rightarrow> string \<Rightarrow> string" where
  "text_category transport message =
     (let has = (\<lambda>w. in_sub w message) in
      if has ''timed out'' \<or> has ''timeout'' then ''timeout''
      else if has ''tls'' \<or> has ''ssl'' \<or> has ''certificate'' then ''tls_failure''
      else if has ''host key'' then ''ssh_host_key_failure''
      else if has ''algorithm'' \<or> has ''cipher'' then ''ssh_algorithm_failure''
      else if has ''auth'' \<or> has ''credentials'' \<or> has ''forbidden'' then ''auth_failure''
      else if has ''access denied'' \<or> has ''permission denied'' then ''access_denied''
      else if has ''endpoint'' \<or> has ''region'' then ''endpoint_region_mismatch''
      else if has ''remote 4xx'' \<or> has ''status 4'' then ''remote_4xx''
      else if has ''remote 5xx'' \<or> has ''status 5'' then ''remote_5xx''
      else if has ''connection'' \<or> has ''network'' then ''network''
      else if transport = ''s3'' \<or> transport = ''s3_compat'' then ''transient_service_failure''
      else ''network'')"

definition classify_transport_error :: "string \<Rightarrow> terr \<Rightarrow> string" where
  "classify_transport_error transport e =
     (case te_category e of
        Some c \<Rightarrow> if strip c \<noteq> [] then strip c else text_category transport (lower (te_text e))
      | None \<Rightarrow> text_category transport (lower (te_text e)))"

definition format_transport_runtime_error ::
    "string \<Rightarrow> string \<Rightarrow> terr \<Rightarrow> string list \<Rightarrow> string" where
  "format_transport_runtime_error pre category e secrets =
     pre @ '' [category='' @ category @ '']: '' @
     redact_sensitive_fragments (sanitize_text secrets (te_text e))"

section \<open>The retry is bounded\<close>

text \<open>
  The state after \<open>k\<close> rounds that all failed with a retryable category, each followed by the
  pause; \<open>None\<close> when one of the first \<open>k\<close> calls did something else.
\<close>

fun retry_rounds ::
    "'p transport_policy_scheme \<Rightarrow> (terr \<Rightarrow> string) \<Rightarrow> (rat \<Rightarrow> 's \<Rightarrow> 's) \<Rightarrow> ('s, 'a) act \<Rightarrow> nat \<Rightarrow> 's \<Rightarrow> 's option"
  where
  "retry_rounds p classify sleep operation 0 s = Some s"
| "retry_rounds p classify sleep operation (Suc k) s =
     (case operation s of
        (Inr x, s') \<Rightarrow> None
      | (Inl e, s') \<Rightarrow>
          if is_retryable_category (classify e)
          then retry_rounds p classify sleep operation k (pause p sleep s') else None)"

text \<open>How the last call decides: its value, its own exception, or exhaustion once the budget is spent.\<close>

definition decided_by ::
    "(terr \<Rightarrow> string) \<Rightarrow> bool \<Rightarrow> (terr + 'a) \<times> 's \<Rightarrow> (terr + 'a) \<times> 's \<Rightarrow> bool" where
  "decided_by classify spent outcome res \<longleftrightarrow>
     (case outcome of
        (Inr x, s) \<Rightarrow> res = (Inr x, s)
      | (Inl e, s) \<Rightarrow>
          if is_retryable_category (classify e) then spent \<and> res = (Inl retry_exhausted, s)
          else res = (Inl e, s))"

lemma retry_loop_rounds:
  assumes "attempts \<le> max_retries p"
  shows "\<exists>k s1. k + attempts \<le> max_retries p \<and> retry_rounds p classify sleep operation k s = Some s1
    \<and> decided_by classify (k + attempts = max_retries p) (operation s1)
        (retry_loop p classify sleep operation attempts s)"
  using assms
proof (induction p classify sleep operation attempts s rule: retry_loop.induct)
  case (1 p classify sleep operation attempts s)
  note unfold = retry_loop.simps [of p classify sleep operation attempts s]
  show ?case
  proof (cases "\<exists>e s'. operation s = (Inl e, s') \<and> is_retryable_category (classify e)
      \<and> attempts < max_retries p")
    case True
    then obtain e s' where e: "operation s = (Inl e, s')" "is_retryable_category (classify e)"
      "attempts < max_retries p" by blast
    let ?res = "retry_loop p classify sleep operation (attempts + 1) (pause p sleep s')"
    have res: "retry_loop p classify sleep operation attempts s = ?res"
      using unfold e by simp
    from "1.IH" [OF e(1) [symmetric] refl, simplified] e obtain k s1
      where k: "Suc (k + attempts) \<le> max_retries p"
        "retry_rounds p classify sleep operation k (pause p sleep s') = Some s1"
        "decided_by classify (Suc (k + attempts) = max_retries p) (operation s1) ?res"
      by auto
    with e(1,2) have "retry_rounds p classify sleep operation (Suc k) s = Some s1"
      by simp
    with k show ?thesis unfolding res by (metis add_Suc)
  next
    case False
    then have "decided_by classify (0 + attempts = max_retries p) (operation s)
        (retry_loop p classify sleep operation attempts s)"
      using unfold "1.prems"
      by (cases "operation s"; cases "fst (operation s)") (auto simp: decided_by_def)
    then show ?thesis using "1.prems" by (metis add_0 retry_rounds.simps(1))
  qed
qed

lemma execute_with_retry_Inr:
  assumes "execute_with_retry p classify sleep operation s = (Inr x, s')"
  shows "\<exists>k s1. k \<le> max_retries p \<and> retry_rounds p classify sleep operation k s = Some s1
    \<and> operation s1 = (Inr x, s')"
proof -
  obtain k s1 where k: "k \<le> max_retries p" "retry_rounds p classify sleep operation k s = Some s1"
    "decided_by classify (k = max_retries p) (operation s1) (Inr x, s')"
    using retry_loop_rounds [of 0 p classify sleep operation s] assms
    by (auto simp: execute_with_retry_def)
  from k(3) have "operation s1 = (Inr x, s')"
    by (auto simp: decided_by_def split: prod.splits sum.splits if_splits)
  with k show ?thesis by blast
qed

text \<open>
  C23: A transport operation is retried a bounded number of times.  \<open>execute_with_retry\<close> always
  returns: it calls the operation \<open>k + 1\<close> times with \<open>k\<close> at most \<open>max_retries\<close>, the first \<open>k\<close>
  calls all having failed with a retryable category and been followed by the backoff; the last
  call decides the result, which is its value, its own exception when that is not retryable, or
  the exhaustion error, and the latter only when the whole budget was spent.
\<close>

theorem retry_bounded:
  "\<exists>k s1. k \<le> max_retries p \<and> retry_rounds p classify sleep operation k s = Some s1
    \<and> decided_by classify (k = max_retries p) (operation s1)
        (execute_with_retry p classify sleep operation s)"
  using retry_loop_rounds [of 0 p classify sleep operation s]
  by (simp add: execute_with_retry_def)

lemma preserves_retry [preserves_intros]:
  assumes "preserves I operation" "\<And>d s. I s \<Longrightarrow> I (sleep d s)"
  shows "preserves I (execute_with_retry p classify sleep operation)"
proof -
  have "I (snd (retry_loop p classify sleep operation k s))" if "I s" for k s
    using that
  proof (induction "max_retries p - k" arbitrary: k s)
    case 0
    obtain r s1 where s1: "operation s = (r, s1)" by (metis prod.exhaust)
    then have "I s1" using preserves_D [OF assms(1)] "0.prems" by blast
    then show ?case using s1 "0.hyps"
      by (subst retry_loop.simps) (auto split: sum.splits)
  next
    case (Suc n)
    obtain r s1 where s1: "operation s = (r, s1)" by (metis prod.exhaust)
    have I: "I s1" by (rule preserves_D [OF assms(1) s1 Suc.prems])
    have "I (pause p sleep s1)" unfolding pause_def using I assms(2) by simp
    then have "I (snd (retry_loop p classify sleep operation (k + 1) (pause p sleep s1)))"
      using Suc.hyps(1) [of "k + 1"] Suc.hyps(2) by simp
    then show ?case using s1 I
      by (subst retry_loop.simps) (auto split: sum.splits)
  qed
  then show ?thesis by (simp add: preserves_def execute_with_retry_def)
qed

section \<open>A service behind a log of calls\<close>

text \<open>
  A remote service is a parameter: the reply to the last call of the log of all calls, which may
  be an exception.  The state is that log, the sleeps, and the clock.
\<close>

type_synonym ('c, 'r) answers = "'c list \<Rightarrow> terr + 'r"

record 'c service =
  sw_log :: "'c list"
  sw_sleeps :: "rat list"
  sw_clock :: string

definition svc_sleep :: "rat \<Rightarrow> 'c service \<Rightarrow> 'c service" where
  "svc_sleep d w = w\<lparr>sw_sleeps := sw_sleeps w @ [d]\<rparr>"

definition svc_call :: "('c, 'r) answers \<Rightarrow> 'c \<Rightarrow> ('c service, 'r) act" where
  "svc_call answer c w = (answer (sw_log w @ [c]), w\<lparr>sw_log := sw_log w @ [c]\<rparr>)"

text \<open>Some occurrence of the call in the log was answered with \<open>r\<close>.\<close>

definition answered :: "('c, 'r) answers \<Rightarrow> 'c list \<Rightarrow> 'c \<Rightarrow> 'r \<Rightarrow> bool" where
  "answered answer lg c r \<longleftrightarrow> (\<exists>l1 l2. lg = l1 @ c # l2 \<and> answer (l1 @ [c]) = Inr r)"

lemma answered_more: "answered answer lg c r \<Longrightarrow> answered answer (lg @ ext) c r"
  by (fastforce simp: answered_def)

lemma svc_call_Inr:
  "svc_call answer c w = (Inr r, w') \<longleftrightarrow>
     answer (sw_log w @ [c]) = Inr r \<and> w' = w\<lparr>sw_log := sw_log w @ [c]\<rparr>"
  by (auto simp: svc_call_def)

lemma sw_log_pause [simp]: "sw_log (pause p svc_sleep w) = sw_log w"
  by (simp add: pause_def svc_sleep_def)

lemma svc_rounds:
  "retry_rounds p classify svc_sleep (svc_call answer c) k w = Some w' \<Longrightarrow>
     sw_log w' = sw_log w @ replicate k c"
proof (induction k arbitrary: w)
  case (Suc k)
  then obtain e w1 where "svc_call answer c w = (Inl e, w1)"
    "retry_rounds p classify svc_sleep (svc_call answer c) k (pause p svc_sleep w1) = Some w'"
    by (auto split: prod.splits sum.splits if_splits)
  moreover have "sw_log w1 = sw_log w @ [c]" using calculation(1) by (auto simp: svc_call_def)
  ultimately show ?case using Suc.IH [of "pause p svc_sleep w1"] by simp
qed simp

end
