(* ===== verification/PFP_Http.thy ===== *)
theory PFP_Http
  imports PFP_Transport
begin

text \<open>
  HTTP: the transport class (\<open>publishing/support/http_transport.py\<close>), the buffering delivery
  client (\<open>publishing/clients/http_client.py\<close>) and the no-op client
  (\<open>publishing/clients/noop_client.py\<close>).  httpx is a parameter: creating a client, answering the
  last request of a log, and closing a client may each fail.  The network state is the log of
  the requests handed to httpx, the sleeps between them, and the number of open clients.
\<close>

section \<open>httpx\<close>

datatype body =
    NoBody
  | Content bytes
  | Chunks "bytes gen"
  | Form "(string, string \<times> bytes \<times> string) odict option" "(string, string) odict option"

record request =
  rq_method :: string
  rq_url :: string
  rq_headers :: "(string, string) odict"
  rq_body :: body

record response =
  status_code :: int
  rs_body :: bytes

record httpx =
  hx_new :: "bool \<Rightarrow> rat \<Rightarrow> terr + unit"
  hx_send :: "request list \<Rightarrow> terr + response"
  hx_close :: "request list \<Rightarrow> terr + unit"

record net =
  nt_log :: "request list"
  nt_sleeps :: "rat list"
  nt_clients :: nat

definition net_sleep :: "rat \<Rightarrow> net \<Rightarrow> net" where
  "net_sleep d n = n\<lparr>nt_sleeps := nt_sleeps n @ [d]\<rparr>"

definition send_request :: "httpx \<Rightarrow> request \<Rightarrow> (net, response) act" where
  "send_request hx rq n = (hx_send hx (nt_log n @ [rq]), n\<lparr>nt_log := nt_log n @ [rq]\<rparr>)"

definition new_client :: "httpx \<Rightarrow> 'p transport_policy_scheme \<Rightarrow> bool \<Rightarrow> (net, unit) act" where
  "new_client hx p verify n =
     (case hx_new hx verify (timeout_seconds p) of
        Inl e \<Rightarrow> (Inl e, n)
      | Inr _ \<Rightarrow> (Inr (), n\<lparr>nt_clients := Suc (nt_clients n)\<rparr>))"

definition close_client :: "httpx \<Rightarrow> (net, unit) act" where
  "close_client hx n = (hx_close hx (nt_log n), n\<lparr>nt_clients := nt_clients n - 1\<rparr>)"

section \<open>Authentication\<close>

text \<open>
  The bearer header from at most one secret; only a \<open>SecretResolutionError\<close> is wrapped.
\<close>

definition bearer :: "string \<Rightarrow> (string, string) odict" where
  "bearer s = [(''Authorization'', ''Bearer '' @ s)]"

definition auth_header ::
    "secret_sources \<Rightarrow> (string \<Rightarrow> terr) \<Rightarrow> secret_ref option \<Rightarrow> secret_ref option
      \<Rightarrow> terr + (string, string) odict" where
  "auth_header src wrap api_key_ref token_ref =
     (case (api_key_ref, token_ref) of
        (None, None) \<Rightarrow> Inr []
      | (ref, ref') \<Rightarrow>
          (case resolve_secret_ref src (case ref of Some r \<Rightarrow> r | None \<Rightarrow> the ref') of
             Inl e \<Rightarrow> Inl (if isinstance e ''SecretResolutionError'' then wrap (te_text e) else e)
           | Inr s \<Rightarrow> Inr (bearer s)))"

definition dict_update :: "('k, 'v) odict \<Rightarrow> ('k, 'v) odict \<Rightarrow> ('k, 'v) odict" where
  "dict_update d kvs = fold (\<lambda>(k, v). dict_set k v) kvs d"

section \<open>The transport class\<close>

record http_transport =
  ht_policy :: tls_transport_policy
  ht_base_headers :: "(string, string) odict"
  ht_injected :: bool
  ht_client :: bool

definition http_transport_error :: "string \<Rightarrow> terr" where
  "http_transport_error = err [''HttpTransportError'', ''RuntimeError'']"

definition http_transport_new ::
    "secret_sources \<Rightarrow> tls_transport_policy \<Rightarrow> secret_ref option \<Rightarrow> secret_ref option
      \<Rightarrow> (string, string) odict \<Rightarrow> bool \<Rightarrow> terr + http_transport" where
  "http_transport_new src p api_key_ref token_ref extra_headers injected =
     (if api_key_ref \<noteq> None \<and> token_ref \<noteq> None
      then Inl (http_transport_error ''Specify at most one of api_key_ref and token_ref'')
      else rbind (auth_header src
               (\<lambda>t. http_transport_error (''Failed to resolve HTTP transport secret: '' @ t))
               api_key_ref token_ref)
             (\<lambda>auth. Inr \<lparr>ht_policy = p, ht_base_headers = dict_update auth extra_headers,
                         ht_injected = injected, ht_client = injected\<rparr>))"

type_synonym 'a http_act = "(http_transport \<times> net, 'a) act"

definition ht_open :: "httpx \<Rightarrow> unit http_act" where
  "ht_open hx s =
     (let t = fst s in
      if ht_injected t then (Inr (), s)
      else act_then (act_when (ht_client t) (on_snd (best_effort (close_client hx))))
             (act_then (on_snd (new_client hx (ht_policy t) (verify_tls (ht_policy t))))
               (on_fst (act_modify (\<lambda>t. t\<lparr>ht_client := True\<rparr>)))) s)"

definition ht_close :: "httpx \<Rightarrow> unit http_act" where
  "ht_close hx s =
     (if ht_injected (fst s) \<or> \<not> ht_client (fst s) then (Inr (), s)
      else act_then (on_snd (best_effort (close_client hx)))
             (on_fst (act_modify (\<lambda>t. t\<lparr>ht_client := False\<rparr>))) s)"

definition build_headers :: "http_transport \<Rightarrow> string option \<Rightarrow> (string, string) odict" where
  "build_headers t content_type =
     (case content_type of
        None \<Rightarrow> ht_base_headers t
      | Some c \<Rightarrow> dict_set ''Content-Type'' c (ht_base_headers t))"

text \<open>The dash of the code's message is written with two ASCII dashes.\<close>

definition ensure_client :: "unit http_act" where
  "ensure_client s =
     (if ht_client (fst s) then (Inr (), s)
      else (Inl (http_transport_error ''No httpx client available -- call open() first''), s))"

definition http_text :: "int \<Rightarrow> string \<Rightarrow> string" where
  "http_text status url = ''HTTP '' @ int_str status @ '' from '' @ url"

definition check_status :: "string \<Rightarrow> response \<Rightarrow> terr + unit" where
  "check_status url r =
     (let status = status_code r in
      if 200 \<le> status \<and> status < 300 then Inr ()
      else if 500 \<le> status \<and> status < 600
      then Inl (mark_transport_error ''remote_5xx'' (http_text status url))
      else if status = 429 then Inl (mark_transport_error ''remote_429'' (''HTTP 429 from '' @ url))
      else if 400 \<le> status \<and> status < 500
      then Inl (mark_transport_error ''remote_4xx'' (http_text status url))
      else Inl (mark_transport_error ''remote_non2xx'' (http_text status url)))"

definition check_status_no_retry :: "string \<Rightarrow> response \<Rightarrow> terr + unit" where
  "check_status_no_retry url r =
     (let status = status_code r;
          category = (if status = 429 then ''remote_429''
            else if 400 \<le> status \<and> status < 500 then ''remote_4xx''
            else if 500 \<le> status \<and> status < 600 then ''remote_5xx'' else ''remote_non2xx'')
      in if 200 \<le> status \<and> status < 300 then Inr ()
         else Inl (http_transport_error (''http_transport [category='' @ category @ '']: '' @
                http_text status url)))"

definition wrap_error :: "terr \<Rightarrow> terr" where
  "wrap_error e =
     (if isinstance e ''HttpTransportError'' then e
      else http_transport_error (''http_transport [category='' @
             classify_transport_error ''http'' e @ '']: '' @ te_text e))"

definition checked_request ::
    "httpx \<Rightarrow> (string \<Rightarrow> response \<Rightarrow> terr + unit) \<Rightarrow> request \<Rightarrow> (net, response) act" where
  "checked_request hx check rq =
     act_bind (send_request hx rq)
       (\<lambda>r. act_bind (act_lift (check (rq_url rq) r)) (\<lambda>_. act_return r))"

definition execute_op ::
    "tls_transport_policy \<Rightarrow> bool \<Rightarrow> (net, response) act \<Rightarrow> (net, response) act" where
  "execute_op p retry operation =
     act_catch
       (if retry then execute_with_retry p (classify_transport_error ''http'') net_sleep operation
        else operation)
       (\<lambda>e. act_raise (wrap_error e))"

definition ht_request ::
    "httpx \<Rightarrow> string \<Rightarrow> string \<Rightarrow> body \<Rightarrow> string option \<Rightarrow> bool \<Rightarrow> response http_act" where
  "ht_request hx rmethod url rbody content_type retry =
     act_then ensure_client
       (\<lambda>s. on_snd (execute_op (ht_policy (fst s)) retry
               (checked_request hx check_status
                 \<lparr>rq_method = rmethod, rq_url = url, rq_headers = build_headers (fst s) content_type,
                  rq_body = rbody\<rparr>)) s)"

definition ht_post ::
    "httpx \<Rightarrow> string \<Rightarrow> bytes \<Rightarrow> string option \<Rightarrow> bool \<Rightarrow> response http_act" where
  "ht_post hx url content content_type retry =
     ht_request hx ''POST'' url (Content content) content_type retry"

definition ht_post_multipart ::
    "httpx \<Rightarrow> string \<Rightarrow> (string, string \<times> bytes \<times> string) odict option
      \<Rightarrow> (string, string) odict option \<Rightarrow> bool \<Rightarrow> response http_act" where
  "ht_post_multipart hx url files form retry =
     ht_request hx ''POST'' url (Form files form) None retry"

definition ht_get :: "httpx \<Rightarrow> string \<Rightarrow> bool \<Rightarrow> response http_act" where
  "ht_get hx url retry = ht_request hx ''GET'' url NoBody None retry"

definition ht_stream_post ::
    "httpx \<Rightarrow> string \<Rightarrow> bytes gen \<Rightarrow> string option \<Rightarrow> response http_act" where
  "ht_stream_post hx url chunks content_type =
     act_then ensure_client
       (\<lambda>s. act_bind
         (on_snd (act_catch
           (send_request hx \<lparr>rq_method = ''POST'', rq_url = url,
              rq_headers = build_headers (fst s) content_type, rq_body = Chunks chunks\<rparr>)
           (\<lambda>e. act_raise (wrap_error e))))
         (\<lambda>r. act_bind (act_lift (check_status_no_retry url r)) (\<lambda>_. act_return r)) s)"

section \<open>The delivery clients\<close>

record delivery_result =
  dr_skipped :: bool
  dr_status_code :: "int option"

record http_client_iac =
  hi_endpoint :: string
  hi_api_key_ref :: "secret_ref option"
  hi_token_ref :: "secret_ref option"
  hi_content_type :: "string option"
  hi_max_body_bytes :: int
  hi_transport :: tls_transport_policy

text \<open>The constraints of \<open>HttpClientIaC\<close>.\<close>

definition http_client_iac_ok :: "http_client_iac \<Rightarrow> bool" where
  "http_client_iac_ok i \<longleftrightarrow> \<not> (hi_api_key_ref i \<noteq> None \<and> hi_token_ref i \<noteq> None)
     \<and> 0 < hi_max_body_bytes i \<and> transport_policy_ok (hi_transport i)"

record http_client =
  hc_iac :: http_client_iac
  hc_headers :: "(string, string) odict"
  hc_injected :: bool
  hc_client :: bool
  hc_buffer :: "bytes option"
  hc_finalized :: bool

definition http_client_error :: "string \<Rightarrow> terr" where
  "http_client_error = err [''HttpClientError'', ''RuntimeError'']"

definition client_headers ::
    "secret_sources \<Rightarrow> (string \<Rightarrow> terr) \<Rightarrow> http_client_iac \<Rightarrow> terr + (string, string) odict" where
  "client_headers src mk i =
     rbind (auth_header src (\<lambda>t. mk (''Failed to resolve HTTP client secret: '' @ t))
             (hi_api_key_ref i) (hi_token_ref i))
       (\<lambda>auth. Inr (case hi_content_type i of
          None \<Rightarrow> auth | Some c \<Rightarrow> dict_set ''Content-Type'' c auth))"

definition http_client_new ::
    "secret_sources \<Rightarrow> http_client_iac \<Rightarrow> bool \<Rightarrow> terr + http_client" where
  "http_client_new src i injected =
     rbind (client_headers src http_client_error i)
       (\<lambda>hs. Inr \<lparr>hc_iac = i, hc_headers = hs, hc_injected = injected, hc_client = injected,
                  hc_buffer = None, hc_finalized = False\<rparr>)"

type_synonym 'a client_act = "(http_client \<times> net, 'a) act"

definition hc_open :: "httpx \<Rightarrow> unit client_act" where
  "hc_open hx s =
     act_then
       (act_when (\<not> hc_injected (fst s))
         (act_then (act_when (hc_client (fst s)) (on_snd (best_effort (close_client hx))))
           (act_then
             (on_snd (new_client hx (hi_transport (hc_iac (fst s)))
                (verify_tls (hi_transport (hc_iac (fst s))))))
             (on_fst (act_modify (\<lambda>c. c\<lparr>hc_client := True\<rparr>))))))
       (on_fst (act_modify (\<lambda>c. c\<lparr>hc_buffer := Some [], hc_finalized := False\<rparr>))) s"

definition hc_send_chunk :: "bytes \<Rightarrow> unit client_act" where
  "hc_send_chunk chunk s =
     (let c = fst s in
      if hc_finalized c then (Inl (http_client_error ''send_chunk() called after finalize()''), s)
      else case hc_buffer c of
        None \<Rightarrow> (Inl (http_client_error ''send_chunk() called before open()''), s)
      | Some d \<Rightarrow>
          (let size = int (length d) + int (length chunk); limit = hi_max_body_bytes (hc_iac c) in
           if limit < size
           then (Inl (http_client_error (''http_client: payload size ('' @ int_str size @
                   '' bytes) would exceed max_body_bytes='' @ int_str limit @
                   ''. Use client_type: http_streaming for large payloads.'')), s)
           else (Inr (), (c\<lparr>hc_buffer := Some (d @ chunk)\<rparr>, snd s))))"

definition post_check :: "string \<Rightarrow> response \<Rightarrow> terr + unit" where
  "post_check url r =
     (let status = status_code r in
      if 500 \<le> status \<and> status < 600
      then Inl (mark_transport_error ''remote_5xx'' (http_text status url))
      else if 400 \<le> status \<and> status < 500
      then Inl (mark_transport_error ''remote_4xx'' (http_text status url))
      else Inr ())"

definition hc_request :: "http_client \<Rightarrow> bytes \<Rightarrow> request" where
  "hc_request c d =
     \<lparr>rq_method = ''POST'', rq_url = hi_endpoint (hc_iac c), rq_headers = hc_headers c,
      rq_body = Content d\<rparr>"

definition http_failure :: "string \<Rightarrow> (string \<Rightarrow> terr) \<Rightarrow> terr \<Rightarrow> terr" where
  "http_failure pre mk e =
     mk (format_transport_runtime_error pre (classify_transport_error ''http'' e) e [])"

definition hc_finalize :: "httpx \<Rightarrow> delivery_result client_act" where
  "hc_finalize hx s =
     (let c = fst s in
      if hc_finalized c
      then (Inl (http_client_error ''finalize() already called; call open() to start a new run''), s)
      else case hc_buffer c of
        None \<Rightarrow> (Inl (http_client_error ''finalize() called before open()''), s)
      | Some d \<Rightarrow>
          act_then (on_fst (act_modify (\<lambda>c. c\<lparr>hc_buffer := None\<rparr>)))
            (act_bind
              (on_snd (act_catch
                 (execute_with_retry (hi_transport (hc_iac c)) (classify_transport_error ''http'')
                    net_sleep (checked_request hx post_check (hc_request c d)))
                 (\<lambda>e. act_raise (http_failure ''http_client'' http_client_error e))))
              (\<lambda>r. act_then (on_fst (act_modify (\<lambda>c. c\<lparr>hc_finalized := True\<rparr>)))
                (act_then
                  (act_when (\<not> hc_injected c \<and> hc_client c)
                    (act_then (on_snd (close_client hx))
                      (on_fst (act_modify (\<lambda>c. c\<lparr>hc_client := False\<rparr>)))))
                  (act_return \<lparr>dr_skipped = False, dr_status_code = Some (status_code r)\<rparr>)))) s)"

text \<open>The no-op client.\<close>

definition noop_open :: "('s, unit) act" where
  "noop_open = act_return ()"

definition noop_send_chunk :: "bytes \<Rightarrow> ('s, unit) act" where
  "noop_send_chunk chunk = act_return ()"

definition noop_client_finalize :: "('s, delivery_result) act" where
  "noop_client_finalize = act_return \<lparr>dr_skipped = True, dr_status_code = None\<rparr>"

section \<open>What a delivery has sent\<close>

text \<open>
  The requests of one checked, retried request: the same request again and again, at most
  \<open>max_retries + 1\<close> times, and a success is the service's answer to the last one.
\<close>

lemma checked_request_log:
  "checked_request hx check rq n = (r, n') \<Longrightarrow> n' = n\<lparr>nt_log := nt_log n @ [rq]\<rparr>"
  by (auto simp: checked_request_def send_request_def act_basic_defs split: sum.splits)

lemma checked_request_Inr:
  "checked_request hx check rq n = (Inr r, n') \<longleftrightarrow>
     hx_send hx (nt_log n @ [rq]) = Inr r \<and> check (rq_url rq) r = Inr ()
     \<and> n' = n\<lparr>nt_log := nt_log n @ [rq]\<rparr>"
  by (auto simp: checked_request_def send_request_def act_basic_defs split: sum.splits)

lemma nt_log_pause [simp]: "nt_log (pause p net_sleep n) = nt_log n"
  by (simp add: pause_def net_sleep_def)

lemma nt_clients_pause [simp]: "nt_clients (pause p net_sleep n) = nt_clients n"
  by (simp add: pause_def net_sleep_def)

lemma checked_rounds:
  "retry_rounds p classify net_sleep (checked_request hx check rq) k n = Some n' \<Longrightarrow>
     nt_log n' = nt_log n @ replicate k rq \<and> nt_clients n' = nt_clients n"
proof (induction k arbitrary: n)
  case (Suc k)
  then obtain e n1 where e: "checked_request hx check rq n = (Inl e, n1)"
    "retry_rounds p classify net_sleep (checked_request hx check rq) k (pause p net_sleep n1) = Some n'"
    by (auto split: prod.splits sum.splits if_splits)
  then have "nt_log n1 = nt_log n @ [rq]" "nt_clients n1 = nt_clients n"
    by (auto dest: checked_request_log)
  with Suc.IH [OF e(2)] show ?case by simp
qed simp

lemma checked_retry_Inr:
  assumes "execute_with_retry p classify net_sleep (checked_request hx check rq) n = (Inr r, n')"
  shows "\<exists>k \<le> max_retries p. nt_log n' = nt_log n @ replicate (Suc k) rq
    \<and> hx_send hx (nt_log n') = Inr r \<and> check (rq_url rq) r = Inr ()
    \<and> nt_clients n' = nt_clients n"
proof -
  obtain k n1 where k: "k \<le> max_retries p"
    "retry_rounds p classify net_sleep (checked_request hx check rq) k n = Some n1"
    "checked_request hx check rq n1 = (Inr r, n')"
    using execute_with_retry_Inr [OF assms] by blast
  then have "nt_log n1 = nt_log n @ replicate k rq" "nt_clients n1 = nt_clients n"
    by (auto dest: checked_rounds)
  with k show ?thesis
    by (auto simp: checked_request_Inr replicate_append_same [symmetric] intro!: exI [of _ k])
qed

text \<open>
  The client as a sink: collected is what the buffer holds, stored means that the last requests
  of the log are the same POST of the whole payload and that the service answered the last one
  with a status that is not 4xx or 5xx.
\<close>

definition hc_ready :: "request list \<Rightarrow> http_client_iac \<Rightarrow> (string, string) odict \<Rightarrow> http_client \<times> net \<Rightarrow> bool" where
  "hc_ready l i hs s \<longleftrightarrow> nt_log (snd s) = l \<and> hc_iac (fst s) = i \<and> hc_headers (fst s) = hs"

definition hc_pend ::
    "request list \<Rightarrow> http_client_iac \<Rightarrow> (string, string) odict \<Rightarrow> http_client \<times> net \<Rightarrow> bytes \<Rightarrow> bool" where
  "hc_pend l i hs s d \<longleftrightarrow> hc_ready l i hs s \<and> hc_buffer (fst s) = Some d
     \<and> \<not> hc_finalized (fst s) \<and> (d \<noteq> [] \<longrightarrow> int (length d) \<le> hi_max_body_bytes i)"

definition hc_stored ::
    "httpx \<Rightarrow> request list \<Rightarrow> http_client_iac \<Rightarrow> (string, string) odict \<Rightarrow> http_client \<times> net
      \<Rightarrow> delivery_result \<Rightarrow> bytes \<Rightarrow> bool" where
  "hc_stored hx l i hs s r d \<longleftrightarrow>
     (\<exists>k \<le> max_retries (hi_transport i). \<exists>resp.
        nt_log (snd s) = l @ replicate (Suc k)
          \<lparr>rq_method = ''POST'', rq_url = hi_endpoint i, rq_headers = hs, rq_body = Content d\<rparr>
        \<and> hx_send hx (nt_log (snd s)) = Inr resp
        \<and> \<not> (400 \<le> status_code resp \<and> status_code resp < 600)
        \<and> r = \<lparr>dr_skipped = False, dr_status_code = Some (status_code resp)\<rparr>)
     \<and> (d \<noteq> [] \<longrightarrow> int (length d) \<le> hi_max_body_bytes i)
     \<and> hc_finalized (fst s)"

lemma close_client_log [simp]: "nt_log (snd (close_client hx n)) = nt_log n"
  by (simp add: close_client_def)

lemma new_client_log: "new_client hx p v n = (r, n') \<Longrightarrow> nt_log n' = nt_log n"
  by (auto simp: new_client_def split: sum.splits)

lemma hc_open_pend:
  assumes "hc_ready l i hs s" "hc_open hx s = (Inr (), s')"
  shows "hc_pend l i hs s' []"
  using assms
  by (auto simp: hc_open_def hc_pend_def hc_ready_def act_basic_defs split: prod.splits sum.splits if_splits
      dest!: new_client_log)

lemma hc_send_chunk_pend:
  "hc_pend l i hs s d \<Longrightarrow> hc_send_chunk c s = (Inr (), s') \<Longrightarrow> hc_pend l i hs s' (d @ c)"
  by (auto simp: hc_send_chunk_def hc_pend_def hc_ready_def Let_def split: if_splits)

lemma post_check_Inr:
  "post_check url r = Inr () \<longleftrightarrow> \<not> (400 \<le> status_code r \<and> status_code r < 600)"
  by (auto simp: post_check_def Let_def)

lemma hc_finalize_stored:
  assumes "hc_pend l i hs s d" "hc_finalize hx s = (Inr r, s')"
  shows "hc_stored hx l i hs s' r d"
proof -
  obtain c n where s: "s = (c, n)" by (cases s)
  let ?rq = "\<lparr>rq_method = ''POST'', rq_url = hi_endpoint i, rq_headers = hs, rq_body = Content d\<rparr>"
  have c: "hc_buffer c = Some d" "\<not> hc_finalized c" "nt_log n = l" "hc_iac c = i" "hc_headers c = hs"
    "hc_request c d = ?rq"
    using assms(1) by (auto simp: s hc_pend_def hc_ready_def hc_request_def)
  obtain resp n1 where r: "execute_with_retry (hi_transport i) (classify_transport_error ''http'')
      net_sleep (checked_request hx post_check ?rq) n = (Inr resp, n1)"
    "nt_log (snd s') = nt_log n1" "r = \<lparr>dr_skipped = False, dr_status_code = Some (status_code resp)\<rparr>"
    "hc_finalized (fst s')"
    using assms(2) c
    by (auto simp: s hc_finalize_def act_basic_defs close_client_def split: prod.splits sum.splits if_splits)
  from checked_retry_Inr [OF r(1)] obtain k where "k \<le> max_retries (hi_transport i)"
    "nt_log n1 = l @ replicate (Suc k) ?rq" "hx_send hx (nt_log n1) = Inr resp"
    "post_check (rq_url ?rq) resp = Inr ()"
    using c(3) by auto
  with r(2-4) assms(1) show ?thesis
    unfolding hc_stored_def hc_pend_def post_check_Inr by auto
qed

interpretation http_sink: sink "hc_ready l i hs" "hc_open hx" hc_send_chunk "hc_finalize hx"
    "hc_pend l i hs" "hc_stored hx l i hs" for l i hs hx
  by unfold_locales (auto intro: hc_open_pend hc_send_chunk_pend hc_finalize_stored)

end
