(* ===== verification/PFP_Files.thy ===== *)
theory PFP_Files
  imports PFP_Effects PFP_Writers
begin

text \<open>
  Files: the operating system as the archivers use it, the filesystem helpers
  (\<open>publishing/support/filesystem_safety.py\<close>), and the local and no-op archivers
  (\<open>publishing/archivers/local_archiver.py\<close>, \<open>noop_archiver.py\<close>).

  A path is its absolute text.  Every system call takes the next entry of a script of faults:
  nothing, or an exception with the number of bytes a write got through before it.  \<open>tempfile\<close>
  draws its names from a list of random tokens and takes the first that is not in use.
\<close>

section \<open>The operating system\<close>

record os =
  os_files :: "string \<Rightarrow> bytes option"
  os_modes :: "string \<Rightarrow> int option"
  os_faults :: "(terr \<times> nat) option list"
  os_tokens :: "nat list list"
  os_clock :: string
  os_nt :: bool

definition next_fault :: "os \<Rightarrow> (terr \<times> nat) option" where
  "next_fault w = (case os_faults w of [] \<Rightarrow> None | f # fs \<Rightarrow> f)"

definition tick :: "os \<Rightarrow> os" where
  "tick w = w\<lparr>os_faults := tl (os_faults w)\<rparr>"

definition syscall :: "(os \<Rightarrow> os) \<Rightarrow> (os, unit) act" where
  "syscall f w =
     (case next_fault w of Some (e, n) \<Rightarrow> (Inl e, tick w) | None \<Rightarrow> (Inr (), f (tick w)))"

definition append_file :: "string \<Rightarrow> bytes \<Rightarrow> os \<Rightarrow> os" where
  "append_file p d w =
     w\<lparr>os_files := (os_files w)(p := Some ((case os_files w p of None \<Rightarrow> [] | Some c \<Rightarrow> c) @ d))\<rparr>"

definition os_write :: "string \<Rightarrow> bytes \<Rightarrow> (os, unit) act" where
  "os_write p d w =
     (case next_fault w of
        Some (e, n) \<Rightarrow> (Inl e, append_file p (take n d) (tick w))
      | None \<Rightarrow> (Inr (), append_file p d (tick w)))"

definition os_replace :: "string \<Rightarrow> string \<Rightarrow> (os, unit) act" where
  "os_replace src dst w =
     (case os_files w src of
        None \<Rightarrow> (Inl (err [''FileNotFoundError'', ''OSError''] ''No such file or directory''), w)
      | Some c \<Rightarrow> syscall (\<lambda>w. w\<lparr>os_files := (os_files w)(src := None, dst := Some c)\<rparr>) w)"

definition os_unlink :: "string \<Rightarrow> (os, unit) act" where
  "os_unlink p = syscall (\<lambda>w. w\<lparr>os_files := (os_files w)(p := None)\<rparr>)"

definition os_chmod :: "string \<Rightarrow> int \<Rightarrow> (os, unit) act" where
  "os_chmod p mode = syscall (\<lambda>w. w\<lparr>os_modes := (os_modes w)(p := Some mode)\<rparr>)"

text \<open>\<open>flush\<close>, \<open>fsync\<close> and \<open>close\<close> change nothing that is visible here, and \<open>mkdir\<close> no file.\<close>

definition os_sync :: "(os, unit) act" where
  "os_sync = syscall id"

definition token_chars :: string where
  "token_chars = ''abcdefghijklmnopqrstuvwxyz0123456789_''"

definition token_str :: "nat list \<Rightarrow> string" where
  "token_str t = map (\<lambda>i. token_chars ! (i mod length token_chars)) t"

definition path_join :: "string \<Rightarrow> string \<Rightarrow> string" where
  "path_join d n = (case n of CHR 0x2F # _ \<Rightarrow> n | _ \<Rightarrow> d @ CHR 0x2F # n)"

definition path_name :: "string \<Rightarrow> string" where
  "path_name p = rev (takeWhile (\<lambda>c. c \<noteq> CHR 0x2F) (rev p))"

text \<open>\<open>tempfile.NamedTemporaryFile(delete=False, dir=..., prefix=name + '.', suffix='.tmp')\<close>.\<close>

definition temp_name :: "string \<Rightarrow> string \<Rightarrow> nat list \<Rightarrow> string" where
  "temp_name d n t = path_join d (n @ ''.'' @ token_str t @ ''.tmp'')"

definition os_mktemp :: "string \<Rightarrow> string \<Rightarrow> (os, string) act" where
  "os_mktemp d n w =
     (case find (\<lambda>t. os_files w (temp_name d n t) = None) (os_tokens w) of
        None \<Rightarrow> (Inl (err [''FileExistsError'', ''OSError''] ''No usable temporary file name found''), w)
      | Some t \<Rightarrow>
          (case syscall (append_file (temp_name d n t) []) w of
             (Inl e, w') \<Rightarrow> (Inl e, w')
           | (Inr _, w') \<Rightarrow> (Inr (temp_name d n t), w')))"

section \<open>Filesystem safety\<close>

definition SAFE_DIRECTORY_MODE :: int where "SAFE_DIRECTORY_MODE = 488"
definition SAFE_FILE_MODE :: int where "SAFE_FILE_MODE = 416"

text \<open>\<open>_apply_permissions\<close> and the archiver's \<open>_apply_safe_permissions\<close>.\<close>

definition apply_permissions :: "string \<Rightarrow> int \<Rightarrow> (os, unit) act" where
  "apply_permissions p mode =
     act_catch (os_chmod p mode)
       (\<lambda>e. if isinstance e ''OSError''
            then act_bind (act_get os_nt) (\<lambda>nt. if nt then act_return () else act_raise e)
            else act_raise e)"

definition ensure_directory :: "string \<Rightarrow> int \<Rightarrow> (os, unit) act" where
  "ensure_directory d mode = act_then os_sync (apply_permissions d mode)"

definition path_parts :: "string \<Rightarrow> string list" where
  "path_parts p = filter (\<lambda>x. x \<noteq> [] \<and> x \<noteq> ''.'') (split_on CHR 0x2F p)"

fun common_parts :: "string list \<Rightarrow> string list \<Rightarrow> string list" where
  "common_parts (x # xs) (y # ys) = (if x = y then x # common_parts xs ys else [])"
| "common_parts _ _ = []"

definition commonpath :: "string \<Rightarrow> string \<Rightarrow> string" where
  "commonpath a b = CHR 0x2F # join ''/'' (common_parts (path_parts a) (path_parts b))"

definition fs_path_error :: "string \<Rightarrow> terr" where
  "fs_path_error = err [''FSSafePathError'', ''ValueError'']"

text \<open>\<open>resolve\<close> stands for \<open>Path(...).expanduser().resolve()\<close>.\<close>

definition resolve_safe_target_path :: "(string \<Rightarrow> string) \<Rightarrow> string \<Rightarrow> pyval \<Rightarrow> terr + string" where
  "resolve_safe_target_path resolve base_directory target_path =
     (let normalized_base = resolve base_directory in
      case target_path of
        PyStr t \<Rightarrow>
          if strip t = [] then Inl (fs_path_error ''target path must be non-empty string'')
          else if hd (strip t) = CHR 0x2F
          then Inl (fs_path_error ''absolute target path is not allowed'')
          else (let candidate = resolve (path_join normalized_base (strip t)) in
                if commonpath normalized_base candidate \<noteq> normalized_base
                then Inl (fs_path_error ''target path escapes allowed base directory'')
                else Inr candidate)
      | _ \<Rightarrow> Inl (fs_path_error ''target path must be non-empty string''))"

text \<open>A chunk that is not \<open>bytes\<close> is \<open>None\<close>.\<close>

fun write_payload_chunks :: "string \<Rightarrow> bytes option gen \<Rightarrow> (os, unit) act" where
  "write_payload_chunks p Done = act_return ()"
| "write_payload_chunks p (Raise e) = act_raise (terr_of_exn e)"
| "write_payload_chunks p (Yield None g) =
     act_raise (err [''FSSafePayloadError'', ''TypeError''] ''artifact payload must yield bytes'')"
| "write_payload_chunks p (Yield (Some c) g) = act_then (os_write p c) (write_payload_chunks p g)"

definition cleanup_temp_file :: "string \<Rightarrow> (os, terr option) act" where
  "cleanup_temp_file p =
     act_bind (act_get (\<lambda>w. os_files w p))
       (\<lambda>f. case f of
          None \<Rightarrow> act_return None
        | Some _ \<Rightarrow> act_catch (act_then (os_unlink p) (act_return None))
            (\<lambda>e. if isinstance e ''OSError'' then act_return (Some e) else act_raise e))"

definition fs_overwrite_error :: terr where
  "fs_overwrite_error =
     err [''FSSafeOverwriteError'', ''FileExistsError'', ''OSError'']
       ''target file exists and overwrite is disabled''"

definition fs_write_error :: "string \<Rightarrow> terr" where
  "fs_write_error = err [''FSSafeWriteError'', ''RuntimeError'']"

definition refuse_existing :: "bool \<Rightarrow> string \<Rightarrow> (os, unit) act" where
  "refuse_existing overwrite p =
     act_bind (act_get (\<lambda>w. os_files w p))
       (\<lambda>f. if \<not> overwrite \<and> f \<noteq> None then act_raise fs_overwrite_error else act_return ())"

definition fs_safe_error :: "terr \<Rightarrow> bool" where
  "fs_safe_error e \<longleftrightarrow> isinstance e ''FSSafePathError'' \<or> isinstance e ''FSSafePayloadError''
     \<or> isinstance e ''FSSafeOverwriteError''"

definition atomic_failure :: "string option \<Rightarrow> terr \<Rightarrow> (os, 'a) act" where
  "atomic_failure temp e =
     act_bind (case temp of None \<Rightarrow> act_return None | Some p \<Rightarrow> cleanup_temp_file p)
       (\<lambda>c. if fs_safe_error e then act_raise e
            else case c of
              None \<Rightarrow> act_raise (fs_write_error ''atomic write failed'')
            | Some ce \<Rightarrow> act_raise (fs_write_error
                (''atomic write failed; temp cleanup also failed: '' @ te_text ce)))"

text \<open>The target is given resolved, as its parent directory and its name.\<close>

definition atomic_write_bytes ::
    "string \<Rightarrow> string \<Rightarrow> bytes option gen \<Rightarrow> bool \<Rightarrow> (os, string) act" where
  "atomic_write_bytes parent name chunks overwrite =
     (let final_path = path_join parent name in
      act_then (ensure_directory parent SAFE_DIRECTORY_MODE)
        (act_then (refuse_existing overwrite final_path)
          (\<lambda>w. case os_mktemp parent name w of
             (Inl e, w') \<Rightarrow> atomic_failure None e w'
           | (Inr temp, w') \<Rightarrow>
               act_catch
                 (act_then (write_payload_chunks temp chunks)
                   (act_then os_sync
                     (act_then os_sync
                       (act_then (apply_permissions temp SAFE_FILE_MODE)
                         (act_then (refuse_existing overwrite final_path)
                           (act_then (os_replace temp final_path)
                             (act_then (apply_permissions final_path SAFE_FILE_MODE)
                               (act_return final_path))))))))
                 (atomic_failure (Some temp)) w')))"

section \<open>The archivers\<close>

record archive_result =
  ar_skipped :: bool
  ar_location :: "string option"

definition noop_archiver_open :: "('s, unit) act" where
  "noop_archiver_open = act_return ()"

definition noop_archiver_write_chunk :: "bytes \<Rightarrow> ('s, unit) act" where
  "noop_archiver_write_chunk chunk = act_return ()"

definition noop_archiver_finalize :: "('s, archive_result) act" where
  "noop_archiver_finalize = act_return \<lparr>ar_skipped = True, ar_location = None\<rparr>"

record local_archiver =
  la_output_dir :: string
  la_filename_base :: string
  la_final_path :: "string option"
  la_tmp_path :: "string option"
  la_tmp_handle :: "string option"
  la_finalized :: bool

definition local_archiver_error :: "string \<Rightarrow> terr" where
  "local_archiver_error = err [''LocalArchiverError'', ''RuntimeError'']"

text \<open>The constructor; the output directory is given resolved.\<close>

definition local_archiver_new :: "string \<Rightarrow> string \<Rightarrow> (os, local_archiver) act" where
  "local_archiver_new output_dir filename_base =
     act_then
       (act_catch (ensure_directory output_dir SAFE_DIRECTORY_MODE)
         (\<lambda>e. if isinstance e ''OSError''
              then act_raise (local_archiver_error (''failed to prepare output_dir: '' @ output_dir))
              else act_raise e))
       (act_return \<lparr>la_output_dir = output_dir, la_filename_base = filename_base,
          la_final_path = None, la_tmp_path = None, la_tmp_handle = None, la_finalized = False\<rparr>)"

type_synonym 'a local_act = "(local_archiver \<times> os, 'a) act"

definition la_open :: "unit local_act" where
  "la_open s =
     (let a = fst s; w = snd s;
          final_path = path_join (la_output_dir a) (la_filename_base a @ ''_'' @ os_clock w);
          a' = a\<lparr>la_final_path := Some final_path, la_finalized := False\<rparr>
      in case os_mktemp (la_output_dir a) (path_name final_path) w of
           (Inl e, w') \<Rightarrow> (Inl e, (a', w'))
         | (Inr tmp, w') \<Rightarrow> (Inr (), (a'\<lparr>la_tmp_path := Some tmp, la_tmp_handle := Some tmp\<rparr>, w')))"

definition la_write_chunk :: "bytes \<Rightarrow> unit local_act" where
  "la_write_chunk chunk s =
     (case la_tmp_handle (fst s) of
        None \<Rightarrow> (Inl (local_archiver_error ''write_chunk() called before open()''), s)
      | Some h \<Rightarrow> on_snd (os_write h chunk) s)"

definition la_replace :: "string \<Rightarrow> string \<Rightarrow> (os, unit) act" where
  "la_replace tmp final =
     act_catch (os_replace tmp final)
       (\<lambda>e. if isinstance e ''OSError''
            then act_raise (local_archiver_error
              (''atomic replace failed; temp file preserved at: '' @ tmp))
            else act_raise e)"

definition la_finalize :: "archive_result local_act" where
  "la_finalize s =
     (let a = fst s in
      case la_tmp_path a of
        None \<Rightarrow> (Inl (local_archiver_error ''finalize() called before open()''), s)
      | Some tmp \<Rightarrow>
          if la_finalized a
          then (Inl (local_archiver_error ''finalize() already called; call open() to start a new run''), s)
          else
            (let final = the (la_final_path a) in
             act_then
               (act_when (la_tmp_handle a \<noteq> None)
                 (act_then (on_snd os_sync)
                   (act_then (on_snd os_sync)
                     (act_then (on_snd os_sync)
                       (on_fst (act_modify (\<lambda>a. a\<lparr>la_tmp_handle := None\<rparr>)))))))
               (act_then (on_snd (apply_permissions tmp SAFE_FILE_MODE))
                 (act_then (on_snd (la_replace tmp final))
                   (act_then (on_fst (act_modify (\<lambda>a. a\<lparr>la_finalized := True\<rparr>)))
                     (act_then (on_snd (apply_permissions final SAFE_FILE_MODE))
                       (act_return \<lparr>ar_skipped = False, ar_location = Some final\<rparr>))))) s))"

end
