(* ===== verification/PFP_S3.thy ===== *)
theory PFP_S3
  imports PFP_Transport PFP_Files
begin

text \<open>
  The S3 archivers (\<open>publishing/archivers/s3_archiver.py\<close>, \<open>s3_compat_archiver.py\<close>).  The two
  classes have the same cycle; they differ in how the client is made, in the names in their
  messages, in the transport label and in the secrets to redact, which \<open>flavour\<close> collects.  The
  object store is a parameter: \<open>answer\<close> gives the reply to the last call of the log of calls.
\<close>

section \<open>The store\<close>

datatype s3_call =
    CreateMultipart string string
  | UploadPart string string "string option" nat bytes
  | CompleteMultipart string string "string option" "(nat \<times> string) list"
  | AbortMultipart string string string
  | PutObject string string bytes

type_synonym answer = "(s3_call, string) answers"

type_synonym store = "s3_call service"

section \<open>The archiver\<close>

record flavour =
  fl_class :: string
  fl_label :: string
  fl_prefix :: string
  fl_transport :: string
  fl_secrets :: "string list"

record s3_archiver =
  sa_flavour :: flavour
  sa_policy :: tls_transport_policy
  sa_bucket :: string
  sa_key_prefix :: string
  sa_filename_base :: string
  sa_object_key :: string
  sa_upload_id :: "string option"
  sa_parts :: "(nat \<times> string) list"
  sa_buffer :: "bytes option"
  sa_part_number :: nat
  sa_finalized :: bool

definition MIN_PART_SIZE :: nat where "MIN_PART_SIZE = 5 * 1024 * 1024"

definition s3_fresh ::
    "flavour \<Rightarrow> tls_transport_policy \<Rightarrow> string \<Rightarrow> string \<Rightarrow> string \<Rightarrow> s3_archiver" where
  "s3_fresh fl p bucket key_prefix filename_base =
     \<lparr>sa_flavour = fl, sa_policy = p, sa_bucket = bucket, sa_key_prefix = key_prefix,
      sa_filename_base = filename_base, sa_object_key = '''', sa_upload_id = None, sa_parts = [],
      sa_buffer = None, sa_part_number = 0, sa_finalized = False\<rparr>"

record s3_archiver_iac =
  s3i_bucket :: string
  s3i_filename_base :: string
  s3i_key_prefix :: string
  s3i_region :: "string option"
  s3i_transport :: tls_transport_policy

record s3_compat_archiver_iac =
  s3c_endpoint :: string
  s3c_bucket :: string
  s3c_filename_base :: string
  s3c_key_prefix :: string
  s3c_access_key_ref :: secret_ref
  s3c_secret_key_ref :: secret_ref
  s3c_transport :: tls_transport_policy

text \<open>The keyword arguments of \<open>boto3.client('s3', ...)\<close>; making the client may raise.\<close>

record boto_args =
  ba_verify :: bool
  ba_region_name :: "string option"
  ba_endpoint_url :: "string option"
  ba_credentials :: "(string \<times> string) option"

definition s3_archiver_new :: "(boto_args \<Rightarrow> terr + unit) \<Rightarrow> s3_archiver_iac \<Rightarrow> terr + s3_archiver" where
  "s3_archiver_new boto i =
     rbind (boto \<lparr>ba_verify = verify_tls (s3i_transport i),
                  ba_region_name = (case s3i_region i of Some (c # cs) \<Rightarrow> Some (c # cs) | _ \<Rightarrow> None),
                  ba_endpoint_url = None, ba_credentials = None\<rparr>)
       (\<lambda>_. Inr (s3_fresh
          \<lparr>fl_class = ''S3ArchiverError'', fl_label = ''S3'', fl_prefix = ''s3_archiver'',
           fl_transport = ''s3'', fl_secrets = []\<rparr>
          (s3i_transport i) (s3i_bucket i) (s3i_key_prefix i) (s3i_filename_base i)))"

definition s3_compat_error :: "string \<Rightarrow> terr" where
  "s3_compat_error = err [''S3CompatArchiverError'', ''RuntimeError'']"

definition s3_compat_archiver_new ::
    "secret_sources \<Rightarrow> (boto_args \<Rightarrow> terr + unit) \<Rightarrow> s3_compat_archiver_iac \<Rightarrow> terr + s3_archiver" where
  "s3_compat_archiver_new src boto i =
     (let resolve = (\<lambda>ref. case resolve_secret_ref src ref of
            Inl e \<Rightarrow> Inl (if isinstance e ''SecretResolutionError''
              then s3_compat_error (''Failed to resolve S3Compat credentials: '' @ te_text e) else e)
          | Inr s \<Rightarrow> Inr s)
      in rbind (resolve (s3c_access_key_ref i)) (\<lambda>ak.
         rbind (resolve (s3c_secret_key_ref i)) (\<lambda>sk.
         rbind (boto \<lparr>ba_verify = verify_tls (s3c_transport i), ba_region_name = None,
                      ba_endpoint_url = Some (s3c_endpoint i), ba_credentials = Some (ak, sk)\<rparr>)
           (\<lambda>_. Inr (s3_fresh
              \<lparr>fl_class = ''S3CompatArchiverError'', fl_label = ''S3Compat'',
               fl_prefix = ''s3_compat_archiver'', fl_transport = ''s3_compat'', fl_secrets = [ak, sk]\<rparr>
              (s3c_transport i) (s3c_bucket i) (s3c_key_prefix i) (s3c_filename_base i))))))"

type_synonym 'a s3_act = "(s3_archiver \<times> store, 'a) act"

definition s3_error :: "s3_archiver \<Rightarrow> string \<Rightarrow> terr" where
  "s3_error a = err [fl_class (sa_flavour a), ''RuntimeError'']"

definition s3_failure :: "s3_archiver \<Rightarrow> string \<Rightarrow> terr \<Rightarrow> terr" where
  "s3_failure a what e =
     (let fl = sa_flavour a in
      s3_error a (fl_label fl @ what @
        format_transport_runtime_error (fl_prefix fl) (classify_transport_error (fl_transport fl) e) e
          (fl_secrets fl)))"

definition retried :: "answer \<Rightarrow> s3_archiver \<Rightarrow> s3_call \<Rightarrow> string s3_act" where
  "retried answer a c =
     on_snd (execute_with_retry (sa_policy a) (classify_transport_error (fl_transport (sa_flavour a)))
       svc_sleep (svc_call answer c))"

definition abort_upload :: "answer \<Rightarrow> unit s3_act" where
  "abort_upload answer s =
     (let a = fst s in
      case sa_upload_id a of
        None \<Rightarrow> (Inr (), s)
      | Some u \<Rightarrow>
          on_snd (best_effort (svc_call answer (AbortMultipart (sa_bucket a) (sa_object_key a) u))) s)"

text \<open>The second half of \<open>open\<close>: a new key, an empty buffer, a new upload.\<close>

definition s3_start :: "answer \<Rightarrow> unit s3_act" where
  "s3_start answer s =
     (let a = fst s;
          a' = a\<lparr>sa_object_key := sa_key_prefix a @ sa_filename_base a @ ''_'' @ sw_clock (snd s),
                 sa_finalized := False, sa_parts := [], sa_part_number := 0, sa_buffer := Some []\<rparr>
      in act_bind (retried answer a' (CreateMultipart (sa_bucket a') (sa_object_key a')))
           (\<lambda>u. on_fst (act_modify (\<lambda>a. a\<lparr>sa_upload_id := Some u\<rparr>))) (a', snd s))"

definition s3_open :: "answer \<Rightarrow> unit s3_act" where
  "s3_open answer s =
     act_then
       (act_when (sa_upload_id (fst s) \<noteq> None \<and> \<not> sa_finalized (fst s)) (abort_upload answer))
       (s3_start answer) s"

definition upload_part :: "answer \<Rightarrow> bytes \<Rightarrow> unit s3_act" where
  "upload_part answer d s =
     (let a = fst s; n = Suc (sa_part_number a); a' = a\<lparr>sa_part_number := n\<rparr>
      in act_bind
           (retried answer a' (UploadPart (sa_bucket a) (sa_object_key a) (sa_upload_id a) n d))
           (\<lambda>etag. on_fst (act_modify (\<lambda>a. a\<lparr>sa_parts := sa_parts a @ [(n, etag)]\<rparr>)))
           (a', snd s))"

text \<open>\<open>try: ... except Exception as exc: self._abort_upload(); raise ...\<close>\<close>

definition or_abort :: "answer \<Rightarrow> string \<Rightarrow> 'a s3_act \<Rightarrow> 'a s3_act" where
  "or_abort answer what m =
     act_catch m (\<lambda>e. act_then (abort_upload answer) (\<lambda>s. act_raise (s3_failure (fst s) what e) s))"

definition s3_write_chunk :: "answer \<Rightarrow> bytes \<Rightarrow> unit s3_act" where
  "s3_write_chunk answer chunk s =
     (let a = fst s in
      case sa_buffer a of
        None \<Rightarrow> (Inl (s3_error a ''write_chunk() called before open()''), s)
      | Some b \<Rightarrow>
          if sa_finalized a then (Inl (s3_error a ''write_chunk() called after finalize()''), s)
          else if MIN_PART_SIZE \<le> length (b @ chunk)
          then or_abort answer '' upload_part failed; upload aborted: '' (upload_part answer (b @ chunk))
                 (a\<lparr>sa_buffer := Some []\<rparr>, snd s)
          else (Inr (), (a\<lparr>sa_buffer := Some (b @ chunk)\<rparr>, snd s)))"

definition s3_complete :: "answer \<Rightarrow> unit s3_act" where
  "s3_complete answer s =
     (let a = fst s in
      if sa_parts a = []
      then act_then (abort_upload answer)
        (act_catch (act_then (retried answer a (PutObject (sa_bucket a) (sa_object_key a) [])) (act_return ()))
          (\<lambda>e. act_raise (s3_failure a '' put_object failed for empty archive: '' e))) s
      else or_abort answer '' multipart upload failed; upload aborted: ''
        (act_then (retried answer a (CompleteMultipart (sa_bucket a) (sa_object_key a)
                     (sa_upload_id a) (sa_parts a))) (act_return ())) s)"

definition s3_finalize :: "answer \<Rightarrow> archive_result s3_act" where
  "s3_finalize answer s =
     (let a = fst s in
      case sa_buffer a of
        None \<Rightarrow> (Inl (s3_error a ''finalize() called before open()''), s)
      | Some b \<Rightarrow>
          if sa_finalized a
          then (Inl (s3_error a ''finalize() already called; call open() to start a new run''), s)
          else act_then
            (if b \<noteq> [] then or_abort answer '' upload_part failed; upload aborted: '' (upload_part answer b)
             else act_return ())
            (act_then (s3_complete answer)
              (act_then (on_fst (act_modify (\<lambda>a. a\<lparr>sa_finalized := True\<rparr>)))
                (act_return \<lparr>ar_skipped = False,
                   ar_location = Some (''s3://'' @ sa_bucket a @ ''/'' @ sa_object_key a)\<rparr>)))
            (a\<lparr>sa_buffer := Some []\<rparr>, snd s))"

text \<open>The compatible store's archiver runs the same cycle.\<close>

definition s3_compat_open :: "answer \<Rightarrow> unit s3_act" where
  "s3_compat_open = s3_open"

definition s3_compat_write_chunk :: "answer \<Rightarrow> bytes \<Rightarrow> unit s3_act" where
  "s3_compat_write_chunk = s3_write_chunk"

definition s3_compat_finalize :: "answer \<Rightarrow> archive_result s3_act" where
  "s3_compat_finalize = s3_finalize"

definition s3_compat_upload_part :: "answer \<Rightarrow> bytes \<Rightarrow> unit s3_act" where
  "s3_compat_upload_part = upload_part"

definition s3_compat_abort_upload :: "answer \<Rightarrow> unit s3_act" where
  "s3_compat_abort_upload = abort_upload"

section \<open>What an archive has uploaded\<close>

text \<open>A retried call that succeeds adds only copies of that call to the log, the last one answered.\<close>

lemma retried_Inr:
  assumes "retried answer a c s = (Inr r, s')"
  shows "fst s' = fst s" "\<exists>ext. sw_log (snd s') = sw_log (snd s) @ ext"
    "answered answer (sw_log (snd s')) c r"
proof -
  from assms have f: "fst s' = fst s" "execute_with_retry (sa_policy a)
      (classify_transport_error (fl_transport (sa_flavour a))) svc_sleep (svc_call answer c) (snd s)
      = (Inr r, snd s')"
    by (simp_all add: retried_def on_snd_Inr)
  obtain k w1 where k: "retry_rounds (sa_policy a)
      (classify_transport_error (fl_transport (sa_flavour a))) svc_sleep (svc_call answer c) k (snd s) = Some w1"
    "svc_call answer c w1 = (Inr r, snd s')"
    using execute_with_retry_Inr [OF f(2)] by blast
  show "fst s' = fst s" by fact
  show "\<exists>ext. sw_log (snd s') = sw_log (snd s) @ ext"
    using svc_rounds [OF k(1)] k(2) by (auto simp: svc_call_Inr)
  show "answered answer (sw_log (snd s')) c r"
    using k(2) unfolding answered_def svc_call_Inr by auto
qed

lemma or_abort_Inr [simp]: "or_abort answer what m s = (Inr x, s') \<longleftrightarrow> m s = (Inr x, s')"
  by (auto simp: or_abort_def act_catch_def act_then_def act_bind_def act_raise_def
      split: prod.splits sum.splits)

lemma abort_upload_keeps:
  "abort_upload answer s = (r, s') \<Longrightarrow> r = Inr () \<and> fst s' = fst s
     \<and> (\<exists>ext. sw_log (snd s') = sw_log (snd s) @ ext)"
  by (auto simp: abort_upload_def on_snd_def best_effort_def svc_call_def Let_def split: option.splits prod.splits)

text \<open>The parts \<open>ds\<close> of an upload, numbered from one, with the tags the store answered.\<close>

definition uploaded ::
    "answer \<Rightarrow> s3_call list \<Rightarrow> string \<Rightarrow> string \<Rightarrow> string option \<Rightarrow> bytes list \<Rightarrow> (nat \<times> string) list \<Rightarrow> bool"
  where
  "uploaded answer lg bucket key u ds parts \<longleftrightarrow>
     list_all2 (\<lambda>(n, d) (m, tag). m = n \<and> answered answer lg (UploadPart bucket key u n d) tag)
       (enumerate 1 ds) parts"

lemma uploaded_more: "uploaded answer lg b k u ds parts \<Longrightarrow> uploaded answer (lg @ ext) b k u ds parts"
  unfolding uploaded_def by (erule list_all2_mono) (auto intro: answered_more)

lemma uploaded_snoc:
  "uploaded answer lg b k u ds parts \<Longrightarrow> answered answer lg (UploadPart b k u (Suc (length ds)) d) tag
    \<Longrightarrow> uploaded answer lg b k u (ds @ [d]) (parts @ [(Suc (length ds), tag)])"
  unfolding uploaded_def by (simp add: enumerate_append_eq list_all2_appendI)

definition s3_cycle ::
    "answer \<Rightarrow> string \<Rightarrow> s3_archiver \<times> store \<Rightarrow> bytes list \<Rightarrow> bytes \<Rightarrow> bool" where
  "s3_cycle answer bucket s ds b \<longleftrightarrow> (let a = fst s in
     sa_bucket a = bucket \<and> sa_buffer a = Some b \<and> \<not> sa_finalized a
     \<and> sa_part_number a = length ds
     \<and> uploaded answer (sw_log (snd s)) bucket (sa_object_key a) (sa_upload_id a) ds (sa_parts a))"

definition s3_pend :: "answer \<Rightarrow> string \<Rightarrow> s3_archiver \<times> store \<Rightarrow> bytes \<Rightarrow> bool" where
  "s3_pend answer bucket s d \<longleftrightarrow>
     (\<exists>ds b. s3_cycle answer bucket s ds b \<and> d = concat ds @ b \<and> (\<forall>x \<in> set ds. MIN_PART_SIZE \<le> length x))"

definition s3_stored :: "answer \<Rightarrow> string \<Rightarrow> s3_archiver \<times> store \<Rightarrow> archive_result \<Rightarrow> bytes \<Rightarrow> bool" where
  "s3_stored answer bucket s r d \<longleftrightarrow>
     (\<exists>key. r = \<lparr>ar_skipped = False, ar_location = Some (''s3://'' @ bucket @ ''/'' @ key)\<rparr>
        \<and> (d = [] \<and> (\<exists>x. answered answer (sw_log (snd s)) (PutObject bucket key []) x)
           \<or> (\<exists>u ds parts x. ds \<noteq> [] \<and> concat ds = d
                \<and> (\<forall>y \<in> set (butlast ds). MIN_PART_SIZE \<le> length y)
                \<and> uploaded answer (sw_log (snd s)) bucket key u ds parts
                \<and> answered answer (sw_log (snd s)) (CompleteMultipart bucket key u parts) x)))"

lemma upload_part_cycle:
  assumes "upload_part answer d s = (Inr x, s')" "s3_cycle answer bucket s ds b"
  shows "s3_cycle answer bucket s' (ds @ [d]) b"
proof -
  obtain a w where s: "s = (a, w)" by (cases s)
  let ?n = "Suc (sa_part_number a)"
  let ?a = "a\<lparr>sa_part_number := ?n\<rparr>"
  let ?c = "UploadPart (sa_bucket a) (sa_object_key a) (sa_upload_id a) ?n d"
  obtain tag s1 where r: "retried answer ?a ?c (?a, w) = (Inr tag, s1)"
    "on_fst (act_modify (\<lambda>a. a\<lparr>sa_parts := sa_parts a @ [(?n, tag)]\<rparr>)) s1 = (Inr x, s')"
    using assms(1) by (auto simp: upload_part_def s Let_def act_bind_Inr)
  have c: "sa_bucket a = bucket" "sa_buffer a = Some b" "\<not> sa_finalized a" "sa_part_number a = length ds"
    "uploaded answer (sw_log w) bucket (sa_object_key a) (sa_upload_id a) ds (sa_parts a)"
    using assms(2) by (simp_all add: s3_cycle_def s Let_def)
  note r' = retried_Inr [OF r(1)]
  obtain ext where ext: "sw_log (snd s1) = sw_log w @ ext" using r'(2) by auto
  have "uploaded answer (sw_log (snd s1)) bucket (sa_object_key a) (sa_upload_id a) (ds @ [d])
      (sa_parts a @ [(?n, tag)])"
    using uploaded_snoc [OF uploaded_more [OF c(5)], of ext d tag] r'(3) ext c(1,4) by simp
  moreover have "fst s' = ?a\<lparr>sa_parts := sa_parts a @ [(?n, tag)]\<rparr>" "snd s' = snd s1"
    using r(2) r'(1) by (auto simp: on_fst_Inr act_modify_def)
  ultimately show ?thesis using c by (simp add: s3_cycle_def Let_def)
qed

lemma upload_part_key:
  assumes "upload_part answer d s = (Inr x, s')"
  shows "sa_object_key (fst s') = sa_object_key (fst s)"
proof -
  obtain t n c s1 where "retried answer ((fst s)\<lparr>sa_part_number := n\<rparr>) c ((fst s)\<lparr>sa_part_number := n\<rparr>, snd s) = (Inr t, s1)"
    "fst s' = (fst s1)\<lparr>sa_parts := sa_parts (fst s1) @ [(n, t)]\<rparr>"
    using assms by (auto simp: upload_part_def Let_def act_bind_Inr on_fst_Inr act_modify_def)
  then show ?thesis using retried_Inr(1) by fastforce
qed

lemma uploaded_length: "uploaded answer lg b k u ds parts \<Longrightarrow> length parts = length ds"
  by (auto simp: uploaded_def dest: list_all2_lengthD)

lemma s3_open_pend:
  assumes "sa_bucket (fst s) = bucket" "s3_open answer s = (Inr (), s')"
  shows "s3_pend answer bucket s' []"
proof -
  let ?pre = "act_when (sa_upload_id (fst s) \<noteq> None \<and> \<not> sa_finalized (fst s)) (abort_upload answer)"
  obtain s1 where s1: "?pre s = (Inr (), s1)" "fst s1 = fst s"
    by (metis (no_types, lifting) abort_upload_keeps act_return_def act_when_def prod.exhaust)
  define a' where "a' = (fst s)\<lparr>sa_object_key := sa_key_prefix (fst s) @ sa_filename_base (fst s) @ ''_'' @ sw_clock (snd s1),
       sa_finalized := False, sa_parts := [], sa_part_number := 0, sa_buffer := Some []\<rparr>"
  have "s3_start answer s1 = (Inr (), s')"
    using assms(2) s1 by (auto simp: s3_open_def act_then_Inr)
  then have "act_bind (retried answer a' (CreateMultipart (sa_bucket a') (sa_object_key a')))
       (\<lambda>u. on_fst (act_modify (\<lambda>a. a\<lparr>sa_upload_id := Some u\<rparr>))) (a', snd s1) = (Inr (), s')"
    unfolding s3_start_def Let_def a'_def s1(2) by simp
  then obtain u s2 where s2: "retried answer a' (CreateMultipart (sa_bucket a') (sa_object_key a')) (a', snd s1) = (Inr u, s2)"
    "on_fst (act_modify (\<lambda>a. a\<lparr>sa_upload_id := Some u\<rparr>)) s2 = (Inr (), s')"
    by (auto simp: act_bind_Inr)
  have "fst s' = a'\<lparr>sa_upload_id := Some u\<rparr>"
    using s2(2) retried_Inr(1) [OF s2(1)] by (auto simp: on_fst_Inr act_modify_def)
  then have "s3_cycle answer bucket s' [] []"
    using assms(1) by (simp add: s3_cycle_def a'_def uploaded_def)
  then show ?thesis unfolding s3_pend_def by force
qed

lemma s3_write_pend:
  assumes "s3_pend answer bucket s d" "s3_write_chunk answer c s = (Inr (), s')"
  shows "s3_pend answer bucket s' (d @ c)"
proof -
  from assms(1) obtain ds b where p: "s3_cycle answer bucket s ds b" "d = concat ds @ b"
    "\<forall>x \<in> set ds. MIN_PART_SIZE \<le> length x"
    unfolding s3_pend_def by blast
  have c: "sa_buffer (fst s) = Some b" "\<not> sa_finalized (fst s)"
    using p(1) by (simp_all add: s3_cycle_def Let_def)
  have cycle: "s3_cycle answer bucket ((fst s)\<lparr>sa_buffer := Some b'\<rparr>, snd s) ds b'" for b'
    using p(1) by (simp add: s3_cycle_def Let_def)
  show ?thesis
  proof (cases "MIN_PART_SIZE \<le> length (b @ c)")
    case True
    then have "upload_part answer (b @ c) ((fst s)\<lparr>sa_buffer := Some []\<rparr>, snd s) = (Inr (), s')"
      using assms(2) c by (simp add: s3_write_chunk_def Let_def)
    from upload_part_cycle [OF this cycle] True p(2,3) show ?thesis
      unfolding s3_pend_def by (intro exI [of _ "ds @ [b @ c]"] exI [of _ "[]"]) auto
  next
    case False
    then have "s' = ((fst s)\<lparr>sa_buffer := Some (b @ c)\<rparr>, snd s)"
      using assms(2) c by (simp add: s3_write_chunk_def Let_def)
    with cycle p(2,3) show ?thesis
      unfolding s3_pend_def by (intro exI [of _ ds] exI [of _ "b @ c"]) auto
  qed
qed

lemma act_ignore_Inr: "act_then m (act_return ()) s = (Inr (), s') \<longleftrightarrow> (\<exists>x. m s = (Inr x, s'))"
  by (auto simp: act_then_Inr act_return_def)

lemma s3_complete_stored:
  assumes "s3_complete answer s = (Inr (), s')" "s3_cycle answer bucket s ds b"
    "\<forall>x \<in> set (butlast ds). MIN_PART_SIZE \<le> length x"
  shows "fst s' = fst s
    \<and> s3_stored answer bucket s' \<lparr>ar_skipped = False,
         ar_location = Some (''s3://'' @ bucket @ ''/'' @ sa_object_key (fst s))\<rparr> (concat ds)"
proof (cases "sa_parts (fst s) = []")
  case True
  let ?c = "PutObject (sa_bucket (fst s)) (sa_object_key (fst s)) []"
  obtain r s1 where s1: "abort_upload answer s = (r, s1)" by (metis prod.exhaust)
  then have k: "r = Inr ()" "fst s1 = fst s" by (auto dest: abort_upload_keeps)
  then obtain x where x: "retried answer (fst s) ?c s1 = (Inr x, s')"
    using assms(1) True s1
    by (auto simp: s3_complete_def Let_def act_then_Inr act_catch_raise_Inr act_ignore_Inr act_return_def)
  have "ds = []" using assms(2) True uploaded_length by (fastforce simp: s3_cycle_def Let_def)
  moreover have "sa_bucket (fst s) = bucket" using assms(2) by (simp add: s3_cycle_def Let_def)
  ultimately show ?thesis
    using retried_Inr(1,3) [OF x] k(2) unfolding s3_stored_def by auto
next
  case False
  let ?c = "CompleteMultipart (sa_bucket (fst s)) (sa_object_key (fst s)) (sa_upload_id (fst s)) (sa_parts (fst s))"
  obtain x where x: "retried answer (fst s) ?c s = (Inr x, s')"
    using assms(1) False by (auto simp: s3_complete_def Let_def act_ignore_Inr)
  have c: "sa_bucket (fst s) = bucket"
    "uploaded answer (sw_log (snd s)) bucket (sa_object_key (fst s)) (sa_upload_id (fst s)) ds (sa_parts (fst s))"
    using assms(2) by (simp_all add: s3_cycle_def Let_def)
  have "ds \<noteq> []" using uploaded_length [OF c(2)] False by auto
  moreover obtain ext where ext: "sw_log (snd s') = sw_log (snd s) @ ext"
    using retried_Inr(2) [OF x] by blast
  have "uploaded answer (sw_log (snd s')) bucket (sa_object_key (fst s)) (sa_upload_id (fst s)) ds (sa_parts (fst s))"
    using uploaded_more [OF c(2), of ext] ext by simp
  moreover have "answered answer (sw_log (snd s'))
      (CompleteMultipart bucket (sa_object_key (fst s)) (sa_upload_id (fst s)) (sa_parts (fst s))) x"
    using retried_Inr(3) [OF x] c(1) by simp
  ultimately show ?thesis
    using retried_Inr(1) [OF x] assms(3) unfolding s3_stored_def by blast
qed

lemma s3_stored_cong:
  "s3_stored answer bucket s r d \<Longrightarrow> snd s' = snd s \<Longrightarrow> s3_stored answer bucket s' r d"
  by (simp add: s3_stored_def)

lemma s3_finalize_stored:
  assumes "s3_pend answer bucket s d" "s3_finalize answer s = (Inr r, s')"
  shows "s3_stored answer bucket s' r d"
proof -
  from assms(1) obtain ds b where p: "s3_cycle answer bucket s ds b" "d = concat ds @ b"
    "\<forall>x \<in> set ds. MIN_PART_SIZE \<le> length x"
    unfolding s3_pend_def by blast
  let ?s0 = "((fst s)\<lparr>sa_buffer := Some []\<rparr>, snd s)"
  have c: "sa_buffer (fst s) = Some b" "\<not> sa_finalized (fst s)" "sa_bucket (fst s) = bucket"
    "s3_cycle answer bucket ?s0 ds []"
    using p(1) by (simp_all add: s3_cycle_def Let_def)
  obtain s1 s2 where s1: "(if b \<noteq> [] then upload_part answer b ?s0 else (Inr (), ?s0)) = (Inr (), s1)"
    "s3_complete answer s1 = (Inr (), s2)" "snd s' = snd s2"
    "r = \<lparr>ar_skipped = False,
         ar_location = Some (''s3://'' @ bucket @ ''/'' @ sa_object_key (fst s))\<rparr>"
    using assms(2) c(1-3)
    by (auto simp: s3_finalize_def Let_def act_then_Inr act_return_def on_fst_Inr act_modify_def
        split: if_splits)
  let ?ds = "if b = [] then ds else ds @ [b]"
  have ds: "s3_cycle answer bucket s1 ?ds []" "sa_object_key (fst s1) = sa_object_key (fst s)"
    using s1(1) c(4) upload_part_cycle upload_part_key by (auto split: if_splits)
  have "\<forall>x \<in> set (butlast ?ds). MIN_PART_SIZE \<le> length x"
    using p(3) by (auto dest: in_set_butlastD)
  from s3_complete_stored [OF s1(2) ds(1) this] ds(2) s1(3,4) p(2) show ?thesis
    by (auto intro: s3_stored_cong split: if_splits)
qed

interpretation s3_sink: sink "\<lambda>s. sa_bucket (fst s) = bucket" "s3_open answer" "s3_write_chunk answer"
    "s3_finalize answer" "s3_pend answer bucket" "s3_stored answer bucket" for answer bucket
  by unfold_locales (auto intro: s3_open_pend s3_write_pend s3_finalize_stored)

text \<open>
  C20: A finished S3 archive is the payload.  When \<open>open\<close>, a sequence of \<open>write_chunk\<close> calls and
  \<open>finalize\<close> of an S3 archiver (either flavour) succeeded, the store has answered either a
  complete call for an upload whose parts are numbered from one, all but the last at least
  5 MiB, which concatenate to exactly the chunks, with the tags the store gave for those very
  parts; or, for an empty payload, a put of the empty object.  The location names that bucket
  and key.  Failed attempts of any call in between change nothing of this.
\<close>

theorem s3_archive_complete:
  assumes "s3_open answer s = (Inr (), s1)" "put_all (s3_write_chunk answer) cs s1 = (Inr (), s2)"
    "s3_finalize answer s2 = (Inr r, s3)"
  shows "s3_stored answer (sa_bucket (fst s)) s3 r (concat cs)"
  using s3_sink.cycle_stores [OF refl assms] .

definition sample_answer :: answer where
  "sample_answer l =
     (if length l = 2 then Inl (mark_transport_error ''remote_5xx'' ''HTTP 503'') else Inr ''id'')"

definition sample_s3 :: "s3_archiver \<times> store" where
  "sample_s3 =
     (s3_fresh \<lparr>fl_class = ''S3ArchiverError'', fl_label = ''S3'', fl_prefix = ''s3_archiver'',
        fl_transport = ''s3'', fl_secrets = []\<rparr> default_tls_policy ''b'' ''feeds/'' ''feed'',
      \<lparr>sw_log = [], sw_sleeps = [], sw_clock = ''20250101_000000''\<rparr>)"

theorem s3_archive_complete_witness:
  "\<exists>s1 s2 r s3. s3_open sample_answer sample_s3 = (Inr (), s1)
    \<and> put_all (s3_write_chunk sample_answer) [''ab'', ''c''] s1 = (Inr (), s2)
    \<and> s3_finalize sample_answer s2 = (Inr r, s3)
    \<and> s3_stored sample_answer (sa_bucket (fst sample_s3)) s3 r (concat [''ab'', ''c''])"
proof -
  note defs = act_basic_defs retried_def execute_with_retry_def svc_call_def Let_def
    sample_answer_def sample_s3_def s3_fresh_def retry_loop.simps is_retryable_category_def
    classify_transport_error_def mark_transport_error_def pause_def default_tls_policy_def
    strip_def lstrip_def is_space_def MIN_PART_SIZE_def
  obtain s1 where s1: "s3_open sample_answer sample_s3 = (Inr (), s1)"
    by (simp add: s3_open_def s3_start_def defs)
  obtain s2 where s2: "put_all (s3_write_chunk sample_answer) [''ab'', ''c''] s1 = (Inr (), s2)"
    using s1 by (auto simp: s3_open_def s3_start_def s3_write_chunk_def defs)
  obtain r s3 where s3: "s3_finalize sample_answer s2 = (Inr r, s3)"
    using s1 s2
    by (auto simp: s3_open_def s3_start_def s3_write_chunk_def s3_finalize_def s3_complete_def
        upload_part_def or_abort_def defs)
  show ?thesis using s1 s2 s3 s3_archive_complete [OF s1 s2 s3] by blast
qed

end
