(* ===== verification/PFP_Files_Spec.thy ===== *)
theory PFP_Files_Spec
  imports PFP_Files
begin

text \<open>
  What the filesystem code promises: a resolved target lies under its base, an atomic write is
  all or nothing at its target, and the local archiver never shows part of an archive under its
  final name.
\<close>

section \<open>The files an action touches\<close>

named_theorems touches_intros \<open>actions and the files they touch\<close>

definition touches :: "string set \<Rightarrow> (os, 'a) act \<Rightarrow> bool" where
  "touches S m \<longleftrightarrow> (\<forall>w q. q \<notin> S \<longrightarrow> os_files (snd (m w)) q = os_files w q)"

lemma touches_D: "touches S m \<Longrightarrow> m w = (r, w') \<Longrightarrow> q \<notin> S \<Longrightarrow> os_files w' q = os_files w q"
  unfolding touches_def by (metis snd_conv)

lemma touches_bind [touches_intros]:
  assumes "touches S m" "\<And>x. touches S (f x)"
  shows "touches S (act_bind m f)"
  unfolding touches_def
proof (intro allI impI)
  fix w q assume q: "q \<notin> S"
  obtain r w1 where m: "m w = (r, w1)" by (metis prod.exhaust)
  then have "os_files w1 q = os_files w q" using assms(1) q touches_D by blast
  then show "os_files (snd (act_bind m f w)) q = os_files w q"
    using assms(2) q m by (cases r) (simp_all add: act_bind_def touches_def)
qed

lemma touches_catch [touches_intros]:
  assumes "touches S m" "\<And>e. touches S (h e)"
  shows "touches S (act_catch m h)"
  unfolding touches_def
proof (intro allI impI)
  fix w q assume q: "q \<notin> S"
  obtain r w1 where m: "m w = (r, w1)" by (metis prod.exhaust)
  then have "os_files w1 q = os_files w q" using assms(1) q touches_D by blast
  then show "os_files (snd (act_catch m h w)) q = os_files w q"
    using assms(2) q m by (cases r) (simp_all add: act_catch_def touches_def)
qed

lemma touches_basic [touches_intros]:
  "touches S (act_return x)" "touches S (act_raise e)" "touches S (act_get f)"
  by (simp_all add: touches_def act_basic_defs)

lemma touches_then [touches_intros]: "touches S m \<Longrightarrow> touches S n \<Longrightarrow> touches S (act_then m n)"
  unfolding act_then_def by (intro touches_intros)

lemma touches_if [touches_intros]: "touches S m \<Longrightarrow> touches S n \<Longrightarrow> touches S (if b then m else n)"
  by simp

lemma tick_files [simp]: "os_files (tick w) = os_files w"
  by (simp add: tick_def)

lemma syscall_files:
  "(\<And>w q. q \<notin> S \<Longrightarrow> os_files (f w) q = os_files w q) \<Longrightarrow> touches S (syscall f)"
  by (simp add: touches_def syscall_def split: option.splits)

lemma touches_chmod [touches_intros]: "touches S (os_chmod p mode)"
  unfolding os_chmod_def by (rule syscall_files) simp

lemma touches_sync [touches_intros]: "touches S os_sync"
  unfolding os_sync_def by (rule syscall_files) simp

lemma touches_unlink [touches_intros]: "p \<in> S \<Longrightarrow> touches S (os_unlink p)"
  unfolding os_unlink_def by (rule syscall_files) auto

lemma append_file_files: "os_files (append_file p d w) =
    (os_files w)(p := Some ((case os_files w p of None \<Rightarrow> [] | Some c \<Rightarrow> c) @ d))"
  by (simp add: append_file_def)

lemma touches_write [touches_intros]: "p \<in> S \<Longrightarrow> touches S (os_write p d)"
  unfolding touches_def os_write_def
  by (auto simp: append_file_files split: option.splits)

lemma touches_replace [touches_intros]:
  assumes "p \<in> S" "q \<in> S"
  shows "touches S (os_replace p q)"
proof -
  have "touches S (syscall (\<lambda>w. w\<lparr>os_files := (os_files w)(p := None, q := Some c)\<rparr>))" for c
    by (rule syscall_files) (use assms in auto)
  then show ?thesis by (auto simp: touches_def os_replace_def split: option.split)
qed

lemma touches_apply_permissions [touches_intros]: "touches S (apply_permissions p mode)"
  unfolding apply_permissions_def by (intro touches_intros)

lemma touches_ensure_directory [touches_intros]: "touches S (ensure_directory d mode)"
  unfolding ensure_directory_def by (intro touches_intros)

lemma touches_refuse [touches_intros]: "touches S (refuse_existing ov p)"
  unfolding refuse_existing_def by (intro touches_intros)

lemma touches_write_payload [touches_intros]: "p \<in> S \<Longrightarrow> touches S (write_payload_chunks p g)"
  by (induction p g rule: write_payload_chunks.induct) (auto intro: touches_intros)

lemma touches_cleanup [touches_intros]: "p \<in> S \<Longrightarrow> touches S (cleanup_temp_file p)"
  unfolding cleanup_temp_file_def
  by (intro touches_bind touches_basic) (auto split: option.split intro!: touches_intros)

lemma touches_failure [touches_intros]:
  "(\<And>p. temp = Some p \<Longrightarrow> p \<in> S) \<Longrightarrow> touches S (atomic_failure temp e)"
  unfolding atomic_failure_def
  by (intro touches_bind) (auto split: option.split intro!: touches_intros)

section \<open>Temporary names\<close>

lemma path_name_join:
  assumes "CHR 0x2F \<notin> set m"
  shows "path_name (path_join d m) = m"
proof -
  have "path_join d m = d @ CHR 0x2F # m"
    using assms by (cases m) (auto simp: path_join_def split: char.splits bool.splits)
  then show ?thesis using assms by (simp add: path_name_def takeWhile_append)
qed

lemma path_name_no_slash: "CHR 0x2F \<notin> set (path_name p)"
  using set_takeWhileD [of "CHR 0x2F" "\<lambda>c. c \<noteq> CHR 0x2F" "rev p"] by (auto simp: path_name_def)

lemma token_no_slash: "CHR 0x2F \<notin> set (token_str t)"
proof -
  have "CHR 0x2F \<notin> set token_chars" by code_simp
  moreover have "token_chars ! (i mod length token_chars) \<in> set token_chars" for i
    by (rule nth_mem) (simp add: token_chars_def)
  ultimately show ?thesis by (auto simp: token_str_def)
qed

lemma temp_name_differs:
  assumes "CHR 0x2F \<notin> set n"
  shows "path_name (temp_name d n t) \<noteq> n"
proof -
  have "path_name (temp_name d n t) = n @ ''.'' @ token_str t @ ''.tmp''"
    unfolding temp_name_def using assms token_no_slash by (intro path_name_join) auto
  then show ?thesis by simp
qed

lemma os_mktemp_Inr:
  assumes "os_mktemp d n w = (Inr tmp, w')"
  shows "os_files w tmp = None" "os_files w' = (os_files w)(tmp := Some [])"
    "CHR 0x2F \<notin> set n \<Longrightarrow> path_name tmp \<noteq> n"
  using assms temp_name_differs
  by (auto simp: os_mktemp_def syscall_def append_file_files find_Some_iff
      split: option.splits prod.splits sum.splits)

lemma os_mktemp_Inl: "os_mktemp d n w = (Inl e, w') \<Longrightarrow> os_files w' = os_files w"
  by (auto simp: os_mktemp_def syscall_def split: option.splits prod.splits sum.splits)

section \<open>Atomic writes\<close>

lemma os_write_Inr:
  "os_write p d w = (Inr x, w') \<Longrightarrow> os_files w p = Some c \<Longrightarrow> os_files w' p = Some (c @ d)"
  by (auto simp: os_write_def append_file_files split: option.splits prod.splits)

lemma write_payload_Inr:
  assumes "write_payload_chunks p g w = (Inr x, w')" "os_files w p = Some c"
  shows "os_files w' p = Some (c @ concat (map the (gen_items g)))"
    "gen_end g = None" "None \<notin> set (gen_items g)"
proof -
  have "os_files w' p = Some (c @ concat (map the (gen_items g))) \<and> gen_end g = None
      \<and> None \<notin> set (gen_items g)"
    using assms
  proof (induction p g arbitrary: w c x rule: write_payload_chunks.induct)
    case (4 p d g)
    then obtain y w1 where "os_write p d w = (Inr y, w1)" "write_payload_chunks p g w1 = (Inr x, w')"
      by (auto simp: act_then_Inr)
    then show ?case using "4.IH" [of w1] "4.prems"(2) os_write_Inr by fastforce
  qed (auto simp: act_basic_defs)
  then show "os_files w' p = Some (c @ concat (map the (gen_items g)))"
    "gen_end g = None" "None \<notin> set (gen_items g)" by auto
qed

lemma atomic_failure_raises: "fst (atomic_failure temp e w) \<noteq> Inr x"
  by (auto simp: atomic_failure_def act_basic_defs split: prod.splits sum.splits option.splits)

lemma atomic_failure_Inl: "atomic_failure temp e w = (r, w') \<Longrightarrow> \<exists>e'. r = Inl e'"
  by (metis atomic_failure_raises fst_conv sum.exhaust)

lemma refuse_existing_Inr:
  "refuse_existing ov p w = (Inr x, w') \<longleftrightarrow> w' = w \<and> (ov \<or> os_files w p = None)"
  by (auto simp: refuse_existing_def act_basic_defs)

lemma os_replace_cases:
  assumes "os_replace p q w = (r, w')"
  obtains e where "r = Inl e" "os_files w' = os_files w"
  | c where "r = Inr ()" "os_files w p = Some c" "os_files w' = (os_files w)(p := None, q := Some c)"
  using assms by (auto simp: os_replace_def syscall_def split: option.splits prod.splits)

definition before_replace ::
    "string \<Rightarrow> string \<Rightarrow> bytes option gen \<Rightarrow> bool \<Rightarrow> (os, unit) act" where
  "before_replace temp final chunks ov =
     act_then (write_payload_chunks temp chunks)
       (act_then os_sync (act_then os_sync
         (act_then (apply_permissions temp SAFE_FILE_MODE) (refuse_existing ov final))))"

lemma before_replace_touches: "touches {temp} (before_replace temp final chunks ov)"
  unfolding before_replace_def by (intro touches_intros) auto

lemma before_replace_Inr:
  assumes "before_replace temp final chunks ov w = (Inr x, w')" "os_files w temp = Some []"
  shows "os_files w' temp = Some (concat (map the (gen_items chunks)))"
    "gen_end chunks = None" "None \<notin> set (gen_items chunks)" "\<not> ov \<Longrightarrow> os_files w' final = None"
proof -
  let ?rest = "act_then os_sync (act_then os_sync
         (act_then (apply_permissions temp SAFE_FILE_MODE) (refuse_existing ov final)))"
  have keep: "touches {} ?rest" by (intro touches_intros)
  obtain y w1 where w1: "write_payload_chunks temp chunks w = (Inr y, w1)" "?rest w1 = (Inr x, w')"
    using assms(1) by (auto simp: before_replace_def act_then_Inr)
  then have "os_files w' = os_files w1" using touches_D [OF keep] by (intro ext) blast
  with write_payload_Inr [OF w1(1) assms(2)]
  show "os_files w' temp = Some (concat (map the (gen_items chunks)))"
    "gen_end chunks = None" "None \<notin> set (gen_items chunks)" by auto
  assume "\<not> ov"
  with w1(2) show "os_files w' final = None"
    by (auto simp: act_then_Inr refuse_existing_Inr)
qed

text \<open>What the guarded part of the write leaves behind.\<close>

lemma atomic_body:
  assumes body: "act_catch (act_then (before_replace temp final chunks ov)
      (act_then (os_replace temp final)
        (act_then (apply_permissions final SAFE_FILE_MODE) (act_return final))))
      (atomic_failure (Some temp)) w = (r, w')"
    and fresh: "os_files w temp = Some []" "temp \<noteq> final"
  shows "os_files w' final = os_files w final \<and> (\<exists>e. r = Inl e)
    \<or> os_files w' final = Some (concat (map the (gen_items chunks))) \<and> gen_end chunks = None
      \<and> None \<notin> set (gen_items chunks) \<and> (ov \<or> os_files w final = None)
      \<and> (r = Inr final \<or> (\<exists>e. r = Inl e))"
proof -
  have fail: "\<exists>e'. r = Inl e'" "os_files w' final = os_files w1 final"
    if "atomic_failure (Some temp) e w1 = (r, w')" for e w1
  proof -
    show "\<exists>e'. r = Inl e'" using that by (rule atomic_failure_Inl)
    show "os_files w' final = os_files w1 final"
      using touches_D [OF touches_failure [of "Some temp" "{temp}"] that] fresh(2) by auto
  qed
  obtain r1 w1 where w1: "before_replace temp final chunks ov w = (r1, w1)" by (metis prod.exhaust)
  have same: "os_files w1 final = os_files w final"
    using touches_D [OF before_replace_touches w1] fresh(2) by auto
  show ?thesis
  proof (cases r1)
    case (Inl e)
    then have "atomic_failure (Some temp) e w1 = (r, w')"
      using body w1 by (simp add: act_catch_def act_then_def act_bind_def)
    then show ?thesis using fail same by metis
  next
    case (Inr x)
    note payload = before_replace_Inr [OF w1 [unfolded Inr] fresh(1)]
    obtain r2 w2 where w2: "os_replace temp final w1 = (r2, w2)" by (metis prod.exhaust)
    from w2 show ?thesis
    proof (cases rule: os_replace_cases)
      case (1 e)
      then have "atomic_failure (Some temp) e w2 = (r, w')"
        using body w1 w2 Inr by (simp add: act_catch_def act_then_def act_bind_def)
      then show ?thesis using fail same 1(2) by metis
    next
      case (2 c)
      then have new: "os_files w2 final = Some (concat (map the (gen_items chunks)))"
        using payload(1) by simp
      obtain r3 w3 where w3: "apply_permissions final SAFE_FILE_MODE w2 = (r3, w3)"
        by (metis prod.exhaust)
      then have "os_files w3 final = os_files w2 final"
        using touches_D [OF touches_apply_permissions [of "{}"]] by blast
      moreover have "r = Inr final \<and> w' = w3 \<or> (\<exists>e. atomic_failure (Some temp) e w3 = (r, w'))"
        using body w1 w2 w3 Inr 2(1)
        by (cases r3) (auto simp: act_catch_def act_then_def act_bind_def act_return_def)
      ultimately show ?thesis using new payload same fail by metis
    qed
  qed
qed

text \<open>
  An atomic write is all or nothing.  Whatever system call fails at whatever point, and
  whatever the chunk stream does (it may raise, or yield something that is not bytes), after
  \<open>atomic_write_bytes\<close> the target either holds what it held before, and the call has raised, or
  it holds the whole payload; it returns only in the second case.  Without \<open>overwrite\<close> an
  existing target is never changed.  Apart from the target only a temporary file that did not
  exist before, under another name, can differ.
\<close>

theorem atomic_write_all_or_nothing:
  assumes "atomic_write_bytes parent name chunks overwrite w = (r, w')" "CHR 0x2F \<notin> set name"
  shows "(os_files w' (path_join parent name) = os_files w (path_join parent name) \<and> (\<exists>e. r = Inl e)
      \<or> os_files w' (path_join parent name) = Some (concat (map the (gen_items chunks)))
        \<and> gen_end chunks = None \<and> None \<notin> set (gen_items chunks)
        \<and> (overwrite \<or> os_files w (path_join parent name) = None)
        \<and> (r = Inr (path_join parent name) \<or> (\<exists>e. r = Inl e)))
    \<and> (\<exists>temp. path_name temp \<noteq> name
        \<and> (\<forall>q. q \<noteq> path_join parent name \<and> (q \<noteq> temp \<or> os_files w temp \<noteq> None)
             \<longrightarrow> os_files w' q = os_files w q))"
    (is "?outcome \<and> ?others")
proof -
  let ?f = "path_join parent name"
  have f_name: "path_name ?f = name" using assms(2) by (rule path_name_join)
  let ?pre = "act_then (ensure_directory parent SAFE_DIRECTORY_MODE) (refuse_existing overwrite ?f)"
  let ?body = "\<lambda>temp. act_catch (act_then (before_replace temp ?f chunks overwrite)
      (act_then (os_replace temp ?f)
        (act_then (apply_permissions ?f SAFE_FILE_MODE) (act_return ?f)))) (atomic_failure (Some temp))"
  let ?main = "\<lambda>w. case os_mktemp parent name w of (Inl e, w') \<Rightarrow> atomic_failure None e w'
     | (Inr temp, w') \<Rightarrow> ?body temp w'"
  have run: "act_then ?pre ?main w = (r, w')"
    using assms(1) unfolding atomic_write_bytes_def Let_def before_replace_def act_then_assoc .
  have body_touches: "touches {temp, ?f} (?body temp)" for temp
    by (intro touches_intros) (auto simp: before_replace_def intro!: touches_intros)
  have pre_touches: "touches {} ?pre" by (intro touches_intros)
  obtain r0 w0 where w0: "?pre w = (r0, w0)" by (metis prod.exhaust)
  have same0: "os_files w0 = os_files w" using touches_D [OF pre_touches w0] by (intro ext) blast
  obtain tn where tn: "path_name tn \<noteq> name" by (metis path_name_join append_Nil2 assms(2) list.distinct(1)
      path_name_no_slash self_append_conv2 temp_name_differs)
  show ?thesis
  proof (cases r0)
    case (Inl e)
    then have "r = Inl e" "w' = w0" using run w0 by (simp_all add: act_then_def act_bind_def)
    then show ?thesis using same0 tn by auto
  next
    case (Inr x)
    obtain r1 w1 where w1: "os_mktemp parent name w0 = (r1, w1)" by (metis prod.exhaust)
    show ?thesis
    proof (cases r1)
      case (Inl e)
      then have res: "atomic_failure None e w1 = (r, w')"
        using run w0 w1 \<open>r0 = Inr x\<close> by (simp add: act_then_def act_bind_def)
      have "os_files w' = os_files w1"
        using touches_D [OF touches_failure res, of "{}"] by (intro ext) auto
      moreover have "os_files w1 = os_files w0" using os_mktemp_Inl w1 Inl by metis
      moreover have "\<exists>e. r = Inl e" using res by (rule atomic_failure_Inl)
      ultimately show ?thesis using same0 tn by auto
    next
      case (Inr temp)
      then have res: "?body temp w1 = (r, w')"
        using run w0 w1 \<open>r0 = Inr x\<close> by (simp add: act_then_def act_bind_def)
      note temp = os_mktemp_Inr [OF w1 [unfolded Inr]]
      have other: "temp \<noteq> ?f" using temp(3) assms(2) f_name by auto
      have "?outcome"
        using atomic_body [OF res _ other] temp(2) same0 other by simp
      moreover have "os_files w' q = os_files w q" if "q \<noteq> ?f" "q \<noteq> temp" for q
        using touches_D [OF body_touches res, of q] that temp(2) same0 by simp
      ultimately show ?thesis using temp(1,3) assms(2) same0 by (metis)
    qed
  qed
qed

definition sample_os :: os where
  "sample_os = \<lparr>os_files = (\<lambda>p. if p = ''/d/f'' then Some ''old'' else None), os_modes = (\<lambda>_. None),
     os_faults = [None, None, None, None, Some (err [''OSError''] ''disk full'', 1)],
     os_tokens = [[0, 1], [2, 3]], os_clock = ''20250101_000000'', os_nt = False\<rparr>"

theorem atomic_write_all_or_nothing_witness:
  "let (r, w') = atomic_write_bytes ''/d'' ''f'' (gen_of [Some ''ab'', Some ''cd''] None) True sample_os in
   (os_files w' (path_join ''/d'' ''f'') = os_files sample_os (path_join ''/d'' ''f'') \<and> (\<exists>e. r = Inl e)
      \<or> os_files w' (path_join ''/d'' ''f'') = Some (concat (map the (gen_items (gen_of [Some ''ab'', Some ''cd''] None))))
        \<and> gen_end (gen_of [Some ''ab'', Some ''cd''] None) = None
        \<and> None \<notin> set (gen_items (gen_of [Some ''ab'', Some ''cd''] None))
        \<and> (True \<or> os_files sample_os (path_join ''/d'' ''f'') = None)
        \<and> (r = Inr (path_join ''/d'' ''f'') \<or> (\<exists>e. r = Inl e)))
    \<and> (\<exists>temp. path_name temp \<noteq> ''f''
        \<and> (\<forall>q. q \<noteq> path_join ''/d'' ''f'' \<and> (q \<noteq> temp \<or> os_files sample_os temp \<noteq> None)
             \<longrightarrow> os_files w' q = os_files sample_os q))"
proof -
  obtain r w' where run: "atomic_write_bytes ''/d'' ''f'' (gen_of [Some ''ab'', Some ''cd''] None) True sample_os
      = (r, w')"
    by (metis prod.exhaust)
  from atomic_write_all_or_nothing [OF run] show ?thesis
    unfolding run Let_def prod.case by simp
qed

section \<open>Safe targets\<close>

lemma common_parts_prefix: "\<exists>r. ys = common_parts xs ys @ r"
proof (induction xs ys rule: common_parts.induct)
  case (1 x xs y ys)
  then show ?case by (cases "x = y") auto
qed auto

lemma common_parts_set: "set (common_parts xs ys) \<subseteq> set xs"
  by (induction xs ys rule: common_parts.induct) auto

lemma split_on_parts: "x \<in> set (split_on c s) \<Longrightarrow> c \<notin> set x"
  by (induction s arbitrary: x) (auto split: list.splits if_splits)

lemma path_parts_part: "x \<in> set (path_parts p) \<Longrightarrow> CHR 0x2F \<notin> set x \<and> x \<noteq> [] \<and> x \<noteq> ''.''"
  using split_on_parts by (auto simp: path_parts_def)

lemma path_parts_joined:
  assumes "\<forall>x \<in> set xs. CHR 0x2F \<notin> set x \<and> x \<noteq> [] \<and> x \<noteq> ''.''"
  shows "path_parts (CHR 0x2F # join ''/'' xs) = xs"
proof (cases "xs = []")
  case False
  then have "split_on CHR 0x2F (join ''/'' xs) = xs" using assms by (intro split_join) auto
  then show ?thesis using assms by (auto simp: path_parts_def intro: filter_True)
qed (simp add: path_parts_def)

text \<open>
  C19: A resolved target never leaves its base directory.  Whatever the requested path is (dots,
  double dots, symbolic links: all in \<open>resolve\<close>), a path that \<open>resolve_safe_target_path\<close> accepts
  has the components of the resolved base as its first components, and absolute or blank
  requests are refused.
\<close>

theorem safe_target_under_base:
  assumes "resolve_safe_target_path resolve base target = Inr p"
  shows "(\<exists>rest. path_parts p = path_parts (resolve base) @ rest)
    \<and> (\<exists>t. target = PyStr t \<and> strip t \<noteq> [] \<and> hd (strip t) \<noteq> CHR 0x2F
        \<and> p = resolve (path_join (resolve base) (strip t)))"
proof -
  from assms obtain t where t: "target = PyStr t" "strip t \<noteq> []" "hd (strip t) \<noteq> CHR 0x2F"
    "p = resolve (path_join (resolve base) (strip t))" "commonpath (resolve base) p = resolve base"
    by (auto simp: resolve_safe_target_path_def Let_def split: pyval.splits if_splits)
  let ?c = "common_parts (path_parts (resolve base)) (path_parts p)"
  have "path_parts (resolve base) = path_parts (commonpath (resolve base) p)" using t(5) by simp
  also have "\<dots> = ?c"
    unfolding commonpath_def using common_parts_set path_parts_part by (intro path_parts_joined) blast
  finally show ?thesis using t common_parts_prefix [of "path_parts p"] by metis
qed

theorem safe_target_under_base_witness:
  "(\<exists>rest. path_parts ''/base/a/b'' = path_parts (id ''/base'') @ rest)
    \<and> (\<exists>t. PyStr '' a/b '' = PyStr t \<and> strip t \<noteq> [] \<and> hd (strip t) \<noteq> CHR 0x2F
        \<and> ''/base/a/b'' = id (path_join (id ''/base'') (strip t)))"
  by (rule safe_target_under_base) (code_simp)

section \<open>The local archiver\<close>

text \<open>
  The archiver in the middle of a cycle that began with the files \<open>fs\<close>: its temporary file was
  not there before, every other path is as it was, and \<open>d\<close> is what the temporary file holds.
\<close>

definition la_cycle ::
    "(string \<Rightarrow> bytes option) \<Rightarrow> string \<Rightarrow> string \<Rightarrow> local_archiver \<times> os \<Rightarrow> bytes \<Rightarrow> bool" where
  "la_cycle fs tmp final s d \<longleftrightarrow> fs tmp = None \<and> tmp \<noteq> final
     \<and> la_tmp_path (fst s) = Some tmp \<and> la_tmp_handle (fst s) = Some tmp
     \<and> la_final_path (fst s) = Some final \<and> \<not> la_finalized (fst s)
     \<and> os_files (snd s) = fs(tmp := Some d)"

lemma la_open_cycle:
  assumes "la_open s = (Inr (), s')"
  shows "\<exists>tmp. la_cycle (os_files (snd s)) tmp
    (path_join (la_output_dir (fst s)) (la_filename_base (fst s) @ ''_'' @ os_clock (snd s))) s' []"
proof -
  let ?final = "path_join (la_output_dir (fst s)) (la_filename_base (fst s) @ ''_'' @ os_clock (snd s))"
  from assms obtain tmp w' where t: "os_mktemp (la_output_dir (fst s)) (path_name ?final) (snd s) = (Inr tmp, w')"
    "s' = ((fst s)\<lparr>la_final_path := Some ?final, la_finalized := False, la_tmp_path := Some tmp,
             la_tmp_handle := Some tmp\<rparr>, w')"
    by (auto simp: la_open_def Let_def split: prod.splits sum.splits)
  have "tmp \<noteq> ?final" using os_mktemp_Inr(3) [OF t(1)] path_name_no_slash by metis
  then show ?thesis
    using os_mktemp_Inr(1,2) [OF t(1)] t(2) by (auto simp: la_cycle_def)
qed

lemma la_write_cycle:
  assumes "la_cycle fs tmp final s d" "la_write_chunk c s = (r, s')"
  shows "\<exists>d'. la_cycle fs tmp final s' d' \<and> (r = Inr () \<longrightarrow> d' = d @ c)"
  using assms
  by (auto simp: la_write_chunk_def la_cycle_def on_snd_def os_write_def append_file_files
      split: prod.splits option.splits)

lemma la_write_all_cycle:
  assumes "la_cycle fs tmp final s d" "put_all la_write_chunk cs s = (r, s')"
  shows "\<exists>d'. la_cycle fs tmp final s' d' \<and> (r = Inr () \<longrightarrow> d' = d @ concat cs)"
  using assms
proof (induction cs arbitrary: s d)
  case Nil
  then show ?case by (auto simp: act_return_def)
next
  case (Cons c cs)
  obtain r1 s1 where s1: "la_write_chunk c s = (r1, s1)" by (metis prod.exhaust)
  obtain d1 where d1: "la_cycle fs tmp final s1 d1" "r1 = Inr () \<longrightarrow> d1 = d @ c"
    using la_write_cycle [OF Cons.prems(1) s1] by blast
  show ?case
  proof (cases r1)
    case (Inl e)
    then have "r = Inl e \<and> s' = s1" using Cons.prems(2) s1 by (simp add: act_then_def act_bind_def)
    then show ?thesis using d1(1) by auto
  next
    case (Inr u)
    then have "put_all la_write_chunk cs s1 = (r, s')"
      using Cons.prems(2) s1 by (simp add: act_then_def act_bind_def)
    from Cons.IH [OF d1(1) this] show ?thesis using d1(2) Inr by auto
  qed
qed

lemma on_snd_files: "on_snd m s = (r, s') \<Longrightarrow> m (snd s) = (r, snd s') \<and> fst s' = fst s"
  by (auto simp: on_snd_def split: prod.splits)

definition keeps_files :: "'a local_act \<Rightarrow> bool" where
  "keeps_files m \<longleftrightarrow> (\<forall>s. os_files (snd (snd (m s))) = os_files (snd s))"

lemma keeps_files_then: "keeps_files m \<Longrightarrow> keeps_files n \<Longrightarrow> keeps_files (act_then m n)"
  unfolding keeps_files_def act_then_def act_bind_def
  by (metis (mono_tags, lifting) old.sum.simps(5) old.sum.simps(6) prod.case_eq_if snd_conv sum.exhaust_sel)

lemma keeps_files_on_snd: "touches {} m \<Longrightarrow> keeps_files (on_snd m)"
  by (auto simp: keeps_files_def on_snd_def touches_def split: prod.splits) (metis snd_conv ext)

lemma keeps_files_on_fst: "keeps_files (on_fst m)"
  by (auto simp: keeps_files_def on_fst_def split: prod.splits)

lemma keeps_files_when: "keeps_files m \<Longrightarrow> keeps_files (act_when b m)"
  by (simp add: act_when_def keeps_files_def act_return_def)

lemma keeps_files_D: "keeps_files m \<Longrightarrow> m s = (r, s') \<Longrightarrow> os_files (snd s') = os_files (snd s)"
  unfolding keeps_files_def by (metis snd_conv)

lemma la_replace_cases:
  assumes "la_replace p q w = (r, w')"
  obtains e where "r = Inl e" "os_files w' = os_files w"
  | c where "r = Inr ()" "os_files w p = Some c" "os_files w' = (os_files w)(p := None, q := Some c)"
proof -
  obtain r0 w0 where w0: "os_replace p q w = (r0, w0)" by (metis prod.exhaust)
  from w0 show thesis
  proof (cases rule: os_replace_cases)
    case (1 e)
    then show thesis using that(1) assms w0
      by (auto simp: la_replace_def act_catch_def act_raise_def split: if_splits)
  next
    case (2 c)
    then show thesis using that(2) assms w0 by (auto simp: la_replace_def act_catch_def)
  qed
qed

text \<open>The rest of \<open>finalize\<close> once the handle is closed and the mode set.\<close>

definition la_promote :: "string \<Rightarrow> string \<Rightarrow> archive_result local_act" where
  "la_promote tmp final =
     act_then (on_snd (la_replace tmp final))
       (act_then (on_fst (act_modify (\<lambda>a. a\<lparr>la_finalized := True\<rparr>)))
         (act_then (on_snd (apply_permissions final SAFE_FILE_MODE))
           (act_return \<lparr>ar_skipped = False, ar_location = Some final\<rparr>)))"

lemma la_promote_files:
  assumes "la_promote tmp final s = (r, s')" "os_files (snd s) = fs(tmp := Some d)"
    "fs tmp = None" "tmp \<noteq> final"
  shows "os_files (snd s') = fs(tmp := Some d) \<and> (\<exists>e. r = Inl e)
    \<or> os_files (snd s') = fs(final := Some d)
      \<and> (r = Inr \<lparr>ar_skipped = False, ar_location = Some final\<rparr> \<or> (\<exists>e. r = Inl e))"
proof -
  obtain r1 s1 where s1: "on_snd (la_replace tmp final) s = (r1, s1)" by (metis prod.exhaust)
  then have w1: "la_replace tmp final (snd s) = (r1, snd s1)" by (auto dest: on_snd_files)
  let ?rest = "act_then (on_fst (act_modify (\<lambda>a. a\<lparr>la_finalized := True\<rparr>)))
     (on_snd (apply_permissions final SAFE_FILE_MODE)) :: unit local_act"
  have keep: "keeps_files ?rest"
    by (intro keeps_files_then keeps_files_on_fst keeps_files_on_snd touches_intros)
  from w1 show ?thesis
  proof (cases rule: la_replace_cases)
    case (1 e)
    then have "r = Inl e" "s' = s1"
      using assms(1) s1 by (simp_all add: la_promote_def act_then_def act_bind_def)
    then show ?thesis using 1(2) assms(2) by simp
  next
    case (2 c)
    then have files: "os_files (snd s1) = fs(final := Some d)"
      using assms(2-4) by (auto simp: fun_upd_twist)
    obtain r2 s2 where s2: "?rest s1 = (r2, s2)" by (metis prod.exhaust)
    have "r = (case r2 of Inl e \<Rightarrow> Inl e | Inr _ \<Rightarrow> Inr \<lparr>ar_skipped = False, ar_location = Some final\<rparr>)
        \<and> s' = s2"
      using assms(1) s1 2(1) s2 act_then_assoc
      by (cases r2) (auto simp: la_promote_def act_then_def act_bind_def act_return_def
          split: prod.splits sum.splits)
    then show ?thesis using files keeps_files_D [OF keep s2] by (cases r2) auto
  qed
qed

lemma la_finalize_files:
  assumes "la_cycle fs tmp final s d" "la_finalize s = (r, s')"
  shows "os_files (snd s') = fs(tmp := Some d) \<and> (\<exists>e. r = Inl e)
    \<or> os_files (snd s') = fs(final := Some d)
      \<and> (r = Inr \<lparr>ar_skipped = False, ar_location = Some final\<rparr> \<or> (\<exists>e. r = Inl e))"
proof -
  let ?pre = "act_then
       (act_when (la_tmp_handle (fst s) \<noteq> None)
         (act_then (on_snd os_sync)
           (act_then (on_snd os_sync)
             (act_then (on_snd os_sync)
               (on_fst (act_modify (\<lambda>a. a\<lparr>la_tmp_handle := None\<rparr>)))))))
       (on_snd (apply_permissions tmp SAFE_FILE_MODE)) :: unit local_act"
  have keep: "keeps_files ?pre"
    by (intro keeps_files_then keeps_files_when keeps_files_on_fst keeps_files_on_snd touches_intros)
  have c: "la_tmp_path (fst s) = Some tmp" "\<not> la_finalized (fst s)" "la_final_path (fst s) = Some final"
    "os_files (snd s) = fs(tmp := Some d)" "fs tmp = None" "tmp \<noteq> final"
    using assms(1) by (auto simp: la_cycle_def)
  have run: "act_then ?pre (la_promote tmp final) s = (r, s')"
    using assms(2) c(1-3) by (simp add: la_finalize_def Let_def la_promote_def act_then_assoc)
  obtain r1 s1 where s1: "?pre s = (r1, s1)" by (metis prod.exhaust)
  have files: "os_files (snd s1) = fs(tmp := Some d)" using keeps_files_D [OF keep s1] c(4) by simp
  show ?thesis
  proof (cases r1)
    case (Inl e)
    then have "r = Inl e" "s' = s1" using run s1 by (simp_all add: act_then_def act_bind_def)
    then show ?thesis using files by auto
  next
    case (Inr u)
    then have "la_promote tmp final s1 = (r, s')" using run s1 by (simp add: act_then_def act_bind_def)
    from la_promote_files [OF this files c(5,6)] show ?thesis .
  qed
qed

text \<open>
  C18: An archive never appears in part.  Take any cycle of the local archiver: \<open>open\<close> succeeds,
  any chunks are written (the writes may fail at any point), \<open>finalize\<close> runs (any system call may
  fail).  Throughout, every path but the temporary file, which is new, holds what it held
  before; \<open>finalize\<close> either leaves it so, with the written payload kept in the temporary file
  and an exception, or moves the temporary file whole to the final name.  When the writes and
  \<open>finalize\<close> succeeded, the file at the location that is returned is the concatenation of the
  chunks.
\<close>

theorem local_archive_atomic:
  assumes "la_open s = (Inr (), s1)" "put_all la_write_chunk cs s1 = (r, s2)"
    "la_finalize s2 = (r', s3)"
  shows "\<exists>tmp final d. os_files (snd s) tmp = None \<and> tmp \<noteq> final
    \<and> os_files (snd s1) = (os_files (snd s))(tmp := Some [])
    \<and> os_files (snd s2) = (os_files (snd s))(tmp := Some d)
    \<and> (r = Inr () \<longrightarrow> d = concat cs)
    \<and> (os_files (snd s3) = (os_files (snd s))(tmp := Some d) \<and> (\<exists>e. r' = Inl e)
       \<or> os_files (snd s3) = (os_files (snd s))(final := Some d)
         \<and> (r' = Inr \<lparr>ar_skipped = False, ar_location = Some final\<rparr> \<or> (\<exists>e. r' = Inl e)))"
proof -
  let ?final = "path_join (la_output_dir (fst s)) (la_filename_base (fst s) @ ''_'' @ os_clock (snd s))"
  obtain tmp where tmp: "la_cycle (os_files (snd s)) tmp ?final s1 []"
    using la_open_cycle [OF assms(1)] by blast
  obtain d where d: "la_cycle (os_files (snd s)) tmp ?final s2 d" "r = Inr () \<longrightarrow> d = concat cs"
    using la_write_all_cycle [OF tmp assms(2)] by auto
  from la_finalize_files [OF d(1) assms(3)] tmp d show ?thesis
    by (intro exI [of _ tmp] exI [of _ ?final] exI [of _ d]) (simp add: la_cycle_def)
qed

definition sample_archiver :: local_archiver where
  "sample_archiver = \<lparr>la_output_dir = ''/d'', la_filename_base = ''feed'', la_final_path = None,
     la_tmp_path = None, la_tmp_handle = None, la_finalized = False\<rparr>"

lemma sample_archive_runs:
  "fst (la_open (sample_archiver, sample_os\<lparr>os_faults := []\<rparr>)) = Inr ()"
  by code_simp

theorem local_archive_atomic_witness:
  "let (r0, s1) = la_open (sample_archiver, sample_os\<lparr>os_faults := []\<rparr>);
       (r, s2) = put_all la_write_chunk [''ab'', ''c''] s1; (r', s3) = la_finalize s2
   in \<exists>tmp final d. os_files sample_os tmp = None \<and> tmp \<noteq> final
    \<and> os_files (snd s1) = (os_files sample_os)(tmp := Some [])
    \<and> os_files (snd s2) = (os_files sample_os)(tmp := Some d)
    \<and> (r = Inr () \<longrightarrow> d = concat [''ab'', ''c''])
    \<and> (os_files (snd s3) = (os_files sample_os)(tmp := Some d) \<and> (\<exists>e. r' = Inl e)
       \<or> os_files (snd s3) = (os_files sample_os)(final := Some d)
         \<and> (r' = Inr \<lparr>ar_skipped = False, ar_location = Some final\<rparr> \<or> (\<exists>e. r' = Inl e)))"
proof -
  let ?s = "(sample_archiver, sample_os\<lparr>os_faults := []\<rparr>)"
  obtain s1 where s1: "la_open ?s = (Inr (), s1)" using sample_archive_runs by (metis fst_conv prod.exhaust)
  obtain r s2 where s2: "put_all la_write_chunk [''ab'', ''c''] s1 = (r, s2)" by (metis prod.exhaust)
  obtain r' s3 where s3: "la_finalize s2 = (r', s3)" by (metis prod.exhaust)
  show ?thesis
    unfolding s1 s2 s3 Let_def prod.case
    using local_archive_atomic [OF s1 s2 s3] by simp
qed

text \<open>The archiver as a sink: stored is the payload under the location that is returned.\<close>

definition la_collected :: "(string \<Rightarrow> bytes option) \<Rightarrow> local_archiver \<times> os \<Rightarrow> bytes \<Rightarrow> bool" where
  "la_collected fs s d \<longleftrightarrow> (\<exists>tmp final. la_cycle fs tmp final s d)"

definition la_stored ::
    "(string \<Rightarrow> bytes option) \<Rightarrow> local_archiver \<times> os \<Rightarrow> archive_result \<Rightarrow> bytes \<Rightarrow> bool" where
  "la_stored fs s r d \<longleftrightarrow>
     (\<exists>final. r = \<lparr>ar_skipped = False, ar_location = Some final\<rparr>
        \<and> os_files (snd s) = fs(final := Some d))"

interpretation local_sink: sink "\<lambda>s. os_files (snd s) = fs" la_open la_write_chunk la_finalize
    "la_collected fs" "la_stored fs" for fs
proof
  fix s s' assume "os_files (snd s) = fs" "la_open s = (Inr (), s')"
  then show "la_collected fs s' []" using la_open_cycle unfolding la_collected_def by blast
next
  fix s p c s' assume "la_collected fs s p" "la_write_chunk c s = (Inr (), s')"
  then show "la_collected fs s' (p @ c)" using la_write_cycle unfolding la_collected_def by blast
next
  fix s p r s' assume "la_collected fs s p" "la_finalize s = (Inr r, s')"
  then show "la_stored fs s' r p"
    using la_finalize_files unfolding la_collected_def la_stored_def by blast
qed

end
