(* ===== verification/PFP_Publisher.thy ===== *)
theory PFP_Publisher
  imports PFP_Http PFP_S3 PFP_Files_Spec PFP_Producer
begin

text \<open>
  The publisher: resolving archiver and client classes from their registries
  (\<open>archiver_provider.py\<close>, \<open>client_provider.py\<close>), loading their configuration files, building them
  (\<open>archiver_builder.py\<close>, \<open>client_builder.py\<close>, \<open>publisher_builder.py\<close>), and the publish cycle
  (\<open>contracts/publisher_contract.py\<close>, \<open>contracts/publish_metadata.py\<close>).  Logging is left out.
\<close>

section \<open>Registries\<close>

text \<open>The archiver and the client side have the same code under different names.\<close>

record side =
  sd_section :: string
  sd_kind :: string
  sd_noun :: string
  sd_registry_error :: string
  sd_unknown_error :: string
  sd_config_error :: string

definition archiver_side :: side where
  "archiver_side = \<lparr>sd_section = ''archivers'', sd_kind = ''archive_type'', sd_noun = ''archiver'',
     sd_registry_error = ''ArchiverRegistryError'', sd_unknown_error = ''UnknownArchiverTypeError'',
     sd_config_error = ''ArchiverConfigLoadError''\<rparr>"

definition client_side :: side where
  "client_side = \<lparr>sd_section = ''clients'', sd_kind = ''client_type'', sd_noun = ''client'',
     sd_registry_error = ''ClientRegistryError'', sd_unknown_error = ''UnknownClientTypeError'',
     sd_config_error = ''ClientConfigLoadError''\<rparr>"

definition registry_error :: "side \<Rightarrow> string \<Rightarrow> terr" where
  "registry_error sd = err [sd_registry_error sd, ''ValueError'']"

definition unknown_error :: "side \<Rightarrow> string \<Rightarrow> terr" where
  "unknown_error sd = err [sd_unknown_error sd, sd_registry_error sd, ''ValueError'']"

text \<open>
  The registry file beside the module: absent, or text that \<open>json.loads\<close> (a parameter that may
  fail, together with reading the file) turns into a value.
\<close>

definition load_registry :: "side \<Rightarrow> string \<Rightarrow> (terr + pyval) option \<Rightarrow> terr + dict" where
  "load_registry sd path file =
     (case file of
        None \<Rightarrow> Inl (registry_error sd (''Registry file not found: '' @ path))
      | Some (Inl e) \<Rightarrow> Inl (registry_error sd ''Failed to parse registry JSON'')
      | Some (Inr (PyDict d)) \<Rightarrow>
          (case map_of d (sd_section sd) of
             Some (PyDict _) \<Rightarrow> Inr d
           | _ \<Rightarrow> Inl (registry_error sd (''Registry must contain '' @ [CHR 0x27] @ sd_section sd @
                     [CHR 0x27] @ '' object'')))
      | Some (Inr _) \<Rightarrow> Inl (registry_error sd ''Registry root must be a JSON object''))"

definition quote_name :: "string \<Rightarrow> string" where
  "quote_name s = [CHR 0x27] @ s @ [CHR 0x27]"

fun entry_field :: "side \<Rightarrow> string \<Rightarrow> dict \<Rightarrow> string \<Rightarrow> terr + string" where
  "entry_field sd key entry field =
     (case map_of entry field of
        Some (PyStr s) \<Rightarrow>
          if strip s = [] then Inl (registry_error sd (''Missing or empty field '' @ quote_name field @
              '' for '' @ sd_kind sd @ '' '' @ quote_name key))
          else Inr (strip s)
      | _ \<Rightarrow> Inl (registry_error sd (''Missing or empty field '' @ quote_name field @
              '' for '' @ sd_kind sd @ '' '' @ quote_name key)))"

definition extract_entry :: "side \<Rightarrow> dict \<Rightarrow> pyval \<Rightarrow> terr + string \<times> string" where
  "extract_entry sd reg type_key =
     (case type_key of
        PyStr (c # cs) \<Rightarrow>
          (let key = lower (strip (c # cs));
               section = (case dget reg (sd_section sd) of PyDict d \<Rightarrow> d | _ \<Rightarrow> [])
           in case map_of section key of
                None \<Rightarrow> Inl (unknown_error sd (''Unknown '' @ sd_kind sd @ '' in registry: '' @ key))
              | Some (PyDict entry) \<Rightarrow>
                  rbind (entry_field sd key entry ''class'') (\<lambda>c.
                  rbind (entry_field sd key entry ''iac_class'') (\<lambda>i. Inr (c, i)))
              | Some _ \<Rightarrow> Inl (registry_error sd
                  (''Invalid schema: entry for '' @ quote_name key @ '' must be an object'')))
      | _ \<Rightarrow> Inl (unknown_error sd (sd_kind sd @ '' must be a non-empty string'')))"

text \<open>
  Importing a dotted path is a parameter: it fails, or finds an object that is a class
  (\<open>Some c\<close>) or not.
\<close>

definition import_class :: "side \<Rightarrow> (string \<Rightarrow> terr + 'c option) \<Rightarrow> string \<Rightarrow> terr + 'c" where
  "import_class sd importer path =
     (case importer path of
        Inl e \<Rightarrow> Inl (registry_error sd (''Failed to import: '' @ path))
      | Inr None \<Rightarrow> Inl (registry_error sd (''Imported object '' @ quote_name path @ '' is not a class''))
      | Inr (Some c) \<Rightarrow> Inr c)"

definition resolve_class ::
    "side \<Rightarrow> string \<Rightarrow> (terr + pyval) option \<Rightarrow> (string \<Rightarrow> terr + 'c option) \<Rightarrow> pyval \<Rightarrow> terr + 'c \<times> 'c" where
  "resolve_class sd path file importer type_key =
     rbind (load_registry sd path file) (\<lambda>reg.
     rbind (extract_entry sd reg type_key) (\<lambda>(c, i).
     rbind (import_class sd importer c) (\<lambda>cls.
     rbind (import_class sd importer i) (\<lambda>iac. Inr (cls, iac)))))"

section \<open>Configuration files\<close>

text \<open>\<open>Path(path).suffix\<close>\<close>

definition path_suffix :: "string \<Rightarrow> string" where
  "path_suffix p =
     (let name = path_name p; i = rfind name ''.''
      in if 0 < i \<and> i < int (length name) - 1 then drop (nat i) name else '''')"

definition config_error :: "side \<Rightarrow> string \<Rightarrow> terr" where
  "config_error sd = err [sd_config_error sd, ''ValueError'']"

text \<open>
  Reading a file and parsing YAML are parameters; \<open>None\<close> of \<open>yaml\<close> means that PyYAML is not
  installed.  Only \<open>OSError\<close> and \<open>YAMLError\<close> are converted.
\<close>

definition load_config ::
    "side \<Rightarrow> (string \<Rightarrow> terr + string) \<Rightarrow> (string \<Rightarrow> terr + pyval) option \<Rightarrow> (pyval \<Rightarrow> string)
      \<Rightarrow> pyval \<Rightarrow> terr + dict" where
  "load_config sd read_text yaml type_of config_path =
     (case config_path of
        PyStr path \<Rightarrow>
          (let suffix = lower (path_suffix path) in
           if suffix \<noteq> ''.yaml'' \<and> suffix \<noteq> ''.yml''
           then Inl (config_error sd (''unsupported '' @ sd_noun sd @ '' config file extension: '' @ suffix))
           else case read_text path of
             Inl e \<Rightarrow> Inl (if isinstance e ''OSError''
               then config_error sd (''cannot read '' @ sd_noun sd @ '' config file: '' @ path) else e)
           | Inr text \<Rightarrow>
               (case yaml of
                  None \<Rightarrow> Inl (config_error sd ''PyYAML is unavailable: install pyyaml'')
                | Some parse \<Rightarrow>
                    (case parse text of
                       Inl e \<Rightarrow> Inl (if isinstance e ''YAMLError''
                         then config_error sd (''invalid YAML in '' @ sd_noun sd @ '' config file: '' @ path)
                         else e)
                     | Inr (PyDict d) \<Rightarrow> Inr d
                     | Inr v \<Rightarrow> Inl (config_error sd
                         (sd_noun sd @ '' config root must be a mapping, got: '' @ type_of v)))))
      | _ \<Rightarrow> Inl (err [''TypeError''] ''''))"

text \<open>The two sides under their names in the code.\<close>

definition resolve_archiver ::
    "string \<Rightarrow> (terr + pyval) option \<Rightarrow> (string \<Rightarrow> terr + 'c option) \<Rightarrow> pyval \<Rightarrow> terr + 'c \<times> 'c" where
  "resolve_archiver = resolve_class archiver_side"

definition resolve_client ::
    "string \<Rightarrow> (terr + pyval) option \<Rightarrow> (string \<Rightarrow> terr + 'c option) \<Rightarrow> pyval \<Rightarrow> terr + 'c \<times> 'c" where
  "resolve_client = resolve_class client_side"

definition load_archiver_config ::
    "(string \<Rightarrow> terr + string) \<Rightarrow> (string \<Rightarrow> terr + pyval) option \<Rightarrow> (pyval \<Rightarrow> string)
      \<Rightarrow> pyval \<Rightarrow> terr + dict" where
  "load_archiver_config = load_config archiver_side"

definition load_client_config ::
    "(string \<Rightarrow> terr + string) \<Rightarrow> (string \<Rightarrow> terr + pyval) option \<Rightarrow> (pyval \<Rightarrow> string)
      \<Rightarrow> pyval \<Rightarrow> terr + dict" where
  "load_client_config = load_config client_side"

section \<open>Builders\<close>

text \<open>
  What a build needs of its side: the registry file, the importer, reading and parsing the
  configuration, validating it with the second class and constructing the first class on it.
\<close>

record ('c, 'i, 'w, 'x) build_env =
  be_registry_path :: string
  be_registry :: "(terr + pyval) option"
  be_importer :: "string \<Rightarrow> terr + 'c option"
  be_read_text :: "string \<Rightarrow> terr + string"
  be_yaml :: "(string \<Rightarrow> terr + pyval) option"
  be_type_of :: "pyval \<Rightarrow> string"
  be_validate :: "'c \<Rightarrow> dict \<Rightarrow> terr + 'i"
  be_construct :: "'c \<Rightarrow> 'i \<Rightarrow> ('w, 'x) act"

definition publisher_build_error :: "string \<Rightarrow> terr" where
  "publisher_build_error = err [''PublisherBuildError'', ''ValueError'']"

definition build_steps :: "side \<Rightarrow> ('c, 'i, 'w, 'x) build_env \<Rightarrow> pyval \<Rightarrow> pyval \<Rightarrow> ('w, 'x) act" where
  "build_steps sd env type_key config_path =
     act_bind (act_lift
       (rbind (resolve_class sd (be_registry_path env) (be_registry env) (be_importer env) type_key)
         (\<lambda>(cls, iac_cls).
          rbind (load_config sd (be_read_text env) (be_yaml env) (be_type_of env) config_path)
         (\<lambda>raw.
          case be_validate env iac_cls raw of
            Inl e \<Rightarrow> Inl (publisher_build_error (''IaC validation failed for '' @ sd_kind sd @ '' '' @
              quote_name (py_str type_key) @ '': '' @ te_text e))
          | Inr iac \<Rightarrow> Inr (cls, iac)))))
       (\<lambda>(cls, iac). be_construct env cls iac)"

definition build_side :: "side \<Rightarrow> ('c, 'i, 'w, 'x) build_env \<Rightarrow> pyval \<Rightarrow> pyval \<Rightarrow> ('w, 'x) act" where
  "build_side sd env type_key config_path =
     act_catch (build_steps sd env type_key config_path)
       (\<lambda>e. if isinstance e ''PublisherBuildError'' then act_raise e
            else if isinstance e (sd_registry_error sd) \<or> isinstance e (sd_config_error sd)
            then act_raise (publisher_build_error (te_text e))
            else act_raise (publisher_build_error (''Failed to build '' @ sd_noun sd @ '' '' @
              quote_name (py_str type_key) @ '': '' @ te_text e)))"

definition build_archiver :: "('c, 'i, 'w, 'x) build_env \<Rightarrow> pyval \<Rightarrow> pyval \<Rightarrow> ('w, 'x) act" where
  "build_archiver = build_side archiver_side"

definition build_client :: "('c, 'i, 'w, 'x) build_env \<Rightarrow> pyval \<Rightarrow> pyval \<Rightarrow> ('w, 'x) act" where
  "build_client = build_side client_side"

definition required_keys :: "string list" where
  "required_keys = [''archive_type'', ''archive_config'', ''client_type'', ''client_config'']"

definition build_publisher ::
    "('c, 'i, 'w, 'a) build_env \<Rightarrow> ('d, 'j, 'w, 'b) build_env \<Rightarrow> dict \<Rightarrow> ('w, 'a \<times> 'b) act" where
  "build_publisher aenv cenv output_config =
     (case find (\<lambda>k. \<not> dhas output_config k) required_keys of
        Some k \<Rightarrow> act_raise (publisher_build_error
          (''Missing required key in output_config: '' @ quote_name k))
      | None \<Rightarrow>
          act_catch
            (act_bind (build_archiver aenv (dget output_config ''archive_type'')
                         (dget output_config ''archive_config''))
              (\<lambda>archiver. act_bind (build_client cenv (dget output_config ''client_type'')
                                     (dget output_config ''client_config''))
                (\<lambda>client. act_return (archiver, client))))
            (\<lambda>e. if isinstance e ''PublisherBuildError'' then act_raise e
                 else act_raise (publisher_build_error (''Failed to build publisher: '' @ te_text e))))"

section \<open>Publishing\<close>

record publish_metadata = artifact_metadata +
  pm_location :: "string option"
  pm_archive_skipped :: bool
  pm_delivery_skipped :: bool
  pm_delivery_status_code :: "int option"

definition from_publish_results ::
    "artifact_metadata \<Rightarrow> archive_result \<Rightarrow> delivery_result \<Rightarrow> publish_metadata" where
  "from_publish_results m archived delivered =
     \<lparr>am_target = am_target m, am_schema_version = am_schema_version m,
      am_generated_at = am_generated_at m, am_content_type = am_content_type m,
      am_encoding = am_encoding m, am_artifact_profile = am_artifact_profile m,
      am_filename_hint = am_filename_hint m, pm_location = ar_location archived,
      pm_archive_skipped = ar_skipped archived, pm_delivery_skipped = dr_skipped delivered,
      pm_delivery_status_code = dr_status_code delivered\<rparr>"

record published_artifact =
  pb_payload :: "bytes list"
  pb_metadata :: publish_metadata

record 's archiver_ops =
  ao_open :: "('s, unit) act"
  ao_write_chunk :: "bytes \<Rightarrow> ('s, unit) act"
  ao_finalize :: "('s, archive_result) act"

record 's client_ops =
  co_open :: "('s, unit) act"
  co_send_chunk :: "bytes \<Rightarrow> ('s, unit) act"
  co_finalize :: "('s, delivery_result) act"

text \<open>The loop over the payload: a chunk goes to both instruments before the next is pulled.\<close>

fun stream_chunks ::
    "'s archiver_ops \<Rightarrow> 't client_ops \<Rightarrow> bytes gen \<Rightarrow> ('s \<times> 't, bytes list) act" where
  "stream_chunks A C Done = act_return []"
| "stream_chunks A C (Raise e) = act_raise (terr_of_exn e)"
| "stream_chunks A C (Yield chunk g) =
     act_then (on_fst (ao_write_chunk A chunk))
       (act_then (on_snd (co_send_chunk C chunk))
         (act_bind (stream_chunks A C g) (\<lambda>chunks. act_return (chunk # chunks))))"

definition publish_with ::
    "('w, unit) act \<Rightarrow> ('w, unit) act \<Rightarrow> ('w, bytes list) act \<Rightarrow> ('w, archive_result) act
      \<Rightarrow> ('w, delivery_result) act \<Rightarrow> artifact_metadata \<Rightarrow> ('w, published_artifact) act" where
  "publish_with aopen copen stream afinalize cfinalize meta =
     act_then aopen (act_then copen
       (act_bind stream (\<lambda>chunks. act_bind afinalize (\<lambda>archived. act_bind cfinalize
         (\<lambda>delivered. act_return
            \<lparr>pb_payload = chunks, pb_metadata = from_publish_results meta archived delivered\<rparr>)))))"

definition publish ::
    "'s archiver_ops \<Rightarrow> 't client_ops \<Rightarrow> produced_artifact \<Rightarrow> ('s \<times> 't, published_artifact) act" where
  "publish A C artifact =
     publish_with (on_fst (ao_open A)) (on_snd (co_open C)) (stream_chunks A C (pa_payload artifact))
       (on_fst (ao_finalize A)) (on_snd (co_finalize C)) (pa_metadata artifact)"

text \<open>The instruments of the registries.\<close>

definition local_ops :: "(local_archiver \<times> os) archiver_ops" where
  "local_ops = \<lparr>ao_open = la_open, ao_write_chunk = la_write_chunk, ao_finalize = la_finalize\<rparr>"

definition s3_ops :: "answer \<Rightarrow> (s3_archiver \<times> store) archiver_ops" where
  "s3_ops answer = \<lparr>ao_open = s3_open answer, ao_write_chunk = s3_write_chunk answer,
     ao_finalize = s3_finalize answer\<rparr>"

definition s3_compat_ops :: "answer \<Rightarrow> (s3_archiver \<times> store) archiver_ops" where
  "s3_compat_ops answer = \<lparr>ao_open = s3_compat_open answer,
     ao_write_chunk = s3_compat_write_chunk answer, ao_finalize = s3_compat_finalize answer\<rparr>"

definition noop_archiver_ops :: "'s archiver_ops" where
  "noop_archiver_ops = \<lparr>ao_open = noop_archiver_open, ao_write_chunk = noop_archiver_write_chunk,
     ao_finalize = noop_archiver_finalize\<rparr>"

definition http_ops :: "httpx \<Rightarrow> (http_client \<times> net) client_ops" where
  "http_ops hx = \<lparr>co_open = hc_open hx, co_send_chunk = hc_send_chunk, co_finalize = hc_finalize hx\<rparr>"

definition noop_client_ops :: "'s client_ops" where
  "noop_client_ops = \<lparr>co_open = noop_open, co_send_chunk = noop_send_chunk,
     co_finalize = noop_client_finalize\<rparr>"

end
