(* ===== verification/PFP_Pipeline.thy ===== *)
theory PFP_Pipeline
  imports PFP_Publisher PFP_Redaction
begin

text \<open>
  One run of the pipeline (\<open>orchestration/pipeline_runner.py\<close> and \<open>pipeline/*.py\<close>): the guarded
  steps ingestion, core and publish, the run context, timings, telemetry and log entries, and
  the execution report.  The payload of the artifact is lazy, so ingestion, validation, mapping
  and writing all happen while the publish step pulls it; the report object of the producer and
  the input counter change during that step.
\<close>

section \<open>Errors of a step\<close>

text \<open>
  An exception with what \<open>getattr(exc, "original_exc", exc)\<close> gives: itself, or the cause that a
  guard attached.
\<close>

record step_error =
  se_exc :: terr
  se_original :: terr

definition plain :: "terr \<Rightarrow> step_error" where
  "plain e = \<lparr>se_exc = e, se_original = e\<rparr>"

definition wrapped :: "string list \<Rightarrow> string \<Rightarrow> terr \<Rightarrow> step_error" where
  "wrapped classes message original = \<lparr>se_exc = err classes message, se_original = original\<rparr>"

text \<open>An action of the runner: it changes the world and returns or raises.\<close>

type_synonym ('w, 'a) step = "'w \<Rightarrow> (step_error + 'a) \<times> 'w"

subsection \<open>Ingestion\<close>

fun guard_ingestion_stream :: "'a gen \<Rightarrow> 'a gen" where
  "guard_ingestion_stream Done = Done"
| "guard_ingestion_stream (Raise e) = Raise IngestionIterationError"
| "guard_ingestion_stream (Yield x g) = Yield x (guard_ingestion_stream g)"

definition ingestion_step ::
    "('i \<Rightarrow> terr + pyval gen \<times> diagnostic list) \<Rightarrow> 'i
      \<Rightarrow> step_error + pyval gen \<times> diagnostic list" where
  "ingestion_step extract input_data =
     (case extract input_data of
        Inl e \<Rightarrow> Inl (wrapped [''IngestionExtractCallError'', ''IngestionError'', ''RuntimeError'']
                   (te_text e) e)
      | Inr (items, diagnostics) \<Rightarrow> Inr (guard_ingestion_stream items, diagnostics))"

definition resolve_ingestion_reason_code :: "terr \<Rightarrow> string" where
  "resolve_ingestion_reason_code e =
     (if isinstance e ''TimeoutError'' then ''INGESTION.EXTRACT_TIMEOUT'' else ''INGESTION.EXTRACT_ERROR'')"

subsection \<open>Core\<close>

definition guard_core :: "terr + 'a \<Rightarrow> step_error + 'a" where
  "guard_core r =
     (case r of
        Inr x \<Rightarrow> Inr x
      | Inl e \<Rightarrow>
          Inl (if isinstance e ''CoreError'' \<or> isinstance e ''IngestionError'' then plain e
               else if isinstance e ''ValueError''
               then wrapped [''CoreContractError'', ''CoreError'', ''RuntimeError''] (te_text e) e
               else wrapped [''CoreError'', ''RuntimeError''] (te_text e) e))"

definition core_step ::
    "codec \<Rightarrow> pydatetime \<Rightarrow> producer \<Rightarrow> pyval gen \<Rightarrow> pydatetime option
      \<Rightarrow> step_error + production_result" where
  "core_step codec now p um_items generated_at =
     guard_core (case produce_artifacts codec now p um_items generated_at of
       Inl e \<Rightarrow> Inl (terr_of_exn e) | Inr r \<Rightarrow> Inr r)"

definition resolve_core_reason_code :: "terr \<Rightarrow> string" where
  "resolve_core_reason_code e =
     (if isinstance e ''ValueError'' then ''CORE.CONTRACT_ERROR'' else ''INTERNAL.ERROR'')"

subsection \<open>Publish\<close>

definition guard_publish :: "('w, 'a) act \<Rightarrow> ('w, 'a) step" where
  "guard_publish m w =
     (case m w of
        (Inr x, w') \<Rightarrow> (Inr x, w')
      | (Inl e, w') \<Rightarrow>
          (Inl (if isinstance e ''PublishError'' then plain e
                else wrapped [''PublishError'', ''RuntimeError''] (te_text e) e), w'))"

definition resolve_publish_reason_code :: "terr \<Rightarrow> string" where
  "resolve_publish_reason_code e =
     (if isinstance e ''TimeoutError'' then ''PUBLISH.TIMEOUT'' else ''PUBLISH.ERROR'')"

section \<open>The run context and the world of a run\<close>

record run_report =
  rr_started_at :: rat
  rr_timings :: "(string, rat) odict"
  rr_run_id :: "string option"
  rr_correlation_id :: "string option"
  rr_ingestion_diagnostics :: "diagnostic list"
  rr_has_report :: bool
  rr_artifact :: "published_artifact option"
  rr_failed_step :: string
  rr_reason_code :: string
  rr_message :: string
  rr_error_type :: "string option"

definition run_report_new :: "rat \<Rightarrow> string option \<Rightarrow> string option \<Rightarrow> run_report" where
  "run_report_new started run_id correlation_id =
     \<lparr>rr_started_at = started, rr_timings = [], rr_run_id = run_id,
      rr_correlation_id = correlation_id, rr_ingestion_diagnostics = [], rr_has_report = False,
      rr_artifact = None, rr_failed_step = '''', rr_reason_code = '''', rr_message = '''',
      rr_error_type = None\<rparr>"

definition fail_run :: "string \<Rightarrow> string \<Rightarrow> step_error \<Rightarrow> run_report \<Rightarrow> run_report" where
  "fail_run failed_step reason_code exc ctx =
     ctx\<lparr>rr_failed_step := failed_step, rr_reason_code := reason_code,
       rr_message := te_text (se_original exc), rr_error_type := Some (class_name (se_original exc))\<rparr>"

text \<open>
  The world: readings of the clock so far, log and telemetry output, the usage collector, the
  producer's report object (to which the context holds a reference), the run context, and the
  publisher's two instruments.
\<close>

type_synonym labels = "(string \<times> string) list"

record ('s, 't) run_world =
  rw_ticks :: nat
  rw_log :: "(string \<times> string) list"
  rw_telemetry :: "(string \<times> rat \<times> labels) list"
  rw_usage :: feed_usage
  rw_report :: validation_report
  rw_ctx :: run_report
  rw_archiver :: 's
  rw_client :: 't

definition perf_counter :: "(nat \<Rightarrow> rat) \<Rightarrow> ('s, 't) run_world \<Rightarrow> rat \<times> ('s, 't) run_world" where
  "perf_counter clock w = (clock (rw_ticks w), w\<lparr>rw_ticks := Suc (rw_ticks w)\<rparr>)"

definition log_process :: "string \<Rightarrow> string \<Rightarrow> ('s, 't) run_world \<Rightarrow> ('s, 't) run_world" where
  "log_process level message w = w\<lparr>rw_log := rw_log w @ [(level, message)]\<rparr>"

definition on_ctx :: "(run_report \<Rightarrow> run_report) \<Rightarrow> ('s, 't) run_world \<Rightarrow> ('s, 't) run_world" where
  "on_ctx f w = w\<lparr>rw_ctx := f (rw_ctx w)\<rparr>"

definition on_usage :: "(feed_usage \<Rightarrow> feed_usage) \<Rightarrow> ('s, 't) run_world \<Rightarrow> ('s, 't) run_world" where
  "on_usage f w = w\<lparr>rw_usage := f (rw_usage w)\<rparr>"

section \<open>Observability wrappers\<close>

text \<open>Both write in a \<open>finally\<close> block, whatever the action does.\<close>

definition record_timing ::
    "(nat \<Rightarrow> rat) \<Rightarrow> string \<Rightarrow> (('s, 't) run_world \<Rightarrow> 'r \<times> ('s, 't) run_world)
      \<Rightarrow> ('s, 't) run_world \<Rightarrow> 'r \<times> ('s, 't) run_world" where
  "record_timing clock step_name stp w =
     (let (started, w1) = perf_counter clock w;
          (r, w2) = stp w1;
          (now, w3) = perf_counter clock w2
      in (r, on_ctx (\<lambda>c. c\<lparr>rr_timings := dict_set step_name (now - started) (rr_timings c)\<rparr>) w3))"

definition resolve_telemetry_stage :: "string \<Rightarrow> string option" where
  "resolve_telemetry_stage stg =
     (if stg = ''core'' then Some ''validation''
      else if stg = ''publish'' then Some ''publish'' else None)"

definition emit_step_telemetry ::
    "(nat \<Rightarrow> rat) \<Rightarrow> labels \<Rightarrow> string \<Rightarrow> (('s, 't) run_world \<Rightarrow> 'r \<times> ('s, 't) run_world)
      \<Rightarrow> ('s, 't) run_world \<Rightarrow> 'r \<times> ('s, 't) run_world" where
  "emit_step_telemetry clock metric_labels stg stp w =
     (let (started, w1) = perf_counter clock w;
          (r, w2) = stp w1
      in case resolve_telemetry_stage stg of
           None \<Rightarrow> (r, w2)
         | Some public_stage \<Rightarrow>
             (let (now, w3) = perf_counter clock w2
              in (r, w3\<lparr>rw_telemetry := rw_telemetry w3 @ [(public_stage, now - started, metric_labels)]\<rparr>)))"

text \<open>\<open>DiagnosticSeverity\<close> values print as their names.\<close>

definition diagnostic_event :: "labels \<Rightarrow> string option \<Rightarrow> string option \<Rightarrow> diagnostic \<Rightarrow> string" where
  "diagnostic_event metric_labels run_id correlation_id d =
     (let label = (\<lambda>k dflt. case map_of metric_labels k of Some v \<Rightarrow> v | None \<Rightarrow> dflt) in
      ''Runtime diagnostics event: target='' @ label ''target'' ''unknown'' @
      '' stage='' @ label ''stage'' ''total'' @ '' run_id='' @ or_empty run_id @
      '' correlation_id='' @ or_empty correlation_id @ '' severity='' @ sev_name (dg_severity d) @
      '' code='' @ dg_code d @ '' item_ref='' @ or_empty (dg_item_ref d) @
      '' path='' @ or_empty (dg_path d) @ '' message='' @ sanitize_text [] (dg_message d))"

definition log_validation_diagnostics ::
    "labels \<Rightarrow> string option \<Rightarrow> string option \<Rightarrow> validation_report
      \<Rightarrow> ('s, 't) run_world \<Rightarrow> ('s, 't) run_world" where
  "log_validation_diagnostics metric_labels run_id correlation_id report w =
     fold (\<lambda>d. log_process ''INFO'' (diagnostic_event metric_labels run_id correlation_id d))
       (vr_diagnostics report) w"

section \<open>Pulling the feed\<close>

text \<open>
  The input counter, as the first stage of the chain, and the states of counter and producer at
  each pull of the payload: one per chunk, and the state when the payload ends.
\<close>

fun count_item :: "nat \<Rightarrow> pyval \<Rightarrow> (nat, pyval) outcome" where
  "count_item n x = Go (Suc n) (Some x)"

fun watched :: "('s \<Rightarrow> 'a \<Rightarrow> ('s, 'b) outcome) \<Rightarrow> 's \<Rightarrow> 'a \<Rightarrow> ('s, 'b \<times> 's) outcome" where
  "watched step s x =
     (case step s x of
        Go s' None \<Rightarrow> Go s' None
      | Go s' (Some y) \<Rightarrow> Go s' (Some (y, s'))
      | Halt s' \<Rightarrow> Halt s'
      | Fail s' e \<Rightarrow> Fail s' e)"

definition chain_trace ::
    "codec \<Rightarrow> writer \<Rightarrow> (producer_state \<Rightarrow> pyval \<Rightarrow> (producer_state, wrecord) outcome)
      \<Rightarrow> producer_state \<Rightarrow> pyval gen \<Rightarrow> (nat \<times> producer_state) list" where
  "chain_trace codec w step s um =
     (case writer_open codec w of
        Inl e \<Rightarrow> [(0, s)]
      | Inr (ws, h) \<Rightarrow>
          (case drain (watched (chained (chained count_item step) (writer_step codec w))) ((0, s), ws) um of
             (out, (last_state, _)) \<Rightarrow>
               (case h of None \<Rightarrow> [] | Some _ \<Rightarrow> [(0, s)])
               @ map (\<lambda>(chunk, st, _). st) (gen_items out) @ [last_state]))"

definition feed_trace :: "codec \<Rightarrow> producer \<Rightarrow> pyval gen \<Rightarrow> (nat \<times> producer_state) list" where
  "feed_trace codec p um =
     (case (ps_writer (pd_prepared p), build_payload_iter p) of
        (Some w, Inr (v, m)) \<Rightarrow>
          chain_trace codec w (producer_step (pd_policies p) (ps_compiled (pd_prepared p)) v m)
            (producer_init (pd_prepared p)) um
      | _ \<Rightarrow> [])"

definition note_pull :: "nat \<times> producer_state \<Rightarrow> ('s, 't) run_world \<Rightarrow> ('s, 't) run_world" where
  "note_pull st w =
     w\<lparr>rw_report := ps_report (snd st), rw_usage := (rw_usage w)\<lparr>fu_input := fst st\<rparr>\<rparr>"

definition on_archiver :: "('s, 'a) act \<Rightarrow> (('s, 't) run_world, 'a) act" where
  "on_archiver m w = (case m (rw_archiver w) of (r, s) \<Rightarrow> (r, w\<lparr>rw_archiver := s\<rparr>))"

definition on_client :: "('t, 'a) act \<Rightarrow> (('s, 't) run_world, 'a) act" where
  "on_client m w = (case m (rw_client w) of (r, s) \<Rightarrow> (r, w\<lparr>rw_client := s\<rparr>))"

fun pull_chunks ::
    "'s archiver_ops \<Rightarrow> 't client_ops \<Rightarrow> bytes gen \<Rightarrow> (nat \<times> producer_state) list
      \<Rightarrow> (('s, 't) run_world, bytes list) act" where
  "pull_chunks A C Done sts = act_then (act_modify (note_pull (hd sts))) (act_return [])"
| "pull_chunks A C (Raise e) sts =
     act_then (act_modify (note_pull (hd sts))) (act_raise (terr_of_exn e))"
| "pull_chunks A C (Yield chunk g) sts =
     act_then (act_modify (note_pull (hd sts)))
       (act_then (on_archiver (ao_write_chunk A chunk))
         (act_then (on_client (co_send_chunk C chunk))
           (act_bind (pull_chunks A C g (tl sts)) (\<lambda>chunks. act_return (chunk # chunks)))))"

definition publish_lazily ::
    "'s archiver_ops \<Rightarrow> 't client_ops \<Rightarrow> (nat \<times> producer_state) list \<Rightarrow> produced_artifact
      \<Rightarrow> (('s, 't) run_world, published_artifact) act" where
  "publish_lazily A C sts artifact =
     publish_with (on_archiver (ao_open A)) (on_client (co_open C))
       (pull_chunks A C (pa_payload artifact) sts)
       (on_archiver (ao_finalize A)) (on_client (co_finalize C)) (pa_metadata artifact)"

definition publish_step ::
    "'s archiver_ops \<Rightarrow> 't client_ops \<Rightarrow> (nat \<times> producer_state) list \<Rightarrow> produced_artifact
      \<Rightarrow> (('s, 't) run_world, published_artifact) step" where
  "publish_step A C sts artifact = guard_publish (publish_lazily A C sts artifact)"

section \<open>The execution report\<close>

record execution_report =
  er_status :: string
  er_failed_step :: string
  er_reason_code :: string
  er_message :: string
  er_validation_report :: validation_report
  er_artifacts :: "published_artifact list"
  er_timings :: "(string, rat) odict"
  er_usage :: feed_usage
  er_run_id :: "string option"
  er_correlation_id :: "string option"
  er_error_type :: "string option"

definition counters :: "execution_report \<Rightarrow> dict" where
  "counters r =
     [(''input_items_count'', PyInt (int (fu_input (er_usage r)))),
      (''artifacts_count'', PyInt (int (fu_artifacts (er_usage r)))),
      (''diagnostics_count_by_severity'',
         PyDict (map (\<lambda>(k, n). (k, PyInt (int n))) (fu_diagnostics (er_usage r)))),
      (''processed'', PyInt (int (fu_processed (er_usage r)))),
      (''dropped'', PyInt (int (fu_dropped (er_usage r)))),
      (''error'', PyInt (int (fu_errors (er_usage r))))]"

definition report_step :: "(nat \<Rightarrow> rat) \<Rightarrow> ('s, 't) run_world \<Rightarrow> execution_report \<times> ('s, 't) run_world" where
  "report_step clock w =
     (let ctx = rw_ctx w;
          is_failed = (rr_failed_step ctx \<noteq> []);
          safe = (if rr_has_report ctx then sanitize_validation_report (rw_report w)
                  else \<lparr>vr_target = None, vr_profile = None, vr_diagnostics = []\<rparr>);
          safe_report = fold (\<lambda>d. report_add (sanitize_diagnostic d)) (rr_ingestion_diagnostics ctx) safe;
          w1 = (if is_failed then on_usage (inc_error 1) w
                else (let w0 = (case rr_artifact ctx of None \<Rightarrow> w | Some _ \<Rightarrow> on_usage (inc_artifacts 1) w)
                      in on_usage (inc_processed (fu_input (rw_usage w0))) w0));
          w2 = fold (\<lambda>d. on_usage (inc_diagnostic (sev_name (dg_severity d)))) (vr_diagnostics safe_report) w1;
          (now, w3) = perf_counter clock w2;
          w4 = on_ctx (\<lambda>c. c\<lparr>rr_timings := dict_set ''total'' (now - rr_started_at c) (rr_timings c)\<rparr>) w3
      in (\<lparr>er_status = (if is_failed then ''FAILED'' else ''SUCCESS''),
           er_failed_step = rr_failed_step ctx, er_reason_code = rr_reason_code ctx,
           er_message = (if is_failed then sanitize_text [] (rr_message ctx)
                         else ''Pipeline completed successfully''),
           er_validation_report = safe_report,
           er_artifacts = (case rr_artifact ctx of None \<Rightarrow> [] | Some a \<Rightarrow> [a]),
           er_timings = rr_timings (rw_ctx w4), er_usage = rw_usage w4,
           er_run_id = rr_run_id ctx, er_correlation_id = rr_correlation_id ctx,
           er_error_type = rr_error_type ctx\<rparr>, w4))"

section \<open>The runner\<close>

record run_context =
  rc_run_id :: "string option"
  rc_correlation_id :: "string option"
  rc_generated_at :: "pydatetime option"

text \<open>
  The validated manifest.  The connector is what its \<open>extract\<close> does: it fails at once, or gives a
  stream with the diagnostics collected so far.
\<close>

record ('i, 's, 't) pipeline_manifest =
  mf_extract :: "'i \<Rightarrow> terr + pyval gen \<times> diagnostic list"
  mf_producer :: producer
  mf_generated_at :: "pydatetime option"
  mf_fail_on_error :: bool
  mf_archiver :: "'s archiver_ops"
  mf_client :: "'t client_ops"
  mf_run_context :: "run_context option"

text \<open>The surroundings of a run: the string encoder, \<open>datetime.now\<close> and the performance counter.\<close>

record surroundings =
  su_codec :: codec
  su_now :: pydatetime
  su_clock :: "nat \<Rightarrow> rat"

definition target_label :: "producer \<Rightarrow> string" where
  "target_label p = sr_protocol_id (ps_ref (pd_prepared p))"

definition build_metric_labels :: "('i, 's, 't) pipeline_manifest \<Rightarrow> labels" where
  "build_metric_labels mf =
     [(''target'', target_label (mf_producer mf)), (''mode'', ''runtime''), (''stage'', ''total'')]"

definition has_error_diagnostics :: "validation_report \<Rightarrow> bool" where
  "has_error_diagnostics r = (\<exists>d \<in> set (vr_diagnostics r). dg_severity d = SevError)"

definition fail_with ::
    "surroundings \<Rightarrow> string \<Rightarrow> string \<Rightarrow> string \<Rightarrow> step_error \<Rightarrow> ('s, 't) run_world
      \<Rightarrow> (terr + execution_report) \<times> ('s, 't) run_world" where
  "fail_with su message failed_step reason_code exc w =
     apfst Inr (report_step (su_clock su)
       (on_ctx (fail_run failed_step reason_code exc) (log_process ''ERROR'' message w)))"

text \<open>\<open>with\<close> timing and telemetry around a step\<close>

definition observed ::
    "surroundings \<Rightarrow> labels \<Rightarrow> string \<Rightarrow> string \<Rightarrow> (('s, 't) run_world \<Rightarrow> 'r \<times> ('s, 't) run_world)
      \<Rightarrow> ('s, 't) run_world \<Rightarrow> 'r \<times> ('s, 't) run_world" where
  "observed su metric_labels step_name stg stp =
     record_timing (su_clock su) step_name
       (emit_step_telemetry (su_clock su) metric_labels stg stp)"

text \<open>\<open>core_result.artifacts[0]\<close> is evaluated outside the publish guard.\<close>

definition publish_first ::
    "('i, 's, 't) pipeline_manifest \<Rightarrow> (nat \<times> producer_state) list \<Rightarrow> production_result
      \<Rightarrow> (('s, 't) run_world, published_artifact) step" where
  "publish_first mf sts result w =
     (case pr_artifacts result of
        [] \<Rightarrow> (Inl (plain (terr_of_exn IndexError)), w)
      | artifact # _ \<Rightarrow> publish_step (mf_archiver mf) (mf_client mf) sts artifact w)"

definition run_publish ::
    "surroundings \<Rightarrow> ('i, 's, 't) pipeline_manifest \<Rightarrow> (nat \<times> producer_state) list \<Rightarrow> production_result
      \<Rightarrow> ('s, 't) run_world \<Rightarrow> (terr + execution_report) \<times> ('s, 't) run_world" where
  "run_publish su mf sts result w =
     (case observed su (build_metric_labels mf) ''publish'' ''publish'' (publish_first mf sts result) w of
        (Inr artifact, w1) \<Rightarrow>
          apfst Inr (report_step (su_clock su) (on_ctx (\<lambda>c. c\<lparr>rr_artifact := Some artifact\<rparr>) w1))
      | (Inl exc, w1) \<Rightarrow>
          if isinstance (se_exc exc) ''PublishError''
          then fail_with su ''Publish failed'' ''PUBLISH''
                 (resolve_publish_reason_code (se_original exc)) exc w1
          else (Inl (se_exc exc), w1))"

definition run_validated ::
    "surroundings \<Rightarrow> ('i, 's, 't) pipeline_manifest \<Rightarrow> (nat \<times> producer_state) list \<Rightarrow> production_result
      \<Rightarrow> ('s, 't) run_world \<Rightarrow> (terr + execution_report) \<times> ('s, 't) run_world" where
  "run_validated su mf sts result w =
     (let w1 = (w\<lparr>rw_report := pr_report result\<rparr>);
          w2 = log_validation_diagnostics (build_metric_labels mf) (rr_run_id (rw_ctx w1))
                 (rr_correlation_id (rw_ctx w1)) (pr_report result) w1;
          w3 = on_ctx (\<lambda>c. c\<lparr>rr_has_report := True\<rparr>) w2
      in if mf_fail_on_error mf \<and> has_error_diagnostics (pr_report result)
         then apfst Inr (report_step (su_clock su)
                (on_ctx (\<lambda>c. c\<lparr>rr_failed_step := ''CORE_BUILD'', rr_reason_code := ''CORE.VALIDATION_FAILED'',
                   rr_message := ''Validation report contains ERROR diagnostics''\<rparr>) w3))
         else run_publish su mf sts result w3)"

definition run_generated_at :: "('i, 's, 't) pipeline_manifest \<Rightarrow> pydatetime option" where
  "run_generated_at mf =
     (case mf_generated_at mf of
        Some t \<Rightarrow> Some t
      | None \<Rightarrow> (case mf_run_context mf of None \<Rightarrow> None | Some rc \<Rightarrow> rc_generated_at rc))"

definition run_core ::
    "surroundings \<Rightarrow> ('i, 's, 't) pipeline_manifest \<Rightarrow> pyval gen
      \<Rightarrow> ('s, 't) run_world \<Rightarrow> (terr + execution_report) \<times> ('s, 't) run_world" where
  "run_core su mf um_items w =
     (case observed su (build_metric_labels mf) ''core'' ''core''
           (\<lambda>w. (core_step (su_codec su) (su_now su) (mf_producer mf) um_items (run_generated_at mf), w)) w of
           (Inr result, w1) \<Rightarrow>
             run_validated su mf (feed_trace (su_codec su) (mf_producer mf) um_items) result w1
         | (Inl exc, w1) \<Rightarrow>
             if isinstance (se_exc exc) ''IngestionExtractIterationError''
             then fail_with su ''Ingestion iteration failed'' ''INGESTION_EXTRACT''
                    (resolve_ingestion_reason_code (se_original exc)) exc w1
             else if isinstance (se_exc exc) ''CoreError''
             then (if isinstance (se_exc exc) ''CoreContractError''
                   then fail_with su ''Core contract error'' ''CORE_BUILD''
                          (resolve_core_reason_code (se_original exc)) exc w1
                   else fail_with su ''Core execution failed'' ''INTERNAL''
                          (resolve_core_reason_code (se_original exc)) exc w1)
             else (Inl (se_exc exc), w1))"

definition start_run ::
    "surroundings \<Rightarrow> ('i, 's, 't) pipeline_manifest \<Rightarrow> ('s, 't) run_world \<Rightarrow> ('s, 't) run_world" where
  "start_run su mf w =
     (let (started, w1) = perf_counter (su_clock su) w
      in on_usage usage_reset (w1\<lparr>rw_ctx := run_report_new started
           (case mf_run_context mf of None \<Rightarrow> None | Some rc \<Rightarrow> rc_run_id rc)
           (case mf_run_context mf of None \<Rightarrow> None | Some rc \<Rightarrow> rc_correlation_id rc)\<rparr>))"

definition run_pipeline ::
    "surroundings \<Rightarrow> ('i, 's, 't) pipeline_manifest \<Rightarrow> 'i \<Rightarrow> ('s, 't) run_world
      \<Rightarrow> (terr + execution_report) \<times> ('s, 't) run_world" where
  "run_pipeline su mf input_data w =
     (case observed su (build_metric_labels mf) ''ingestion_extract'' ''ingestion_extract''
             (\<lambda>w. (ingestion_step (mf_extract mf) input_data, w)) (start_run su mf w) of
        (Inl exc, w1) \<Rightarrow>
          if isinstance (se_exc exc) ''IngestionExtractCallError''
          then fail_with su ''Ingestion extract failed'' ''INGESTION_EXTRACT''
                 (resolve_ingestion_reason_code (se_original exc)) exc w1
          else (Inl (se_exc exc), w1)
      | (Inr (um_items, diagnostics), w1) \<Rightarrow>
          run_core su mf um_items (on_ctx (\<lambda>c. c\<lparr>rr_ingestion_diagnostics := diagnostics\<rparr>) w1))"

end
