(* ===== verification/PFP_Publisher_Spec.thy ===== *)
theory PFP_Publisher_Spec
  imports PFP_Publisher
begin

text \<open>
  The publish cycle over any pair of instruments that keep the contract of a sink, its use on
  the program's instruments, what a failing feed leaves behind, and the failures of a build.
\<close>

section \<open>The cycle over two sinks\<close>

lemma stream_chunks_Inr:
  assumes "stream_chunks A C g p = (Inr chunks, p')"
  shows "chunks = gen_items g" "gen_end g = None"
    "put_all (ao_write_chunk A) chunks (fst p) = (Inr (), fst p')"
    "put_all (co_send_chunk C) chunks (snd p) = (Inr (), snd p')"
proof -
  have "chunks = gen_items g \<and> gen_end g = None
      \<and> put_all (ao_write_chunk A) chunks (fst p) = (Inr (), fst p')
      \<and> put_all (co_send_chunk C) chunks (snd p) = (Inr (), snd p')"
    using assms
  proof (induction A C g arbitrary: p chunks rule: stream_chunks.induct)
    case (3 A C c g)
    from "3.prems" obtain p1 p2 cs where p: "on_fst (ao_write_chunk A c) p = (Inr (), p1)"
      "on_snd (co_send_chunk C c) p1 = (Inr (), p2)" "stream_chunks A C g p2 = (Inr cs, p')"
      "chunks = c # cs"
      by (auto simp: act_then_Inr act_bind_Inr act_return_def)
    then show ?case
      using "3.IH" [OF p(3)] unfolding on_fst_Inr on_snd_Inr by (auto simp: act_then_Inr)
  qed (auto simp: act_return_def act_raise_def)
  then show "chunks = gen_items g" "gen_end g = None"
    "put_all (ao_write_chunk A) chunks (fst p) = (Inr (), fst p')"
    "put_all (co_send_chunk C) chunks (snd p) = (Inr (), snd p')" by auto
qed

lemma publish_Inr:
  assumes "publish A C art (a, c) = (Inr out, (a', c'))"
  obtains a1 c1 a2 c2 ra rc where
    "ao_open A a = (Inr (), a1)" "put_all (ao_write_chunk A) (gen_items (pa_payload art)) a1 = (Inr (), a2)"
    "ao_finalize A a2 = (Inr ra, a')"
    "co_open C c = (Inr (), c1)" "put_all (co_send_chunk C) (gen_items (pa_payload art)) c1 = (Inr (), c2)"
    "co_finalize C c2 = (Inr rc, c')"
    "gen_end (pa_payload art) = None" "pb_payload out = gen_items (pa_payload art)"
    "pb_metadata out = from_publish_results (pa_metadata art) ra rc"
proof -
  from assms obtain p1 p2 p3 p4 chunks ra rc where p: "on_fst (ao_open A) (a, c) = (Inr (), p1)"
    "on_snd (co_open C) p1 = (Inr (), p2)" "stream_chunks A C (pa_payload art) p2 = (Inr chunks, p3)"
    "on_fst (ao_finalize A) p3 = (Inr ra, p4)" "on_snd (co_finalize C) p4 = (Inr rc, (a', c'))"
    "out = \<lparr>pb_payload = chunks, pb_metadata = from_publish_results (pa_metadata art) ra rc\<rparr>"
    by (auto simp: publish_def publish_with_def act_then_Inr act_bind_Inr act_return_def)
  note s = stream_chunks_Inr [OF p(3)]
  show thesis
    by (rule that [of "fst p1" "fst p3" ra "snd p2" "snd p3" rc])
      (use p s in \<open>auto simp: on_fst_Inr on_snd_Inr\<close>)
qed

locale publishing =
  archive: sink agood aopen aput afin apend astored +
  delivery: sink cgood copen cput cfin cpend cstored
  for agood aopen and aput :: "bytes \<Rightarrow> ('s, unit) act"
    and afin :: "('s, archive_result) act" and apend astored
    and cgood copen and cput :: "bytes \<Rightarrow> ('t, unit) act"
    and cfin :: "('t, delivery_result) act" and cpend cstored
begin

lemma publish_stores:
  assumes "agood a" "cgood c"
    "publish \<lparr>ao_open = aopen, ao_write_chunk = aput, ao_finalize = afin\<rparr>
       \<lparr>co_open = copen, co_send_chunk = cput, co_finalize = cfin\<rparr> art (a, c) = (Inr out, (a', c'))"
  shows "\<exists>ra rc. astored a' ra (concat (gen_items (pa_payload art)))
    \<and> cstored c' rc (concat (gen_items (pa_payload art)))
    \<and> gen_end (pa_payload art) = None \<and> pb_payload out = gen_items (pa_payload art)
    \<and> pb_metadata out = from_publish_results (pa_metadata art) ra rc"
  using assms(3)
proof (cases rule: publish_Inr)
  case (1 a1 c1 a2 c2 ra rc)
  then show ?thesis
    using archive.cycle_stores [OF assms(1), of a1 _ a2 ra a']
      delivery.cycle_stores [OF assms(2), of c1 _ c2 rc c'] by simp blast
qed

end

interpretation local_http: publishing "\<lambda>s. os_files (snd s) = fs" la_open la_write_chunk la_finalize
    "la_collected fs" "la_stored fs" "hc_ready l i hs" "hc_open hx" hc_send_chunk "hc_finalize hx"
    "hc_pend l i hs" "hc_stored hx l i hs" for fs l i hs hx
  by unfold_locales

interpretation s3_http: publishing "\<lambda>s. sa_bucket (fst s) = bucket" "s3_open answer"
    "s3_write_chunk answer" "s3_finalize answer" "s3_pend answer bucket" "s3_stored answer bucket"
    "hc_ready l i hs" "hc_open hx" hc_send_chunk "hc_finalize hx"
    "hc_pend l i hs" "hc_stored hx l i hs" for answer bucket l i hs hx
  by unfold_locales

section \<open>The program's instruments\<close>

text \<open>
  A successful publication has archived and delivered the whole feed.  When \<open>publish\<close> with
  the local archiver and the HTTP client returns, the payload generator had come to its end
  without an exception, the file at the returned location is the concatenation of the chunks
  and no other file differs, the requests added to the network log are at most
  \<open>max_retries + 1\<close> copies of one POST of the same bytes to the endpoint, the last of them
  answered with a status that is not 4xx or 5xx, and the returned artifact has the chunks, the
  producer's metadata, the location and that status.
\<close>

theorem publish_local_http:
  assumes "publish local_ops (http_ops hx) art (a, c) = (Inr out, (a', c'))"
  shows "gen_end (pa_payload art) = None \<and> pb_payload out = gen_items (pa_payload art)
    \<and> (\<exists>final k resp. k \<le> max_retries (hi_transport (hc_iac (fst c)))
        \<and> os_files (snd a') = (os_files (snd a))(final := Some (concat (gen_items (pa_payload art))))
        \<and> nt_log (snd c') = nt_log (snd c) @ replicate (Suc k)
            \<lparr>rq_method = ''POST'', rq_url = hi_endpoint (hc_iac (fst c)), rq_headers = hc_headers (fst c),
             rq_body = Content (concat (gen_items (pa_payload art)))\<rparr>
        \<and> hx_send hx (nt_log (snd c')) = Inr resp
        \<and> \<not> (400 \<le> status_code resp \<and> status_code resp < 600)
        \<and> pb_metadata out = from_publish_results (pa_metadata art)
            \<lparr>ar_skipped = False, ar_location = Some final\<rparr>
            \<lparr>dr_skipped = False, dr_status_code = Some (status_code resp)\<rparr>)"
proof -
  have "hc_ready (nt_log (snd c)) (hc_iac (fst c)) (hc_headers (fst c)) c" by (simp add: hc_ready_def)
  from local_http.publish_stores [OF refl this assms [unfolded local_ops_def http_ops_def]]
  show ?thesis unfolding la_stored_def hc_stored_def by blast
qed

text \<open>
  A successful publication to S3 has archived the whole feed.  When \<open>publish\<close> with an S3
  archiver and the HTTP client returns, the store holds the payload as a completed upload (or
  the empty object), the endpoint has accepted a POST of the same bytes, and the returned
  metadata name the object and the status.
\<close>

theorem publish_s3_http:
  assumes "publish (s3_ops answer) (http_ops hx) art (a, c) = (Inr out, (a', c'))"
  shows "gen_end (pa_payload art) = None
    \<and> (\<exists>ra rc. s3_stored answer (sa_bucket (fst a)) a' ra (concat (gen_items (pa_payload art)))
        \<and> hc_stored hx (nt_log (snd c)) (hc_iac (fst c)) (hc_headers (fst c)) c' rc
            (concat (gen_items (pa_payload art)))
        \<and> pb_metadata out = from_publish_results (pa_metadata art) ra rc)"
proof -
  have "hc_ready (nt_log (snd c)) (hc_iac (fst c)) (hc_headers (fst c)) c" by (simp add: hc_ready_def)
  from s3_http.publish_stores [OF refl this assms [unfolded s3_ops_def http_ops_def]]
  show ?thesis by blast
qed

section \<open>A feed that fails\<close>

lemma stream_chunks_keeps:
  assumes "\<And>c s r s'. I s \<Longrightarrow> ao_write_chunk A c s = (r, s') \<Longrightarrow> I s'"
    "\<And>c s r s'. J s \<Longrightarrow> co_send_chunk C c s = (r, s') \<Longrightarrow> J s'"
    "I (fst p)" "J (snd p)" "stream_chunks A C g p = (r, p')"
  shows "I (fst p') \<and> J (snd p')"
  using assms
proof (induction A C g arbitrary: p p' r rule: stream_chunks.induct)
  case (3 A C c g)
  obtain r1 p1 where p1: "on_fst (ao_write_chunk A c) p = (r1, p1)" by (metis prod.exhaust)
  then have i1: "I (fst p1)" "J (snd p1)"
    using "3.prems"(1) [OF "3.prems"(3)] "3.prems"(4)
    by (auto simp: on_fst_def split: prod.splits)
  obtain r2 p2 where p2: "on_snd (co_send_chunk C c) p1 = (r2, p2)" by (metis prod.exhaust)
  then have i2: "I (fst p2)" "J (snd p2)"
    using "3.prems"(2) [OF i1(2)] i1 by (auto simp: on_snd_def split: prod.splits)
  obtain r3 p3 where p3: "stream_chunks A C g p2 = (r3, p3)" by (metis prod.exhaust)
  have i3: "I (fst p3) \<and> J (snd p3)"
    by (rule "3.IH" [OF "3.prems"(1,2) i2 p3])
  show ?case
    using "3.prems"(5) p1 p2 p3 i1 i2 i3
    by (cases r1; cases r2; cases r3) (auto simp: act_then_def act_bind_def act_return_def)
qed (auto simp: act_return_def act_raise_def)

lemma hc_open_log: "hc_open hx s = (r, s') \<Longrightarrow> nt_log (snd s') = nt_log (snd s)"
  by (auto simp: hc_open_def act_basic_defs split: prod.splits sum.splits if_splits dest!: new_client_log)

lemma hc_send_chunk_log: "hc_send_chunk c s = (r, s') \<Longrightarrow> nt_log (snd s') = nt_log (snd s)"
  by (auto simp: hc_send_chunk_def Let_def split: option.splits if_splits)

definition only_new :: "(string \<Rightarrow> bytes option) \<Rightarrow> (string \<Rightarrow> bytes option) \<Rightarrow> bool" where
  "only_new fs fs' \<longleftrightarrow> (\<forall>p. fs p \<noteq> None \<longrightarrow> fs' p = fs p)
     \<and> (\<exists>tmp. \<forall>p. p \<noteq> tmp \<longrightarrow> fs' p = fs p)"

lemma la_open_only_new: "la_open s = (Inl e, s') \<Longrightarrow> os_files (snd s') = os_files (snd s)"
  by (auto simp: la_open_def Let_def dest: os_mktemp_Inl split: prod.splits sum.splits)

text \<open>
  C17: A feed that fails half way is not published.  When the payload generator raises, publishing
  with the local archiver and the HTTP client raises, no request has been sent, every file that
  existed is unchanged and at most one new (temporary) file has appeared.
\<close>

theorem failing_feed_not_published:
  assumes "gen_end (pa_payload art) = Some x"
    "publish local_ops (http_ops hx) art (a, c) = (r, (a', c'))"
  shows "(\<exists>e. r = Inl e) \<and> nt_log (snd c') = nt_log (snd c)
    \<and> only_new (os_files (snd a)) (os_files (snd a'))"
proof -
  let ?A = local_ops and ?C = "http_ops hx"
  have refl_new: "only_new fs fs" for fs by (auto simp: only_new_def)
  obtain r1 p1 where p1: "on_fst (ao_open ?A) (a, c) = (r1, p1)" by (metis prod.exhaust)
  then have o1: "la_open a = (r1, fst p1)" "snd p1 = c"
    by (auto simp: local_ops_def on_fst_def split: prod.splits)
  show ?thesis
  proof (cases r1)
    case (Inl e)
    then have "r = Inl e" "(a', c') = p1"
      using assms(2) p1 by (simp_all add: publish_def publish_with_def act_then_def act_bind_def)
    then have "a' = fst p1" "c' = c" using o1(2) by auto
    then show ?thesis using la_open_only_new o1(1) Inl refl_new \<open>r = Inl e\<close> by auto
  next
    case (Inr u)
    let ?I = "\<lambda>s. \<exists>tmp final d. la_cycle (os_files (snd a)) tmp final s d"
    let ?J = "\<lambda>s. nt_log (snd s) = nt_log (snd c)"
    have new: "only_new (os_files (snd a)) (os_files (snd s))" if "?I s" for s
      using that by (auto simp: la_cycle_def only_new_def)
    have i1: "?I (fst p1)" using la_open_cycle o1(1) Inr by (metis old.unit.exhaust)
    obtain r2 p2 where p2: "on_snd (co_open ?C) p1 = (r2, p2)" by (metis prod.exhaust)
    then have o2: "hc_open hx c = (r2, snd p2)" "fst p2 = fst p1"
      using o1(2) by (auto simp: http_ops_def on_snd_def split: prod.splits)
    then have j2: "?I (fst p2)" "?J (snd p2)" using i1 hc_open_log by auto
    obtain r3 p3 where p3: "stream_chunks ?A ?C (pa_payload art) p2 = (r3, p3)" by (metis prod.exhaust)
    have j3: "?I (fst p3) \<and> ?J (snd p3)"
    proof (rule stream_chunks_keeps [where I = ?I and J = ?J, OF _ _ j2 p3])
      fix ch s q s' assume "?I s" "ao_write_chunk ?A ch s = (q, s')"
      then show "?I s'" using la_write_cycle unfolding local_ops_def by simp blast
    next
      fix ch s q s' assume "?J s" "co_send_chunk ?C ch s = (q, s')"
      then show "?J s'" using hc_send_chunk_log by (simp add: http_ops_def)
    qed
    obtain e where e: "r3 = Inl e" using stream_chunks_Inr(2) p3 assms(1) by (cases r3) fastforce+
    have "(\<exists>e. r = Inl e) \<and> ((a', c') = p2 \<or> (a', c') = p3)"
      using assms(2) p1 p2 p3 Inr e
      by (cases r2) (auto simp: publish_def publish_with_def act_then_def act_bind_def)
    then show ?thesis using new j2 j3 by (metis fst_conv snd_conv)
  qed
qed

section \<open>Runs\<close>

definition sample_artifact :: "bytes gen \<Rightarrow> produced_artifact" where
  "sample_artifact g =
     \<lparr>pa_payload = g,
      pa_after = \<lparr>ps_report = \<lparr>vr_target = None, vr_profile = None, vr_diagnostics = []\<rparr>, ps_faults = []\<rparr>,
      pa_metadata = \<lparr>am_target = ''t'', am_schema_version = ''1'',
        am_generated_at = \<lparr>dt_date = (2025, 1, 1), dt_hour = 0, dt_minute = 0, dt_second = 0,
          dt_micro = 0, dt_offset = Some 0\<rparr>,
        am_content_type = ''text/csv'', am_encoding = ''utf-8'', am_artifact_profile = None,
        am_filename_hint = None\<rparr>\<rparr>"

text \<open>An endpoint that answers the first request with 503 and the second with 200.\<close>

definition sample_httpx :: httpx where
  "sample_httpx = \<lparr>hx_new = (\<lambda>v t. Inr ()),
     hx_send = (\<lambda>l. Inr \<lparr>status_code = (if length l = 1 then 503 else 200), rs_body = []\<rparr>),
     hx_close = (\<lambda>l. Inr ())\<rparr>"

definition sample_client :: "http_client \<times> net" where
  "sample_client =
     (\<lparr>hc_iac = \<lparr>hi_endpoint = ''https://e'', hi_api_key_ref = None, hi_token_ref = None,
         hi_content_type = None, hi_max_body_bytes = 100, hi_transport = default_tls_policy\<rparr>,
       hc_headers = [], hc_injected = False, hc_client = False, hc_buffer = None, hc_finalized = False\<rparr>,
      \<lparr>nt_log = [], nt_sleeps = [], nt_clients = 0\<rparr>)"

lemmas run_defs = act_basic_defs publish_def publish_with_def local_ops_def http_ops_def la_open_def la_write_chunk_def
  la_finalize_def la_replace_def apply_permissions_def os_chmod_def os_sync_def os_replace_def
  os_write_def os_mktemp_def syscall_def next_fault_def tick_def append_file_def temp_name_def
  sample_archiver_def sample_os_def Let_def path_join_def path_name_def token_str_def token_chars_def
  hc_open_def new_client_def hc_send_chunk_def hc_finalize_def close_client_def checked_request_def
  send_request_def post_check_def hc_request_def execute_with_retry_def retry_loop.simps
  is_retryable_category_def classify_transport_error_def mark_transport_error_def strip_def
  lstrip_def is_space_def pause_def default_tls_policy_def sample_client_def sample_httpx_def
  sample_artifact_def

lemma sample_publish_runs:
  "\<exists>out p. publish local_ops (http_ops sample_httpx) (sample_artifact (gen_of [''ab'', ''c''] None))
     ((sample_archiver, sample_os\<lparr>os_faults := []\<rparr>), sample_client) = (Inr out, p)"
  by (simp add: run_defs)

theorem publish_local_http_witness:
  "\<exists>out a' c'. publish local_ops (http_ops sample_httpx) (sample_artifact (gen_of [''ab'', ''c''] None))
       ((sample_archiver, sample_os\<lparr>os_faults := []\<rparr>), sample_client) = (Inr out, (a', c'))
    \<and> pb_payload out = [''ab'', ''c'']
    \<and> (\<exists>final k resp. k \<le> 3
        \<and> os_files (snd a') = (os_files sample_os)(final := Some ''abc'')
        \<and> nt_log (snd c') = replicate (Suc k)
            \<lparr>rq_method = ''POST'', rq_url = ''https://e'', rq_headers = [], rq_body = Content ''abc''\<rparr>
        \<and> hx_send sample_httpx (nt_log (snd c')) = Inr resp
        \<and> \<not> (400 \<le> status_code resp \<and> status_code resp < 600))"
proof -
  obtain out a' c' where run: "publish local_ops (http_ops sample_httpx)
      (sample_artifact (gen_of [''ab'', ''c''] None))
      ((sample_archiver, sample_os\<lparr>os_faults := []\<rparr>), sample_client) = (Inr out, (a', c'))"
    using sample_publish_runs by (metis prod.exhaust)
  have parts: "gen_items (pa_payload (sample_artifact (gen_of [''ab'', ''c''] None))) = [''ab'', ''c'']"
    "nt_log (snd sample_client) = []" "hi_endpoint (hc_iac (fst sample_client)) = ''https://e''"
    "hc_headers (fst sample_client) = []"
    "max_retries (hi_transport (hc_iac (fst sample_client))) = 3"
    by (simp_all add: sample_artifact_def sample_client_def default_tls_policy_def)
  show ?thesis
    using publish_local_http [OF run, unfolded parts] run by auto
qed

theorem failing_feed_not_published_witness:
  "\<exists>r a' c'. publish local_ops (http_ops sample_httpx) (sample_artifact (gen_of [''ab''] (Some KeyError)))
       ((sample_archiver, sample_os\<lparr>os_faults := []\<rparr>), sample_client) = (r, (a', c'))
    \<and> (\<exists>e. r = Inl e) \<and> nt_log (snd c') = nt_log (snd sample_client)
    \<and> only_new (os_files sample_os) (os_files (snd a'))"
proof -
  obtain r a' c' where run: "publish local_ops (http_ops sample_httpx)
      (sample_artifact (gen_of [''ab''] (Some KeyError)))
      ((sample_archiver, sample_os\<lparr>os_faults := []\<rparr>), sample_client) = (r, (a', c'))"
    by (metis prod.exhaust)
  have "gen_end (pa_payload (sample_artifact (gen_of [''ab''] (Some KeyError)))) = Some KeyError"
    by (simp add: sample_artifact_def)
  from failing_feed_not_published [OF this run] run show ?thesis by auto
qed

lemma sample_publish_s3_runs:
  "\<exists>out p. publish (s3_ops sample_answer) (http_ops sample_httpx)
     (sample_artifact (gen_of [''ab'', ''c''] None)) (sample_s3, sample_client) = (Inr out, p)"
  by (simp add: run_defs s3_ops_def s3_open_def s3_start_def s3_write_chunk_def s3_finalize_def
      s3_complete_def upload_part_def or_abort_def retried_def svc_call_def sample_answer_def
      sample_s3_def s3_fresh_def MIN_PART_SIZE_def)

theorem publish_s3_http_witness:
  "\<exists>out a' c'. publish (s3_ops sample_answer) (http_ops sample_httpx)
       (sample_artifact (gen_of [''ab'', ''c''] None)) (sample_s3, sample_client) = (Inr out, (a', c'))
    \<and> (\<exists>ra. s3_stored sample_answer (sa_bucket (fst sample_s3)) a' ra
         (concat (gen_items (pa_payload (sample_artifact (gen_of [''ab'', ''c''] None))))))"
proof -
  obtain out a' c' where run: "publish (s3_ops sample_answer) (http_ops sample_httpx)
      (sample_artifact (gen_of [''ab'', ''c''] None)) (sample_s3, sample_client) = (Inr out, (a', c'))"
    using sample_publish_s3_runs by (metis prod.exhaust)
  from publish_s3_http [OF run] run show ?thesis by blast
qed

section \<open>Building\<close>

lemma build_side_errors:
  "build_side sd env t p w = (Inl e, w') \<Longrightarrow> isinstance e ''PublisherBuildError''"
  by (auto simp: build_side_def act_catch_def act_raise_def publisher_build_error_def err_def
      isinstance_def split: prod.splits sum.splits if_splits)

lemma act_bind_Inl:
  "act_bind m f s = (Inl e, s') \<longleftrightarrow>
     m s = (Inl e, s') \<or> (\<exists>x s1. m s = (Inr x, s1) \<and> f x s1 = (Inl e, s'))"
  by (auto simp: act_bind_def split: prod.splits sum.splits)

lemma build_publisher_Inl:
  "build_publisher aenv cenv cfg w = (Inl e, w') \<Longrightarrow> isinstance e ''PublisherBuildError''"
  by (auto simp: build_publisher_def act_catch_def act_raise_def publisher_build_error_def err_def
      isinstance_def split: prod.splits sum.splits if_splits option.splits)

text \<open>An unknown type key is reported under its stripped lower-case form.\<close>

lemma extract_entry_case: "strip s \<noteq> [] \<Longrightarrow> t \<noteq> [] \<Longrightarrow> lower (strip s) = lower (strip t) \<Longrightarrow>
    extract_entry sd reg (PyStr s) = extract_entry sd reg (PyStr t)"
  by (cases s; cases t) (auto simp: extract_entry_def strip_def lstrip_def)

end
