(* ===== verification/PFP_Pipeline_Spec.thy ===== *)
theory PFP_Pipeline_Spec
  imports PFP_Pipeline PFP_Publisher_Spec PFP_Producer_Spec
begin

text \<open>
  What a run of the pipeline reports, and that a successful run has stored and delivered the
  feed of its input.
\<close>

section \<open>The publish step is the publisher's cycle\<close>

text \<open>
  One action simulates another through a projection of the state when it returns or raises the
  same and leaves projected states equal.
\<close>

definition projects :: "('w \<Rightarrow> 'p) \<Rightarrow> ('w, 'a) act \<Rightarrow> ('p, 'a) act \<Rightarrow> bool" where
  "projects pr m n = (\<forall>w. n (pr w) = (fst (m w), pr (snd (m w))))"

lemma projectsD: "projects pr m n \<Longrightarrow> m w = (r, w') \<Longrightarrow> n (pr w) = (r, pr w')"
  by (simp add: projects_def)

lemma projects_bind:
  "projects pr m m' \<Longrightarrow> (\<And>x. projects pr (f x) (f' x)) \<Longrightarrow> projects pr (act_bind m f) (act_bind m' f')"
  by (auto simp: projects_def act_bind_def split: prod.splits sum.splits)

lemma projects_then:
  "projects pr m m' \<Longrightarrow> projects pr n n' \<Longrightarrow> projects pr (act_then m n) (act_then m' n')"
  unfolding act_then_def by (rule projects_bind)

lemma projects_silent:
  "(\<And>w. pr (f w) = pr w) \<Longrightarrow> projects pr n n' \<Longrightarrow> projects pr (act_then (act_modify f) n) n'"
  unfolding projects_def act_then_def act_bind_def act_modify_def by (metis case_prod_conv old.sum.simps(6))

lemma projects_return: "projects pr (act_return x) (act_return x)"
  by (simp add: projects_def act_return_def)

lemma projects_raise: "projects pr (act_raise e) (act_raise e)"
  by (simp add: projects_def act_raise_def)

definition instruments :: "('s, 't) run_world \<Rightarrow> 's \<times> 't" where
  "instruments w = (rw_archiver w, rw_client w)"

lemma projects_archiver: "projects instruments (on_archiver m) (on_fst m)"
  by (simp add: projects_def instruments_def on_archiver_def on_fst_def split: prod.splits)

lemma projects_client: "projects instruments (on_client m) (on_snd m)"
  by (simp add: projects_def instruments_def on_client_def on_snd_def split: prod.splits)

lemma instruments_note_pull [simp]: "instruments (note_pull st w) = instruments w"
  by (simp add: instruments_def note_pull_def)

lemmas projects_intros = projects_bind projects_then projects_return projects_raise
  projects_archiver projects_client

lemma projects_pull_chunks: "projects instruments (pull_chunks A C g sts) (stream_chunks A C g)"
proof (induction A C g sts rule: pull_chunks.induct)
  case (1 A C sts)
  show ?case unfolding pull_chunks.simps stream_chunks.simps
    by (rule projects_silent) (simp, intro projects_intros)
next
  case (2 A C e sts)
  show ?case unfolding pull_chunks.simps stream_chunks.simps
    by (rule projects_silent) (simp, intro projects_intros)
next
  case (3 A C chunk g sts)
  show ?case unfolding pull_chunks.simps stream_chunks.simps
    by (rule projects_silent) (simp, intro projects_intros 3)
qed

lemma publish_lazily_is_publish:
  "projects instruments (publish_lazily A C sts art) (publish A C art)"
  unfolding publish_lazily_def publish_def publish_with_def
  by (intro projects_intros projects_pull_chunks)

section \<open>What the observability wrappers leave alone\<close>

text \<open>A world without its clock, log, telemetry and timings.\<close>

definition essence :: "('s, 't) run_world \<Rightarrow> ('s, 't) run_world" where
  "essence w = w\<lparr>rw_ticks := 0, rw_log := [], rw_telemetry := [],
     rw_ctx := (rw_ctx w)\<lparr>rr_timings := []\<rparr>\<rparr>"

lemma essence_tick [simp]: "essence (w\<lparr>rw_ticks := n\<rparr>) = essence w"
  and essence_log [simp]: "essence (log_process level message w) = essence w"
  and essence_telemetry [simp]: "essence (w\<lparr>rw_telemetry := t\<rparr>) = essence w"
  by (simp_all add: essence_def log_process_def)

lemma essence_timings [simp]:
  "(\<And>c. (f c)\<lparr>rr_timings := []\<rparr> = c\<lparr>rr_timings := []\<rparr>) \<Longrightarrow> essence (on_ctx f w) = essence w"
  by (simp add: essence_def on_ctx_def)

lemma essence_log_validation [simp]: "essence (log_validation_diagnostics l i c report w) = essence w"
proof -
  have "essence (fold (\<lambda>d. log_process x (f d)) ds w) = essence w"
    for ds :: "diagnostic list" and x f and w :: "('s, 't) run_world"
    by (induction ds arbitrary: w) simp_all
  then show ?thesis by (simp add: log_validation_diagnostics_def)
qed

lemma essenceD:
  assumes "essence w = essence w'"
  shows "rw_usage w = rw_usage w'" "rw_report w = rw_report w'" "rw_archiver w = rw_archiver w'"
    "rw_client w = rw_client w'" "(rw_ctx w)\<lparr>rr_timings := []\<rparr> = (rw_ctx w')\<lparr>rr_timings := []\<rparr>"
  using arg_cong [OF assms, of rw_usage] arg_cong [OF assms, of rw_report]
    arg_cong [OF assms, of rw_archiver] arg_cong [OF assms, of rw_client]
    arg_cong [OF assms, of rw_ctx]
  by (simp_all add: essence_def)

lemma observed_essence:
  assumes "observed su l step_name stg stp w = (r, w')"
  obtains w1 w2 where "essence w1 = essence w" "stp w1 = (r, w2)" "essence w' = essence w2"
proof -
  define w1 where "w1 = w\<lparr>rw_ticks := Suc (Suc (rw_ticks w))\<rparr>"
  obtain w2 where w2: "stp w1 = (r, w2)" "essence w' = essence w2"
    using assms
    by (auto simp: observed_def record_timing_def emit_step_telemetry_def perf_counter_def Let_def w1_def
        split: prod.splits option.splits)
  have "essence w1 = essence w" by (simp add: w1_def)
  from that [OF this w2] show thesis .
qed

section \<open>The outcome of a run\<close>

text \<open>Nothing has been counted, failed or published yet.\<close>

definition idle :: "('s, 't) run_world \<Rightarrow> bool" where
  "idle w \<longleftrightarrow> fu_errors (rw_usage w) = 0 \<and> fu_artifacts (rw_usage w) = 0
     \<and> fu_processed (rw_usage w) = 0 \<and> fu_dropped (rw_usage w) = 0
     \<and> rr_artifact (rw_ctx w) = None \<and> rr_failed_step (rw_ctx w) = '''' \<and> rr_reason_code (rw_ctx w) = ''''"

lemma idle_essence: "essence w = essence w' \<Longrightarrow> idle w = idle w'"
  using essenceD(1) [of w w'] arg_cong [OF essenceD(5) [of w w'], of rr_artifact]
    arg_cong [OF essenceD(5) [of w w'], of rr_failed_step]
    arg_cong [OF essenceD(5) [of w w'], of rr_reason_code]
  by (simp add: idle_def)

lemma idle_start: "idle (start_run su mf w)"
  by (simp add: start_run_def perf_counter_def idle_def on_usage_def usage_reset_def usage_zero_def
      run_report_new_def Let_def)

lemma inc_diagnostic_counts [simp]:
  "fu_errors (inc_diagnostic k u) = fu_errors u" "fu_artifacts (inc_diagnostic k u) = fu_artifacts u"
  "fu_processed (inc_diagnostic k u) = fu_processed u" "fu_input (inc_diagnostic k u) = fu_input u"
  "fu_dropped (inc_diagnostic k u) = fu_dropped u"
  by (simp_all add: inc_diagnostic_def Let_def)

lemma fold_inc_diagnostic:
  "fu_errors (rw_usage (fold (\<lambda>d. on_usage (inc_diagnostic (f d))) ds w)) = fu_errors (rw_usage w)
   \<and> fu_artifacts (rw_usage (fold (\<lambda>d. on_usage (inc_diagnostic (f d))) ds w)) = fu_artifacts (rw_usage w)
   \<and> fu_processed (rw_usage (fold (\<lambda>d. on_usage (inc_diagnostic (f d))) ds w)) = fu_processed (rw_usage w)
   \<and> fu_dropped (rw_usage (fold (\<lambda>d. on_usage (inc_diagnostic (f d))) ds w)) = fu_dropped (rw_usage w)
   \<and> fu_input (rw_usage (fold (\<lambda>d. on_usage (inc_diagnostic (f d))) ds w)) = fu_input (rw_usage w)
   \<and> instruments (fold (\<lambda>d. on_usage (inc_diagnostic (f d))) ds w) = instruments w"
  by (induction ds arbitrary: w) (simp_all add: on_usage_def instruments_def)

lemma report_step_fields:
  fixes w :: "('s, 't) run_world" and clock :: "nat \<Rightarrow> rat"
  defines "rep \<equiv> fst (report_step clock w)" and "c \<equiv> rw_ctx w" and "u \<equiv> rw_usage w"
  shows "er_failed_step rep = rr_failed_step c" "er_reason_code rep = rr_reason_code c"
    "er_status rep = (if rr_failed_step c = '''' then ''SUCCESS'' else ''FAILED'')"
    "er_artifacts rep = (case rr_artifact c of None \<Rightarrow> [] | Some a \<Rightarrow> [a])"
    "fu_errors (er_usage rep) = fu_errors u + (if rr_failed_step c = '''' then 0 else 1)"
    "fu_processed (er_usage rep) = fu_processed u + (if rr_failed_step c = '''' then fu_input u else 0)"
    "fu_artifacts (er_usage rep) = fu_artifacts u +
       (if rr_failed_step c = '''' \<and> rr_artifact c \<noteq> None then 1 else 0)"
    "fu_dropped (er_usage rep) = fu_dropped u" "fu_input (er_usage rep) = fu_input u"
    "vr_diagnostics (er_validation_report rep) =
       (if rr_has_report c then map sanitize_diagnostic (vr_diagnostics (rw_report w)) else [])
       @ map sanitize_diagnostic (rr_ingestion_diagnostics c)"
    "instruments (snd (report_step clock w)) = instruments w"
proof -
  have adds: "vr_diagnostics (fold (\<lambda>d. report_add (sanitize_diagnostic d)) ds r) =
      vr_diagnostics r @ map sanitize_diagnostic ds" for ds r
    by (induction ds arbitrary: r) (simp_all add: report_add_def)
  note defs = report_step_def Let_def perf_counter_def on_ctx_def on_usage_def inc_error_def
    inc_artifacts_def inc_processed_def sanitize_validation_report_def instruments_def
  show "er_failed_step rep = rr_failed_step c" "er_reason_code rep = rr_reason_code c"
    "er_status rep = (if rr_failed_step c = '''' then ''SUCCESS'' else ''FAILED'')"
    "er_artifacts rep = (case rr_artifact c of None \<Rightarrow> [] | Some a \<Rightarrow> [a])"
    by (simp_all add: rep_def c_def defs)
  show "fu_errors (er_usage rep) = fu_errors u + (if rr_failed_step c = '''' then 0 else 1)"
    "fu_processed (er_usage rep) = fu_processed u + (if rr_failed_step c = '''' then fu_input u else 0)"
    "fu_artifacts (er_usage rep) = fu_artifacts u +
       (if rr_failed_step c = '''' \<and> rr_artifact c \<noteq> None then 1 else 0)"
    "fu_dropped (er_usage rep) = fu_dropped u" "fu_input (er_usage rep) = fu_input u"
    by (simp_all add: rep_def c_def u_def report_step_def Let_def perf_counter_def on_ctx_def
        fold_inc_diagnostic split: option.splits)
      (simp_all add: on_usage_def inc_error_def inc_artifacts_def inc_processed_def)
  show "vr_diagnostics (er_validation_report rep) =
       (if rr_has_report c then map sanitize_diagnostic (vr_diagnostics (rw_report w)) else [])
       @ map sanitize_diagnostic (rr_ingestion_diagnostics c)"
    by (simp add: rep_def c_def defs adds)
  have inst: "instruments (on_ctx f v) = instruments v" "instruments (on_usage g v) = instruments v"
    "instruments (v\<lparr>rw_ticks := n\<rparr>) = instruments v" for f g n and v :: "('s, 't) run_world"
    by (simp_all add: instruments_def on_ctx_def on_usage_def)
  show "instruments (snd (report_step clock w)) = instruments w"
    by (simp add: report_step_def Let_def perf_counter_def inst fold_inc_diagnostic
        split: option.splits)
qed

definition failure_codes :: "(string \<times> string) list" where
  "failure_codes =
     [(''INGESTION_EXTRACT'', ''INGESTION.EXTRACT_TIMEOUT''), (''INGESTION_EXTRACT'', ''INGESTION.EXTRACT_ERROR''),
      (''CORE_BUILD'', ''CORE.CONTRACT_ERROR''), (''INTERNAL'', ''INTERNAL.ERROR''),
      (''CORE_BUILD'', ''CORE.VALIDATION_FAILED''),
      (''PUBLISH'', ''PUBLISH.TIMEOUT''), (''PUBLISH'', ''PUBLISH.ERROR'')]"

definition outcome_ok :: "bool \<Rightarrow> terr + execution_report \<Rightarrow> bool" where
  "outcome_ok valid r =
     (case r of
        Inl e \<Rightarrow> e = terr_of_exn IndexError \<and> \<not> valid
      | Inr rep \<Rightarrow>
          if er_failed_step rep = '''' then
            er_status rep = ''SUCCESS'' \<and> er_reason_code rep = '''' \<and> (\<exists>a. er_artifacts rep = [a])
            \<and> fu_errors (er_usage rep) = 0 \<and> fu_artifacts (er_usage rep) = 1
            \<and> fu_processed (er_usage rep) = fu_input (er_usage rep) \<and> fu_dropped (er_usage rep) = 0
          else
            er_status rep = ''FAILED'' \<and> (er_failed_step rep, er_reason_code rep) \<in> set failure_codes
            \<and> er_artifacts rep = [] \<and> fu_errors (er_usage rep) = 1 \<and> fu_artifacts (er_usage rep) = 0
            \<and> fu_processed (er_usage rep) = 0 \<and> fu_dropped (er_usage rep) = 0)"

lemma idle_on_ctx [simp]:
  "(\<And>c. rr_artifact (f c) = rr_artifact c \<and> rr_failed_step (f c) = rr_failed_step c
      \<and> rr_reason_code (f c) = rr_reason_code c) \<Longrightarrow> idle (on_ctx f w) = idle w"
  by (simp add: idle_def on_ctx_def)

lemma idle_report [simp]: "idle (w\<lparr>rw_report := r\<rparr>) = idle w"
  by (simp add: idle_def)

lemma idle_log_validation [simp]: "idle (log_validation_diagnostics l i c report w) = idle w"
  by (rule idle_essence) simp

lemma failed_outcome:
  assumes "idle w" "(failed_step, reason) \<in> set failure_codes"
    "rr_failed_step (f (rw_ctx w)) = failed_step" "rr_reason_code (f (rw_ctx w)) = reason"
    "rr_artifact (f (rw_ctx w)) = rr_artifact (rw_ctx w)"
  shows "outcome_ok valid (fst (apfst Inr (report_step clock (on_ctx f w))))"
proof -
  have "failed_step \<noteq> ''''" using assms(2) by (auto simp: failure_codes_def)
  with assms show ?thesis
    by (simp add: outcome_ok_def report_step_fields on_ctx_def idle_def)
qed

lemma fail_with_outcome:
  assumes "idle w" "(failed_step, reason) \<in> set failure_codes"
  shows "outcome_ok valid (fst (fail_with su message failed_step reason exc w))"
proof -
  have "idle (log_process ''ERROR'' message w)"
    using assms(1) idle_essence [of "log_process ''ERROR'' message w" w] by simp
  from failed_outcome [OF this assms(2), of "fail_run failed_step reason exc"] show ?thesis
    by (simp add: fail_with_def fail_run_def)
qed

lemma pulling_idle: "preserves idle (publish_lazily A C sts art)"
proof -
  have note_idle: "preserves idle (act_modify (note_pull st))" for st
    by (simp add: preserves_def act_modify_def note_pull_def idle_def)
  have sides: "preserves idle (on_archiver m)" "preserves idle (on_client n)" for m n
    by (simp_all add: preserves_def on_archiver_def on_client_def idle_def split: prod.splits)
  have "preserves idle (pull_chunks A C g sts)" for g
    by (induction A C g sts rule: pull_chunks.induct)
      (simp_all only: pull_chunks.simps, (intro preserves_intros note_idle sides; assumption?)+)
  then show ?thesis
    unfolding publish_lazily_def publish_with_def by (intro preserves_intros sides)
qed

lemma publish_codes: "(''PUBLISH'', resolve_publish_reason_code e) \<in> set failure_codes"
  by (simp add: resolve_publish_reason_code_def failure_codes_def)

lemma ingestion_codes: "(''INGESTION_EXTRACT'', resolve_ingestion_reason_code e) \<in> set failure_codes"
  by (simp add: resolve_ingestion_reason_code_def failure_codes_def)

lemma run_publish_outcome:
  assumes "idle w" "pr_artifacts result = [] \<Longrightarrow> \<not> valid"
  shows "outcome_ok valid (fst (run_publish su mf sts result w))"
proof -
  obtain r w' where o: "observed su (build_metric_labels mf) ''publish'' ''publish''
      (publish_first mf sts result) w = (r, w')" by (metis prod.exhaust)
  then obtain w1 w2 where w: "essence w1 = essence w" "publish_first mf sts result w1 = (r, w2)"
    "essence w' = essence w2" by (rule observed_essence)
  have idle1: "idle w1" using idle_essence [OF w(1)] assms(1) by simp
  show ?thesis
  proof (cases "pr_artifacts result")
    case Nil
    then have "r = Inl (plain (terr_of_exn IndexError))" using w(2) by (simp add: publish_first_def)
    with assms(2) [OF Nil] show ?thesis
      using o by (simp add: run_publish_def plain_def outcome_ok_def isinstance_def terr_of_exn_def err_def)
  next
    case (Cons art arts)
    obtain q where q: "publish_lazily (mf_archiver mf) (mf_client mf) sts art w1 = (q, w2)"
      using w(2) Cons
      by (auto simp: publish_first_def publish_step_def guard_publish_def split: prod.splits sum.splits)
    have "idle w2" by (rule preserves_D [OF pulling_idle q idle1])
    then have "idle w'" using idle_essence [OF w(3)] by simp
    show ?thesis
    proof (cases r)
      case (Inr a)
      with \<open>idle w'\<close> o show ?thesis
        by (simp add: run_publish_def outcome_ok_def report_step_fields on_ctx_def idle_def)
    next
      case (Inl exc)
      have "isinstance (se_exc exc) ''PublishError''"
        using w(2) Cons Inl q
        by (auto simp: publish_first_def publish_step_def guard_publish_def plain_def wrapped_def
            isinstance_def err_def split: sum.splits if_splits)
      with \<open>idle w'\<close> o Inl show ?thesis
        by (simp add: run_publish_def fail_with_outcome publish_codes)
    qed
  qed
qed

lemma run_validated_outcome:
  assumes "idle w" "pr_artifacts result = [] \<Longrightarrow> \<not> valid"
  shows "outcome_ok valid (fst (run_validated su mf sts result w))"
proof -
  have code: "(''CORE_BUILD'', ''CORE.VALIDATION_FAILED'') \<in> set failure_codes"
    by (simp add: failure_codes_def)
  show ?thesis
    unfolding run_validated_def Let_def
    using assms by (auto simp del: fst_apfst intro!: run_publish_outcome failed_outcome [OF _ code])
qed

lemma core_errors:
  assumes "core_step codec now p um generated_at = Inl exc"
  shows "isinstance (se_exc exc) ''IngestionExtractIterationError''
    \<or> isinstance (se_exc exc) ''CoreError''
      \<and> (isinstance (se_exc exc) ''CoreContractError'' \<longleftrightarrow> isinstance (se_original exc) ''ValueError'')"
proof -
  obtain x where x: "guard_core (Inl (terr_of_exn x) :: terr + production_result) = Inl exc"
    using assms by (auto simp: core_step_def guard_core_def split: sum.splits)
  then show ?thesis
    by (cases x) (auto simp: guard_core_def plain_def wrapped_def terr_of_exn_def isinstance_def err_def)
qed

lemma valid_produces:
  assumes "core_step codec now p um generated_at = Inr result" "cs_is_valid (ps_compiled (pd_prepared p))"
  obtains w v m meta out s where "ps_writer (pd_prepared p) = Some w" "build_payload_iter p = Inr (v, m)"
    "payload_chain codec w (producer_step (pd_policies p) (ps_compiled (pd_prepared p)) v m)
       (producer_init (pd_prepared p)) um = (out, s)"
    "pr_artifacts result = [\<lparr>pa_payload = out, pa_after = s, pa_metadata = meta\<rparr>]"
    "pr_report result = empty_report (pd_prepared p)"
    "produce_artifacts codec now p um generated_at = Inr result"
proof -
  have r: "produce_artifacts codec now p um generated_at = Inr result"
    using assms(1) by (auto simp: core_step_def guard_core_def split: sum.splits)
  then obtain w v m meta where w: "ps_writer (pd_prepared p) = Some w" "build_payload_iter p = Inr (v, m)"
    "(case payload_chain codec w (producer_step (pd_policies p) (ps_compiled (pd_prepared p)) v m)
        (producer_init (pd_prepared p)) um of
        (out, s) \<Rightarrow> (Inr \<lparr>pr_artifacts = [\<lparr>pa_payload = out, pa_after = s, pa_metadata = meta\<rparr>],
                        pr_report = empty_report (pd_prepared p)\<rparr> :: production_result PFP_Prelude.result))
      = Inr result"
    using assms(2)
    by (auto simp: produce_artifacts_def rbind_Inr_iff Let_def split: option.splits if_splits)
  obtain out s where "payload_chain codec w (producer_step (pd_policies p) (ps_compiled (pd_prepared p)) v m)
        (producer_init (pd_prepared p)) um = (out, s)" by (metis prod.exhaust)
  with w r show thesis by (intro that [of w v m out s meta]) auto
qed

lemma run_core_outcome:
  fixes mf :: "('i, 's, 't) pipeline_manifest"
  assumes "idle w"
  shows "outcome_ok (cs_is_valid (ps_compiled (pd_prepared (mf_producer mf)))) (fst (run_core su mf um w))"
proof -
  define g where "g = run_generated_at mf"
  define stp :: "('s, 't) run_world \<Rightarrow> _" where
    "stp = (\<lambda>w. (core_step (su_codec su) (su_now su) (mf_producer mf) um g, w))"
  obtain r w' where o: "observed su (build_metric_labels mf) ''core'' ''core'' stp w = (r, w')"
    by (metis prod.exhaust)
  then obtain w1 w2 where "essence w1 = essence w" "stp w1 = (r, w2)" "essence w' = essence w2"
    by (rule observed_essence)
  then have r: "core_step (su_codec su) (su_now su) (mf_producer mf) um g = r" and "essence w' = essence w"
    by (auto simp: stp_def)
  then have idle': "idle w'" using idle_essence assms by blast
  have run: "run_core su mf um w = (case (r, w') of
           (Inr result, w1) \<Rightarrow>
             run_validated su mf (feed_trace (su_codec su) (mf_producer mf) um) result w1
         | (Inl exc, w1) \<Rightarrow>
             if isinstance (se_exc exc) ''IngestionExtractIterationError''
             then fail_with su ''Ingestion iteration failed'' ''INGESTION_EXTRACT''
                    (resolve_ingestion_reason_code (se_original exc)) exc w1
             else if isinstance (se_exc exc) ''CoreError''
             then (if isinstance (se_exc exc) ''CoreContractError''
                   then fail_with su ''Core contract error'' ''CORE_BUILD''
                          (resolve_core_reason_code (se_original exc)) exc w1
                   else fail_with su ''Core execution failed'' ''INTERNAL''
                          (resolve_core_reason_code (se_original exc)) exc w1)
             else (Inl (se_exc exc), w1))"
    unfolding run_core_def Let_def g_def [symmetric] stp_def [symmetric] o ..
  show ?thesis
  proof (cases r)
    case (Inr result)
    have "outcome_ok (cs_is_valid (ps_compiled (pd_prepared (mf_producer mf))))
        (fst (run_validated su mf (feed_trace (su_codec su) (mf_producer mf) um) result w'))"
      using valid_produces [OF r [unfolded Inr]] by (intro run_validated_outcome idle') auto
    then show ?thesis using Inr by (simp add: run)
  next
    case (Inl exc)
    from core_errors [OF r [unfolded Inl]] show ?thesis
      using idle' Inl
      by (auto simp: run resolve_core_reason_code_def failure_codes_def
          intro!: fail_with_outcome ingestion_codes)
  qed
qed

lemma run_pipeline_outcome:
  fixes mf :: "('i, 's, 't) pipeline_manifest"
  shows "outcome_ok (cs_is_valid (ps_compiled (pd_prepared (mf_producer mf))))
    (fst (run_pipeline su mf input_data w))"
proof -
  define stp :: "('s, 't) run_world \<Rightarrow> _" where
    "stp = (\<lambda>w. (ingestion_step (mf_extract mf) input_data, w))"
  obtain r w' where o: "observed su (build_metric_labels mf) ''ingestion_extract'' ''ingestion_extract'' stp
      (start_run su mf w) = (r, w')" by (metis prod.exhaust)
  then obtain w1 w2 where "essence w1 = essence (start_run su mf w)" "stp w1 = (r, w2)"
    "essence w' = essence w2" by (rule observed_essence)
  then have r: "ingestion_step (mf_extract mf) input_data = r"
    and "essence w' = essence (start_run su mf w)" by (auto simp: stp_def)
  then have idle': "idle w'" using idle_essence idle_start by blast
  show ?thesis
  proof (cases r)
    case (Inl exc)
    then have "isinstance (se_exc exc) ''IngestionExtractCallError''"
      using r by (auto simp: ingestion_step_def wrapped_def isinstance_def err_def split: sum.splits)
    then show ?thesis
      using o Inl idle' unfolding run_pipeline_def stp_def [symmetric]
      by (simp add: fail_with_outcome ingestion_codes)
  next
    case (Inr p)
    then show ?thesis
      using o idle' unfolding run_pipeline_def stp_def [symmetric]
      by (simp add: run_core_outcome split: prod.split)
  qed
qed

text \<open>
  C15: Every run ends in one of three ways.  It returns a SUCCESS report, with an empty step and
  reason code, exactly one published artifact, no error and one artifact counted; or a FAILED
  report, with a step and reason code of the fixed table, no artifact and one error counted; or
  an \<open>IndexError\<close> escapes, which happens for a schema that compiled as invalid only and is not
  what the interface of \<open>run\<close> promises.  No other exception escapes, and no report mixes the two.
\<close>

theorem run_outcome:
  "case fst (run_pipeline su mf input_data w) of
     Inl e \<Rightarrow> e = terr_of_exn IndexError \<and> \<not> cs_is_valid (ps_compiled (pd_prepared (mf_producer mf)))
   | Inr rep \<Rightarrow>
       if er_failed_step rep = '''' then
         er_status rep = ''SUCCESS'' \<and> er_reason_code rep = '''' \<and> (\<exists>a. er_artifacts rep = [a])
         \<and> fu_errors (er_usage rep) = 0 \<and> fu_artifacts (er_usage rep) = 1
       else
         er_status rep = ''FAILED'' \<and> (er_failed_step rep, er_reason_code rep) \<in> set failure_codes
         \<and> er_artifacts rep = [] \<and> fu_errors (er_usage rep) = 1 \<and> fu_artifacts (er_usage rep) = 0"
  using run_pipeline_outcome [of mf su input_data w]
  by (simp add: outcome_ok_def split: sum.splits if_splits)

text \<open>
  The item counters do not tell dropped products from processed ones: a successful run counts
  every item it took in as processed, and \<open>dropped\<close> is 0 in every report.
\<close>

lemma drops_not_counted:
  "case fst (run_pipeline su mf input_data w) of
     Inl e \<Rightarrow> True
   | Inr rep \<Rightarrow> fu_dropped (er_usage rep) = 0
       \<and> fu_processed (er_usage rep) = (if er_failed_step rep = '''' then fu_input (er_usage rep) else 0)"
  using run_pipeline_outcome [of mf su input_data w]
  by (simp add: outcome_ok_def split: sum.splits if_splits)

section \<open>A successful run\<close>

text \<open>The states beside the payload: as many as chunks, then the state the producer ends in.\<close>

lemma watched_run:
  fixes f :: "producer_state \<Rightarrow> pyval \<Rightarrow> (producer_state, wrecord) outcome"
  assumes "run (watched (chained (chained count_item f) g)) ((n, s), t) um = (out, ((n', s'), t'))"
  shows "run (chained f g) (s, t) um = (gen_of (map fst (gen_items out)) (gen_end out), (s', t'))"
    "n' \<le> n + length (gen_items um)"
proof -
  define F where "F = watched (chained (chained count_item f) g)"
  have step: "F ((n, s), t) x =
      (case chained f g (s, t) x of
         Go st None \<Rightarrow> Go ((Suc n, fst st), snd st) None
       | Go st (Some y) \<Rightarrow> Go ((Suc n, fst st), snd st) (Some (y, (Suc n, fst st), snd st))
       | Halt st \<Rightarrow> Halt ((Suc n, fst st), snd st)
       | Fail st e \<Rightarrow> Fail ((Suc n, fst st), snd st) e)" for n s t x
    by (auto simp: F_def split: outcome.splits option.splits)
  have "run F ((n, s), t) um = (out, ((n', s'), t')) \<Longrightarrow>
      run (chained f g) (s, t) um = (gen_of (map fst (gen_items out)) (gen_end out), (s', t'))
      \<and> n' \<le> n + length (gen_items um)"
  proof (induction um arbitrary: n s t out)
    case (Yield x um)
    show ?case
    proof (cases "chained f g (s, t) x")
      case (Go st y)
      show ?thesis
      proof (cases y)
        case None
        with Go Yield.prems Yield.IH [of "Suc n" "fst st" "snd st" out] show ?thesis by (simp add: step)
      next
        case (Some c)
        obtain out1 u where r: "run F ((Suc n, fst st), snd st) um = (out1, u)"
          by (cases "run F ((Suc n, fst st), snd st) um")
        with Go Some Yield.prems have "u = ((n', s'), t')" "out = Yield (c, (Suc n, fst st), snd st) out1"
          by (simp_all add: step)
        with r Go Some Yield.IH [of "Suc n" "fst st" "snd st" out1] show ?thesis by simp
      qed
    qed (use Yield.prems in \<open>auto simp: step\<close>)
  qed auto
  with assms show "run (chained f g) (s, t) um = (gen_of (map fst (gen_items out)) (gen_end out), (s', t'))"
    "n' \<le> n + length (gen_items um)" by (auto simp: F_def)
qed

lemma chain_trace_end:
  assumes "payload_chain codec w step s um = (out, s')"
  shows "\<exists>n \<le> length (gen_items um). chain_trace codec w step s um ! length (gen_items out) = (n, s')
    \<and> length (chain_trace codec w step s um) = Suc (length (gen_items out))"
proof (cases "writer_open codec w")
  case (Inl e)
  then show ?thesis using assms by (auto simp: payload_chain_def chain_trace_def)
next
  case (Inr p)
  obtain ws h where p: "p = (ws, h)" by (cases p)
  obtain out1 n s1 t1 where r: "run (watched (chained (chained count_item step) (writer_step codec w)))
      ((0, s), ws) um = (out1, ((n, s1), t1))" by (metis prod.exhaust)
  note wr = watched_run [OF r]
  from assms Inr p wr have "out = header_then h (gen_of (map fst (gen_items out1)) (gen_end out1))" "s1 = s'"
    by (auto simp: payload_chain_def drain_is_run)
  then show ?thesis
    using Inr p r wr(2)
    by (auto simp: chain_trace_def drain_is_run header_then_def nth_append split: option.splits)
qed

lemma pull_chunks_end:
  assumes "pull_chunks A C g sts w = (Inr chunks, w')" "length sts = Suc (length (gen_items g))"
  shows "rw_report w' = ps_report (snd (sts ! length (gen_items g)))"
    "fu_input (rw_usage w') = fst (sts ! length (gen_items g))" "rw_ctx w' = rw_ctx w"
proof -
  have "rw_report w' = ps_report (snd (sts ! length (gen_items g)))
      \<and> fu_input (rw_usage w') = fst (sts ! length (gen_items g)) \<and> rw_ctx w' = rw_ctx w"
    using assms
  proof (induction A C g sts arbitrary: w chunks rule: pull_chunks.induct)
    case (1 A C sts)
    then show ?case
      by (cases sts) (auto simp: act_then_Inr act_modify_def act_return_def note_pull_def)
  next
    case (2 A C e sts)
    then show ?case by (simp add: act_then_Inr act_raise_def)
  next
    case (3 A C chunk g sts)
    from "3.prems"(2) obtain st sts' where sts: "sts = st # sts'" "length sts' = Suc (length (gen_items g))"
      by (cases sts) auto
    from "3.prems"(1) sts obtain w1 w2 cs where w: "on_archiver (ao_write_chunk A chunk) (note_pull st w) = (Inr (), w1)"
      "on_client (co_send_chunk C chunk) w1 = (Inr (), w2)" "pull_chunks A C g sts' w2 = (Inr cs, w')"
      by (auto simp: act_then_Inr act_bind_Inr act_return_def act_modify_def)
    have "rw_ctx w2 = rw_ctx w"
      using w(1,2) by (auto simp: on_archiver_def on_client_def note_pull_def split: prod.splits)
    with "3.IH" [of w2 cs] w(3) sts show ?case by simp
  qed
  then show "rw_report w' = ps_report (snd (sts ! length (gen_items g)))"
    "fu_input (rw_usage w') = fst (sts ! length (gen_items g))" "rw_ctx w' = rw_ctx w" by auto
qed

lemma publish_lazily_end:
  assumes "publish_lazily A C sts art w = (Inr a, w')" "length sts = Suc (length (gen_items (pa_payload art)))"
  shows "rw_report w' = ps_report (snd (sts ! length (gen_items (pa_payload art))))"
    "fu_input (rw_usage w') = fst (sts ! length (gen_items (pa_payload art)))" "rw_ctx w' = rw_ctx w"
proof -
  from assms(1) obtain w1 w2 w3 w4 cs x y where w: "on_archiver (ao_open A) w = (Inr (), w1)"
    "on_client (co_open C) w1 = (Inr (), w2)" "pull_chunks A C (pa_payload art) sts w2 = (Inr cs, w3)"
    "on_archiver (ao_finalize A) w3 = (Inr x, w4)" "on_client (co_finalize C) w4 = (Inr y, w')"
    by (auto simp: publish_lazily_def publish_with_def act_then_Inr act_bind_Inr act_return_def)
  note e = pull_chunks_end [OF w(3) assms(2)]
  have "rw_report w' = rw_report w3" "rw_usage w' = rw_usage w3" "rw_ctx w' = rw_ctx w3" "rw_ctx w2 = rw_ctx w"
    using w by (auto simp: on_archiver_def on_client_def split: prod.splits)
  with e show "rw_report w' = ps_report (snd (sts ! length (gen_items (pa_payload art))))"
    "fu_input (rw_usage w') = fst (sts ! length (gen_items (pa_payload art)))" "rw_ctx w' = rw_ctx w"
    by simp_all
qed

lemma instruments_observed [simp]:
  "instruments (w\<lparr>rw_report := r\<rparr>) = instruments w" "instruments (on_ctx f w) = instruments w"
  by (simp_all add: instruments_def on_ctx_def)

lemma essence_instruments: "essence w = essence w' \<Longrightarrow> instruments w = instruments w'"
  using essenceD(3,4) [of w w'] by (simp add: instruments_def)

lemma essence_diagnostics:
  assumes "essence w = essence w'"
  shows "rr_ingestion_diagnostics (rw_ctx w) = rr_ingestion_diagnostics (rw_ctx w')"
    "rr_has_report (rw_ctx w) = rr_has_report (rw_ctx w')"
  using arg_cong [OF essenceD(5) [OF assms], of rr_ingestion_diagnostics]
    arg_cong [OF essenceD(5) [OF assms], of rr_has_report] by simp_all

lemma fail_with_failed:
  assumes "fail_with su message failed_step reason exc w = (Inr rep, w')"
  shows "er_failed_step rep = failed_step"
  using assms report_step_fields(1) [of "su_clock su"
      "on_ctx (fail_run failed_step reason exc) (log_process ''ERROR'' message w)"]
  by (auto simp: fail_with_def on_ctx_def fail_run_def apfst_def map_prod_def split: prod.splits)

lemma run_publish_success:
  assumes "run_publish su mf sts result w = (Inr rep, w')" "er_failed_step rep = ''''"
    "pr_artifacts result = [art]" "length sts = Suc (length (gen_items (pa_payload art)))"
    "rr_has_report (rw_ctx w)"
  shows "\<exists>a. publish (mf_archiver mf) (mf_client mf) art (instruments w) = (Inr a, instruments w')
    \<and> er_artifacts rep = [a]
    \<and> vr_diagnostics (er_validation_report rep) =
        map sanitize_diagnostic (vr_diagnostics (ps_report (snd (sts ! length (gen_items (pa_payload art))))))
        @ map sanitize_diagnostic (rr_ingestion_diagnostics (rw_ctx w))
    \<and> fu_input (er_usage rep) = fst (sts ! length (gen_items (pa_payload art)))"
proof -
  obtain r w3 where o: "observed su (build_metric_labels mf) ''publish'' ''publish''
      (publish_first mf sts result) w = (r, w3)" by (metis prod.exhaust)
  then obtain w1 w2 where w: "essence w1 = essence w" "publish_first mf sts result w1 = (r, w2)"
    "essence w3 = essence w2" by (rule observed_essence)
  show ?thesis
  proof (cases r)
    case (Inl exc)
    have "isinstance (se_exc exc) ''PublishError''"
      using w(2) assms(3) Inl
      by (auto simp: publish_first_def publish_step_def guard_publish_def plain_def wrapped_def
          isinstance_def err_def split: sum.splits if_splits prod.splits)
    then show ?thesis
      using assms(1,2) o Inl by (auto simp: run_publish_def dest: fail_with_failed)
  next
    case (Inr a)
    have p: "publish_lazily (mf_archiver mf) (mf_client mf) sts art w1 = (Inr a, w2)"
      using w(2) assms(3) Inr
      by (auto simp: publish_first_def publish_step_def guard_publish_def split: prod.splits sum.splits)
    let ?w = "on_ctx (\<lambda>c. c\<lparr>rr_artifact := Some a\<rparr>) w3"
    have rep: "rep = fst (report_step (su_clock su) ?w)" "w' = snd (report_step (su_clock su) ?w)"
      using assms(1) o Inr by (auto simp: run_publish_def apfst_def map_prod_def split: prod.splits)
    have "publish (mf_archiver mf) (mf_client mf) art (instruments w1) = (Inr a, instruments w2)"
      by (rule projectsD [OF publish_lazily_is_publish p])
    then have pub: "publish (mf_archiver mf) (mf_client mf) art (instruments w) = (Inr a, instruments w')"
      using essence_instruments [OF w(1)] essence_instruments [OF w(3)]
      by (simp add: rep(2) report_step_fields(11))
    note e = publish_lazily_end [OF p assms(4)]
    have ctx: "rw_report w3 = rw_report w2" "rw_usage w3 = rw_usage w2"
      "rr_has_report (rw_ctx w3)"
      "rr_ingestion_diagnostics (rw_ctx w3) = rr_ingestion_diagnostics (rw_ctx w)"
      using essenceD(1,2) [OF w(3)] essence_diagnostics [OF w(3)] essence_diagnostics [OF w(1)] e(3) assms(5)
      by simp_all
    show ?thesis
      using pub e(1,2) ctx
      by (intro exI [of _ a]) (simp add: rep(1) report_step_fields(4,9,10) on_ctx_def)
  qed
qed

lemma run_validated_success:
  assumes "run_validated su mf sts result w = (Inr rep, w')" "er_failed_step rep = ''''"
    "pr_artifacts result = [art]" "length sts = Suc (length (gen_items (pa_payload art)))"
  shows "\<exists>a. publish (mf_archiver mf) (mf_client mf) art (instruments w) = (Inr a, instruments w')
    \<and> er_artifacts rep = [a]
    \<and> vr_diagnostics (er_validation_report rep) =
        map sanitize_diagnostic (vr_diagnostics (ps_report (snd (sts ! length (gen_items (pa_payload art))))))
        @ map sanitize_diagnostic (rr_ingestion_diagnostics (rw_ctx w))
    \<and> fu_input (er_usage rep) = fst (sts ! length (gen_items (pa_payload art)))"
proof -
  define w2 where "w2 = log_validation_diagnostics (build_metric_labels mf)
    (rr_run_id (rw_ctx w)) (rr_correlation_id (rw_ctx w)) (pr_report result) (w\<lparr>rw_report := pr_report result\<rparr>)"
  define w3 where "w3 = on_ctx (\<lambda>c. c\<lparr>rr_has_report := True\<rparr>) w2"
  have e: "essence w2 = essence (w\<lparr>rw_report := pr_report result\<rparr>)" by (simp add: w2_def)
  have "\<not> (mf_fail_on_error mf \<and> has_error_diagnostics (pr_report result))"
  proof
    assume "mf_fail_on_error mf \<and> has_error_diagnostics (pr_report result)"
    then have "rep = fst (report_step (su_clock su) (on_ctx (\<lambda>c. c\<lparr>rr_failed_step := ''CORE_BUILD'',
          rr_reason_code := ''CORE.VALIDATION_FAILED'',
          rr_message := ''Validation report contains ERROR diagnostics''\<rparr>) w3))"
      using assms(1) by (simp add: run_validated_def w3_def w2_def Let_def apfst_def map_prod_def split: prod.splits)
    then have "er_failed_step rep = ''CORE_BUILD''"
      by (simp only: report_step_fields) (simp add: on_ctx_def)
    with assms(2) show False by simp
  qed
  then have "run_publish su mf sts result w3 = (Inr rep, w')"
    using assms(1) by (auto simp: run_validated_def w3_def w2_def Let_def)
  moreover have "instruments w3 = instruments w" "rr_has_report (rw_ctx w3)"
    "rr_ingestion_diagnostics (rw_ctx w3) = rr_ingestion_diagnostics (rw_ctx w)"
    using essence_instruments [OF e] essence_diagnostics [OF e]
    by (simp_all add: w3_def) (simp_all add: on_ctx_def)
  ultimately show ?thesis using run_publish_success [of su mf sts result w3 rep w' art] assms(2-4) by simp
qed

lemma run_core_success:
  fixes mf :: "('i, 's, 't) pipeline_manifest"
  assumes "run_core su mf um w = (Inr rep, w')" "er_failed_step rep = ''''"
    "cs_is_valid (ps_compiled (pd_prepared (mf_producer mf)))"
  shows "\<exists>result art a. produce_artifacts (su_codec su) (su_now su) (mf_producer mf) um (run_generated_at mf) = Inr result
    \<and> pr_artifacts result = [art]
    \<and> publish (mf_archiver mf) (mf_client mf) art (instruments w) = (Inr a, instruments w')
    \<and> er_artifacts rep = [a]
    \<and> vr_diagnostics (er_validation_report rep) =
        map sanitize_diagnostic (vr_diagnostics (ps_report (pa_after art)) @ rr_ingestion_diagnostics (rw_ctx w))
    \<and> fu_input (er_usage rep) \<le> length (gen_items um)"
proof -
  define g where "g = run_generated_at mf"
  define stp :: "('s, 't) run_world \<Rightarrow> _" where
    "stp = (\<lambda>w. (core_step (su_codec su) (su_now su) (mf_producer mf) um g, w))"
  obtain r w3 where o: "observed su (build_metric_labels mf) ''core'' ''core'' stp w = (r, w3)"
    by (metis prod.exhaust)
  then obtain w1 w2 where "essence w1 = essence w" "stp w1 = (r, w2)" "essence w3 = essence w2"
    by (rule observed_essence)
  then have r: "core_step (su_codec su) (su_now su) (mf_producer mf) um g = r" and ess: "essence w3 = essence w"
    by (auto simp: stp_def)
  show ?thesis
  proof (cases r)
    case (Inl exc)
    then show ?thesis
      using assms(1,2) o unfolding run_core_def Let_def g_def [symmetric] stp_def [symmetric] o
      by (auto dest!: fail_with_failed split: if_splits)
  next
    case (Inr result)
    from valid_produces [OF r [unfolded Inr] assms(3)]
    obtain wr v m meta out s where d: "ps_writer (pd_prepared (mf_producer mf)) = Some wr"
      "build_payload_iter (mf_producer mf) = Inr (v, m)"
      "payload_chain (su_codec su) wr (producer_step (pd_policies (mf_producer mf))
          (ps_compiled (pd_prepared (mf_producer mf))) v m)
         (producer_init (pd_prepared (mf_producer mf))) um = (out, s)"
      "pr_artifacts result = [\<lparr>pa_payload = out, pa_after = s, pa_metadata = meta\<rparr>]"
      "produce_artifacts (su_codec su) (su_now su) (mf_producer mf) um g = Inr result" .
    from chain_trace_end [OF d(3)] d(1,2) obtain n where
      tr: "n \<le> length (gen_items um)"
        "feed_trace (su_codec su) (mf_producer mf) um ! length (gen_items out) = (n, s)"
        "length (feed_trace (su_codec su) (mf_producer mf) um) = Suc (length (gen_items out))"
      by (auto simp: feed_trace_def)
    have "run_validated su mf (feed_trace (su_codec su) (mf_producer mf) um) result w3 = (Inr rep, w')"
      using assms(1) Inr unfolding run_core_def Let_def g_def [symmetric] stp_def [symmetric] o by simp
    from run_validated_success [OF this assms(2) d(4)] tr d(4,5) show ?thesis
      using essence_instruments [OF ess] essence_diagnostics [OF ess]
      by (intro exI [of _ result]) (auto simp: g_def)
  qed
qed

lemma run_pipeline_success:
  fixes mf :: "('i, 's, 't) pipeline_manifest"
  assumes "run_pipeline su mf input_data w = (Inr rep, w')" "er_status rep = ''SUCCESS''"
    "cs_is_valid (ps_compiled (pd_prepared (mf_producer mf)))"
  shows "\<exists>items diags result art a. mf_extract mf input_data = Inr (items, diags)
    \<and> produce_artifacts (su_codec su) (su_now su) (mf_producer mf) (guard_ingestion_stream items) (run_generated_at mf) = Inr result
    \<and> pr_artifacts result = [art]
    \<and> publish (mf_archiver mf) (mf_client mf) art (instruments w) = (Inr a, instruments w')
    \<and> er_artifacts rep = [a]
    \<and> vr_diagnostics (er_validation_report rep) =
        map sanitize_diagnostic (vr_diagnostics (ps_report (pa_after art)) @ diags)
    \<and> fu_input (er_usage rep) \<le> length (gen_items items)"
proof -
  have ok: "er_failed_step rep = ''''"
    using run_pipeline_outcome [of mf su input_data w] assms(1,2)
    by (auto simp: outcome_ok_def split: if_splits)
  define stp :: "('s, 't) run_world \<Rightarrow> _" where
    "stp = (\<lambda>w. (ingestion_step (mf_extract mf) input_data, w))"
  obtain r w3 where o: "observed su (build_metric_labels mf) ''ingestion_extract'' ''ingestion_extract'' stp
      (start_run su mf w) = (r, w3)" by (metis prod.exhaust)
  then obtain w1 w2 where "essence w1 = essence (start_run su mf w)" "stp w1 = (r, w2)"
    "essence w3 = essence w2" by (rule observed_essence)
  then have r: "ingestion_step (mf_extract mf) input_data = r"
    and ess: "essence w3 = essence (start_run su mf w)" by (auto simp: stp_def)
  have len: "length (gen_items (guard_ingestion_stream items)) = length (gen_items items)"
    for items :: "pyval gen" by (induction items) simp_all
  have start: "instruments (start_run su mf w) = instruments w"
    by (simp add: start_run_def perf_counter_def on_usage_def instruments_def Let_def)
  show ?thesis
  proof (cases r)
    case (Inl exc)
    then show ?thesis
      using assms(1) ok o unfolding run_pipeline_def stp_def [symmetric] o
      by (auto dest!: fail_with_failed split: if_splits)
  next
    case (Inr p)
    obtain items diags where x: "mf_extract mf input_data = Inr (items, diags)"
      "p = (guard_ingestion_stream items, diags)"
      using r Inr by (auto simp: ingestion_step_def split: sum.splits)
    have "run_core su mf (guard_ingestion_stream items)
        (on_ctx (\<lambda>c. c\<lparr>rr_ingestion_diagnostics := diags\<rparr>) w3) = (Inr rep, w')"
      using assms(1) Inr x(2) unfolding run_pipeline_def stp_def [symmetric] o by simp
    moreover have "rr_ingestion_diagnostics (rw_ctx
        (on_ctx (\<lambda>c. c\<lparr>rr_ingestion_diagnostics := diags\<rparr>) w3)) = diags" by (simp add: on_ctx_def)
    ultimately show ?thesis
      using run_core_success [of su mf "guard_ingestion_stream items"
          "on_ctx (\<lambda>c. c\<lparr>rr_ingestion_diagnostics := diags\<rparr>) w3" rep w'] ok assms(3) x(1)
        essence_instruments [OF ess] start len by simp
  qed
qed

text \<open>Conversely, when extraction, production and publication succeed, so does the run.\<close>

lemma publish_lazily_project:
  assumes "publish A C art (instruments w) = (Inr a, p)"
  obtains w' where "publish_lazily A C sts art w = (Inr a, w')"
proof -
  obtain r w' where l: "publish_lazily A C sts art w = (r, w')" by (metis prod.exhaust)
  with projectsD [OF publish_lazily_is_publish l] assms have "r = Inr a" by simp
  with l show thesis by (intro that) simp
qed

lemma run_publish_succeeds:
  assumes "pr_artifacts result = [art]" "publish (mf_archiver mf) (mf_client mf) art (instruments w) = (Inr a, p)"
    "idle w"
  shows "\<exists>rep w'. run_publish su mf sts result w = (Inr rep, w') \<and> er_status rep = ''SUCCESS''"
proof -
  obtain r w3 where o: "observed su (build_metric_labels mf) ''publish'' ''publish''
      (publish_first mf sts result) w = (r, w3)" by (metis prod.exhaust)
  then obtain w1 w2 where w: "essence w1 = essence w" "publish_first mf sts result w1 = (r, w2)"
    "essence w3 = essence w2" by (rule observed_essence)
  have "publish (mf_archiver mf) (mf_client mf) art (instruments w1) = (Inr a, p)"
    using assms(2) essence_instruments [OF w(1)] by simp
  then obtain v where v: "publish_lazily (mf_archiver mf) (mf_client mf) sts art w1 = (Inr a, v)"
    by (rule publish_lazily_project)
  then have r: "r = Inr a" "w2 = v"
    using w(2) assms(1) by (auto simp: publish_first_def publish_step_def guard_publish_def)
  have "idle v" by (rule preserves_D [OF pulling_idle v]) (use idle_essence [OF w(1)] assms(3) in simp)
  then have "idle w3" using idle_essence [OF w(3)] r(2) by simp
  then have "er_status (fst (report_step (su_clock su) (on_ctx (\<lambda>c. c\<lparr>rr_artifact := Some a\<rparr>) w3))) = ''SUCCESS''"
    by (simp add: report_step_fields on_ctx_def idle_def)
  then show ?thesis
    using o r by (auto simp: run_publish_def apfst_def map_prod_def split: prod.splits)
qed

lemma run_validated_succeeds:
  assumes "pr_artifacts result = [art]" "publish (mf_archiver mf) (mf_client mf) art (instruments w) = (Inr a, p)"
    "idle w" "\<not> has_error_diagnostics (pr_report result)"
  shows "\<exists>rep w'. run_validated su mf sts result w = (Inr rep, w') \<and> er_status rep = ''SUCCESS''"
proof -
  let ?w = "on_ctx (\<lambda>c. c\<lparr>rr_has_report := True\<rparr>) (log_validation_diagnostics (build_metric_labels mf)
    (rr_run_id (rw_ctx w)) (rr_correlation_id (rw_ctx w)) (pr_report result) (w\<lparr>rw_report := pr_report result\<rparr>))"
  have "instruments ?w = instruments w"
    using essence_instruments [of "log_validation_diagnostics (build_metric_labels mf) (rr_run_id (rw_ctx w))
      (rr_correlation_id (rw_ctx w)) (pr_report result) (w\<lparr>rw_report := pr_report result\<rparr>)"
      "w\<lparr>rw_report := pr_report result\<rparr>"] by simp
  then show ?thesis
    using run_publish_succeeds [of result art mf ?w a p su sts] assms
    by (simp add: run_validated_def Let_def)
qed

lemma run_pipeline_succeeds:
  fixes mf :: "('i, 's, 't) pipeline_manifest"
  assumes "mf_extract mf input_data = Inr (items, diags)"
    "run_generated_at mf = gat"
    "produce_artifacts (su_codec su) (su_now su) (mf_producer mf) (guard_ingestion_stream items) gat = Inr result"
    "cs_is_valid (ps_compiled (pd_prepared (mf_producer mf)))"
    "pr_artifacts result = [art]" "publish (mf_archiver mf) (mf_client mf) art (instruments w) = (Inr a, p)"
  shows "\<exists>rep w'. run_pipeline su mf input_data w = (Inr rep, w') \<and> er_status rep = ''SUCCESS''"
proof -
  define ing :: "('s, 't) run_world \<Rightarrow> _" where
    "ing = (\<lambda>w. (ingestion_step (mf_extract mf) input_data, w))"
  define core :: "('s, 't) run_world \<Rightarrow> _" where
    "core = (\<lambda>w. (core_step (su_codec su) (su_now su) (mf_producer mf) (guard_ingestion_stream items) gat, w))"
  have i: "ing w = (Inr (guard_ingestion_stream items, diags), w)" for w
    using assms(1) by (simp add: ing_def ingestion_step_def)
  have c: "core w = (Inr result, w)" for w
    using assms(3) by (simp add: core_def core_step_def guard_core_def)
  obtain r1 w1 where o1: "observed su (build_metric_labels mf) ''ingestion_extract'' ''ingestion_extract'' ing
      (start_run su mf w) = (r1, w1)" by (metis prod.exhaust)
  then have r1: "r1 = Inr (guard_ingestion_stream items, diags)" "essence w1 = essence (start_run su mf w)"
    by (auto elim: observed_essence simp: i)
  let ?w1 = "on_ctx (\<lambda>c. c\<lparr>rr_ingestion_diagnostics := diags\<rparr>) w1"
  obtain r2 w2 where o2: "observed su (build_metric_labels mf) ''core'' ''core'' core ?w1 = (r2, w2)"
    by (metis prod.exhaust)
  then have r2: "r2 = Inr result" "essence w2 = essence ?w1" by (auto elim: observed_essence simp: c)
  have "idle ?w1" using idle_essence [OF r1(2)] idle_start by simp
  then have idle2: "idle w2" using idle_essence [OF r2(2)] by simp
  have "instruments (start_run su mf w) = instruments w"
    by (simp add: start_run_def perf_counter_def on_usage_def instruments_def Let_def)
  then have inst: "instruments w2 = instruments w"
    using essence_instruments [OF r1(2)] essence_instruments [OF r2(2)] by simp
  have "pr_report result = empty_report (pd_prepared (mf_producer mf))"
    using valid_produces [of "su_codec su" "su_now su" "mf_producer mf" "guard_ingestion_stream items"
        gat result] assms(3,4) by (auto simp: core_step_def guard_core_def)
  then have "\<not> has_error_diagnostics (pr_report result)"
    by (simp add: has_error_diagnostics_def empty_report_def)
  from run_validated_succeeds [OF assms(5) assms(6) [folded inst] idle2 this] show ?thesis
    unfolding run_pipeline_def ing_def [symmetric] o1 r1(1)
    by (simp add: run_core_def Let_def assms(2) core_def [symmetric] o2 r2(1))
qed

text \<open>
  C16: A SUCCESS report means that the feed of this run has been stored and sent.  With a valid
  schema, the local archiver and the HTTP client, a run that reports SUCCESS has extracted a
  stream from its input and produced one artifact from it, whose payload came to its end
  without an exception; exactly the bytes of that payload are in the archived file and were
  accepted by the endpoint; the report names the location and the status, its diagnostics are
  the sanitised diagnostics of the whole feed followed by those of ingestion, and its input
  count is at most the length of the stream.
\<close>

theorem successful_run_published:
  assumes "run_pipeline su mf input_data w = (Inr rep, w')" "er_status rep = ''SUCCESS''"
    "cs_is_valid (ps_compiled (pd_prepared (mf_producer mf)))"
    "mf_archiver mf = local_ops" "mf_client mf = http_ops hx"
  shows "\<exists>items diags result art final k resp. mf_extract mf input_data = Inr (items, diags)
    \<and> produce_artifacts (su_codec su) (su_now su) (mf_producer mf) (guard_ingestion_stream items) (run_generated_at mf) = Inr result
    \<and> pr_artifacts result = [art] \<and> gen_end (pa_payload art) = None
    \<and> os_files (snd (rw_archiver w')) =
        (os_files (snd (rw_archiver w)))(final := Some (concat (gen_items (pa_payload art))))
    \<and> nt_log (snd (rw_client w')) = nt_log (snd (rw_client w)) @ replicate (Suc k)
        \<lparr>rq_method = ''POST'', rq_url = hi_endpoint (hc_iac (fst (rw_client w))),
         rq_headers = hc_headers (fst (rw_client w)),
         rq_body = Content (concat (gen_items (pa_payload art)))\<rparr>
    \<and> hx_send hx (nt_log (snd (rw_client w'))) = Inr resp
    \<and> \<not> (400 \<le> status_code resp \<and> status_code resp < 600)
    \<and> er_artifacts rep = [\<lparr>pb_payload = gen_items (pa_payload art), pb_metadata =
        from_publish_results (pa_metadata art) \<lparr>ar_skipped = False, ar_location = Some final\<rparr>
          \<lparr>dr_skipped = False, dr_status_code = Some (status_code resp)\<rparr>\<rparr>]
    \<and> vr_diagnostics (er_validation_report rep) =
        map sanitize_diagnostic (vr_diagnostics (ps_report (pa_after art)) @ diags)
    \<and> fu_input (er_usage rep) \<le> length (gen_items items)"
proof -
  from run_pipeline_success [OF assms(1-3)] obtain items diags result art a where s:
    "mf_extract mf input_data = Inr (items, diags)"
    "produce_artifacts (su_codec su) (su_now su) (mf_producer mf) (guard_ingestion_stream items) (run_generated_at mf) = Inr result"
    "pr_artifacts result = [art]"
    "publish local_ops (http_ops hx) art (instruments w) = (Inr a, instruments w')" "er_artifacts rep = [a]"
    "vr_diagnostics (er_validation_report rep) =
        map sanitize_diagnostic (vr_diagnostics (ps_report (pa_after art)) @ diags)"
    "fu_input (er_usage rep) \<le> length (gen_items items)"
    unfolding assms(4,5) by blast
  let ?c = "rw_client w"
  have "hc_ready (nt_log (snd ?c)) (hc_iac (fst ?c)) (hc_headers (fst ?c)) ?c" by (simp add: hc_ready_def)
  from local_http.publish_stores [OF refl this
      s(4) [unfolded local_ops_def http_ops_def instruments_def]]
  obtain ra rc where p: "la_stored (os_files (snd (rw_archiver w))) (rw_archiver w') ra
      (concat (gen_items (pa_payload art)))"
    "hc_stored hx (nt_log (snd ?c)) (hc_iac (fst ?c)) (hc_headers (fst ?c)) (rw_client w') rc
      (concat (gen_items (pa_payload art)))"
    "gen_end (pa_payload art) = None" "pb_payload a = gen_items (pa_payload art)"
    "pb_metadata a = from_publish_results (pa_metadata art) ra rc" by blast
  have a: "a = \<lparr>pb_payload = gen_items (pa_payload art),
      pb_metadata = from_publish_results (pa_metadata art) ra rc\<rparr>" using p(4,5) by (cases a) simp
  from p(1) obtain final where l: "os_files (snd (rw_archiver w')) =
        (os_files (snd (rw_archiver w)))(final := Some (concat (gen_items (pa_payload art))))"
    "ra = \<lparr>ar_skipped = False, ar_location = Some final\<rparr>" unfolding la_stored_def by blast
  from p(2) obtain k resp where h: "nt_log (snd (rw_client w')) = nt_log (snd ?c) @ replicate (Suc k)
        \<lparr>rq_method = ''POST'', rq_url = hi_endpoint (hc_iac (fst ?c)), rq_headers = hc_headers (fst ?c),
         rq_body = Content (concat (gen_items (pa_payload art)))\<rparr>"
    "hx_send hx (nt_log (snd (rw_client w'))) = Inr resp"
    "\<not> (400 \<le> status_code resp \<and> status_code resp < 600)"
    "rc = \<lparr>dr_skipped = False, dr_status_code = Some (status_code resp)\<rparr>" unfolding hc_stored_def by blast
  show ?thesis
    by (rule exI [of _ items], rule exI [of _ diags], rule exI [of _ result],
        rule exI [of _ art], rule exI [of _ final], rule exI [of _ k], rule exI [of _ resp])
      (intro conjI s(1-3,6,7) p(3) l(1) h(1-3), simp add: s(5) a l(2) h(4))
qed

section \<open>Two consequences of the lazy payload\<close>

text \<open>
  When the report is inspected before publishing, a valid schema has produced no diagnostics yet:
  \<open>fail_on_error_diagnostics\<close> has no effect, whatever the feed holds.
\<close>

lemma flag_unused:
  "publish_first (mf\<lparr>mf_fail_on_error := b\<rparr>) sts result = publish_first mf sts result"
  "build_metric_labels (mf\<lparr>mf_fail_on_error := b\<rparr>) = build_metric_labels mf"
  "start_run su (mf\<lparr>mf_fail_on_error := b\<rparr>) w = start_run su mf w"
  "run_generated_at (mf\<lparr>mf_fail_on_error := b\<rparr>) = run_generated_at mf"
  by (auto simp: fun_eq_iff publish_first_def build_metric_labels_def start_run_def run_generated_at_def
      split: list.split option.split)

lemma run_validated_flag:
  "\<not> has_error_diagnostics (pr_report result) \<Longrightarrow>
     run_validated su (mf\<lparr>mf_fail_on_error := b\<rparr>) sts result w = run_validated su mf sts result w"
  by (simp add: run_validated_def run_publish_def flag_unused Let_def)

lemma error_flag_without_effect:
  fixes mf :: "('i, 's, 't) pipeline_manifest"
  assumes "cs_is_valid (ps_compiled (pd_prepared (mf_producer mf)))"
  shows "run_pipeline su (mf\<lparr>mf_fail_on_error := b\<rparr>) input_data w = run_pipeline su mf input_data w"
proof -
  have empty: "core_step c now (mf_producer mf) um g = Inr result \<Longrightarrow> \<not> has_error_diagnostics (pr_report result)"
    for c now um g result
    using assms by (auto elim: valid_produces simp: has_error_diagnostics_def empty_report_def)
  have core: "run_core su (mf\<lparr>mf_fail_on_error := b\<rparr>) um w = run_core su mf um w" for um w
  proof -
    define stp :: "('s, 't) run_world \<Rightarrow> _" where
      "stp = (\<lambda>w. (core_step (su_codec su) (su_now su) (mf_producer mf) um (run_generated_at mf), w))"
    obtain r w3 where o: "observed su (build_metric_labels mf) ''core'' ''core'' stp w = (r, w3)"
      by (metis prod.exhaust)
    then obtain w1 w2 where "stp w1 = (r, w2)" by (rule observed_essence)
    then have r: "core_step (su_codec su) (su_now su) (mf_producer mf) um (run_generated_at mf) = r"
      by (simp add: stp_def)
    show ?thesis
    proof (cases r)
      case (Inr result)
      then have "\<not> has_error_diagnostics (pr_report result)" using r empty by blast
      with Inr show ?thesis
        by (simp add: run_core_def flag_unused stp_def [symmetric] o run_validated_flag)
    qed (simp add: run_core_def flag_unused stp_def [symmetric] o)
  qed
  show ?thesis unfolding run_pipeline_def flag_unused core by simp
qed

text \<open>An invalid schema without \<open>fail_on_error_diagnostics\<close> leaves \<open>run\<close> with an \<open>IndexError\<close>.\<close>

lemma invalid_schema_escapes:
  assumes "pr_artifacts result = []"
  shows "fst (run_publish su mf sts result w) = Inl (terr_of_exn IndexError)"
proof -
  obtain r w' where o: "observed su (build_metric_labels mf) ''publish'' ''publish''
      (publish_first mf sts result) w = (r, w')" by (metis prod.exhaust)
  then obtain w1 w2 where "publish_first mf sts result w1 = (r, w2)" by (rule observed_essence)
  with assms o show ?thesis
    by (auto simp: run_publish_def publish_first_def plain_def isinstance_def terr_of_exn_def err_def)
qed

section \<open>Runs\<close>

definition sample_manifest :: "pyval list \<Rightarrow> (bytes, local_archiver \<times> os, http_client \<times> net) pipeline_manifest" where
  "sample_manifest items =
     \<lparr>mf_extract = (\<lambda>_. Inr (gen_of items None, [])), mf_producer = sample_producer JsonObject ''jsonl'' [],
      mf_generated_at = None, mf_fail_on_error = True, mf_archiver = local_ops,
      mf_client = http_ops sample_httpx, mf_run_context = None\<rparr>"

definition sample_surroundings :: surroundings where
  "sample_surroundings = \<lparr>su_codec = sample_codec, su_now = sample_now, su_clock = of_nat\<rparr>"

definition sample_world :: "(local_archiver \<times> os, http_client \<times> net) run_world" where
  "sample_world =
     \<lparr>rw_ticks = 0, rw_log = [], rw_telemetry = [], rw_usage = usage_zero,
      rw_report = \<lparr>vr_target = None, vr_profile = None, vr_diagnostics = []\<rparr>,
      rw_ctx = run_report_new 0 None None,
      rw_archiver = (sample_archiver, sample_os\<lparr>os_faults := []\<rparr>), rw_client = sample_client\<rparr>"

lemma sample_payload:
  "pa_payload (hd (pr_artifacts (sample_result JsonObject ''jsonl'' [] [sample_item ''A1'' False])))
     = Yield ([CHR 0x7B, CHR 0x22] @ ''id'' @ [CHR 0x22, CHR 0x3A, CHR 0x22] @ ''A1'' @
         [CHR 0x22, CHR 0x7D, CHR 0x0A]) Done"
  by code_simp

lemma sample_publish_one:
  "pa_payload art = Yield ([CHR 0x7B, CHR 0x22] @ ''id'' @ [CHR 0x22, CHR 0x3A, CHR 0x22] @ ''A1'' @
         [CHR 0x22, CHR 0x7D, CHR 0x0A]) Done \<Longrightarrow>
     \<exists>out p. publish local_ops (http_ops sample_httpx) art
       ((sample_archiver, sample_os\<lparr>os_faults := []\<rparr>), sample_client) = (Inr out, p)"
  by (simp add: run_defs)

lemma guard_of: "guard_ingestion_stream (gen_of xs None) = gen_of xs None"
  by (induction xs) simp_all

theorem successful_run_published_witness:
  "\<exists>rep w' final k. run_pipeline sample_surroundings (sample_manifest [sample_item ''A1'' False]) [] sample_world
       = (Inr rep, w')
    \<and> os_files (snd (rw_archiver w')) = (os_files sample_os)(final := Some
        ([CHR 0x7B, CHR 0x22] @ ''id'' @ [CHR 0x22, CHR 0x3A, CHR 0x22] @ ''A1'' @ [CHR 0x22, CHR 0x7D, CHR 0x0A]))
    \<and> length (nt_log (snd (rw_client w'))) = Suc k \<and> fu_input (er_usage rep) \<le> 1"
proof -
  let ?mf = "sample_manifest [sample_item ''A1'' False]" and ?su = sample_surroundings
  let ?r = "sample_result JsonObject ''jsonl'' [] [sample_item ''A1'' False]"
  have valid: "cs_is_valid (ps_compiled (pd_prepared (mf_producer ?mf)))"
    by (simp add: sample_manifest_def sample_producer_defs Let_def)
  have parts: "mf_archiver ?mf = local_ops" "mf_client ?mf = http_ops sample_httpx"
    "mf_extract ?mf [] = Inr (gen_of [sample_item ''A1'' False] None, [])"
    "instruments sample_world = ((sample_archiver, sample_os\<lparr>os_faults := []\<rparr>), sample_client)"
    by (simp_all add: sample_manifest_def sample_world_def instruments_def)
  have made: "produce_artifacts (su_codec ?su) (su_now ?su) (mf_producer ?mf)
      (guard_ingestion_stream (gen_of [sample_item ''A1'' False] None)) None = Inr ?r"
    using sample_produced(1) [of "''jsonl''" "[]" JsonObject "[sample_item ''A1'' False]"]
    by (simp add: guard_of sample_manifest_def sample_surroundings_def)
  have art: "pr_artifacts ?r = [hd (pr_artifacts ?r)]"
    using sample_produced(2) [of "''jsonl''" "[]" JsonObject "[sample_item ''A1'' False]"] by simp
  obtain a p where "publish (mf_archiver ?mf) (mf_client ?mf) (hd (pr_artifacts ?r)) (instruments sample_world) = (Inr a, p)"
    using sample_publish_one [OF sample_payload] unfolding parts by blast
  moreover have "run_generated_at ?mf = None"
    by (simp add: run_generated_at_def sample_manifest_def)
  note g = this
  ultimately obtain rep w' where run: "run_pipeline ?su ?mf [] sample_world = (Inr rep, w')"
    "er_status rep = ''SUCCESS''"
    using run_pipeline_succeeds [OF parts(3) g made valid art] by blast
  have made_by: "x = ?r" if "produce_artifacts (su_codec ?su) (su_now ?su) (mf_producer ?mf)
      (guard_ingestion_stream (gen_of [sample_item ''A1'' False] None)) (run_generated_at ?mf) = Inr x" for x
    using that made g by simp
  have pay: "concat (gen_items (pa_payload (hd (pr_artifacts ?r)))) =
      [CHR 0x7B, CHR 0x22] @ ''id'' @ [CHR 0x22, CHR 0x3A, CHR 0x22] @ ''A1'' @ [CHR 0x22, CHR 0x7D, CHR 0x0A]"
    by (simp add: sample_payload)
  let ?hi = "hi_endpoint (hc_iac (fst (rw_client sample_world)))"
    and ?hs = "hc_headers (fst (rw_client sample_world))"
  from successful_run_published [OF run valid parts(1,2)] obtain items diags result art' final k where s:
    "mf_extract ?mf [] = Inr (items, diags)"
    "produce_artifacts (su_codec ?su) (su_now ?su) (mf_producer ?mf) (guard_ingestion_stream items)
       (run_generated_at ?mf) = Inr result" "pr_artifacts result = [art']"
    "os_files (snd (rw_archiver w')) = (os_files (snd (rw_archiver sample_world)))
       (final := Some (concat (gen_items (pa_payload art'))))"
    "nt_log (snd (rw_client w')) = nt_log (snd (rw_client sample_world)) @ replicate (Suc k)
        \<lparr>rq_method = ''POST'', rq_url = ?hi, rq_headers = ?hs,
         rq_body = Content (concat (gen_items (pa_payload art')))\<rparr>"
    "fu_input (er_usage rep) \<le> length (gen_items items)"
    by blast
  have items: "items = gen_of [sample_item ''A1'' False] None" using s(1) parts(3) by simp
  then have "result = ?r" using made_by s(2) by simp
  then have art': "art' = hd (pr_artifacts ?r)" using s(3) by simp
  have "nt_log (snd (rw_client sample_world)) = []" "os_files (snd (rw_archiver sample_world)) = os_files sample_os"
    by (simp_all add: sample_world_def sample_client_def)
  note s' = s(4,5) [unfolded this art' pay]
  have "length (nt_log (snd (rw_client w'))) = Suc k" by (simp only: s'(2)) simp
  moreover have "fu_input (er_usage rep) \<le> 1" using s(6) items by simp
  ultimately show ?thesis using run(1) s'(1) by blast
qed

end
