(* ===== verification/PFP_Streaming.thy ===== *)
theory PFP_Streaming
  imports PFP_Http
begin

text \<open>
  The streaming HTTP client (\<open>publishing/clients/streaming_http_client.py\<close>): the caller's thread
  puts chunks into a queue, a background thread takes them out and feeds them to a chunked POST.
  The client is a transition system whose steps are the caller's operations, one take of a
  background thread, and the return of its POST; \<open>join\<close> with a timeout is two steps, between
  which the background threads go on.  Every thread that is alive reads \<open>self._queue\<close>, the queue
  of the latest cycle.  \<open>replies got ended out\<close> says which outcomes httpx may produce once the
  body generator has delivered \<open>got\<close> and has ended or not.
\<close>

section \<open>The client and its threads\<close>

record thread =
  th_got :: "bytes list"
  th_ended :: bool
  th_alive :: bool

datatype control = Idle | JoiningOpen | JoiningFinal

text \<open>\<open>sk_threads\<close> has every thread that was started, \<open>self._thread\<close> last.\<close>

record streaming_client =
  sk_iac :: http_client_iac
  sk_headers :: "(string, string) odict"
  sk_injected :: bool
  sk_client :: bool
  sk_queue :: "bytes option list option"
  sk_threads :: "thread list"
  sk_exc :: "terr option"
  sk_response :: "response option"
  sk_finalized :: bool
  sk_control :: control

definition streaming_error :: "string \<Rightarrow> terr" where
  "streaming_error = err [''StreamingHttpClientError'', ''RuntimeError'']"

definition streaming_client_new ::
    "secret_sources \<Rightarrow> http_client_iac \<Rightarrow> bool \<Rightarrow> terr + streaming_client" where
  "streaming_client_new src i injected =
     rbind (client_headers src streaming_error i)
       (\<lambda>hs. Inr \<lparr>sk_iac = i, sk_headers = hs, sk_injected = injected, sk_client = injected,
          sk_queue = None, sk_threads = [], sk_exc = None, sk_response = None,
          sk_finalized = False, sk_control = Idle\<rparr>)"

definition put_queue :: "bytes option \<Rightarrow> streaming_client \<Rightarrow> streaming_client" where
  "put_queue x s = s\<lparr>sk_queue := map_option (\<lambda>q. q @ [x]) (sk_queue s)\<rparr>"

definition busy :: "streaming_client \<Rightarrow> bool" where
  "busy s \<longleftrightarrow> sk_threads s \<noteq> [] \<and> th_alive (last (sk_threads s))"

text \<open>The second half of \<open>open\<close>: a new queue, a new thread.\<close>

definition start_cycle :: "streaming_client \<Rightarrow> streaming_client" where
  "start_cycle s =
     s\<lparr>sk_client := True, sk_queue := Some [], sk_exc := None, sk_response := None,
       sk_finalized := False,
       sk_threads := sk_threads s @ [\<lparr>th_got = [], th_ended = False, th_alive = True\<rparr>],
       sk_control := Idle\<rparr>"

definition sk_open :: "streaming_client \<Rightarrow> streaming_client" where
  "sk_open s = (if busy s then (put_queue None s)\<lparr>sk_control := JoiningOpen\<rparr> else start_cycle s)"

definition sk_send_chunk :: "bytes \<Rightarrow> streaming_client \<Rightarrow> (terr + unit) \<times> streaming_client" where
  "sk_send_chunk chunk s =
     (if sk_queue s = None then (Inl (streaming_error ''send_chunk() called before open()''), s)
      else if sk_finalized s then (Inl (streaming_error ''send_chunk() called after finalize()''), s)
      else (Inr (), put_queue (Some chunk) s))"

text \<open>\<open>finalize\<close> up to the \<open>join\<close>, and what it does once \<open>join\<close> has returned.\<close>

definition sk_finalize :: "streaming_client \<Rightarrow> (terr + unit) \<times> streaming_client" where
  "sk_finalize s =
     (if sk_queue s = None then (Inl (streaming_error ''finalize() called before open()''), s)
      else if sk_finalized s
      then (Inl (streaming_error ''finalize() already called; call open() to start a new run''), s)
      else (Inr (), (put_queue None s)\<lparr>sk_control := JoiningFinal\<rparr>))"

definition sk_finish :: "streaming_client \<Rightarrow> (terr + delivery_result) \<times> streaming_client" where
  "sk_finish s =
     (let s = s\<lparr>sk_client := sk_injected s \<and> sk_client s, sk_control := Idle\<rparr> in
      case sk_exc s of
        Some e \<Rightarrow> (Inl (http_failure ''streaming_http_client'' streaming_error e), s)
      | None \<Rightarrow>
          (case sk_response s of
             None \<Rightarrow> (Inl (streaming_error
                 ''streaming_http_client: no response received (thread timed out)''), s)
           | Some r \<Rightarrow>
               if 400 \<le> status_code r
               then (Inl (streaming_error (''streaming_http_client [category='' @
                       (if status_code r < 500 then ''remote_4xx'' else ''remote_5xx'') @ '']: '' @
                       http_text (status_code r) (hi_endpoint (sk_iac s)))), s)
               else (Inr \<lparr>dr_skipped = False, dr_status_code = Some (status_code r)\<rparr>,
                     s\<lparr>sk_finalized := True\<rparr>)))"

text \<open>One \<open>get\<close> of thread \<open>k\<close>'s generator, and the return of its POST.\<close>

definition take_chunk :: "nat \<Rightarrow> streaming_client \<Rightarrow> streaming_client" where
  "take_chunk k s =
     (case sk_queue s of
        Some (x # q) \<Rightarrow>
          (let t = sk_threads s ! k;
               t' = (case x of Some c \<Rightarrow> t\<lparr>th_got := th_got t @ [c]\<rparr> | None \<Rightarrow> t\<lparr>th_ended := True\<rparr>)
           in s\<lparr>sk_queue := Some q, sk_threads := (sk_threads s)[k := t']\<rparr>)
      | _ \<Rightarrow> s)"

definition return_post :: "nat \<Rightarrow> terr + response \<Rightarrow> streaming_client \<Rightarrow> streaming_client" where
  "return_post k out s =
     (let s = s\<lparr>sk_threads := (sk_threads s)[k := (sk_threads s ! k)\<lparr>th_alive := False\<rparr>]\<rparr>
      in case out of Inl e \<Rightarrow> s\<lparr>sk_exc := Some e\<rparr> | Inr r \<Rightarrow> s\<lparr>sk_response := Some r\<rparr>)"

section \<open>Steps\<close>

datatype event =
    EOpen
  | EOpened
  | ESend bytes "terr + unit"
  | EFinal "terr + unit"
  | EFinished "terr + delivery_result"
  | ETake nat
  | EReturn nat "terr + response"

inductive sk_step ::
    "(bytes list \<Rightarrow> bool \<Rightarrow> terr + response \<Rightarrow> bool) \<Rightarrow> streaming_client \<Rightarrow> event \<Rightarrow> streaming_client \<Rightarrow> bool"
  for replies where
  st_open: "sk_control s = Idle \<Longrightarrow> sk_step replies s EOpen (sk_open s)"
| st_opened: "sk_control s = JoiningOpen \<Longrightarrow> sk_step replies s EOpened (start_cycle s)"
| st_send: "sk_control s = Idle \<Longrightarrow> sk_send_chunk c s = (r, s') \<Longrightarrow> sk_step replies s (ESend c r) s'"
| st_final: "sk_control s = Idle \<Longrightarrow> sk_finalize s = (r, s') \<Longrightarrow> sk_step replies s (EFinal r) s'"
| st_finished: "sk_control s = JoiningFinal \<Longrightarrow> sk_finish s = (r, s') \<Longrightarrow>
    sk_step replies s (EFinished r) s'"
| st_take: "k < length (sk_threads s) \<Longrightarrow> th_alive (sk_threads s ! k) \<Longrightarrow>
    \<not> th_ended (sk_threads s ! k) \<Longrightarrow> sk_queue s = Some (x # q) \<Longrightarrow>
    sk_step replies s (ETake k) (take_chunk k s)"
| st_return: "k < length (sk_threads s) \<Longrightarrow> th_alive (sk_threads s ! k) \<Longrightarrow>
    replies (th_got (sk_threads s ! k)) (th_ended (sk_threads s ! k)) out \<Longrightarrow>
    sk_step replies s (EReturn k out) (return_post k out s)"

inductive sk_run ::
    "(bytes list \<Rightarrow> bool \<Rightarrow> terr + response \<Rightarrow> bool) \<Rightarrow> streaming_client \<Rightarrow> event list \<Rightarrow> streaming_client \<Rightarrow> bool"
  for replies where
  run_nil: "sk_run replies s [] s"
| run_snoc: "sk_run replies s es s' \<Longrightarrow> sk_step replies s' e s'' \<Longrightarrow> sk_run replies s (es @ [e]) s''"

inductive_cases sk_step_takeE: "sk_step replies s (ETake k) s'"
inductive_cases sk_step_returnE: "sk_step replies s (EReturn k out) s'"
inductive_cases sk_step_openE: "sk_step replies s EOpen s'"
inductive_cases sk_step_openedE: "sk_step replies s EOpened s'"
inductive_cases sk_step_sendE: "sk_step replies s (ESend c r) s'"
inductive_cases sk_step_finalE: "sk_step replies s (EFinal r) s'"
inductive_cases sk_step_finishedE: "sk_step replies s (EFinished r) s'"

fun caller_event :: "event \<Rightarrow> bool" where
  "caller_event (ETake k) = False"
| "caller_event (EReturn k out) = False"
| "caller_event e = True"

section \<open>One cycle\<close>

text \<open>
  The caller's part of a cycle so far, and what holds then: the thread has taken a prefix of the
  chunks, the rest is in the queue in order, the sentinel comes last, and a response has been
  produced by the thread at the point where it stopped.
\<close>

definition cycle_inv ::
    "(bytes list \<Rightarrow> bool \<Rightarrow> terr + response \<Rightarrow> bool) \<Rightarrow> bytes list \<Rightarrow> bool \<Rightarrow> streaming_client \<Rightarrow> bool" where
  "cycle_inv replies cs shut s \<longleftrightarrow>
     (\<exists>t rest. sk_threads s = [t]
        \<and> (if th_ended t then shut \<and> th_got t = cs \<and> sk_queue s = Some []
           else th_got t @ rest = cs \<and> sk_queue s = Some (map Some rest @ (if shut then [None] else [])))
        \<and> \<not> sk_finalized s
        \<and> (th_alive t \<longrightarrow> sk_response s = None \<and> sk_exc s = None)
        \<and> (\<forall>r. sk_response s = Some r \<longrightarrow> replies (th_got t) (th_ended t) (Inr r)))
     \<and> sk_control s = (if shut then JoiningFinal else Idle)"

lemma cycle_inv_thread_step:
  assumes "cycle_inv replies cs shut s" "sk_step replies s e s'" "\<not> caller_event e"
  shows "cycle_inv replies cs shut s'"
proof -
  from assms(1) obtain t rest where t: "sk_threads s = [t]"
    "if th_ended t then shut \<and> th_got t = cs \<and> sk_queue s = Some []
     else th_got t @ rest = cs \<and> sk_queue s = Some (map Some rest @ (if shut then [None] else []))"
    "\<not> sk_finalized s" "th_alive t \<longrightarrow> sk_response s = None \<and> sk_exc s = None"
    "\<forall>r. sk_response s = Some r \<longrightarrow> replies (th_got t) (th_ended t) (Inr r)"
    "sk_control s = (if shut then JoiningFinal else Idle)"
    unfolding cycle_inv_def by blast
  from assms(3) consider k where "e = ETake k" | k out where "e = EReturn k out"
    by (cases e) auto
  then show ?thesis
  proof cases
    case (1 k)
    with assms(2) obtain x q where k: "k = 0" "th_alive t" "\<not> th_ended t" "sk_queue s = Some (x # q)"
      "s' = take_chunk k s"
      using t(1) by (auto elim: sk_step_takeE)
    have q: "x # q = map Some rest @ (if shut then [None] else [])" using t(2) k(3,4) by auto
    show ?thesis
    proof (cases rest)
      case Nil
      then show ?thesis
        using t k q by (auto simp: cycle_inv_def take_chunk_def split: if_splits)
    next
      case (Cons c cs')
      then show ?thesis
        using t k q unfolding cycle_inv_def
        by (intro conjI exI [of _ "t\<lparr>th_got := th_got t @ [c]\<rparr>"] exI [of _ cs'])
          (auto simp: take_chunk_def)
    qed
  next
    case (2 k out)
    with assms(2) have k: "k = 0" "th_alive t" "replies (th_got t) (th_ended t) out"
      "s' = return_post k out s"
      using t(1) by (auto elim: sk_step_returnE)
    then show ?thesis
      using t unfolding cycle_inv_def
      by (intro conjI exI [of _ "t\<lparr>th_alive := False\<rparr>"] exI [of _ rest])
        (auto simp: return_post_def Let_def split: sum.splits)
  qed
qed

abbreviation sends :: "bytes list \<Rightarrow> event list" where
  "sends cs \<equiv> map (\<lambda>c. ESend c (Inr ())) cs"

lemma sends_not_final: "EFinal r \<notin> set (sends cs)"
  by auto

definition fresh_client :: "streaming_client \<Rightarrow> bool" where
  "fresh_client s \<longleftrightarrow> sk_threads s = [] \<and> sk_queue s = None \<and> \<not> sk_finalized s \<and> sk_control s = Idle"

text \<open>What the caller's events so far say about the state.\<close>

definition follows ::
    "(bytes list \<Rightarrow> bool \<Rightarrow> terr + response \<Rightarrow> bool) \<Rightarrow> event list \<Rightarrow> streaming_client \<Rightarrow> bool" where
  "follows replies es s \<longleftrightarrow> (es = [] \<longrightarrow> fresh_client s)
     \<and> (\<forall>cs. es = EOpen # sends cs \<longrightarrow> cycle_inv replies cs False s)
     \<and> (\<forall>cs. es = EOpen # sends cs @ [EFinal (Inr ())] \<longrightarrow> cycle_inv replies cs True s)"

lemma open_starts_cycle: "fresh_client s \<Longrightarrow> cycle_inv replies [] False (sk_open s)"
  by (simp add: fresh_client_def sk_open_def busy_def start_cycle_def cycle_inv_def)

lemma send_extends_cycle:
  assumes "cycle_inv replies cs False s" "sk_send_chunk c s = (Inr (), s')"
  shows "cycle_inv replies (cs @ [c]) False s'"
proof -
  from assms(1) obtain t rest where t: "sk_threads s = [t]" "\<not> th_ended t" "th_got t @ rest = cs"
    "sk_queue s = Some (map Some rest)" "\<not> sk_finalized s"
    "th_alive t \<longrightarrow> sk_response s = None \<and> sk_exc s = None"
    "\<forall>r. sk_response s = Some r \<longrightarrow> replies (th_got t) (th_ended t) (Inr r)" "sk_control s = Idle"
    unfolding cycle_inv_def by (auto split: if_splits)
  have "s' = put_queue (Some c) s"
    using assms(2) by (auto simp: sk_send_chunk_def split: if_splits)
  then show ?thesis
    using t unfolding cycle_inv_def
    by (intro conjI exI [of _ t] exI [of _ "rest @ [c]"]) (auto simp: put_queue_def)
qed

lemma final_closes_cycle:
  assumes "cycle_inv replies cs False s" "sk_finalize s = (Inr (), s')"
  shows "cycle_inv replies cs True s'"
proof -
  from assms(1) obtain t rest where t: "sk_threads s = [t]" "\<not> th_ended t" "th_got t @ rest = cs"
    "sk_queue s = Some (map Some rest)" "\<not> sk_finalized s"
    "th_alive t \<longrightarrow> sk_response s = None \<and> sk_exc s = None"
    "\<forall>r. sk_response s = Some r \<longrightarrow> replies (th_got t) (th_ended t) (Inr r)"
    unfolding cycle_inv_def by (auto split: if_splits)
  have "s' = (put_queue None s)\<lparr>sk_control := JoiningFinal\<rparr>"
    using assms(2) by (auto simp: sk_finalize_def split: if_splits)
  then show ?thesis
    using t unfolding cycle_inv_def
    by (intro conjI exI [of _ t] exI [of _ rest]) (auto simp: put_queue_def)
qed

lemma last_send:
  assumes "es @ [e] = EOpen # sends cs"
  shows "es = [] \<and> e = EOpen \<and> cs = [] \<or> (\<exists>c ds. cs = ds @ [c] \<and> e = ESend c (Inr ()) \<and> es = EOpen # sends ds)"
  using assms by (cases cs rule: rev_cases) auto

lemma thread_step_impossible: "fresh_client s \<Longrightarrow> sk_step replies s e s' \<Longrightarrow> caller_event e"
  by (erule sk_step.cases) (auto simp: fresh_client_def)

lemma follows_step:
  assumes "follows replies (filter caller_event es) s" "sk_step replies s e s'"
  shows "follows replies (filter caller_event (es @ [e])) s'"
proof (cases "caller_event e")
  case False
  then show ?thesis
    using assms cycle_inv_thread_step [OF _ assms(2) False] thread_step_impossible
    unfolding follows_def by auto
next
  case True
  let ?m = "filter caller_event es"
  have "cycle_inv replies cs False s'" if eq: "?m @ [e] = EOpen # sends cs" for cs
    using last_send [OF eq]
  proof (elim disjE exE conjE)
    assume "?m = []" "e = EOpen" "cs = []"
    then show ?thesis
      using assms open_starts_cycle unfolding follows_def by (auto elim: sk_step_openE)
  next
    fix c ds assume m: "cs = ds @ [c]" "e = ESend c (Inr ())" "?m = EOpen # sends ds"
    have "cycle_inv replies ds False s" using assms(1) m(3) unfolding follows_def by blast
    moreover have "sk_send_chunk c s = (Inr (), s')" using assms(2) m(2) by (auto elim: sk_step_sendE)
    ultimately show ?thesis unfolding m(1) by (rule send_extends_cycle)
  qed
  moreover have "cycle_inv replies cs True s'" if "?m @ [e] = EOpen # sends cs @ [EFinal (Inr ())]" for cs
  proof -
    from that have "?m @ [e] = (EOpen # sends cs) @ [EFinal (Inr ())]" by simp
    then have m: "?m = EOpen # sends cs" "e = EFinal (Inr ())" unfolding append1_eq_conv by auto
    have "cycle_inv replies cs False s" using assms(1) m(1) unfolding follows_def by blast
    moreover have "sk_finalize s = (Inr (), s')" using assms(2) m(2) by (auto elim: sk_step_finalE)
    ultimately show ?thesis by (rule final_closes_cycle)
  qed
  ultimately show ?thesis using True unfolding follows_def by simp
qed

lemma run_follows: "sk_run replies s es s' \<Longrightarrow> fresh_client s \<Longrightarrow> follows replies (filter caller_event es) s'"
proof (induction rule: sk_run.induct)
  case (run_nil s)
  then show ?case by (simp add: follows_def)
next
  case (run_snoc s es s' e s'')
  then show ?case using follows_step by blast
qed

lemma run_snocE: "sk_run replies s (es @ [e]) s'' \<Longrightarrow>
    (\<And>s'. sk_run replies s es s' \<Longrightarrow> sk_step replies s' e s'' \<Longrightarrow> P) \<Longrightarrow> P"
  by (erule sk_run.cases) auto

text \<open>
  C26: A successful streaming delivery has sent the chunks in order, and all of them if the body
  came to its end.  Take a new client that is opened once, is given chunks that it accepts and is
  finalized, in any interleaving with its background thread, and suppose that \<open>finalize\<close> returns.
  Then its status is below 400 and is that of the thread's only POST.  The body that this POST
  had taken is a beginning of the chunks in the order they were sent, and what it had not taken
  is in the queue: the body is all the chunks if the generator had ended.  Nothing is assumed of
  httpx: whether an answer can come before the body has ended is not for the client to see.
\<close>

theorem streaming_delivers_in_order:
  assumes "streaming_client_new src i injected = Inr s"
    and "sk_run replies s (es @ [EFinished (Inr r)]) s'"
    and "filter caller_event es = EOpen # map (\<lambda>c. ESend c (Inr ())) cs @ [EFinal (Inr ())]"
  shows "\<exists>got rest ended resp. map th_got (sk_threads s') = [got] \<and> map th_ended (sk_threads s') = [ended]
    \<and> got @ rest = cs \<and> sk_queue s' = Some (if ended then [] else map Some rest @ [None])
    \<and> (ended \<longrightarrow> got = cs)
    \<and> replies got ended (Inr resp) \<and> status_code resp < 400
    \<and> r = \<lparr>dr_skipped = False, dr_status_code = Some (status_code resp)\<rparr> \<and> sk_finalized s'"
proof -
  have "fresh_client s"
    using assms(1) by (cases "client_headers src streaming_error i")
      (auto simp: streaming_client_new_def fresh_client_def)
  obtain s1 where s1: "sk_run replies s es s1" "sk_step replies s1 (EFinished (Inr r)) s'"
    using assms(2) by (rule run_snocE)
  have "cycle_inv replies cs True s1"
    using run_follows [OF s1(1) \<open>fresh_client s\<close>] assms(3) by (simp add: follows_def)
  then obtain t rest where t: "sk_threads s1 = [t]"
    "th_got t @ rest = cs" "sk_queue s1 = Some (if th_ended t then [] else map Some rest @ [None])"
    "th_ended t \<longrightarrow> th_got t = cs"
    "\<forall>r. sk_response s1 = Some r \<longrightarrow> replies (th_got t) (th_ended t) (Inr r)"
    unfolding cycle_inv_def by (auto split: if_splits)
  have fin: "sk_finish s1 = (Inr r, s')" using s1(2) by (auto elim: sk_step_finishedE)
  then obtain resp where resp: "sk_response s1 = Some resp" "status_code resp < 400"
    "r = \<lparr>dr_skipped = False, dr_status_code = Some (status_code resp)\<rparr>"
    "sk_threads s' = sk_threads s1" "sk_queue s' = sk_queue s1" "sk_finalized s'"
    by (auto simp: sk_finish_def Let_def split: option.splits if_splits)
  show ?thesis
    by (rule exI [of _ "th_got t"], rule exI [of _ rest], rule exI [of _ "th_ended t"], rule exI [of _ resp])
      (use t resp in simp)
qed

section \<open>Runs\<close>

text \<open>A service that answers 200 when the body has ended, and nothing before.\<close>

definition answers_at_end :: "bytes list \<Rightarrow> bool \<Rightarrow> terr + response \<Rightarrow> bool" where
  "answers_at_end got ended out \<longleftrightarrow> ended \<and> out = Inr \<lparr>status_code = 200, rs_body = []\<rparr>"

definition sample_iac :: http_client_iac where
  "sample_iac = \<lparr>hi_endpoint = ''https://e'', hi_api_key_ref = None, hi_token_ref = None,
     hi_content_type = None, hi_max_body_bytes = 100, hi_transport = default_tls_policy\<rparr>"

definition no_secrets :: secret_sources where
  "no_secrets = \<lparr>os_getenv = (\<lambda>_. None), os_read_text = (\<lambda>_. Inr '''')\<rparr>"

definition sample_streaming :: streaming_client where
  "sample_streaming = \<lparr>sk_iac = sample_iac, sk_headers = [], sk_injected = False, sk_client = False,
     sk_queue = None, sk_threads = [], sk_exc = None, sk_response = None, sk_finalized = False,
     sk_control = Idle\<rparr>"

lemma sample_streaming_new: "streaming_client_new no_secrets sample_iac False = Inr sample_streaming"
  by (simp add: streaming_client_new_def client_headers_def auth_header_def sample_iac_def sample_streaming_def)

text \<open>The state after an event, to write runs down.\<close>

fun after :: "streaming_client \<Rightarrow> event \<Rightarrow> streaming_client" where
  "after s EOpen = sk_open s"
| "after s EOpened = start_cycle s"
| "after s (ESend c r) = snd (sk_send_chunk c s)"
| "after s (EFinal r) = snd (sk_finalize s)"
| "after s (EFinished r) = snd (sk_finish s)"
| "after s (ETake k) = take_chunk k s"
| "after s (EReturn k out) = return_post k out s"

fun allowed :: "(bytes list \<Rightarrow> bool \<Rightarrow> terr + response \<Rightarrow> bool) \<Rightarrow> streaming_client \<Rightarrow> event \<Rightarrow> bool" where
  "allowed replies s EOpen = (sk_control s = Idle)"
| "allowed replies s EOpened = (sk_control s = JoiningOpen)"
| "allowed replies s (ESend c r) = (sk_control s = Idle \<and> fst (sk_send_chunk c s) = r)"
| "allowed replies s (EFinal r) = (sk_control s = Idle \<and> fst (sk_finalize s) = r)"
| "allowed replies s (EFinished r) = (sk_control s = JoiningFinal \<and> fst (sk_finish s) = r)"
| "allowed replies s (ETake k) = (k < length (sk_threads s) \<and> th_alive (sk_threads s ! k)
     \<and> \<not> th_ended (sk_threads s ! k) \<and> (\<exists>x q. sk_queue s = Some (x # q)))"
| "allowed replies s (EReturn k out) = (k < length (sk_threads s) \<and> th_alive (sk_threads s ! k)
     \<and> replies (th_got (sk_threads s ! k)) (th_ended (sk_threads s ! k)) out)"

lemma allowed_step: "allowed replies s e \<Longrightarrow> sk_step replies s e (after s e)"
  by (cases e) (auto intro: sk_step.intros prod.collapse)

lemma run_allowed:
  "sk_run replies s es s' \<Longrightarrow> allowed replies s' e \<Longrightarrow> sk_run replies s (es @ [e]) (after s' e)"
  by (rule run_snoc [OF _ allowed_step])

fun all_allowed :: "(bytes list \<Rightarrow> bool \<Rightarrow> terr + response \<Rightarrow> bool) \<Rightarrow> streaming_client \<Rightarrow> event list \<Rightarrow> bool" where
  "all_allowed replies s [] = True"
| "all_allowed replies s (e # es) = (allowed replies s e \<and> all_allowed replies (after s e) es)"

lemma all_allowed_run: "sk_run replies s es s' \<Longrightarrow> all_allowed replies s' es' \<Longrightarrow>
    sk_run replies s (es @ es') (foldl after s' es')"
proof (induction es' arbitrary: es s')
  case (Cons e es')
  then show ?case using run_allowed [of replies s es s' e] Cons.IH [of "es @ [e]" "after s' e"] by simp
qed simp

definition sample_events :: "event list" where
  "sample_events = [EOpen, ESend ''ab'' (Inr ()), ETake 0, ESend ''c'' (Inr ()), EFinal (Inr ()),
     ETake 0, ETake 0, EReturn 0 (Inr \<lparr>status_code = 200, rs_body = []\<rparr>)]"

lemmas streaming_run_defs = sample_streaming_def sk_open_def busy_def start_cycle_def sk_send_chunk_def
  put_queue_def take_chunk_def sk_finalize_def return_post_def sk_finish_def Let_def answers_at_end_def

theorem streaming_delivers_in_order_witness:
  "\<exists>s' got rest ended resp. sk_run answers_at_end sample_streaming
      (sample_events @ [EFinished (Inr \<lparr>dr_skipped = False, dr_status_code = Some 200\<rparr>)]) s'
    \<and> map th_got (sk_threads s') = [got] \<and> got @ rest = [''ab'', ''c'']
    \<and> (ended \<longrightarrow> got = [''ab'', ''c'']) \<and> answers_at_end got ended (Inr resp) \<and> got = [''ab'', ''c'']"
proof -
  let ?fin = "EFinished (Inr \<lparr>dr_skipped = False, dr_status_code = Some 200\<rparr>)"
  have "all_allowed answers_at_end sample_streaming (sample_events @ [?fin])"
    by (simp add: sample_events_def streaming_run_defs)
  then have run: "sk_run answers_at_end sample_streaming (sample_events @ [?fin])
      (foldl after sample_streaming (sample_events @ [?fin]))"
    using all_allowed_run [OF run_nil] by fastforce
  have "filter caller_event sample_events
      = EOpen # map (\<lambda>c. ESend c (Inr ())) [''ab'', ''c''] @ [EFinal (Inr ())]"
    by (simp add: sample_events_def)
  from streaming_delivers_in_order [OF sample_streaming_new run this] obtain got rest ended resp where
    g: "map th_got (sk_threads (foldl after sample_streaming (sample_events @ [?fin]))) = [got]"
    "got @ rest = [''ab'', ''c'']" "ended \<longrightarrow> got = [''ab'', ''c'']" "answers_at_end got ended (Inr resp)"
    by (elim exE conjE)
  moreover from g(3,4) have "got = [''ab'', ''c'']" by (simp add: answers_at_end_def)
  ultimately show ?thesis using run by (intro exI conjI)
qed

text \<open>
  \<open>finalize\<close> goes by the status alone: with a service that answers 200 before it has read the
  body, the delivery succeeds and the second chunk is still in the queue.
\<close>

definition answers_early :: "bytes list \<Rightarrow> bool \<Rightarrow> terr + response \<Rightarrow> bool" where
  "answers_early got ended out \<longleftrightarrow> out = Inr \<lparr>status_code = 200, rs_body = []\<rparr>"

definition early_events :: "event list" where
  "early_events = [EOpen, ESend ''ab'' (Inr ()), ETake 0, ESend ''c'' (Inr ()),
     EReturn 0 (Inr \<lparr>status_code = 200, rs_body = []\<rparr>), EFinal (Inr ())]"

lemma early_answer_is_success:
  "all_allowed answers_early sample_streaming
     (early_events @ [EFinished (Inr \<lparr>dr_skipped = False, dr_status_code = Some 200\<rparr>)])
   \<and> map th_got (sk_threads (foldl after sample_streaming early_events)) = [[''ab'']]
   \<and> sk_queue (foldl after sample_streaming early_events) = Some [Some ''c'', None]"
  by (simp add: early_events_def streaming_run_defs answers_early_def)

text \<open>
  Opening again while the thread of a timed-out cycle still hangs breaks the delivery: the old
  thread reads the new queue.  In this run the second cycle sends one chunk, the old thread takes
  it, the new thread's POST has an empty body, and \<open>finalize\<close> returns its status 200.
\<close>

definition stale_events :: "event list" where
  "stale_events = [EOpen, EFinal (Inr ()),
     EFinished (Inl (streaming_error ''streaming_http_client: no response received (thread timed out)'')),
     EOpen, EOpened, ESend ''ab'' (Inr ()), ETake 0, EFinal (Inr ()), ETake 1,
     EReturn 1 (Inr \<lparr>status_code = 200, rs_body = []\<rparr>)]"

lemma sk_finish_Inr: "sk_finish s = (Inr r, s') \<Longrightarrow> sk_finalized s' \<and> sk_threads s' = sk_threads s"
  by (auto simp: sk_finish_def Let_def split: option.splits if_splits)

lemma stale_thread_steals_chunk:
  "\<exists>s'. sk_run answers_at_end sample_streaming
      (stale_events @ [EFinished (Inr \<lparr>dr_skipped = False, dr_status_code = Some 200\<rparr>)]) s'
    \<and> sk_finalized s' \<and> map th_got (sk_threads s') = [[''ab''], []]"
proof -
  let ?r = "Inr \<lparr>dr_skipped = False, dr_status_code = Some 200\<rparr>"
  let ?s = "foldl after sample_streaming stale_events"
  have "all_allowed answers_at_end sample_streaming (stale_events @ [EFinished ?r])"
    by (simp add: stale_events_def streaming_run_defs)
  then have run: "sk_run answers_at_end sample_streaming (stale_events @ [EFinished ?r])
      (snd (sk_finish ?s))"
    using all_allowed_run [OF run_nil] by fastforce
  have threads: "map th_got (sk_threads ?s) = [[''ab''], []]"
    by (simp add: stale_events_def streaming_run_defs)
  have "fst (sk_finish ?s) = ?r"
    by (simp add: stale_events_def streaming_run_defs)
  then have "sk_finish ?s = (?r, snd (sk_finish ?s))" by (metis prod.collapse)
  from sk_finish_Inr [OF this] show ?thesis using run threads by metis
qed

end
