(* ===== verification/PFP_Sftp.thy ===== *)
theory PFP_Sftp
  imports PFP_Http
begin

text \<open>
  The SFTP client (\<open>publishing/clients/sftp_client.py\<close>).  paramiko is a service behind a log of
  calls; parsing a public key and loading a private key are parameters too.  A key is its text.
\<close>

section \<open>Calls\<close>

datatype sftp_call =
    SConnect string int
  | SKeepalive int
  | SSecurityOptions
  | SSetCiphers "string list"
  | SSetMacs "string list"
  | SSetKex "string list"
  | SSetKeyTypes "string list"
  | SStartClient rat
  | SGetServerKey
  | SAuthPassword string string
  | SAuthKey string string
  | SFromTransport
  | SFactory
  | SOpenFile string
  | SSetPipelined
  | SWrite bytes
  | SCloseFile
  | SRename string string
  | SRemove string
  | SCloseSftp
  | SCloseTransport

type_synonym sftp_answers = "(sftp_call, string) answers"

text \<open>Which key types paramiko has, and how it reads keys.\<close>

record paramiko =
  pk_has_dss :: bool
  pk_parse :: "string \<Rightarrow> string \<Rightarrow> terr + string"
  pk_name :: "string \<Rightarrow> string"
  pk_load :: "string \<Rightarrow> string \<Rightarrow> terr + string"

section \<open>Configuration\<close>

record sftp_client_iac =
  fi_host :: string
  fi_port :: int
  fi_username :: string
  fi_remote_path :: string
  fi_password_ref :: "secret_ref option"
  fi_private_key_ref :: "secret_ref option"
  fi_host_key_ref :: "secret_ref option"
  fi_atomic_write :: bool
  fi_transport :: sftp_transport_policy

definition sftp_client_iac_check :: "sftp_client_iac \<Rightarrow> terr + unit" where
  "sftp_client_iac_check i =
     (let has_password = fi_password_ref i \<noteq> None; has_key = fi_private_key_ref i \<noteq> None;
          bad = err [''ValueError''] in
      if \<not> has_password \<and> \<not> has_key
      then Inl (bad ''Exactly one of password_ref or private_key_ref is required'')
      else if has_password \<and> has_key
      then Inl (bad ''Specify exactly one of password_ref or private_key_ref, not both'')
      else if verify_ssh_host_key (fi_transport i) \<and> fi_host_key_ref i = None
      then Inl (bad ''host_key_ref is required when transport.verify_ssh_host_key=True'')
      else Inr ())"

record sftp_client =
  sf_iac :: sftp_client_iac
  sf_factory :: bool
  sf_password :: "string option"
  sf_private_key_pem :: "string option"
  sf_expected_host_key :: "string option"
  sf_sftp :: bool
  sf_transport :: bool
  sf_remote_file :: "string option"
  sf_tmp_path :: "string option"
  sf_finalized :: bool

definition sftp_error :: "string \<Rightarrow> terr" where
  "sftp_error = err [''SftpClientError'', ''RuntimeError'']"

definition key_class_of :: "bool \<Rightarrow> string \<Rightarrow> string option" where
  "key_class_of has_dss t =
     map_of ([(''ssh-rsa'', ''RSAKey''), (''ssh-ed25519'', ''Ed25519Key''),
        (''ecdsa-sha2-nistp256'', ''ECDSAKey''), (''ecdsa-sha2-nistp384'', ''ECDSAKey''),
        (''ecdsa-sha2-nistp521'', ''ECDSAKey'')] @ (if has_dss then [(''ssh-dss'', ''DSSKey'')] else [])) t"

text \<open>\<open>raw.strip().split(None, 1)\<close> has two parts, the second of which may hold white space.\<close>

definition parse_host_key :: "paramiko \<Rightarrow> string \<Rightarrow> terr + string" where
  "parse_host_key pk raw =
     (let s = strip raw; key_type = takeWhile (\<lambda>c. \<not> is_space c) s;
          key_b64 = dropWhile is_space (dropWhile (\<lambda>c. \<not> is_space c) s)
      in if key_type = [] \<or> key_b64 = []
         then Inl (sftp_error (''Invalid host_key_ref format: expected '' @ [CHR 0x27] @
                ''<key-type> <base64>'' @ [CHR 0x27]))
         else case key_class_of (pk_has_dss pk) key_type of
           None \<Rightarrow> Inl (sftp_error (''Unsupported host key type: '' @ repr_str key_type))
         | Some cls \<Rightarrow>
             (case pk_parse pk cls key_b64 of
                Inl e \<Rightarrow> Inl (sftp_error (''Failed to parse host key: '' @ te_text e))
              | Inr k \<Rightarrow> Inr k))"

fun try_key_classes :: "paramiko \<Rightarrow> string list \<Rightarrow> string \<Rightarrow> terr + string" where
  "try_key_classes pk [] pem = Inl (sftp_error ''Unsupported or malformed private key'')"
| "try_key_classes pk (c # cs) pem =
     (case pk_load pk c pem of
        Inr k \<Rightarrow> Inr k
      | Inl e \<Rightarrow> if isinstance e ''SSHException'' then try_key_classes pk cs pem else Inl e)"

definition load_private_key :: "paramiko \<Rightarrow> string \<Rightarrow> terr + string" where
  "load_private_key pk pem =
     try_key_classes pk ([''RSAKey'', ''ECDSAKey'', ''Ed25519Key''] @
       (if pk_has_dss pk then [''DSSKey''] else [])) pem"

definition wrap_secret :: "string \<Rightarrow> terr + string \<Rightarrow> terr + string" where
  "wrap_secret what r =
     (case r of
        Inl e \<Rightarrow> Inl (if isinstance e ''SecretResolutionError'' then sftp_error (what @ te_text e) else e)
      | Inr s \<Rightarrow> Inr s)"

definition sftp_client_new ::
    "secret_sources \<Rightarrow> paramiko \<Rightarrow> sftp_client_iac \<Rightarrow> bool \<Rightarrow> terr + sftp_client" where
  "sftp_client_new src pk i factory =
     rbind (case fi_password_ref i of
              Some ref \<Rightarrow> rbind (wrap_secret ''Failed to resolve SFTP credential: '' (resolve_secret_ref src ref))
                (\<lambda>s. Inr (Some s, None))
            | None \<Rightarrow> rbind (wrap_secret ''Failed to resolve SFTP credential: ''
                               (resolve_secret_ref src (the (fi_private_key_ref i))))
                (\<lambda>s. Inr (None, Some s)))
       (\<lambda>(password, pem).
        rbind (if verify_ssh_host_key (fi_transport i)
               then rbind (wrap_secret ''Failed to resolve host_key_ref: ''
                             (resolve_secret_ref src (the (fi_host_key_ref i))))
                      (\<lambda>raw. rbind (parse_host_key pk raw) (\<lambda>k. Inr (Some k)))
               else Inr None)
          (\<lambda>expected. Inr \<lparr>sf_iac = i, sf_factory = factory, sf_password = password,
             sf_private_key_pem = pem, sf_expected_host_key = expected, sf_sftp = False,
             sf_transport = False, sf_remote_file = None, sf_tmp_path = None, sf_finalized = False\<rparr>))"

section \<open>The connection\<close>

type_synonym 'a sftp_act = "(sftp_client \<times> sftp_call service, 'a) act"

definition scall :: "sftp_answers \<Rightarrow> sftp_call \<Rightarrow> string sftp_act" where
  "scall answer c = on_snd (svc_call answer c)"

definition scall_opt :: "sftp_answers \<Rightarrow> ('a \<Rightarrow> sftp_call) \<Rightarrow> 'a option \<Rightarrow> unit sftp_act" where
  "scall_opt answer f x =
     (case x of None \<Rightarrow> act_return () | Some v \<Rightarrow> act_then (scall answer (f v)) (act_return ()))"

definition check_host_key :: "sftp_answers \<Rightarrow> paramiko \<Rightarrow> sftp_client \<Rightarrow> unit sftp_act" where
  "check_host_key answer pk c =
     (if verify_ssh_host_key (fi_transport (sf_iac c))
      then act_bind (scall answer SGetServerKey)
        (\<lambda>actual. if Some actual \<noteq> sf_expected_host_key c
          then act_then (scall answer SCloseTransport)
            (act_raise (mark_transport_error ''ssh_host_key_failure''
              (''Host key mismatch for '' @ fi_host (sf_iac c) @ '': got '' @ pk_name pk actual @
               '' but expected '' @ pk_name pk (the (sf_expected_host_key c)))))
          else act_return ())
      else act_return ())"

definition authenticate :: "sftp_answers \<Rightarrow> paramiko \<Rightarrow> sftp_client \<Rightarrow> unit sftp_act" where
  "authenticate answer pk c =
     (case sf_password c of
        Some p \<Rightarrow> act_then (scall answer (SAuthPassword (fi_username (sf_iac c)) p)) (act_return ())
      | None \<Rightarrow>
          act_bind (act_lift (load_private_key pk (the (sf_private_key_pem c))))
            (\<lambda>k. act_then (scall answer (SAuthKey (fi_username (sf_iac c)) k)) (act_return ())))"

definition build_real_sftp :: "sftp_answers \<Rightarrow> paramiko \<Rightarrow> unit sftp_act" where
  "build_real_sftp answer pk s =
     (let c = fst s; tp = fi_transport (sf_iac c) in
      act_then (scall answer (SConnect (fi_host (sf_iac c)) (fi_port (sf_iac c))))
       (act_then (scall answer (SKeepalive 60))
       (act_then (scall answer SSecurityOptions)
       (act_then (scall_opt answer SSetCiphers (ssh_ciphers tp))
       (act_then (scall_opt answer SSetMacs (ssh_macs tp))
       (act_then (scall_opt answer SSetKex (ssh_kex tp))
       (act_then (scall_opt answer SSetKeyTypes (ssh_key_types tp))
       (act_then (scall answer (SStartClient (timeout_seconds tp)))
       (act_then (check_host_key answer pk c)
       (act_then (authenticate answer pk c)
       (act_then (on_fst (act_modify (\<lambda>c. c\<lparr>sf_transport := True\<rparr>)))
       (act_then (scall answer SFromTransport) (act_return ())))))))))))) s)"

definition quietly :: "bool \<Rightarrow> sftp_answers \<Rightarrow> sftp_call \<Rightarrow> unit sftp_act" where
  "quietly b answer call = act_when b (best_effort (scall answer call))"

definition close_connection :: "sftp_answers \<Rightarrow> unit sftp_act" where
  "close_connection answer s =
     act_then (quietly (sf_remote_file (fst s) \<noteq> None) answer SCloseFile)
       (act_then (on_fst (act_modify (\<lambda>c. c\<lparr>sf_remote_file := None\<rparr>)))
       (act_then (if sf_tmp_path (fst s) \<noteq> None \<and> sf_sftp (fst s)
                  then act_then (best_effort (scall answer (SRemove (the (sf_tmp_path (fst s))))))
                         (on_fst (act_modify (\<lambda>c. c\<lparr>sf_tmp_path := None\<rparr>)))
                  else act_return ())
       (act_then (quietly (sf_sftp (fst s)) answer SCloseSftp)
       (act_then (quietly (sf_transport (fst s)) answer SCloseTransport)
         (on_fst (act_modify (\<lambda>c. c\<lparr>sf_sftp := False, sf_transport := False\<rparr>))))))) s"

section \<open>The cycle\<close>

text \<open>\<open>sleep\<close> of the retry acts on the service half of the state.\<close>

definition sftp_sleep :: "rat \<Rightarrow> sftp_client \<times> sftp_call service \<Rightarrow> sftp_client \<times> sftp_call service" where
  "sftp_sleep d s = (fst s, svc_sleep d (snd s))"

definition sftp_failure :: "sftp_client \<Rightarrow> terr \<Rightarrow> terr" where
  "sftp_failure c e =
     (if isinstance e ''SftpClientError'' then e
      else sftp_error (format_transport_runtime_error ''sftp_client'' (classify_transport_error ''sftp'' e) e
        (case sf_password c of Some p \<Rightarrow> [p] | None \<Rightarrow> []
          @ (case sf_private_key_pem c of Some p \<Rightarrow> [p] | None \<Rightarrow> []))))"

definition sftp_connect :: "sftp_answers \<Rightarrow> paramiko \<Rightarrow> unit sftp_act" where
  "sftp_connect answer pk s =
     act_then
       (if sf_factory (fst s) then act_then (scall answer SFactory) (act_return ())
        else execute_with_retry (fi_transport (sf_iac (fst s))) (classify_transport_error ''sftp'')
               sftp_sleep (build_real_sftp answer pk))
       (on_fst (act_modify (\<lambda>c. c\<lparr>sf_sftp := True\<rparr>))) s"

text \<open>\<open>unique\<close> is \<open>uuid.uuid4().hex\<close> of this call.\<close>

definition sftp_start_file :: "sftp_answers \<Rightarrow> string \<Rightarrow> unit sftp_act" where
  "sftp_start_file answer unique s =
     (let i = sf_iac (fst s); tmp = fi_remote_path i @ ''.'' @ unique @ ''.tmp'';
          path = (if fi_atomic_write i then tmp else fi_remote_path i)
      in act_then (on_fst (act_modify (\<lambda>c. c\<lparr>sf_tmp_path := if fi_atomic_write i then Some tmp else None\<rparr>)))
           (act_then (scall answer (SOpenFile path))
             (act_then (on_fst (act_modify (\<lambda>c. c\<lparr>sf_remote_file := Some path\<rparr>)))
               (act_then (scall answer SSetPipelined) (act_return ())))) s)"

definition sftp_open :: "sftp_answers \<Rightarrow> paramiko \<Rightarrow> string \<Rightarrow> unit sftp_act" where
  "sftp_open answer pk unique s =
     act_then (act_when (sf_sftp (fst s) \<and> \<not> sf_finalized (fst s)) (close_connection answer))
       (act_then (on_fst (act_modify (\<lambda>c. c\<lparr>sf_finalized := False\<rparr>)))
         (act_catch (act_then (sftp_connect answer pk) (sftp_start_file answer unique))
           (\<lambda>e. act_raise (sftp_failure (fst s) e)))) s"

definition sftp_send_chunk :: "sftp_answers \<Rightarrow> bytes \<Rightarrow> unit sftp_act" where
  "sftp_send_chunk answer chunk s =
     (if sf_finalized (fst s) then (Inl (sftp_error ''send_chunk() called after finalize()''), s)
      else if sf_remote_file (fst s) = None
      then (Inl (sftp_error ''send_chunk() called before open()''), s)
      else act_then (scall answer (SWrite chunk)) (act_return ()) s)"

definition sftp_promote :: "sftp_answers \<Rightarrow> unit sftp_act" where
  "sftp_promote answer s =
     (case (fi_atomic_write (sf_iac (fst s)), sf_tmp_path (fst s)) of
        (True, Some tmp) \<Rightarrow>
          act_catch
            (act_then (scall answer (SRename tmp (fi_remote_path (sf_iac (fst s)))))
              (on_fst (act_modify (\<lambda>c. c\<lparr>sf_tmp_path := None\<rparr>))))
            (\<lambda>e. act_then (quietly (sf_sftp (fst s)) answer (SRemove tmp))
              (act_then (on_fst (act_modify (\<lambda>c. c\<lparr>sf_tmp_path := None\<rparr>)))
                (act_then (close_connection answer)
                  (act_raise (sftp_error (''sftp_client: atomic rename failed: '' @ te_text e)))))) s
      | _ \<Rightarrow> (Inr (), s))"

definition sftp_finalize :: "sftp_answers \<Rightarrow> delivery_result sftp_act" where
  "sftp_finalize answer s =
     (if sf_finalized (fst s)
      then (Inl (sftp_error ''finalize() already called; call open() to start a new run''), s)
      else if sf_remote_file (fst s) = None
      then (Inl (sftp_error ''finalize() called before open()''), s)
      else act_then (best_effort (scall answer SCloseFile))
        (act_then (on_fst (act_modify (\<lambda>c. c\<lparr>sf_remote_file := None\<rparr>)))
        (act_then (sftp_promote answer)
        (act_then (close_connection answer)
        (act_then (on_fst (act_modify (\<lambda>c. c\<lparr>sf_finalized := True\<rparr>)))
          (act_return \<lparr>dr_skipped = False, dr_status_code = Some 0\<rparr>))))) s)"

end
