(* ===== verification/PFP_Sftp_Spec.thy ===== *)
theory PFP_Sftp_Spec
  imports PFP_Sftp
begin

text \<open>
  What the SFTP client promises: no credential is sent before the server's key has been checked,
  and a successful delivery has written the payload and moved it to its place.
\<close>

section \<open>Credentials and the host key\<close>

fun is_auth :: "sftp_call \<Rightarrow> bool" where
  "is_auth (SAuthPassword u p) = True"
| "is_auth (SAuthKey u k) = True"
| "is_auth c = False"

text \<open>From position \<open>n\<close> on, every authentication follows a key request answered with the expected key.\<close>

definition guarded :: "sftp_answers \<Rightarrow> string option \<Rightarrow> nat \<Rightarrow> sftp_call list \<Rightarrow> bool" where
  "guarded answer expected n lg \<longleftrightarrow>
     (\<forall>l1 c l2. lg = l1 @ c # l2 \<longrightarrow> is_auth c \<longrightarrow> n \<le> length l1 \<longrightarrow>
        (\<exists>l0 k. l1 = l0 @ [SGetServerKey] \<and> answer l1 = Inr k \<and> expected = Some k))"

lemma guarded_start: "guarded answer ex (length lg) lg"
  by (auto simp: guarded_def)

lemma guarded_snoc:
  assumes "guarded answer ex n lg"
    "is_auth c \<Longrightarrow> \<exists>l0 k. lg = l0 @ [SGetServerKey] \<and> answer lg = Inr k \<and> ex = Some k"
  shows "guarded answer ex n (lg @ [c])"
  unfolding guarded_def
proof (intro allI impI)
  fix l1 d l2 assume d: "lg @ [c] = l1 @ d # l2" "is_auth d" "n \<le> length l1"
  show "\<exists>l0 k. l1 = l0 @ [SGetServerKey] \<and> answer l1 = Inr k \<and> ex = Some k"
  proof (cases l2 rule: rev_cases)
    case Nil
    then show ?thesis using d assms(2) by auto
  next
    case (snoc l3 x)
    then have "lg = l1 @ d # l3" using d(1) by simp
    then show ?thesis using assms(1) d unfolding guarded_def by blast
  qed
qed

definition host_inv :: "sftp_answers \<Rightarrow> sftp_client_iac \<Rightarrow> string option \<Rightarrow> nat
    \<Rightarrow> sftp_client \<times> sftp_call service \<Rightarrow> bool" where
  "host_inv answer i ex n s \<longleftrightarrow> sf_iac (fst s) = i \<and> sf_expected_host_key (fst s) = ex
     \<and> guarded answer ex n (sw_log (snd s))"

lemma host_scall [preserves_intros]:
  "\<not> is_auth c \<Longrightarrow> preserves (host_inv answer i ex n) (scall answer c)"
  by (auto simp: preserves_def host_inv_def scall_def on_snd_def svc_call_def intro: guarded_snoc)

lemma host_scall_opt [preserves_intros]:
  assumes "\<And>v. \<not> is_auth (f v)"
  shows "preserves (host_inv answer i ex n) (scall_opt answer f x)"
proof (cases x)
  case (Some v)
  show ?thesis
    unfolding scall_opt_def Some option.case
    by (intro preserves_then host_scall preserves_basic assms)
qed (simp add: scall_opt_def preserves_basic)

lemma host_modify [preserves_intros]:
  assumes "\<And>c. sf_iac (f c) = sf_iac c" "\<And>c. sf_expected_host_key (f c) = sf_expected_host_key c"
  shows "preserves (host_inv answer i ex n) (on_fst (act_modify f))"
  by (simp add: preserves_def host_inv_def on_fst_def act_modify_def assms)

lemma host_quietly [preserves_intros]:
  "\<not> is_auth c \<Longrightarrow> preserves (host_inv answer i ex n) (quietly b answer c)"
  unfolding quietly_def by (intro preserves_intros)

lemma host_close [preserves_intros]: "preserves (host_inv answer i ex n) (close_connection answer)"
  unfolding close_connection_def by (rule preserves_read, intro preserves_intros) simp_all

lemma scall_Inr:
  "scall answer c s = (Inr r, s') \<longleftrightarrow> answer (sw_log (snd s) @ [c]) = Inr r
     \<and> s' = (fst s, (snd s)\<lparr>sw_log := sw_log (snd s) @ [c]\<rparr>)"
  by (cases s') (auto simp: scall_def on_snd_def svc_call_def)

text \<open>The check and the authentication together, which is where the invariant is earned.\<close>

lemma host_check:
  assumes "verify_ssh_host_key (fi_transport i)" "sf_iac c = i" "sf_expected_host_key c = ex"
  shows "preserves (host_inv answer i ex n) (act_then (check_host_key answer pk c) (authenticate answer pk c))"
  unfolding preserves_def
proof (intro allI impI)
  fix s assume I: "host_inv answer i ex n s"
  have pre: "preserves (host_inv answer i ex n) (check_host_key answer pk c)"
    unfolding check_host_key_def by (intro preserves_intros) auto
  obtain r s1 where s1: "check_host_key answer pk c s = (r, s1)" by (metis prod.exhaust)
  have I1: "host_inv answer i ex n s1" by (rule preserves_D [OF pre s1 I])
  show "host_inv answer i ex n (snd (act_then (check_host_key answer pk c) (authenticate answer pk c) s))"
  proof (cases r)
    case (Inl e)
    then show ?thesis using s1 I1 by (simp add: act_then_def act_bind_def)
  next
    case (Inr u)
    then have key: "\<exists>l0 k. sw_log (snd s1) = l0 @ [SGetServerKey] \<and> answer (sw_log (snd s1)) = Inr k \<and> ex = Some k"
      using s1 assms by (auto simp: check_host_key_def act_bind_Inr act_then_Inr scall_Inr act_raise_def
          act_return_def split: if_splits)
    have auth: "host_inv answer i ex n (snd (scall answer a s1))" for a
      using I1 key by (auto simp: host_inv_def scall_def on_snd_def svc_call_def intro!: guarded_snoc)
    have "host_inv answer i ex n (snd (authenticate answer pk c s1))"
    proof (cases "sf_password c")
      case None
      show ?thesis
      proof (cases "load_private_key pk (the (sf_private_key_pem c))")
        case (Inl e)
        then show ?thesis using I1 None by (simp add: authenticate_def act_bind_def act_lift_def)
      next
        case (Inr k)
        then show ?thesis using auth [of "SAuthKey (fi_username (sf_iac c)) k"] None
          by (auto simp: authenticate_def act_bind_def act_lift_def act_then_def act_return_def
              split: prod.splits sum.splits)
      qed
    next
      case (Some p)
      then show ?thesis using auth [of "SAuthPassword (fi_username (sf_iac c)) p"]
        by (auto simp: authenticate_def act_bind_def act_then_def act_return_def
            split: prod.splits sum.splits)
    qed
    then show ?thesis using s1 \<open>r = Inr u\<close> by (simp add: act_then_def act_bind_def)
  qed
qed

lemma host_build [preserves_intros]:
  assumes "verify_ssh_host_key (fi_transport i)"
  shows "preserves (host_inv answer i ex n) (build_real_sftp answer pk)"
proof -
  have step: "preserves (host_inv answer i ex n) (\<lambda>s'.
      act_then (scall answer (SConnect (fi_host (sf_iac (fst s))) (fi_port (sf_iac (fst s)))))
       (act_then (scall answer (SKeepalive 60))
       (act_then (scall answer SSecurityOptions)
       (act_then (scall_opt answer SSetCiphers (ssh_ciphers (fi_transport (sf_iac (fst s)))))
       (act_then (scall_opt answer SSetMacs (ssh_macs (fi_transport (sf_iac (fst s)))))
       (act_then (scall_opt answer SSetKex (ssh_kex (fi_transport (sf_iac (fst s)))))
       (act_then (scall_opt answer SSetKeyTypes (ssh_key_types (fi_transport (sf_iac (fst s)))))
       (act_then (scall answer (SStartClient (timeout_seconds (fi_transport (sf_iac (fst s))))))
       (act_then (act_then (check_host_key answer pk (fst s)) (authenticate answer pk (fst s)))
       (act_then (on_fst (act_modify (\<lambda>c. c\<lparr>sf_transport := True\<rparr>)))
       (act_then (scall answer SFromTransport) (act_return ()))))))))))) s')"
    if "host_inv answer i ex n s" for s
    using that assms by (intro preserves_intros host_check) (auto simp: host_inv_def)
  show ?thesis
    using preserves_read [OF step] by (simp add: build_real_sftp_def [abs_def] Let_def act_then_assoc)
qed

text \<open>
  C24: No credential leaves before the host key is verified.  With \<open>verify_ssh_host_key\<close> on, every
  password or key authentication that \<open>open\<close> performs, in any of its retried connection
  attempts, comes directly after a request for the server's key that was answered with exactly
  the expected key.
\<close>

theorem credentials_after_host_key:
  assumes "verify_ssh_host_key (fi_transport (sf_iac (fst s)))"
    "sftp_open answer pk unique s = (r, s')"
    "sw_log (snd s') = l1 @ c # l2" "is_auth c" "length (sw_log (snd s)) \<le> length l1"
  shows "\<exists>l0 k. l1 = l0 @ [SGetServerKey] \<and> answer l1 = Inr k
    \<and> sf_expected_host_key (fst s) = Some k"
proof -
  let ?I = "host_inv answer (sf_iac (fst s)) (sf_expected_host_key (fst s)) (length (sw_log (snd s)))"
  have sleep: "?I (sftp_sleep d t)" if "?I t" for d t
    using that by (simp add: host_inv_def sftp_sleep_def svc_sleep_def)
  have connect: "preserves ?I (sftp_connect answer pk)"
    unfolding sftp_connect_def
    by (rule preserves_read, intro preserves_intros sleep) (use assms(1) in auto)
  have start: "preserves ?I (sftp_start_file answer unique)"
    unfolding sftp_start_file_def Let_def by (rule preserves_read, intro preserves_intros) auto
  have open_keeps: "preserves ?I (sftp_open answer pk unique)"
    unfolding sftp_open_def
    by (rule preserves_read, intro preserves_then preserves_when preserves_catch host_close host_modify
        preserves_basic connect start) auto
  have "?I s" by (simp add: host_inv_def guarded_start)
  with open_keeps assms(2) have "?I s'" by (rule preserves_D)
  then show ?thesis using assms(3-5) unfolding host_inv_def guarded_def by blast
qed

definition sample_sftp_iac :: "bool \<Rightarrow> sftp_client_iac" where
  "sample_sftp_iac verify = \<lparr>fi_host = ''h'', fi_port = 22, fi_username = ''u'', fi_remote_path = ''/f'',
     fi_password_ref = None, fi_private_key_ref = None, fi_host_key_ref = None, fi_atomic_write = True,
     fi_transport = default_sftp_policy\<lparr>verify_ssh_host_key := verify\<rparr>\<rparr>"

definition sample_sftp :: "bool \<Rightarrow> sftp_client \<times> sftp_call service" where
  "sample_sftp verify =
     (\<lparr>sf_iac = sample_sftp_iac verify, sf_factory = False, sf_password = Some ''pw'',
       sf_private_key_pem = None, sf_expected_host_key = Some ''key'', sf_sftp = False,
       sf_transport = False, sf_remote_file = None, sf_tmp_path = None, sf_finalized = False\<rparr>,
      \<lparr>sw_log = [], sw_sleeps = [], sw_clock = ''''\<rparr>)"

definition sample_paramiko :: paramiko where
  "sample_paramiko = \<lparr>pk_has_dss = False, pk_parse = (\<lambda>c k. Inr k), pk_name = (\<lambda>k. k),
     pk_load = (\<lambda>c p. Inr p)\<rparr>"

text \<open>A server whose key is \<open>key\<close>; closing the remote file fails, everything else succeeds.\<close>

definition sample_server :: sftp_answers where
  "sample_server l =
     (if last l = SCloseFile then Inl (err [''OSError''] ''write failed'') else Inr ''key'')"

lemmas sftp_run_defs = sftp_open_def sftp_connect_def build_real_sftp_def sftp_start_file_def
  scall_def scall_opt_def svc_call_def check_host_key_def authenticate_def act_basic_defs
  execute_with_retry_def retry_loop.simps sample_sftp_def sample_sftp_iac_def sample_server_def
  default_sftp_policy_def Let_def

lemma sample_open_log:
  "sw_log (snd (snd (sftp_open sample_server sample_paramiko ''id'' (sample_sftp True)))) =
     [SConnect ''h'' 22, SKeepalive 60, SSecurityOptions, SStartClient 60, SGetServerKey,
      SAuthPassword ''u'' ''pw'', SFromTransport, SOpenFile ''/f.id.tmp'', SSetPipelined]"
  by (simp add: sftp_run_defs)

theorem credentials_after_host_key_witness:
  "\<exists>l0 k. [SConnect ''h'' 22, SKeepalive 60, SSecurityOptions, SStartClient 60, SGetServerKey]
       = l0 @ [SGetServerKey]
    \<and> sample_server [SConnect ''h'' 22, SKeepalive 60, SSecurityOptions, SStartClient 60, SGetServerKey] = Inr k
    \<and> sf_expected_host_key (fst (sample_sftp True)) = Some k"
proof (rule credentials_after_host_key)
  show "verify_ssh_host_key (fi_transport (sf_iac (fst (sample_sftp True))))"
    by (simp add: sample_sftp_def sample_sftp_iac_def)
  show "sftp_open sample_server sample_paramiko ''id'' (sample_sftp True)
      = (fst (sftp_open sample_server sample_paramiko ''id'' (sample_sftp True)),
         snd (sftp_open sample_server sample_paramiko ''id'' (sample_sftp True)))"
    by simp
  show "sw_log (snd (snd (sftp_open sample_server sample_paramiko ''id'' (sample_sftp True))))
      = [SConnect ''h'' 22, SKeepalive 60, SSecurityOptions, SStartClient 60, SGetServerKey] @
        SAuthPassword ''u'' ''pw'' # [SFromTransport, SOpenFile ''/f.id.tmp'', SSetPipelined]"
    unfolding sample_open_log by simp
qed (simp_all add: sample_sftp_def)

section \<open>Delivery\<close>

text \<open>The calls of a cycle on the remote file, after whatever came before.\<close>

definition file_calls :: "string \<Rightarrow> bytes list \<Rightarrow> sftp_call list" where
  "file_calls path cs = [SOpenFile path, SSetPipelined] @ map SWrite cs"

fun all_answered :: "sftp_answers \<Rightarrow> sftp_call list \<Rightarrow> sftp_call list \<Rightarrow> bool" where
  "all_answered answer before [] = True"
| "all_answered answer before (c # cs) =
     ((\<exists>r. answer (before @ [c]) = Inr r) \<and> all_answered answer (before @ [c]) cs)"

lemma all_answered_snoc:
  "all_answered answer before (cs @ [c]) \<longleftrightarrow>
     all_answered answer before cs \<and> (\<exists>r. answer (before @ cs @ [c]) = Inr r)"
  by (induction cs arbitrary: before) auto

definition written_path :: "sftp_client \<Rightarrow> string option" where
  "written_path c =
     (if fi_atomic_write (sf_iac c) then sf_tmp_path c else Some (fi_remote_path (sf_iac c)))"

definition sftp_cycle ::
    "sftp_answers \<Rightarrow> sftp_client_iac \<Rightarrow> sftp_client \<times> sftp_call service \<Rightarrow> string \<Rightarrow> sftp_call list
      \<Rightarrow> bytes list \<Rightarrow> bool" where
  "sftp_cycle answer i s path before cs \<longleftrightarrow> sf_iac (fst s) = i \<and> \<not> sf_finalized (fst s)
     \<and> sf_remote_file (fst s) = Some path \<and> written_path (fst s) = Some path
     \<and> (\<not> fi_atomic_write i \<longrightarrow> sf_tmp_path (fst s) = None)
     \<and> sw_log (snd s) = before @ file_calls path cs \<and> all_answered answer before (file_calls path cs)"

definition sftp_pend :: "sftp_answers \<Rightarrow> sftp_client_iac \<Rightarrow> sftp_client \<times> sftp_call service \<Rightarrow> bytes \<Rightarrow> bool" where
  "sftp_pend answer i s d \<longleftrightarrow> (\<exists>path before cs. sftp_cycle answer i s path before cs \<and> d = concat cs)"

definition sftp_stored ::
    "sftp_answers \<Rightarrow> sftp_client_iac \<Rightarrow> sftp_client \<times> sftp_call service \<Rightarrow> delivery_result \<Rightarrow> bytes \<Rightarrow> bool" where
  "sftp_stored answer i s r d \<longleftrightarrow> r = \<lparr>dr_skipped = False, dr_status_code = Some 0\<rparr>
     \<and> (\<exists>path before cs ending. concat cs = d \<and> all_answered answer before (file_calls path cs)
        \<and> (if fi_atomic_write i
           then sw_log (snd s) = before @ file_calls path cs @ [SCloseFile, SRename path (fi_remote_path i)] @ ending
             \<and> (\<exists>x. answer (before @ file_calls path cs @ [SCloseFile, SRename path (fi_remote_path i)]) = Inr x)
           else path = fi_remote_path i \<and> sw_log (snd s) = before @ file_calls path cs @ [SCloseFile] @ ending)
        \<and> set ending \<subseteq> {SCloseSftp, SCloseTransport})"

lemma sftp_start_cycle:
  assumes "sftp_start_file answer unique s = (Inr (), s')" "\<not> sf_finalized (fst s)" "sf_iac (fst s) = i"
  shows "sftp_pend answer i s' []"
proof -
  let ?tmp = "fi_remote_path i @ CHR ''.'' # unique @ ''.tmp''"
  let ?path = "if fi_atomic_write i then ?tmp else fi_remote_path i"
  let ?c = "(fst s)\<lparr>sf_tmp_path := if fi_atomic_write i then Some ?tmp else None,
     sf_remote_file := Some ?path\<rparr>"
  obtain a b where "answer (sw_log (snd s) @ [SOpenFile ?path]) = Inr a"
    "answer (sw_log (snd s) @ [SOpenFile ?path, SSetPipelined]) = Inr b"
    "fst s' = ?c" "sw_log (snd s') = sw_log (snd s) @ [SOpenFile ?path, SSetPipelined]"
    using assms(1,3)
    by (auto simp: sftp_start_file_def Let_def act_then_Inr scall_Inr on_fst_Inr act_modify_def act_return_def)
  then have "sftp_cycle answer i s' ?path (sw_log (snd s)) []"
    using assms(2,3) by (simp add: sftp_cycle_def written_path_def file_calls_def)
  then show ?thesis unfolding sftp_pend_def by force
qed

lemma sftp_open_pend:
  assumes "sf_iac (fst s) = i" "sftp_open answer pk unique s = (Inr (), s')"
  shows "sftp_pend answer i s' []"
proof -
  let ?K = "\<lambda>t. sf_iac (fst t) = i"
  let ?J = "\<lambda>t. sf_iac (fst t) = i \<and> \<not> sf_finalized (fst t)"
  have scalls: "preserves ?K (scall answer c)" "preserves ?J (scall answer c)" for c
    by (auto simp: preserves_def scall_def on_snd_def split: prod.splits)
  have mods: "preserves ?K (on_fst (act_modify f))" if "\<And>c. sf_iac (f c) = sf_iac c" for f
    by (simp add: preserves_def on_fst_def act_modify_def that)
  have modj: "preserves ?J (on_fst (act_modify f))"
    if "\<And>c. sf_iac (f c) = sf_iac c" "\<And>c. sf_finalized (f c) = sf_finalized c" for f
    by (simp add: preserves_def on_fst_def act_modify_def that)
  have close: "preserves ?K (close_connection answer)"
    unfolding close_connection_def quietly_def
    by (rule preserves_read, intro preserves_intros scalls mods) simp_all
  have opts: "preserves ?J (scall_opt answer f x)" for f :: "string list \<Rightarrow> sftp_call" and x
    unfolding scall_opt_def by (cases x; simp only: option.case; intro preserves_intros scalls)
  have check: "preserves ?J (check_host_key answer pk c)" for c
    unfolding check_host_key_def by (intro preserves_intros scalls)
  have auth: "preserves ?J (authenticate answer pk c)" for c
    unfolding authenticate_def by (cases "sf_password c"; simp only: option.case; intro preserves_intros scalls)
  have build: "preserves ?J (build_real_sftp answer pk)"
    unfolding build_real_sftp_def Let_def
    by (rule preserves_read, intro preserves_intros scalls opts check auth modj) simp_all
  have connect: "preserves ?J (sftp_connect answer pk)"
    unfolding sftp_connect_def
    by (rule preserves_read, intro preserves_intros scalls build modj) (simp_all add: sftp_sleep_def)
  obtain s1 s2 s3 where s1: "act_when (sf_sftp (fst s) \<and> \<not> sf_finalized (fst s)) (close_connection answer) s = (Inr (), s1)"
    "s2 = ((fst s1)\<lparr>sf_finalized := False\<rparr>, snd s1)"
    "sftp_connect answer pk s2 = (Inr (), s3)" "sftp_start_file answer unique s3 = (Inr (), s')"
    using assms(2) unfolding sftp_open_def act_then_Inr act_catch_raise_Inr on_fst_Inr
    by (auto simp: act_modify_def)
  have "?K s1"
    by (rule preserves_D [OF preserves_when [OF close] s1(1)]) (rule assms(1))
  then have "?J s2" using s1(2) by simp
  with connect s1(3) have "?J s3" by (rule preserves_D)
  then show ?thesis using sftp_start_cycle [OF s1(4)] by simp
qed

lemma sftp_send_pend:
  assumes "sftp_pend answer i s d" "sftp_send_chunk answer c s = (Inr (), s')"
  shows "sftp_pend answer i s' (d @ c)"
proof -
  from assms(1) obtain path before cs where p: "sftp_cycle answer i s path before cs" "d = concat cs"
    unfolding sftp_pend_def by blast
  then obtain r where r: "answer (sw_log (snd s) @ [SWrite c]) = Inr r" "fst s' = fst s"
    "sw_log (snd s') = sw_log (snd s) @ [SWrite c]"
    using assms(2)
    by (auto simp: sftp_cycle_def sftp_send_chunk_def act_then_Inr scall_Inr act_return_def split: if_splits)
  have "file_calls path (cs @ [c]) = file_calls path cs @ [SWrite c]" by (simp add: file_calls_def)
  then have "sftp_cycle answer i s' path before (cs @ [c])"
    using p(1) r by (auto simp: sftp_cycle_def all_answered_snoc written_path_def)
  then show ?thesis using p(2) unfolding sftp_pend_def by (intro exI) auto
qed

lemma close_connection_log:
  assumes "close_connection answer s = (r, s')" "sf_tmp_path (fst s) = None" "sf_remote_file (fst s) = None"
  shows "\<exists>e. sw_log (snd s') = sw_log (snd s) @ e \<and> set e \<subseteq> {SCloseSftp, SCloseTransport}"
  using assms
  by (auto simp: close_connection_def quietly_def act_basic_defs scall_def svc_call_def
      split: prod.splits if_splits)

text \<open>\<open>finalize\<close> after the remote file was closed: promotion, then the connection is closed.\<close>

lemma sftp_promote_Inr:
  assumes "sftp_promote answer s = (Inr (), s')" "written_path (fst s) = Some path"
    "sf_iac (fst s) = i"
  shows "if fi_atomic_write i
    then sw_log (snd s') = sw_log (snd s) @ [SRename path (fi_remote_path i)]
      \<and> (\<exists>x. answer (sw_log (snd s) @ [SRename path (fi_remote_path i)]) = Inr x)
      \<and> fst s' = (fst s)\<lparr>sf_tmp_path := None\<rparr>
    else path = fi_remote_path i \<and> s' = s"
proof (cases "fi_atomic_write i")
  case True
  then have t: "sf_tmp_path (fst s) = Some path" using assms(2,3) by (simp add: written_path_def)
  have "\<exists>x s1. scall answer (SRename path (fi_remote_path i)) s = (Inr x, s1)
      \<and> on_fst (act_modify (\<lambda>c. c\<lparr>sf_tmp_path := None\<rparr>)) s1 = (Inr (), s')"
  proof -
    have raises: "fst (act_then a (act_then b (act_then c (act_raise e))) w) \<noteq> Inr u"
      for a :: "unit sftp_act" and b :: "unit sftp_act" and c :: "unit sftp_act" and e w and u :: unit
      by (auto simp: act_then_def act_bind_def act_raise_def split: prod.splits sum.splits)
    show ?thesis
      using assms(1,3) True t
      by (simp add: sftp_promote_def act_catch_Inr [OF raises] act_then_Inr)
  qed
  then show ?thesis using True by (auto simp: scall_Inr on_fst_Inr act_modify_def)
next
  case False
  then show ?thesis using assms by (simp add: sftp_promote_def written_path_def)
qed

lemma sftp_finalize_stored:
  assumes "sftp_pend answer i s d" "sftp_finalize answer s = (Inr r, s')"
  shows "sftp_stored answer i s' r d"
proof -
  from assms(1) obtain path before cs where p: "sftp_cycle answer i s path before cs" "d = concat cs"
    unfolding sftp_pend_def by blast
  note c = p(1) [unfolded sftp_cycle_def]
  obtain s1 s2 s3 where s1: "s1 = ((fst s)\<lparr>sf_remote_file := None\<rparr>,
        (snd s)\<lparr>sw_log := sw_log (snd s) @ [SCloseFile]\<rparr>)"
    "sftp_promote answer s1 = (Inr (), s2)" "close_connection answer s2 = (Inr (), s3)"
    "snd s' = snd s3" "r = \<lparr>dr_skipped = False, dr_status_code = Some 0\<rparr>"
  proof -
    have "act_then (best_effort (scall answer SCloseFile))
        (act_then (on_fst (act_modify (\<lambda>c. c\<lparr>sf_remote_file := None\<rparr>)))
        (act_then (sftp_promote answer)
        (act_then (close_connection answer)
        (act_then (on_fst (act_modify (\<lambda>c. c\<lparr>sf_finalized := True\<rparr>)))
          (act_return \<lparr>dr_skipped = False, dr_status_code = Some 0\<rparr>))))) s = (Inr r, s')"
      using assms(2) c by (simp add: sftp_finalize_def)
    then show thesis
      using that by (auto simp: act_then_Inr best_effort_def scall_def on_snd_def svc_call_def
          on_fst_Inr act_modify_def act_return_def split: prod.splits)
  qed
  have w: "written_path (fst s1) = Some path" "sf_iac (fst s1) = i"
    using c s1(1) by (auto simp: written_path_def)
  note pr = sftp_promote_Inr [OF s1(2) w]
  have none: "sf_tmp_path (fst s2) = None" "sf_remote_file (fst s2) = None"
    using pr s1(1) c by (auto split: if_splits)
  obtain e where e: "sw_log (snd s3) = sw_log (snd s2) @ e" "set e \<subseteq> {SCloseSftp, SCloseTransport}"
    using close_connection_log [OF s1(3) none] by blast
  have lg: "sw_log (snd s1) = before @ file_calls path cs @ [SCloseFile]" using c s1(1) by simp
  show ?thesis
    unfolding sftp_stored_def
    using s1(4,5) p(2) c pr e lg
    by (intro conjI exI [of _ path] exI [of _ before] exI [of _ cs] exI [of _ e]) (auto split: if_splits)
qed

interpretation sftp_sink: sink "\<lambda>s. sf_iac (fst s) = i" "sftp_open answer pk unique"
    "sftp_send_chunk answer" "sftp_finalize answer" "sftp_pend answer i" "sftp_stored answer i"
    for i answer pk unique
  by unfold_locales (auto intro: sftp_open_pend sftp_send_pend sftp_finalize_stored)

text \<open>
  C25: The calls of a successful SFTP delivery.  When \<open>open\<close>, a sequence of \<open>send_chunk\<close> calls and
  \<open>finalize\<close> succeeded, the last calls on the server are: the remote file opened in pipelined mode,
  write calls for the whole payload in order, each of which returned, a close of the file, with
  \<open>atomic_write\<close> a rename from the temporary name to \<open>remote_path\<close> that succeeded, and then only
  closes of the connection.  Without \<open>atomic_write\<close> the file is \<open>remote_path\<close> itself.  This is about
  the calls that were issued: a pipelined write may fail after it has returned, and an error of
  the close is swallowed (\<open>close_error_is_lost\<close>).
\<close>

theorem sftp_delivery_calls:
  assumes "sftp_open answer pk unique s = (Inr (), s1)"
    "put_all (sftp_send_chunk answer) cs s1 = (Inr (), s2)" "sftp_finalize answer s2 = (Inr r, s3)"
  shows "r = \<lparr>dr_skipped = False, dr_status_code = Some 0\<rparr>
    \<and> (\<exists>path before ds ending. concat ds = concat cs \<and> all_answered answer before (file_calls path ds)
        \<and> (if fi_atomic_write (sf_iac (fst s))
           then sw_log (snd s3) = before @ file_calls path ds @
                  [SCloseFile, SRename path (fi_remote_path (sf_iac (fst s)))] @ ending
             \<and> (\<exists>x. answer (before @ file_calls path ds @
                  [SCloseFile, SRename path (fi_remote_path (sf_iac (fst s)))]) = Inr x)
           else path = fi_remote_path (sf_iac (fst s))
             \<and> sw_log (snd s3) = before @ file_calls path ds @ [SCloseFile] @ ending)
        \<and> set ending \<subseteq> {SCloseSftp, SCloseTransport})"
  using sftp_sink.cycle_stores [OF refl assms] unfolding sftp_stored_def .

lemmas sftp_cycle_defs = sftp_run_defs sftp_send_chunk_def sftp_finalize_def sftp_promote_def
  close_connection_def quietly_def

text \<open>A server that answers every call, the close included.\<close>

definition willing_server :: sftp_answers where
  "willing_server l = Inr ''key''"

theorem sftp_delivery_calls_witness:
  "\<exists>s1 s2 r s3. sftp_open willing_server sample_paramiko ''id'' (sample_sftp True) = (Inr (), s1)
    \<and> put_all (sftp_send_chunk willing_server) [''ab'', ''c''] s1 = (Inr (), s2)
    \<and> sftp_finalize willing_server s2 = (Inr r, s3)
    \<and> (\<exists>path before ds ending. concat ds = ''abc''
        \<and> sw_log (snd s3) = before @ file_calls path ds @ [SCloseFile, SRename path ''/f''] @ ending)"
proof -
  obtain s1 where s1: "sftp_open willing_server sample_paramiko ''id'' (sample_sftp True) = (Inr (), s1)"
    by (simp add: sftp_cycle_defs willing_server_def)
  obtain s2 where s2: "put_all (sftp_send_chunk willing_server) [''ab'', ''c''] s1 = (Inr (), s2)"
    using s1 by (auto simp: sftp_cycle_defs willing_server_def)
  obtain r s3 where s3: "sftp_finalize willing_server s2 = (Inr r, s3)"
    using s1 s2 by (auto simp: sftp_cycle_defs willing_server_def)
  have iac: "fi_atomic_write (sf_iac (fst (sample_sftp True)))"
    "fi_remote_path (sf_iac (fst (sample_sftp True))) = ''/f''"
    by (simp_all add: sample_sftp_def sample_sftp_iac_def)
  from sftp_delivery_calls [OF s1 s2 s3] obtain path before ds ending where
    "concat ds = ''abc''" "sw_log (snd s3) = before @ file_calls path ds @ [SCloseFile, SRename path ''/f''] @ ending"
    by (auto simp: iac)
  with s1 s2 s3 show ?thesis by blast
qed

text \<open>
  Closing the remote file is best effort: with \<open>sample_server\<close> it fails, and \<open>finalize\<close> renames the
  file and returns all the same, so an error of a pipelined write that only shows at the close
  is lost.
\<close>

lemma close_error_is_lost:
  assumes "sftp_open sample_server sample_paramiko ''id'' (sample_sftp True) = (Inr (), s1)"
    "sftp_send_chunk sample_server ''ab'' s1 = (Inr (), s2)"
  shows "sample_server (sw_log (snd s2) @ [SCloseFile]) = Inl (err [''OSError''] ''write failed'')"
    "fst (sftp_finalize sample_server s2) = Inr \<lparr>dr_skipped = False, dr_status_code = Some 0\<rparr>"
  using assms by (auto simp: sftp_cycle_defs)

text \<open>A failed authentication leaves the connection open: no close follows it in the log.\<close>

definition refusing_server :: sftp_answers where
  "refusing_server l =
     (case last l of SAuthPassword u p \<Rightarrow> Inl (err [''AuthenticationException''] ''Authentication failed'')
      | _ \<Rightarrow> Inr ''key'')"

lemma refused_auth_category:
  "classify_transport_error ''sftp'' (err [''AuthenticationException''] ''Authentication failed'')
     = ''auth_failure''"
  "is_retryable_category ''auth_failure'' = False"
  by code_simp+

lemma failed_auth_leaks_connection:
  "sw_log (snd (snd (sftp_open refusing_server sample_paramiko ''id'' (sample_sftp True)))) =
     [SConnect ''h'' 22, SKeepalive 60, SSecurityOptions, SStartClient 60, SGetServerKey,
      SAuthPassword ''u'' ''pw'']"
  "\<exists>e. fst (sftp_open refusing_server sample_paramiko ''id'' (sample_sftp True)) = Inl e"
  by (simp_all add: sftp_run_defs refusing_server_def refused_auth_category)

end
