(* ===== verification/PFP_Flood_Control.thy ===== *)
theory PFP_Flood_Control
  imports Complex_Main PFP_Feed_Ops
begin

text \<open>
  The flood-control filter of the log pipeline (\<open>logging/filters/flood_control_filter/\<close>): the
  normalised configuration, the four strategies, the summary emitter and the caches with their
  eviction.  A call sees the monotonic clock once, as \<open>now\<close>; the strategies hold a lock for each
  decision, so a run is a sequence of calls.  Record keys are compared by structure, while
  Python also identifies \<open>True\<close>, \<open>1\<close> and \<open>1.0\<close>.
\<close>

section \<open>Configuration\<close>

record flood_config =
  fc_enabled :: bool
  fc_mode :: string
  fc_context_keys :: "string list"
  fc_suppressed_levels :: "int list"
  fc_force_log_attr :: string
  fc_key_fields :: "string list"
  fc_window_seconds :: rat
  fc_max_events :: nat
  fc_emit_summary :: bool
  fc_summary_level :: int
  fc_summary_interval :: rat
  fc_max_cache_size :: nat

definition supported_modes :: "string list" where
  "supported_modes = [''off'', ''context_info_suppression'', ''rate_limit'', ''deduplicate'']"

definition default_flood_config :: dict where
  "default_flood_config =
     [(''enabled'', PyBool True), (''mode'', PyStr ''context_info_suppression''),
      (''context_keys'', PyList [PyStr ''item_ref'']), (''suppressed_levels'', PyList [PyStr ''INFO'']),
      (''force_log_attr'', PyStr ''force_log''),
      (''key_fields'', PyList [PyStr ''name'', PyStr ''levelno'', PyStr ''msg'', PyStr ''item_ref'']),
      (''window_seconds'', PyFloat ''30.0''), (''max_events_per_window'', PyInt 1),
      (''emit_summary'', PyBool False), (''summary_level'', PyStr ''INFO''),
      (''summary_interval_seconds'', PyFloat ''30.0''), (''max_cache_size'', PyInt 10000)]"

definition normalize_non_empty_string :: "pyval \<Rightarrow> string result" where
  "normalize_non_empty_string v =
     (case v of PyStr s \<Rightarrow> if s = [] then Inl ValueError else Inr s | _ \<Rightarrow> Inl ValueError)"

text \<open>A \<open>Sequence\<close> that is not a string.\<close>

fun as_sequence :: "pyval \<Rightarrow> pyval list result" where
  "as_sequence (PyList xs) = Inr xs"
| "as_sequence (PyTuple xs) = Inr xs"
| "as_sequence _ = Inl ValueError"

definition normalize_string_sequence :: "pyval \<Rightarrow> string list result" where
  "normalize_string_sequence v = rbind (as_sequence v) (rmap normalize_non_empty_string)"

text \<open>The integer constants of the \<open>logging\<close> module.\<close>

definition logging_levels :: "(string \<times> int) list" where
  "logging_levels =
     [(''CRITICAL'', 50), (''FATAL'', 50), (''ERROR'', 40), (''WARNING'', 30), (''WARN'', 30),
      (''INFO'', 20), (''DEBUG'', 10), (''NOTSET'', 0)]"

definition normalize_level :: "pyval \<Rightarrow> int result" where
  "normalize_level v =
     (if is_int v then Inr (int_of v)
      else case v of
          PyStr s \<Rightarrow> (case map_of logging_levels (upper s) of None \<Rightarrow> Inl ValueError | Some n \<Rightarrow> Inr n)
        | _ \<Rightarrow> Inl ValueError)"

definition normalize_levels :: "pyval \<Rightarrow> int list result" where
  "normalize_levels v = rbind (as_sequence v) (rmap normalize_level)"

definition normalize_bool :: "pyval \<Rightarrow> bool result" where
  "normalize_bool v = (case v of PyBool b \<Rightarrow> Inr b | _ \<Rightarrow> Inl ValueError)"

text \<open>\<open>float_of\<close> is the value of a finite float; infinities and NaN are not modelled.\<close>

definition normalize_positive_float :: "(string \<Rightarrow> rat) \<Rightarrow> pyval \<Rightarrow> rat result" where
  "normalize_positive_float float_of v =
     (case (if is_int v then Some (of_int (int_of v))
            else case v of PyFloat s \<Rightarrow> Some (float_of s) | _ \<Rightarrow> None) of
        None \<Rightarrow> Inl ValueError
      | Some x \<Rightarrow> if x \<le> 0 then Inl ValueError else Inr x)"

definition normalize_positive_int :: "pyval \<Rightarrow> nat result" where
  "normalize_positive_int v =
     (if is_int v \<and> 0 < int_of v then Inr (nat (int_of v)) else Inl ValueError)"

definition normalize_flood_config :: "(string \<Rightarrow> rat) \<Rightarrow> dict option \<Rightarrow> flood_config result" where
  "normalize_flood_config float_of config =
     (let m = foldl (\<lambda>d (k, v). dict_set k v d) default_flood_config (case config of None \<Rightarrow> [] | Some c \<Rightarrow> c) in
      case dget m ''mode'' of
        PyStr mode \<Rightarrow>
          if mode \<notin> set supported_modes then Inl ValueError
          else
            rbind (if dget m ''key_fields'' = PyNone
                   then normalize_string_sequence (dget default_flood_config ''key_fields'')
                   else normalize_string_sequence (dget m ''key_fields'')) (\<lambda>key_fields.
            rbind (normalize_bool (dget m ''enabled'')) (\<lambda>enabled.
            rbind (normalize_string_sequence (dget m ''context_keys'')) (\<lambda>context_keys.
            rbind (normalize_levels (dget m ''suppressed_levels'')) (\<lambda>levels.
            rbind (normalize_non_empty_string (dget m ''force_log_attr'')) (\<lambda>force_log.
            rbind (normalize_positive_float float_of (dget m ''window_seconds'')) (\<lambda>window.
            rbind (normalize_positive_int (dget m ''max_events_per_window'')) (\<lambda>max_events.
            rbind (normalize_bool (dget m ''emit_summary'')) (\<lambda>emit_summary.
            rbind (normalize_level (dget m ''summary_level'')) (\<lambda>summary_level.
            rbind (normalize_positive_float float_of (dget m ''summary_interval_seconds'')) (\<lambda>interval.
            rbind (normalize_positive_int (dget m ''max_cache_size'')) (\<lambda>max_cache.
              if mode = ''deduplicate'' \<and> key_fields = [] then Inl ValueError
              else Inr \<lparr>fc_enabled = enabled, fc_mode = mode, fc_context_keys = context_keys,
                fc_suppressed_levels = levels, fc_force_log_attr = force_log, fc_key_fields = key_fields,
                fc_window_seconds = window, fc_max_events = max_events, fc_emit_summary = emit_summary,
                fc_summary_level = summary_level, fc_summary_interval = interval,
                fc_max_cache_size = max_cache\<rparr>)))))))))))
      | _ \<Rightarrow> Inl ValueError)"

section \<open>Records and their keys\<close>

text \<open>A log record: the fields of \<open>logging.LogRecord\<close> the filter reads, and its other attributes.\<close>

record log_record =
  lr_name :: string
  lr_levelno :: int
  lr_msg :: pyval
  lr_message :: string
  lr_extra :: dict

definition record_attr :: "log_record \<Rightarrow> string \<Rightarrow> pyval" where
  "record_attr r f =
     (if f = ''name'' then PyStr (lr_name r) else if f = ''levelno'' then PyInt (lr_levelno r)
      else if f = ''msg'' then lr_msg r else dget (lr_extra r) f)"

definition freeze_key_component :: "pyval \<Rightarrow> pyval" where
  "freeze_key_component v = (if py_hashable v then v else PyStr (py_repr v))"

definition build_record_key :: "log_record \<Rightarrow> dict \<Rightarrow> string list \<Rightarrow> pyval list" where
  "build_record_key r context key_fields =
     map (\<lambda>f. freeze_key_component
       (if dhas context f then dget context f
        else if f = ''message'' then PyStr (lr_message r) else record_attr r f)) key_fields"

definition is_context_active :: "dict \<Rightarrow> string list \<Rightarrow> bool" where
  "is_context_active context keys \<longleftrightarrow> keys = [] \<or> (\<exists>k \<in> set keys. dhas context k)"

definition get_active_context :: "flood_config \<Rightarrow> log_record \<Rightarrow> dict \<Rightarrow> dict option" where
  "get_active_context cfg r context =
     (if lr_levelno r \<notin> set (fc_suppressed_levels cfg) then None
      else if \<not> is_context_active context (fc_context_keys cfg) then None
      else Some context)"

section \<open>Caches\<close>

type_synonym fkey = "pyval list"

definition dict_pop :: "'k \<Rightarrow> ('k, 'v) odict \<Rightarrow> ('k, 'v) odict" where
  "dict_pop k d = filter (\<lambda>(j, _). j \<noteq> k) d"

text \<open>The keys to evict: the oldest by \<open>last_seen_at\<close>, ties in insertion order.\<close>

definition oldest_keys :: "nat \<Rightarrow> ('k, rat) odict \<Rightarrow> 'k list" where
  "oldest_keys max_size last_seen =
     (if length last_seen \<le> max_size then []
      else map fst (take (length last_seen - max_size) (sort_key snd last_seen)))"

record rate_state =
  rl_windows :: "(fkey, rat list) odict"
  rl_last_seen :: "(fkey, rat) odict"

definition rate_enforce_cache_limit :: "nat \<Rightarrow> rate_state \<Rightarrow> rate_state" where
  "rate_enforce_cache_limit max_size s =
     fold (\<lambda>k s. s\<lparr>rl_last_seen := dict_pop k (rl_last_seen s), rl_windows := dict_pop k (rl_windows s)\<rparr>)
       (oldest_keys max_size (rl_last_seen s)) s"

definition rate_should_suppress :: "flood_config \<Rightarrow> fkey \<Rightarrow> rat \<Rightarrow> rate_state \<Rightarrow> bool \<times> rate_state" where
  "rate_should_suppress cfg k now s =
     (let window = (case map_of (rl_windows s) k of None \<Rightarrow> [] | Some w \<Rightarrow> w);
          recent = dropWhile (\<lambda>t. fc_window_seconds cfg \<le> now - t) window;
          suppress = (fc_max_events cfg \<le> length recent);
          s1 = s\<lparr>rl_windows := dict_set k (if suppress then recent else recent @ [now]) (rl_windows s),
                 rl_last_seen := dict_set k now (rl_last_seen s)\<rparr>
      in (suppress, rate_enforce_cache_limit (fc_max_cache_size cfg) s1))"

record dedup_state =
  dd_seen_at :: "(fkey, rat) odict"
  dd_last_seen :: "(fkey, rat) odict"

definition dedup_enforce_cache_limit :: "nat \<Rightarrow> dedup_state \<Rightarrow> dedup_state" where
  "dedup_enforce_cache_limit max_size s =
     fold (\<lambda>k s. s\<lparr>dd_last_seen := dict_pop k (dd_last_seen s), dd_seen_at := dict_pop k (dd_seen_at s)\<rparr>)
       (oldest_keys max_size (dd_last_seen s)) s"

definition dedup_should_suppress :: "flood_config \<Rightarrow> fkey \<Rightarrow> rat \<Rightarrow> dedup_state \<Rightarrow> bool \<times> dedup_state" where
  "dedup_should_suppress cfg k now s =
     (let last = map_of (dd_seen_at s) k;
          s1 = s\<lparr>dd_seen_at := dict_set k now (dd_seen_at s), dd_last_seen := dict_set k now (dd_last_seen s)\<rparr>
      in ((case last of None \<Rightarrow> False | Some t \<Rightarrow> now - t < fc_window_seconds cfg),
          dedup_enforce_cache_limit (fc_max_cache_size cfg) s1))"

section \<open>Summaries\<close>

record summary_state =
  sm_counts :: "(fkey, nat) odict"
  sm_emitted_at :: "(fkey, rat) odict"
  sm_last_seen :: "(fkey, rat) odict"

definition summary_new :: summary_state where
  "summary_new = \<lparr>sm_counts = [], sm_emitted_at = [], sm_last_seen = []\<rparr>"

definition summary_enforce_cache_limit :: "nat \<Rightarrow> summary_state \<Rightarrow> summary_state" where
  "summary_enforce_cache_limit max_size s =
     fold (\<lambda>k s. s\<lparr>sm_last_seen := dict_pop k (sm_last_seen s), sm_counts := dict_pop k (sm_counts s),
                   sm_emitted_at := dict_pop k (sm_emitted_at s)\<rparr>)
       (oldest_keys max_size (sm_last_seen s)) s"

text \<open>A summary that is logged: the logger's name, the level and the message.\<close>

type_synonym summary = "string \<times> int \<times> string"

definition emit_summary :: "flood_config \<Rightarrow> log_record \<Rightarrow> fkey \<Rightarrow> nat \<Rightarrow> summary" where
  "emit_summary cfg r k n =
     (lr_name r, fc_summary_level cfg,
      ''Flood control suppressed '' @ nat_str n @ '' records in mode='' @ fc_mode cfg @
      '' for key='' @ py_repr (PyTuple k))"

definition record_summary ::
    "flood_config \<Rightarrow> log_record \<Rightarrow> fkey \<Rightarrow> rat \<Rightarrow> summary_state \<Rightarrow> summary list \<times> summary_state" where
  "record_summary cfg r k now s =
     (let n = (case map_of (sm_counts s) k of None \<Rightarrow> 0 | Some n \<Rightarrow> n) + 1;
          s1 = s\<lparr>sm_counts := dict_set k n (sm_counts s), sm_last_seen := dict_set k now (sm_last_seen s)\<rparr>;
          (due, s2) =
            (case map_of (sm_emitted_at s1) k of
               None \<Rightarrow> (None, s1\<lparr>sm_emitted_at := dict_set k now (sm_emitted_at s1)\<rparr>)
             | Some t \<Rightarrow>
                 if fc_summary_interval cfg \<le> now - t
                 then (Some n, s1\<lparr>sm_counts := dict_set k 0 (sm_counts s1),
                                  sm_emitted_at := dict_set k now (sm_emitted_at s1)\<rparr>)
                 else (None, s1))
      in ((case due of None \<Rightarrow> [] | Some c \<Rightarrow> [emit_summary cfg r k c]),
          summary_enforce_cache_limit (fc_max_cache_size cfg) s2))"

section \<open>Strategies and the filter\<close>

datatype strategy =
    AllowAll
  | ContextSuppression "summary_state option"
  | RateLimit rate_state "summary_state option"
  | Deduplicate dedup_state "summary_state option"

definition build_filter_strategy :: "flood_config \<Rightarrow> strategy" where
  "build_filter_strategy cfg =
     (let emitter = (if fc_emit_summary cfg then Some summary_new else None) in
      if \<not> fc_enabled cfg \<or> fc_mode cfg = ''off'' then AllowAll
      else if fc_mode cfg = ''context_info_suppression'' then ContextSuppression emitter
      else if fc_mode cfg = ''rate_limit'' then RateLimit \<lparr>rl_windows = [], rl_last_seen = []\<rparr> emitter
      else Deduplicate \<lparr>dd_seen_at = [], dd_last_seen = []\<rparr> emitter)"

definition record_suppression ::
    "flood_config \<Rightarrow> log_record \<Rightarrow> dict \<Rightarrow> rat \<Rightarrow> summary_state option \<Rightarrow> summary list \<times> summary_state option" where
  "record_suppression cfg r context now emitter =
     (case emitter of
        None \<Rightarrow> ([], None)
      | Some s \<Rightarrow> (case record_summary cfg r (build_record_key r context (fc_key_fields cfg)) now s of
          (out, s') \<Rightarrow> (out, Some s')))"

fun apply_strategy ::
    "flood_config \<Rightarrow> strategy \<Rightarrow> rat \<Rightarrow> dict \<Rightarrow> log_record \<Rightarrow> bool \<times> summary list \<times> strategy" where
  "apply_strategy cfg AllowAll now context r = (True, [], AllowAll)"
| "apply_strategy cfg (ContextSuppression em) now context r =
     (case get_active_context cfg r context of
        None \<Rightarrow> (True, [], ContextSuppression em)
      | Some c \<Rightarrow>
          (case record_suppression cfg r c now em of
             (out, em') \<Rightarrow> (False, out, ContextSuppression em')))"
| "apply_strategy cfg (RateLimit s em) now context r =
     (case get_active_context cfg r context of
        None \<Rightarrow> (True, [], RateLimit s em)
      | Some c \<Rightarrow>
          (case rate_should_suppress cfg (build_record_key r c (fc_key_fields cfg)) now s of
             (True, s') \<Rightarrow>
               (case record_suppression cfg r c now em of (out, em') \<Rightarrow> (False, out, RateLimit s' em'))
           | (False, s') \<Rightarrow> (True, [], RateLimit s' em)))"
| "apply_strategy cfg (Deduplicate s em) now context r =
     (case get_active_context cfg r context of
        None \<Rightarrow> (True, [], Deduplicate s em)
      | Some c \<Rightarrow>
          (case dedup_should_suppress cfg (build_record_key r c (fc_key_fields cfg)) now s of
             (True, s') \<Rightarrow>
               (case record_suppression cfg r c now em of (out, em') \<Rightarrow> (False, out, Deduplicate s' em'))
           | (False, s') \<Rightarrow> (True, [], Deduplicate s' em)))"

record flood_filter =
  ff_config :: flood_config
  ff_strategy :: strategy

definition flood_filter_new :: "(string \<Rightarrow> rat) \<Rightarrow> dict option \<Rightarrow> flood_filter result" where
  "flood_filter_new float_of config =
     rbind (normalize_flood_config float_of config)
       (\<lambda>cfg. Inr \<lparr>ff_config = cfg, ff_strategy = build_filter_strategy cfg\<rparr>)"

definition flood_filter_call ::
    "flood_filter \<Rightarrow> rat \<Rightarrow> dict \<Rightarrow> log_record \<Rightarrow> bool \<times> summary list \<times> flood_filter" where
  "flood_filter_call f now context r =
     (if py_truthy (record_attr r (fc_force_log_attr (ff_config f)))
      then (True, [], f)
      else case apply_strategy (ff_config f) (ff_strategy f) now context r of
          (allowed, out, strategy) \<Rightarrow> (allowed, out, f\<lparr>ff_strategy := strategy\<rparr>))"

end
