(* ===== verification/PFP_Flood_Spec.thy ===== *)
theory PFP_Flood_Spec
  imports PFP_Flood_Control
begin

text \<open>
  What flood control promises: its caches never outgrow their limit and keep no entry beside
  each other, and the rate limit lets at most \<open>max_events_per_window\<close> records of a key through
  in any window as long as no key has to be evicted.
\<close>

section \<open>Dictionaries with removal\<close>

lemma map_of_dict_pop: "map_of (dict_pop k d) j = (if j = k then None else map_of d j)"
  unfolding dict_pop_def by (induction d) auto

lemma dict_ok_pop: "dict_ok d \<Longrightarrow> dict_ok (dict_pop k d)"
  by (auto simp: dict_ok_def dict_pop_def distinct_map intro: inj_on_subset)

lemma dict_keys_Nil [simp]: "dict_keys [] = []"
  by (simp add: dict_keys_def)

lemma keys_dict_pop: "set (dict_keys (dict_pop k d)) = set (dict_keys d) - {k}"
  by (auto simp: dict_keys_def dict_pop_def)

lemma fold_dict_pop:
  "dict_ok d \<Longrightarrow> dict_ok (fold dict_pop ks d)"
  "set (dict_keys (fold dict_pop ks d)) = set (dict_keys d) - set ks"
  by (induction ks arbitrary: d) (auto simp: dict_ok_pop keys_dict_pop)

lemma length_dict_keys: "dict_ok d \<Longrightarrow> length d = card (set (dict_keys d))"
  unfolding dict_ok_def dict_keys_def by (metis distinct_card length_map)

lemma oldest_keys_facts:
  assumes "dict_ok d"
  shows "set (oldest_keys n d) \<subseteq> set (dict_keys d)" "card (set (oldest_keys n d)) = length d - n"
proof -
  have "distinct (map fst (sort_key snd d))" "set (map fst (sort_key snd d)) = set (dict_keys d)"
    using assms by (simp_all add: dict_ok_def dict_keys_def distinct_map)
  then show "set (oldest_keys n d) \<subseteq> set (dict_keys d)" "card (set (oldest_keys n d)) = length d - n"
    by (auto simp: oldest_keys_def take_map [symmetric] distinct_card dest: in_set_takeD)
qed

section \<open>Interface: a cache that evicts its oldest entries\<close>

text \<open>
  A state with a \<open>last_seen_at\<close> dictionary and further dictionaries over the same keys, and an
  operation that drops the oldest keys from all of them.
\<close>

locale evicting_cache =
  fixes last_seen :: "'s \<Rightarrow> ('k, rat) odict"
    and tables :: "'s \<Rightarrow> 'k set list"
    and enforce :: "nat \<Rightarrow> 's \<Rightarrow> 's"
  assumes last_seen_enforce: "last_seen (enforce n s) = fold dict_pop (oldest_keys n (last_seen s)) (last_seen s)"
    and tables_enforce: "tables (enforce n s) = map (\<lambda>K. K - set (oldest_keys n (last_seen s))) (tables s)"
begin

definition coherent :: "'s \<Rightarrow> bool" where
  "coherent s \<longleftrightarrow> dict_ok (last_seen s) \<and> list_all (\<lambda>K. K = set (dict_keys (last_seen s))) (tables s)"

lemma enforce_coherent: "coherent s \<Longrightarrow> coherent (enforce n s)"
  by (auto simp: coherent_def last_seen_enforce tables_enforce fold_dict_pop list_all_iff)

lemma enforce_bounded:
  assumes "coherent s"
  shows "length (last_seen (enforce n s)) \<le> n"
proof -
  let ?d = "last_seen s"
  have ok: "dict_ok ?d" using assms by (simp add: coherent_def)
  have "length (last_seen (enforce n s)) = card (set (dict_keys ?d) - set (oldest_keys n ?d))"
    using ok by (simp add: last_seen_enforce length_dict_keys fold_dict_pop)
  also have "\<dots> = length ?d - (length ?d - n)"
    using oldest_keys_facts [OF ok] length_dict_keys [OF ok] by (simp add: card_Diff_subset)
  finally show ?thesis by simp
qed

lemma table_bounded:
  assumes "coherent s" "K \<in> set (tables (enforce n s))"
  shows "card K \<le> n"
proof -
  from enforce_coherent [OF assms(1), of n] have "dict_ok (last_seen (enforce n s))"
    "K = set (dict_keys (last_seen (enforce n s)))"
    using assms(2) by (auto simp: coherent_def list_all_iff)
  with enforce_bounded [OF assms(1), of n] show ?thesis by (simp add: length_dict_keys)
qed

end

text \<open>The three caches of the filter.\<close>

lemma rate_enforce_parts:
  "rl_last_seen (fold (\<lambda>k s. s\<lparr>rl_last_seen := dict_pop k (rl_last_seen s), rl_windows := dict_pop k (rl_windows s)\<rparr>) ks s)
     = fold dict_pop ks (rl_last_seen s)
   \<and> rl_windows (fold (\<lambda>k s. s\<lparr>rl_last_seen := dict_pop k (rl_last_seen s), rl_windows := dict_pop k (rl_windows s)\<rparr>) ks s)
     = fold dict_pop ks (rl_windows s)"
  by (induction ks arbitrary: s) simp_all

interpretation rate_cache: evicting_cache rl_last_seen "\<lambda>s. [set (dict_keys (rl_windows s))]"
    rate_enforce_cache_limit
  by unfold_locales (simp_all add: rate_enforce_cache_limit_def rate_enforce_parts fold_dict_pop)

lemma dedup_enforce_parts:
  "dd_last_seen (fold (\<lambda>k s. s\<lparr>dd_last_seen := dict_pop k (dd_last_seen s), dd_seen_at := dict_pop k (dd_seen_at s)\<rparr>) ks s)
     = fold dict_pop ks (dd_last_seen s)
   \<and> dd_seen_at (fold (\<lambda>k s. s\<lparr>dd_last_seen := dict_pop k (dd_last_seen s), dd_seen_at := dict_pop k (dd_seen_at s)\<rparr>) ks s)
     = fold dict_pop ks (dd_seen_at s)"
  by (induction ks arbitrary: s) simp_all

interpretation dedup_cache: evicting_cache dd_last_seen "\<lambda>s. [set (dict_keys (dd_seen_at s))]"
    dedup_enforce_cache_limit
  by unfold_locales (simp_all add: dedup_enforce_cache_limit_def dedup_enforce_parts fold_dict_pop)

lemma summary_enforce_parts:
  "sm_last_seen (fold (\<lambda>k s. s\<lparr>sm_last_seen := dict_pop k (sm_last_seen s), sm_counts := dict_pop k (sm_counts s),
                   sm_emitted_at := dict_pop k (sm_emitted_at s)\<rparr>) ks s) = fold dict_pop ks (sm_last_seen s)
   \<and> sm_counts (fold (\<lambda>k s. s\<lparr>sm_last_seen := dict_pop k (sm_last_seen s), sm_counts := dict_pop k (sm_counts s),
                   sm_emitted_at := dict_pop k (sm_emitted_at s)\<rparr>) ks s) = fold dict_pop ks (sm_counts s)
   \<and> sm_emitted_at (fold (\<lambda>k s. s\<lparr>sm_last_seen := dict_pop k (sm_last_seen s), sm_counts := dict_pop k (sm_counts s),
                   sm_emitted_at := dict_pop k (sm_emitted_at s)\<rparr>) ks s) = fold dict_pop ks (sm_emitted_at s)"
  by (induction ks arbitrary: s) simp_all

interpretation summary_cache: evicting_cache sm_last_seen
    "\<lambda>s. [set (dict_keys (sm_counts s)), set (dict_keys (sm_emitted_at s))]" summary_enforce_cache_limit
  by unfold_locales (simp_all add: summary_enforce_cache_limit_def summary_enforce_parts fold_dict_pop)

section \<open>The caches stay bounded\<close>

text \<open>A run of the filter over the records of a log, each with the time and the context it meets.\<close>

type_synonym log_call = "rat \<times> dict \<times> log_record"

fun filter_run :: "flood_filter \<Rightarrow> log_call list \<Rightarrow> bool list \<times> flood_filter" where
  "filter_run f [] = ([], f)"
| "filter_run f ((now, context, r) # calls) =
     (case flood_filter_call f now context r of
        (allowed, out, f') \<Rightarrow> (case filter_run f' calls of (bs, f'') \<Rightarrow> (allowed # bs, f'')))"

definition summary_sizes :: "summary_state option \<Rightarrow> nat list" where
  "summary_sizes em =
     (case em of None \<Rightarrow> []
      | Some s \<Rightarrow> [card (set (dict_keys (sm_counts s))), card (set (dict_keys (sm_emitted_at s))),
                  length (sm_last_seen s)])"

fun cache_sizes :: "strategy \<Rightarrow> nat list" where
  "cache_sizes AllowAll = []"
| "cache_sizes (ContextSuppression em) = summary_sizes em"
| "cache_sizes (RateLimit s em) =
     card (set (dict_keys (rl_windows s))) # length (rl_last_seen s) # summary_sizes em"
| "cache_sizes (Deduplicate s em) =
     card (set (dict_keys (dd_seen_at s))) # length (dd_last_seen s) # summary_sizes em"

text \<open>What every call keeps: the tables have the keys of \<open>last_seen_at\<close>, and no cache is over its limit.\<close>

definition summary_ok :: "nat \<Rightarrow> summary_state option \<Rightarrow> bool" where
  "summary_ok n em \<longleftrightarrow>
     (case em of None \<Rightarrow> True | Some s \<Rightarrow> summary_cache.coherent s \<and> length (sm_last_seen s) \<le> n)"

fun strategy_ok :: "nat \<Rightarrow> strategy \<Rightarrow> bool" where
  "strategy_ok n AllowAll = True"
| "strategy_ok n (ContextSuppression em) = summary_ok n em"
| "strategy_ok n (RateLimit s em) =
     (rate_cache.coherent s \<and> length (rl_last_seen s) \<le> n \<and> summary_ok n em)"
| "strategy_ok n (Deduplicate s em) =
     (dedup_cache.coherent s \<and> length (dd_last_seen s) \<le> n \<and> summary_ok n em)"

lemmas coherent_defs = summary_cache.coherent_def rate_cache.coherent_def dedup_cache.coherent_def

lemma table_small: "dict_ok d \<Longrightarrow> length d \<le> n \<Longrightarrow> K = set (dict_keys d) \<Longrightarrow> card K \<le> n"
  by (simp add: length_dict_keys)

lemma sizes_of_ok: "strategy_ok n st \<Longrightarrow> list_all (\<lambda>m. m \<le> n) (cache_sizes st)"
proof -
  have "summary_ok n em \<Longrightarrow> list_all (\<lambda>m. m \<le> n) (summary_sizes em)" for em
    by (auto simp: summary_ok_def summary_sizes_def coherent_defs intro: table_small split: option.splits)
  then show "strategy_ok n st \<Longrightarrow> list_all (\<lambda>m. m \<le> n) (cache_sizes st)"
    by (cases st) (auto simp: coherent_defs intro: table_small)
qed

lemma rate_step_ok:
  assumes "rate_cache.coherent s" "rate_should_suppress cfg k now s = (b, s')"
  shows "rate_cache.coherent s' \<and> length (rl_last_seen s') \<le> fc_max_cache_size cfg"
proof -
  have "rate_cache.coherent (s\<lparr>rl_windows := dict_set k w (rl_windows s),
      rl_last_seen := dict_set k now (rl_last_seen s)\<rparr>)" for w
    using assms(1) by (simp add: rate_cache.coherent_def dict_ok_set set_dict_keys_set)
  then show ?thesis
    using assms(2) rate_cache.enforce_coherent rate_cache.enforce_bounded
    by (auto simp: rate_should_suppress_def Let_def)
qed

lemma dedup_step_ok:
  assumes "dedup_cache.coherent s" "dedup_should_suppress cfg k now s = (b, s')"
  shows "dedup_cache.coherent s' \<and> length (dd_last_seen s') \<le> fc_max_cache_size cfg"
proof -
  have "dedup_cache.coherent (s\<lparr>dd_seen_at := dict_set k now (dd_seen_at s),
      dd_last_seen := dict_set k now (dd_last_seen s)\<rparr>)"
    using assms(1) by (simp add: dedup_cache.coherent_def dict_ok_set set_dict_keys_set)
  then show ?thesis
    using assms(2) dedup_cache.enforce_coherent dedup_cache.enforce_bounded
    by (auto simp: dedup_should_suppress_def Let_def)
qed

lemma summary_step_ok:
  assumes "summary_cache.coherent s" "record_summary cfg r k now s = (out, s')"
  shows "summary_cache.coherent s' \<and> length (sm_last_seen s') \<le> fc_max_cache_size cfg"
proof -
  have noted: "summary_cache.coherent (s\<lparr>sm_counts := dict_set k n (sm_counts s),
      sm_last_seen := dict_set k now (sm_last_seen s), sm_emitted_at := dict_set k now (sm_emitted_at s)\<rparr>)" for n
    using assms(1) by (simp add: summary_cache.coherent_def dict_ok_set set_dict_keys_set)
  have reset: "summary_cache.coherent (s\<lparr>sm_last_seen := dict_set k now (sm_last_seen s),
      sm_counts := dict_set k n (sm_counts s), sm_emitted_at := dict_set k now (sm_emitted_at s)\<rparr>)" for n
    using assms(1) by (simp add: summary_cache.coherent_def dict_ok_set set_dict_keys_set)
  have kept: "summary_cache.coherent (s\<lparr>sm_counts := dict_set k n (sm_counts s),
      sm_last_seen := dict_set k now (sm_last_seen s)\<rparr>)" if "map_of (sm_emitted_at s) k = Some t" for n t
  proof -
    have "k \<in> set (dict_keys (sm_emitted_at s))" using that by (simp only: set_dict_keys domI)
    then have "insert k (set (dict_keys (sm_emitted_at s))) = set (dict_keys (sm_emitted_at s))" by auto
    with assms(1) show ?thesis by (auto simp: summary_cache.coherent_def dict_ok_set set_dict_keys_set)
  qed
  have "\<exists>s2. s' = summary_enforce_cache_limit (fc_max_cache_size cfg) s2 \<and> summary_cache.coherent s2"
    using assms(2) noted reset kept
    by (auto simp: record_summary_def Let_def split: option.splits if_splits)
  then show ?thesis
    using summary_cache.enforce_coherent summary_cache.enforce_bounded by auto
qed

lemma record_suppression_ok:
  "summary_ok (fc_max_cache_size cfg) em \<Longrightarrow> record_suppression cfg r c now em = (out, em') \<Longrightarrow>
     summary_ok (fc_max_cache_size cfg) em'"
  by (auto simp: record_suppression_def summary_ok_def dest: summary_step_ok split: option.splits prod.splits)

lemma apply_strategy_ok:
  "strategy_ok (fc_max_cache_size cfg) st \<Longrightarrow> apply_strategy cfg st now c r = (b, out, st') \<Longrightarrow>
     strategy_ok (fc_max_cache_size cfg) st'"
  by (cases st)
    (auto split: option.splits prod.splits bool.splits
      dest: rate_step_ok dedup_step_ok record_suppression_ok)

lemma filter_record_ok:
  assumes "strategy_ok (fc_max_cache_size (ff_config f)) (ff_strategy f)" "flood_filter_call f now c r = (b, out, f')"
  shows "strategy_ok (fc_max_cache_size (ff_config f)) (ff_strategy f')" "ff_config f' = ff_config f"
proof -
  obtain x y st where a: "apply_strategy (ff_config f) (ff_strategy f) now c r = (x, y, st)"
    by (metis prod.exhaust)
  have f': "f' = f \<or> f' = f\<lparr>ff_strategy := st\<rparr>"
    using assms(2) unfolding flood_filter_call_def a by (simp split: if_splits)
  show "strategy_ok (fc_max_cache_size (ff_config f)) (ff_strategy f')"
    using f' assms(1) apply_strategy_ok [OF assms(1) a] by auto
  show "ff_config f' = ff_config f" using f' by auto
qed

lemma filter_run_ok:
  "strategy_ok (fc_max_cache_size (ff_config f)) (ff_strategy f) \<Longrightarrow> filter_run f calls = (bs, f') \<Longrightarrow>
     strategy_ok (fc_max_cache_size (ff_config f)) (ff_strategy f') \<and> ff_config f' = ff_config f"
proof (induction f calls arbitrary: bs rule: filter_run.induct)
  case (2 f now c r calls)
  obtain b out f1 where s: "flood_filter_call f now c r = (b, out, f1)" by (metis prod.exhaust)
  obtain bs1 f2 where r: "filter_run f1 calls = (bs1, f2)" by (metis prod.exhaust)
  have "f2 = f'" using "2.prems"(2) s r by simp
  with "2.IH" [OF s [symmetric] refl] filter_record_ok [OF "2.prems"(1) s] r show ?case by simp
qed simp

lemma build_strategy_ok: "strategy_ok n (build_filter_strategy cfg)"
proof -
  have em: "summary_ok n (if fc_emit_summary cfg then Some summary_new else None)"
    by (simp add: summary_ok_def summary_new_def summary_cache.coherent_def)
  have empty: "rate_cache.coherent \<lparr>rl_windows = [], rl_last_seen = []\<rparr>"
    "dedup_cache.coherent \<lparr>dd_seen_at = [], dd_last_seen = []\<rparr>"
    by (simp_all add: rate_cache.coherent_def dedup_cache.coherent_def)
  have choice: "P a \<Longrightarrow> P b \<Longrightarrow> P c \<Longrightarrow> P d \<Longrightarrow> P (if x then a else if y then b else if z then c else d)"
    for P :: "strategy \<Rightarrow> bool" and a b c d x y z by simp
  show ?thesis
    unfolding build_filter_strategy_def Let_def
    by (rule choice) (simp_all only: strategy_ok.simps em empty list.size le0 simp_thms rate_state.simps dedup_state.simps)
qed

text \<open>
  C33: Flood control uses bounded memory.  Whatever records a log brings, at whatever times and in
  whatever contexts, after any number of calls none of the dictionaries of the filter, in any
  mode and with or without summaries, holds more than \<open>max_cache_size\<close> keys.
\<close>

theorem flood_memory_bounded:
  "list_all (\<lambda>n. n \<le> fc_max_cache_size cfg) (cache_sizes (ff_strategy (snd (filter_run
     \<lparr>ff_config = cfg, ff_strategy = build_filter_strategy cfg\<rparr> calls))))"
proof -
  let ?f = "\<lparr>ff_config = cfg, ff_strategy = build_filter_strategy cfg\<rparr>"
  obtain bs f' where r: "filter_run ?f calls = (bs, f')" by (metis prod.exhaust)
  have "strategy_ok (fc_max_cache_size cfg) (ff_strategy f')"
    using filter_run_ok [OF _ r] build_strategy_ok by simp
  then show ?thesis using r sizes_of_ok by simp
qed

section \<open>The rate limit\<close>

text \<open>The key of a record that the strategy decides on; \<open>None\<close> when it passes unseen.\<close>

definition decided_key :: "flood_config \<Rightarrow> dict \<Rightarrow> log_record \<Rightarrow> fkey option" where
  "decided_key cfg context r =
     (if py_truthy (record_attr r (fc_force_log_attr cfg)) then None
      else map_option (\<lambda>c. build_record_key r c (fc_key_fields cfg)) (get_active_context cfg r context))"

text \<open>The times at which records of a key came through.\<close>

fun passed_times :: "flood_filter \<Rightarrow> fkey \<Rightarrow> log_call list \<Rightarrow> rat list" where
  "passed_times f k [] = []"
| "passed_times f k ((now, context, r) # calls) =
     (case flood_filter_call f now context r of
        (allowed, out, f') \<Rightarrow>
          (if allowed \<and> decided_key (ff_config f) context r = Some k then [now] else [])
          @ passed_times f' k calls)"

definition spaced :: "rat \<Rightarrow> nat \<Rightarrow> rat list \<Rightarrow> bool" where
  "spaced w m ts \<longleftrightarrow> (\<forall>i. i + m < length ts \<longrightarrow> w \<le> ts ! (i + m) - ts ! i)"

definition window_of :: "rate_state \<Rightarrow> fkey \<Rightarrow> rat list" where
  "window_of s k = (case map_of (rl_windows s) k of None \<Rightarrow> [] | Some w \<Rightarrow> w)"

text \<open>
  With \<open>A k\<close> the times at which \<open>k\<close> came through up to \<open>now\<close>: its window is the part of them that
  is not older than the window, and they are spaced.
\<close>

definition rate_inv :: "flood_config \<Rightarrow> fkey set \<Rightarrow> rat \<Rightarrow> (fkey \<Rightarrow> rat list) \<Rightarrow> rate_state \<Rightarrow> bool" where
  "rate_inv cfg K now A s \<longleftrightarrow>
     dict_ok (rl_last_seen s) \<and> set (dict_keys (rl_last_seen s)) \<subseteq> K
     \<and> (\<forall>k. \<exists>old. A k = old @ window_of s k \<and> (\<forall>x \<in> set old. fc_window_seconds cfg \<le> now - x)
            \<and> spaced (fc_window_seconds cfg) (fc_max_events cfg) (A k))"

lemma spaced_snoc:
  assumes "spaced w m (old @ recent)" "\<forall>x \<in> set old. w \<le> now - x" "length recent < m"
  shows "spaced w m ((old @ recent) @ [now])"
  unfolding spaced_def
proof (intro allI impI)
  fix i assume i: "i + m < length ((old @ recent) @ [now])"
  let ?ts = "old @ recent"
  show "w \<le> (?ts @ [now]) ! (i + m) - (?ts @ [now]) ! i"
  proof (cases "i + m < length ?ts")
    case True
    then have "(?ts @ [now]) ! (i + m) = ?ts ! (i + m)" "(?ts @ [now]) ! i = ?ts ! i"
      by (simp_all only: nth_append) simp_all
    with assms(1) True show ?thesis by (simp add: spaced_def)
  next
    case False
    then have e: "i + m = length ?ts" using i by simp
    then have "i < length old" using assms(3) by simp
    then have "(?ts @ [now]) ! i \<in> set old" by (simp add: nth_append)
    moreover have "(?ts @ [now]) ! (i + m) = now" unfolding e by (rule nth_append_length)
    ultimately show ?thesis using assms(2) by simp
  qed
qed

lemma no_eviction:
  assumes "dict_ok d" "set (dict_keys d) \<subseteq> K" "finite K" "card K \<le> n"
  shows "oldest_keys n d = []"
  using assms length_dict_keys [OF assms(1)] card_mono [OF assms(3,2)] by (simp add: oldest_keys_def)

lemma rate_step_inv:
  assumes inv: "rate_inv cfg K before A s" and "before \<le> now" "k \<in> K" "finite K"
    "card K \<le> fc_max_cache_size cfg" "rate_should_suppress cfg k now s = (b, s')"
  shows "rate_inv cfg K now (if b then A else A(k := A k @ [now])) s'"
proof -
  let ?W = "fc_window_seconds cfg" and ?m = "fc_max_events cfg"
  define recent where "recent = dropWhile (\<lambda>t. ?W \<le> now - t) (window_of s k)"
  define s1 where "s1 = s\<lparr>rl_windows := dict_set k (if b then recent else recent @ [now]) (rl_windows s),
                 rl_last_seen := dict_set k now (rl_last_seen s)\<rparr>"
  have b: "b \<longleftrightarrow> ?m \<le> length recent" and s': "s' = rate_enforce_cache_limit (fc_max_cache_size cfg) s1"
    using assms(6) by (auto simp: rate_should_suppress_def Let_def recent_def window_of_def s1_def)
  have d1: "dict_ok (rl_last_seen s1)" "set (dict_keys (rl_last_seen s1)) \<subseteq> K"
    using inv assms(3) by (auto simp: s1_def rate_inv_def dict_ok_set set_dict_keys_set)
  have s'1: "s' = s1" using no_eviction [OF d1 assms(4,5)] by (simp add: s' rate_enforce_cache_limit_def)
  have win: "window_of s1 j = (if j = k then (if b then recent else recent @ [now]) else window_of s j)" for j
    by (simp add: window_of_def s1_def map_of_dict_set)
  have "\<exists>old. (if b then A else A(k := A k @ [now])) j = old @ window_of s1 j
      \<and> (\<forall>x \<in> set old. ?W \<le> now - x) \<and> spaced ?W ?m ((if b then A else A(k := A k @ [now])) j)" for j
  proof -
    obtain old where old: "A j = old @ window_of s j" "\<forall>x \<in> set old. ?W \<le> before - x" "spaced ?W ?m (A j)"
      using inv unfolding rate_inv_def by blast
    have old': "\<forall>x \<in> set old. ?W \<le> now - x" using old(2) assms(2) by fastforce
    show ?thesis
    proof (cases "j = k")
      case False
      with old old' win show ?thesis by auto
    next
      case True
      let ?gone = "takeWhile (\<lambda>t. ?W \<le> now - t) (window_of s k)"
      have A: "A k = (old @ ?gone) @ recent" using old(1) True by (simp add: recent_def)
      have gone: "\<forall>x \<in> set (old @ ?gone). ?W \<le> now - x" using old' by (auto dest: set_takeWhileD)
      show ?thesis
      proof (cases b)
        case True
        with \<open>j = k\<close> A gone old(3) win show ?thesis by (intro exI [of _ "old @ ?gone"]) auto
      next
        case False
        have "spaced ?W ?m (((old @ ?gone) @ recent) @ [now])"
          by (rule spaced_snoc) (use False b old(3) \<open>j = k\<close> A gone in auto)
        with False \<open>j = k\<close> A gone win show ?thesis by (intro exI [of _ "old @ ?gone"]) auto
      qed
    qed
  qed
  with d1 show ?thesis by (simp add: s'1 rate_inv_def)
qed

definition decided_keys :: "flood_config \<Rightarrow> log_call list \<Rightarrow> fkey set" where
  "decided_keys cfg calls = {k. \<exists>(now, c, r) \<in> set calls. decided_key cfg c r = Some k}"

lemma rate_run_spaced:
  assumes "rate_inv cfg K t A s" "ff_config f = cfg" "ff_strategy f = RateLimit s em"
    "sorted (t # map fst calls)" "decided_keys cfg calls \<subseteq> K" "finite K" "card K \<le> fc_max_cache_size cfg"
  shows "spaced (fc_window_seconds cfg) (fc_max_events cfg) (A k @ passed_times f k calls)"
  using assms
proof (induction calls arbitrary: t A s f em)
  case Nil
  then show ?case by (auto simp: rate_inv_def)
next
  case (Cons call calls)
  obtain now c r where call: "call = (now, c, r)" by (cases call)
  have sorted: "t \<le> now" "sorted (now # map fst calls)" using Cons.prems(4) call by auto
  have "decided_keys cfg calls \<subseteq> decided_keys cfg (call # calls)" unfolding decided_keys_def by fastforce
  with Cons.prems(5) have keys: "decided_keys cfg calls \<subseteq> K" by blast
  show ?case
  proof (cases "decided_key cfg c r")
    case None
    have f': "flood_filter_call f now c r = (True, [], f)"
      using None Cons.prems(2,3) by (cases f) (auto simp: flood_filter_call_def decided_key_def split: if_splits)
    have "rate_inv cfg K now A s"
      using Cons.prems(1) sorted(1) unfolding rate_inv_def by (meson diff_right_mono order_trans)
    from Cons.IH [OF this Cons.prems(2,3) sorted(2) keys Cons.prems(6,7)] show ?thesis
      using call f' None Cons.prems(2) by simp
  next
    case (Some j)
    have j: "j \<in> K" using Cons.prems(5) Some call by (auto simp: decided_keys_def)
    obtain b s' where st: "rate_should_suppress cfg j now s = (b, s')" by (metis prod.exhaust)
    obtain out f' em' where f': "flood_filter_call f now c r = (\<not> b, out, f')" "ff_config f' = cfg"
      "ff_strategy f' = RateLimit s' em'"
      using Some st Cons.prems(2,3)
      by (cases b; cases "record_suppression cfg r c now em")
        (auto simp: flood_filter_call_def decided_key_def get_active_context_def split: if_splits)
    note inv = rate_step_inv [OF Cons.prems(1) sorted(1) j Cons.prems(6,7) st]
    from Cons.IH [OF inv f'(2,3) sorted(2) keys Cons.prems(6,7)] show ?thesis
      using call f'(1) Some Cons.prems(2) by (cases b; cases "j = k") auto
  qed
qed

text \<open>
  C32: The rate limit holds in every window.  In mode \<open>rate_limit\<close>, on a log whose times do not
  decrease and that has no more distinct keys than \<open>max_cache_size\<close>, of any
  \<open>max_events_per_window + 1\<close> consecutive records of one key that come through, the last is at
  least \<open>window_seconds\<close> later than the first: no half-open window of that length lets more than
  \<open>max_events_per_window\<close> of them through.
\<close>

theorem rate_limit_holds:
  assumes "fc_enabled cfg" "fc_mode cfg = ''rate_limit''" "sorted (map fst calls)"
    "card (decided_keys cfg calls) \<le> fc_max_cache_size cfg"
  shows "spaced (fc_window_seconds cfg) (fc_max_events cfg)
    (passed_times \<lparr>ff_config = cfg, ff_strategy = build_filter_strategy cfg\<rparr> k calls)"
proof (cases calls)
  case Nil
  then show ?thesis by (simp add: spaced_def)
next
  case (Cons call rest)
  have fin: "finite (decided_keys cfg calls)"
  proof -
    have "decided_keys cfg calls \<subseteq> (\<lambda>(now, c, r). the (decided_key cfg c r)) ` set calls"
      by (force simp: decided_keys_def)
    then show ?thesis by (rule finite_subset) simp
  qed
  have "rate_inv cfg (decided_keys cfg calls) (fst call) (\<lambda>_. []) \<lparr>rl_windows = [], rl_last_seen = []\<rparr>"
    by (simp add: rate_inv_def window_of_def spaced_def)
  moreover have "build_filter_strategy cfg = RateLimit \<lparr>rl_windows = [], rl_last_seen = []\<rparr>
      (if fc_emit_summary cfg then Some summary_new else None)"
    using assms(1,2) by (simp add: build_filter_strategy_def)
  moreover have "sorted (fst call # map fst calls)" using assms(3) Cons by simp
  ultimately have "spaced (fc_window_seconds cfg) (fc_max_events cfg)
    ((\<lambda>_. []) k @ passed_times \<lparr>ff_config = cfg, ff_strategy = build_filter_strategy cfg\<rparr> k calls)"
    by (intro rate_run_spaced [where K = "decided_keys cfg calls" and t = "fst call"]) (use fin assms(4) in auto)
  then show ?thesis by simp
qed

definition sample_flood_config :: flood_config where
  "sample_flood_config =
     \<lparr>fc_enabled = True, fc_mode = ''rate_limit'', fc_context_keys = [''item_ref''],
      fc_suppressed_levels = [20], fc_force_log_attr = ''force_log'', fc_key_fields = [''msg''],
      fc_window_seconds = 10, fc_max_events = 1, fc_emit_summary = True, fc_summary_level = 20,
      fc_summary_interval = 10, fc_max_cache_size = 5\<rparr>"

definition sample_log :: "rat list \<Rightarrow> log_call list" where
  "sample_log = map (\<lambda>t. (t, [(''item_ref'', PyStr ''A'')],
     \<lparr>lr_name = ''n'', lr_levelno = 20, lr_msg = PyStr ''m'', lr_message = ''m'', lr_extra = []\<rparr>))"

text \<open>At 0, 5 and 12 seconds with one event in ten seconds: the second record is held back.\<close>

theorem rate_limit_holds_witness:
  "spaced 10 1 (passed_times \<lparr>ff_config = sample_flood_config,
      ff_strategy = build_filter_strategy sample_flood_config\<rparr> [PyStr ''m''] (sample_log [0, 5, 12]))
   \<and> passed_times \<lparr>ff_config = sample_flood_config,
      ff_strategy = build_filter_strategy sample_flood_config\<rparr> [PyStr ''m''] (sample_log [0, 5, 12]) = [0, 12]"
proof
  have "decided_keys sample_flood_config (sample_log [0, 5, 12]) \<subseteq> {[PyStr ''m'']}"
    by (auto simp: decided_keys_def sample_log_def decided_key_def sample_flood_config_def
        get_active_context_def build_record_key_def record_attr_def freeze_key_component_def)
  then have "card (decided_keys sample_flood_config (sample_log [0, 5, 12])) \<le> 1"
    using card_mono [of "{[PyStr ''m'']}"] by fastforce
  then show "spaced 10 1 (passed_times \<lparr>ff_config = sample_flood_config,
      ff_strategy = build_filter_strategy sample_flood_config\<rparr> [PyStr ''m''] (sample_log [0, 5, 12]))"
    using rate_limit_holds [of sample_flood_config "sample_log [0, 5, 12]" "[PyStr ''m'']"]
    by (simp add: sample_flood_config_def sample_log_def)
next
  show "passed_times \<lparr>ff_config = sample_flood_config,
      ff_strategy = build_filter_strategy sample_flood_config\<rparr> [PyStr ''m''] (sample_log [0, 5, 12]) = [0, 12]"
    by (simp add: sample_flood_config_def sample_log_def flood_filter_call_def decided_key_def
        get_active_context_def build_record_key_def record_attr_def freeze_key_component_def
        build_filter_strategy_def is_context_active_def rate_should_suppress_def
        rate_enforce_cache_limit_def oldest_keys_def record_suppression_def record_summary_def
        summary_enforce_cache_limit_def summary_new_def Let_def)
qed

end

