(* ===== verification/PFP_Csv_Reader.thy ===== *)
theory PFP_Csv_Reader
  imports PFP_Stream PFP_Str
begin

text \<open>
  The part of Python's \<open>csv\<close> module that the CSV adapters use: the reader of the default dialect
  (quote character, doubled quotes, not strict) as the state machine it is, over a stream of
  lines, and \<open>DictReader\<close>.  An \<open>Inl\<close> of the reader is a \<open>csv.Error\<close>.
\<close>

section \<open>Lines\<close>

definition LF :: char where "LF = CHR 0x0A"
definition CR :: char where "CR = CHR 0x0D"

text \<open>Iterating a text stream: a line ends after its line feed.\<close>

fun lines_lf :: "string \<Rightarrow> string list" where
  "lines_lf [] = []"
| "lines_lf (c # cs) =
     (if c = LF then [c] # lines_lf cs
      else case lines_lf cs of [] \<Rightarrow> [[c]] | l # ls \<Rightarrow> (c # l) # ls)"

text \<open>\<open>str.splitlines()\<close>: every line boundary below 256 counts.\<close>

definition is_line_break :: "char \<Rightarrow> bool" where
  "is_line_break c \<longleftrightarrow> (of_char c :: nat) \<in> set [10, 11, 12, 13, 28, 29, 30, 133]"

function splitlines :: "string \<Rightarrow> string list" where
  "splitlines [] = []"
| "splitlines (c # cs) =
     (if is_line_break c
      then [] # splitlines (if c = CR \<and> cs \<noteq> [] \<and> hd cs = LF then tl cs else cs)
      else case splitlines cs of [] \<Rightarrow> [[c]] | l # ls \<Rightarrow> (c # l) # ls)"
  by pat_completeness auto
termination
  by (relation "measure length") (auto simp: less_Suc_eq_le)

section \<open>The reader\<close>

datatype csv_mode =
    StartRecord
  | StartField
  | InField
  | InQuoted
  | QuoteInQuoted
  | EatNewline

record csv_reader_state =
  cr_mode :: csv_mode
  cr_field :: string
  cr_fields :: "string list"

definition csv_start :: csv_reader_state where
  "csv_start = \<lparr>cr_mode = StartRecord, cr_field = [], cr_fields = []\<rparr>"

definition save_field :: "csv_mode \<Rightarrow> csv_reader_state \<Rightarrow> csv_reader_state" where
  "save_field m s = s\<lparr>cr_mode := m, cr_field := [], cr_fields := cr_fields s @ [cr_field s]\<rparr>"

text \<open>A character is added unless the field has reached the size limit.\<close>

definition add_char :: "nat \<Rightarrow> csv_mode \<Rightarrow> char \<Rightarrow> csv_reader_state \<Rightarrow> unit + csv_reader_state" where
  "add_char limit m c s =
     (if limit \<le> length (cr_field s) then Inl ()
      else Inr (s\<lparr>cr_mode := m, cr_field := cr_field s @ [c]\<rparr>))"

text \<open>\<open>None\<close> is the end of a line.\<close>

definition ends_record :: "char option \<Rightarrow> bool" where
  "ends_record c \<longleftrightarrow> c = None \<or> c = Some LF \<or> c = Some CR"

definition after_record :: "char option \<Rightarrow> csv_mode" where
  "after_record c = (if c = None then StartRecord else EatNewline)"

definition start_field :: "nat \<Rightarrow> char \<Rightarrow> char option \<Rightarrow> csv_reader_state \<Rightarrow> unit + csv_reader_state" where
  "start_field limit delim c s =
     (if ends_record c then Inr (save_field (after_record c) s)
      else if c = Some (CHR 0x22) then Inr (s\<lparr>cr_mode := InQuoted\<rparr>)
      else if c = Some delim then Inr (save_field StartField s)
      else add_char limit InField (the c) s)"

definition process_char :: "nat \<Rightarrow> char \<Rightarrow> char option \<Rightarrow> csv_reader_state \<Rightarrow> unit + csv_reader_state" where
  "process_char limit delim c s =
     (case cr_mode s of
        StartRecord \<Rightarrow>
          if c = None then Inr s
          else if ends_record c then Inr (s\<lparr>cr_mode := EatNewline\<rparr>)
          else start_field limit delim c s
      | StartField \<Rightarrow> start_field limit delim c s
      | InField \<Rightarrow>
          if ends_record c then Inr (save_field (after_record c) s)
          else if c = Some delim then Inr (save_field StartField s)
          else add_char limit InField (the c) s
      | InQuoted \<Rightarrow>
          if c = None then Inr s
          else if c = Some (CHR 0x22) then Inr (s\<lparr>cr_mode := QuoteInQuoted\<rparr>)
          else add_char limit InQuoted (the c) s
      | QuoteInQuoted \<Rightarrow>
          if c = Some (CHR 0x22) then add_char limit InQuoted (CHR 0x22) s
          else if c = Some delim then Inr (save_field StartField s)
          else if ends_record c then Inr (save_field (after_record c) s)
          else add_char limit InField (the c) s
      | EatNewline \<Rightarrow>
          if c = Some LF \<or> c = Some CR then Inr s
          else if c = None then Inr (s\<lparr>cr_mode := StartRecord\<rparr>)
          else Inl ())"

fun process_chars :: "nat \<Rightarrow> char \<Rightarrow> char option list \<Rightarrow> csv_reader_state \<Rightarrow> unit + csv_reader_state" where
  "process_chars limit delim [] s = Inr s"
| "process_chars limit delim (c # cs) s = rbind (process_char limit delim c s) (process_chars limit delim cs)"

definition process_line :: "nat \<Rightarrow> char \<Rightarrow> string \<Rightarrow> csv_reader_state \<Rightarrow> unit + csv_reader_state" where
  "process_line limit delim line = process_chars limit delim (map Some line @ [None])"

text \<open>
  The rows of a stream of lines.  An exception of the stream passes through; a \<open>csv.Error\<close> is
  turned into the adapters' error, as both do wherever they read.
\<close>

fun reader_rows :: "nat \<Rightarrow> char \<Rightarrow> csv_reader_state \<Rightarrow> string gen \<Rightarrow> string list gen" where
  "reader_rows limit delim s Done =
     (if cr_field s \<noteq> [] \<or> cr_mode s = InQuoted
      then Yield (cr_fields (save_field StartRecord s)) Done else Done)"
| "reader_rows limit delim s (Raise e) = Raise e"
| "reader_rows limit delim s (Yield line g) =
     (case process_line limit delim line s of
        Inl _ \<Rightarrow> Raise AdapterFormatError
      | Inr s' \<Rightarrow>
          if cr_mode s' = StartRecord then Yield (cr_fields s') (reader_rows limit delim csv_start g)
          else reader_rows limit delim s' g)"

section \<open>DictReader\<close>

text \<open>
  A row under the field names: extra values go to the key \<open>None\<close>, which the adapters delete, and
  missing values are \<open>None\<close>.
\<close>

definition row_record :: "string list \<Rightarrow> string list \<Rightarrow> dict" where
  "row_record names row =
     foldl (\<lambda>d k. dict_set k PyNone d)
       (foldl (\<lambda>d (k, v). dict_set k (PyStr v) d) [] (zip names row))
       (drop (length row) names)"

text \<open>Empty rows are skipped.\<close>

fun dict_rows :: "string list \<Rightarrow> string list gen \<Rightarrow> dict gen" where
  "dict_rows names Done = Done"
| "dict_rows names (Raise e) = Raise e"
| "dict_rows names (Yield row g) =
     (if row = [] then dict_rows names g else Yield (row_record names row) (dict_rows names g))"

end
