(* ===== verification/PFP_Adapters.thy ===== *)
theory PFP_Adapters
  imports PFP_Csv_Reader
begin

text \<open>
  The format adapters of the connectors (\<open>connectors/adapters/*.py\<close>).  \<open>parse\<close> is a generator
  function in each: nothing is checked before the first record is pulled, so its result is a
  generator that may begin with an exception.  Decoding bytes and \<open>json.loads\<close> are parameters
  that may fail; \<open>ijson\<close> is not part of the repository and a parameter too.  Log records are left
  out.  The byte order mark that the CSV adapter strips lies outside the characters modelled.
  Constants are those of the registry: integers, a one-character delimiter and flags.
\<close>

section \<open>Raw input\<close>

text \<open>
  What a client can pass: a string, bytes, an iterable of lines (an iterator, or a list-like
  object that starts again when it is iterated again), an iterable of values, or something that
  cannot be iterated.
\<close>

datatype raw_input =
    RawStr string
  | RawBytes string
  | RawLines bool "string gen"
  | RawValues "pyval gen"
  | RawScalar

definition int_const :: "dict \<Rightarrow> string \<Rightarrow> nat \<Rightarrow> nat" where
  "int_const d k dflt = (case map_of d k of None \<Rightarrow> dflt | Some v \<Rightarrow> nat (int_of v))"

section \<open>CSV\<close>

record csv_adapter =
  ca_max_input_bytes :: nat
  ca_field_size_limit :: nat
  ca_delimiter :: char
  ca_has_header :: bool

definition csv_adapter_new :: "dict \<Rightarrow> csv_adapter" where
  "csv_adapter_new constants =
     \<lparr>ca_max_input_bytes = int_const constants ''max_input_bytes'' 33554432,
      ca_field_size_limit = int_const constants ''csv_field_size_limit'' 131072,
      ca_delimiter = (case dget_or constants ''delimiter'' (PyStr '','') of PyStr [c] \<Rightarrow> c | _ \<Rightarrow> CHR '',''),
      ca_has_header = py_truthy (dget_or constants ''has_header'' (PyBool True))\<rparr>"

definition blank_column :: "string list \<Rightarrow> bool" where
  "blank_column names \<longleftrightarrow> (\<exists>c \<in> set names. strip c = [])"

text \<open>Both adapters read the header from the first row.\<close>

definition rows_with_header :: "csv_adapter \<Rightarrow> string gen \<Rightarrow> dict gen" where
  "rows_with_header a lines =
     (case reader_rows (ca_field_size_limit a) (ca_delimiter a) csv_start lines of
        Done \<Rightarrow> Done
      | Raise e \<Rightarrow> Raise e
      | Yield names rows \<Rightarrow>
          if blank_column names then Raise AdapterFormatError else dict_rows names rows)"

definition numbered_columns :: "nat \<Rightarrow> string list" where
  "numbered_columns n = map (\<lambda>i. ''col_'' @ nat_str i) [0..<n]"

definition csv_text :: "(string \<Rightarrow> string option) \<Rightarrow> raw_input \<Rightarrow> string result" where
  "csv_text decode raw =
     (case raw of
        RawStr s \<Rightarrow> Inr s
      | RawBytes b \<Rightarrow> (case decode b of None \<Rightarrow> Inl AdapterFormatError | Some s \<Rightarrow> Inr s)
      | _ \<Rightarrow> Inl TypeError)"

definition raw_length :: "raw_input \<Rightarrow> nat result" where
  "raw_length raw = (case raw of RawStr s \<Rightarrow> Inr (length s) | RawBytes b \<Rightarrow> Inr (length b) | _ \<Rightarrow> Inl TypeError)"

definition csv_parse :: "(string \<Rightarrow> string option) \<Rightarrow> csv_adapter \<Rightarrow> raw_input \<Rightarrow> dict gen" where
  "csv_parse decode a raw =
     (case raw_length raw of
        Inl e \<Rightarrow> Raise e
      | Inr n \<Rightarrow>
          if ca_max_input_bytes a < n then Raise AdapterFormatError
          else case csv_text decode raw of
              Inl e \<Rightarrow> Raise e
            | Inr text \<Rightarrow>
                (let lines = gen_of (lines_lf text) None in
                 if ca_has_header a then rows_with_header a lines
                 else case reader_rows (ca_field_size_limit a) (ca_delimiter a) csv_start lines of
                     Done \<Rightarrow> Done
                   | Raise e \<Rightarrow> Raise AdapterFormatError
                   | Yield row rest \<Rightarrow> dict_rows (numbered_columns (length row)) (Yield row rest)))"

text \<open>The streaming adapter: the first line alone gives the number of columns.\<close>

definition text_stream :: "raw_input \<Rightarrow> (bool \<times> string gen) result" where
  "text_stream raw =
     (case raw of RawLines again g \<Rightarrow> Inr (again, g) | RawValues g \<Rightarrow> Inl TypeError
      | _ \<Rightarrow> Inl AdapterFormatError)"

definition streaming_csv_parse :: "csv_adapter \<Rightarrow> raw_input \<Rightarrow> dict gen" where
  "streaming_csv_parse a raw =
     (case text_stream raw of
        Inl e \<Rightarrow> Raise e
      | Inr (again, lines) \<Rightarrow>
          if ca_has_header a then rows_with_header a lines
          else case lines of
              Done \<Rightarrow> Done
            | Raise e \<Rightarrow> Raise e
            | Yield first rest \<Rightarrow>
                (case reader_rows (ca_field_size_limit a) (ca_delimiter a) csv_start (gen_of [first] None) of
                   Yield row _ \<Rightarrow>
                     dict_rows (numbered_columns (length row))
                       (reader_rows (ca_field_size_limit a) (ca_delimiter a) csv_start
                         (Yield first (if again then lines else rest)))
                 | Raise e \<Rightarrow> Raise AdapterFormatError
                 | Done \<Rightarrow> Raise RuntimeError))"

section \<open>JSON documents and lines\<close>

record json_limits =
  jl_max_bytes :: nat
  jl_max_depth :: nat
  jl_max_items :: nat

definition json_limits_new :: "string \<Rightarrow> nat \<Rightarrow> dict \<Rightarrow> json_limits" where
  "json_limits_new size_key size_default constants =
     \<lparr>jl_max_bytes = int_const constants size_key size_default,
      jl_max_depth = int_const constants ''max_json_depth'' 32,
      jl_max_items = int_const constants ''max_json_container_items'' 100000\<rparr>"

text \<open>\<open>_traverse\<close>: depth and container sizes, in the order the code looks.\<close>

fun tree_ok :: "nat \<Rightarrow> nat \<Rightarrow> nat \<Rightarrow> pyval \<Rightarrow> bool" where
  "tree_ok max_depth max_items depth (PyDict d) =
     (depth \<le> max_depth \<and> length d \<le> max_items
      \<and> (\<forall>p \<in> set d. tree_ok max_depth max_items (Suc depth) (snd p)))"
| "tree_ok max_depth max_items depth (PyList xs) =
     (depth \<le> max_depth \<and> length xs \<le> max_items
      \<and> (\<forall>x \<in> set xs. tree_ok max_depth max_items (Suc depth) x))"
| "tree_ok max_depth max_items depth v = (depth \<le> max_depth)"

definition validate_tree_limits :: "json_limits \<Rightarrow> pyval \<Rightarrow> pyval result" where
  "validate_tree_limits l v =
     (if tree_ok (jl_max_depth l) (jl_max_items l) 1 v then Inr v else Inl AdapterFormatError)"

text \<open>Bytes of the UTF-8 encoding on the modelled characters.\<close>

definition utf8_length :: "string \<Rightarrow> nat" where
  "utf8_length s = sum_list (map (\<lambda>c. if (of_char c :: nat) < 128 then 1 else 2) s)"

text \<open>One line: blank lines are skipped, values that are not objects are skipped.\<close>

definition parse_json_line :: "(string \<Rightarrow> pyval option) \<Rightarrow> json_limits \<Rightarrow> string \<Rightarrow> dict option result" where
  "parse_json_line loads l line =
     (if strip line = [] then Inr None
      else if jl_max_bytes l < utf8_length line then Inl AdapterFormatError
      else case loads line of
          None \<Rightarrow> Inl AdapterFormatError
        | Some v \<Rightarrow> rbind (validate_tree_limits l v) (\<lambda>v. Inr (as_mapping v)))"

fun json_lines :: "(string \<Rightarrow> pyval option) \<Rightarrow> json_limits \<Rightarrow> string gen \<Rightarrow> dict gen" where
  "json_lines loads l Done = Done"
| "json_lines loads l (Raise e) = Raise e"
| "json_lines loads l (Yield line g) =
     (case parse_json_line loads l line of
        Inl e \<Rightarrow> Raise e
      | Inr None \<Rightarrow> json_lines loads l g
      | Inr (Some d) \<Rightarrow> Yield d (json_lines loads l g))"

definition jsonl_parse ::
    "(string \<Rightarrow> string option) \<Rightarrow> (string \<Rightarrow> pyval option) \<Rightarrow> json_limits \<Rightarrow> raw_input \<Rightarrow> dict gen" where
  "jsonl_parse decode loads l raw =
     (case (case raw of RawStr s \<Rightarrow> Inr s
              | RawBytes b \<Rightarrow> (case decode b of None \<Rightarrow> Inl ValueError | Some s \<Rightarrow> Inr s)
              | _ \<Rightarrow> Inl AttributeError) of
        Inl e \<Rightarrow> Raise e
      | Inr text \<Rightarrow> json_lines loads l (gen_of (splitlines text) None))"

definition streaming_jsonl_parse :: "(string \<Rightarrow> pyval option) \<Rightarrow> json_limits \<Rightarrow> raw_input \<Rightarrow> dict gen" where
  "streaming_jsonl_parse loads l raw =
     (case raw of
        RawLines _ g \<Rightarrow> json_lines loads l g
      | RawValues _ \<Rightarrow> Raise AttributeError
      | _ \<Rightarrow> Raise AdapterFormatError)"

fun keep_mappings :: "pyval gen \<Rightarrow> dict gen" where
  "keep_mappings Done = Done"
| "keep_mappings (Raise e) = Raise e"
| "keep_mappings (Yield v g) =
     (case as_mapping v of None \<Rightarrow> keep_mappings g | Some d \<Rightarrow> Yield d (keep_mappings g))"

fun locate_path :: "pyval \<Rightarrow> string list \<Rightarrow> pyval result" where
  "locate_path v [] = Inr v"
| "locate_path (PyDict d) (p # ps) =
     (case map_of d p of None \<Rightarrow> Inl AdapterFormatError | Some v \<Rightarrow> locate_path v ps)"
| "locate_path v (p # ps) = Inl AdapterFormatError"

definition locate_items_array :: "string option \<Rightarrow> pyval \<Rightarrow> pyval list result" where
  "locate_items_array items_path data =
     (case items_path of
        Some (c # cs) \<Rightarrow>
          rbind (locate_path data (split_on (CHR ''.'') (c # cs)))
            (\<lambda>v. case v of PyList xs \<Rightarrow> Inr xs | _ \<Rightarrow> Inl AdapterFormatError)
      | _ \<Rightarrow> (case data of
                PyDict d \<Rightarrow> Inr [data] | PyList xs \<Rightarrow> Inr xs | _ \<Rightarrow> Inl AdapterFormatError))"

definition json_parse ::
    "(string \<Rightarrow> string option) \<Rightarrow> (string \<Rightarrow> pyval option) \<Rightarrow> json_limits \<Rightarrow> string option \<Rightarrow> raw_input \<Rightarrow> dict gen" where
  "json_parse decode loads l items_path raw =
     (case (case raw of
              RawStr s \<Rightarrow> if jl_max_bytes l < utf8_length s then Inl AdapterFormatError else Inr s
            | RawBytes b \<Rightarrow>
                if jl_max_bytes l < length b then Inl AdapterFormatError
                else (case decode b of None \<Rightarrow> Inl ValueError | Some s \<Rightarrow> Inr s)
            | _ \<Rightarrow> Inl AdapterFormatError) of
        Inl e \<Rightarrow> Raise e
      | Inr text \<Rightarrow>
          (case loads text of
             None \<Rightarrow> Raise AdapterFormatError
           | Some v \<Rightarrow>
               (case rbind (validate_tree_limits l v) (locate_items_array items_path) of
                  Inl e \<Rightarrow> Raise e
                | Inr xs \<Rightarrow> keep_mappings (gen_of xs None))))"

section \<open>Rows\<close>

fun rows_from :: "nat \<Rightarrow> nat \<Rightarrow> pyval gen \<Rightarrow> dict gen" where
  "rows_from max_records i Done = Done"
| "rows_from max_records i (Raise e) = Raise e"
| "rows_from max_records i (Yield v g) =
     (if max_records \<le> i then Raise AdapterFormatError
      else case as_mapping v of
          None \<Rightarrow> rows_from max_records (Suc i) g
        | Some d \<Rightarrow> Yield d (rows_from max_records (Suc i) g))"

fun map_gen :: "('a \<Rightarrow> 'b) \<Rightarrow> 'a gen \<Rightarrow> 'b gen" where
  "map_gen f Done = Done"
| "map_gen f (Raise e) = Raise e"
| "map_gen f (Yield x g) = Yield (f x) (map_gen f g)"

definition rows_parse :: "nat \<Rightarrow> raw_input \<Rightarrow> dict gen" where
  "rows_parse max_records raw =
     (case raw of
        RawValues g \<Rightarrow> rows_from max_records 0 g
      | RawLines _ g \<Rightarrow> rows_from max_records 0 (map_gen PyStr g)
      | _ \<Rightarrow> Raise AdapterFormatError)"

end
