(* ===== verification/PFP_Connectors.thy ===== *)
theory PFP_Connectors
  imports PFP_Adapters PFP_Publisher
begin

text \<open>
  The connectors around the adapters: the streaming JSON adapter with its byte reader, the
  connector mapping (\<open>connector_mapping/*.py\<close>), the product producer
  (\<open>producers/product_producer.py\<close>), the source connector (\<open>contracts/source_connector.py\<close>), the
  adapter registry (\<open>adapter_provider.py\<close>, \<open>connectors_registry.json\<close>) and
  \<open>connector_builder.py\<close>.  Log records are left out.  \<open>ijson\<close>, YAML, \<open>importlib\<close> and the file
  system are parameters.
\<close>

section \<open>The byte reader\<close>

text \<open>
  \<open>_IterableBytesReader\<close>: a stream of chunks, where \<open>None\<close> is a chunk that is not bytes, and the
  bytes that were pulled and not yet read.
\<close>

record bytes_reader =
  br_chunks :: "string option gen"
  br_buffer :: string

definition bytes_reader_new :: "string option gen \<Rightarrow> bytes_reader" where
  "bytes_reader_new chunks = \<lparr>br_chunks = chunks, br_buffer = []\<rparr>"

text \<open>\<open>read()\<close> and \<open>read(-1)\<close>: what was pulled before an exception is lost.\<close>

fun read_rest :: "string \<Rightarrow> string option gen \<Rightarrow> string result \<times> string option gen" where
  "read_rest acc Done = (Inr acc, Done)"
| "read_rest acc (Raise e) = (Inl e, Done)"
| "read_rest acc (Yield None g) = (Inl TypeError, g)"
| "read_rest acc (Yield (Some b) g) = read_rest (acc @ b) g"

text \<open>\<open>read(n)\<close> pulls chunks until the buffer has \<open>n\<close> bytes.\<close>

fun fill_buffer :: "nat \<Rightarrow> string \<Rightarrow> string option gen \<Rightarrow> exn option \<times> bytes_reader" where
  "fill_buffer n buf g =
     (if n \<le> length buf then (None, \<lparr>br_chunks = g, br_buffer = buf\<rparr>)
      else case g of
          Done \<Rightarrow> (None, \<lparr>br_chunks = Done, br_buffer = buf\<rparr>)
        | Raise e \<Rightarrow> (Some e, \<lparr>br_chunks = Done, br_buffer = buf\<rparr>)
        | Yield None g' \<Rightarrow> (Some TypeError, \<lparr>br_chunks = g', br_buffer = buf\<rparr>)
        | Yield (Some b) g' \<Rightarrow> fill_buffer n (buf @ b) g')"

declare fill_buffer.simps [simp del]

definition reader_read :: "int option \<Rightarrow> bytes_reader \<Rightarrow> string result \<times> bytes_reader" where
  "reader_read amount r =
     (if amount = None \<or> the amount < 0
      then (let (out, g) = read_rest (br_buffer r) (br_chunks r)
            in (out, \<lparr>br_chunks = g, br_buffer = []\<rparr>))
      else (let n = nat (the amount) in
            case fill_buffer n (br_buffer r) (br_chunks r) of
              (Some e, r') \<Rightarrow> (Inl e, r')
            | (None, r') \<Rightarrow> (Inr (take n (br_buffer r')), r'\<lparr>br_buffer := drop n (br_buffer r')\<rparr>)))"

section \<open>The streaming JSON adapter\<close>

text \<open>What the adapter can be given; \<open>'f\<close> is a file object, only \<open>ijson\<close> reads it.\<close>

datatype 'f byte_input =
    InMemory
  | FileObject 'f
  | ByteChunks "string option gen"
  | NoStream

datatype 'f byte_stream = FileStream 'f | ReaderStream bytes_reader

definition ensure_byte_stream :: "'f byte_input \<Rightarrow> 'f byte_stream result" where
  "ensure_byte_stream raw =
     (case raw of
        InMemory \<Rightarrow> Inl AdapterFormatError
      | FileObject f \<Rightarrow> Inr (FileStream f)
      | ByteChunks g \<Rightarrow> Inr (ReaderStream (bytes_reader_new g))
      | NoStream \<Rightarrow> Inl AdapterFormatError)"

text \<open>Whatever \<open>ijson\<close> or the reader below it raises becomes the adapter's error.\<close>

fun shield :: "'a gen \<Rightarrow> 'a gen" where
  "shield Done = Done"
| "shield (Raise e) = Raise AdapterFormatError"
| "shield (Yield x g) = Yield x (shield g)"

record streaming_json =
  sj_items_path :: pyval
  sj_max_record_bytes :: nat

definition streaming_json_new :: "dict \<Rightarrow> streaming_json" where
  "streaming_json_new constants =
     \<lparr>sj_items_path = dget_or constants ''items_path'' (PyStr ''item''),
      sj_max_record_bytes = int_const constants ''max_record_bytes'' 1048576\<rparr>"

text \<open>\<open>None\<close> of \<open>ijson\<close> means that it is not installed.\<close>

definition streaming_json_parse ::
    "('f byte_stream \<Rightarrow> pyval \<Rightarrow> pyval gen) option \<Rightarrow> streaming_json \<Rightarrow> 'f byte_input \<Rightarrow> dict gen" where
  "streaming_json_parse ijson a raw =
     (case ijson of
        None \<Rightarrow> Raise AdapterFormatError
      | Some items \<Rightarrow>
          (case ensure_byte_stream raw of
             Inl e \<Rightarrow> Raise e
           | Inr stream \<Rightarrow> keep_mappings (shield (items stream (sj_items_path a)))))"

section \<open>The connector mapping\<close>

record field_mapping =
  fmap_source :: string
  fmap_target :: string
  fmap_required :: bool

record mapping_config =
  mc_mappings :: "field_mapping list"
  mc_continue_on_error :: bool

definition load_error :: "string \<Rightarrow> terr" where
  "load_error = err [''ConnectorMappingLoadError'']"

definition mapping_error :: "string \<Rightarrow> terr" where
  "mapping_error = err [''ConnectorMappingValidationError'']"

definition load_yaml ::
    "(string \<Rightarrow> terr + string) \<Rightarrow> (string \<Rightarrow> terr + pyval) option \<Rightarrow> (pyval \<Rightarrow> string)
      \<Rightarrow> pyval \<Rightarrow> terr + dict" where
  "load_yaml read_text yaml type_of mapping_path =
     (case mapping_path of
        PyStr path \<Rightarrow>
          (let suffix = lower (path_suffix path) in
           if suffix \<noteq> ''.yaml'' \<and> suffix \<noteq> ''.yml''
           then Inl (load_error (''unsupported mapping file extension: '' @ suffix))
           else case read_text path of
             Inl e \<Rightarrow> Inl (if isinstance e ''OSError''
               then load_error (''cannot read mapping file: '' @ path) else e)
           | Inr text \<Rightarrow>
               (case yaml of
                  None \<Rightarrow> Inl (load_error ''PyYAML is unavailable: install pyyaml'')
                | Some parse \<Rightarrow>
                    (case parse text of
                       Inl e \<Rightarrow> Inl (if isinstance e ''YAMLError''
                         then load_error (''invalid YAML in mapping file: '' @ path) else e)
                     | Inr (PyDict d) \<Rightarrow> Inr d
                     | Inr v \<Rightarrow> Inl (load_error
                         (''mapping file root must be a mapping, got: '' @ type_of v)))))
      | _ \<Rightarrow> Inl (err [''TypeError''] ''''))"

definition item_error :: "nat \<Rightarrow> string \<Rightarrow> terr" where
  "item_error i what = mapping_error (''mappings['' @ nat_str i @ '']: '' @ what)"

fun text_of :: "pyval \<Rightarrow> string option" where
  "text_of (PyStr (c # cs)) = Some (c # cs)"
| "text_of _ = None"

definition validate_item :: "(pyval \<Rightarrow> string) \<Rightarrow> nat \<Rightarrow> pyval \<Rightarrow> terr + field_mapping" where
  "validate_item type_of i item =
     (case item of
        PyDict d \<Rightarrow>
          (case text_of (dget d ''source'') of
             None \<Rightarrow> Inl (item_error i (''missing or empty '' @ quote_name ''source''))
           | Some s \<Rightarrow>
               (case text_of (dget d ''target'') of
                  None \<Rightarrow> Inl (item_error i (''missing or empty '' @ quote_name ''target''))
                | Some t \<Rightarrow>
                    (case dget_or d ''required'' (PyBool False) of
                       PyBool b \<Rightarrow> Inr \<lparr>fmap_source = s, fmap_target = t, fmap_required = b\<rparr>
                     | _ \<Rightarrow> Inl (item_error i (quote_name ''required'' @ '' must be a bool'')))))
      | _ \<Rightarrow> Inl (item_error i (''expected a mapping, got '' @ type_of item)))"

fun validate_items :: "(pyval \<Rightarrow> string) \<Rightarrow> nat \<Rightarrow> pyval list \<Rightarrow> terr + field_mapping list" where
  "validate_items type_of i [] = Inr []"
| "validate_items type_of i (x # xs) =
     rbind (validate_item type_of i x) (\<lambda>m.
     rbind (validate_items type_of (Suc i) xs) (\<lambda>ms. Inr (m # ms)))"

definition validate_mapping :: "(pyval \<Rightarrow> string) \<Rightarrow> dict \<Rightarrow> terr + mapping_config" where
  "validate_mapping type_of raw =
     (if \<not> dhas raw ''mappings'' then Inl (mapping_error (''missing required key: '' @ quote_name ''mappings''))
      else case dget raw ''mappings'' of
          PyList (x # xs) \<Rightarrow>
            rbind (validate_items type_of 0 (x # xs)) (\<lambda>ms.
              case dget_or raw ''continue_on_error'' (PyBool True) of
                PyBool b \<Rightarrow> Inr \<lparr>mc_mappings = ms, mc_continue_on_error = b\<rparr>
              | _ \<Rightarrow> Inl (mapping_error (quote_name ''continue_on_error'' @ '' must be a bool'')))
        | _ \<Rightarrow> Inl (mapping_error (quote_name ''mappings'' @ '' must be a non-empty list'')))"

subsection \<open>The mapper\<close>

record connector_mapper =
  cm_source_to_target :: "(string \<times> string) list"
  cm_required_sources :: "string list"
  cm_continue_on_error :: bool

definition connector_mapper_new :: "mapping_config \<Rightarrow> connector_mapper" where
  "connector_mapper_new c =
     \<lparr>cm_source_to_target = foldl (\<lambda>d m. dict_set (fmap_source m) (fmap_target m) d) [] (mc_mappings c),
      cm_required_sources = map fmap_source (filter fmap_required (mc_mappings c)),
      cm_continue_on_error = mc_continue_on_error c\<rparr>"

text \<open>One record: \<open>None\<close> when it is skipped.\<close>

fun map_record ::
    "string list \<Rightarrow> bool \<Rightarrow> dict \<Rightarrow> (string \<times> string) list \<Rightarrow> dict \<Rightarrow> dict option result" where
  "map_record required lenient rec [] out = Inr (Some out)"
| "map_record required lenient rec ((s, t) # table) out =
     (case map_of rec s of
        Some v \<Rightarrow> map_record required lenient rec table (dict_set t v out)
      | None \<Rightarrow>
          if s \<in> set required then if lenient then Inr None else Inl ConnectorMappingError
          else map_record required lenient rec table out)"

definition mapper_step :: "connector_mapper \<Rightarrow> unit \<Rightarrow> dict \<Rightarrow> (unit, dict) outcome" where
  "mapper_step m u rec =
     (case map_record (cm_required_sources m) (cm_continue_on_error m) rec (cm_source_to_target m) [] of
        Inl e \<Rightarrow> Fail u e
      | Inr out \<Rightarrow> Go u out)"

definition apply_stream :: "connector_mapper \<Rightarrow> dict gen \<Rightarrow> dict gen" where
  "apply_stream m records = fst (drain (mapper_step m) () records)"

definition provide_connector_mapper ::
    "(string \<Rightarrow> terr + string) \<Rightarrow> (string \<Rightarrow> terr + pyval) option \<Rightarrow> (pyval \<Rightarrow> string)
      \<Rightarrow> pyval \<Rightarrow> terr + connector_mapper" where
  "provide_connector_mapper read_text yaml type_of mapping_path =
     rbind (load_yaml read_text yaml type_of mapping_path) (\<lambda>raw.
     rbind (validate_mapping type_of raw) (\<lambda>c. Inr (connector_mapper_new c)))"

section \<open>The product producer\<close>

text \<open>
  \<open>_unflatten\<close>: walk down the segments, replacing what is not a dictionary by an empty one.  The
  walk updates dictionaries in place; here they are rebuilt.
\<close>

fun insert_path :: "string list \<Rightarrow> pyval \<Rightarrow> dict \<Rightarrow> dict" where
  "insert_path [] v d = d"
| "insert_path [s] v d = dict_set s v d"
| "insert_path (s # t # ss) v d =
     dict_set s (PyDict (insert_path (t # ss) v
       (case map_of d s of Some (PyDict c) \<Rightarrow> c | _ \<Rightarrow> []))) d"

definition unflatten :: "dict \<Rightarrow> dict" where
  "unflatten rec = foldl (\<lambda>d (path, v). insert_path (split_on (CHR ''.'') path) v d) [] rec"

definition str_or_none :: "pyval \<Rightarrow> string option" where
  "str_or_none v =
     (if v = PyNone then None
      else let text = strip (py_str v) in if text = [] then None else Some text)"

definition build_record :: "dict \<Rightarrow> dict option" where
  "build_record nested =
     (case map_of nested ''product'' of
        Some (PyDict product) \<Rightarrow>
          (case str_or_none (dget product ''item_id'') of
             None \<Rightarrow> None
           | Some item_id \<Rightarrow>
               Some (dict_set ''product'' (PyDict (dict_set ''item_id'' (PyStr item_id) product)) nested))
      | _ \<Rightarrow> None)"

definition produce_step :: "unit \<Rightarrow> dict \<Rightarrow> (unit, pyval) outcome" where
  "produce_step u rec = Go u (map_option PyDict (build_record (unflatten rec)))"

definition produce_stream :: "dict gen \<Rightarrow> pyval gen" where
  "produce_stream mapped = fst (drain produce_step () mapped)"

section \<open>The source connector\<close>

text \<open>
  \<open>extract\<close> only builds the chain of generators: it never fails and reports no diagnostics; the
  adapter's \<open>parse\<close> is a generator as well.
\<close>

record 'i source_connector =
  sc_parse :: "'i \<Rightarrow> dict gen"
  sc_mapper :: connector_mapper

definition connector_stream :: "'i source_connector \<Rightarrow> 'i \<Rightarrow> pyval gen" where
  "connector_stream c raw = produce_stream (apply_stream (sc_mapper c) (sc_parse c raw))"

definition connector_extract :: "'i source_connector \<Rightarrow> 'i \<Rightarrow> terr + pyval gen \<times> diagnostic list" where
  "connector_extract c raw = Inr (connector_stream c raw, [])"

section \<open>The adapter registry\<close>

definition adapter_side :: side where
  "adapter_side = \<lparr>sd_section = ''formats'', sd_kind = ''format'', sd_noun = ''adapter'',
     sd_registry_error = ''AdapterRegistryError'', sd_unknown_error = ''UnknownFormatError'',
     sd_config_error = ''ConnectorBuildError''\<rparr>"

definition adapter_error :: "string \<Rightarrow> terr" where
  "adapter_error = registry_error adapter_side"

definition unknown_format :: "string \<Rightarrow> terr" where
  "unknown_format = unknown_error adapter_side"

definition extract_registry_path :: "dict \<Rightarrow> string option" where
  "extract_registry_path config =
     (let v = dget config ''connectors_registry_path'' in if py_truthy v then Some (py_str v) else None)"

definition format_spec :: "string \<Rightarrow> dict \<Rightarrow> terr + string \<times> dict" where
  "format_spec requested entry =
     (let for_format = '' for format '' @ quote_name requested in
      if lower (strip (py_str (dget_or entry ''status'' (PyStr ''active'')))) \<noteq> ''active''
      then Inl (unknown_format (''Format is disabled in registry: '' @ requested))
      else case map_of entry ''adapter'' of
          None \<Rightarrow> Inl (adapter_error (''Missing adapter path'' @ for_format))
        | Some p \<Rightarrow>
            (case as_str p of
               None \<Rightarrow> Inl (adapter_error (''Invalid adapter path'' @ for_format))
             | Some path \<Rightarrow>
                 if strip path = [] then Inl (adapter_error (''Invalid adapter path'' @ for_format))
                 else case as_mapping (dget_or entry ''constants'' (PyDict [])) of
                     None \<Rightarrow> Inl (adapter_error (''Constants'' @ for_format @ '' must be an object''))
                   | Some constants \<Rightarrow> Inr (strip path, constants)))"

definition extract_and_validate_format_spec :: "dict \<Rightarrow> pyval \<Rightarrow> terr + string \<times> dict" where
  "extract_and_validate_format_spec reg format_name =
     (case text_of format_name of
        None \<Rightarrow> Inl (unknown_format ''Format name must be a non-empty string'')
      | Some name \<Rightarrow>
          (let requested = lower (strip name) in
           case dget reg ''formats'' of
             PyDict formats \<Rightarrow>
               (case map_of formats requested of
                  None \<Rightarrow> Inl (unknown_format (''Unknown format in registry: '' @ requested))
                | Some (PyDict entry) \<Rightarrow> format_spec requested entry
                | Some _ \<Rightarrow> Inl (adapter_error
                    (''Invalid schema: format '' @ quote_name requested @ '' entry must be an object'')))
           | _ \<Rightarrow> Inl (err [''KeyError'', ''LookupError''] ''formats'')))"

definition import_adapter_class :: "(string \<Rightarrow> terr + 'c option) \<Rightarrow> string \<Rightarrow> terr + 'c" where
  "import_adapter_class importer path =
     (case importer path of
        Inl e \<Rightarrow> Inl (adapter_error (''Failed to import adapter: '' @ path))
      | Inr None \<Rightarrow> Inl (adapter_error (''Imported object '' @ quote_name path @ '' is not a class''))
      | Inr (Some c) \<Rightarrow> Inr c)"

definition initialize_adapter :: "('c \<Rightarrow> dict \<Rightarrow> terr + 'a) \<Rightarrow> ('c \<Rightarrow> string) \<Rightarrow> 'c \<Rightarrow> dict \<Rightarrow> terr + 'a" where
  "initialize_adapter init name_of c constants =
     (case init c constants of
        Inl e \<Rightarrow> Inl (adapter_error (''Failed to initialize adapter class '' @ quote_name (name_of c)))
      | Inr a \<Rightarrow> Inr a)"

text \<open>What building needs from outside: registry files, the importer, class constructors, YAML.\<close>

record ('c, 'a) connector_env =
  ce_default_path :: string
  ce_registry :: "string \<Rightarrow> (terr + pyval) option"
  ce_importer :: "string \<Rightarrow> terr + 'c option"
  ce_construct :: "'c \<Rightarrow> dict \<Rightarrow> terr + 'a"
  ce_name_of :: "'c \<Rightarrow> string"
  ce_read_text :: "string \<Rightarrow> terr + string"
  ce_yaml :: "(string \<Rightarrow> terr + pyval) option"
  ce_type_of :: "pyval \<Rightarrow> string"

definition provide_adapter :: "('c, 'a) connector_env \<Rightarrow> pyval \<Rightarrow> dict \<Rightarrow> terr + 'a" where
  "provide_adapter env format_name config =
     (let path = (case extract_registry_path config of None \<Rightarrow> ce_default_path env | Some p \<Rightarrow> p) in
      rbind (load_registry adapter_side path (ce_registry env path)) (\<lambda>reg.
      rbind (extract_and_validate_format_spec reg format_name) (\<lambda>(adapter_path, constants).
      rbind (import_adapter_class (ce_importer env) adapter_path) (\<lambda>c.
      initialize_adapter (ce_construct env) (ce_name_of env) c constants))))"

section \<open>Building a connector\<close>

definition connector_build_error :: "string \<Rightarrow> terr" where
  "connector_build_error = err [''ConnectorBuildError'', ''ValueError'']"

definition build_parts :: "('c, 'a) connector_env \<Rightarrow> pyval \<Rightarrow> dict \<Rightarrow> terr + 'a \<times> connector_mapper" where
  "build_parts env format_name config =
     rbind (provide_adapter env format_name config) (\<lambda>adapter.
     if \<not> py_truthy (dget config ''connector_mapping'')
     then Inl (connector_build_error ''connector_mapping is required in connector config'')
     else rbind (provide_connector_mapper (ce_read_text env) (ce_yaml env) (ce_type_of env)
                  (dget config ''connector_mapping'')) (\<lambda>mapper. Inr (adapter, mapper)))"

definition build_connector ::
    "('c, 'i \<Rightarrow> dict gen) connector_env \<Rightarrow> pyval \<Rightarrow> dict \<Rightarrow> terr + 'i source_connector" where
  "build_connector env format_name config =
     (case build_parts env format_name config of
        Inl e \<Rightarrow> Inl (if isinstance e ''AdapterRegistryError'' \<or> isinstance e ''ConnectorBuildError'' then e
                     else connector_build_error (te_text e))
      | Inr (adapter, mapper) \<Rightarrow> Inr \<lparr>sc_parse = adapter, sc_mapper = mapper\<rparr>)"

section \<open>The adapters of the repository\<close>

datatype adapter_class =
    CsvAdapter
  | JsonAdapter
  | JsonlAdapter
  | RowsAdapter
  | StreamingJsonAdapter
  | StreamingJsonlAdapter
  | StreamingCsvAdapter

datatype builtin_adapter =
    Csv csv_adapter
  | Json json_limits "string option"
  | Jsonl json_limits
  | Rows nat
  | StreamingJson streaming_json
  | StreamingJsonl json_limits
  | StreamingCsv csv_adapter

fun adapter_init :: "adapter_class \<Rightarrow> dict \<Rightarrow> builtin_adapter" where
  "adapter_init CsvAdapter cs = Csv (csv_adapter_new cs)"
| "adapter_init JsonAdapter cs =
     Json (json_limits_new ''max_input_bytes'' 33554432 cs) (as_str (dget cs ''items_path''))"
| "adapter_init JsonlAdapter cs = Jsonl (json_limits_new ''max_line_bytes'' 262144 cs)"
| "adapter_init RowsAdapter cs = Rows (int_const cs ''max_records'' 50000)"
| "adapter_init StreamingJsonAdapter cs = StreamingJson (streaming_json_new cs)"
| "adapter_init StreamingJsonlAdapter cs = StreamingJsonl (json_limits_new ''max_line_bytes'' 262144 cs)"
| "adapter_init StreamingCsvAdapter cs = StreamingCsv (csv_adapter_new cs)"

text \<open>
  The libraries behind the adapters, and a client's input as the text adapters and as the byte
  adapter see it.
\<close>

record 'f adapter_libs =
  al_decode :: "string \<Rightarrow> string option"
  al_loads :: "string \<Rightarrow> pyval option"
  al_ijson :: "('f byte_stream \<Rightarrow> pyval \<Rightarrow> pyval gen) option"

record 'f client_input =
  ci_text :: raw_input
  ci_bytes :: "'f byte_input"

fun adapter_parse :: "'f adapter_libs \<Rightarrow> builtin_adapter \<Rightarrow> 'f client_input \<Rightarrow> dict gen" where
  "adapter_parse l (Csv a) raw = csv_parse (al_decode l) a (ci_text raw)"
| "adapter_parse l (Json a path) raw = json_parse (al_decode l) (al_loads l) a path (ci_text raw)"
| "adapter_parse l (Jsonl a) raw = jsonl_parse (al_decode l) (al_loads l) a (ci_text raw)"
| "adapter_parse l (Rows n) raw = rows_parse n (ci_text raw)"
| "adapter_parse l (StreamingJson a) raw = streaming_json_parse (al_ijson l) a (ci_bytes raw)"
| "adapter_parse l (StreamingJsonl a) raw = streaming_jsonl_parse (al_loads l) a (ci_text raw)"
| "adapter_parse l (StreamingCsv a) raw = streaming_csv_parse a (ci_text raw)"

text \<open>\<open>connectors_registry.json\<close>.\<close>

definition adapter_paths :: "(string \<times> adapter_class) list" where
  "adapter_paths = map (apfst (\<lambda>p. ''pfp_runtime.connectors.adapters.'' @ p))
     [(''csv_adapter.CsvAdapter'', CsvAdapter),
      (''json_adapter.JsonAdapter'', JsonAdapter),
      (''jsonl_adapter.JsonlAdapter'', JsonlAdapter),
      (''rows_adapter.RowsAdapter'', RowsAdapter),
      (''streaming_json_adapter.StreamingJsonAdapter'', StreamingJsonAdapter),
      (''streaming_jsonl_adapter.StreamingJsonlAdapter'', StreamingJsonlAdapter),
      (''streaming_csv_adapter.StreamingCsvAdapter'', StreamingCsvAdapter)]"

definition registry_entry :: "string \<Rightarrow> dict \<Rightarrow> pyval" where
  "registry_entry path constants =
     PyDict [(''adapter'', PyStr (''pfp_runtime.connectors.adapters.'' @ path)),
             (''status'', PyStr ''active''), (''constants'', PyDict constants)]"

definition line_limits :: dict where
  "line_limits = [(''max_line_bytes'', PyInt 262144), (''max_json_depth'', PyInt 32),
     (''max_json_container_items'', PyInt 100000)]"

definition registry_formats :: dict where
  "registry_formats =
     [(''csv'', registry_entry ''csv_adapter.CsvAdapter''
         [(''max_input_bytes'', PyInt 33554432), (''max_line_bytes'', PyInt 262144),
          (''max_field_bytes'', PyInt 131072)]),
      (''json'', registry_entry ''json_adapter.JsonAdapter''
         [(''max_input_bytes'', PyInt 33554432), (''max_json_depth'', PyInt 32),
          (''max_json_container_items'', PyInt 100000)]),
      (''jsonl'', registry_entry ''jsonl_adapter.JsonlAdapter'' line_limits),
      (''rows'', registry_entry ''rows_adapter.RowsAdapter'' [(''max_records'', PyInt 50000)]),
      (''streaming_json'', registry_entry ''streaming_json_adapter.StreamingJsonAdapter''
         [(''items_path'', PyStr ''item''), (''max_record_bytes'', PyInt 1048576)]),
      (''streaming_jsonl'', registry_entry ''streaming_jsonl_adapter.StreamingJsonlAdapter'' line_limits),
      (''streaming_csv'', registry_entry ''streaming_csv_adapter.StreamingCsvAdapter''
         [(''csv_field_size_limit'', PyInt 131072), (''delimiter'', PyStr '',''),
          (''has_header'', PyBool True)])]"

definition connectors_registry :: pyval where
  "connectors_registry = PyDict [(''formats'', PyDict registry_formats)]"

text \<open>The environment of a build with the registry and the classes of the repository.\<close>

definition builtin_env ::
    "(string \<Rightarrow> terr + string) \<Rightarrow> (string \<Rightarrow> terr + pyval) option \<Rightarrow> (pyval \<Rightarrow> string)
      \<Rightarrow> (adapter_class, builtin_adapter) connector_env" where
  "builtin_env read_text yaml type_of =
     \<lparr>ce_default_path = ''connectors_registry.json'',
      ce_registry = (\<lambda>p. Some (Inr connectors_registry)),
      ce_importer = (\<lambda>p. case map_of adapter_paths p of
         None \<Rightarrow> Inl (err [''ModuleNotFoundError'', ''ImportError''] p) | Some c \<Rightarrow> Inr (Some c)),
      ce_construct = (\<lambda>c constants. Inr (adapter_init c constants)),
      ce_name_of = (\<lambda>c. ''''),
      ce_read_text = read_text, ce_yaml = yaml, ce_type_of = type_of\<rparr>"

end
