(* ===== verification/PFP_Connectors_Spec.thy ===== *)
theory PFP_Connectors_Spec
  imports PFP_Connectors PFP_Pipeline_Spec "HOL-Library.Sublist"
begin

text \<open>
  What the connectors promise: the byte reader is a byte string, the streaming JSONL adapter
  agrees with the batch adapter, and what a source field holds is what the mapping executor
  reads at its target path.
\<close>

section \<open>The byte reader is a byte string\<close>

text \<open>The bytes still to be read, when every chunk is bytes.\<close>

definition sound_chunks :: "string option gen \<Rightarrow> bool" where
  "sound_chunks g \<longleftrightarrow> None \<notin> set (gen_items g) \<and> gen_end g = None"

definition chunk_bytes :: "string option gen \<Rightarrow> string" where
  "chunk_bytes g = concat (map the (gen_items g))"

definition remaining :: "bytes_reader \<Rightarrow> string" where
  "remaining r = br_buffer r @ chunk_bytes (br_chunks r)"

lemma sound_chunks_simps [simp]:
  "sound_chunks Done" "\<not> sound_chunks (Raise e)"
  "\<not> sound_chunks (Yield None g)" "sound_chunks (Yield (Some b) g) \<longleftrightarrow> sound_chunks g"
  by (simp_all add: sound_chunks_def)

lemma chunk_bytes_simps [simp]:
  "chunk_bytes Done = []" "chunk_bytes (Yield (Some b) g) = b @ chunk_bytes g"
  by (simp_all add: chunk_bytes_def)

lemma read_rest_all: "sound_chunks g \<Longrightarrow> read_rest acc g = (Inr (acc @ chunk_bytes g), Done)"
  by (induction acc g rule: read_rest.induct) auto

lemma fill_buffer_all:
  assumes "sound_chunks g"
  obtains r where "fill_buffer n buf g = (None, r)" "sound_chunks (br_chunks r)"
    "remaining r = buf @ chunk_bytes g" "n \<le> length (br_buffer r) \<or> chunk_bytes (br_chunks r) = []"
  using assms
proof (induction n buf g arbitrary: thesis rule: fill_buffer.induct)
  case (1 n buf g)
  show ?case
  proof (cases "n \<le> length buf")
    case True
    then show ?thesis
      using 1(2) [of "\<lparr>br_chunks = g, br_buffer = buf\<rparr>"] 1(3)
      by (simp add: fill_buffer.simps [of n buf g] remaining_def)
  next
    case False
    show ?thesis
    proof (cases g)
      case Done
      then show ?thesis
        using False 1(2) [of "\<lparr>br_chunks = Done, br_buffer = buf\<rparr>"]
        by (simp add: fill_buffer.simps [of n buf Done] remaining_def)
    next
      case (Yield c h)
      with 1(3) obtain b where c: "c = Some b" and h: "sound_chunks h" by (cases c) auto
      obtain r where r: "fill_buffer n (buf @ b) h = (None, r)" "sound_chunks (br_chunks r)"
        "remaining r = (buf @ b) @ chunk_bytes h"
        "n \<le> length (br_buffer r) \<or> chunk_bytes (br_chunks r) = []"
        using 1(1) [OF False Yield c _ h] by blast
      then show ?thesis
        using False Yield c 1(2) [of r] by (simp add: fill_buffer.simps [of n buf "Yield (Some b) h"])
    qed (use 1(3) in auto)
  qed
qed

text \<open>
  C31: The byte reader behind the streaming JSON adapter is a byte string, whatever the chunks of
  the client: \<open>read(n)\<close> returns the next \<open>n\<close> bytes (fewer only at the end of the stream),
  \<open>read()\<close> and \<open>read(-1)\<close> return the rest, and what was read is gone, so an empty answer to a
  positive \<open>n\<close> means the end of the stream.
\<close>

theorem reader_refines_bytes:
  assumes "sound_chunks (br_chunks r)"
  shows "case reader_read amount r of (out, r') \<Rightarrow>
     sound_chunks (br_chunks r') \<and>
     (if amount = None \<or> the amount < 0 then out = Inr (remaining r) \<and> remaining r' = []
      else out = Inr (take (nat (the amount)) (remaining r))
           \<and> remaining r' = drop (nat (the amount)) (remaining r))"
proof (cases "amount = None \<or> the amount < 0")
  case True
  then show ?thesis
    using assms by (auto simp: reader_read_def remaining_def read_rest_all)
next
  case False
  then obtain k where k: "amount = Some k" "\<not> k < 0" by auto
  define n where "n = nat k"
  obtain r' where r': "fill_buffer n (br_buffer r) (br_chunks r) = (None, r')"
    "sound_chunks (br_chunks r')" "remaining r' = remaining r"
    "n \<le> length (br_buffer r') \<or> chunk_bytes (br_chunks r') = []"
    using fill_buffer_all [OF assms] unfolding remaining_def by metis
  have "remaining r = br_buffer r' @ chunk_bytes (br_chunks r')"
    using r'(3) by (simp add: remaining_def)
  then have "take n (br_buffer r') = take n (remaining r)"
    "drop n (br_buffer r') @ chunk_bytes (br_chunks r') = drop n (remaining r)"
    using r'(4) by auto
  with k r' show ?thesis
    by (simp add: reader_read_def n_def [symmetric] remaining_def Let_def)
qed

section \<open>Both JSONL adapters\<close>

lemma splitlines_plain: "list_all (\<lambda>c. \<not> is_line_break c) l \<Longrightarrow> splitlines (l @ [LF] @ rest) = l # splitlines rest"
  by (induction l) (auto simp: is_line_break_def LF_def CR_def)

lemma splitlines_lines:
  "list_all (list_all (\<lambda>c. \<not> is_line_break c)) ls \<Longrightarrow> splitlines (concat (map (\<lambda>l. l @ [LF]) ls)) = ls"
  by (induction ls) (simp_all add: splitlines_plain [simplified])

lemma all_space_dropWhile: "dropWhile is_space s = [] \<longleftrightarrow> list_all is_space s"
  by (induction s) auto

lemma strip_empty: "strip s = [] \<longleftrightarrow> list_all is_space s"
proof (cases "list_all is_space s")
  case True
  then have "lstrip s = []" by (simp only: lstrip_def all_space_dropWhile)
  with True show ?thesis by (simp add: strip_def)
next
  case False
  then obtain c cs where c: "lstrip s = c # cs" "\<not> is_space c"
    unfolding lstrip_def all_space_dropWhile [symmetric]
    by (metis dropWhile_eq_Cons_conv neq_Nil_conv)
  then have "\<not> list_all is_space (rev (lstrip s))" by simp
  then have "strip s \<noteq> []" by (metis strip_def all_space_dropWhile rev_is_Nil_conv)
  with False show ?thesis by simp
qed

lemma parse_json_line_break:
  assumes "loads (l @ [LF]) = loads l"
  shows "parse_json_line loads (lims\<lparr>jl_max_bytes := Suc (jl_max_bytes lims)\<rparr>) (l @ [LF])
           = parse_json_line loads lims l"
proof -
  have "is_space LF" by (simp add: is_space_def LF_def)
  moreover have "utf8_length (l @ [LF]) = Suc (utf8_length l)" by (simp add: utf8_length_def LF_def)
  moreover have "validate_tree_limits (lims\<lparr>jl_max_bytes := n\<rparr>) = validate_tree_limits lims" for n
    by (simp add: fun_eq_iff validate_tree_limits_def)
  ultimately show ?thesis
    by (cases "loads l") (simp_all add: parse_json_line_def strip_empty assms)
qed

lemma json_lines_break:
  assumes "\<And>l. loads (l @ [LF]) = loads l"
  shows "json_lines loads (lims\<lparr>jl_max_bytes := Suc (jl_max_bytes lims)\<rparr>) (gen_of (map (\<lambda>l. l @ [LF]) ls) None)
           = json_lines loads lims (gen_of ls None)"
  by (induction ls) (simp_all add: parse_json_line_break [where loads = loads, OF assms] split: sum.split option.split)

text \<open>
  C30: The streaming JSONL adapter reads what the batch adapter reads: on text whose only line
  breaks are the line feeds that end its lines, iterating the lines of a file gives the same
  records and the same errors at the same places as the batch adapter on the whole text, when
  its limit on the bytes of a line is one higher, because it counts the line feed that
  \<open>splitlines\<close> removes.
\<close>

theorem streaming_jsonl_is_batch:
  assumes "list_all (list_all (\<lambda>c. \<not> is_line_break c)) ls"
    and "\<And>l. loads (l @ [LF]) = loads l"
  shows "streaming_jsonl_parse loads (lims\<lparr>jl_max_bytes := Suc (jl_max_bytes lims)\<rparr>)
           (RawLines again (gen_of (map (\<lambda>l. l @ [LF]) ls) None))
         = jsonl_parse decode loads lims (RawStr (concat (map (\<lambda>l. l @ [LF]) ls)))"
  by (simp add: streaming_jsonl_parse_def jsonl_parse_def splitlines_lines [OF assms(1)]
      json_lines_break [where loads = loads, OF assms(2)])

section \<open>Source fields and target paths\<close>

text \<open>The value at a path of nested dictionaries, and a path that meets nothing else on its way.\<close>

fun at_path :: "dict \<Rightarrow> string list \<Rightarrow> pyval option" where
  "at_path d [] = None"
| "at_path d [s] = map_of d s"
| "at_path d (s # t # ss) =
     (case map_of d s of Some (PyDict c) \<Rightarrow> at_path c (t # ss) | _ \<Rightarrow> None)"

fun free_path :: "dict \<Rightarrow> string list \<Rightarrow> bool" where
  "free_path d [] = True"
| "free_path d [s] = (map_of d s = None)"
| "free_path d (s # t # ss) =
     (case map_of d s of None \<Rightarrow> True | Some (PyDict c) \<Rightarrow> free_path c (t # ss) | _ \<Rightarrow> False)"

lemma at_path_extract: "at_path d ss = Some v \<Longrightarrow> extract_segments (PyDict d) ss = v"
  by (induction d ss rule: at_path.induct) (auto split: option.splits pyval.splits)

lemma free_path_extract: "free_path d ss \<Longrightarrow> ss \<noteq> [] \<Longrightarrow> extract_segments (PyDict d) ss = PyMissing"
  by (induction d ss rule: free_path.induct) (auto split: option.splits pyval.splits)

lemma free_path_Nil: "free_path [] ss"
  by (cases "([] :: dict, ss)" rule: free_path.cases) auto

lemma at_path_Nil: "at_path [] ss = None"
  by (cases "([] :: dict, ss)" rule: at_path.cases) auto

lemma at_insert_same: "ss \<noteq> [] \<Longrightarrow> at_path (insert_path ss v d) ss = Some v"
  by (induction ss v d rule: insert_path.induct) (auto simp: map_of_dict_set)

definition apart :: "string list \<Rightarrow> string list \<Rightarrow> bool" where
  "apart p q \<longleftrightarrow> \<not> prefix p q \<and> \<not> prefix q p"

lemma apart_Cons: "apart (s # p) (t # q) \<longleftrightarrow> s \<noteq> t \<or> apart p q"
  by (auto simp: apart_def)

lemma not_apart_Nil [simp]: "\<not> apart [] q" "\<not> apart p []"
  by (auto simp: apart_def)

lemma at_insert_other: "apart q p \<Longrightarrow> at_path (insert_path q v d) p = at_path d p"
proof (induction q v d arbitrary: p rule: insert_path.induct)
  case (2 s v d)
  then show ?case
    by (cases "(d, p)" rule: at_path.cases) (auto simp: apart_Cons map_of_dict_set split: option.splits)
next
  case (3 s t ss v d)
  then show ?case
    by (cases "(d, p)" rule: at_path.cases)
      (auto simp: apart_Cons map_of_dict_set at_path_Nil split: option.splits pyval.splits)
qed simp

lemma free_insert_other: "apart q p \<Longrightarrow> free_path d p \<Longrightarrow> free_path (insert_path q v d) p"
proof (induction q v d arbitrary: p rule: insert_path.induct)
  case (2 s v d)
  then show ?case
    by (cases "(d, p)" rule: free_path.cases) (auto simp: apart_Cons map_of_dict_set split: option.splits)
next
  case (3 s t ss v d)
  then show ?case
    by (cases "(d, p)" rule: free_path.cases)
      (auto simp: apart_Cons map_of_dict_set free_path_Nil split: option.splits pyval.splits)
qed simp

text \<open>The segments of the targets, and targets none of which leads through another.\<close>

definition segments :: "string \<Rightarrow> string list" where
  "segments path = split_on (CHR ''.'') path"

fun targets_apart :: "string list \<Rightarrow> bool" where
  "targets_apart [] = True"
| "targets_apart (t # ts) \<longleftrightarrow>
     list_all (\<lambda>u. apart (segments t) (segments u)) ts \<and> targets_apart ts"

lemma apart_sym: "apart p q \<longleftrightarrow> apart q p"
  by (auto simp: apart_def)

lemma segments_ne [simp]: "segments t \<noteq> []"
  by (simp add: segments_def)

lemma unflatten_other:
  "list_all (\<lambda>(t, v). apart (segments t) p) kvs \<Longrightarrow>
     at_path (foldl (\<lambda>d (t, v). insert_path (segments t) v d) d kvs) p = at_path d p"
  by (induction kvs arbitrary: d) (auto simp: at_insert_other)

lemma unflatten_free:
  "list_all (\<lambda>(t, v). apart (segments t) p) kvs \<Longrightarrow> free_path d p \<Longrightarrow>
     free_path (foldl (\<lambda>d (t, v). insert_path (segments t) v d) d kvs) p"
  by (induction kvs arbitrary: d) (auto simp: free_insert_other)

lemma unflatten_at:
  assumes "targets_apart (map fst kvs)" "(t, v) \<in> set kvs"
  shows "at_path (foldl (\<lambda>d (t, v). insert_path (segments t) v d) d kvs) (segments t) = Some v"
  using assms
proof (induction kvs arbitrary: d)
  case (Cons kv kvs)
  show ?case
  proof (cases "kv = (t, v)")
    case True
    with Cons.prems have "list_all (\<lambda>(u, w). apart (segments u) (segments t)) kvs"
      by (auto simp: list_all_iff apart_sym [of "segments t"])
    with True show ?thesis by (simp add: unflatten_other at_insert_same)
  next
    case False
    with Cons show ?thesis by auto
  qed
qed simp

text \<open>What the mapper makes of a record: the targets of the sources it has, in table order.\<close>

definition routed :: "(string \<times> string) list \<Rightarrow> dict \<Rightarrow> dict" where
  "routed table rec = List.map_filter (\<lambda>(s, t). map_option (Pair t) (map_of rec s)) table"

lemma routed_simps [simp]:
  "routed [] rec = []"
  "routed ((s, t) # table) rec =
     (case map_of rec s of None \<Rightarrow> routed table rec | Some v \<Rightarrow> (t, v) # routed table rec)"
  by (simp_all add: routed_def List.map_filter_simps split: option.split)

lemma set_routed: "(t, v) \<in> set (routed table rec) \<longleftrightarrow> (\<exists>s. (s, t) \<in> set table \<and> map_of rec s = Some v)"
  by (induction table) (auto split: option.splits)

lemma apart_ne: "apart (segments t) (segments u) \<Longrightarrow> t \<noteq> u"
  by (auto simp: apart_def)

lemma targets_apart_distinct: "targets_apart ts \<Longrightarrow> distinct ts"
  by (induction ts) (auto simp: list_all_iff dest: apart_ne)

lemma routed_keys_apart:
  "targets_apart (map snd table) \<Longrightarrow> targets_apart (map fst (routed table rec))"
proof (induction table)
  case (Cons st table)
  then show ?case by (cases st) (fastforce simp: list_all_iff set_routed split: option.splits)
qed simp

lemma map_record_routed:
  assumes "map_record required lenient rec table out = Inr (Some out')"
    "distinct (map fst out @ map snd table)"
  shows "out' = out @ routed table rec"
  using assms
proof (induction required lenient rec table out rule: map_record.induct)
  case (2 required lenient rec s t table out)
  show ?case
  proof (cases "map_of rec s")
    case None
    with 2 show ?thesis by (auto split: if_splits)
  next
    case (Some v)
    have "map_of out t = None" using 2(4) by (auto simp: map_of_eq_None_iff)
    with 2 Some show ?thesis by (simp add: dict_set_fresh)
  qed
qed simp

lemma mapper_table:
  "distinct (map fst d @ map fmap_source ms) \<Longrightarrow>
     foldl (\<lambda>d m. dict_set (fmap_source m) (fmap_target m) d) d ms
       = d @ map (\<lambda>m. (fmap_source m, fmap_target m)) ms"
proof (induction ms arbitrary: d)
  case (Cons m ms)
  then have "map_of d (fmap_source m) = None" by (auto simp: map_of_eq_None_iff)
  with Cons show ?case by (simp add: dict_set_fresh)
qed simp

text \<open>A stage without state: its items come from items of its input.\<close>

lemma stateless_items:
  assumes "y \<in> set (gen_items (fst (drain step () g)))"
  shows "\<exists>x \<in> set (gen_items g). step () x = Go () (Some y)"
  using assms unfolding drain_is_run
  by (induction g) (auto split: outcome.splits option.splits)

lemma connector_product:
  assumes "product \<in> set (gen_items (connector_stream c raw))"
  obtains rec out nested where "rec \<in> set (gen_items (sc_parse c raw))"
    "map_record (cm_required_sources (sc_mapper c)) (cm_continue_on_error (sc_mapper c)) rec
       (cm_source_to_target (sc_mapper c)) [] = Inr (Some out)"
    "build_record (unflatten out) = Some nested" "product = PyDict nested"
proof -
  obtain out where out: "out \<in> set (gen_items (apply_stream (sc_mapper c) (sc_parse c raw)))"
    "produce_step () out = Go () (Some product)"
    using stateless_items [OF assms [unfolded connector_stream_def produce_stream_def]] by blast
  obtain rec where rec: "rec \<in> set (gen_items (sc_parse c raw))"
    "mapper_step (sc_mapper c) () rec = Go () (Some out)"
    using stateless_items [OF out(1) [unfolded apply_stream_def]] by blast
  obtain nested where nested: "build_record (unflatten out) = Some nested" "product = PyDict nested"
    using out(2) by (auto simp: produce_step_def)
  show thesis
  proof (rule that [OF rec(1)])
    show "map_record (cm_required_sources (sc_mapper c)) (cm_continue_on_error (sc_mapper c)) rec
       (cm_source_to_target (sc_mapper c)) [] = Inr (Some out)"
      using rec(2) by (auto simp: mapper_step_def split: sum.splits)
  qed (use nested in auto)
qed

lemma item_id_segments: "segments ''product.item_id'' = [''product'', ''item_id'']"
  by code_simp

text \<open>The product keeps its fields but for the identifier, which becomes a stripped string.\<close>

lemma build_record_paths:
  assumes "build_record d = Some nested"
  obtains item_id where "str_or_none (case at_path d [''product'', ''item_id''] of None \<Rightarrow> PyNone | Some v \<Rightarrow> v)
      = Some item_id"
    "nested = insert_path [''product'', ''item_id''] (PyStr item_id) d"
  using assms by (auto simp: build_record_def dget_def split: option.splits pyval.splits)

lemma str_or_none_Some: "str_or_none v = Some s \<Longrightarrow> s = strip (py_str v)"
  by (auto simp: str_or_none_def Let_def split: if_splits)

lemma extract_target:
  "t \<noteq> [] \<Longrightarrow> at_path d (segments t) = Some v \<Longrightarrow> extract_by_source_path d t = v"
  "t \<noteq> [] \<Longrightarrow> free_path d (segments t) \<Longrightarrow> extract_by_source_path d t = PyMissing"
  by (simp_all add: extract_by_source_path_def at_path_extract free_path_extract flip: segments_def)

text \<open>What the validator guarantees.\<close>

lemma validate_items_texts:
  "validate_items ty i xs = Inr ms \<Longrightarrow> m \<in> set ms \<Longrightarrow> fmap_source m \<noteq> [] \<and> fmap_target m \<noteq> []"
proof (induction ty i xs arbitrary: ms rule: validate_items.induct)
  case (2 ty i x xs)
  have "text_of v = Some s \<Longrightarrow> s \<noteq> []" for v s by (cases v rule: text_of.cases) auto
  then have "validate_item ty i x = Inr m' \<Longrightarrow> fmap_source m' \<noteq> [] \<and> fmap_target m' \<noteq> []" for m'
    by (auto simp: validate_item_def split: pyval.splits option.splits)
  moreover obtain m' ms' where "validate_item ty i x = Inr m'"
    "validate_items ty (Suc i) xs = Inr ms'" "ms = m' # ms'"
    using 2(2) by (auto simp: rbind_Inr_iff)
  ultimately show ?case using 2(1) [of m' ms'] 2(3) by auto
qed simp

lemma validated_targets:
  assumes "validate_mapping ty raw = Inr cfg" "m \<in> set (mc_mappings cfg)"
  shows "fmap_target m \<noteq> []"
proof -
  obtain xs where "validate_items ty 0 xs = Inr (mc_mappings cfg)"
    using assms(1)
    by (cases "dget_or raw ''continue_on_error'' (PyBool True)")
      (auto simp: validate_mapping_def rbind_Inr_iff simp del: validate_items.simps
        split: if_splits pyval.splits list.splits)
  with assms(2) show ?thesis using validate_items_texts by blast
qed

lemma targets_apart_mem:
  "targets_apart ts \<Longrightarrow> t \<in> set ts \<Longrightarrow> u \<in> set ts \<Longrightarrow> t \<noteq> u \<Longrightarrow> apart (segments t) (segments u)"
  by (induction ts) (auto simp: list_all_iff apart_sym [of "segments t"])

lemma free_not_at: "free_path d ss \<Longrightarrow> at_path d ss = None"
  by (induction d ss rule: free_path.induct) (auto split: option.splits pyval.splits)

lemma unflatten_routed:
  assumes "targets_apart (map snd table)" "(s, t) \<in> set table" "distinct (map fst table)"
  shows "case map_of rec s of
           None \<Rightarrow> free_path (unflatten (routed table rec)) (segments t)
         | Some v \<Rightarrow> at_path (unflatten (routed table rec)) (segments t) = Some v"
proof (cases "map_of rec s")
  case (Some v)
  then have "(t, v) \<in> set (routed table rec)" using assms(2) by (auto simp: set_routed)
  with Some show ?thesis
    using unflatten_at [OF routed_keys_apart [OF assms(1)], of t v rec "[]"]
    by (simp add: unflatten_def segments_def)
next
  case None
  have t: "apart (segments u) (segments t)" if "(s', u) \<in> set table" "map_of rec s' = Some w" for s' u w
  proof -
    have "u \<noteq> t"
      using that None assms(2,3) targets_apart_distinct [OF assms(1)]
      by (metis distinct_map inj_on_eq_iff prod.inject snd_conv option.distinct(1))
    moreover have "u \<in> set (map snd table)" "t \<in> set (map snd table)"
      using that(1) assms(2) by (metis image_eqI list.set_map snd_conv)+
    ultimately show ?thesis by (rule targets_apart_mem [OF assms(1), rotated 2])
  qed
  have "list_all (\<lambda>(u, w). apart (segments u) (segments t)) (routed table rec)"
    using t by (fastforce simp: list_all_iff set_routed)
  then have "free_path (unflatten (routed table rec)) (segments t)"
    using unflatten_free [of "segments t" "routed table rec" "[]"] free_path_Nil
    by (simp add: unflatten_def segments_def)
  with None show ?thesis by simp
qed

text \<open>
  Extraction from the finished product, where \<open>found\<close> is what the record has for the source of the
  target path: the identifier is replaced by its stripped text, every other path is untouched.
\<close>

lemma item_id_read_back:
  assumes t: "t = ''product.item_id''"
    and id: "str_or_none (case at_path d [''product'', ''item_id''] of None \<Rightarrow> PyNone | Some v \<Rightarrow> v) = Some item_id"
    and mapped: "case found of None \<Rightarrow> free_path d (segments t) | Some v \<Rightarrow> at_path d (segments t) = Some v"
  shows "extract_by_source_path (insert_path [''product'', ''item_id''] (PyStr item_id) d) t
    = (case found of None \<Rightarrow> PyMissing | Some v \<Rightarrow> PyStr (strip (py_str v)))"
proof -
  have segs: "segments t = [''product'', ''item_id'']" by (simp only: t item_id_segments)
  have "at_path (insert_path [''product'', ''item_id''] (PyStr item_id) d) (segments t) = Some (PyStr item_id)"
    unfolding segs by (rule at_insert_same) simp
  then have read: "extract_by_source_path (insert_path [''product'', ''item_id''] (PyStr item_id) d) t = PyStr item_id"
    by (intro extract_target(1)) (simp add: t)
  obtain v where v: "found = Some v" "at_path d (segments t) = Some v"
  proof (cases found)
    case None
    with mapped have "at_path d (segments t) = None" by (simp add: free_not_at)
    with id [folded segs] show ?thesis by (simp add: str_or_none_def)
  qed (use mapped that in simp)
  with id [folded segs] have "item_id = strip (py_str v)" by (simp add: str_or_none_Some)
  with v(1) read show ?thesis by simp
qed

lemma other_target_read_back:
  assumes "t \<noteq> []" and ap: "apart [''product'', ''item_id''] (segments t)"
    and mapped: "case found of None \<Rightarrow> free_path d (segments t) | Some v \<Rightarrow> at_path d (segments t) = Some v"
  shows "extract_by_source_path (insert_path [''product'', ''item_id''] (PyStr item_id) d) t
    = (case found of None \<Rightarrow> PyMissing | Some v \<Rightarrow> v)"
proof -
  let ?d = "insert_path [''product'', ''item_id''] (PyStr item_id) d"
  have "at_path ?d (segments t) = at_path d (segments t)" "free_path d (segments t) \<Longrightarrow> free_path ?d (segments t)"
    by (rule at_insert_other [OF ap], rule free_insert_other [OF ap])
  then show ?thesis using mapped extract_target [OF assms(1), of ?d] by (cases found) simp_all
qed

text \<open>
  C29: What a source field holds is what the mapping executor reads at its target path.  For a
  connector with a validated mapping that names every source once, whose target paths do not
  lead through one another and include \<open>product.item_id\<close>: every product of the stream comes from
  a record of the adapter, and extracting a target path from the product gives the value of the
  source field, a missing value when the record has no such field, and the stripped text of it
  for \<open>product.item_id\<close>.
\<close>

theorem mapped_values_read_back:
  assumes cfg: "validate_mapping type_of raw_mapping = Inr cfg" "sc_mapper c = connector_mapper_new cfg"
    and sources: "distinct (map fmap_source (mc_mappings cfg))"
    and targets: "targets_apart (map fmap_target (mc_mappings cfg))"
    and item: "item \<in> set (mc_mappings cfg)" "fmap_target item = ''product.item_id''"
    and product: "product \<in> set (gen_items (connector_stream c raw))"
  shows "\<exists>rec nested. rec \<in> set (gen_items (sc_parse c raw)) \<and> product = PyDict nested \<and>
     (\<forall>m \<in> set (mc_mappings cfg). extract_by_source_path nested (fmap_target m) =
        (case map_of rec (fmap_source m) of
           None \<Rightarrow> PyMissing
         | Some v \<Rightarrow> if fmap_target m = ''product.item_id'' then PyStr (strip (py_str v)) else v))"
proof -
  let ?table = "map (\<lambda>m. (fmap_source m, fmap_target m)) (mc_mappings cfg)"
  have table: "cm_source_to_target (sc_mapper c) = ?table"
    using mapper_table [of "[]"] sources by (simp add: cfg(2) connector_mapper_new_def)
  have apart: "targets_apart (map snd ?table)" "distinct (map fst ?table)" "distinct (map snd ?table)"
    using targets sources targets_apart_distinct [OF targets] by (simp_all add: o_def)
  obtain rec out nested where rec: "rec \<in> set (gen_items (sc_parse c raw))"
    and out: "map_record (cm_required_sources (sc_mapper c)) (cm_continue_on_error (sc_mapper c)) rec
       ?table [] = Inr (Some out)"
    and nested: "build_record (unflatten out) = Some nested" "product = PyDict nested"
    by (rule connector_product [OF product, unfolded table])
  have out_eq: "out = routed ?table rec"
    using map_record_routed [OF out] apart(3) by simp
  obtain item_id where item_id: "str_or_none (case at_path (unflatten out) [''product'', ''item_id''] of
      None \<Rightarrow> PyNone | Some v \<Rightarrow> v) = Some item_id"
    and nested_eq: "nested = insert_path [''product'', ''item_id''] (PyStr item_id) (unflatten out)"
    by (rule build_record_paths [OF nested(1)])
  have "extract_by_source_path nested (fmap_target m) =
        (case map_of rec (fmap_source m) of
           None \<Rightarrow> PyMissing
         | Some v \<Rightarrow> if fmap_target m = ''product.item_id'' then PyStr (strip (py_str v)) else v)"
    if m: "m \<in> set (mc_mappings cfg)" for m
  proof -
    let ?t = "fmap_target m" and ?s = "fmap_source m"
    have ne: "?t \<noteq> []" using validated_targets [OF cfg(1) m] .
    have mapped: "case map_of rec ?s of None \<Rightarrow> free_path (unflatten out) (segments ?t)
       | Some v \<Rightarrow> at_path (unflatten out) (segments ?t) = Some v"
      unfolding out_eq by (rule unflatten_routed [OF apart(1) _ apart(2)]) (use m in force)
    show ?thesis
    proof (cases "?t = ''product.item_id''")
      case True
      with item_id_read_back [OF True item_id mapped] show ?thesis
        by (cases "map_of rec ?s") (simp_all add: nested_eq)
    next
      case False
      have "apart [''product'', ''item_id''] (segments ?t)"
        unfolding item_id_segments [symmetric]
        by (rule targets_apart_mem [OF targets]) (use m item False in force)+
      from other_target_read_back [OF ne this mapped, of item_id] False show ?thesis
        by (cases "map_of rec ?s") (simp_all add: nested_eq)
    qed
  qed
  with rec nested(2) show ?thesis by blast
qed

section \<open>Late errors\<close>

text \<open>
  The connector reports nothing and raises nothing when it is called: a bad input, an unreadable
  line or a missing required field is raised by the stream, when the artifact is written.  So the
  ingestion step of a run cannot fail, and its \<open>INGESTION_EXTRACT\<close> report is never made for an
  adapter error.
\<close>

lemma connector_never_fails_early:
  "ingestion_step (connector_extract c) raw = Inr (guard_ingestion_stream (connector_stream c raw), [])"
  by (simp add: ingestion_step_def connector_extract_def)

lemma mapper_error_stops:
  assumes "map_record (cm_required_sources m) (cm_continue_on_error m) rec (cm_source_to_target m) [] = Inl e"
  shows "apply_stream m (Yield rec g) = Raise e"
  by (simp add: apply_stream_def drain_is_run mapper_step_def assms)

lemma lenient_mapper_never_fails: "map_record required True rec table out \<noteq> Inl e"
  by (induction required True rec table out rule: map_record.induct) (auto split: option.splits)

text \<open>A lenient connector skips records and passes on how its adapter ends.\<close>

lemma lenient_stream_end:
  assumes "cm_continue_on_error (sc_mapper c)"
  shows "gen_end (connector_stream c raw) = gen_end (sc_parse c raw)"
proof -
  have "gen_end (produce_stream g) = gen_end g" for g
    by (induction g) (auto simp: produce_stream_def produce_step_def drain_is_run split: option.splits)
  moreover have "gen_end (apply_stream (sc_mapper c) g) = gen_end g" for g
    by (induction g)
      (auto simp: apply_stream_def mapper_step_def drain_is_run assms lenient_mapper_never_fails
        split: option.splits sum.splits)
  ultimately show ?thesis by (simp add: connector_stream_def)
qed

section \<open>The built-in formats\<close>

definition builtin_formats :: "(string \<times> builtin_adapter) list" where
  "builtin_formats =
     (let csv = \<lparr>ca_max_input_bytes = 33554432, ca_field_size_limit = 131072,
                 ca_delimiter = CHR '','', ca_has_header = True\<rparr>;
          lines = \<lparr>jl_max_bytes = 262144, jl_max_depth = 32, jl_max_items = 100000\<rparr>
      in [(''csv'', Csv csv),
          (''json'', Json \<lparr>jl_max_bytes = 33554432, jl_max_depth = 32, jl_max_items = 100000\<rparr> None),
          (''jsonl'', Jsonl lines), (''rows'', Rows 50000),
          (''streaming_json'', StreamingJson \<lparr>sj_items_path = PyStr ''item'', sj_max_record_bytes = 1048576\<rparr>),
          (''streaming_jsonl'', StreamingJsonl lines), (''streaming_csv'', StreamingCsv csv)])"

text \<open>What is imported and built once the format name has been normalised.\<close>

definition requested_class :: "string \<Rightarrow> terr + adapter_class \<times> dict" where
  "requested_class n =
     (case map_of registry_formats n of
        None \<Rightarrow> Inl (unknown_format (''Unknown format in registry: '' @ n))
      | Some (PyDict entry) \<Rightarrow>
          rbind (format_spec n entry) (\<lambda>(p, constants).
            case map_of adapter_paths p of
              None \<Rightarrow> Inl (adapter_error (''Failed to import adapter: '' @ p))
            | Some c \<Rightarrow> Inr (c, constants))
      | Some _ \<Rightarrow> Inl (adapter_error
          (''Invalid schema: format '' @ quote_name n @ '' entry must be an object'')))"

definition class_table :: "(string \<times> adapter_class \<times> dict) list" where
  "class_table =
     [(''csv'', CsvAdapter,
         [(''max_input_bytes'', PyInt 33554432), (''max_line_bytes'', PyInt 262144),
          (''max_field_bytes'', PyInt 131072)]),
      (''json'', JsonAdapter,
         [(''max_input_bytes'', PyInt 33554432), (''max_json_depth'', PyInt 32),
          (''max_json_container_items'', PyInt 100000)]),
      (''jsonl'', JsonlAdapter, line_limits),
      (''rows'', RowsAdapter, [(''max_records'', PyInt 50000)]),
      (''streaming_json'', StreamingJsonAdapter,
         [(''items_path'', PyStr ''item''), (''max_record_bytes'', PyInt 1048576)]),
      (''streaming_jsonl'', StreamingJsonlAdapter, line_limits),
      (''streaming_csv'', StreamingCsvAdapter,
         [(''csv_field_size_limit'', PyInt 131072), (''delimiter'', PyStr '',''),
          (''has_header'', PyBool True)])]"

lemma class_table_formats:
  "map_of builtin_formats n = map_option (\<lambda>(c, cs). adapter_init c cs) (map_of class_table n)"
  by (simp add: builtin_formats_def class_table_def Let_def csv_adapter_new_def json_limits_new_def
      streaming_json_new_def int_const_def line_limits_def dget_def dget_or_def)

lemma requested_class_table:
  "requested_class n = (case map_of class_table n of
     Some x \<Rightarrow> Inr x | None \<Rightarrow> Inl (unknown_format (''Unknown format in registry: '' @ n)))"
proof (cases "map_of class_table n")
  case None
  then have "n \<notin> set (map fst class_table)" by (simp add: map_of_eq_None_iff)
  with None show ?thesis
    by (simp add: requested_class_def registry_formats_def class_table_def)
next
  case (Some x)
  have "list_all (\<lambda>(n, x). requested_class n = Inr x) class_table" by code_simp
  with map_of_SomeD [OF Some] Some show ?thesis by (auto simp: list_all_iff)
qed

lemma import_builtin:
  "rbind (import_adapter_class (ce_importer (builtin_env rt y ty)) p)
     (\<lambda>c. initialize_adapter (ce_construct (builtin_env rt y ty)) (ce_name_of (builtin_env rt y ty)) c cs)
   = (case map_of adapter_paths p of
        None \<Rightarrow> Inl (adapter_error (''Failed to import adapter: '' @ p))
      | Some c \<Rightarrow> Inr (adapter_init c cs))"
  by (cases "map_of adapter_paths p")
    (simp_all add: import_adapter_class_def initialize_adapter_def builtin_env_def)

lemma load_builtin:
  "load_registry adapter_side path (ce_registry (builtin_env rt y ty) path)
     = Inr (case connectors_registry of PyDict d \<Rightarrow> d)"
  by (simp add: load_registry_def builtin_env_def connectors_registry_def adapter_side_def)

lemma class_then_init:
  "rbind r (\<lambda>(p, cs). case m p of None \<Rightarrow> Inl (e p) | Some c \<Rightarrow> Inr (f c cs))
     = rbind (rbind r (\<lambda>(p, cs). case m p of None \<Rightarrow> Inl (e p) | Some c \<Rightarrow> Inr (c, cs)))
         (\<lambda>(c, cs). Inr (f c cs))"
  by (cases r) (auto split: option.split)

lemma provide_builtin:
  assumes "name \<noteq> []"
  shows "provide_adapter (builtin_env rt y ty) (PyStr name) []
    = rbind (requested_class (lower (strip name))) (\<lambda>(c, cs). Inr (adapter_init c cs))"
proof -
  have "text_of (PyStr name) = Some name" using assms by (cases name) simp_all
  then have "provide_adapter (builtin_env rt y ty) (PyStr name) []
    = rbind (case map_of registry_formats (lower (strip name)) of
        None \<Rightarrow> Inl (unknown_format (''Unknown format in registry: '' @ lower (strip name)))
      | Some (PyDict entry) \<Rightarrow> format_spec (lower (strip name)) entry
      | Some _ \<Rightarrow> Inl (adapter_error (''Invalid schema: format '' @ quote_name (lower (strip name)) @
                      '' entry must be an object'')))
      (\<lambda>(p, cs). case map_of adapter_paths p of
        None \<Rightarrow> Inl (adapter_error (''Failed to import adapter: '' @ p))
      | Some c \<Rightarrow> Inr (adapter_init c cs))"
    unfolding provide_adapter_def Let_def load_builtin rbind.simps import_builtin
      extract_and_validate_format_spec_def
    by (simp add: connectors_registry_def Let_def)
  then show ?thesis
    unfolding requested_class_def
    by (cases "map_of registry_formats (lower (strip name))")
      (simp_all add: class_then_init [where f = adapter_init] split: pyval.split)
qed

text \<open>
  The formats of the registry are exactly the seven documented ones: a name, in any case and
  with spaces around it, builds the adapter of that format with the limits of the registry, and
  every other name is an \<open>UnknownFormatError\<close>.
\<close>

theorem builtin_formats_build:
  "case map_of builtin_formats (lower (strip name)) of
     Some a \<Rightarrow> provide_adapter (builtin_env read_text yaml type_of) (PyStr name) [] = Inr a
   | None \<Rightarrow> (case provide_adapter (builtin_env read_text yaml type_of) (PyStr name) [] of
       Inl e \<Rightarrow> isinstance e ''UnknownFormatError'' | Inr a \<Rightarrow> False)"
proof (cases "name = []")
  case True
  have "map_of builtin_formats [] = None" by (simp add: builtin_formats_def Let_def)
  moreover have "lower (strip []) = []" by code_simp
  ultimately show ?thesis
    unfolding True provide_adapter_def Let_def load_builtin
    by (simp add: extract_and_validate_format_spec_def
        unknown_format_def unknown_error_def adapter_side_def isinstance_def err_def)
next
  case False
  then show ?thesis
    by (auto simp: provide_builtin requested_class_table class_table_formats unknown_format_def
        unknown_error_def adapter_side_def isinstance_def err_def split: option.split)
qed

section \<open>Witnesses\<close>

definition sample_reader :: bytes_reader where
  "sample_reader = bytes_reader_new (gen_of [Some ''ab'', Some [], Some ''cde''] None)"

theorem reader_refines_bytes_witness:
  "fst (reader_read (Some 3) sample_reader) = Inr ''abc''"
  using reader_refines_bytes [of sample_reader "Some 3"]
  by (auto simp: sample_reader_def bytes_reader_new_def remaining_def chunk_bytes_def split: prod.splits)

definition sample_loads :: "string \<Rightarrow> pyval option" where
  "sample_loads text = (if strip text = ''1'' then Some (PyInt 1) else Some (PyDict [(''id'', PyStr (strip text))]))"

lemma strip_line_break: "strip (l @ [LF]) = strip l"
proof (cases "lstrip l = []")
  case True
  then have "list_all is_space l" by (simp only: lstrip_def all_space_dropWhile)
  then have "list_all is_space (l @ [LF])" by (simp add: is_space_def LF_def)
  with \<open>list_all is_space l\<close> show ?thesis using strip_empty [of l] strip_empty [of "l @ [LF]"] by simp
next
  case False
  have "lstrip (l @ [LF]) = lstrip l @ [LF]"
    using False unfolding lstrip_def by (induction l) auto
  then show ?thesis by (simp add: strip_def is_space_def LF_def)
qed

theorem streaming_jsonl_is_batch_witness:
  "streaming_jsonl_parse sample_loads \<lparr>jl_max_bytes = 9, jl_max_depth = 32, jl_max_items = 10\<rparr>
     (RawLines False (gen_of [''a'' @ [LF], ''1'' @ [LF], ''longer than eight'' @ [LF]] None))
   = jsonl_parse (\<lambda>b. None) sample_loads \<lparr>jl_max_bytes = 8, jl_max_depth = 32, jl_max_items = 10\<rparr>
       (RawStr (''a'' @ [LF] @ ''1'' @ [LF] @ ''longer than eight'' @ [LF]))"
proof -
  have loads: "sample_loads (l @ [LF]) = sample_loads l" for l
    by (simp add: sample_loads_def strip_line_break)
  have lines: "list_all (list_all (\<lambda>c. \<not> is_line_break c)) [''a'', ''1'', ''longer than eight'']"
    by (simp add: is_line_break_def)
  show ?thesis
    using streaming_jsonl_is_batch [where loads = sample_loads and again = False and decode = "\<lambda>b. None"
        and lims = "\<lparr>jl_max_bytes = 8, jl_max_depth = 32, jl_max_items = 10\<rparr>", OF lines loads]
    by simp
qed

definition sample_mapping :: dict where
  "sample_mapping = [(''mappings'', PyList
     [PyDict [(''source'', PyStr ''sku''), (''target'', PyStr ''product.item_id''), (''required'', PyBool True)],
      PyDict [(''source'', PyStr ''cost''), (''target'', PyStr ''offer.price.amount'')],
      PyDict [(''source'', PyStr ''cur''), (''target'', PyStr ''offer.price.currency'')]])]"

definition sample_connector_config :: mapping_config where
  "sample_connector_config = \<lparr>mc_mappings =
     [\<lparr>fmap_source = ''sku'', fmap_target = ''product.item_id'', fmap_required = True\<rparr>,
      \<lparr>fmap_source = ''cost'', fmap_target = ''offer.price.amount'', fmap_required = False\<rparr>,
      \<lparr>fmap_source = ''cur'', fmap_target = ''offer.price.currency'', fmap_required = False\<rparr>],
     mc_continue_on_error = True\<rparr>"

definition sample_connector :: "unit source_connector" where
  "sample_connector =
     \<lparr>sc_parse = (\<lambda>_. gen_of [[(''sku'', PyInt 7), (''cost'', PyDec (DFin False 1050 (-2)))]] None),
      sc_mapper = connector_mapper_new sample_connector_config\<rparr>"

lemma sample_mapping_valid: "validate_mapping (\<lambda>v. '''') sample_mapping = Inr sample_connector_config"
  by (simp add: validate_mapping_def sample_mapping_def sample_connector_config_def validate_item_def dget_def
      dget_or_def dhas_def)

definition sample_product :: dict where
  "sample_product = [(''product'', PyDict [(''item_id'', PyStr ''7'')]),
     (''offer'', PyDict [(''price'', PyDict [(''amount'', PyDec (DFin False 1050 (-2)))])])]"

lemma sample_split:
  "split_on (CHR ''.'') ''product.item_id'' = [''product'', ''item_id'']"
  "split_on (CHR ''.'') ''offer.price.amount'' = [''offer'', ''price'', ''amount'']"
  "split_on (CHR ''.'') ''offer.price.currency'' = [''offer'', ''price'', ''currency'']"
  by code_simp+

lemma sample_stream: "PyDict sample_product \<in> set (gen_items (connector_stream sample_connector ()))"
proof -
  have "str_or_none (PyInt 7) = Some ''7''" by code_simp
  then show ?thesis
    by (simp add: connector_stream_def sample_connector_def apply_stream_def produce_stream_def
        drain_is_run mapper_step_def connector_mapper_new_def sample_connector_config_def produce_step_def
        unflatten_def sample_split build_record_def sample_product_def dget_def)
qed

theorem mapped_values_read_back_witness:
  "\<exists>nested. PyDict nested \<in> set (gen_items (connector_stream sample_connector ()))
     \<and> extract_by_source_path nested ''offer.price.amount'' = PyDec (DFin False 1050 (-2))
     \<and> extract_by_source_path nested ''offer.price.currency'' = PyMissing"
proof -
  have "targets_apart (map fmap_target (mc_mappings sample_connector_config))"
    by (simp add: sample_connector_config_def segments_def sample_split apart_def)
  moreover have "distinct (map fmap_source (mc_mappings sample_connector_config))"
    "hd (mc_mappings sample_connector_config) \<in> set (mc_mappings sample_connector_config)"
    "fmap_target (hd (mc_mappings sample_connector_config)) = ''product.item_id''"
    "sc_mapper sample_connector = connector_mapper_new sample_connector_config"
    by (simp_all add: sample_connector_config_def sample_connector_def)
  ultimately obtain rec nested where rec: "rec \<in> set (gen_items (sc_parse sample_connector ()))"
    and n: "PyDict sample_product = PyDict nested"
    and m: "\<forall>m \<in> set (mc_mappings sample_connector_config). extract_by_source_path nested (fmap_target m) =
        (case map_of rec (fmap_source m) of
           None \<Rightarrow> PyMissing
         | Some v \<Rightarrow> if fmap_target m = ''product.item_id'' then PyStr (strip (py_str v)) else v)"
    using mapped_values_read_back [OF sample_mapping_valid _ _ _ _ _ sample_stream] by blast
  have "rec = [(''sku'', PyInt 7), (''cost'', PyDec (DFin False 1050 (-2)))]"
    using rec by (simp add: sample_connector_def)
  with m n sample_stream show ?thesis by (intro exI [of _ nested]) (simp add: sample_connector_config_def)
qed

end
