(* ===== verification/PFP_Csv_Spec.thy ===== *)
theory PFP_Csv_Spec
  imports PFP_Adapters PFP_Producer_Spec
begin

text \<open>
  A CSV feed can be ingested again: the reader of the CSV adapter, a character at a time, on the
  text of the CSV writer.
\<close>

section \<open>The reader a character at a time\<close>

text \<open>On text whose last line is complete the end of a line comes with its line feed.\<close>

fun chars_rows :: "nat \<Rightarrow> char \<Rightarrow> csv_reader_state \<Rightarrow> string \<Rightarrow> string list gen" where
  "chars_rows n dc s [] = reader_rows n dc s Done"
| "chars_rows n dc s (c # cs) =
     (case process_chars n dc (if c = LF then [Some c, None] else [Some c]) s of
        Inl _ \<Rightarrow> Raise AdapterFormatError
      | Inr s' \<Rightarrow>
          if c = LF \<and> cr_mode s' = csv_mode.StartRecord
          then Yield (cr_fields s') (chars_rows n dc csv_start cs)
          else chars_rows n dc s' cs)"

lemma process_chars_append:
  "process_chars n dc (xs @ ys) s = rbind (process_chars n dc xs s) (process_chars n dc ys)"
proof (induction xs arbitrary: s)
  case (Cons x xs)
  then show ?case by (cases "process_char n dc x s") simp_all
qed simp

lemma lines_lf_line: "LF \<notin> set l \<Longrightarrow> lines_lf (l @ LF # r) = (l @ [LF]) # lines_lf r"
  by (induction l) auto

lemma chars_rows_line:
  "LF \<notin> set l \<Longrightarrow> chars_rows n dc s (l @ LF # r) =
     (case process_line n dc (l @ [LF]) s of
        Inl _ \<Rightarrow> Raise AdapterFormatError
      | Inr s' \<Rightarrow>
          if cr_mode s' = csv_mode.StartRecord then Yield (cr_fields s') (chars_rows n dc csv_start r)
          else chars_rows n dc s' r)"
proof (induction l arbitrary: s)
  case (Cons c l)
  then show ?case by (cases "process_char n dc (Some c) s") (auto simp: process_line_def)
qed (auto simp: process_line_def split: sum.split)

lemma reader_is_chars:
  "content = [] \<or> last content = LF \<Longrightarrow>
     reader_rows n dc s (gen_of (lines_lf content) None) = chars_rows n dc s content"
proof (induction content arbitrary: s rule: length_induct)
  case (1 content)
  show ?case
  proof (cases "content = []")
    case False
    then have "LF \<in> set content" using 1(2) by (metis last_in_set)
    then obtain l r where eq: "content = l @ LF # r" and l: "LF \<notin> set l" by (meson split_list_first)
    have "r = [] \<or> last r = LF" using 1(2) eq by (auto split: if_splits)
    then have "reader_rows n dc t (gen_of (lines_lf r) None) = chars_rows n dc t r" for t
      using 1(1) eq by (cases "r = []") simp_all
    then show ?thesis by (simp add: eq lines_lf_line [OF l] chars_rows_line [OF l] split: sum.split)
  qed simp
qed

section \<open>Fields\<close>

abbreviation reading :: "csv_mode \<Rightarrow> string \<Rightarrow> string list \<Rightarrow> csv_reader_state" where
  "reading m f row \<equiv> \<lparr>cr_mode = m, cr_field = f, cr_fields = row\<rparr>"

text \<open>The dialect the adapter reads: quotes doubled, no escape character, lines end in a line feed.\<close>

definition adapter_dialect :: "dialect \<Rightarrow> bool" where
  "adapter_dialect d \<longleftrightarrow> dl_quote d = CHR 0x22 \<and> dl_esc d = None \<and> dl_term d = [LF]
     \<and> dl_delim d \<notin> set [CHR 0x22, LF, CR]"

text \<open>
  A carriage return is not special to the writer, but it ends a record for the reader: only a
  field that is quoted for another reason may contain one.
\<close>

definition field_readable :: "nat \<Rightarrow> dialect \<Rightarrow> string \<Rightarrow> bool" where
  "field_readable n d s \<longleftrightarrow> length s \<le> n \<and> (CR \<in> set s \<longrightarrow> csv_quoted d s)"

named_theorems reader_simps

lemmas reader_defs [reader_simps] =
  process_char_def start_field_def ends_record_def after_record_def save_field_def add_char_def

lemma LF_CR [reader_simps]: "LF \<noteq> CR" "CR \<noteq> LF" "CHR 0x22 \<noteq> LF" "CHR 0x22 \<noteq> CR" "LF \<noteq> CHR 0x22" "CR \<noteq> CHR 0x22"
  by (simp_all add: LF_def CR_def)

lemma adapter_dialectD:
  assumes "adapter_dialect d"
  shows "dl_quote d = CHR 0x22" "dl_esc d = None" "dl_term d = [LF]"
    "dl_delim d \<noteq> CHR 0x22" "dl_delim d \<noteq> LF" "dl_delim d \<noteq> CR" "LF \<noteq> dl_delim d" "CR \<noteq> dl_delim d"
    "CHR 0x22 \<noteq> dl_delim d"
  using assms by (auto simp: adapter_dialect_def)

lemma quoted_char_read:
  assumes "adapter_dialect d" "length f < n"
  shows "chars_rows n (dl_delim d) (reading csv_mode.InQuoted f row) (csv_char d c @ r)
           = chars_rows n (dl_delim d) (reading csv_mode.InQuoted (f @ [c]) row) r"
  using assms(2) by (auto simp: csv_char_def reader_simps adapter_dialectD [OF assms(1)])

lemma quoted_body_read:
  assumes "adapter_dialect d"
  shows "length f + length s \<le> n \<Longrightarrow>
    chars_rows n (dl_delim d) (reading csv_mode.InQuoted f row) (concat (map (csv_char d) s) @ r)
      = chars_rows n (dl_delim d) (reading csv_mode.InQuoted (f @ s) row) r"
  by (induction s arbitrary: f) (simp_all add: quoted_char_read [OF assms])

text \<open>A field without special characters.\<close>

lemma plain_body:
  assumes "adapter_dialect d" "\<not> csv_quoted d s"
  shows "concat (map (csv_char d) s) = s" "dl_delim d \<notin> set s" "LF \<notin> set s" "CHR 0x22 \<notin> set s"
proof -
  note dD = adapter_dialectD [OF assms(1)]
  show free: "dl_delim d \<notin> set s" "LF \<notin> set s" "CHR 0x22 \<notin> set s"
    using assms(2) by (auto simp: csv_quoted_def csv_special_def dD)
  have "map (csv_char d) s = map (\<lambda>c. [c]) s"
    using free(3) by (intro map_cong) (auto simp: csv_char_def dD)
  then show "concat (map (csv_char d) s) = s" by (simp only: concat_map_singleton list.map_ident)
qed

lemma plain_chars_read:
  assumes "adapter_dialect d" "dl_delim d \<notin> set s" "LF \<notin> set s" "CR \<notin> set s" "length f + length s \<le> n"
  shows "chars_rows n (dl_delim d) (reading csv_mode.InField f row) (s @ r)
      = chars_rows n (dl_delim d) (reading csv_mode.InField (f @ s) row) r"
  using assms(2-) by (induction s arbitrary: f) (auto simp: reader_simps)

lemma quoted_body_nonempty: "csv_quoted d s \<Longrightarrow> csv_field d s = dl_quote d # concat (map (csv_char d) s) @ [dl_quote d]"
  by (simp add: csv_field_def)

text \<open>A field from its start: the reader has it, and has left the quotes.\<close>

definition field_read :: "csv_mode \<Rightarrow> dialect \<Rightarrow> string \<Rightarrow> csv_mode \<Rightarrow> bool" where
  "field_read m d s m' \<longleftrightarrow>
     m' = csv_mode.InField \<or> m' = csv_mode.QuoteInQuoted \<or> m' = m \<and> csv_field d s = []"

lemma field_from_start:
  assumes d: "adapter_dialect d" and ok: "field_readable n d s"
    and m: "m = csv_mode.StartRecord \<or> m = csv_mode.StartField"
  obtains m' where "field_read m d s m'"
    "\<And>r. chars_rows n (dl_delim d) (reading m [] row) (csv_field d s @ r)
       = chars_rows n (dl_delim d) (reading m' s row) r"
proof (cases "csv_quoted d s")
  case True
  have "length s \<le> n" using ok by (simp add: field_readable_def)
  then have "chars_rows n (dl_delim d) (reading m [] row) (csv_field d s @ r)
       = chars_rows n (dl_delim d) (reading csv_mode.QuoteInQuoted s row) r" for r
    using m unfolding quoted_body_nonempty [OF True]
    by (elim disjE) (simp_all add: reader_simps adapter_dialectD [OF d]
        quoted_body_read [OF d, unfolded adapter_dialectD(1) [OF d]])
  then show ?thesis using that [of csv_mode.QuoteInQuoted] by (simp add: field_read_def)
next
  case False
  note p = plain_body [OF d False]
  have body: "csv_field d s = s" using False p(1) by (simp add: csv_field_def)
  show ?thesis
  proof (cases s)
    case Nil
    then show ?thesis using that [of m] body by (simp add: field_read_def)
  next
    case (Cons c cs)
    have c: "c \<noteq> dl_delim d" "c \<noteq> LF" "c \<noteq> CHR 0x22" "c \<noteq> CR" "CR \<notin> set cs" "Suc (length cs) \<le> n"
      "dl_delim d \<notin> set cs" "LF \<notin> set cs"
      using p ok False Cons by (auto simp: field_readable_def)
    have "chars_rows n (dl_delim d) (reading m [] row) (csv_field d s @ r)
        = chars_rows n (dl_delim d) (reading csv_mode.InField s row) r" for r
      unfolding body using plain_chars_read [OF d c(7,8,5), of "[c]" n row r] m c(1-4,6)
      by (elim disjE) (simp_all add: Cons reader_simps)
    then show ?thesis using that [of csv_mode.InField] by (simp add: field_read_def)
  qed
qed

lemma field_to_delim:
  assumes "adapter_dialect d" "field_readable n d s" "m = csv_mode.StartRecord \<or> m = csv_mode.StartField"
  shows "chars_rows n (dl_delim d) (reading m [] row) (csv_field d s @ dl_delim d # r)
      = chars_rows n (dl_delim d) (reading csv_mode.StartField [] (row @ [s])) r"
proof -
  obtain m' where m': "field_read m d s m'"
    "chars_rows n (dl_delim d) (reading m [] row) (csv_field d s @ dl_delim d # r)
       = chars_rows n (dl_delim d) (reading m' s row) (dl_delim d # r)"
    using field_from_start [OF assms] by metis
  show ?thesis
    using assms(3) m'(1) unfolding m'(2) field_read_def
    by (elim disjE) (simp_all add: reader_simps adapter_dialectD [OF assms(1)])
qed

lemma field_to_end:
  assumes "adapter_dialect d" "field_readable n d s"
    and m: "m = csv_mode.StartRecord \<and> csv_field d s \<noteq> [] \<or> m = csv_mode.StartField"
  shows "chars_rows n (dl_delim d) (reading m [] row) (csv_field d s @ LF # r)
      = Yield (row @ [s]) (chars_rows n (dl_delim d) csv_start r)"
proof -
  obtain m' where m': "field_read m d s m'"
    "chars_rows n (dl_delim d) (reading m [] row) (csv_field d s @ LF # r)
       = chars_rows n (dl_delim d) (reading m' s row) (LF # r)"
    using field_from_start [OF assms(1,2)] m by metis
  show ?thesis
    using m m'(1) unfolding m'(2) field_read_def
    by (elim disjE) (simp_all add: reader_simps adapter_dialectD [OF assms(1)])
qed

section \<open>Rows and feeds\<close>

lemma fields_read:
  assumes "adapter_dialect d"
  shows "row \<noteq> [] \<Longrightarrow> list_all (field_readable n d) row \<Longrightarrow>
    m = csv_mode.StartRecord \<and> join [dl_delim d] (map (csv_field d) row) \<noteq> [] \<or> m = csv_mode.StartField \<Longrightarrow>
    chars_rows n (dl_delim d) (reading m [] acc) (join [dl_delim d] (map (csv_field d) row) @ LF # r)
      = Yield (acc @ row) (chars_rows n (dl_delim d) csv_start r)"
proof (induction row arbitrary: m acc)
  case (Cons s row)
  show ?case
  proof (cases row)
    case Nil
    with Cons.prems show ?thesis by (simp add: field_to_end [OF assms])
  next
    case (Cons s' rest)
    have s: "field_readable n d s" "m = csv_mode.StartRecord \<or> m = csv_mode.StartField"
      using Cons.prems by auto
    show ?thesis
      using Cons.IH [of csv_mode.StartField "acc @ [s]"] Cons.prems(2)
      by (simp add: Cons field_to_delim [OF assms s])
  qed
qed simp

lemma row_read:
  assumes d: "adapter_dialect d" and "row \<noteq> []" "list_all (field_readable n d) row"
  shows "chars_rows n (dl_delim d) csv_start (csv_writerow d row @ r)
      = Yield row (chars_rows n (dl_delim d) csv_start r)"
proof (cases "join [dl_delim d] (map (csv_field d) row) = []")
  case True
  have "csv_field d s = [] \<Longrightarrow> s = []" for s
    using plain_body(1) [OF d, of s] by (auto simp: csv_field_def Let_def split: if_splits)
  with True have "row = [[]]"
    using assms(2) by (cases row; cases "tl row") auto
  with True show ?thesis
    by (simp add: csv_writerow_def csv_start_def adapter_dialectD [OF d] reader_simps)
next
  case False
  then show ?thesis
    using fields_read [OF assms, of csv_mode.StartRecord "[]" r]
    by (simp add: csv_writerow_def Let_def csv_start_def adapter_dialectD [OF d])
qed

lemma rows_read:
  assumes "adapter_dialect d"
  shows "list_all (\<lambda>row. row \<noteq> [] \<and> list_all (field_readable n d) row) rows \<Longrightarrow>
    reader_rows n (dl_delim d) csv_start (gen_of (lines_lf (concat (map (csv_writerow d) rows))) None)
      = gen_of rows None"
proof -
  assume ok: "list_all (\<lambda>row. row \<noteq> [] \<and> list_all (field_readable n d) row) rows"
  have "concat (map (csv_writerow d) rows) = [] \<or> last (concat (map (csv_writerow d) rows)) = LF"
    by (induction rows) (auto simp: csv_writerow_def Let_def adapter_dialectD [OF assms])
  then have "reader_rows n (dl_delim d) csv_start (gen_of (lines_lf (concat (map (csv_writerow d) rows))) None)
      = chars_rows n (dl_delim d) csv_start (concat (map (csv_writerow d) rows))"
    by (rule reader_is_chars)
  also have "\<dots> = gen_of rows None"
  proof -
    have "reader_rows n (dl_delim d) csv_start Done = Done" by (simp add: csv_start_def)
    with ok show ?thesis by (induction rows) (simp_all add: row_read [OF assms])
  qed
  finally show ?thesis .
qed

text \<open>The records of \<open>DictReader\<close> when the rows are as long as the header.\<close>

lemma zip_fresh:
  "distinct (map fst out @ names) \<Longrightarrow> length row = length names \<Longrightarrow>
     foldl (\<lambda>d (k, v). dict_set k (PyStr v) d) out (zip names row) = out @ zip names (map PyStr row)"
proof (induction names arbitrary: out row)
  case (Cons k names)
  then obtain v vs where row: "row = v # vs" by (cases row) auto
  have "map_of out k = None" using Cons.prems(1) by (auto simp: map_of_eq_None_iff)
  with Cons row show ?case by (simp add: dict_set_fresh)
qed simp

lemma row_record_zip:
  "distinct names \<Longrightarrow> length row = length names \<Longrightarrow> row_record names row = zip names (map PyStr row)"
  using zip_fresh [of "[]" names row] by (simp add: row_record_def)

lemma dict_rows_zip:
  "distinct names \<Longrightarrow> names \<noteq> [] \<Longrightarrow> list_all (\<lambda>row. length row = length names) rows \<Longrightarrow>
     dict_rows names (gen_of rows None) = gen_of (map (\<lambda>row. zip names (map PyStr row)) rows) None"
  by (induction rows) (auto simp: row_record_zip)

lemma csv_run_lengths:
  assumes "cw_columns w = Some names"
  shows "run (csv_step codec w d) s (gen_of rs None) = (out, t) \<Longrightarrow> gen_end out = None \<Longrightarrow>
    list_all (\<lambda>r. length (row_texts w r) = length names) rs"
proof (induction rs arbitrary: s out)
  case (Cons r rs)
  obtain texts s' where p: "csv_row_step w s r = Inr (texts, s')"
    using Cons.prems by (cases "csv_row_step w s r") (auto simp: csv_step_def)
  from p have "length (row_texts w r) = length names"
    using csv_row_step_facts(1,6) [OF p] assms by (simp add: row_texts_def)
  moreover have "csv_step codec w d s r = (case codec (cw_encoding w) (csv_writerow d texts) of
      Inl e \<Rightarrow> Fail s' e | Inr chunk \<Rightarrow> Go s' (Some chunk))"
    by (simp add: csv_step_def p)
  then have "list_all (\<lambda>r. length (row_texts w r) = length names) rs"
    using Cons.prems Cons.IH [of s']
    by (cases "run (csv_step codec w d) s' (gen_of rs None)") (auto split: sum.splits)
  ultimately show ?case by simp
qed simp

text \<open>
  What an adapter needs to read a table with a header: the dialect and the delimiter of the text,
  a limit on the input and one on the fields that the table keeps, column names that are distinct
  and not blank, and no carriage return outside a quoted field.
\<close>

definition adapter_fits :: "csv_adapter \<Rightarrow> dialect \<Rightarrow> string list \<Rightarrow> string list list \<Rightarrow> bool" where
  "adapter_fits a d names rows \<longleftrightarrow> adapter_dialect d \<and> ca_delimiter a = dl_delim d \<and> ca_has_header a
     \<and> length (concat (map (csv_writerow d) (names # rows))) \<le> ca_max_input_bytes a
     \<and> names \<noteq> [] \<and> distinct names \<and> \<not> blank_column names
     \<and> list_all (list_all (field_readable (ca_field_size_limit a) d)) (names # rows)"

lemma table_read:
  assumes fits: "adapter_fits a d names rows"
    and lens: "list_all (\<lambda>row. length row = length names) rows"
  shows "csv_parse decode a (RawStr (concat (map (csv_writerow d) (names # rows))))
    = gen_of (map (\<lambda>row. zip names (map PyStr row)) rows) None"
proof -
  let ?n = "ca_field_size_limit a" and ?text = "concat (map (csv_writerow d) (names # rows))"
  note f = fits [unfolded adapter_fits_def]
  have ne: "length row = length names \<Longrightarrow> row \<noteq> []" for row :: "string list" using f by auto
  have "list_all (\<lambda>row. row \<noteq> [] \<and> list_all (field_readable ?n d) row) (names # rows)"
    using f lens ne by (auto simp: list_all_iff)
  then have rows: "reader_rows ?n (dl_delim d) csv_start (gen_of (lines_lf ?text) None) = gen_of (names # rows) None"
    using f by (intro rows_read) auto
  have "csv_parse decode a (RawStr ?text) = rows_with_header a (gen_of (lines_lf ?text) None)"
    using f by (simp add: csv_parse_def raw_length_def csv_text_def)
  also have "\<dots> = dict_rows names (gen_of rows None)"
    using f by (simp only: rows_with_header_def rows) simp
  also have "\<dots> = gen_of (map (\<lambda>row. zip names (map PyStr row)) rows) None"
    by (rule dict_rows_zip [OF _ _ lens]) (use f in simp_all)
  finally show ?thesis .
qed

text \<open>
  C28: A CSV feed can be ingested again: a CSV adapter that fits the feed reads the text of a
  finished feed with a header as one record per row, in order, each pairing the column names with
  the serialised values.  Delimiters, quotes and line feeds inside values survive.  The feed must
  have no carriage return outside a field that is quoted for another reason, distinct column
  names that are not blank, the quote character and the line ends that the adapter expects, and
  stay within the limits of the adapter.
\<close>

theorem csv_feed_ingested:
  fixes codec :: codec and w :: csv_writer and records :: "wrecord list" and a :: csv_adapter
  assumes dialect: "csv_dialect w = Inr d"
    and codec: "\<And>s. codec (cw_encoding w) s = Inr (utf8 s)"
    and ended: "gen_end (csv_write codec w (gen_of records None)) = None"
    and header: "cw_include_header w" "cw_columns w = Some names"
    and fits: "adapter_fits a d names (map (row_texts w) records)"
  shows "csv_parse decode a (RawStr (utf8_decode (concat (gen_items (csv_write codec w (gen_of records None))))))
    = gen_of (map (\<lambda>r. zip names (map PyStr (row_texts w r))) records) None"
proof -
  let ?rows = "map (row_texts w) records"
  obtain d' out t where d': "csv_dialect w = Inr d'"
    and run: "run (csv_step codec w d') csv_init (gen_of records None) = (out, t)" "gen_end out = None"
    and bytes: "concat (gen_items (csv_write codec w (gen_of records None)))
       = utf8 (concat (map (csv_writerow d') (csv_header w))) @ concat (gen_items out)"
    by (rule csv_write_parts [OF codec ended])
  with dialect have [simp]: "d' = d" by simp
  have app: "utf8 (x @ y) = utf8 x @ utf8 y" for x y by (simp add: utf8_def)
  have "concat (gen_items (csv_write codec w (gen_of records None)))
      = utf8 (concat (map (csv_writerow d) (names # ?rows)))"
    using bytes csv_run_facts(1) [OF codec run] header by (simp add: app csv_header_def)
  moreover have "list_all (\<lambda>row. length row = length names) ?rows"
    using csv_run_lengths [OF header(2) run] by (simp add: list_all_iff)
  ultimately show ?thesis
    using table_read [OF fits] by (simp only: utf8_decode_utf8) (simp add: o_def)
qed

text \<open>
  C11: A CSV feed from end to end.  Take any products, a producer over a valid plan with row
  output and the built-in executors, and a writer with two different markers whose column list
  (if it has one) is as long as the plan's.  The payload never fails; its bytes are exactly the
  encoding of the header line, if asked for, and then of one line per accepted product with the
  serialised emissions of its columns; the drained report holds the diagnostics of every product
  looked at; and every CSV adapter of this repository that fits the header and the rows (dialect,
  limits, no carriage return outside a quoted field) reads the payload as one record per accepted
  product.
\<close>

theorem csv_feed_end_to_end:
  assumes "artifact_producer_new cat prep policies = Inr p"
    and "ps_validator prep = None" "ps_mapper prep = None" "strictness_installed policies"
    and "mp_output_kind (cs_mapping_plan (ps_compiled prep)) = CsvRow"
    and "ps_writer (pd_prepared p) = Some (CsvWriter w)" "csv_dialect w = Inr d"
    and "\<And>s. codec (cw_encoding w) s = Inr (utf8 s)"
    and "cw_missing_marker w \<noteq> cw_null_marker w" "cw_include_header w \<Longrightarrow> cw_columns w \<noteq> None"
    and "\<And>cs. cw_columns w = Some cs \<Longrightarrow> length cs = length (csv_order (cs_mapping_plan (ps_compiled prep)))"
    and "produce_artifacts codec now p (gen_of items None) moment = Inr r" "pr_artifacts r = [a]"
  defines "v \<equiv> verdicts cat policies (ps_compiled prep)" and "m \<equiv> mapped cat (ps_compiled prep)"
  shows "gen_end (pa_payload a) = None
     \<and> concat (gen_items (pa_payload a)) = utf8 (concat (map (csv_writerow d)
         (csv_header w @ map (\<lambda>i. row_texts w (item_record m i)) (accepted_items v items))))
     \<and> vr_diagnostics (ps_report (pa_after a)) = concat (map (item_diags v m) (seen_items v items))
     \<and> (\<forall>ad names. cw_columns w = Some names \<and> cw_include_header w
          \<and> adapter_fits ad d names (map (\<lambda>i. row_texts w (item_record m i)) (accepted_items v items)) \<longrightarrow>
          csv_parse decode ad (RawStr (utf8_decode (concat (gen_items (pa_payload a)))))
            = gen_of (map (\<lambda>i. zip names (map PyStr (row_texts w (item_record m i)))) (accepted_items v items)) None)"
proof -
  let ?rows = "map (\<lambda>i. row_texts w (item_record m i)) (accepted_items v items)"
  note feed = csv_feed_bytes [OF assms(1-13), folded v_def m_def]
  have "csv_parse decode ad (RawStr (utf8_decode (concat (gen_items (pa_payload a)))))
      = gen_of (map (\<lambda>i. zip names (map PyStr (row_texts w (item_record m i)))) (accepted_items v items)) None"
    if h: "cw_columns w = Some names" "cw_include_header w" "adapter_fits ad d names ?rows" for ad names
  proof -
    have "list_all (\<lambda>row. length row = length names) ?rows" using feed h(1) by (simp add: list_all_iff)
    from table_read [OF h(3) this, of decode] show ?thesis
      using feed h(1,2) by (simp add: csv_header_def utf8_decode_utf8 o_def del: concat.simps)
  qed
  with feed show ?thesis by blast
qed

section \<open>Witness\<close>

definition sample_adapter :: csv_adapter where
  "sample_adapter = \<lparr>ca_max_input_bytes = 1000, ca_field_size_limit = 100, ca_delimiter = CHR '','',
     ca_has_header = True\<rparr>"

lemma sample_feed_text:
  "concat (gen_items (csv_write sample_codec sample_csv (gen_of sample_rows None)))
     = utf8 (concat (map (csv_writerow sample_dialect) (csv_header sample_csv @ map (row_texts sample_csv) sample_rows)))"
proof -
  obtain d out t where d: "csv_dialect sample_csv = Inr d"
    and run: "run (csv_step sample_codec sample_csv d) csv_init (gen_of sample_rows None) = (out, t)"
      "gen_end out = None"
    and bytes: "concat (gen_items (csv_write sample_codec sample_csv (gen_of sample_rows None)))
       = utf8 (concat (map (csv_writerow d) (csv_header sample_csv))) @ concat (gen_items out)"
    by (rule csv_write_parts [OF sample_codec_utf8 sample_csv_ends])
  have "d = sample_dialect" using d sample_csv_dialect by simp
  with bytes csv_run_facts(1) [OF sample_codec_utf8 run] show ?thesis by (simp add: utf8_def)
qed

theorem csv_feed_ingested_witness:
  "csv_parse (\<lambda>b. None) sample_adapter
     (RawStr (utf8_decode (concat (gen_items (csv_write sample_codec sample_csv (gen_of sample_rows None))))))
   = gen_of [[(''id'', PyStr ''1''), (''title'', PyStr [CHR ''a'', CHR '','', CHR 0x22])],
             [(''id'', PyStr ''-''), (''title'', PyStr [])]] None"
proof -
  have fits: "adapter_fits sample_adapter sample_dialect [''id'', ''title''] (map (row_texts sample_csv) sample_rows)"
    by (simp add: adapter_fits_def adapter_dialect_def sample_dialect_def sample_adapter_def LF_def CR_def
        csv_writerow_def csv_field_def csv_char_def csv_quoted_def csv_special_def Let_def
        sample_csv_eq row_texts_def sample_rows_def blank_column_def strip_def lstrip_def is_space_def
        field_readable_def)
  have "cw_include_header sample_csv" "cw_columns sample_csv = Some [''id'', ''title'']"
    by (simp_all add: sample_csv_eq)
  from csv_feed_ingested [OF sample_csv_dialect sample_codec_utf8 sample_csv_ends this fits] show ?thesis
    by (simp add: sample_csv_eq row_texts_def sample_rows_def)
qed

text \<open>A feed of one product, with its header, and the adapter's record of it.\<close>

theorem csv_feed_end_to_end_witness:
  "\<exists>a. pr_artifacts (sample_result CsvRow ''csv'' sample_config [sample_item ''A1'' False]) = [a]
     \<and> concat (gen_items (pa_payload a)) = utf8 (''id'' @ [CHR 0x0A] @ ''A1'' @ [CHR 0x0A])
     \<and> csv_parse (\<lambda>b. None) sample_adapter (RawStr (utf8_decode (concat (gen_items (pa_payload a)))))
         = gen_of [[(''id'', PyStr ''A1'')]] None"
proof -
  let ?r = "sample_result CsvRow ''csv'' sample_config [sample_item ''A1'' False]"
  have w: "sample_csv_writer = \<lparr>cw_content_type = ''text/plain'', cw_file_extension = ''.txt'',
     cw_encoding = ''utf-8'', cw_delimiter = '','', cw_quotechar = [CHR 0x22], cw_escapechar = None,
     cw_line_terminator = [CHR 0x0A], cw_include_header = True, cw_missing_marker = [],
     cw_null_marker = ''NULL'', cw_columns = Some [''id'']\<rparr>"
    by (simp add: sample_csv_writer_def csv_writer_new_def read_marker_def parse_columns_def str_or_def
        sample_config_def writer_meta_def sample_prepared_def sample_schema_def Let_def)
  have d: "csv_dialect sample_csv_writer = Inr sample_dialect"
    by (simp add: w csv_dialect_def sample_dialect_def)
  have row: "map (\<lambda>i. row_texts sample_csv_writer (item_record (mapped empty_catalog
        (sample_schema CsvRow ''csv'' sample_config)) i)) [sample_item ''A1'' False] = [[''A1'']]"
    by (simp add: sample_row row_texts_def w)
  have lines: "map (csv_writerow sample_dialect) [[''id''], [''A1'']] = [''id'' @ [CHR 0x0A], ''A1'' @ [CHR 0x0A]]"
    by (simp add: csv_writerow_def csv_field_def csv_char_def csv_quoted_def csv_special_def sample_dialect_def Let_def)
  then have fits: "adapter_fits sample_adapter sample_dialect [''id''] [[''A1'']]"
    by (simp add: adapter_fits_def adapter_dialect_def sample_dialect_def sample_adapter_def LF_def CR_def
        blank_column_def strip_def lstrip_def is_space_def field_readable_def)
  note feed = csv_feed_end_to_end [where items = "[sample_item ''A1'' False]" and decode = "\<lambda>b. None",
      OF sample_producer_new sample_prepared_parts(1,2,6) _ sample_csv_writer_installed
        d sample_codec_utf8 _ _ _ sample_produced(1) sample_produced(2)]
  have parts: "cw_columns sample_csv_writer = Some [''id'']" "cw_include_header sample_csv_writer"
    "csv_header sample_csv_writer = [[''id'']]"
    "cw_missing_marker sample_csv_writer \<noteq> cw_null_marker sample_csv_writer"
    by (simp_all add: w csv_header_def)
  have "concat (gen_items (pa_payload (hd (pr_artifacts ?r)))) = utf8 (''id'' @ [CHR 0x0A] @ ''A1'' @ [CHR 0x0A])"
    "csv_parse (\<lambda>b. None) sample_adapter (RawStr (utf8_decode (concat (gen_items (pa_payload (hd (pr_artifacts ?r)))))))
         = gen_of [[(''id'', PyStr ''A1'')]] None"
    using feed fits row lines by (auto simp: sample_prepared_parts sample_accepted parts)
  then show ?thesis using sample_produced(2) by blast
qed

section \<open>Carriage returns\<close>

text \<open>
  The hypothesis on carriage returns is needed: the feed of a value with a lone carriage return
  cannot be read by the adapter.
\<close>

lemma carriage_return_lost:
  "reader_rows 100 (CHR '','') csv_start
     (gen_of (lines_lf (csv_writerow sample_dialect [[CHR ''a'', CR, CHR ''b'']])) None)
   = Raise AdapterFormatError"
  by (simp add: csv_writerow_def csv_field_def csv_char_def csv_quoted_def csv_special_def
      sample_dialect_def Let_def process_line_def csv_start_def reader_simps LF_def CR_def)

end
