(* ===== verification/PFP_Schema.thy ===== *)
theory PFP_Schema
  imports PFP_Producer PFP_Effects
begin

text \<open>
  Schema documents before they are compiled (\<open>pfp_core/schema\<close>): their references
  (\<open>schema_refs.py\<close>, \<open>schema_utils.py\<close>), the format contract (\<open>schema_contract.py\<close>), parsing
  (\<open>schema_parser.py\<close>), the in-memory registry (\<open>schema_registry.py\<close>), the integrity manifest
  (\<open>schema_manifest/*.py\<close>) and the loader of the built-in schemas (\<open>schema_loader.py\<close>).  The
  files are a list of relative paths with their contents; SHA-256, reading text, JSON and YAML
  are parameters.  A document is a mapping with string keys.
\<close>

section \<open>Errors\<close>

record schema_error_item =
  sei_code :: string
  sei_path :: string
  sei_message :: string

definition schema_item :: "string \<Rightarrow> string \<Rightarrow> string \<Rightarrow> schema_error_item" where
  "schema_item c p m = \<lparr>sei_code = c, sei_path = p, sei_message = m\<rparr>"

definition schema_error_key :: "schema_error_item \<Rightarrow> string \<times> string \<times> string" where
  "schema_error_key i = (sei_code i, sei_path i, sei_message i)"

definition sort_schema_error_items :: "schema_error_item list \<Rightarrow> schema_error_item list" where
  "sort_schema_error_items items = sort_key schema_error_key items"

text \<open>The exceptions of this package; \<open>OtherExc\<close> is what a library raises through it.\<close>

datatype schema_exc =
    SchemaFormatError "schema_error_item list" "schema_ref option" "string option"
  | SchemaNotFoundError schema_ref
  | SchemaManifestError string
  | BuiltinSchemaResolutionError string
  | OtherExc terr

definition schema_format_error ::
    "schema_error_item list \<Rightarrow> schema_ref option \<Rightarrow> string option \<Rightarrow> schema_exc" where
  "schema_format_error items ref source = SchemaFormatError (sort_schema_error_items items) ref source"

text \<open>\<open>_build_message\<close>: the text of the exception.\<close>

definition format_message :: "schema_error_item list \<Rightarrow> string" where
  "format_message items =
     (if items = [] then ''Schema format error''
      else ''Schema format error: '' @ join ''; ''
        (map (\<lambda>i. sei_code i @ '' at '' @ sei_path i @ '': '' @ sei_message i) items))"

section \<open>References\<close>

definition all_digits :: "string \<Rightarrow> bool" where
  "all_digits s \<longleftrightarrow> s \<noteq> [] \<and> list_all is_digit s"

text \<open>\<open>(0|[1-9]\d*)\<close>\<close>

definition semver_number :: "string \<Rightarrow> bool" where
  "semver_number s \<longleftrightarrow> all_digits s \<and> (s = ''0'' \<or> hd s \<noteq> CHR ''0'')"

definition is_semver :: "string \<Rightarrow> bool" where
  "is_semver v \<longleftrightarrow> length (split_on (CHR ''.'') v) = 3 \<and> list_all semver_number (split_on (CHR ''.'') v)"

definition semver_sort_key :: "string \<Rightarrow> int \<times> int \<times> int \<times> int \<times> string" where
  "semver_sort_key v =
     (if is_semver v then
        (case map parse_int (split_on (CHR ''.'') v) of
           [Some a, Some b, Some c] \<Rightarrow> (0, a, b, c, v)
         | _ \<Rightarrow> (1, 0, 0, 0, v))
      else (1, 0, 0, 0, v))"

definition protocol_char :: "char \<Rightarrow> bool" where
  "protocol_char c \<longleftrightarrow> (let n = (of_char c :: nat) in
     97 \<le> n \<and> n \<le> 122 \<or> is_digit c \<or> c = CHR ''.'' \<or> c = CHR ''_'')"

definition is_protocol_id :: "string \<Rightarrow> bool" where
  "is_protocol_id p \<longleftrightarrow> p \<noteq> [] \<and> list_all protocol_char p"

text \<open>\<open>PurePath(p).name\<close> and \<open>s.rsplit(c, 1)\<close> when \<open>c\<close> occurs.\<close>

definition pure_path_name :: "string \<Rightarrow> string" where
  "pure_path_name p =
     (case filter (\<lambda>s. s \<noteq> [] \<and> s \<noteq> ''.'') (split_on (CHR ''/'') p) of [] \<Rightarrow> [] | s # ss \<Rightarrow> last (s # ss))"

definition rsplit_once :: "char \<Rightarrow> string \<Rightarrow> string \<times> string" where
  "rsplit_once c s =
     (let back = takeWhile (\<lambda>x. x \<noteq> c) (rev s)
      in (take (length s - length back - 1) s, rev back))"

definition missing_item :: "string \<Rightarrow> schema_error_item" where
  "missing_item path = schema_item ''SCHEMA_MISSING_FIELD'' path
     (''Missing required field '' @ quoted path @ ''.'')"

definition type_item :: "string \<Rightarrow> string \<Rightarrow> schema_error_item" where
  "type_item path what = schema_item ''SCHEMA_INVALID_TYPE'' path (path @ '' must be '' @ what @ ''.'')"

text \<open>A text under a key: \<open>_try_get_str\<close>.\<close>

definition try_get_str :: "dict option \<Rightarrow> string \<Rightarrow> string \<Rightarrow> schema_error_item list
    \<Rightarrow> string option \<times> schema_error_item list" where
  "try_get_str obj k path items =
     (case obj of
        None \<Rightarrow> (None, items)
      | Some d \<Rightarrow>
          (case map_of d k of
             None \<Rightarrow> (None, items @ [missing_item path])
           | Some v \<Rightarrow>
               (case as_str v of
                  None \<Rightarrow> (None, items @ [type_item path ''a string''])
                | Some s \<Rightarrow> (Some s, items))))"

definition try_get_mapping :: "dict \<Rightarrow> string \<Rightarrow> string \<Rightarrow> schema_error_item list
    \<Rightarrow> dict option \<times> schema_error_item list" where
  "try_get_mapping d k path items =
     (if dget d k = PyNone then (None, items @ [missing_item path])
      else case as_mapping (dget d k) of
          None \<Rightarrow> (None, items @ [type_item path ''an object''])
        | Some m \<Rightarrow> (Some m, items))"

definition try_extract_ref :: "pyval \<Rightarrow> schema_ref option" where
  "try_extract_ref doc =
     (case as_mapping doc of
        None \<Rightarrow> None
      | Some d \<Rightarrow>
          (case as_mapping (dget d ''header'') of
             None \<Rightarrow> None
           | Some h \<Rightarrow>
               (case (as_str (dget h ''protocol_id''), as_str (dget h ''schema_version'')) of
                  (Some p, Some v) \<Rightarrow> Some \<lparr>sr_protocol_id = p, sr_schema_version = v\<rparr>
                | _ \<Rightarrow> None)))"

definition extract_ref_from_doc :: "dict \<Rightarrow> schema_exc + schema_ref" where
  "extract_ref_from_doc doc =
     (let (header, i1) = try_get_mapping doc ''header'' ''header'' [];
          (p, i2) = try_get_str header ''protocol_id'' ''header.protocol_id'' i1;
          (v, i3) = try_get_str header ''schema_version'' ''header.schema_version'' i2
      in if i3 \<noteq> [] then Inl (schema_format_error i3 (try_extract_ref (PyDict doc)) None)
         else case (p, v) of
             (Some p, Some v) \<Rightarrow> Inr \<lparr>sr_protocol_id = p, sr_schema_version = v\<rparr>
           | _ \<Rightarrow> Inl (schema_format_error i3 (try_extract_ref (PyDict doc)) None))"

definition allowed_file_extensions :: "string list" where
  "allowed_file_extensions = [''yaml'', ''yml'', ''json'']"

definition filename_item :: "string \<Rightarrow> schema_error_item" where
  "filename_item m = schema_item ''SCHEMA_FILENAME_INVALID'' ''$'' m"

definition pattern_message :: string where
  "pattern_message = ''Filename must match <protocol_id>-<schema_version>.<ext>.''"

definition item_if :: "bool \<Rightarrow> schema_error_item \<Rightarrow> schema_error_item list" where
  "item_if b i = (if b then [i] else [])"

definition filename_stem :: "string \<Rightarrow> string option" where
  "filename_stem basename =
     (if CHR ''.'' \<notin> set basename then None else Some (fst (rsplit_once (CHR ''.'') basename)))"

definition filename_parts :: "string option \<Rightarrow> (string \<times> string) option" where
  "filename_parts stem =
     (case stem of
        None \<Rightarrow> None
      | Some s \<Rightarrow> if CHR ''-'' \<notin> set s then None else Some (rsplit_once (CHR ''-'') s))"

definition filename_errors :: "string \<Rightarrow> schema_error_item list" where
  "filename_errors basename =
     (let stem = filename_stem basename; parts = filename_parts stem in
      item_if (basename = [] \<or> CHR '' '' \<in> set basename)
        (filename_item ''Filename must be non-empty and must not contain spaces.'') @
      item_if (stem = None) (filename_item ''Filename must include an extension.'') @
      item_if (stem \<noteq> None \<and> lower (snd (rsplit_once (CHR ''.'') basename)) \<notin> set allowed_file_extensions)
        (filename_item ''Filename extension must be one of: json, yaml, yml.'') @
      item_if (stem \<noteq> None \<and> parts = None) (filename_item pattern_message) @
      (case parts of
         None \<Rightarrow> []
       | Some (p, v) \<Rightarrow>
           item_if (\<not> is_protocol_id p) (schema_item ''SCHEMA_PROTOCOL_ID_INVALID'' ''filename.protocol_id''
             (''protocol_id in filename must match [a-z0-9._]+ and must not contain '' @ quoted ''-'' @ ''.'')) @
           item_if (\<not> is_semver v) (schema_item ''SCHEMA_VERSION_INVALID'' ''filename.schema_version''
             ''schema_version in filename must be SemVer MAJOR.MINOR.PATCH.'')))"

definition extract_ref_from_filename :: "string \<Rightarrow> schema_exc + schema_ref" where
  "extract_ref_from_filename filename =
     (let basename = pure_path_name filename; errors = filename_errors basename in
      if errors \<noteq> [] then Inl (schema_format_error errors None (Some filename))
      else case filename_parts (filename_stem basename) of
          None \<Rightarrow> Inl (schema_format_error [filename_item pattern_message] None (Some filename))
        | Some (p, v) \<Rightarrow> Inr \<lparr>sr_protocol_id = p, sr_schema_version = v\<rparr>)"

section \<open>The format contract\<close>

text \<open>
  The helpers return what they found (\<open>PyNone\<close> for nothing, as in the code) and the grown list of
  items.  A key that is present with the value \<open>None\<close> adds no item.
\<close>

type_synonym schema_items = "schema_error_item list"

definition get_required_field ::
    "pyval \<Rightarrow> string \<Rightarrow> string \<Rightarrow> schema_items \<Rightarrow> pyval \<times> schema_items" where
  "get_required_field obj k path items =
     (case as_mapping obj of
        None \<Rightarrow> (PyNone, items)
      | Some d \<Rightarrow>
          (case map_of d k of None \<Rightarrow> (PyNone, items @ [missing_item path]) | Some v \<Rightarrow> (v, items)))"

definition get_required_dict ::
    "pyval \<Rightarrow> string \<Rightarrow> string \<Rightarrow> schema_items \<Rightarrow> pyval \<times> schema_items" where
  "get_required_dict obj k path items =
     (let (v, items1) = get_required_field obj k path items in
      if v = PyNone then (PyNone, items1)
      else if as_mapping v = None then (PyNone, items1 @ [type_item path ''an object''])
      else (v, items1))"

definition get_required_string ::
    "pyval \<Rightarrow> string \<Rightarrow> string \<Rightarrow> schema_items \<Rightarrow> pyval \<times> schema_items" where
  "get_required_string obj k path items =
     (let (v, items1) = get_required_field obj k path items in
      if v = PyNone then (PyNone, items1)
      else if as_str v = None then (PyNone, items1 @ [type_item path ''a string''])
      else (v, items1))"

text \<open>The strings of one section in turn: a key and its path.\<close>

fun required_strings :: "pyval \<Rightarrow> (string \<times> string) list \<Rightarrow> schema_items \<Rightarrow> schema_items" where
  "required_strings obj [] items = items"
| "required_strings obj ((k, path) # rest) items =
     required_strings obj rest (snd (get_required_string obj k path items))"

fun required_dicts :: "pyval \<Rightarrow> string list \<Rightarrow> schema_items \<Rightarrow> schema_items" where
  "required_dicts obj [] items = items"
| "required_dicts obj (k # ks) items = required_dicts obj ks (snd (get_required_dict obj k k items))"

definition check_header :: "pyval \<Rightarrow> schema_items \<Rightarrow> (pyval \<times> pyval) \<times> schema_items" where
  "check_header doc items =
     (let (header, i1) = get_required_dict doc ''header'' ''header'' items;
          (p, i2) = get_required_string header ''protocol_id'' ''header.protocol_id'' i1;
          (v, i3) = get_required_string header ''schema_version'' ''header.schema_version'' i2;
          i4 = required_strings header [(''artifact_profile'', ''header.artifact_profile''),
                 (''title'', ''header.title'')] i3;
          (src, i5) = get_required_dict header ''source_protocol'' ''header.source_protocol'' i4;
          i6 = required_strings src [(''provider'', ''header.source_protocol.provider''),
                 (''url'', ''header.source_protocol.url''), (''revision'', ''header.source_protocol.revision''),
                 (''retrieved_at'', ''header.source_protocol.retrieved_at'')] i5
      in ((p, v), i6))"

definition check_sections :: "pyval \<Rightarrow> schema_items \<Rightarrow> schema_items" where
  "check_sections doc items =
     (let (inp, i1) = get_required_dict doc ''input'' ''input'' items;
          i2 = required_strings inp [(''um_contract'', ''input.um_contract'')] i1;
          (out, i3) = get_required_dict doc ''output'' ''output'' i2;
          i4 = required_strings out [(''writer_id'', ''output.writer_id'')] i3;
          (artifact, i5) = get_required_dict out ''artifact'' ''output.artifact'' i4;
          i6 = required_strings artifact [(''file_ext'', ''output.artifact.file_ext''),
                 (''content_type'', ''output.artifact.content_type'')] i5;
          (mapping, i7) = get_required_dict doc ''mapping'' ''mapping'' i6;
          i8 = required_strings mapping [(''output_kind'', ''mapping.output_kind'')] i7;
          (validation, i9) = get_required_dict doc ''validation'' ''validation'' i8;
          (rules, i10) = get_required_field validation ''rules'' ''validation.rules'' i9
      in i10 @ item_if (case rules of PyNone \<Rightarrow> False | PyList _ \<Rightarrow> False | _ \<Rightarrow> True)
           (type_item ''validation.rules'' ''a list''))"

definition ref_mismatch_item :: schema_error_item where
  "ref_mismatch_item = schema_item ''SCHEMA_HEADER_FILENAME_MISMATCH'' ''header''
     ''header.protocol_id/header.schema_version must match filename reference.''"

definition format_items :: "pyval \<Rightarrow> schema_ref option \<Rightarrow> schema_items" where
  "format_items doc expected =
     (let i1 = required_dicts doc [''header'', ''input'', ''output'', ''mapping'', ''validation''] [];
          ((p, v), i2) = check_header doc i1;
          i3 = check_sections doc i2
      in i3 @ (case (expected, p, v) of
                 (Some r, PyStr ps, PyStr vs) \<Rightarrow>
                   item_if (ps \<noteq> sr_protocol_id r \<or> vs \<noteq> sr_schema_version r) ref_mismatch_item
               | _ \<Rightarrow> []))"

definition validate_schema_doc_format :: "pyval \<Rightarrow> schema_ref option \<Rightarrow> schema_exc + unit" where
  "validate_schema_doc_format doc expected =
     (if as_mapping doc = None
      then Inl (schema_format_error [schema_item ''SCHEMA_INVALID_TYPE'' ''$''
             ''Schema document root must be a mapping.''] (try_extract_ref doc) None)
      else let items = format_items doc expected in
           if items \<noteq> [] then Inl (schema_format_error items (try_extract_ref doc) None) else Inr ())"

section \<open>Parsing\<close>

text \<open>\<open>json.loads\<close> and \<open>yaml.safe_load\<close> are the two readers.\<close>

type_synonym text_reader = "string \<Rightarrow> terr + pyval"

definition parse_failure :: "string \<Rightarrow> schema_exc" where
  "parse_failure m = schema_format_error [schema_item ''SCHEMA_PARSE_ERROR'' ''$'' m] None None"

definition parse_schema_text ::
    "text_reader \<Rightarrow> text_reader \<Rightarrow> string \<Rightarrow> string \<Rightarrow> schema_exc + dict" where
  "parse_schema_text json_loads yaml_load text fmt =
     (if fmt \<notin> set [''yaml'', ''json'']
      then Inl (parse_failure (''Unsupported schema format: '' @ py_repr (PyStr fmt) @
             ''. Supported formats are: yaml, json.''))
      else case (if fmt = ''json'' then json_loads text else yaml_load text) of
          Inl e \<Rightarrow> Inl (parse_failure (''Failed to parse schema text as '' @ fmt @ '': '' @ class_name e))
        | Inr v \<Rightarrow>
            (case as_mapping v of
               None \<Rightarrow> Inl (schema_format_error [schema_item ''SCHEMA_INVALID_TYPE'' ''$''
                        ''Schema document root must be a mapping.''] None None)
             | Some d \<Rightarrow> Inr d))"

section \<open>The registry\<close>

record schema_registry =
  rg_docs :: "((string \<times> string) \<times> dict) list"
  rg_versions :: "(string \<times> string list) list"

definition schema_registry_new :: schema_registry where
  "schema_registry_new = \<lparr>rg_docs = [], rg_versions = []\<rparr>"

definition build_error_source :: "string option \<Rightarrow> string option \<Rightarrow> string option" where
  "build_error_source source filename =
     (case source of
        Some (s # ss) \<Rightarrow>
          (case filename of
             Some (f # fs) \<Rightarrow> Some (''source='' @ (s # ss) @ ''; filename='' @ (f # fs))
           | _ \<Rightarrow> source)
      | _ \<Rightarrow> filename)"

definition expected_ref :: "string option \<Rightarrow> schema_exc + schema_ref option" where
  "expected_ref filename =
     (case filename of
        Some (c # cs) \<Rightarrow> rbind (extract_ref_from_filename (c # cs)) (\<lambda>r. Inr (Some r))
      | _ \<Rightarrow> Inr None)"

definition registry_validate :: "dict \<Rightarrow> string option \<Rightarrow> schema_exc + unit" where
  "registry_validate doc filename =
     rbind (expected_ref filename) (validate_schema_doc_format (PyDict doc))"

definition add_version :: "string \<Rightarrow> string list \<Rightarrow> string list" where
  "add_version v vs = (if v \<in> set vs then vs else vs @ [v])"

definition known_versions :: "schema_registry \<Rightarrow> string \<Rightarrow> string list" where
  "known_versions reg p = (case map_of (rg_versions reg) p of None \<Rightarrow> [] | Some vs \<Rightarrow> vs)"

definition registry_register ::
    "dict \<Rightarrow> string option \<Rightarrow> string option \<Rightarrow> schema_registry \<Rightarrow> schema_exc + schema_registry" where
  "registry_register doc source filename reg =
     rbind (expected_ref filename) (\<lambda>expected.
     rbind (validate_schema_doc_format (PyDict doc) expected) (\<lambda>_.
     rbind (extract_ref_from_doc doc) (\<lambda>ref.
       let p = sr_protocol_id ref; v = sr_schema_version ref in
       if map_of (rg_docs reg) (p, v) \<noteq> None
       then Inl (schema_format_error [schema_item ''SCHEMA_DUPLICATE'' ''$''
              (''Schema is already registered for protocol_id='' @ quoted p @ '', schema_version='' @
               quoted v @ ''.'')] (Some ref) (build_error_source source filename))
       else Inr \<lparr>rg_docs = dict_set (p, v) doc (rg_docs reg),
                 rg_versions = dict_set p (add_version v (known_versions reg p)) (rg_versions reg)\<rparr>)))"

definition registry_list :: "schema_registry \<Rightarrow> string \<Rightarrow> string list" where
  "registry_list reg p = sort (known_versions reg p)"

definition registry_get :: "schema_registry \<Rightarrow> string \<Rightarrow> string \<Rightarrow> schema_exc + dict" where
  "registry_get reg p v =
     (case map_of (rg_docs reg) (p, v) of
        None \<Rightarrow> Inl (SchemaNotFoundError \<lparr>sr_protocol_id = p, sr_schema_version = v\<rparr>)
      | Some doc \<Rightarrow> Inr doc)"

section \<open>The integrity manifest\<close>

record manifest_entry =
  me_path :: string
  me_protocol_id :: string
  me_schema_version :: string
  me_sha256 :: string

record manifest_document =
  md_version :: int
  md_entries :: "manifest_entry list"

definition SCHEMA_MANIFEST_VERSION :: int where
  "SCHEMA_MANIFEST_VERSION = 1"

definition entry_to_dict :: "manifest_entry \<Rightarrow> dict" where
  "entry_to_dict e = [(''path'', PyStr (me_path e)), (''protocol_id'', PyStr (me_protocol_id e)),
     (''schema_version'', PyStr (me_schema_version e)), (''sha256'', PyStr (me_sha256 e))]"

definition manifest_to_dict :: "manifest_document \<Rightarrow> dict" where
  "manifest_to_dict m = [(''version'', PyInt (md_version m)),
     (''entries'', PyList (map (\<lambda>e. PyDict (entry_to_dict e)) (md_entries m)))]"

fun non_empty_text :: "pyval \<Rightarrow> string option" where
  "non_empty_text (PyStr (c # cs)) = Some (c # cs)"
| "non_empty_text _ = None"

definition entry_field_error :: "nat \<Rightarrow> string \<Rightarrow> schema_exc" where
  "entry_field_error i k =
     SchemaManifestError (''Manifest entry at index '' @ nat_str i @ '' has invalid '' @ quoted k @ ''.'')"

definition entry_text :: "nat \<Rightarrow> dict \<Rightarrow> string \<Rightarrow> schema_exc + string" where
  "entry_text i d k =
     (case non_empty_text (dget d k) of None \<Rightarrow> Inl (entry_field_error i k) | Some s \<Rightarrow> Inr s)"

definition parse_entry :: "nat \<Rightarrow> pyval \<Rightarrow> schema_exc + manifest_entry" where
  "parse_entry i item =
     (case as_mapping item of
        None \<Rightarrow> Inl (SchemaManifestError (''Manifest entry at index '' @ nat_str i @ '' must be an object.''))
      | Some d \<Rightarrow>
          rbind (entry_text i d ''path'') (\<lambda>p.
          rbind (entry_text i d ''protocol_id'') (\<lambda>i'.
          rbind (entry_text i d ''schema_version'') (\<lambda>v.
          rbind (entry_text i d ''sha256'') (\<lambda>h.
            Inr \<lparr>me_path = p, me_protocol_id = i', me_schema_version = v, me_sha256 = h\<rparr>)))))"

fun parse_entries :: "nat \<Rightarrow> pyval list \<Rightarrow> schema_exc + manifest_entry list" where
  "parse_entries i [] = Inr []"
| "parse_entries i (x # xs) =
     rbind (parse_entry i x) (\<lambda>e. rbind (parse_entries (Suc i) xs) (\<lambda>es. Inr (e # es)))"

definition parse_manifest_document :: "dict \<Rightarrow> schema_exc + manifest_document" where
  "parse_manifest_document d =
     (case (case dget d ''version'' of
              PyInt n \<Rightarrow> Some n | PyBool b \<Rightarrow> Some (if b then 1 else 0) | _ \<Rightarrow> None) of
        None \<Rightarrow> Inl (SchemaManifestError (''Manifest field '' @ quoted ''version'' @ '' must be an integer.''))
      | Some n \<Rightarrow>
          (case dget d ''entries'' of
             PyList xs \<Rightarrow> rbind (parse_entries 0 xs) (\<lambda>es. Inr \<lparr>md_version = n, md_entries = es\<rparr>)
           | _ \<Rightarrow> Inl (SchemaManifestError (''Manifest field '' @ quoted ''entries'' @ '' must be a list.''))))"

text \<open>
  The \<open>*.yaml\<close> files below the schemas root: their relative paths and bytes.  \<open>read\<close> is
  \<open>read_text\<close> on the bytes, \<open>sha\<close> the SHA-256 digest in hexadecimal.
\<close>

type_synonym schema_tree = "(string \<times> bytes) list"

definition collect_builtin_schema_files :: "schema_tree \<Rightarrow> schema_tree" where
  "collect_builtin_schema_files tree = sort_key fst tree"

definition read_schema ::
    "(bytes \<Rightarrow> terr + string) \<Rightarrow> text_reader \<Rightarrow> text_reader \<Rightarrow> bytes \<Rightarrow> schema_exc + dict" where
  "read_schema read json_loads yaml_load content =
     (case read content of
        Inl e \<Rightarrow> Inl (OtherExc e)
      | Inr text \<Rightarrow> parse_schema_text json_loads yaml_load text ''yaml'')"

fun build_entries ::
    "(bytes \<Rightarrow> string) \<Rightarrow> (bytes \<Rightarrow> schema_exc + dict) \<Rightarrow> (string \<times> string) list \<Rightarrow> string list
      \<Rightarrow> schema_tree \<Rightarrow> schema_exc + manifest_entry list" where
  "build_entries sha load ids paths [] = Inr []"
| "build_entries sha load ids paths ((p, content) # files) =
     (if p \<in> set paths
      then Inl (SchemaManifestError (''Duplicate built-in schema path in manifest source set: '' @ p))
      else rbind (load content) (\<lambda>doc. rbind (extract_ref_from_doc doc) (\<lambda>r.
        let i = (sr_protocol_id r, sr_schema_version r) in
        if i \<in> set ids
        then Inl (SchemaManifestError (''Duplicate schema identity for built-in schemas: protocol_id='' @
               quoted (fst i) @ '', schema_version='' @ quoted (snd i) @ ''.''))
        else rbind (build_entries sha load (i # ids) (p # paths) files) (\<lambda>es.
          Inr (\<lparr>me_path = p, me_protocol_id = fst i, me_schema_version = snd i, me_sha256 = sha content\<rparr> # es)))))"

definition build_manifest_document ::
    "(bytes \<Rightarrow> string) \<Rightarrow> (bytes \<Rightarrow> schema_exc + dict) \<Rightarrow> schema_tree \<Rightarrow> schema_exc + manifest_document" where
  "build_manifest_document sha load tree =
     rbind (build_entries sha load [] [] (collect_builtin_schema_files tree)) (\<lambda>es.
       Inr \<lparr>md_version = SCHEMA_MANIFEST_VERSION, md_entries = sort_key me_path es\<rparr>)"

section \<open>Verification\<close>

datatype integrity = BUILT_IN_VERIFIED | BUILT_IN_MODIFIED | EXTERNAL_SCHEMA

record integrity_status =
  is_status :: integrity
  is_relative_path :: "string option"
  is_expected_sha256 :: "string option"
  is_actual_sha256 :: "string option"

text \<open>\<open>None\<close> for the relative path is a file outside the schemas root.\<close>

definition classify_schema_integrity ::
    "(bytes \<Rightarrow> string) \<Rightarrow> string option \<Rightarrow> bytes \<Rightarrow> manifest_document \<Rightarrow> integrity_status" where
  "classify_schema_integrity sha rel content m =
     (case rel of
        None \<Rightarrow> \<lparr>is_status = EXTERNAL_SCHEMA, is_relative_path = None, is_expected_sha256 = None,
                 is_actual_sha256 = None\<rparr>
      | Some p \<Rightarrow>
          (let by_path = foldl (\<lambda>d e. dict_set (me_path e) e d) [] (md_entries m); actual = sha content in
           case map_of by_path p of
             None \<Rightarrow> \<lparr>is_status = BUILT_IN_MODIFIED, is_relative_path = Some p,
                      is_expected_sha256 = None, is_actual_sha256 = Some actual\<rparr>
           | Some e \<Rightarrow>
               \<lparr>is_status = (if me_sha256 e \<noteq> actual then BUILT_IN_MODIFIED else BUILT_IN_VERIFIED),
                is_relative_path = Some p, is_expected_sha256 = Some (me_sha256 e),
                is_actual_sha256 = Some actual\<rparr>))"

definition or_missing :: "string option \<Rightarrow> string" where
  "or_missing h = (case h of Some (c # cs) \<Rightarrow> c # cs | _ \<Rightarrow> ''<missing>'')"

definition verify_builtin_schema_or_raise ::
    "(bytes \<Rightarrow> string) \<Rightarrow> string option \<Rightarrow> bytes \<Rightarrow> manifest_document \<Rightarrow> schema_exc + integrity_status" where
  "verify_builtin_schema_or_raise sha rel content m =
     (let r = classify_schema_integrity sha rel content m in
      if is_status r = BUILT_IN_MODIFIED
      then Inl (SchemaManifestError (''Built-in schema manifest mismatch for '' @
             quoted (case is_relative_path r of None \<Rightarrow> ''None'' | Some p \<Rightarrow> p) @ ''. expected_sha256='' @
             or_missing (is_expected_sha256 r) @ '', actual_sha256='' @ or_missing (is_actual_sha256 r)))
      else Inr r)"

section \<open>The built-in schemas\<close>

definition load_manifest_file :: "text_reader \<Rightarrow> (terr + string) \<Rightarrow> schema_exc + manifest_document" where
  "load_manifest_file json_loads text =
     (case rbind text json_loads of
        Inl e \<Rightarrow> Inl (OtherExc e)
      | Inr v \<Rightarrow>
          (case as_mapping v of
             None \<Rightarrow> Inl (OtherExc (err [''ValueError''] ''Manifest root JSON value must be an object.''))
           | Some d \<Rightarrow> parse_manifest_document d))"

fun exc_text :: "schema_exc \<Rightarrow> string" where
  "exc_text (SchemaFormatError items r s) = format_message items"
| "exc_text (SchemaNotFoundError r) = ''''"
| "exc_text (SchemaManifestError m) = m"
| "exc_text (BuiltinSchemaResolutionError m) = m"
| "exc_text (OtherExc e) = te_text e"

text \<open>The root: whether the directory exists, its manifest file and its schema files.\<close>

record schemas_root =
  sx_is_dir :: bool
  sx_manifest_path :: string
  sx_manifest :: "(terr + string) option"
  sx_files :: schema_tree

fun register_files ::
    "(bytes \<Rightarrow> string) \<Rightarrow> (bytes \<Rightarrow> schema_exc + dict) \<Rightarrow> manifest_document \<Rightarrow> schema_tree
      \<Rightarrow> schema_registry \<Rightarrow> schema_exc + schema_registry" where
  "register_files sha load m [] reg = Inr reg"
| "register_files sha load m ((p, content) # files) reg =
     (case verify_builtin_schema_or_raise sha (Some p) content m of
        Inl e \<Rightarrow> Inl (BuiltinSchemaResolutionError
                   (''Built-in schema integrity verification failed: '' @ exc_text e))
      | Inr _ \<Rightarrow>
          rbind (load content) (\<lambda>doc.
          rbind (registry_register doc (Some ''builtin'') (Some (pure_path_name p)) reg)
            (register_files sha load m files)))"

text \<open>\<open>sorted\<close> on paths compares their parts.\<close>

definition load_builtin_schema_registry ::
    "(bytes \<Rightarrow> string) \<Rightarrow> (bytes \<Rightarrow> terr + string) \<Rightarrow> text_reader \<Rightarrow> text_reader \<Rightarrow> schemas_root
      \<Rightarrow> schema_exc + schema_registry" where
  "load_builtin_schema_registry sha read json_loads yaml_load sx =
     (if \<not> sx_is_dir sx
      then Inl (BuiltinSchemaResolutionError
             ''Built-in schemas directory not found: internal library contract broken.'')
      else case sx_manifest sx of
          None \<Rightarrow> Inl (BuiltinSchemaResolutionError
             (''Built-in schema manifest file not found: '' @ sx_manifest_path sx @ ''.''))
        | Some text \<Rightarrow>
            (case load_manifest_file json_loads text of
               Inl e \<Rightarrow> Inl (BuiltinSchemaResolutionError
                  (''Failed to load built-in schema manifest: '' @ sx_manifest_path sx))
             | Inr m \<Rightarrow>
                 register_files sha (read_schema read json_loads yaml_load) m
                   (sort_key (\<lambda>(p, c). split_on (CHR ''/'') p) (sx_files sx)) schema_registry_new))"

end
