(* ===== verification/PFP_Schema_Spec.thy ===== *)
theory PFP_Schema_Spec
  imports PFP_Schema
begin

text \<open>
  What the schema layer promises: a file name and its reference determine each other, a document
  that is registered under a file name has that reference in its header, the registry lists
  exactly what it can return, and only files that the integrity manifest knows are loaded.
\<close>

interpretation schema_errors: keyed_sort schema_error_key sort_schema_error_items
  by unfold_locales (simp add: sort_schema_error_items_def)

section \<open>File names\<close>

lemma rsplit_once_at:
  assumes "c \<notin> set zs"
  shows "rsplit_once c (ys @ c # zs) = (ys, zs)"
proof -
  have "takeWhile (\<lambda>x. x \<noteq> c) (rev zs @ c # rev ys) = rev zs"
    using assms by (subst takeWhile_append2) auto
  then show ?thesis by (simp add: rsplit_once_def)
qed

lemma rsplit_once_parts:
  assumes "c \<in> set s"
  shows "s = fst (rsplit_once c s) @ c # snd (rsplit_once c s)"
proof -
  obtain ys zs where s: "s = ys @ c # zs" "c \<notin> set zs"
    using assms by (meson split_list_last)
  then show ?thesis using rsplit_once_at [of c zs ys] by simp
qed

lemma pure_path_name_plain:
  assumes "CHR ''/'' \<notin> set p" "p \<noteq> []" "p \<noteq> ''.''"
  shows "pure_path_name p = p"
  using assms by (simp add: pure_path_name_def split_on_no_sep)

text \<open>The name of a schema file has an allowed extension and the two parts of a reference.\<close>

definition schema_filename :: "string \<Rightarrow> string \<Rightarrow> string \<Rightarrow> string \<Rightarrow> bool" where
  "schema_filename name p v ext \<longleftrightarrow> name = p @ ''-'' @ v @ ''.'' @ ext
     \<and> is_protocol_id p \<and> is_semver v \<and> lower ext \<in> set allowed_file_extensions"

lemma filename_errors_none:
  "filename_errors name = [] \<longleftrightarrow>
     name \<noteq> [] \<and> CHR '' '' \<notin> set name \<and> CHR ''.'' \<in> set name
     \<and> lower (snd (rsplit_once (CHR ''.'') name)) \<in> set allowed_file_extensions
     \<and> (\<exists>p v. filename_parts (filename_stem name) = Some (p, v) \<and> is_protocol_id p \<and> is_semver v)"
  by (auto simp: filename_errors_def item_if_def filename_stem_def Let_def split: option.splits)

lemma split_on_covers: "x \<in> set s \<Longrightarrow> x = c \<or> (\<exists>t \<in> set (split_on c s). x \<in> set t)"
proof (induction s)
  case (Cons y s)
  obtain t ts where t: "split_on c s = t # ts" by (cases "split_on c s") auto
  with Cons show ?case by auto
qed simp

lemma semver_chars:
  assumes "is_semver v" "x \<in> set v"
  shows "x = CHR ''.'' \<or> is_digit x"
proof -
  have "list_all (list_all is_digit) (split_on (CHR ''.'') v)"
    using assms(1) by (auto simp: is_semver_def list_all_iff semver_number_def all_digits_def)
  with split_on_covers [OF assms(2), of "CHR ''.''"] show ?thesis by (auto simp: list_all_iff)
qed

lemma allowed_extension_chars:
  assumes "lower ext \<in> set allowed_file_extensions"
  shows "CHR ''.'' \<notin> set ext" "CHR '' '' \<notin> set ext"
proof -
  have fixed: "lower_char (CHR ''.'') = CHR ''.''" "lower_char (CHR '' '') = CHR '' ''"
    by (simp_all add: lower_char_def)
  have "lower_char c \<in> set (lower ext)" if "c \<in> set ext" for c using that by (simp add: lower_def)
  with fixed assms show "CHR ''.'' \<notin> set ext" "CHR '' '' \<notin> set ext"
    by (fastforce simp: allowed_file_extensions_def)+
qed

text \<open>
  C36: A schema file name and its reference determine each other: a name is accepted exactly when
  it is a protocol identifier, a hyphen, a strict semantic version, a dot and an allowed
  extension, and the reference read from it is that identifier and that version.
\<close>

theorem filename_reference:
  "extract_ref_from_filename f = Inr \<lparr>sr_protocol_id = p, sr_schema_version = v\<rparr>
     \<longleftrightarrow> (\<exists>ext. schema_filename (pure_path_name f) p v ext)"
proof
  let ?n = "pure_path_name f"
  assume "extract_ref_from_filename f = Inr \<lparr>sr_protocol_id = p, sr_schema_version = v\<rparr>"
  then have e: "filename_errors ?n = []" and parts: "filename_parts (filename_stem ?n) = Some (p, v)"
    by (auto simp: extract_ref_from_filename_def Let_def split: if_splits option.splits)
  let ?ext = "snd (rsplit_once (CHR ''.'') ?n)"
  obtain stem where stem: "filename_stem ?n = Some stem" "CHR ''.'' \<in> set ?n"
    "stem = fst (rsplit_once (CHR ''.'') ?n)"
    using parts by (auto simp: filename_parts_def filename_stem_def split: if_splits)
  then have "?n = stem @ ''.'' @ ?ext" using rsplit_once_parts by fastforce
  moreover have "stem = p @ ''-'' @ v"
    using parts stem(1) rsplit_once_parts [of "CHR ''-''" stem]
    by (auto simp: filename_parts_def split: if_splits)
  ultimately have "schema_filename ?n p v ?ext"
    using e parts unfolding filename_errors_none schema_filename_def by auto
  then show "\<exists>ext. schema_filename ?n p v ext" ..
next
  let ?n = "pure_path_name f"
  assume "\<exists>ext. schema_filename ?n p v ext"
  then obtain ext where n: "?n = (p @ ''-'' @ v) @ CHR ''.'' # ext" and p: "is_protocol_id p"
    and v: "is_semver v" and ext: "lower ext \<in> set allowed_file_extensions"
    by (auto simp: schema_filename_def)
  note no = allowed_extension_chars [OF ext]
  have hyphen: "CHR ''-'' \<notin> set v"
    using semver_chars [OF v, of "CHR ''-''"] by (auto simp: is_digit_def)
  have "CHR '' '' \<notin> set p" "CHR '' '' \<notin> set v"
    using p semver_chars [OF v, of "CHR '' ''"]
    by (auto simp: is_protocol_id_def list_all_iff protocol_char_def is_digit_def)
  then have space: "CHR '' '' \<notin> set ?n" using no n by simp
  have dot: "rsplit_once (CHR ''.'') ?n = (p @ ''-'' @ v, ext)"
    unfolding n by (rule rsplit_once_at [OF no(1)])
  then have stem: "filename_stem ?n = Some (p @ ''-'' @ v)"
    by (simp add: filename_stem_def n)
  then have parts: "filename_parts (filename_stem ?n) = Some (p, v)"
    using rsplit_once_at [OF hyphen, of p] by (simp add: filename_parts_def)
  have "filename_errors ?n = []"
    unfolding filename_errors_none using parts p v ext space dot n by simp
  with parts show "extract_ref_from_filename f = Inr \<lparr>sr_protocol_id = p, sr_schema_version = v\<rparr>"
    by (simp add: extract_ref_from_filename_def)
qed

section \<open>Documents and the registry\<close>

lemma required_string_value:
  "as_mapping obj = Some d \<Longrightarrow> map_of d k = Some (PyStr s) \<Longrightarrow>
     get_required_string obj k path items = (PyStr s, items)"
  by (simp add: get_required_string_def get_required_field_def)

lemma required_dict_value:
  "as_mapping obj = Some d \<Longrightarrow> map_of d k = Some (PyDict m) \<Longrightarrow>
     get_required_dict obj k path items = (PyDict m, items)"
  by (simp add: get_required_dict_def get_required_field_def)

lemma try_get_str_Inr:
  "try_get_str obj k path items = (out, []) \<longleftrightarrow>
     items = [] \<and> (case obj of None \<Rightarrow> out = None
       | Some d \<Rightarrow> \<exists>s. map_of d k = Some (PyStr s) \<and> out = Some s)"
  by (auto simp: try_get_str_def split: option.splits)

lemma dget_PyDict: "dget d k = PyDict m \<longleftrightarrow> map_of d k = Some (PyDict m)"
  by (simp add: dget_def split: option.split)

lemma extract_ref_header:
  assumes "extract_ref_from_doc doc = Inr r"
  obtains h where "map_of doc ''header'' = Some (PyDict h)"
    "map_of h ''protocol_id'' = Some (PyStr (sr_protocol_id r))"
    "map_of h ''schema_version'' = Some (PyStr (sr_schema_version r))"
proof -
  obtain header i1 p i2 v i3 where steps: "try_get_mapping doc ''header'' ''header'' [] = (header, i1)"
    "try_get_str header ''protocol_id'' ''header.protocol_id'' i1 = (p, i2)"
    "try_get_str header ''schema_version'' ''header.schema_version'' i2 = (v, i3)"
    by (metis prod.exhaust)
  with assms have i3: "i3 = []" and pv: "(case (p, v) of (Some p, Some v) \<Rightarrow> r = \<lparr>sr_protocol_id = p, sr_schema_version = v\<rparr>
      | _ \<Rightarrow> False)"
    by (auto simp: extract_ref_from_doc_def split: if_splits option.splits)
  note v = steps(3) [unfolded i3 try_get_str_Inr]
  note p = steps(2) [unfolded conjunct1 [OF v] try_get_str_Inr]
  obtain h where h: "header = Some h" using p v pv by (cases header) auto
  then have "map_of doc ''header'' = Some (PyDict h)"
    using steps(1) by (auto simp: try_get_mapping_def dget_PyDict split: if_splits option.splits)
  moreover from h p v pv have "map_of h ''protocol_id'' = Some (PyStr (sr_protocol_id r))"
    "map_of h ''schema_version'' = Some (PyStr (sr_schema_version r))"
    by (auto split: option.splits)
  ultimately show thesis by (rule that)
qed

text \<open>A document accepted for a file name has the reference of the name in its header.\<close>

lemma accepted_reference:
  assumes "validate_schema_doc_format (PyDict doc) (Some e) = Inr u" "extract_ref_from_doc doc = Inr r"
  shows "e = r"
proof -
  obtain h where h: "map_of doc ''header'' = Some (PyDict h)"
    "map_of h ''protocol_id'' = Some (PyStr (sr_protocol_id r))"
    "map_of h ''schema_version'' = Some (PyStr (sr_schema_version r))"
    by (rule extract_ref_header [OF assms(2)])
  have hd: "fst (check_header (PyDict doc) items) = (PyStr (sr_protocol_id r), PyStr (sr_schema_version r))" for items
    using h by (simp add: check_header_def required_dict_value required_string_value Let_def split: prod.split)
  have "format_items (PyDict doc) (Some e) = []"
    using assms(1) by (simp add: validate_schema_doc_format_def Let_def split: if_splits)
  moreover obtain i2 where "check_header (PyDict doc) (required_dicts (PyDict doc)
      [''header'', ''input'', ''output'', ''mapping'', ''validation''] [])
      = ((PyStr (sr_protocol_id r), PyStr (sr_schema_version r)), i2)"
    using hd by (metis prod.collapse)
  ultimately have "item_if (sr_protocol_id r \<noteq> sr_protocol_id e \<or> sr_schema_version r \<noteq> sr_schema_version e)
      ref_mismatch_item = []"
    by (simp add: format_items_def Let_def del: required_dicts.simps)
  then show ?thesis by (cases e; cases r) (simp add: item_if_def split: if_splits)
qed

lemma register_Inr:
  assumes "registry_register doc source (Some name) reg = Inr reg'" "name \<noteq> []"
  obtains r where "extract_ref_from_filename name = Inr r" "extract_ref_from_doc doc = Inr r"
    "map_of (rg_docs reg) (sr_protocol_id r, sr_schema_version r) = None"
    "rg_docs reg' = dict_set (sr_protocol_id r, sr_schema_version r) doc (rg_docs reg)"
proof -
  have "expected_ref (Some name) = rbind (extract_ref_from_filename name) (\<lambda>r. Inr (Some r))"
    using assms(2) by (cases name) (simp_all add: expected_ref_def)
  with assms(1) obtain e r where e: "extract_ref_from_filename name = Inr e"
    "validate_schema_doc_format (PyDict doc) (Some e) = Inr ()"
    and r: "extract_ref_from_doc doc = Inr r"
    "map_of (rg_docs reg) (sr_protocol_id r, sr_schema_version r) = None"
    "rg_docs reg' = dict_set (sr_protocol_id r, sr_schema_version r) doc (rg_docs reg)"
    by (auto simp: registry_register_def rbind_Inr_iff Let_def split: if_splits)
  then show thesis using that accepted_reference [OF e(2) r(1)] by blast
qed

text \<open>The two indexes of the registry.\<close>

definition registry_ok :: "schema_registry \<Rightarrow> bool" where
  "registry_ok reg \<longleftrightarrow> (\<forall>p. distinct (known_versions reg p)
     \<and> (\<forall>v. v \<in> set (known_versions reg p) \<longleftrightarrow> map_of (rg_docs reg) (p, v) \<noteq> None))"

lemma registry_ok_new: "registry_ok schema_registry_new"
  by (simp add: registry_ok_def schema_registry_new_def known_versions_def)

lemma registry_ok_register:
  assumes "registry_register doc source name reg = Inr reg'" "registry_ok reg"
  shows "registry_ok reg'"
proof -
  obtain p v where docs: "map_of (rg_docs reg) (p, v) = None" "rg_docs reg' = dict_set (p, v) doc (rg_docs reg)"
    and "rg_versions reg' = dict_set p (add_version v (known_versions reg p)) (rg_versions reg)"
    using assms(1) by (auto simp: registry_register_def rbind_Inr_iff Let_def split: if_splits)
  then have "known_versions reg' q = (if q = p then add_version v (known_versions reg p) else known_versions reg q)" for q
    by (simp add: known_versions_def map_of_dict_set)
  with docs assms(2) show ?thesis
    by (auto simp: registry_ok_def map_of_dict_set add_version_def)
qed

text \<open>Any series of registrations; a refused one leaves the registry as it is.\<close>

fun register_series :: "(dict \<times> string option \<times> string option) list \<Rightarrow> schema_registry \<Rightarrow> schema_registry" where
  "register_series [] reg = reg"
| "register_series ((doc, source, name) # calls) reg =
     register_series calls (case registry_register doc source name reg of Inl e \<Rightarrow> reg | Inr reg' \<Rightarrow> reg')"

lemma registry_ok_series: "registry_ok reg \<Longrightarrow> registry_ok (register_series calls reg)"
proof (induction calls reg rule: register_series.induct)
  case (2 doc source name calls reg)
  then show ?case
    using registry_ok_register [of doc source name reg] by (cases "registry_register doc source name reg") simp_all
qed simp

text \<open>
  The registry lists exactly what it can return: after any series of registrations, the
  versions listed for a protocol are strictly sorted, and a version is listed if and only if a
  document is returned for it.
\<close>

theorem registry_lists_what_it_holds:
  "sorted_wrt (<) (registry_list (register_series calls schema_registry_new) p)
   \<and> (v \<in> set (registry_list (register_series calls schema_registry_new) p)
      \<longleftrightarrow> \<not> isl (registry_get (register_series calls schema_registry_new) p v))"
proof -
  have ok: "registry_ok (register_series calls schema_registry_new)"
    by (rule registry_ok_series [OF registry_ok_new])
  then show ?thesis
    by (auto simp: registry_ok_def registry_list_def registry_get_def strict_sorted_iff split: option.split)
qed

section \<open>The integrity manifest\<close>

lemma foldl_dict_set_fresh:
  "distinct (map fst d @ map k xs) \<Longrightarrow>
     foldl (\<lambda>d x. dict_set (k x) (v x) d) d xs = d @ map (\<lambda>x. (k x, v x)) xs"
proof (induction xs arbitrary: d)
  case (Cons x xs)
  then have "map_of d (k x) = None" by (auto simp: map_of_eq_None_iff)
  with Cons show ?case by (simp add: dict_set_fresh)
qed simp

lemma build_entries_files:
  "build_entries sha load ids paths files = Inr es \<Longrightarrow>
     map (\<lambda>e. (me_path e, me_sha256 e)) es = map (\<lambda>(p, c). (p, sha c)) files
     \<and> distinct (map fst files) \<and> set (map fst files) \<inter> set paths = {}"
proof (induction sha load ids paths files arbitrary: es rule: build_entries.induct)
  case (2 sha load ids paths p content files)
  from 2(2) obtain doc r es' where p: "p \<notin> set paths" and "load content = Inr doc"
    "extract_ref_from_doc doc = Inr r" "(sr_protocol_id r, sr_schema_version r) \<notin> set ids"
    and es': "build_entries sha load ((sr_protocol_id r, sr_schema_version r) # ids) (p # paths) files = Inr es'"
    and es: "es = \<lparr>me_path = p, me_protocol_id = sr_protocol_id r, me_schema_version = sr_schema_version r,
      me_sha256 = sha content\<rparr> # es'"
    by (auto simp: rbind_Inr_iff Let_def split: if_splits)
  with 2(1) [OF p _ _ refl _ es'] show ?case by auto
qed simp

text \<open>What a generated manifest knows of a path: the digest of the file that had it.\<close>

lemma built_manifest_lookup:
  assumes "build_manifest_document sha load tree = Inr m"
  shows "distinct (map fst tree)"
    and "map_of (foldl (\<lambda>d e. dict_set (me_path e) e d) [] (md_entries m)) p = Some e
      \<Longrightarrow> \<exists>c. (p, c) \<in> set tree \<and> me_sha256 e = sha c"
    and "(p, c) \<in> set tree \<Longrightarrow> \<exists>e. me_sha256 e = sha c
      \<and> map_of (foldl (\<lambda>d e. dict_set (me_path e) e d) [] (md_entries m)) p = Some e"
proof -
  obtain es where es: "build_entries sha load [] [] (sort_key fst tree) = Inr es"
    and m: "md_entries m = sort_key me_path es"
    using assms by (auto simp: build_manifest_document_def collect_builtin_schema_files_def rbind_Inr_iff)
  note b = build_entries_files [OF es]
  show d: "distinct (map fst tree)"
    using b by (metis distinct_map distinct_sort set_sort)
  have paths: "map me_path es = map fst (sort_key fst tree)"
    using arg_cong [OF conjunct1 [OF b], of "map fst"] by (simp add: o_def case_prod_beta)
  have "distinct (map me_path (sort_key me_path es))"
    using b unfolding paths [symmetric] by (metis distinct_map distinct_sort set_sort)
  then have tab: "foldl (\<lambda>d e. dict_set (me_path e) e d) [] (md_entries m)
      = map (\<lambda>e. (me_path e, e)) (sort_key me_path es)"
    "distinct (map fst (map (\<lambda>e. (me_path e, e)) (sort_key me_path es)))"
    using foldl_dict_set_fresh [of "[]" me_path "sort_key me_path es" "\<lambda>e. e"]
    by (simp_all add: m o_def)
  have mem: "(\<exists>e \<in> set es. me_path e = p \<and> me_sha256 e = h) \<longleftrightarrow> (\<exists>c. (p, c) \<in> set tree \<and> h = sha c)" for p h
  proof -
    have "(p, h) \<in> set (map (\<lambda>e. (me_path e, me_sha256 e)) es) \<longleftrightarrow> (p, h) \<in> set (map (\<lambda>(p, c). (p, sha c)) (sort_key fst tree))"
      using b by simp
    then show ?thesis by (auto simp: image_iff)
  qed
  show "\<exists>c. (p, c) \<in> set tree \<and> me_sha256 e = sha c"
    if "map_of (foldl (\<lambda>d e. dict_set (me_path e) e d) [] (md_entries m)) p = Some e"
  proof -
    have "e \<in> set es" "me_path e = p" using that by (auto simp: tab(1) dest!: map_of_SomeD)
    then show ?thesis using mem [of p "me_sha256 e"] by blast
  qed
  show "\<exists>e. me_sha256 e = sha c \<and> map_of (foldl (\<lambda>d e. dict_set (me_path e) e d) [] (md_entries m)) p = Some e"
    if "(p, c) \<in> set tree"
  proof -
    have "\<exists>e \<in> set es. me_path e = p \<and> me_sha256 e = sha c" using mem [of p "sha c"] that by blast
    then obtain e where "e \<in> set es" "me_path e = p" "me_sha256 e = sha c" by blast
    then show ?thesis unfolding tab(1) using map_of_is_SomeI [OF tab(2), of p e] by force
  qed
qed

text \<open>
  C35: The integrity manifest is exact: checked against the manifest generated from a tree of
  schema files, a file below the root is verified if and only if the tree has a file of the same
  path with the same digest; every other file below the root counts as modified.
\<close>

theorem built_manifest_is_exact:
  assumes "build_manifest_document sha load tree = Inr m"
  shows "is_status (classify_schema_integrity sha (Some p) content m)
    = (if \<exists>c. (p, c) \<in> set tree \<and> sha c = sha content then BUILT_IN_VERIFIED else BUILT_IN_MODIFIED)"
proof (cases "map_of (foldl (\<lambda>d e. dict_set (me_path e) e d) [] (md_entries m)) p")
  case None
  then have "(p, c) \<notin> set tree" for c using built_manifest_lookup(3) [OF assms, of p c] by auto
  with None show ?thesis by (simp add: classify_schema_integrity_def)
next
  case (Some e)
  obtain c where c: "(p, c) \<in> set tree" "me_sha256 e = sha c" using built_manifest_lookup(2) [OF assms Some] by blast
  have "c' = c" if "(p, c') \<in> set tree" for c'
    by (rule eq_key_imp_eq_value [OF built_manifest_lookup(1) [OF assms] that c(1)])
  then have "(\<exists>c. (p, c) \<in> set tree \<and> sha c = sha content) \<longleftrightarrow> sha c = sha content" using c(1) by blast
  with Some c(2) show ?thesis by (simp add: classify_schema_integrity_def Let_def)
qed

text \<open>A written manifest is read back: a field that is not empty survives.\<close>

definition entry_filled :: "manifest_entry \<Rightarrow> bool" where
  "entry_filled e \<longleftrightarrow> me_path e \<noteq> [] \<and> me_protocol_id e \<noteq> [] \<and> me_schema_version e \<noteq> [] \<and> me_sha256 e \<noteq> []"

lemma non_empty_text_str: "non_empty_text (PyStr s) = (if s = [] then None else Some s)"
  by (cases s) simp_all

lemma parse_entry_written:
  "parse_entry i (PyDict (entry_to_dict e)) = Inr e \<longleftrightarrow> entry_filled e"
  by (cases e) (auto simp: parse_entry_def entry_text_def entry_to_dict_def dget_def non_empty_text_str
      entry_filled_def)

lemma parse_entries_written:
  "list_all entry_filled es \<Longrightarrow> parse_entries i (map (\<lambda>e. PyDict (entry_to_dict e)) es) = Inr es"
proof (induction es arbitrary: i)
  case (Cons e es)
  then have "parse_entry i (PyDict (entry_to_dict e)) = Inr e" by (simp add: parse_entry_written)
  with Cons show ?case by simp
qed simp

text \<open>
  C0: The manifest written for a tree of schema files is read back by the loader as it was
  built, provided that no field of an entry is empty.
\<close>

theorem manifest_round_trip:
  assumes "list_all entry_filled (md_entries m)"
  shows "load_manifest_file (\<lambda>_. Inr (PyDict (manifest_to_dict m))) (Inr text) = Inr m"
  using parse_entries_written [OF assms]
  by (simp add: load_manifest_file_def parse_manifest_document_def manifest_to_dict_def dget_def)

section \<open>The loaded registry\<close>

lemma verified_status:
  "verify_builtin_schema_or_raise sha (Some p) content m = Inr r \<Longrightarrow>
     is_status (classify_schema_integrity sha (Some p) content m) = BUILT_IN_VERIFIED"
  by (auto simp: verify_builtin_schema_or_raise_def classify_schema_integrity_def Let_def
      split: if_splits option.splits)

definition loads_as ::
    "(bytes \<Rightarrow> string) \<Rightarrow> (bytes \<Rightarrow> schema_exc + dict) \<Rightarrow> manifest_document \<Rightarrow> string \<times> bytes
      \<Rightarrow> string \<Rightarrow> string \<Rightarrow> dict \<Rightarrow> bool" where
  "loads_as sha load m file p v doc \<longleftrightarrow> load (snd file) = Inr doc
     \<and> extract_ref_from_filename (pure_path_name (fst file)) = Inr \<lparr>sr_protocol_id = p, sr_schema_version = v\<rparr>
     \<and> is_status (classify_schema_integrity sha (Some (fst file)) (snd file) m) = BUILT_IN_VERIFIED"

lemma register_files_docs:
  assumes "register_files sha load m files reg = Inr reg'" "\<forall>f \<in> set files. pure_path_name (fst f) \<noteq> []"
  shows "map_of (rg_docs reg') (p, v) = Some doc \<longleftrightarrow>
     map_of (rg_docs reg) (p, v) = Some doc \<or> (\<exists>f \<in> set files. loads_as sha load m f p v doc)"
  using assms
proof (induction sha load m files reg rule: register_files.induct)
  case (2 sha load m path content files reg)
  from 2(2) obtain st d reg1 where st: "verify_builtin_schema_or_raise sha (Some path) content m = Inr st"
    and d: "load content = Inr d"
    and reg1: "registry_register d (Some ''builtin'') (Some (pure_path_name path)) reg = Inr reg1"
    and rest: "register_files sha load m files reg1 = Inr reg'"
    by (auto simp: rbind_Inr_iff split: sum.splits)
  obtain r where r: "extract_ref_from_filename (pure_path_name path) = Inr r"
    and new: "map_of (rg_docs reg) (sr_protocol_id r, sr_schema_version r) = None"
    and docs: "rg_docs reg1 = dict_set (sr_protocol_id r, sr_schema_version r) d (rg_docs reg)"
    using register_Inr [OF reg1] 2(3) by auto
  have "loads_as sha load m (path, content) p v doc \<longleftrightarrow> sr_protocol_id r = p \<and> sr_schema_version r = v \<and> d = doc"
    using verified_status [OF st] d r by (cases r) (auto simp: loads_as_def)
  with 2(1) [OF st d reg1 rest] 2(3) docs new show ?case by (auto simp: map_of_dict_set)
qed simp

text \<open>
  C34: Only verified schemas are loaded, and all of them: when loading the built-in registry
  succeeds, a document is returned for an identifier and a version if and only if a schema file
  with that reference as its name contains it and the integrity manifest verifies the file.
\<close>

theorem loaded_registry_is_verified:
  assumes "load_builtin_schema_registry sha read json_loads yaml_load sx = Inr reg"
    and "sx_manifest sx = Some text" "load_manifest_file json_loads text = Inr m"
    and "\<forall>f \<in> set (sx_files sx). pure_path_name (fst f) \<noteq> []"
  shows "registry_get reg p v = Inr doc \<longleftrightarrow>
    (\<exists>f \<in> set (sx_files sx). loads_as sha (read_schema read json_loads yaml_load) m f p v doc)"
proof -
  have "register_files sha (read_schema read json_loads yaml_load) m
      (sort_key (\<lambda>(p, c). split_on (CHR ''/'') p) (sx_files sx)) schema_registry_new = Inr reg"
    using assms(1-3) by (auto simp: load_builtin_schema_registry_def split: if_splits)
  from register_files_docs [OF this, of p v doc] assms(4)
  have "map_of (rg_docs reg) (p, v) = Some doc \<longleftrightarrow>
      (\<exists>f \<in> set (sx_files sx). loads_as sha (read_schema read json_loads yaml_load) m f p v doc)"
    by (simp add: schema_registry_new_def)
  then show ?thesis unfolding registry_get_def by (cases "map_of (rg_docs reg) (p, v)") auto
qed

section \<open>A schema with null sections\<close>

text \<open>Only a key that is missing is reported; an explicit null passes for any section or field.\<close>

definition null_schema :: dict where
  "null_schema = [(''header'', PyDict [(''protocol_id'', PyStr ''p''), (''schema_version'', PyStr ''1.0.0''),
     (''artifact_profile'', PyNone), (''title'', PyNone), (''source_protocol'', PyNone)]),
     (''input'', PyNone), (''output'', PyNone), (''mapping'', PyNone), (''validation'', PyNone)]"

lemma null_schema_ref: "extract_ref_from_doc null_schema = Inr \<lparr>sr_protocol_id = ''p'', sr_schema_version = ''1.0.0''\<rparr>"
  by code_simp

lemma null_sections_accepted:
  "validate_schema_doc_format (PyDict null_schema) (Some \<lparr>sr_protocol_id = ''p'', sr_schema_version = ''1.0.0''\<rparr>) = Inr ()"
  by code_simp

definition null_tree :: schema_tree where
  "null_tree = [(''ecom/p-1.0.0.yaml'', ''x'')]"

definition null_manifest :: manifest_document where
  "null_manifest = \<lparr>md_version = 1, md_entries = [\<lparr>me_path = ''ecom/p-1.0.0.yaml'', me_protocol_id = ''p'',
     me_schema_version = ''1.0.0'', me_sha256 = ''x''\<rparr>]\<rparr>"

lemma built_null_manifest: "build_manifest_document (\<lambda>c. c) (\<lambda>_. Inr null_schema) null_tree = Inr null_manifest"
  by (simp add: build_manifest_document_def collect_builtin_schema_files_def null_tree_def null_schema_ref
      null_manifest_def SCHEMA_MANIFEST_VERSION_def)

theorem built_manifest_is_exact_witness:
  "is_status (classify_schema_integrity (\<lambda>c. c) (Some ''ecom/p-1.0.0.yaml'') ''y'' null_manifest) = BUILT_IN_MODIFIED"
  using built_manifest_is_exact [OF built_null_manifest, of "''ecom/p-1.0.0.yaml''" "''y''"]
  by (simp add: null_tree_def)

theorem manifest_round_trip_witness:
  "load_manifest_file (\<lambda>_. Inr (PyDict (manifest_to_dict null_manifest))) (Inr ''m'') = Inr null_manifest"
  by (rule manifest_round_trip) (simp add: null_manifest_def entry_filled_def)

definition null_root :: schemas_root where
  "null_root = \<lparr>sx_is_dir = True, sx_manifest_path = ''m'', sx_manifest = Some (Inr ''m''), sx_files = null_tree\<rparr>"

definition null_registry :: schema_registry where
  "null_registry = \<lparr>rg_docs = [((''p'', ''1.0.0''), null_schema)], rg_versions = [(''p'', [''1.0.0''])]\<rparr>"

lemma loaded_null_registry:
  "load_builtin_schema_registry (\<lambda>c. c) Inr (\<lambda>_. Inr (PyDict (manifest_to_dict null_manifest)))
     (\<lambda>_. Inr (PyDict null_schema)) null_root = Inr null_registry"
  by code_simp

theorem loaded_registry_is_verified_witness:
  "registry_get null_registry ''p'' ''1.0.0'' = Inr null_schema"
proof -
  have "load_manifest_file (\<lambda>_. Inr (PyDict (manifest_to_dict null_manifest))) (Inr ''m'') = Inr null_manifest"
    by code_simp
  moreover have "sx_manifest null_root = Some (Inr ''m'')" by (simp add: null_root_def)
  moreover have "\<forall>f \<in> set (sx_files null_root). pure_path_name (fst f) \<noteq> []" by code_simp
  moreover have "\<exists>f \<in> set (sx_files null_root). loads_as (\<lambda>c. c)
      (read_schema Inr (\<lambda>_. Inr (PyDict (manifest_to_dict null_manifest))) (\<lambda>_. Inr (PyDict null_schema)))
      null_manifest f ''p'' ''1.0.0'' null_schema" by code_simp
  ultimately show ?thesis using loaded_registry_is_verified [OF loaded_null_registry] by blast
qed

end
