(* ===== verification/PFP_Logging.thy ===== *)
theory PFP_Logging
  imports PFP_Http PFP_Flood_Control
begin

text \<open>
  The log pipeline (\<open>pfp_utils/logging\<close>): the context, the filters that add it to a record and
  redact the record, the two formatters, the handler and the root logger with the registry that
  guards it.  A log record is the dictionary of its attributes, standard ones included; what it
  carries as \<open>exc_info\<close> is opaque.  The \<open>%\<close> operator on messages, the formatting of tracebacks
  and of times and \<open>json.dumps\<close> are parameters.
\<close>

section \<open>The context\<close>

text \<open>
  \<open>log_context.py\<close>: the mapping of the thread, absent until it is first read.  The body of
  \<open>with LogContext(...)\<close> is a function of the context.
\<close>

definition get_context :: "dict option \<Rightarrow> dict" where
  "get_context data = (case data of None \<Rightarrow> [] | Some d \<Rightarrow> d)"

definition log_context :: "dict \<Rightarrow> (dict option \<Rightarrow> 'r \<times> dict option) \<Rightarrow> dict option \<Rightarrow> 'r \<times> dict option" where
  "log_context kwargs scope data =
     (let old_context = get_context data in
      case scope (Some (dict_update old_context kwargs)) of (r, _) \<Rightarrow> (r, Some old_context))"

type_synonym attrs = dict

definition context_filter :: "dict \<Rightarrow> attrs \<Rightarrow> attrs" where
  "context_filter context rec = dict_update rec context"

section \<open>Redaction\<close>

record log_libs =
  ll_percent :: "string \<Rightarrow> pyval \<Rightarrow> terr + string"
  ll_traceback :: "pyval \<Rightarrow> string"
  ll_time :: "attrs \<Rightarrow> string"
  ll_dumps :: "pyval \<Rightarrow> terr + string"

text \<open>\<open>LogRecord.getMessage\<close>\<close>

definition get_message :: "log_libs \<Rightarrow> attrs \<Rightarrow> terr + string" where
  "get_message l rec =
     (if py_truthy (dget rec ''args'') then ll_percent l (py_str (dget rec ''msg'')) (dget rec ''args'')
      else Inr (py_str (dget rec ''msg'')))"

definition standard_attrs :: "string list" where
  "standard_attrs =
     [''args'', ''asctime'', ''created'', ''exc_info'', ''exc_text'', ''extra'', ''filename'', ''funcName'',
      ''getMessage'', ''levelname'', ''levelno'', ''lineno'', ''message'', ''module'', ''msecs'', ''msg'',
      ''name'', ''pathname'', ''process'', ''processName'', ''relativeCreated'', ''stack_info'',
      ''taskName'', ''thread'', ''threadName'']"

definition is_private :: "string \<Rightarrow> bool" where
  "is_private k \<longleftrightarrow> startswith k ''_''"

definition redact_message :: "log_libs \<Rightarrow> attrs \<Rightarrow> terr + attrs" where
  "redact_message l rec =
     rbind (get_message l rec) (\<lambda>m.
       Inr (dict_set ''args'' PyNone (dict_set ''msg'' (PyStr (sanitize_text [] m)) rec)))"

definition redact_exc_info :: "log_libs \<Rightarrow> attrs \<Rightarrow> attrs" where
  "redact_exc_info l rec =
     (if \<not> py_truthy (dget rec ''exc_info'') then rec
      else dict_set ''exc_info'' PyNone
             (dict_set ''exc_text'' (PyStr (sanitize_text [] (ll_traceback l (dget rec ''exc_info'')))) rec))"

definition redact_value :: "string \<Rightarrow> pyval \<Rightarrow> pyval" where
  "redact_value k v =
     (if k \<in> set standard_attrs \<or> is_private k then v
      else case as_str v of None \<Rightarrow> v | Some s \<Rightarrow> PyStr (sanitize_text [] s))"

definition redact_extra :: "attrs \<Rightarrow> attrs" where
  "redact_extra rec = map (\<lambda>(k, v). (k, redact_value k v)) rec"

text \<open>The filter runs its strategies in order on the record.\<close>

datatype redaction_strategy = MessageRedaction | ExcInfoRedaction | ExtraRedaction

fun apply_redaction :: "log_libs \<Rightarrow> redaction_strategy \<Rightarrow> attrs \<Rightarrow> terr + attrs" where
  "apply_redaction l MessageRedaction rec = redact_message l rec"
| "apply_redaction l ExcInfoRedaction rec = Inr (redact_exc_info l rec)"
| "apply_redaction l ExtraRedaction rec = Inr (redact_extra rec)"

fun secret_redaction_filter :: "log_libs \<Rightarrow> redaction_strategy list \<Rightarrow> attrs \<Rightarrow> terr + attrs" where
  "secret_redaction_filter l [] rec = Inr rec"
| "secret_redaction_filter l (s # ss) rec = rbind (apply_redaction l s rec) (secret_redaction_filter l ss)"

definition build_secret_redaction_filter :: "redaction_strategy list" where
  "build_secret_redaction_filter = [MessageRedaction, ExcInfoRedaction, ExtraRedaction]"

section \<open>Formatters\<close>

definition json_standard_attrs :: "string list" where
  "json_standard_attrs =
     [''name'', ''msg'', ''args'', ''levelname'', ''levelno'', ''pathname'', ''filename'', ''module'', ''exc_info'',
      ''exc_text'', ''stack_info'', ''lineno'', ''funcName'', ''created'', ''msecs'', ''relativeCreated'',
      ''thread'', ''threadName'', ''processName'', ''process'', ''message'', ''asctime'', ''taskName'']"

definition json_context :: "attrs \<Rightarrow> dict" where
  "json_context rec = filter (\<lambda>(k, v). k \<notin> set json_standard_attrs \<and> \<not> is_private k) rec"

definition exception_text :: "log_libs \<Rightarrow> attrs \<Rightarrow> pyval" where
  "exception_text l rec =
     (if \<not> py_truthy (dget rec ''exc_text'') \<and> py_truthy (dget rec ''exc_info'')
      then PyStr (ll_traceback l (dget rec ''exc_info'')) else dget rec ''exc_text'')"

definition json_log_data :: "log_libs \<Rightarrow> attrs \<Rightarrow> string \<Rightarrow> dict" where
  "json_log_data l rec m =
     [(''timestamp'', PyStr (ll_time l rec)), (''level'', dget rec ''levelname''), (''name'', dget rec ''name''),
      (''message'', PyStr m)]
     @ (if json_context rec = [] then [] else [(''context'', PyDict (json_context rec))])
     @ (if py_truthy (exception_text l rec) then [(''exception'', exception_text l rec)] else [])"

definition json_format :: "log_libs \<Rightarrow> attrs \<Rightarrow> terr + string" where
  "json_format l rec = rbind (get_message l rec) (\<lambda>m. ll_dumps l (PyDict (json_log_data l rec m)))"

definition text_ignored :: "string list" where
  "text_ignored =
     [''name'', ''msg'', ''args'', ''created'', ''filename'', ''funcName'', ''levelname'', ''levelno'', ''lineno'',
      ''module'', ''msecs'', ''message'', ''pathname'', ''process'', ''processName'', ''relativeCreated'',
      ''thread'', ''threadName'', ''exc_info'', ''exc_text'', ''stack_info'', ''getMessage'', ''extra'',
      ''taskName'', ''asctime'']"

text \<open>\<open>logging.Formatter.format\<close> with \<open>%(asctime)s [%(levelname)s] %(name)s: %(message)s\<close>\<close>

definition on_own_line :: "string \<Rightarrow> pyval \<Rightarrow> string" where
  "on_own_line s v =
     (if \<not> py_truthy v then s
      else (if s \<noteq> [] \<and> last s = CHR 0x0A then s else s @ [CHR 0x0A]) @ py_str v)"

definition base_format :: "log_libs \<Rightarrow> attrs \<Rightarrow> terr + string" where
  "base_format l rec =
     rbind (get_message l rec) (\<lambda>m.
       Inr (on_own_line (on_own_line
         (ll_time l rec @ '' ['' @ py_str (dget rec ''levelname'') @ ''] '' @ py_str (dget rec ''name'') @ '': '' @ m)
         (exception_text l rec)) (dget rec ''stack_info'')))"

definition context_parts :: "attrs \<Rightarrow> string list" where
  "context_parts rec =
     map (\<lambda>(k, v). k @ ''='' @ py_str v)
       (filter (\<lambda>(k, v). \<not> is_private k \<and> k \<notin> set text_ignored \<and> v \<noteq> PyNone) rec)"

definition text_format :: "log_libs \<Rightarrow> attrs \<Rightarrow> terr + string" where
  "text_format l rec =
     rbind (base_format l rec) (\<lambda>base_msg.
       Inr (if context_parts rec = [] then base_msg
            else base_msg @ '' ['' @ join '', '' (sort (context_parts rec)) @ '']''))"

datatype log_format = JsonLines | TextLines

fun format_record :: "log_libs \<Rightarrow> log_format \<Rightarrow> attrs \<Rightarrow> terr + string" where
  "format_record l JsonLines rec = json_format l rec"
| "format_record l TextLines rec = text_format l rec"

section \<open>The handler\<close>

text \<open>
  A stream handler with its formatter and its three filters, the lines it has written, and the
  number of records whose formatting failed (\<open>handleError\<close> reports those on stderr).
\<close>

record log_handler =
  lh_format :: log_format
  lh_flood :: flood_filter
  lh_marked :: bool
  lh_lines :: "string list"
  lh_failed :: nat

text \<open>The record as the flood-control filter reads it.\<close>

definition flood_record :: "attrs \<Rightarrow> log_record" where
  "flood_record rec =
     \<lparr>lr_name = py_str (dget rec ''name''), lr_levelno = int_of (dget rec ''levelno''), lr_msg = dget rec ''msg'',
      lr_message = py_str (dget rec ''msg''), lr_extra = rec\<rparr>"

definition emit_record :: "log_libs \<Rightarrow> attrs \<Rightarrow> log_handler \<Rightarrow> log_handler" where
  "emit_record l rec h =
     (case format_record l (lh_format h) rec of
        Inl e \<Rightarrow> h\<lparr>lh_failed := Suc (lh_failed h)\<rparr>
      | Inr line \<Rightarrow> h\<lparr>lh_lines := lh_lines h @ [line]\<rparr>)"

definition redacted :: "log_libs \<Rightarrow> dict \<Rightarrow> attrs \<Rightarrow> terr + attrs" where
  "redacted l context rec = secret_redaction_filter l build_secret_redaction_filter (context_filter context rec)"

text \<open>\<open>logging.getLevelName\<close>, and the attributes of a new record.\<close>

definition level_name :: "int \<Rightarrow> string" where
  "level_name n =
     (case map_of [(50, ''CRITICAL''), (40, ''ERROR''), (30, ''WARNING''), (20, ''INFO''), (10, ''DEBUG''), (0, ''NOTSET'')] n of
        Some s \<Rightarrow> s | None \<Rightarrow> ''Level '' @ int_str n)"

definition record_args :: "pyval list \<Rightarrow> pyval" where
  "record_args args =
     (case args of [PyDict (kv # kvs)] \<Rightarrow> PyDict (kv # kvs) | _ \<Rightarrow> PyTuple args)"

text \<open>\<open>frame\<close> holds the attributes that describe the call site, the thread and the time.\<close>

definition new_record :: "dict \<Rightarrow> int \<Rightarrow> string \<Rightarrow> string \<Rightarrow> pyval list \<Rightarrow> pyval \<Rightarrow> attrs" where
  "new_record frame level name msg args exc_info =
     [(''name'', PyStr name), (''msg'', PyStr msg), (''args'', record_args args),
      (''levelname'', PyStr (level_name level)), (''levelno'', PyInt level), (''exc_info'', exc_info),
      (''exc_text'', PyNone), (''stack_info'', PyNone)] @ frame"

text \<open>
  A summary goes to the logger of the record it summarises and from there to the root logger,
  that is, through the same handler; the attribute that forces it past the flood control is set.
\<close>

definition emit_flood_summary ::
    "log_libs \<Rightarrow> dict \<Rightarrow> int \<Rightarrow> dict \<Rightarrow> summary \<Rightarrow> log_handler \<Rightarrow> (terr + unit) \<times> log_handler" where
  "emit_flood_summary l frame root_level context out h =
     (case out of (name, level, text) \<Rightarrow>
        if level < root_level then (Inr (), h)
        else case redacted l context (dict_set (fc_force_log_attr (ff_config (lh_flood h))) (PyBool True)
                 (new_record frame level name text [] PyNone)) of
            Inl e \<Rightarrow> (Inl e, h)
          | Inr rec \<Rightarrow> (Inr (), emit_record l rec h))"

fun emit_flood_summaries ::
    "log_libs \<Rightarrow> dict \<Rightarrow> int \<Rightarrow> dict \<Rightarrow> summary list \<Rightarrow> log_handler \<Rightarrow> (terr + unit) \<times> log_handler" where
  "emit_flood_summaries l frame root_level context [] h = (Inr (), h)"
| "emit_flood_summaries l frame root_level context (out # outs) h =
     (case emit_flood_summary l frame root_level context out h of
        (Inl e, h') \<Rightarrow> (Inl e, h')
      | (Inr _, h') \<Rightarrow> emit_flood_summaries l frame root_level context outs h')"

definition handle_record ::
    "log_libs \<Rightarrow> dict \<Rightarrow> int \<Rightarrow> rat \<Rightarrow> dict \<Rightarrow> attrs \<Rightarrow> log_handler \<Rightarrow> (terr + unit) \<times> log_handler" where
  "handle_record l frame root_level now context rec h =
     (case redacted l context rec of
        Inl e \<Rightarrow> (Inl e, h)
      | Inr rec' \<Rightarrow>
          (case flood_filter_call (lh_flood h) now context (flood_record rec') of
             (allowed, outs, flood) \<Rightarrow>
               (case emit_flood_summaries l frame root_level context outs (h\<lparr>lh_flood := flood\<rparr>) of
                  (Inl e, h') \<Rightarrow> (Inl e, h')
                | (Inr _, h') \<Rightarrow> (Inr (), if allowed then emit_record l rec' h' else h'))))"

section \<open>The pipeline\<close>

definition to_numeric :: "string \<Rightarrow> terr + int" where
  "to_numeric level =
     (case map_of logging_levels (upper level) of
        Some n \<Rightarrow> Inr n
      | None \<Rightarrow> Inl (err [''ValueError''] (''Invalid log level: '' @ level)))"

text \<open>\<open>_normalize_exc_info\<close>: an exception is an opaque value that is not \<open>None\<close> and not empty.\<close>

definition normalize_exc_info :: "pyval option \<Rightarrow> pyval" where
  "normalize_exc_info e = (case e of None \<Rightarrow> PyNone | Some v \<Rightarrow> PyTuple [v])"

definition log_process_call ::
    "log_libs \<Rightarrow> dict \<Rightarrow> int \<Rightarrow> rat \<Rightarrow> dict \<Rightarrow> string \<Rightarrow> int \<Rightarrow> string \<Rightarrow> string \<Rightarrow> pyval list
      \<Rightarrow> pyval option \<Rightarrow> dict \<Rightarrow> log_handler \<Rightarrow> (terr + unit) \<times> log_handler" where
  "log_process_call l frame root_level now context own_level level name msg args exc_info extra h =
     (case to_numeric own_level of
        Inl e \<Rightarrow> (Inl e, h)
      | Inr n \<Rightarrow>
          if level < n then (Inr (), h)
          else handle_record l frame root_level now context
                 (dict_update (new_record frame level name msg args (normalize_exc_info exc_info)) extra) h)"

section \<open>The root logger and its registry\<close>

text \<open>
  \<open>log_registry.py\<close>: the production registry works on the root logger of the process, the other
  one on lists of its own and a log of its calls; both have the same protocol.
\<close>

record 'h root_logger =
  rt_handlers :: "'h list"
  rt_level :: int

record 'h python_registry =
  pr_root :: "'h root_logger"
  pr_attached :: bool

definition python_registry_new :: "'h root_logger \<Rightarrow> 'h python_registry" where
  "python_registry_new rt = \<lparr>pr_root = rt, pr_attached = False\<rparr>"

definition py_clear_root_handlers :: "'h python_registry \<Rightarrow> 'h python_registry" where
  "py_clear_root_handlers r = r\<lparr>pr_root := (pr_root r)\<lparr>rt_handlers := []\<rparr>\<rparr>"

definition py_add_root_handler :: "'h \<Rightarrow> 'h python_registry \<Rightarrow> 'h python_registry" where
  "py_add_root_handler h r = r\<lparr>pr_root := (pr_root r)\<lparr>rt_handlers := rt_handlers (pr_root r) @ [h]\<rparr>\<rparr>"

definition py_set_root_level :: "int \<Rightarrow> 'h python_registry \<Rightarrow> 'h python_registry" where
  "py_set_root_level n r = r\<lparr>pr_root := (pr_root r)\<lparr>rt_level := n\<rparr>\<rparr>"

definition py_is_attached :: "'h python_registry \<Rightarrow> bool" where
  "py_is_attached r = pr_attached r"

definition py_mark_attached :: "'h python_registry \<Rightarrow> 'h python_registry" where
  "py_mark_attached r = r\<lparr>pr_attached := True\<rparr>"

record 'h memory_registry =
  mr_added :: "'h list"
  mr_level :: int
  mr_attached :: bool
  mr_calls :: "string list"

definition memory_registry_new :: "'h memory_registry" where
  "memory_registry_new = \<lparr>mr_added = [], mr_level = 30, mr_attached = False, mr_calls = []\<rparr>"

definition noted :: "string \<Rightarrow> 'h memory_registry \<Rightarrow> 'h memory_registry" where
  "noted call r = r\<lparr>mr_calls := mr_calls r @ [call]\<rparr>"

definition mem_clear_root_handlers :: "'h memory_registry \<Rightarrow> 'h memory_registry" where
  "mem_clear_root_handlers r = noted ''clear_root_handlers'' (r\<lparr>mr_added := []\<rparr>)"

definition mem_add_root_handler :: "'h \<Rightarrow> 'h memory_registry \<Rightarrow> 'h memory_registry" where
  "mem_add_root_handler h r = noted ''add_root_handler'' (r\<lparr>mr_added := mr_added r @ [h]\<rparr>)"

definition mem_set_root_level :: "int \<Rightarrow> 'h memory_registry \<Rightarrow> 'h memory_registry" where
  "mem_set_root_level n r = noted ''set_root_level'' (r\<lparr>mr_level := n\<rparr>)"

definition mem_is_attached :: "'h memory_registry \<Rightarrow> bool" where
  "mem_is_attached r = mr_attached r"

definition mem_mark_attached :: "'h memory_registry \<Rightarrow> 'h memory_registry" where
  "mem_mark_attached r = noted ''mark_attached'' (r\<lparr>mr_attached := True\<rparr>)"

record ('h, 'r) registry_ops =
  ro_clear :: "'r \<Rightarrow> 'r"
  ro_add :: "'h \<Rightarrow> 'r \<Rightarrow> 'r"
  ro_set_level :: "int \<Rightarrow> 'r \<Rightarrow> 'r"
  ro_attached :: "'r \<Rightarrow> bool"
  ro_mark :: "'r \<Rightarrow> 'r"

definition python_registry_ops :: "('h, 'h python_registry) registry_ops" where
  "python_registry_ops = \<lparr>ro_clear = py_clear_root_handlers, ro_add = py_add_root_handler,
     ro_set_level = py_set_root_level, ro_attached = py_is_attached, ro_mark = py_mark_attached\<rparr>"

definition memory_registry_ops :: "('h, 'h memory_registry) registry_ops" where
  "memory_registry_ops = \<lparr>ro_clear = mem_clear_root_handlers, ro_add = mem_add_root_handler,
     ro_set_level = mem_set_root_level, ro_attached = mem_is_attached, ro_mark = mem_mark_attached\<rparr>"

definition already_installed :: terr where
  "already_installed = err [''RuntimeError'']
     ''LogPipeline already installed - second install() is a build bug''"

text \<open>\<open>LogPipeline.install\<close>; the level is converted after the handler has been attached.\<close>

definition install_pipeline ::
    "('h, 'r) registry_ops \<Rightarrow> string \<Rightarrow> 'h \<Rightarrow> 'r \<Rightarrow> (terr + unit) \<times> 'r" where
  "install_pipeline ro level h r =
     (if ro_attached ro r then (Inl already_installed, r)
      else let r1 = ro_add ro h (ro_clear ro r) in
           case to_numeric level of
             Inl e \<Rightarrow> (Inl e, r1)
           | Inr n \<Rightarrow> (Inr (), ro_mark ro (ro_set_level ro n r1)))"

section \<open>Building the pipeline\<close>

text \<open>A handler on the root logger is one of this pipeline or somebody else's.\<close>

datatype root_handler = PfpHandler log_handler | ForeignHandler

definition formatter_builders :: "(string \<times> log_format) list" where
  "formatter_builders = [(''JSON'', JsonLines), (''TEXT'', TextLines)]"

record log_pipeline =
  lp_level :: string
  lp_format_type :: string
  lp_registry_attached :: bool

definition new_handler :: "log_format \<Rightarrow> flood_filter \<Rightarrow> log_handler" where
  "new_handler fmt flood =
     \<lparr>lh_format = fmt, lh_flood = flood, lh_marked = False, lh_lines = [], lh_failed = 0\<rparr>"

definition build_log_pipeline ::
    "(string \<Rightarrow> rat) \<Rightarrow> string \<Rightarrow> string \<Rightarrow> dict \<Rightarrow> (root_handler root_logger, log_pipeline) act" where
  "build_log_pipeline float_of level format_type flood_config rt =
     (case map_of formatter_builders (upper format_type) of
        None \<Rightarrow> (Inl (err [''ValueError''] (''Invalid log format: '' @ format_type)), rt)
      | Some fmt \<Rightarrow>
          (case flood_filter_new float_of (Some flood_config) of
             Inl e \<Rightarrow> (Inl (terr_of_exn e), rt)
           | Inr flood \<Rightarrow>
               (case install_pipeline python_registry_ops level (PfpHandler (new_handler fmt flood))
                       (python_registry_new rt) of
                  (Inl e, r) \<Rightarrow> (Inl e, pr_root r)
                | (Inr _, r) \<Rightarrow>
                    (Inr \<lparr>lp_level = level, lp_format_type = upper format_type,
                          lp_registry_attached = pr_attached r\<rparr>, pr_root r))))"

end
