(* ===== verification/PFP_Logging_Spec.thy ===== *)
theory PFP_Logging_Spec
  imports PFP_Logging
begin

text \<open>
  What the log pipeline promises: every line it writes is the rendering of a redacted record, and
  a record that is forced past the flood control is always written.
\<close>

text \<open>
  A record with nothing left to redact: its message, the traceback text and the stack text that
  the formatters append, and its public text attributes are sanitized.
\<close>

definition sanitized_value :: "pyval \<Rightarrow> bool" where
  "sanitized_value v \<longleftrightarrow> (case as_str v of None \<Rightarrow> True | Some s \<Rightarrow> \<exists>t. s = sanitize_text [] t)"

definition sanitized_record :: "attrs \<Rightarrow> bool" where
  "sanitized_record rec \<longleftrightarrow> sanitized_value (dget rec ''msg'') \<and> dget rec ''msg'' \<noteq> PyNone
     \<and> \<not> py_truthy (dget rec ''args'') \<and> \<not> py_truthy (dget rec ''exc_info'')
     \<and> sanitized_value (dget rec ''exc_text'') \<and> sanitized_value (dget rec ''stack_info'')
     \<and> list_all (\<lambda>(k, v). k \<in> set standard_attrs \<or> is_private k \<or> sanitized_value v) rec"

text \<open>
  A context or a set of extra attributes that does not itself set one of the two texts, which the
  redaction takes over from the record as they are.
\<close>

definition sets_no_trace :: "dict \<Rightarrow> bool" where
  "sets_no_trace d \<longleftrightarrow> map_of d ''exc_text'' = None \<and> map_of d ''stack_info'' = None"

definition trace_sanitized :: "attrs \<Rightarrow> bool" where
  "trace_sanitized rec \<longleftrightarrow> sanitized_value (dget rec ''exc_text'') \<and> sanitized_value (dget rec ''stack_info'')"

lemma map_of_dict_update_new: "map_of new k = None \<Longrightarrow> map_of (dict_update d new) k = map_of d k"
proof (induction new arbitrary: d)
  case (Cons kv new)
  then show ?case by (cases kv) (simp add: dict_update_def map_of_dict_set split: if_splits)
qed (simp add: dict_update_def)

lemma dget_dict_update: "map_of new k = None \<Longrightarrow> dget (dict_update d new) k = dget d k"
  by (simp add: dget_def map_of_dict_update_new)

lemma new_record_trace: "trace_sanitized (new_record frame level name msg args e)"
  by (simp add: trace_sanitized_def new_record_def dget_def sanitized_value_def)

lemma update_trace: "trace_sanitized rec \<Longrightarrow> sets_no_trace d \<Longrightarrow> trace_sanitized (dict_update rec d)"
  by (simp add: trace_sanitized_def sets_no_trace_def dget_dict_update)

lemma dget_dict_set: "dget (dict_set k v d) j = (if j = k then v else dget d j)"
  by (simp add: dget_def map_of_dict_set)

lemma map_of_redact_extra: "map_of (redact_extra rec) k = map_option (redact_value k) (map_of rec k)"
  by (induction rec) (auto simp: redact_extra_def)

lemma dget_redact_extra: "k \<in> set standard_attrs \<Longrightarrow> dget (redact_extra rec) k = dget rec k"
  by (simp add: dget_def map_of_redact_extra redact_value_def split: option.split)

lemma redact_extra_sanitized:
  "list_all (\<lambda>(k, v). k \<in> set standard_attrs \<or> is_private k \<or> sanitized_value v) (redact_extra rec)"
  by (auto simp: redact_extra_def list_all_iff redact_value_def sanitized_value_def split: option.splits if_splits)

lemma standard_names:
  "''msg'' \<in> set standard_attrs" "''args'' \<in> set standard_attrs" "''exc_info'' \<in> set standard_attrs"
  "''exc_text'' \<in> set standard_attrs" "''stack_info'' \<in> set standard_attrs"
  by (simp_all add: standard_attrs_def)

lemma redacted_steps:
  assumes "redacted l ctx rec = Inr rec'"
  obtains m where "get_message l (context_filter ctx rec) = Inr m"
    "rec' = redact_extra (redact_exc_info l (dict_set ''args'' PyNone
       (dict_set ''msg'' (PyStr (sanitize_text [] m)) (context_filter ctx rec))))"
  using assms
  by (auto simp: redacted_def build_secret_redaction_filter_def redact_message_def rbind_Inr_iff)

lemma forced_trace: "trace_sanitized rec \<Longrightarrow> trace_sanitized (dict_set k (PyBool b) rec)"
  by (simp add: trace_sanitized_def dget_dict_set sanitized_value_def)

lemma redacted_sanitized:
  assumes "redacted l ctx rec = Inr rec'" "trace_sanitized rec" "sets_no_trace ctx"
  shows "sanitized_record rec'"
proof -
  obtain m where r: "rec' = redact_extra (redact_exc_info l (dict_set ''args'' PyNone
      (dict_set ''msg'' (PyStr (sanitize_text [] m)) (context_filter ctx rec))))"
    using redacted_steps [OF assms(1)] by metis
  have "trace_sanitized (context_filter ctx rec)"
    unfolding context_filter_def by (rule update_trace [OF assms(2,3)])
  then have "sanitized_value (dget rec' ''exc_text'')" "sanitized_value (dget rec' ''stack_info'')"
    unfolding r by (auto simp: dget_redact_extra standard_names redact_exc_info_def dget_dict_set
        trace_sanitized_def) (simp add: sanitized_value_def, blast)
  moreover from r have "dget rec' ''msg'' = PyStr (sanitize_text [] m)" "dget rec' ''args'' = PyNone"
    "\<not> py_truthy (dget rec' ''exc_info'')"
    by (simp_all add: dget_redact_extra standard_names redact_exc_info_def dget_dict_set)
  ultimately show ?thesis using r redact_extra_sanitized by (auto simp: sanitized_record_def sanitized_value_def)
qed

text \<open>The lines a handler has got since an earlier state are renderings of sanitized records.\<close>

definition lines_sanitized :: "log_libs \<Rightarrow> log_handler \<Rightarrow> log_handler \<Rightarrow> bool" where
  "lines_sanitized l h h' \<longleftrightarrow> lh_format h' = lh_format h
     \<and> (\<exists>recs. list_all sanitized_record recs
          \<and> map Inr (lh_lines h') = map Inr (lh_lines h) @ map (format_record l (lh_format h)) recs)"

lemma lines_sanitized_refl: "lh_lines h' = lh_lines h \<Longrightarrow> lh_format h' = lh_format h \<Longrightarrow> lines_sanitized l h h'"
  unfolding lines_sanitized_def by (intro conjI exI [of _ "[]"]) simp_all

lemma lines_sanitized_trans:
  assumes "lines_sanitized l h h1" "lines_sanitized l h1 h2"
  shows "lines_sanitized l h h2"
proof -
  from assms obtain r1 r2 where
    "list_all sanitized_record r1" "map Inr (lh_lines h1) = map Inr (lh_lines h) @ map (format_record l (lh_format h)) r1"
    "list_all sanitized_record r2" "map Inr (lh_lines h2) = map Inr (lh_lines h1) @ map (format_record l (lh_format h)) r2"
    "lh_format h2 = lh_format h"
    by (auto simp: lines_sanitized_def)
  then show ?thesis unfolding lines_sanitized_def by (intro conjI exI [of _ "r1 @ r2"]) simp_all
qed

lemma emit_record_sanitized:
  assumes "sanitized_record rec"
  shows "lines_sanitized l h (emit_record l rec h)"
proof (cases "format_record l (lh_format h) rec")
  case (Inl e)
  then show ?thesis by (intro lines_sanitized_refl) (simp_all add: emit_record_def)
next
  case (Inr line)
  with assms show ?thesis
    unfolding lines_sanitized_def by (intro conjI exI [of _ "[rec]"]) (simp_all add: emit_record_def)
qed

lemma emit_flood_summaries_sanitized:
  "emit_flood_summaries l frame lvl ctx outs h = (r, h') \<Longrightarrow> sets_no_trace ctx \<Longrightarrow> lines_sanitized l h h'"
proof (induction l frame lvl ctx outs h rule: emit_flood_summaries.induct)
  case (1 l frame lvl ctx h)
  then show ?case by (simp add: lines_sanitized_refl)
next
  case (2 l frame lvl ctx out outs h)
  obtain r1 h1 where one: "emit_flood_summary l frame lvl ctx out h = (r1, h1)" by force
  have first: "lines_sanitized l h h1"
    using one redacted_sanitized [OF _ forced_trace [OF new_record_trace] 2(3)]
    by (auto simp: emit_flood_summary_def lines_sanitized_refl intro: emit_record_sanitized
        split: prod.splits if_splits sum.splits)
  show ?case
  proof (cases r1)
    case (Inl e)
    with 2(2) one first show ?thesis by simp
  next
    case (Inr u)
    with 2(2) one have "emit_flood_summaries l frame lvl ctx outs h1 = (r, h')" by simp
    with 2(1) [OF one [symmetric] Inr _ 2(3)] first lines_sanitized_trans show ?thesis by blast
  qed
qed

lemma handle_record_sanitized:
  assumes "handle_record l frame lvl now ctx rec h = (r, h')" "trace_sanitized rec" "sets_no_trace ctx"
  shows "lines_sanitized l h h'"
proof (cases "redacted l ctx rec")
  case (Inl e)
  with assms(1) show ?thesis by (simp add: handle_record_def lines_sanitized_refl)
next
  case (Inr rec')
  obtain allowed outs flood where f: "flood_filter_call (lh_flood h) now ctx (flood_record rec') = (allowed, outs, flood)"
    by (metis prod.exhaust)
  obtain r1 h1 where s: "emit_flood_summaries l frame lvl ctx outs (h\<lparr>lh_flood := flood\<rparr>) = (r1, h1)" by force
  have "lines_sanitized l h (h\<lparr>lh_flood := flood\<rparr>)" by (simp add: lines_sanitized_refl)
  from lines_sanitized_trans [OF this emit_flood_summaries_sanitized [OF s assms(3)]] have first: "lines_sanitized l h h1" .
  show ?thesis
  proof (cases r1)
    case (Inl e)
    with assms(1) Inr f s first show ?thesis by (simp add: handle_record_def)
  next
    case (Inr u)
    with assms(1) \<open>redacted l ctx rec = Inr rec'\<close> f s
    have "h' = (if allowed then emit_record l rec' h1 else h1)" by (simp add: handle_record_def)
    then show ?thesis
      using first lines_sanitized_trans emit_record_sanitized redacted_sanitized [OF \<open>redacted l ctx rec = Inr rec'\<close> assms(2,3)]
      by metis
  qed
qed

text \<open>A record with the attribute that forces it past the flood control is written.\<close>

lemma forced_record_written:
  assumes "redacted l ctx rec = Inr rec'"
    "py_truthy (record_attr (flood_record rec') (fc_force_log_attr (ff_config (lh_flood h))))"
  shows "handle_record l frame lvl now ctx rec h = (Inr (), emit_record l rec' h)"
  using assms by (simp add: handle_record_def flood_filter_call_def)

text \<open>A series of calls of the pipeline.\<close>

record log_call =
  ca_now :: rat
  ca_context :: dict
  ca_frame :: dict
  ca_level :: int
  ca_name :: string
  ca_msg :: string
  ca_args :: "pyval list"
  ca_exc_info :: "pyval option"
  ca_extra :: dict

fun log_calls :: "log_libs \<Rightarrow> int \<Rightarrow> string \<Rightarrow> log_call list \<Rightarrow> log_handler \<Rightarrow> log_handler" where
  "log_calls l lvl own [] h = h"
| "log_calls l lvl own (c # cs) h =
     log_calls l lvl own cs (snd (log_process_call l (ca_frame c) lvl (ca_now c) (ca_context c) own (ca_level c)
       (ca_name c) (ca_msg c) (ca_args c) (ca_exc_info c) (ca_extra c) h))"

lemma log_process_call_sanitized:
  assumes "log_process_call l frame lvl now ctx own level name msg args exc_info ext h = (r, h')"
    "sets_no_trace ctx" "sets_no_trace ext"
  shows "lines_sanitized l h h'"
  using assms(1) handle_record_sanitized [OF _ update_trace [OF new_record_trace assms(3)] assms(2)]
  by (auto simp: log_process_call_def lines_sanitized_refl split: sum.splits if_splits)

lemma log_calls_sanitized:
  "list_all (\<lambda>c. sets_no_trace (ca_context c) \<and> sets_no_trace (ca_extra c)) cs
    \<Longrightarrow> lines_sanitized l h (log_calls l lvl own cs h)"
proof (induction cs arbitrary: h)
  case (Cons c cs)
  have "lines_sanitized l h (snd (log_process_call l (ca_frame c) lvl (ca_now c) (ca_context c) own (ca_level c)
      (ca_name c) (ca_msg c) (ca_args c) (ca_exc_info c) (ca_extra c) h))"
    by (rule log_process_call_sanitized [OF prod.collapse [symmetric]]) (use Cons.prems in simp_all)
  with Cons show ?case by (auto intro: lines_sanitized_trans)
qed (simp add: lines_sanitized_refl)

text \<open>
  C40: Every line that the log pipeline writes is the rendering of a sanitized record: whatever
  calls have been made, with whatever arguments and exceptions, and whatever the flood control
  lets through or summarises, as long as neither the context nor the extra attributes of a call
  set \<open>exc_text\<close> or \<open>stack_info\<close> themselves.  The record behind each line has a sanitized message,
  no arguments and no exception left to format, a sanitized traceback text, no stack text but a
  sanitized one, and sanitized public text attributes.  The names of the logger and the level,
  the other standard attributes and values that are not texts are outside the claim.
\<close>

theorem log_lines_are_sanitized:
  assumes "list_all (\<lambda>c. sets_no_trace (ca_context c) \<and> sets_no_trace (ca_extra c)) cs"
  shows "\<exists>recs. list_all sanitized_record recs
    \<and> map Inr (lh_lines (log_calls l lvl own cs (new_handler fmt flood))) = map (format_record l fmt) recs"
  using log_calls_sanitized [OF assms, of l "new_handler fmt flood" lvl own]
  by (simp add: lines_sanitized_def new_handler_def)

text \<open>A call with an exception whose traceback holds a bearer token.\<close>

definition sample_log_libs :: log_libs where
  "sample_log_libs = \<lparr>ll_percent = (\<lambda>m a. Inr m), ll_traceback = (\<lambda>e. ''Bearer abc123''),
     ll_time = (\<lambda>r. ''12:00''), ll_dumps = (\<lambda>v. Inr (py_str v))\<rparr>"

definition sample_log_call :: log_call where
  "sample_log_call = \<lparr>ca_now = 0, ca_context = [(''run'', PyStr ''r1'')], ca_frame = [], ca_level = 40,
     ca_name = ''pfp'', ca_msg = ''failed'', ca_args = [], ca_exc_info = Some (PyStr ''boom''), ca_extra = []\<rparr>"

definition sample_open_flood :: flood_filter where
  "sample_open_flood = \<lparr>ff_config = \<lparr>fc_enabled = False, fc_mode = ''off'', fc_context_keys = [],
     fc_suppressed_levels = [], fc_force_log_attr = ''force_log'', fc_key_fields = [], fc_window_seconds = 10,
     fc_max_events = 1, fc_emit_summary = False, fc_summary_level = 20, fc_summary_interval = 10,
     fc_max_cache_size = 5\<rparr>, ff_strategy = AllowAll\<rparr>"

theorem log_lines_are_sanitized_witness:
  "(\<exists>recs. list_all sanitized_record recs
     \<and> map Inr (lh_lines (log_calls sample_log_libs 10 ''INFO'' [sample_log_call] (new_handler TextLines sample_open_flood)))
         = map (format_record sample_log_libs TextLines) recs)
   \<and> lh_lines (log_calls sample_log_libs 10 ''INFO'' [sample_log_call] (new_handler TextLines sample_open_flood))
         = [''12:00 [ERROR] pfp: failed'' @ [CHR 0x0A] @ ''Bearer *** [run=r1]'']"
proof
  show "\<exists>recs. list_all sanitized_record recs
     \<and> map Inr (lh_lines (log_calls sample_log_libs 10 ''INFO'' [sample_log_call] (new_handler TextLines sample_open_flood)))
         = map (format_record sample_log_libs TextLines) recs"
    by (rule log_lines_are_sanitized) (simp add: sample_log_call_def sets_no_trace_def)
  show "lh_lines (log_calls sample_log_libs 10 ''INFO'' [sample_log_call] (new_handler TextLines sample_open_flood))
         = [''12:00 [ERROR] pfp: failed'' @ [CHR 0x0A] @ ''Bearer *** [run=r1]'']"
    by code_simp
qed

section \<open>What redaction does not reach\<close>

text \<open>
  The redaction of attributes looks at the text of a value only: neither a value that is not a
  text nor a text under a name such as \<open>password\<close> is masked.
\<close>

lemma attribute_secrets_pass:
  "redact_extra [(''password'', PyStr ''hunter2''), (''response'', PyDict [(''token'', PyStr ''abc'')])]
     = [(''password'', PyStr ''hunter2''), (''response'', PyDict [(''token'', PyStr ''abc'')])]"
  by code_simp

lemma attribute_secret_in_line:
  "context_parts (redact_extra [(''password'', PyStr ''hunter2'')]) = [''password=hunter2'']"
  by code_simp

text \<open>
  A context that sets \<open>exc_text\<close> goes into the line as it is: the traceback is the only exception
  text that is redacted.
\<close>

lemma context_trace_in_line:
  "rbind (redacted sample_log_libs [(''exc_text'', PyStr ''token=abc'')]
       (new_record [] 40 ''pfp'' ''failed'' [] PyNone)) (text_format sample_log_libs)
     = Inr (''12:00 [ERROR] pfp: failed'' @ [CHR 0x0A] @ ''token=abc'')"
  by code_simp

text \<open>
  The redaction filter renders the message before the handler's error handling is in force: a
  message that does not fit its arguments makes the logging call itself raise.
\<close>

lemma bad_arguments_raise:
  assumes "to_numeric own = Inr n" "n \<le> level" "args \<noteq> []" "ll_percent l msg (record_args args) = Inl e"
    "ctx = []" "ext = []"
  shows "log_process_call l frame lvl now ctx own level name msg args exc_info ext h = (Inl e, h)"
proof -
  have "py_truthy (record_args args)"
    using assms(3) by (auto simp: record_args_def split: list.splits pyval.splits)
  with assms show ?thesis
    by (simp add: log_process_call_def handle_record_def redacted_def build_secret_redaction_filter_def
        redact_message_def get_message_def context_filter_def dict_update_def new_record_def dget_def)
qed

end
