(* ===== verification/PFP_Telemetry.thy ===== *)
theory PFP_Telemetry
  imports PFP_Logging_Spec PFP_Policies PFP_Mapping_Exec
begin

text \<open>
  Telemetry (\<open>pfp_utils/telemetry\<close>), stage profiling (\<open>stage_profiling.py\<close>) and the eligibility
  policy that reports to telemetry (\<open>policies/domain/eligibility.py\<close>).  The Prometheus client and
  \<open>importlib\<close> are parameters; a metric is known by the registry it belongs to.
\<close>

section \<open>Handlers\<close>

type_synonym metric_labels = "(string \<times> string) list"

definition label_or :: "metric_labels \<Rightarrow> string \<Rightarrow> string \<Rightarrow> string" where
  "label_or labels k dflt = (case map_of labels k of None \<Rightarrow> dflt | Some v \<Rightarrow> v)"

definition extract_metric_labels :: "metric_labels option \<Rightarrow> string \<times> string \<times> string" where
  "extract_metric_labels labels =
     (let raw = (case labels of None \<Rightarrow> [] | Some ls \<Rightarrow> ls)
      in (label_or raw ''target'' ''unknown'', label_or raw ''mode'' ''unknown'', label_or raw ''stage'' ''total''))"

definition allowed_stages :: "string list" where
  "allowed_stages = [''normalization'', ''validation'', ''mapping'', ''serialization'', ''publish'']"

text \<open>The histograms that exist, by registry, and what has been observed on them.\<close>

record 'r metrics =
  mt_histograms :: "'r list"
  mt_observed :: "('r \<times> (string \<times> string \<times> string) \<times> rat) list"

definition get_stage_duration_metric :: "bool \<Rightarrow> 'r \<Rightarrow> ('r metrics, 'r) act" where
  "get_stage_duration_metric installed reg m =
     (if reg \<in> set (mt_histograms m) then (Inr reg, m)
      else if \<not> installed then (Inl (err [''ModuleNotFoundError'', ''ImportError''] ''prometheus_client''), m)
      else (Inr reg, m\<lparr>mt_histograms := mt_histograms m @ [reg]\<rparr>))"

definition prometheus_handler_new :: "bool \<Rightarrow> 'r \<Rightarrow> 'r option \<Rightarrow> ('r metrics, 'r) act" where
  "prometheus_handler_new installed default_registry reg m =
     (if \<not> installed then (Inl (err [''ModuleNotFoundError'', ''ImportError''] ''prometheus_client''), m)
      else get_stage_duration_metric installed (case reg of None \<Rightarrow> default_registry | Some r \<Rightarrow> r) m)"

definition prometheus_observe_duration ::
    "'r \<Rightarrow> string \<Rightarrow> rat \<Rightarrow> metric_labels \<Rightarrow> 'r metrics \<Rightarrow> 'r metrics" where
  "prometheus_observe_duration metric stg duration labels m =
     (if stg \<notin> set allowed_stages then m
      else case extract_metric_labels (Some labels) of
          (target, mode, _) \<Rightarrow> m\<lparr>mt_observed := mt_observed m @ [(metric, (stg, target, mode), duration)]\<rparr>)"

definition prometheus_inc :: "string \<Rightarrow> rat \<Rightarrow> metric_labels option \<Rightarrow> 'r metrics \<Rightarrow> 'r metrics" where
  "prometheus_inc name v labels m = m"

definition noop_observe_duration :: "string \<Rightarrow> rat \<Rightarrow> metric_labels \<Rightarrow> 'r metrics \<Rightarrow> 'r metrics" where
  "noop_observe_duration stg duration labels m = m"

definition noop_inc :: "string \<Rightarrow> rat \<Rightarrow> metric_labels option \<Rightarrow> 'r metrics \<Rightarrow> 'r metrics" where
  "noop_inc name v labels m = m"

text \<open>The console handler logs a debug record: its message template and its arguments.\<close>

definition labels_value :: "metric_labels \<Rightarrow> pyval" where
  "labels_value labels = PyDict (map (\<lambda>(k, v). (k, PyStr v)) labels)"

definition console_observe_duration :: "string \<Rightarrow> pyval \<Rightarrow> metric_labels \<Rightarrow> string \<times> pyval list" where
  "console_observe_duration stg duration labels =
     (''TELEMETRY_DURATION: stage=%s duration=%.4fs labels=%s'', [PyStr stg, duration, labels_value labels])"

definition console_inc :: "string \<Rightarrow> pyval \<Rightarrow> metric_labels option \<Rightarrow> string \<times> pyval list" where
  "console_inc name v labels =
     (''TELEMETRY_COUNT: metric=%s value=%s labels=%s'',
      [PyStr name, v, (case labels of None \<Rightarrow> PyNone | Some ls \<Rightarrow> labels_value ls)])"

section \<open>The factory\<close>

text \<open>A value given as handler: text, or an object with or without the two methods.\<close>

datatype 'h handler_value = HandlerText string | HandlerObject 'h bool bool

datatype 'h created_handler = CreatedNoOp | CreatedConsole | CreatedCustom 'h

definition split_handler_path :: "string \<Rightarrow> terr + string \<times> string" where
  "split_handler_path path =
     (let (m, a) = (if CHR '':'' \<in> set path
                    then (takeWhile (\<lambda>c. c \<noteq> CHR '':'') path, drop 1 (dropWhile (\<lambda>c. c \<noteq> CHR '':'') path))
                    else let i = nat (rfind path ''.'') in (take i path, drop (Suc i) path))
      in if strip m = [] \<or> strip a = [] then Inl (err [''ValueError''] ''Invalid telemetry handler path'')
         else Inr (strip m, strip a))"

definition missing_methods_text :: string where
  "missing_methods_text = ''Telemetry handler '' @ quoted ''%s'' @ '' missing required methods; falling back to NoOp''"

text \<open>
  \<open>create_telemetry_handler\<close>: the handler and the warnings it logs.  \<open>load\<close> imports an attribute of a
  module and calls it.
\<close>

definition create_telemetry_handler ::
    "(string \<Rightarrow> string \<Rightarrow> terr + 'h handler_value) \<Rightarrow> bool \<Rightarrow> 'h handler_value option
      \<Rightarrow> (terr + 'h created_handler) \<times> string list" where
  "create_telemetry_handler load enabled handler =
     (if \<not> enabled then (Inr CreatedNoOp, [])
      else case (case handler of None \<Rightarrow> HandlerText ''noop'' | Some v \<Rightarrow> v) of
          HandlerObject h observes incs \<Rightarrow>
            if observes \<and> incs then (Inr (CreatedCustom h), [])
            else (Inl (err [''ValueError''] ''Telemetry handler must be a string or handler instance''), [])
        | HandlerText s \<Rightarrow>
            (let t = lower (strip s) in
             if t = ''console'' then (Inr CreatedConsole, [])
             else if t \<in> set [''noop'', ''none'', ''null'', ''disabled''] then (Inr CreatedNoOp, [])
             else if CHR '':'' \<in> set s \<or> CHR ''.'' \<in> set s
             then (case rbind (split_handler_path s) (\<lambda>(m, a). load m a) of
                     Inr (HandlerObject h True True) \<Rightarrow> (Inr (CreatedCustom h), [])
                   | Inr _ \<Rightarrow> (Inr CreatedNoOp, [missing_methods_text])
                   | Inl e \<Rightarrow> (Inr CreatedNoOp, [''Telemetry handler load failed; falling back to NoOp: %s'']))
             else (Inr CreatedNoOp, [''Unknown telemetry handler '' @ quoted ''%s'' @ ''; using NoOp.''])))"

section \<open>Stage profiling\<close>

text \<open>
  \<open>profile_stage\<close> around a function: its result passes through, exceptions included, and the
  duration is logged and observed afterwards in either case.  \<open>None\<close> for the log pipeline is the
  missing keyword.
\<close>

definition profile_labels :: "dict \<Rightarrow> metric_labels" where
  "profile_labels ctx =
     map (\<lambda>k. (k, py_str (dget ctx k))) (filter (dhas ctx) [''target'', ''artifact_profile'', ''policy_name''])"

definition profile_stage ::
    "(rat \<Rightarrow> metric_labels \<Rightarrow> 's \<Rightarrow> 's) option \<Rightarrow> (rat \<Rightarrow> metric_labels \<Rightarrow> 's \<Rightarrow> 's) option \<Rightarrow> dict \<Rightarrow> rat \<Rightarrow> rat
      \<Rightarrow> ('s, 'a) act \<Rightarrow> ('s, 'a) act" where
  "profile_stage log_finished observe ctx started ended func s =
     (case log_finished of
        None \<Rightarrow> (Inl (err [''TypeError''] (''profile_stage requires '' @ quoted ''log_pipeline'' @ '' keyword argument'')), s)
      | Some lg \<Rightarrow>
          (case func s of
             (r, s1) \<Rightarrow>
               (let duration = ended - started; labels = profile_labels ctx; s2 = lg duration labels s1
                in (r, case observe of None \<Rightarrow> s2 | Some obs \<Rightarrow> obs duration labels s2))))"

section \<open>The eligibility policy\<close>

definition missing_requirement :: "dict \<Rightarrow> pyval \<Rightarrow> diagnostic" where
  "missing_requirement product field =
     diag_new SevError ''ELIGIBILITY_CHECKOUT_MISSING_REQ''
       (''Checkout eligibility requires merchant field '' @ quoted (py_str field))
       (Some (''merchant.'' @ py_str field))
       (Some (py_str (dget_or product ''item_id'' (PyStr ''unknown'')))) []"

text \<open>A field that is not a text is no key of the mapping; one that has no hash raises.\<close>

definition merchant_value :: "dict \<Rightarrow> pyval \<Rightarrow> pyval result" where
  "merchant_value merchant field =
     (case as_str field of
        Some k \<Rightarrow> Inr (dget merchant k)
      | None \<Rightarrow> if py_hashable field then Inr PyNone else Inl TypeError)"

definition validate_checkout_requirements :: "pyval list option \<Rightarrow> dict \<Rightarrow> diagnostic list result" where
  "validate_checkout_requirements config product =
     (case config of
        None \<Rightarrow> Inr []
      | Some required \<Rightarrow>
          (case as_mapping (dget product ''merchant'') of
             None \<Rightarrow> Inr (map (missing_requirement product) required)
           | Some merchant \<Rightarrow>
               rbind (rmap (merchant_value merchant) required) (\<lambda>vs.
                 Inr (map (\<lambda>(f, v). missing_requirement product f)
                   (filter (\<lambda>(f, v). \<not> py_truthy v) (zip required vs))))))"

text \<open>The diagnostics, and whether the check has been counted with what outcome.\<close>

definition eligibility_validate :: "pyval list option \<Rightarrow> dict \<Rightarrow> (diagnostic list \<times> bool option) result" where
  "eligibility_validate config product =
     (if \<not> py_truthy (dget product ''is_eligible_checkout'') then Inr ([], None)
      else rbind (validate_checkout_requirements config product) (\<lambda>ds. Inr (ds, Some (ds = []))))"

section \<open>What they keep\<close>

lemma histograms_distinct:
  assumes "distinct (mt_histograms m)" "get_stage_duration_metric installed reg m = (r, m')"
  shows "distinct (mt_histograms m')"
  using assms by (auto simp: get_stage_duration_metric_def split: if_splits)

lemma observed_stage_allowed:
  assumes "\<forall>x \<in> set (mt_observed m). fst (fst (snd x)) \<in> set allowed_stages"
    and "x \<in> set (mt_observed (prometheus_observe_duration metric stg duration labels m))"
  shows "fst (fst (snd x)) \<in> set allowed_stages"
  using assms by (auto simp: prometheus_observe_duration_def split: if_splits prod.splits)

lemma factory_falls_back:
  assumes "handler = Some (HandlerText s)"
  shows "\<exists>h ws. create_telemetry_handler load enabled handler = (Inr h, ws)"
  using assms
  by (auto simp: create_telemetry_handler_def Let_def split: sum.split handler_value.split bool.split)

lemma profile_stage_transparent: "fst (profile_stage (Some lg) observe ctx t0 t1 func s) = fst (func s)"
  by (simp add: profile_stage_def Let_def split: prod.split)

lemma eligible_when_nothing_missing:
  assumes "as_mapping (dget product ''merchant'') = Some merchant"
    "list_all (\<lambda>k. py_truthy (dget merchant k)) ks" "py_truthy (dget product ''is_eligible_checkout'')"
  shows "eligibility_validate (Some (map PyStr ks)) product = Inr ([], Some True)"
proof -
  have "rmap (merchant_value merchant) (map PyStr ks) = Inr (map (dget merchant) ks)"
    by (induction ks) (simp_all add: merchant_value_def)
  moreover have "filter (\<lambda>(f, v). \<not> py_truthy v) (zip (map PyStr ks) (map (dget merchant) ks)) = []"
    using assms(2) by (induction ks) simp_all
  ultimately show ?thesis
    using assms by (simp add: eligibility_validate_def validate_checkout_requirements_def)
qed

end
