(* ===== verification/PFP_Config.thy ===== *)
theory PFP_Config
  imports PFP_Logging PFP_Connectors
begin

text \<open>
  The runtime configuration (\<open>pfp_runtime/config\<close>): the models with the defaults and field
  validators they declare, loading, semantic validation and path normalisation.  Pydantic is a
  parameter: what its models accept as types and structure (\<open>il_coerce\<close>), and how it words the
  error of a validator (\<open>il_value_error\<close>).  Paths are texts; \<open>resolve\<close> stands for
  \<open>expanduser().resolve()\<close>.
\<close>

section \<open>Models\<close>

record input_source_config =
  isc_connector_mapping :: "string option"

record input_config =
  inc_format :: string
  inc_config :: input_source_config

record output_config =
  oc_archive_type :: string
  oc_archive_config :: string
  oc_client_type :: string
  oc_client_config :: string

text \<open>A float is its text, as in every other value of the model.\<close>

record flood_control_model =
  fm_enabled :: bool
  fm_mode :: string
  fm_context_keys :: "string list"
  fm_suppressed_levels :: "string list"
  fm_force_log_attr :: string
  fm_key_fields :: "string list"
  fm_window_seconds :: string
  fm_max_events_per_window :: int
  fm_emit_summary :: bool
  fm_summary_level :: string
  fm_summary_interval_seconds :: string
  fm_max_cache_size :: int

definition flood_control_default :: flood_control_model where
  "flood_control_default = \<lparr>fm_enabled = True, fm_mode = ''context_info_suppression'',
     fm_context_keys = [''item_ref''], fm_suppressed_levels = [''INFO''], fm_force_log_attr = ''force_log'',
     fm_key_fields = [''name'', ''levelno'', ''msg'', ''item_ref''], fm_window_seconds = ''30.0'',
     fm_max_events_per_window = 1, fm_emit_summary = False, fm_summary_level = ''INFO'',
     fm_summary_interval_seconds = ''30.0'', fm_max_cache_size = 10000\<rparr>"

text \<open>\<open>model_dump(exclude_none=True)\<close> of a flood-control model.\<close>

definition flood_dump :: "flood_control_model \<Rightarrow> dict" where
  "flood_dump m =
     [(''enabled'', PyBool (fm_enabled m)), (''mode'', PyStr (fm_mode m)),
      (''context_keys'', PyList (map PyStr (fm_context_keys m))),
      (''suppressed_levels'', PyList (map PyStr (fm_suppressed_levels m))),
      (''force_log_attr'', PyStr (fm_force_log_attr m)),
      (''key_fields'', PyList (map PyStr (fm_key_fields m))),
      (''window_seconds'', PyFloat (fm_window_seconds m)),
      (''max_events_per_window'', PyInt (fm_max_events_per_window m)),
      (''emit_summary'', PyBool (fm_emit_summary m)), (''summary_level'', PyStr (fm_summary_level m)),
      (''summary_interval_seconds'', PyFloat (fm_summary_interval_seconds m)),
      (''max_cache_size'', PyInt (fm_max_cache_size m))]"

record logging_config =
  lc_level :: string
  lc_flood :: flood_control_model

definition logging_default :: logging_config where
  "logging_default = \<lparr>lc_level = ''INFO'', lc_flood = flood_control_default\<rparr>"

record telemetry_config =
  tc_provider :: string

definition telemetry_default :: telemetry_config where
  "telemetry_default = \<lparr>tc_provider = ''none''\<rparr>"

record observability_config =
  ob_log_format :: string
  ob_labels :: "(string \<times> string) list"
  ob_logging :: logging_config
  ob_telemetry :: telemetry_config

definition observability_default :: observability_config where
  "observability_default = \<lparr>ob_log_format = ''TEXT'', ob_labels = [], ob_logging = logging_default,
     ob_telemetry = telemetry_default\<rparr>"

record producer_config =
  prc_schema_file :: string
  prc_policy_file :: string
  prc_tax_mapping_file :: "string option"

record infra_config =
  if_input :: input_config
  if_output :: output_config
  if_producer :: producer_config
  if_observability :: "observability_config option"

section \<open>Field validators\<close>

text \<open>A validator gives the text of its \<open>ValueError\<close> or the value to keep.\<close>

definition non_empty_value :: "string \<Rightarrow> string + string" where
  "non_empty_value v = (if strip v = [] then Inl ''value must be non-empty'' else Inr (strip v))"

definition validate_optional_non_empty :: "string option \<Rightarrow> string + string option" where
  "validate_optional_non_empty v =
     (case v of None \<Rightarrow> Inr None
      | Some s \<Rightarrow> (case non_empty_value s of Inl m \<Rightarrow> Inl m | Inr t \<Rightarrow> Inr (Some t)))"

definition normalize_format :: "string \<Rightarrow> string + string" where
  "normalize_format v =
     (let t = lower (strip v) in if t = [] then Inl ''format must be non-empty'' else Inr t)"

definition normalize_type :: "string \<Rightarrow> string + string" where
  "normalize_type v =
     (let t = lower (strip v) in if t = [] then Inl ''value must be non-empty'' else Inr t)"

definition validate_config_path :: "string \<Rightarrow> string + string" where
  "validate_config_path v = non_empty_value v"

definition normalize_log_level :: "string \<Rightarrow> string + string" where
  "normalize_log_level v =
     (if strip v = [] then Inl ''level must be non-empty'' else Inr (upper (strip v)))"

definition normalize_provider :: "string \<Rightarrow> string + string" where
  "normalize_provider v =
     (let t = lower (strip v) in
      if t \<notin> set [''none'', ''prometheus'']
      then Inl (''telemetry.provider must be '' @ quoted ''none'' @ '' or '' @ quoted ''prometheus'') else Inr t)"

definition normalize_log_format :: "string \<Rightarrow> string + string" where
  "normalize_log_format v =
     (let t = upper (strip v) in
      if t \<notin> set [''TEXT'', ''JSON'']
      then Inl (''observability.log_format must be '' @ quoted ''TEXT'' @ '' or '' @ quoted ''JSON'') else Inr t)"

definition validate_non_empty_path :: "string \<Rightarrow> string + string" where
  "validate_non_empty_path v = non_empty_value v"

definition validate_schema_file :: "string \<Rightarrow> string + string" where
  "validate_schema_file v = non_empty_value v"

definition validate_tax_mapping_file :: "string option \<Rightarrow> string + string option" where
  "validate_tax_mapping_file v = validate_optional_non_empty v"

section \<open>Validating the models\<close>

type_synonym model_error = "string list \<times> string"

record infra_libs =
  il_coerce :: "dict \<Rightarrow> model_error list + infra_config"
  il_value_error :: "string \<Rightarrow> string"
  il_yaml :: "(string \<Rightarrow> terr + pyval) option"
  il_read_text :: "string \<Rightarrow> terr + string"
  il_registry_path :: string
  il_registry :: "terr + pyval"
  il_resolve :: "string \<Rightarrow> string"
  il_exists :: "string \<Rightarrow> bool"
  il_is_file :: "string \<Rightarrow> bool"
  il_project_root :: string
  il_float :: "string \<Rightarrow> rat"

definition field_issue :: "infra_libs \<Rightarrow> string list \<Rightarrow> string + 'a \<Rightarrow> model_error list" where
  "field_issue l loc r = (case r of Inl m \<Rightarrow> [(loc, il_value_error l m)] | Inr _ \<Rightarrow> [])"

definition kept :: "string + 'a \<Rightarrow> 'a \<Rightarrow> 'a" where
  "kept r v = (case r of Inl _ \<Rightarrow> v | Inr w \<Rightarrow> w)"

definition observability_issues :: "infra_libs \<Rightarrow> observability_config \<Rightarrow> model_error list" where
  "observability_issues l ob =
     field_issue l [''observability'', ''log_format''] (normalize_log_format (ob_log_format ob))
     @ field_issue l [''observability'', ''logging'', ''level''] (normalize_log_level (lc_level (ob_logging ob)))
     @ field_issue l [''observability'', ''telemetry'', ''provider''] (normalize_provider (tc_provider (ob_telemetry ob)))"

definition infra_issues :: "infra_libs \<Rightarrow> infra_config \<Rightarrow> model_error list" where
  "infra_issues l c =
     (let i = if_input c; out = if_output c; p = if_producer c in
      field_issue l [''input'', ''format''] (normalize_format (inc_format i))
      @ field_issue l [''input'', ''config'', ''connector_mapping'']
          (validate_optional_non_empty (isc_connector_mapping (inc_config i)))
      @ field_issue l [''output'', ''archive_type''] (normalize_type (oc_archive_type out))
      @ field_issue l [''output'', ''archive_config''] (validate_config_path (oc_archive_config out))
      @ field_issue l [''output'', ''client_type''] (normalize_type (oc_client_type out))
      @ field_issue l [''output'', ''client_config''] (validate_config_path (oc_client_config out))
      @ field_issue l [''producer'', ''schema_file''] (validate_schema_file (prc_schema_file p))
      @ field_issue l [''producer'', ''policy_file''] (validate_non_empty_path (prc_policy_file p))
      @ field_issue l [''producer'', ''tax_mapping_file''] (validate_tax_mapping_file (prc_tax_mapping_file p))
      @ (case if_observability c of None \<Rightarrow> [] | Some ob \<Rightarrow> observability_issues l ob))"

definition observability_normal :: "observability_config \<Rightarrow> observability_config" where
  "observability_normal ob = ob\<lparr>
     ob_log_format := kept (normalize_log_format (ob_log_format ob)) (ob_log_format ob),
     ob_logging := (ob_logging ob)\<lparr>lc_level := kept (normalize_log_level (lc_level (ob_logging ob))) (lc_level (ob_logging ob))\<rparr>,
     ob_telemetry := (ob_telemetry ob)\<lparr>tc_provider :=
       kept (normalize_provider (tc_provider (ob_telemetry ob))) (tc_provider (ob_telemetry ob))\<rparr>\<rparr>"

definition infra_normal :: "infra_config \<Rightarrow> infra_config" where
  "infra_normal c =
     (let i = if_input c; out = if_output c; p = if_producer c in
      \<lparr>if_input = \<lparr>inc_format = kept (normalize_format (inc_format i)) (inc_format i),
         inc_config = \<lparr>isc_connector_mapping = kept (validate_optional_non_empty (isc_connector_mapping (inc_config i)))
           (isc_connector_mapping (inc_config i))\<rparr>\<rparr>,
       if_output = \<lparr>oc_archive_type = kept (normalize_type (oc_archive_type out)) (oc_archive_type out),
         oc_archive_config = kept (validate_config_path (oc_archive_config out)) (oc_archive_config out),
         oc_client_type = kept (normalize_type (oc_client_type out)) (oc_client_type out),
         oc_client_config = kept (validate_config_path (oc_client_config out)) (oc_client_config out)\<rparr>,
       if_producer = \<lparr>prc_schema_file = kept (validate_schema_file (prc_schema_file p)) (prc_schema_file p),
         prc_policy_file = kept (validate_non_empty_path (prc_policy_file p)) (prc_policy_file p),
         prc_tax_mapping_file = kept (validate_tax_mapping_file (prc_tax_mapping_file p)) (prc_tax_mapping_file p)\<rparr>,
       if_observability = map_option observability_normal (if_observability c)\<rparr>)"

definition model_validate :: "infra_libs \<Rightarrow> dict \<Rightarrow> model_error list + infra_config" where
  "model_validate l config =
     (case il_coerce l config of
        Inl errors \<Rightarrow> Inl errors
      | Inr c \<Rightarrow> if infra_issues l c \<noteq> [] then Inl (infra_issues l c) else Inr (infra_normal c))"

section \<open>Loading\<close>

definition infra_parse_error :: "string \<Rightarrow> terr" where
  "infra_parse_error = err [''InfraConfigParseError'', ''InfraConfigError'', ''ValueError'']"

definition infra_validation_error :: "string \<Rightarrow> terr" where
  "infra_validation_error = err [''InfraConfigValidationError'', ''ValueError'']"

definition format_validation_error :: "model_error list \<Rightarrow> string" where
  "format_validation_error errors =
     (if errors = [] then ''infra config validation failed''
      else join ''; '' (map (\<lambda>(loc, msg).
        if join ''.'' loc \<noteq> [] then join ''.'' loc @ '': '' @ msg else msg) errors))"

definition parse_infra_config :: "infra_libs \<Rightarrow> string \<Rightarrow> terr + dict" where
  "parse_infra_config l config =
     (case il_yaml l of
        None \<Rightarrow> Inl (infra_parse_error ''YAML support is unavailable: missing PyYAML'')
      | Some safe_load \<Rightarrow>
          (case safe_load config of
             Inl e \<Rightarrow> Inl (if isinstance e ''YAMLError'' then infra_parse_error ''invalid YAML config'' else e)
           | Inr v \<Rightarrow>
               (case as_mapping v of
                  None \<Rightarrow> Inl (infra_validation_error ''infra config root must be a mapping'')
                | Some d \<Rightarrow> Inr d)))"

definition materialize_infra_config :: "infra_libs \<Rightarrow> dict \<Rightarrow> terr + infra_config" where
  "materialize_infra_config l config =
     (case model_validate l config of
        Inl errors \<Rightarrow> Inl (infra_validation_error (format_validation_error errors))
      | Inr c \<Rightarrow> Inr c)"

definition yaml_suffix :: "string \<Rightarrow> bool" where
  "yaml_suffix p \<longleftrightarrow> lower (path_suffix p) \<in> set [''.yaml'', ''.yml'']"

definition load_infra_config :: "infra_libs \<Rightarrow> string \<Rightarrow> terr + infra_config" where
  "load_infra_config l path =
     (if \<not> yaml_suffix path
      then Inl (infra_parse_error (''unsupported infra file extension: '' @ lower (path_suffix path)))
      else case il_read_text l path of
          Inl e \<Rightarrow> Inl (if isinstance e ''OSError''
                       then infra_parse_error (''cannot read infra config file: '' @ path) else e)
        | Inr config \<Rightarrow> rbind (parse_infra_config l config) (materialize_infra_config l))"

section \<open>Semantic validation\<close>

text \<open>Reading and parsing the registry file; an error of neither class passes through.\<close>

definition load_connectors_registry :: "infra_libs \<Rightarrow> terr + dict" where
  "load_connectors_registry l =
     (case il_registry l of
        Inl e \<Rightarrow> Inl (if isinstance e ''OSError'' then infra_validation_error (''cannot read registry file: '' @ il_registry_path l)
                     else if isinstance e ''JSONDecodeError'' then infra_validation_error (''invalid registry JSON: '' @ il_registry_path l)
                     else e)
      | Inr (PyDict d) \<Rightarrow> Inr d
      | Inr _ \<Rightarrow> Inl (infra_validation_error (''registry root must be a JSON object: '' @ il_registry_path l)))"

text \<open>\<open>token in container\<close> for what JSON can hold.\<close>

definition token_in :: "string \<Rightarrow> pyval \<Rightarrow> terr + bool" where
  "token_in t container =
     (case container of
        PyDict d \<Rightarrow> Inr (dhas d t)
      | PyList xs \<Rightarrow> Inr (PyStr t \<in> set xs)
      | PyStr s \<Rightarrow> Inr (in_sub t s)
      | _ \<Rightarrow> Inl (err [''TypeError''] ''''))"

definition demand :: "bool \<Rightarrow> string \<Rightarrow> terr + unit" where
  "demand b msg = (if b then Inr () else Inl (infra_validation_error msg))"

definition supported_log_levels :: "string list" where
  "supported_log_levels = [''DEBUG'', ''INFO'', ''WARNING'', ''ERROR'', ''CRITICAL'']"

text \<open>The texts of the flood-control errors are not modelled.\<close>

definition validate_observability_logging :: "infra_libs \<Rightarrow> infra_config \<Rightarrow> terr + unit" where
  "validate_observability_logging l c =
     (case if_observability c of
        None \<Rightarrow> Inr ()
      | Some ob \<Rightarrow>
          (case normalize_flood_config (il_float l) (Some (flood_dump (lc_flood (ob_logging ob)))) of
             Inr _ \<Rightarrow> Inr ()
           | Inl ValueError \<Rightarrow> Inl (infra_validation_error ''observability.logging.flood_control_config: '')
           | Inl e \<Rightarrow> Inl (terr_of_exn e)))"

definition parent_dir :: "string \<Rightarrow> string" where
  "parent_dir p = (let d = rev (drop 1 (dropWhile (\<lambda>c. c \<noteq> CHR 0x2F) (rev p))) in if d = [] then ''/'' else d)"

definition is_absolute :: "string \<Rightarrow> bool" where
  "is_absolute p \<longleftrightarrow> startswith p ''/''"

definition base_dir :: "infra_libs \<Rightarrow> string \<Rightarrow> string" where
  "base_dir l infra_path = parent_dir (il_resolve l infra_path)"

definition producer_path :: "infra_libs \<Rightarrow> string \<Rightarrow> string \<Rightarrow> string" where
  "producer_path l infra_path p = (if is_absolute p then p else path_join (base_dir l infra_path) p)"

definition demand_file :: "infra_libs \<Rightarrow> string \<Rightarrow> string \<Rightarrow> terr + unit" where
  "demand_file l field p =
     rbind (demand (il_exists l p) (field @ '' does not exist: '' @ p)) (\<lambda>_.
       demand (il_is_file l p) (field @ '' is not a file: '' @ p))"

definition validate_producer_files :: "infra_libs \<Rightarrow> infra_config \<Rightarrow> string option \<Rightarrow> terr + unit" where
  "validate_producer_files l c infra_path =
     (let schema = prc_schema_file (if_producer c); pol = prc_policy_file (if_producer c) in
      rbind (demand (yaml_suffix schema) ''producer.schema_file must point to a YAML file'') (\<lambda>_.
      rbind (demand (yaml_suffix pol) ''producer.policy_file must point to a YAML file'') (\<lambda>_.
      case infra_path of
        None \<Rightarrow> Inr ()
      | Some ip \<Rightarrow>
          rbind (demand_file l ''producer.schema_file'' (producer_path l ip schema)) (\<lambda>_.
          demand_file l ''producer.policy_file'' (producer_path l ip pol)))))"

definition ends_yaml :: "string \<Rightarrow> bool" where
  "ends_yaml p \<longleftrightarrow> endswith (lower p) ''.yaml'' \<or> endswith (lower p) ''.yml''"

definition validate_infra_config :: "infra_libs \<Rightarrow> infra_config \<Rightarrow> string option \<Rightarrow> terr + infra_config" where
  "validate_infra_config l c infra_path =
     rbind (load_connectors_registry l) (\<lambda>data.
     rbind (token_in (inc_format (if_input c)) (dget_or data ''formats'' (PyDict data))) (\<lambda>known.
     rbind (demand known (''input.format token '' @ quoted (inc_format (if_input c)) @
              '' is missing in connectors registry'')) (\<lambda>_.
     rbind (demand (ends_yaml (oc_archive_config (if_output c)))
              ''output.archive_config must point to a YAML file'') (\<lambda>_.
     rbind (demand (ends_yaml (oc_client_config (if_output c)))
              ''output.client_config must point to a YAML file'') (\<lambda>_.
     rbind (demand (case if_observability c of None \<Rightarrow> True
              | Some ob \<Rightarrow> upper (lc_level (ob_logging ob)) \<in> set supported_log_levels)
              ''observability.logging.level is not supported'') (\<lambda>_.
     rbind (validate_observability_logging l c) (\<lambda>_.
     rbind (validate_producer_files l c infra_path) (\<lambda>_. Inr c))))))))"

section \<open>Paths\<close>

definition resolve_with_project_fallback :: "infra_libs \<Rightarrow> string \<Rightarrow> string \<Rightarrow> string" where
  "resolve_with_project_fallback l base p =
     (if is_absolute p then il_resolve l p
      else let candidate = il_resolve l (path_join base p) in
           if il_exists l candidate then candidate else il_resolve l (path_join (il_project_root l) p))"

definition resolve_relative_to_base :: "infra_libs \<Rightarrow> string \<Rightarrow> string \<Rightarrow> string" where
  "resolve_relative_to_base l base p =
     (if is_absolute p then il_resolve l p else il_resolve l (path_join base p))"

definition normalize_infra_paths :: "infra_libs \<Rightarrow> infra_config \<Rightarrow> string \<Rightarrow> infra_config" where
  "normalize_infra_paths l c infra_path =
     (let res = resolve_with_project_fallback l (base_dir l infra_path);
          out = if_output c; p = if_producer c; m = isc_connector_mapping (inc_config (if_input c));
          c1 = c\<lparr>if_output := out\<lparr>oc_archive_config := res (oc_archive_config out),
                                  oc_client_config := res (oc_client_config out)\<rparr>,
                 if_producer := p\<lparr>prc_schema_file := res (prc_schema_file p),
                                  prc_policy_file := res (prc_policy_file p),
                                  prc_tax_mapping_file := map_option res (prc_tax_mapping_file p)\<rparr>\<rparr>
      in case m of
           Some (x # xs) \<Rightarrow> c1\<lparr>if_input := (if_input c)\<lparr>inc_config :=
             \<lparr>isc_connector_mapping = Some (resolve_relative_to_base l (base_dir l infra_path) (x # xs))\<rparr>\<rparr>\<rparr>
         | _ \<Rightarrow> c1)"

definition get_infra :: "infra_libs \<Rightarrow> string \<Rightarrow> terr + infra_config" where
  "get_infra l path =
     rbind (load_infra_config l path) (\<lambda>c.
     rbind (validate_infra_config l c (Some path)) (\<lambda>v.
       Inr (normalize_infra_paths l v path)))"

end
