(* ===== verification/PFP_Assembly.thy ===== *)
theory PFP_Assembly
  imports PFP_Config PFP_Schema PFP_Pipeline
begin

text \<open>
  Assembling a worker (\<open>pfp_runtime/manifest\<close>, \<open>pfp_runtime/shell\<close>, and
  \<open>prepare_artifact_producer_from_files\<close>): from the path of a configuration file to the manifest
  that the pipeline runs.  The state is the root logger of the process together with the world in
  which archivers and clients are constructed.
\<close>

section \<open>Preparing a producer from files\<close>

record assembly_libs =
  as_infra :: infra_libs
  as_json_loads :: text_reader
  as_yaml_load :: text_reader
  as_pylib :: pylib
  as_prometheus :: bool

fun terr_of_schema_exc :: "schema_exc \<Rightarrow> terr" where
  "terr_of_schema_exc (OtherExc e) = e"
| "terr_of_schema_exc (SchemaFormatError items r s) = err [''SchemaFormatError''] (format_message items)"
| "terr_of_schema_exc (SchemaNotFoundError r) = err [''SchemaNotFoundError'', ''LookupError''] ''''"
| "terr_of_schema_exc (SchemaManifestError m) = err [''SchemaManifestError'', ''ValueError''] m"
| "terr_of_schema_exc (BuiltinSchemaResolutionError m) = err [''BuiltinSchemaResolutionError'', ''RuntimeError''] m"

definition schema_step :: "schema_exc + 'a \<Rightarrow> terr + 'a" where
  "schema_step r = (case r of Inl e \<Rightarrow> Inl (terr_of_schema_exc e) | Inr x \<Rightarrow> Inr x)"

definition core_result :: "'a result \<Rightarrow> terr + 'a" where
  "core_result r = (case r of Inl e \<Rightarrow> Inl (terr_of_exn e) | Inr x \<Rightarrow> Inr x)"

definition policy_result :: "'a mresult \<Rightarrow> terr + 'a" where
  "policy_result r = (case r of Inl (e, m) \<Rightarrow> Inl (err (exn_mro e) m) | Inr x \<Rightarrow> Inr x)"

definition resolve_schema_format_from_suffix :: "string \<Rightarrow> schema_exc + string" where
  "resolve_schema_format_from_suffix path =
     (let suffix = lower (path_suffix path) in
      if suffix \<in> set [''.yaml'', ''.yml''] then Inr ''yaml''
      else if suffix = ''.json'' then Inr ''json''
      else Inl (schema_format_error [schema_item ''SCHEMA_PARSE_ERROR'' ''$''
             (''Unsupported schema file extension: '' @ suffix @ ''. Supported extensions are: .yaml, .yml, .json.'')]
             None (Some path)))"

definition load_policy_bundle_from_yaml_text ::
    "text_reader \<Rightarrow> string \<Rightarrow> policy_registry \<Rightarrow> terr + policy_bundle" where
  "load_policy_bundle_from_yaml_text yaml_load text reg =
     rbind (yaml_load text) (\<lambda>data.
     rbind (policy_result (load_policy_config data)) (\<lambda>cfg.
       policy_result (build_policy_bundle cfg reg)))"

text \<open>The schema document and its reference: read, parsed and registered in a registry of its own.\<close>

definition schema_from_file :: "assembly_libs \<Rightarrow> string \<Rightarrow> terr + dict \<times> schema_ref" where
  "schema_from_file l schema_file =
     (let path = il_resolve (as_infra l) schema_file in
      rbind (il_read_text (as_infra l) path) (\<lambda>text.
      schema_step
        (rbind (resolve_schema_format_from_suffix path) (\<lambda>fmt.
         rbind (parse_schema_text (as_json_loads l) (as_yaml_load l) text fmt) (\<lambda>doc.
         rbind (registry_register doc (Some ''file'') (Some (path_name path)) schema_registry_new) (\<lambda>_.
         rbind (extract_ref_from_doc doc) (\<lambda>r. Inr (doc, r))))))))"

definition policies_from_file :: "assembly_libs \<Rightarrow> string \<Rightarrow> terr + policy_bundle" where
  "policies_from_file l policy_file =
     rbind (il_read_text (as_infra l) (il_resolve (as_infra l) policy_file)) (\<lambda>text.
     rbind (core_result default_policy_registry) (load_policy_bundle_from_yaml_text (as_yaml_load l) text))"

definition producer_from_document ::
    "pylib \<Rightarrow> dict \<Rightarrow> schema_ref \<Rightarrow> policy_bundle \<Rightarrow> dict option \<Rightarrow> producer result" where
  "producer_from_document lib doc ref policies tax_mapping =
     rbind (build_builtin_catalog lib) (\<lambda>cat.
     rbind (compile_schema cat doc
              (case tax_mapping of None \<Rightarrow> None | Some t \<Rightarrow> Some \<lparr>pc_tax_mapping = Some t\<rparr>)) (\<lambda>compiled.
     rbind (normalize_target_id (sr_protocol_id ref)) (\<lambda>target.
       artifact_producer_new cat
         \<lparr>ps_ref = ref, ps_target_id = target, ps_compiled = compiled,
          ps_encoding = resolve_artifact_encoding doc, ps_validator = None, ps_mapper = None, ps_writer = None\<rparr>
         (Some policies))))"

definition prepare_artifact_producer_from_files ::
    "assembly_libs \<Rightarrow> string \<Rightarrow> string \<Rightarrow> dict option \<Rightarrow> terr + producer" where
  "prepare_artifact_producer_from_files l schema_file policy_file tax_mapping =
     rbind (schema_from_file l schema_file) (\<lambda>(doc, ref).
     rbind (policies_from_file l policy_file) (\<lambda>policies.
       core_result (producer_from_document (as_pylib l) doc ref policies tax_mapping)))"

section \<open>Manifest sections\<close>

definition manifest_build_error :: "string \<Rightarrow> terr" where
  "manifest_build_error = err [''ManifestBuildError'', ''ValueError'']"

definition as_manifest_error :: "string list \<Rightarrow> terr \<Rightarrow> terr" where
  "as_manifest_error caught e =
     (if \<exists>c \<in> set caught. isinstance e c then manifest_build_error (te_text e) else e)"

definition load_tax_mapping :: "assembly_libs \<Rightarrow> string \<Rightarrow> terr + dict" where
  "load_tax_mapping l path_value =
     (let path = il_resolve (as_infra l) path_value in
      case rbind (il_read_text (as_infra l) path) (as_json_loads l) of
        Inl e \<Rightarrow> Inl (if isinstance e ''OSError''
            then err [''OSError''] (''failed to read tax mapping JSON at '' @ path @ '': '' @ te_text e)
            else if isinstance e ''JSONDecodeError''
            then err [''ValueError''] (''failed to parse tax mapping JSON at '' @ path @ '': '' @ te_text e)
            else e)
      | Inr (PyDict d) \<Rightarrow>
          (case dget d ''mappings'' of
             PyDict _ \<Rightarrow> Inr d
           | _ \<Rightarrow> Inl (err [''ValueError''] (''tax mapping JSON at '' @ path @ '' must contain a '' @
                    quoted ''mappings'' @ '' object'')))
      | Inr _ \<Rightarrow> Inl (err [''ValueError''] (''tax mapping JSON at '' @ path @ '' must contain an object root'')))"

definition build_core_manifest :: "assembly_libs \<Rightarrow> infra_config \<Rightarrow> terr + producer" where
  "build_core_manifest l infra =
     (let p = if_producer infra in
      case rbind (case prc_tax_mapping_file p of None \<Rightarrow> Inr None
                  | Some f \<Rightarrow> rbind (load_tax_mapping l f) (\<lambda>t. Inr (Some t)))
             (prepare_artifact_producer_from_files l (prc_schema_file p) (prc_policy_file p)) of
        Inl e \<Rightarrow> Inl (as_manifest_error [''OSError'', ''ValueError''] e)
      | Inr producer \<Rightarrow> Inr producer)"

definition build_input_config_mapping :: "infra_config \<Rightarrow> dict" where
  "build_input_config_mapping infra =
     (case isc_connector_mapping (inc_config (if_input infra)) of
        None \<Rightarrow> [] | Some m \<Rightarrow> [(''connector_mapping'', PyStr m)])
     @ [(''format'', PyStr (inc_format (if_input infra)))]"

definition build_connector_manifest ::
    "('c, 'i \<Rightarrow> dict gen) connector_env \<Rightarrow> infra_config \<Rightarrow> terr + 'i source_connector" where
  "build_connector_manifest env infra =
     (case build_connector env (PyStr (inc_format (if_input infra))) (build_input_config_mapping infra) of
        Inl e \<Rightarrow> Inl (as_manifest_error [''AdapterRegistryError'', ''ConnectorBuildError''] e)
      | Inr connector \<Rightarrow> Inr connector)"

definition build_output_config :: "infra_config \<Rightarrow> dict" where
  "build_output_config infra =
     [(''archive_type'', PyStr (oc_archive_type (if_output infra))),
      (''archive_config'', PyStr (oc_archive_config (if_output infra))),
      (''client_type'', PyStr (oc_client_type (if_output infra))),
      (''client_config'', PyStr (oc_client_config (if_output infra)))]"

definition build_publish_manifest ::
    "('c, 'i, 'w, 'a) build_env \<Rightarrow> ('d, 'j, 'w, 'b) build_env \<Rightarrow> infra_config \<Rightarrow> ('w, 'a \<times> 'b) act" where
  "build_publish_manifest aenv cenv infra =
     act_catch (build_publisher aenv cenv (build_output_config infra))
       (\<lambda>e. act_raise (as_manifest_error [''PublisherBuildError''] e))"

section \<open>Observability\<close>

datatype telemetry_handler = NoOpTelemetryHandler | PrometheusTelemetryHandler

record observability_manifest =
  om_log_pipeline :: log_pipeline
  om_telemetry_handler :: telemetry_handler
  om_telemetry_enabled :: bool
  om_telemetry_provider :: string
  om_labels :: "(string \<times> string) list"

text \<open>The handler that a build has tagged.\<close>

definition is_marked :: "root_handler \<Rightarrow> bool" where
  "is_marked h = (case h of PfpHandler p \<Rightarrow> lh_marked p | ForeignHandler \<Rightarrow> False)"

definition has_installed_log_pipeline :: "root_handler root_logger \<Rightarrow> bool" where
  "has_installed_log_pipeline rt = list_ex is_marked (rt_handlers rt)"

fun mark_handler :: "root_handler \<Rightarrow> root_handler" where
  "mark_handler (PfpHandler h) = PfpHandler (h\<lparr>lh_marked := True\<rparr>)"
| "mark_handler ForeignHandler = ForeignHandler"

text \<open>The tagged handler is the one the pipeline has just put on the root logger.\<close>

definition mark_log_pipeline_handler :: "root_handler root_logger \<Rightarrow> root_handler root_logger" where
  "mark_log_pipeline_handler rt = rt\<lparr>rt_handlers := map mark_handler (rt_handlers rt)\<rparr>"

definition build_telemetry_handler :: "bool \<Rightarrow> string \<Rightarrow> bool \<Rightarrow> terr + telemetry_handler" where
  "build_telemetry_handler prometheus provider enabled =
     (let p = lower (strip provider);
          p1 = (if p = [] then (if enabled then ''prometheus'' else ''none'') else p) in
      if p1 \<noteq> ''prometheus'' then Inr NoOpTelemetryHandler
      else if prometheus then Inr PrometheusTelemetryHandler
      else Inl (err [''ValueError''] ''prometheus_client is required when telemetry_enabled=true''))"

definition build_observability_manifest ::
    "(string \<Rightarrow> rat) \<Rightarrow> bool \<Rightarrow> infra_config \<Rightarrow> (root_handler root_logger, observability_manifest) act" where
  "build_observability_manifest float_of prometheus infra rt =
     (if has_installed_log_pipeline rt
      then (Inl (err [''RuntimeError''] ''build_observability_manifest cannot install LogPipeline twice''), rt)
      else case if_observability infra of
          None \<Rightarrow>
            (case build_log_pipeline float_of ''INFO'' ''TEXT'' [] rt of
               (Inl e, rt1) \<Rightarrow> (Inl e, rt1)
             | (Inr lp, rt1) \<Rightarrow>
                 (Inr \<lparr>om_log_pipeline = lp, om_telemetry_handler = NoOpTelemetryHandler,
                       om_telemetry_enabled = False, om_telemetry_provider = ''none'', om_labels = []\<rparr>,
                  mark_log_pipeline_handler rt1))
        | Some ob \<Rightarrow>
            (case build_log_pipeline float_of (lc_level (ob_logging ob)) (ob_log_format ob)
                    (flood_dump (lc_flood (ob_logging ob))) rt of
               (Inl e, rt1) \<Rightarrow> (Inl e, rt1)
             | (Inr lp, rt1) \<Rightarrow>
                 (let provider = tc_provider (ob_telemetry ob); enabled = (provider = ''prometheus'') in
                  case build_telemetry_handler prometheus provider enabled of
                    Inl e \<Rightarrow> (Inl e, rt1)
                  | Inr th \<Rightarrow>
                      (Inr \<lparr>om_log_pipeline = lp, om_telemetry_handler = th, om_telemetry_enabled = enabled,
                            om_telemetry_provider = provider, om_labels = ob_labels ob\<rparr>,
                       mark_log_pipeline_handler rt1))))"

section \<open>The manifest and the worker\<close>

text \<open>\<open>None\<close> is a part or a member that is missing.\<close>

definition build_pipeline_manifest_from_parts ::
    "'i source_connector option option \<Rightarrow> producer option option \<Rightarrow> ('s archiver_ops \<times> 't client_ops) option option
      \<Rightarrow> observability_manifest option \<Rightarrow> terr + ('i, 's, 't) pipeline_manifest" where
  "build_pipeline_manifest_from_parts connector core pub observability =
     (case connector of
        None \<Rightarrow> Inl (manifest_build_error ''connector manifest is required'')
      | Some None \<Rightarrow> Inl (manifest_build_error ''connector manifest.connector is required'')
      | Some (Some sc) \<Rightarrow>
          (case core of
             None \<Rightarrow> Inl (manifest_build_error ''manifest.core is required'')
           | Some None \<Rightarrow> Inl (manifest_build_error ''core.producer is required'')
           | Some (Some producer) \<Rightarrow>
               (case pub of
                  None \<Rightarrow> Inl (manifest_build_error ''manifest.publish is required'')
                | Some None \<Rightarrow> Inl (manifest_build_error ''manifest.publish.publisher is required'')
                | Some (Some (archiver, client)) \<Rightarrow>
                    (case observability of
                       None \<Rightarrow> Inl (manifest_build_error ''manifest.observability is required'')
                     | Some _ \<Rightarrow>
                         Inr \<lparr>mf_extract = connector_extract sc, mf_producer = producer, mf_generated_at = None,
                              mf_fail_on_error = False, mf_archiver = archiver, mf_client = client,
                              mf_run_context = None\<rparr>))))"

type_synonym 'w process = "root_handler root_logger \<times> 'w"

definition build_pipeline_manifest ::
    "assembly_libs \<Rightarrow> ('c, 'i \<Rightarrow> dict gen) connector_env \<Rightarrow> ('ca, 'ia, 'w, 's archiver_ops) build_env
      \<Rightarrow> ('cc, 'ic, 'w, 't client_ops) build_env \<Rightarrow> string \<Rightarrow> ('w process, ('i, 's, 't) pipeline_manifest) act" where
  "build_pipeline_manifest l cenv aenv penv infra_path =
     act_bind (act_lift (get_infra (as_infra l) infra_path)) (\<lambda>infra.
     act_bind (on_fst (build_observability_manifest (il_float (as_infra l)) (as_prometheus l) infra)) (\<lambda>observability.
     act_bind (act_lift (build_connector_manifest cenv infra)) (\<lambda>connector.
     act_bind (act_lift (build_core_manifest l infra)) (\<lambda>core.
     act_bind (on_snd (build_publish_manifest aenv penv infra)) (\<lambda>pub.
       act_lift (build_pipeline_manifest_from_parts (Some (Some connector)) (Some (Some core)) (Some (Some pub))
         (Some observability)))))))"

text \<open>\<open>PFPFactory.build_worker\<close>; a worker is its manifest.  \<open>None\<close> is neither a string nor a path.\<close>

definition factory_config_error :: "string \<Rightarrow> terr" where
  "factory_config_error = err [''FactoryConfigError'', ''ValueError'']"

definition build_worker ::
    "assembly_libs \<Rightarrow> ('c, 'i \<Rightarrow> dict gen) connector_env \<Rightarrow> ('ca, 'ia, 'w, 's archiver_ops) build_env
      \<Rightarrow> ('cc, 'ic, 'w, 't client_ops) build_env \<Rightarrow> string option \<Rightarrow> ('w process, ('i, 's, 't) pipeline_manifest) act" where
  "build_worker l cenv aenv penv infra_path =
     (case infra_path of
        None \<Rightarrow> act_raise (factory_config_error ''infra_path must be a string or Path'')
      | Some p \<Rightarrow>
          if strip p = [] then act_raise (factory_config_error ''infra_path must be non-empty'')
          else build_pipeline_manifest l cenv aenv penv p)"

definition worker_run ::
    "surroundings \<Rightarrow> ('i, 's, 't) pipeline_manifest \<Rightarrow> 'i \<Rightarrow> ('s, 't) run_world
      \<Rightarrow> (terr + execution_report) \<times> ('s, 't) run_world" where
  "worker_run su worker input_data w = run_pipeline su worker input_data w"

end
