(* ===== verification/PFP_Assembly_Spec.thy ===== *)
theory PFP_Assembly_Spec
  imports PFP_Assembly PFP_Schema_Spec PFP_Connectors_Spec PFP_Mapping_Spec PFP_Validation_Spec
begin

text \<open>
  What the configuration and the assembly of a worker promise: a configuration that is handed on
  is normal, names a known format and existing files, and its observability section builds; the
  log pipeline is installed once in a process; failures of the assembly are classified.
\<close>

section \<open>Normal tokens\<close>

lemma is_space_lower_char [simp]: "is_space (lower_char c) = is_space c"
  by (auto simp: is_space_def lower_char_def Let_def)

lemma strip_lower_strip [simp]: "strip (lower (strip s)) = lower (strip s)"
proof (cases "strip s = []")
  case False
  then have "\<not> is_space (hd (lower (strip s)))" "\<not> is_space (last (lower (strip s)))"
    using strip_ends [OF False] by (simp_all add: lower_def hd_map last_map)
  then show ?thesis by (intro strip_fixed) simp
qed (simp add: lower_def)

lemma upper_upper_char: "concat (map upper_char (upper_char c)) = upper_char c"
  by (auto simp: upper_char_def Let_def)

lemma upper_idem [simp]: "upper (upper s) = upper s"
  by (induction s) (simp_all add: upper_def upper_upper_char)

definition token_normal :: "string \<Rightarrow> bool" where
  "token_normal t \<longleftrightarrow> t \<noteq> [] \<and> strip t = t \<and> lower t = t"

lemma normal_tokens:
  "normalize_format v = Inr t \<Longrightarrow> token_normal t"
  "normalize_type v = Inr t \<Longrightarrow> token_normal t"
  by (auto simp: normalize_format_def normalize_type_def token_normal_def Let_def split: if_splits)

lemma field_issue_Nil: "field_issue l loc r = [] \<longleftrightarrow> (\<exists>w. r = Inr w)"
  by (cases r) (simp_all add: field_issue_def)

lemma kept_Inr [simp]: "kept (Inr w) v = w"
  by (simp add: kept_def)

lemma demand_Inr [simp]: "demand b m = Inr u \<longleftrightarrow> b"
  by (simp add: demand_def)

section \<open>A configuration that is ready\<close>

definition format_known :: "infra_libs \<Rightarrow> string \<Rightarrow> bool" where
  "format_known l t \<longleftrightarrow>
     rbind (load_connectors_registry l) (\<lambda>d. token_in t (dget_or d ''formats'' (PyDict d))) = Inr True"

definition observability_ready :: "infra_libs \<Rightarrow> observability_config \<Rightarrow> bool" where
  "observability_ready l ob \<longleftrightarrow> ob_log_format ob \<in> set [''TEXT'', ''JSON'']
     \<and> lc_level (ob_logging ob) \<in> set supported_log_levels
     \<and> tc_provider (ob_telemetry ob) \<in> set [''none'', ''prometheus'']
     \<and> \<not> isl (normalize_flood_config (il_float l) (Some (flood_dump (lc_flood (ob_logging ob)))))"

definition config_ready :: "infra_libs \<Rightarrow> infra_config \<Rightarrow> bool" where
  "config_ready l c \<longleftrightarrow> token_normal (inc_format (if_input c)) \<and> format_known l (inc_format (if_input c))
     \<and> token_normal (oc_archive_type (if_output c)) \<and> token_normal (oc_client_type (if_output c))
     \<and> il_is_file l (prc_schema_file (if_producer c)) \<and> il_is_file l (prc_policy_file (if_producer c))
     \<and> (case if_observability c of None \<Rightarrow> True | Some ob \<Rightarrow> observability_ready l ob)"

text \<open>\<open>Path.resolve\<close> names the same file.\<close>

definition resolve_faithful :: "infra_libs \<Rightarrow> bool" where
  "resolve_faithful l \<longleftrightarrow> (\<forall>p. il_exists l (il_resolve l p) = il_exists l p
     \<and> il_is_file l (il_resolve l p) = il_is_file l p)"

lemma loaded_config:
  assumes "load_infra_config l path = Inr c"
  obtains raw where "infra_issues l raw = []" "c = infra_normal raw"
  using assms
  by (auto simp: load_infra_config_def materialize_infra_config_def model_validate_def rbind_Inr_iff
      split: if_splits sum.splits)

lemma checked_producer_files:
  assumes "validate_producer_files l c (Some path) = Inr u"
  shows "il_exists l (producer_path l path (prc_schema_file (if_producer c)))"
    "il_is_file l (producer_path l path (prc_schema_file (if_producer c)))"
    "il_exists l (producer_path l path (prc_policy_file (if_producer c)))"
    "il_is_file l (producer_path l path (prc_policy_file (if_producer c)))"
  using assms by (auto simp: validate_producer_files_def demand_file_def rbind_Inr_iff Let_def)

lemma checked_flood_config:
  "validate_observability_logging l c = Inr u \<Longrightarrow> if_observability c = Some ob \<Longrightarrow>
     \<not> isl (normalize_flood_config (il_float l) (Some (flood_dump (lc_flood (ob_logging ob)))))"
  by (auto simp: validate_observability_logging_def split: sum.splits exn.splits)

lemma validated_config:
  assumes "validate_infra_config l c (Some path) = Inr v"
  shows "v = c" and "format_known l (inc_format (if_input c))"
    and "\<exists>u. validate_producer_files l c (Some path) = Inr u" and "\<exists>u. validate_observability_logging l c = Inr u"
    and "case if_observability c of None \<Rightarrow> True
         | Some ob \<Rightarrow> upper (lc_level (ob_logging ob)) \<in> set supported_log_levels"
  using assms unfolding validate_infra_config_def rbind_Inr_iff demand_Inr format_known_def
  by (elim exE conjE; simp only: sum.inject; blast)+

lemma resolved_producer_path:
  assumes "resolve_faithful l" "il_exists l (producer_path l path p)"
  shows "resolve_with_project_fallback l (base_dir l path) p = il_resolve l (producer_path l path p)"
proof (cases "is_absolute p")
  case True
  then show ?thesis unfolding resolve_with_project_fallback_def producer_path_def by (simp only: if_True)
next
  case False
  have "il_exists l (il_resolve l (path_join (base_dir l path) p))"
    using assms False unfolding resolve_faithful_def producer_path_def by simp
  with False show ?thesis
    unfolding resolve_with_project_fallback_def producer_path_def Let_def by (simp only: if_True if_False)
qed

lemma normalize_infra_paths_fields:
  "inc_format (if_input (normalize_infra_paths l c path)) = inc_format (if_input c)"
  "oc_archive_type (if_output (normalize_infra_paths l c path)) = oc_archive_type (if_output c)"
  "oc_client_type (if_output (normalize_infra_paths l c path)) = oc_client_type (if_output c)"
  "if_observability (normalize_infra_paths l c path) = if_observability c"
  "prc_schema_file (if_producer (normalize_infra_paths l c path))
     = resolve_with_project_fallback l (base_dir l path) (prc_schema_file (if_producer c))"
  "prc_policy_file (if_producer (normalize_infra_paths l c path))
     = resolve_with_project_fallback l (base_dir l path) (prc_policy_file (if_producer c))"
  by (simp_all add: normalize_infra_paths_def Let_def split: option.split list.split)

lemma observability_normal_ready:
  assumes "observability_issues l ob = []"
  shows "ob_log_format (observability_normal ob) \<in> set [''TEXT'', ''JSON'']"
    "upper (lc_level (ob_logging (observability_normal ob))) = lc_level (ob_logging (observability_normal ob))"
    "tc_provider (ob_telemetry (observability_normal ob)) \<in> set [''none'', ''prometheus'']"
  using assms
  by (auto simp: observability_issues_def observability_normal_def field_issue_def kept_def Let_def
      normalize_log_format_def normalize_log_level_def normalize_provider_def split: sum.splits if_splits)

lemma get_infra_parts:
  assumes "get_infra l path = Inr c"
  obtains raw v where "infra_issues l raw = []" "v = infra_normal raw"
    "validate_infra_config l v (Some path) = Inr v" "c = normalize_infra_paths l v path"
proof -
  obtain v where load: "load_infra_config l path = Inr v"
    and valid: "\<exists>w. validate_infra_config l v (Some path) = Inr w \<and> c = normalize_infra_paths l w path"
    using assms by (auto simp: get_infra_def rbind_Inr_iff)
  then have "validate_infra_config l v (Some path) = Inr v" "c = normalize_infra_paths l v path"
    using validated_config(1) by metis+
  with loaded_config [OF load] that show thesis by metis
qed

text \<open>The producer files that are used are the ones that have been checked.\<close>

lemma used_producer_files:
  assumes "resolve_faithful l" "validate_infra_config l v (Some path) = Inr v"
  shows "prc_schema_file (if_producer (normalize_infra_paths l v path))
      = il_resolve l (producer_path l path (prc_schema_file (if_producer v)))"
    "prc_policy_file (if_producer (normalize_infra_paths l v path))
      = il_resolve l (producer_path l path (prc_policy_file (if_producer v)))"
    "il_is_file l (prc_schema_file (if_producer (normalize_infra_paths l v path)))"
    "il_is_file l (prc_policy_file (if_producer (normalize_infra_paths l v path)))"
proof -
  obtain u where "validate_producer_files l v (Some path) = Inr u" using validated_config(3) [OF assms(2)] by blast
  note files = checked_producer_files [OF this]
  show s: "prc_schema_file (if_producer (normalize_infra_paths l v path))
      = il_resolve l (producer_path l path (prc_schema_file (if_producer v)))"
    "prc_policy_file (if_producer (normalize_infra_paths l v path))
      = il_resolve l (producer_path l path (prc_policy_file (if_producer v)))"
    unfolding normalize_infra_paths_fields by (rule resolved_producer_path [OF assms(1)], rule files)+
  show "il_is_file l (prc_schema_file (if_producer (normalize_infra_paths l v path)))"
    "il_is_file l (prc_policy_file (if_producer (normalize_infra_paths l v path)))"
    unfolding s using assms(1) files by (simp_all add: resolve_faithful_def)
qed

lemma infra_normal_tokens:
  assumes "infra_issues l raw = []"
  shows "token_normal (inc_format (if_input (infra_normal raw)))"
    "token_normal (oc_archive_type (if_output (infra_normal raw)))"
    "token_normal (oc_client_type (if_output (infra_normal raw)))"
    "if_observability raw = Some ob \<Longrightarrow> observability_issues l ob = []"
  using assms unfolding infra_issues_def infra_normal_def Let_def append_is_Nil_conv field_issue_Nil
  by (auto intro: normal_tokens)

text \<open>
  A configuration that \<open>get_infra\<close> hands on is ready to be assembled: its format and type
  tokens are normal and the format is registered, the schema and policy files exist, and the log
  level, log format, telemetry provider and flood control of its observability section are
  supported ones.
\<close>

lemma infra_is_ready:
  assumes "get_infra l path = Inr c" "resolve_faithful l"
  shows "config_ready l c"
proof -
  obtain raw v where v: "infra_issues l raw = []" "v = infra_normal raw"
    and valid: "validate_infra_config l v (Some path) = Inr v" and c: "c = normalize_infra_paths l v path"
    by (rule get_infra_parts [OF assms(1)])
  obtain u where flood: "validate_observability_logging l v = Inr u" using validated_config(4) [OF valid] by blast
  have "observability_ready l ob" if ob: "if_observability v = Some ob" for ob
  proof -
    obtain ob' where ob': "if_observability raw = Some ob'" "ob = observability_normal ob'"
      using ob v(2) by (auto simp: infra_normal_def Let_def)
    note n = observability_normal_ready [OF infra_normal_tokens(4) [OF v(1) ob'(1)], folded ob'(2)]
    have "upper (lc_level (ob_logging ob)) \<in> set supported_log_levels"
      using validated_config(5) [OF valid] ob by simp
    with n checked_flood_config [OF flood ob] show ?thesis by (simp add: observability_ready_def)
  qed
  moreover have "case if_observability v of None \<Rightarrow> True | Some ob \<Rightarrow> observability_ready l ob"
    using calculation by (simp split: option.split)
  ultimately show ?thesis
    unfolding config_ready_def c normalize_infra_paths_fields(1-4)
    using infra_normal_tokens(1-3) [OF v(1)] validated_config(2) [OF valid] used_producer_files(3,4) [OF assms(2) valid]
    unfolding v(2) by blast
qed

section \<open>Installing the log pipeline\<close>

locale logging_registry =
  fixes ops :: "('h, 'r) registry_ops" and handlers :: "'r \<Rightarrow> 'h list" and level_of :: "'r \<Rightarrow> int"
  assumes clear_law: "handlers (ro_clear ops r) = []" "ro_attached ops (ro_clear ops r) = ro_attached ops r"
    and add_law: "handlers (ro_add ops h r) = handlers r @ [h]" "ro_attached ops (ro_add ops h r) = ro_attached ops r"
    and level_law: "handlers (ro_set_level ops n r) = handlers r" "level_of (ro_set_level ops n r) = n"
      "ro_attached ops (ro_set_level ops n r) = ro_attached ops r"
    and mark_law: "handlers (ro_mark ops r) = handlers r" "level_of (ro_mark ops r) = level_of r"
      "ro_attached ops (ro_mark ops r)"
begin

lemma installed:
  assumes "install_pipeline ops level h r = (Inr u, r')"
  shows "handlers r' = [h]" "to_numeric level = Inr (level_of r')" "ro_attached ops r'"
  using assms by (auto simp: install_pipeline_def clear_law add_law level_law mark_law Let_def
      split: if_splits sum.splits)

lemma installs:
  "\<not> ro_attached ops r \<Longrightarrow> to_numeric level = Inr n \<Longrightarrow> \<exists>r'. install_pipeline ops level h r = (Inr (), r')"
  by (simp add: install_pipeline_def)

lemma refuses: "ro_attached ops r \<Longrightarrow> install_pipeline ops level h r = (Inl already_installed, r)"
  by (simp add: install_pipeline_def)

end

interpretation python_reg: logging_registry python_registry_ops "\<lambda>r. rt_handlers (pr_root r)" "\<lambda>r. rt_level (pr_root r)"
  by unfold_locales (simp_all add: python_registry_ops_def py_clear_root_handlers_def py_add_root_handler_def
      py_set_root_level_def py_is_attached_def py_mark_attached_def)

interpretation memory_reg: logging_registry memory_registry_ops mr_added mr_level
  by unfold_locales (simp_all add: memory_registry_ops_def mem_clear_root_handlers_def mem_add_root_handler_def
      mem_set_root_level_def mem_is_attached_def mem_mark_attached_def noted_def)

text \<open>The defaults are declared twice, in the models and in the filter; they agree.\<close>

lemma flood_defaults_agree: "flood_dump flood_control_default = default_flood_config"
  by (simp add: flood_dump_def flood_control_default_def default_flood_config_def)

lemma default_flood_normal:
  assumes "0 < float_of ''30.0''"
  shows "\<not> isl (normalize_flood_config float_of (Some []))"
proof -
  have "\<exists>cfg. normalize_flood_config float_of (Some []) = Inr cfg"
    using assms
    by (simp add: normalize_flood_config_def default_flood_config_def dget_def supported_modes_def
        normalize_string_sequence_def normalize_non_empty_string_def normalize_bool_def normalize_levels_def
        normalize_level_def logging_levels_def normalize_positive_float_def normalize_positive_int_def
        upper_def upper_char_def)
  then show ?thesis by auto
qed

lemma supported_levels_numeric:
  assumes "level \<in> set supported_log_levels"
  obtains n where "to_numeric level = Inr n"
  using assms
  by (auto simp: supported_log_levels_def to_numeric_def logging_levels_def upper_def upper_char_def)

lemma formatters_known:
  assumes "fmt \<in> set [''TEXT'', ''JSON'']"
  obtains f where "map_of formatter_builders (upper fmt) = Some f"
  using assms by (auto simp: formatter_builders_def upper_def upper_char_def)

lemma log_pipeline_builds:
  assumes "level \<in> set supported_log_levels" "fmt \<in> set [''TEXT'', ''JSON'']"
    "\<not> isl (normalize_flood_config float_of (Some cfg))"
  obtains lp rt' h where "build_log_pipeline float_of level fmt cfg rt = (Inr lp, rt')"
    "rt_handlers rt' = [PfpHandler h]" "to_numeric level = Inr (rt_level rt')"
proof -
  obtain f where f: "map_of formatter_builders (upper fmt) = Some f" using assms(2) by (rule formatters_known)
  obtain flood where flood: "flood_filter_new float_of (Some cfg) = Inr flood"
    using assms(3) by (cases "normalize_flood_config float_of (Some cfg)") (simp_all add: flood_filter_new_def)
  obtain n where n: "to_numeric level = Inr n" using assms(1) by (rule supported_levels_numeric)
  have "\<not> ro_attached python_registry_ops (python_registry_new rt)"
    by (simp add: python_registry_ops_def py_is_attached_def python_registry_new_def)
  from python_reg.installs [OF this n, of "PfpHandler (new_handler f flood)"]
  obtain r where r: "install_pipeline python_registry_ops level (PfpHandler (new_handler f flood))
      (python_registry_new rt) = (Inr (), r)" ..
  have "build_log_pipeline float_of level fmt cfg rt
      = (Inr \<lparr>lp_level = level, lp_format_type = upper fmt, lp_registry_attached = pr_attached r\<rparr>, pr_root r)"
    using f flood r by (simp add: build_log_pipeline_def)
  with python_reg.installed [OF r] show thesis by (intro that) simp_all
qed

text \<open>The Prometheus client is there when the configuration asks for it.\<close>

definition telemetry_available :: "bool \<Rightarrow> infra_config \<Rightarrow> bool" where
  "telemetry_available prometheus c \<longleftrightarrow> (case if_observability c of None \<Rightarrow> True
     | Some ob \<Rightarrow> tc_provider (ob_telemetry ob) \<noteq> ''prometheus'' \<or> prometheus)"

lemma telemetry_builds:
  assumes "provider \<in> set [''none'', ''prometheus'']" "provider \<noteq> ''prometheus'' \<or> prometheus"
  obtains th where "build_telemetry_handler prometheus provider enabled = Inr th"
  using assms
  by (auto simp: build_telemetry_handler_def Let_def strip_def lstrip_def is_space_def lower_def lower_char_def)

lemma observability_builds:
  assumes "config_ready l c" "\<not> has_installed_log_pipeline rt" "0 < il_float l ''30.0''"
    "telemetry_available prometheus c"
  shows "\<exists>om rt' h. build_observability_manifest (il_float l) prometheus c rt = (Inr om, rt')
    \<and> rt_handlers rt' = [PfpHandler h] \<and> lh_marked h
    \<and> to_numeric (case if_observability c of None \<Rightarrow> ''INFO'' | Some ob \<Rightarrow> lc_level (ob_logging ob)) = Inr (rt_level rt')"
proof (cases "if_observability c")
  case None
  have info: "''INFO'' \<in> set supported_log_levels" by (simp add: supported_log_levels_def)
  obtain lp rt' h where "build_log_pipeline (il_float l) ''INFO'' ''TEXT'' [] rt = (Inr lp, rt')"
    "rt_handlers rt' = [PfpHandler h]" "to_numeric ''INFO'' = Inr (rt_level rt')"
    using log_pipeline_builds [OF info, of "''TEXT''" "il_float l" "[]" rt] default_flood_normal [of "il_float l"] assms(3) by auto
  with None assms(2) show ?thesis
    by (simp add: build_observability_manifest_def mark_log_pipeline_handler_def)
next
  case (Some ob)
  with assms(1) have ready: "observability_ready l ob" by (simp add: config_ready_def)
  then obtain lp rt' h where b: "build_log_pipeline (il_float l) (lc_level (ob_logging ob)) (ob_log_format ob)
      (flood_dump (lc_flood (ob_logging ob))) rt = (Inr lp, rt')"
    "rt_handlers rt' = [PfpHandler h]" "to_numeric (lc_level (ob_logging ob)) = Inr (rt_level rt')"
    unfolding observability_ready_def using log_pipeline_builds by metis
  have "tc_provider (ob_telemetry ob) \<in> set [''none'', ''prometheus'']"
    "tc_provider (ob_telemetry ob) \<noteq> ''prometheus'' \<or> prometheus"
    using ready assms(4) Some by (simp_all only: observability_ready_def telemetry_available_def option.case)
  then obtain th where "build_telemetry_handler prometheus (tc_provider (ob_telemetry ob))
      (tc_provider (ob_telemetry ob) = ''prometheus'') = Inr th"
    by (rule telemetry_builds)
  with Some b assms(2) show ?thesis
    by (simp add: build_observability_manifest_def mark_log_pipeline_handler_def Let_def)
qed

text \<open>
  C39: The observability section of a configuration that is ready builds on every process where
  no log pipeline is installed and, when Prometheus is asked for, its client library is there;
  afterwards the tagged handler of the pipeline is the only one on the root logger, at the level
  that the configuration names.
\<close>

theorem ready_observability_builds:
  assumes "config_ready l c" "\<not> has_installed_log_pipeline rt" "0 < il_float l ''30.0''"
    "telemetry_available prometheus c"
  shows "\<exists>om rt' h. build_observability_manifest (il_float l) prometheus c rt = (Inr om, rt')
    \<and> rt_handlers rt' = [PfpHandler h] \<and> lh_marked h
    \<and> to_numeric (case if_observability c of None \<Rightarrow> ''INFO'' | Some ob \<Rightarrow> lc_level (ob_logging ob)) = Inr (rt_level rt')"
  by (rule observability_builds [OF assms])

section \<open>The worker\<close>

lemma build_keeps_or_marks:
  assumes "build_observability_manifest float_of prometheus c rt = (Inr om, rt')"
  shows "\<exists>h. rt_handlers rt' = [PfpHandler h] \<and> lh_marked h"
proof -
  have one: "\<exists>h. rt_handlers (mark_log_pipeline_handler r) = [PfpHandler h] \<and> lh_marked h"
    if built: "build_log_pipeline float_of level fmt cfg rt = (Inr lp, r)" for level fmt cfg lp r
  proof -
    obtain h reg where "install_pipeline python_registry_ops level (PfpHandler h) (python_registry_new rt) = (Inr (), reg)"
      "r = pr_root reg"
      using built by (auto simp: build_log_pipeline_def split: option.splits sum.splits prod.splits)
    with python_reg.installed(1) [of level "PfpHandler h"] show ?thesis
      by (simp add: mark_log_pipeline_handler_def)
  qed
  show ?thesis
    using assms one
    by (auto simp: build_observability_manifest_def Let_def split: if_splits option.splits sum.splits prod.splits)
qed

lemma marked_is_installed:
  "rt_handlers rt = [PfpHandler h] \<Longrightarrow> lh_marked h \<Longrightarrow> has_installed_log_pipeline rt"
  by (simp add: has_installed_log_pipeline_def is_marked_def)

lemma act_lift_Inr: "act_lift r s = (Inr x, s') \<longleftrightarrow> r = Inr x \<and> s' = s"
  by (auto simp: act_lift_def)

lemma built_worker:
  assumes "build_worker l cenv aenv penv (Some p) s = (Inr worker, s')"
  obtains infra om connector where "get_infra (as_infra l) p = Inr infra"
    "build_observability_manifest (il_float (as_infra l)) (as_prometheus l) infra (fst s) = (Inr om, fst s')"
    "build_connector_manifest cenv infra = Inr connector" "mf_extract worker = connector_extract connector"
    "build_core_manifest l infra = Inr (mf_producer worker)"
proof -
  have "build_pipeline_manifest l cenv aenv penv p s = (Inr worker, s')"
    using assms by (auto simp: build_worker_def act_raise_def split: if_splits)
  then have "\<exists>infra om connector core pub. get_infra (as_infra l) p = Inr infra
    \<and> build_observability_manifest (il_float (as_infra l)) (as_prometheus l) infra (fst s) = (Inr om, fst s')
    \<and> build_connector_manifest cenv infra = Inr connector \<and> build_core_manifest l infra = Inr core
    \<and> build_pipeline_manifest_from_parts (Some (Some connector)) (Some (Some core)) (Some (Some pub)) (Some om) = Inr worker"
    unfolding build_pipeline_manifest_def act_bind_Inr act_lift_Inr on_fst_Inr on_snd_Inr
    by (elim exE conjE) (intro exI conjI; simp)
  then obtain infra om connector core pub where parts: "get_infra (as_infra l) p = Inr infra"
    "build_observability_manifest (il_float (as_infra l)) (as_prometheus l) infra (fst s) = (Inr om, fst s')"
    "build_connector_manifest cenv infra = Inr connector" "build_core_manifest l infra = Inr core"
    and m: "build_pipeline_manifest_from_parts (Some (Some connector)) (Some (Some core)) (Some (Some pub)) (Some om) = Inr worker"
    by (elim exE conjE)
  from m have "mf_extract worker = connector_extract connector" "mf_producer worker = core"
    by (auto simp: build_pipeline_manifest_from_parts_def split: prod.splits)
  with parts show thesis by (intro that) simp_all
qed

text \<open>The producer of a manifest carries the reference of its schema file.\<close>

lemma artifact_producer_new_ref:
  "artifact_producer_new cat p pol = Inr pd \<Longrightarrow> ps_ref (pd_prepared pd) = ps_ref p"
  by (auto simp: artifact_producer_new_def prepare_components_def rbind_Inr_iff Let_def split: if_splits)

lemma producer_from_document_ref:
  "producer_from_document lib doc ref policies tax = Inr pd \<Longrightarrow> ps_ref (pd_prepared pd) = ref"
  by (auto simp: producer_from_document_def rbind_Inr_iff dest!: artifact_producer_new_ref)

lemma schema_step_Inr [simp]: "schema_step r = Inr x \<longleftrightarrow> r = Inr x"
  by (simp add: schema_step_def split: sum.split)

lemma core_result_Inr [simp]: "core_result r = Inr x \<longleftrightarrow> r = Inr x"
  by (simp add: core_result_def split: sum.split)

lemma schema_from_file_ref:
  assumes "schema_from_file l f = Inr (doc, r)"
  shows "extract_ref_from_filename (path_name (il_resolve (as_infra l) f)) = Inr r"
proof -
  let ?path = "il_resolve (as_infra l) f"
  obtain fmt reg where fmt: "resolve_schema_format_from_suffix ?path = Inr fmt"
    and reg: "registry_register doc (Some ''file'') (Some (path_name ?path)) schema_registry_new = Inr reg"
    and r: "extract_ref_from_doc doc = Inr r"
    using assms by (auto simp: schema_from_file_def rbind_Inr_iff Let_def)
  have "path_name ?path \<noteq> []"
  proof
    assume "path_name ?path = []"
    then have "path_suffix ?path = ''''" by (simp add: path_suffix_def Let_def)
    with fmt show False by (simp add: resolve_schema_format_from_suffix_def lower_def)
  qed
  from register_Inr [OF reg this] r show ?thesis by auto
qed

lemma core_manifest_ref:
  assumes "build_core_manifest l infra = Inr pd"
  shows "extract_ref_from_filename (path_name (il_resolve (as_infra l) (prc_schema_file (if_producer infra))))
    = Inr (ps_ref (pd_prepared pd))"
proof -
  obtain tax where "prepare_artifact_producer_from_files l (prc_schema_file (if_producer infra))
      (prc_policy_file (if_producer infra)) tax = Inr pd"
    using assms by (auto simp: build_core_manifest_def Let_def rbind_Inr_iff split: sum.splits)
  then obtain doc ref pols where "schema_from_file l (prc_schema_file (if_producer infra)) = Inr (doc, ref)"
    "producer_from_document (as_pylib l) doc ref pols tax = Inr pd"
    by (auto simp: prepare_artifact_producer_from_files_def rbind_Inr_iff)
  with schema_from_file_ref producer_from_document_ref show ?thesis by metis
qed

text \<open>
  C37: A worker that is built is the one its configuration describes: the configuration is ready,
  the protocol identifier and schema version that the worker runs are those in the name of the
  schema file, and the tagged handler of its log pipeline is the only one on the root logger.
\<close>

theorem worker_matches_files:
  assumes "build_worker l cenv aenv penv (Some p) s = (Inr worker, s')" "resolve_faithful (as_infra l)"
  shows "\<exists>infra h. get_infra (as_infra l) p = Inr infra \<and> config_ready (as_infra l) infra
    \<and> extract_ref_from_filename (path_name (il_resolve (as_infra l) (prc_schema_file (if_producer infra))))
        = Inr (ps_ref (pd_prepared (mf_producer worker)))
    \<and> rt_handlers (fst s') = [PfpHandler h] \<and> lh_marked h"
proof -
  obtain infra where i: "get_infra (as_infra l) p = Inr infra"
    and om: "\<exists>om. build_observability_manifest (il_float (as_infra l)) (as_prometheus l) infra (fst s) = (Inr om, fst s')"
    and core: "build_core_manifest l infra = Inr (mf_producer worker)"
    using built_worker [OF assms(1)] by metis
  from om obtain h where "rt_handlers (fst s') = [PfpHandler h]" "lh_marked h"
    using build_keeps_or_marks by metis
  with i infra_is_ready [OF i assms(2)] core_manifest_ref [OF core] show ?thesis by metis
qed

text \<open>
  C38: The log pipeline is installed once: after a worker has been built, every further attempt in
  the process fails, whatever the configuration, and changes neither the root logger nor the
  world; when its configuration loads, the error is the \<open>RuntimeError\<close> of the second installation.
\<close>

theorem second_worker_refused:
  assumes "build_worker l cenv aenv penv path s = (Inr worker, s')"
  shows "\<exists>e. build_worker l2 cenv2 aenv2 penv2 path2 s' = (Inl e, s')
    \<and> (\<forall>p infra. path2 = Some p \<longrightarrow> strip p \<noteq> [] \<longrightarrow> get_infra (as_infra l2) p = Inr infra
        \<longrightarrow> isinstance e ''RuntimeError'')"
proof -
  obtain p where "path = Some p" using assms by (cases path) (simp_all add: build_worker_def act_raise_def)
  then obtain infra where
    "\<exists>om. build_observability_manifest (il_float (as_infra l)) (as_prometheus l) infra (fst s) = (Inr om, fst s')"
    using built_worker assms by metis
  then have "has_installed_log_pipeline (fst s')"
    using build_keeps_or_marks marked_is_installed by metis
  then have "on_fst (build_observability_manifest fl pm i) s'
      = (Inl (err [''RuntimeError''] ''build_observability_manifest cannot install LogPipeline twice''), s')" for fl pm i
    by (cases s') (simp add: on_fst_def build_observability_manifest_def)
  then show ?thesis
    by (cases path2) (auto simp: build_worker_def act_raise_def build_pipeline_manifest_def act_bind_def
        act_lift_def isinstance_def err_def split: sum.split)
qed

text \<open>
  The log pipeline is installed before the other sections are built: when one of them fails, the
  tagged handler stays, and with it every later build is refused.
\<close>

lemma failed_build_keeps_handler:
  assumes "get_infra (as_infra l) p = Inr infra"
    "build_observability_manifest (il_float (as_infra l)) (as_prometheus l) infra (fst s) = (Inr om, rt')"
    "build_connector_manifest cenv infra = Inl e"
  shows "build_pipeline_manifest l cenv aenv penv p s = (Inl e, (rt', snd s)) \<and> has_installed_log_pipeline rt'"
proof -
  from build_keeps_or_marks [OF assms(2)] marked_is_installed have "has_installed_log_pipeline rt'" by metis
  with assms show ?thesis
    by (cases s) (simp add: build_pipeline_manifest_def act_bind_def act_lift_def on_fst_def)
qed

lemma schema_error_escapes:
  "as_manifest_error [''OSError'', ''ValueError''] (terr_of_schema_exc (SchemaFormatError items r s))
     = terr_of_schema_exc (SchemaFormatError items r s)"
  by (simp add: as_manifest_error_def isinstance_def err_def)

section \<open>A sample assembly\<close>

text \<open>Files whose text is their path, a schema with null sections, and no-op ends.\<close>

definition sample_infra :: infra_config where
  "sample_infra = \<lparr>if_input = \<lparr>inc_format = ''csv'', inc_config = \<lparr>isc_connector_mapping = Some ''/m.yaml''\<rparr>\<rparr>,
     if_output = \<lparr>oc_archive_type = ''noop'', oc_archive_config = ''/a.yaml'', oc_client_type = ''noop'',
       oc_client_config = ''/a.yaml''\<rparr>,
     if_producer = \<lparr>prc_schema_file = ''/p-1.0.0.yaml'', prc_policy_file = ''/policy.yaml'', prc_tax_mapping_file = None\<rparr>,
     if_observability = None\<rparr>"

definition sample_infra_libs :: infra_libs where
  "sample_infra_libs = \<lparr>il_coerce = (\<lambda>d. Inr sample_infra), il_value_error = (\<lambda>m. m), il_yaml = Some (\<lambda>s. Inr (PyDict [])),
     il_read_text = (\<lambda>p. Inr p), il_registry_path = ''r.json'', il_registry = Inr connectors_registry,
     il_resolve = (\<lambda>p. p), il_exists = (\<lambda>p. True), il_is_file = (\<lambda>p. True), il_project_root = ''/'',
     il_float = (\<lambda>s. 30)\<rparr>"

definition sample_libs :: assembly_libs where
  "sample_libs = \<lparr>as_infra = sample_infra_libs, as_json_loads = (\<lambda>s. Inr PyNone),
     as_yaml_load = (\<lambda>s. Inr (if s = ''/policy.yaml'' then sample_policy_data else PyDict null_schema)),
     as_pylib = sample_lib, as_prometheus = False\<rparr>"

definition sample_connector_env :: "(unit, unit \<Rightarrow> dict gen) connector_env" where
  "sample_connector_env = \<lparr>ce_default_path = ''r.json'', ce_registry = (\<lambda>p. Some (Inr connectors_registry)),
     ce_importer = (\<lambda>p. Inr (Some ())), ce_construct = (\<lambda>c d. Inr (\<lambda>i. Done)), ce_name_of = (\<lambda>c. ''''),
     ce_read_text = (\<lambda>p. Inr p), ce_yaml = Some (\<lambda>s. Inr (PyDict sample_mapping)), ce_type_of = (\<lambda>v. '''')\<rparr>"

definition sample_side_env :: "'x \<Rightarrow> (unit, unit, unit, 'x) build_env" where
  "sample_side_env x = \<lparr>be_registry_path = ''r.json'',
     be_registry = Some (Inr (PyDict (map (\<lambda>k. (k, PyDict [(''noop'', PyDict [(''class'', PyStr ''C''), (''iac_class'', PyStr ''I'')])]))
       [''archivers'', ''clients'']))),
     be_importer = (\<lambda>p. Inr (Some ())), be_read_text = (\<lambda>p. Inr p), be_yaml = Some (\<lambda>s. Inr (PyDict [])),
     be_type_of = (\<lambda>v. ''''), be_validate = (\<lambda>c d. Inr ()), be_construct = (\<lambda>c i. act_return x)\<rparr>"

definition sample_process :: "unit process" where
  "sample_process = (\<lparr>rt_handlers = [ForeignHandler], rt_level = 30\<rparr>, ())"

definition sample_build :: "string option \<Rightarrow> unit process
    \<Rightarrow> (terr + (unit, unit, unit) pipeline_manifest) \<times> unit process" where
  "sample_build = build_worker sample_libs sample_connector_env (sample_side_env noop_archiver_ops)
     (sample_side_env noop_client_ops)"

lemma sample_faithful: "resolve_faithful sample_infra_libs"
  by (simp add: resolve_faithful_def sample_infra_libs_def)

lemma sample_get_infra: "get_infra sample_infra_libs ''/c.yaml'' = Inr sample_infra"
  by code_simp

lemma sample_producer: "\<not> isl (build_core_manifest sample_libs sample_infra)"
  by code_simp

lemma sample_connector_builds: "\<not> isl (build_connector_manifest sample_connector_env sample_infra)"
  by code_simp

lemma sample_publisher_builds:
  "\<not> isl (fst (build_publish_manifest (sample_side_env noop_archiver_ops) (sample_side_env noop_client_ops)
     sample_infra ()))"
  by code_simp

lemma sample_ready: "config_ready sample_infra_libs sample_infra"
  using infra_is_ready [OF sample_get_infra sample_faithful] .

lemma sample_fresh: "\<not> has_installed_log_pipeline (fst sample_process)"
  by (simp add: has_installed_log_pipeline_def sample_process_def is_marked_def)

lemma sample_available: "telemetry_available False sample_infra"
  by (simp add: telemetry_available_def sample_infra_def)

theorem ready_observability_builds_witness:
  "\<exists>om rt' h. build_observability_manifest (il_float sample_infra_libs) False sample_infra (fst sample_process) = (Inr om, rt')
    \<and> rt_handlers rt' = [PfpHandler h] \<and> lh_marked h \<and> rt_level rt' = 20"
  using ready_observability_builds [OF sample_ready sample_fresh _ sample_available]
  by (simp add: sample_infra_libs_def sample_infra_def to_numeric_def logging_levels_def upper_def upper_char_def)

lemma not_isl_Inr: "\<not> isl r \<Longrightarrow> \<exists>x. r = Inr x"
  by (cases r) simp_all

lemma sample_builds: "\<exists>worker s'. sample_build (Some ''/c.yaml'') sample_process = (Inr worker, s')"
proof -
  obtain om rt' where om: "build_observability_manifest (il_float sample_infra_libs) False sample_infra (fst sample_process)
      = (Inr om, rt')"
    using observability_builds [OF sample_ready sample_fresh _ sample_available] by (auto simp: sample_infra_libs_def)
  obtain sc pd where sc: "build_connector_manifest sample_connector_env sample_infra = Inr sc"
    and pd: "build_core_manifest sample_libs sample_infra = Inr pd"
    using not_isl_Inr [OF sample_connector_builds] not_isl_Inr [OF sample_producer] by blast
  obtain a c where pub: "build_publish_manifest (sample_side_env noop_archiver_ops) (sample_side_env noop_client_ops)
      sample_infra () = (Inr (a :: unit archiver_ops, c :: unit client_ops), ())"
    using not_isl_Inr [OF sample_publisher_builds] by (metis (full_types) old.unit.exhaust prod.collapse surj_pair)
  have libs: "as_infra sample_libs = sample_infra_libs" "as_prometheus sample_libs = False"
    by (simp_all add: sample_libs_def)
  have path: "strip ''/c.yaml'' = ''/c.yaml''" by code_simp
  have "snd sample_process = ()" by simp
  with om sc pd pub path libs sample_get_infra show ?thesis
    by (cases sample_process) (simp add: sample_build_def build_worker_def build_pipeline_manifest_def act_bind_def
        act_lift_def on_fst_def on_snd_def build_pipeline_manifest_from_parts_def)
qed

theorem worker_matches_files_witness:
  "\<exists>worker s' h. sample_build (Some ''/c.yaml'') sample_process = (Inr worker, s')
    \<and> ps_ref (pd_prepared (mf_producer worker)) = \<lparr>sr_protocol_id = ''p'', sr_schema_version = ''1.0.0''\<rparr>
    \<and> rt_handlers (fst s') = [PfpHandler h]"
proof -
  obtain worker s' where w: "sample_build (Some ''/c.yaml'') sample_process = (Inr worker, s')"
    using sample_builds by blast
  have libs: "as_infra sample_libs = sample_infra_libs" by (simp add: sample_libs_def)
  have name: "extract_ref_from_filename (path_name (il_resolve sample_infra_libs (prc_schema_file (if_producer sample_infra))))
      = Inr \<lparr>sr_protocol_id = ''p'', sr_schema_version = ''1.0.0''\<rparr>"
    by code_simp
  from worker_matches_files [OF w [unfolded sample_build_def]] sample_faithful sample_get_infra
  obtain h where "extract_ref_from_filename (path_name (il_resolve sample_infra_libs (prc_schema_file (if_producer sample_infra))))
      = Inr (ps_ref (pd_prepared (mf_producer worker)))" "rt_handlers (fst s') = [PfpHandler h]"
    unfolding libs by (metis sum.inject(2))
  with w name show ?thesis by (metis sum.inject(2))
qed

theorem second_worker_refused_witness:
  "\<exists>worker s' e. sample_build (Some ''/c.yaml'') sample_process = (Inr worker, s')
    \<and> sample_build (Some ''/c.yaml'') s' = (Inl e, s') \<and> isinstance e ''RuntimeError''"
proof -
  obtain worker s' where w: "sample_build (Some ''/c.yaml'') sample_process = (Inr worker, s')"
    using sample_builds by blast
  have libs: "as_infra sample_libs = sample_infra_libs" by (simp add: sample_libs_def)
  have path: "strip ''/c.yaml'' \<noteq> []" by code_simp
  from second_worker_refused [OF w [unfolded sample_build_def], of sample_libs sample_connector_env
      "sample_side_env noop_archiver_ops" "sample_side_env noop_client_ops" "Some ''/c.yaml''"]
  obtain e where "sample_build (Some ''/c.yaml'') s' = (Inl e, s')" "isinstance e ''RuntimeError''"
    using path sample_get_infra unfolding sample_build_def libs by blast
  with w show ?thesis by blast
qed

end
