(* ===== verification/Spec2Isabelle.thy ===== *)
theory Spec2Isabelle
  imports PFP_Compiler_Spec PFP_Writers_Spec PFP_Producer_Spec PFP_Chunk_Buffer
    PFP_Pipeline_Spec PFP_Streaming PFP_Sftp_Spec PFP_Flood_Spec
    PFP_Connectors_Spec PFP_Csv_Spec PFP_Schema_Spec
    PFP_Telemetry PFP_Assembly_Spec
begin

text \<open>
  The Product Feed Protocol library (\<open>src/src\<close>): a schema-driven engine that turns product
  records into feeds, and a runtime that reads the records, runs the engine and publishes the
  feed.  This development models both and states what each part promises.

  \<^bold>\<open>The program and its parts.\<close>  A schema document is parsed, checked and registered
  (\<open>pfp_core/schema\<close>), then compiled against a catalog of operations and modules (\<open>pfp_core/ext\<close>)
  into a mapping plan, a validation plan and a writer specification (\<open>pfp_core/engine\<close>).  An
  artifact producer (\<open>pfp_core/artifact_production\<close>) runs both plans on every product under the
  policies of \<open>pfp_core/policies\<close> and hands the mapped records to a writer (\<open>pfp_core/writers\<close>); the
  payload is a chain of generators, so nothing runs before a consumer pulls.  The runtime builds a
  worker from a configuration file (\<open>pfp_runtime/config\<close>, \<open>manifest\<close>, \<open>shell\<close>), reads the input
  through a connector (\<open>connectors\<close>), runs one pipeline (\<open>orchestration\<close>, \<open>pipeline\<close>) and publishes
  the feed to an archiver and a delivery client (\<open>publishing\<close>).  Logging, redaction, diagnostics,
  secrets and telemetry are in \<open>pfp_utils\<close>.

  \<^bold>\<open>Theories and code.\<close>

  \<^item> Base.  \<open>PFP_Prelude\<close>: exceptions as values, insertion-ordered dictionaries, and the contracts
    \<open>registry\<close> (put, then find) and \<open>keyed_sort\<close> (a stable sort by a key), each interpreted for every
    registry and every sorter of the code.  \<open>PFP_Values\<close>, \<open>PFP_Decimal\<close>, \<open>PFP_Str\<close>: Python values with
    unbounded integers, decimals, string methods, \<open>str\<close>, \<open>repr\<close>, truth.  \<open>PFP_Stream\<close>: generators and
    stages.  \<open>PFP_Effects\<close>: actions on a state with exceptions that carry their classes and text, and
    the contract \<open>sink\<close> of an instrument that takes chunks.
  \<^item> Engine.  \<open>PFP_Types\<close>, \<open>PFP_Catalog\<close> (\<open>ext_types.py\<close>, \<open>ext_catalog.py\<close>); \<open>PFP_Mapping_Ops\<close>,
    \<open>PFP_Feed_Ops\<close>, \<open>PFP_Validation_Ops\<close> (the 25 operations and five modules), \<open>PFP_Builtins\<close> (what the
    built-in catalog promises); \<open>PFP_Compile_Mapping\<close>, \<open>PFP_Compiler\<close>, \<open>PFP_Compiler_Spec\<close> (the schema
    compiler); \<open>PFP_Mapping_Exec\<close>, \<open>PFP_Mapping_Spec\<close>, \<open>PFP_Validation_Exec\<close>, \<open>PFP_Validation_Spec\<close> (the
    executors), \<open>PFP_Policies\<close>, \<open>PFP_Diagnostics\<close>.
  \<^item> Schemas.  \<open>PFP_Schema\<close>, \<open>PFP_Schema_Spec\<close>: references in file names and headers, the document
    contract, the registry, the integrity manifest and the loader of the built-in schemas.
  \<^item> Feeds.  \<open>PFP_Writers\<close>, \<open>PFP_Writers_Spec\<close> (CSV and JSONL with their readers), \<open>PFP_Producer\<close>,
    \<open>PFP_Producer_Spec\<close> (the producer loop and whole feeds).
  \<^item> Connectors.  \<open>PFP_Csv_Reader\<close>, \<open>PFP_Adapters\<close>, \<open>PFP_Connectors\<close>, \<open>PFP_Connectors_Spec\<close>,
    \<open>PFP_Csv_Spec\<close>: seven adapters, the connector mapping, the source connector and its builder.
  \<^item> Publishing.  \<open>PFP_Redaction\<close>, \<open>PFP_Transport\<close> (secrets, retry), \<open>PFP_Chunk_Buffer\<close>, \<open>PFP_Http\<close>,
    \<open>PFP_Streaming\<close> (a transition system of the caller and the sending thread), \<open>PFP_Sftp\<close>,
    \<open>PFP_Sftp_Spec\<close>, \<open>PFP_Files\<close>, \<open>PFP_Files_Spec\<close>, \<open>PFP_S3\<close>, \<open>PFP_Publisher\<close>, \<open>PFP_Publisher_Spec\<close>.
  \<^item> Runs.  \<open>PFP_Pipeline\<close>, \<open>PFP_Pipeline_Spec\<close>: one run with its guards, timings, telemetry, log
    entries and report.
  \<^item> Runtime.  \<open>PFP_Flood_Control\<close>, \<open>PFP_Flood_Spec\<close>, \<open>PFP_Logging\<close>, \<open>PFP_Logging_Spec\<close>, \<open>PFP_Telemetry\<close>,
    \<open>PFP_Config\<close>, \<open>PFP_Assembly\<close>, \<open>PFP_Assembly_Spec\<close>: log records from call to line, and from the
    configuration file to the worker.

  \<^bold>\<open>State and data.\<close>  A class with attributes is a record that the operations return updated; an
  enumeration or a union is a datatype; a mapping is an association list in insertion order; a
  raise is the left of a sum.  In the engine an exception is one of the constructors of \<open>exn\<close>; code
  that looks at the classes or the text of an exception uses \<open>terr\<close>.  A service (S3, httpx,
  paramiko, the operating system) is a script of answers and a log of the calls made, so that a
  property can speak of both.

  \<^bold>\<open>What the groups of lemmas show.\<close>
  \<^item> A schema that compiles without an error gives a plan that runs: \<open>valid_schema_plan\<close>,
    \<open>valid_schema_runs\<close>, \<open>final_type_sound\<close>.  One simulation lemma per step of the compiler carries the
    well-formedness through.
  \<^item> The executors: the shape of their output (\<open>csv_row_is_map_of_order\<close>,
    \<open>mapped_emissions_well_formed\<close>, \<open>tombstone_row\<close>) and their decisions (\<open>strictness_decision_table\<close>,
    \<open>broken_module_never_passes\<close>).
  \<^item> Whole feeds read back: \<open>jsonl_feed_end_to_end\<close>, \<open>csv_feed_end_to_end\<close>, \<open>csv_feed_ingested\<close>; which
    products are in them: \<open>feed_of_accepted_products\<close>, \<open>fail_ends_feed\<close>, \<open>fault_isolation_confines\<close>.
  \<^item> A run: \<open>run_outcome\<close>, \<open>successful_run_published\<close>, \<open>failing_feed_not_published\<close>.  The contract \<open>sink\<close> is
    proved for every archiver and client, and the publisher is proved once over it.
  \<^item> Instruments: refinement of the chunk buffer to a bounded byte string, termination of retry,
    interleavings of the streaming client, atomicity of the local archiver, order of host key check
    and authentication.
  \<^item> Ingestion: refinement of the byte reader, equivalence of the streaming and the batch JSONL
    adapter, and \<open>mapped_values_read_back\<close>, which joins the connector to the mapping executor.
  \<^item> Schemas and runtime: \<open>filename_reference\<close>, \<open>built_manifest_is_exact\<close>, \<open>loaded_registry_is_verified\<close>;
    \<open>worker_matches_files\<close>, \<open>second_worker_refused\<close>, \<open>ready_observability_builds\<close>;
    \<open>log_lines_are_sanitized\<close>, \<open>rate_limit_holds\<close>, \<open>flood_memory_bounded\<close>.

  \<^bold>\<open>Bounds.\<close>  No definition takes fuel: every loop of the code is a structural recursion or has a
  measure (the rest of a text, the rounds left of a retry, the items left of a generator).
  Integers of the program are Python's and unbounded, so that there is no wrap-around to model.
  A generator is finite here: a source that never ends is outside the model.

  \<^bold>\<open>Parameters.\<close>  Code that is not in the repository is an argument: regular expressions and date
  formats of the standard library (\<open>pylib\<close>), \<open>str.encode\<close> (\<open>codec\<close>), JSON, YAML and ijson, Pydantic
  (\<open>infra_libs\<close>), boto3, httpx, paramiko, \<open>importlib\<close>, SHA-256, clocks, the files and \<open>Path.resolve\<close>.
  The \<open>csv\<close> module, \<open>decimal\<close> and \<open>splitlines\<close> are written out as far as they are used.  Properties
  that need a documented fact about a parameter name it as a hypothesis (for example
  \<open>resolve_faithful\<close>), and their witnesses give a concrete one.

  \<^bold>\<open>Simplifications.\<close>  A character is a code point below 256.  Equality of Python values is
  structural (\<open>True\<close> and \<open>1\<close> differ).  Floats are their texts; where a number is needed it is a
  rational.  The text of an exception is modelled where the code reads it or reports it.  A
  log call inside the engine or the publishers does nothing to the state; the log pipeline is
  modelled on its own.  Three exceptions of the libraries are left out: those of the constructor
  of \<open>httpx.Client\<close>, the \<open>KeyError\<close> of \<open>makeRecord\<close> for a reserved name of the attribute that forces
  a summary, and those of flushing the buffer of a temporary file.  A write to an SFTP file counts
  as answered when the call returns, as it does for the code, although it is pipelined.

  \<^bold>\<open>Not modelled.\<close>  The FastAPI application and router that expose metrics, writing the manifest
  file, the scripts and examples outside \<open>src/src\<close>, \<open>__repr__\<close>, \<open>__hash__\<close> and the re-exports of package
  files: they are I/O or have no behaviour of their own.  Threads appear only in the streaming
  client; the locks of the flood-control filter make its calls a sequence.
\<close>

end
